(* ===== verification/Nvn_Config.thy ===== *)
theory Nvn_Config
  imports Nvn_Prelude
begin

text \<open>
  Start-up configuration of the daemon: the parsers of \<^verbatim>\<open>env_config.rs\<close>, the HTTP port
  range of \<^verbatim>\<open>http_port.rs\<close>, the session GC configuration of \<^verbatim>\<open>session_gc.rs\<close>
  and the preparation of the listening socket's path of \<^verbatim>\<open>uds.rs\<close>.

  The process environment is a function from variable names to values. Whitespace is trimmed
  as for ASCII strings. What the operating system answers to the probes of
  \<^verbatim>\<open>prepare_listen_path\<close> is an argument; the file system effects are a list of actions.
\<close>

section \<open>Environment variables\<close>

type_synonym environment = "string \<Rightarrow> string option"

datatype env_default = OptOut | OptIn

definition ENABLE_TOKENS :: "string list" where
  "ENABLE_TOKENS = [''1'', ''true'', ''TRUE'', ''yes'', ''YES'', ''on'', ''ON'']"

definition DISABLE_TOKENS :: "string list" where
  "DISABLE_TOKENS = [''0'', ''false'', ''FALSE'', ''off'', ''OFF'', ''no'', ''NO'']"

definition is_ws :: "char \<Rightarrow> bool" where
  "is_ws c \<longleftrightarrow> (let n = (of_char c :: nat) in n = 32 \<or> 9 \<le> n \<and> n \<le> 13)"

definition trim :: "string \<Rightarrow> string" where
  "trim s = rev (dropWhile is_ws (rev (dropWhile is_ws s)))"

definition parse_env_bool :: "string option \<Rightarrow> env_default \<Rightarrow> bool" where
  "parse_env_bool value dflt =
     (case value of
        None \<Rightarrow> dflt = OptOut
      | Some v \<Rightarrow> (case dflt of
            OptOut \<Rightarrow> v \<notin> set DISABLE_TOKENS
          | OptIn \<Rightarrow> v \<in> set ENABLE_TOKENS))"

definition read_env_bool :: "environment \<Rightarrow> string \<Rightarrow> env_default \<Rightarrow> bool" where
  "read_env_bool env name dflt = parse_env_bool (map_option trim (env name)) dflt"

text \<open>
  The integer type of the Rust function is given by its largest value.
\<close>

definition parse_integer :: "nat \<Rightarrow> string \<Rightarrow> nat \<Rightarrow> nat option" where
  "parse_integer max_value value mn =
     (case parse_unsigned max_value value of
        None \<Rightarrow> None
      | Some parsed \<Rightarrow> if mn \<le> parsed then Some parsed else None)"

definition read_integer :: "nat \<Rightarrow> environment \<Rightarrow> string \<Rightarrow> nat \<Rightarrow> nat \<Rightarrow> nat" where
  "read_integer max_value env name dflt mn =
     (case env name of
        None \<Rightarrow> dflt
      | Some value \<Rightarrow> (case parse_integer max_value (trim value) mn of
            Some parsed \<Rightarrow> parsed
          | None \<Rightarrow> dflt))"

definition u16_max :: nat where "u16_max = 2 ^ 16 - 1"
definition u32_max :: nat where "u32_max = 2 ^ 32 - 1"
definition u64_max :: nat where "u64_max = 2 ^ 64 - 1"

section \<open>The HTTP port range\<close>

type_synonym port = "16 word"

record port_range =
  pr_min :: port
  pr_max :: port

definition DEFAULT_HTTP_PORT_MIN :: nat where "DEFAULT_HTTP_PORT_MIN = 18080"
definition DEFAULT_HTTP_PORT_MAX :: nat where "DEFAULT_HTTP_PORT_MAX = 18099"

datatype port_range_error = ZeroEndpoint | MinGreaterThanMax port port

definition port_range_new :: "port \<Rightarrow> port \<Rightarrow> port_range_error + port_range" where
  "port_range_new mn mx =
     (if mn = 0 \<or> mx = 0 then Inl ZeroEndpoint
      else if mx < mn then Inl (MinGreaterThanMax mn mx)
      else Inr \<lparr>pr_min = mn, pr_max = mx\<rparr>)"

definition port_range_iter :: "port_range \<Rightarrow> port list" where
  "port_range_iter r = map of_nat [unat (pr_min r) ..< Suc (unat (pr_max r))]"

definition default_port_range :: port_range where
  "default_port_range =
     \<lparr>pr_min = of_nat DEFAULT_HTTP_PORT_MIN, pr_max = of_nat DEFAULT_HTTP_PORT_MAX\<rparr>"

definition read_http_port_range :: "environment \<Rightarrow> port_range" where
  "read_http_port_range env =
     (let mn = of_nat (read_integer u16_max env ''NVNMOSD_HTTP_PORT_MIN'' DEFAULT_HTTP_PORT_MIN 1);
          mx = of_nat (read_integer u16_max env ''NVNMOSD_HTTP_PORT_MAX'' DEFAULT_HTTP_PORT_MAX 1)
      in case port_range_new mn mx of
           Inr rng \<Rightarrow> rng
         | Inl reason \<Rightarrow>
             (case port_range_new (of_nat DEFAULT_HTTP_PORT_MIN) (of_nat DEFAULT_HTTP_PORT_MAX) of
                Inr rng \<Rightarrow> rng
              | Inl _ \<Rightarrow> default_port_range))"

section \<open>The session GC configuration\<close>

record session_gc_config =
  gc_enabled :: bool
  gc_subscribe_timeout :: nat
  gc_resubscribe_timeout :: nat

definition session_gc_config_from_env :: "environment \<Rightarrow> session_gc_config" where
  "session_gc_config_from_env env =
     \<lparr>gc_enabled = read_env_bool env ''NVNMOSD_SESSION_GC'' OptOut,
      gc_subscribe_timeout =
        read_integer u64_max env ''NVNMOSD_SESSION_SUBSCRIBE_TIMEOUT_SEC'' 60 1,
      gc_resubscribe_timeout =
        read_integer u64_max env ''NVNMOSD_SESSION_RESUBSCRIBE_TIMEOUT_SEC'' 5 0\<rparr>"

section \<open>Preparing the path of the listening socket\<close>

datatype probe_result = Connected | ConnNotFound | ConnRefused | ConnOther

datatype fs_action = RemoveFile | CreateParentDirs

datatype listen_error = InUse | CannotProbe | RemoveFailed | MkdirFailed

record uds_world =
  uw_probe :: probe_result
  uw_exists :: bool
  uw_remove_ok :: bool
  uw_has_parent :: bool
  uw_mkdir_ok :: bool

text \<open>The result and the file system actions attempted, in order.\<close>

definition prepare_listen_path :: "uds_world \<Rightarrow> (listen_error + unit) \<times> fs_action list" where
  "prepare_listen_path w =
     (let finish = (\<lambda>acts.
            if uw_has_parent w
            then (if uw_mkdir_ok w then (Inr (), acts @ [CreateParentDirs])
                  else (Inl MkdirFailed, acts @ [CreateParentDirs]))
            else (Inr (), acts))
      in case uw_probe w of
           Connected \<Rightarrow> (Inl InUse, [])
         | ConnNotFound \<Rightarrow> finish []
         | ConnRefused \<Rightarrow>
             (if uw_exists w
              then (if uw_remove_ok w then finish [RemoveFile] else (Inl RemoveFailed, [RemoveFile]))
              else finish [])
         | ConnOther \<Rightarrow> (Inl CannotProbe, []))"

section \<open>Lemmas\<close>

lemma parse_integer_bounds:
  "parse_integer mx v mn = Some n \<Longrightarrow> mn \<le> n \<and> n \<le> mx"
  by (auto simp: parse_integer_def parse_unsigned_def Let_def split: option.splits if_splits)

lemma read_integer_bounds:
  "mn \<le> dflt \<Longrightarrow> dflt \<le> mx \<Longrightarrow> mn \<le> read_integer mx env name dflt mn \<and> read_integer mx env name dflt mn \<le> mx"
  by (auto simp: read_integer_def split: option.splits dest: parse_integer_bounds)

lemma port_range_new_valid:
  "port_range_new mn mx = Inr r \<Longrightarrow> 0 < pr_min r \<and> pr_min r \<le> pr_max r"
  by (auto simp: port_range_new_def word_gt_0 split: if_splits)

lemma default_port_range_ok:
  "port_range_new (of_nat DEFAULT_HTTP_PORT_MIN) (of_nat DEFAULT_HTTP_PORT_MAX) = Inr default_port_range"
  by (simp add: port_range_new_def default_port_range_def DEFAULT_HTTP_PORT_MIN_def
      DEFAULT_HTTP_PORT_MAX_def)

lemma read_http_port_range_valid:
  "0 < pr_min (read_http_port_range env) \<and> pr_min (read_http_port_range env) \<le> pr_max (read_http_port_range env)"
  using port_range_new_valid [OF default_port_range_ok]
  by (auto simp: read_http_port_range_def Let_def default_port_range_ok
      split: sum.splits dest: port_range_new_valid)

lemma set_port_range_iter: "set (port_range_iter r) = {p. pr_min r \<le> p \<and> p \<le> pr_max r}"
proof (intro set_eqI iffI)
  fix p
  assume "p \<in> set (port_range_iter r)"
  then obtain n where n: "unat (pr_min r) \<le> n" "n \<le> unat (pr_max r)" and p: "p = of_nat n"
    by (auto simp: port_range_iter_def)
  have "n < 2 ^ LENGTH(16)"
    using n(2) unsigned_less [of "pr_max r", where 'a = nat] by simp
  then have "unat p = n" by (simp add: p unat_of_nat)
  with n show "p \<in> {p. pr_min r \<le> p \<and> p \<le> pr_max r}"
    by (simp add: word_le_nat_alt)
next
  fix p
  assume "p \<in> {p. pr_min r \<le> p \<and> p \<le> pr_max r}"
  then have "unat p \<in> {unat (pr_min r) ..< Suc (unat (pr_max r))}"
    by (simp add: word_le_nat_alt less_Suc_eq_le)
  then have "(of_nat (unat p) :: port) \<in> of_nat ` {unat (pr_min r) ..< Suc (unat (pr_max r))}"
    by (rule imageI)
  then show "p \<in> set (port_range_iter r)"
    by (simp add: port_range_iter_def del: upt_Suc)
qed

lemma unat_port_range_iter: "map unat (port_range_iter r) = [unat (pr_min r) ..< Suc (unat (pr_max r))]"
proof -
  have "unat (of_nat n :: port) = n" if "n \<le> unat (pr_max r)" for n
    using that unsigned_less [of "pr_max r", where 'a = nat] by (simp add: unat_of_nat)
  then show ?thesis by (auto simp: port_range_iter_def comp_def intro: map_idI simp del: upt_Suc)
qed

lemma port_range_iter_split:
  assumes "port_range_iter r = us @ p # vs"
  shows "pr_min r \<le> p \<and> p \<le> pr_max r \<and> (\<forall>q. pr_min r \<le> q \<and> q < p \<longrightarrow> q \<in> set us)"
proof -
  have p: "p \<in> set (port_range_iter r)" using assms by simp
  then have range: "pr_min r \<le> p" "p \<le> pr_max r" by (simp_all add: set_port_range_iter)
  have "q \<in> set us" if q: "pr_min r \<le> q" "q < p" for q
  proof -
    have sorted: "sorted_wrt (<) (map unat (port_range_iter r))"
      by (simp add: unat_port_range_iter del: upt_Suc)
    have "q \<in> set (port_range_iter r)" using q range by (simp add: set_port_range_iter)
    then have "q \<in> set us \<or> q = p \<or> q \<in> set vs" using assms by auto
    moreover have "q \<notin> set vs" "q \<noteq> p"
      using sorted q assms by (auto simp: sorted_wrt_append word_less_nat_alt dest: order.asym)
    ultimately show ?thesis by blast
  qed
  with range show ?thesis by blast
qed

section \<open>Properties\<close>

text \<open>
  Whatever the environment holds, the port range the daemon allocates from is well formed:
  its endpoints are non-zero and in order, so the iteration visits exactly the ports between
  them and never port 0, which would mean ``allocate'' again.
\<close>

theorem http_port_range_valid:
  "pr_min (read_http_port_range env) \<le> pr_max (read_http_port_range env) \<and>
   set (port_range_iter (read_http_port_range env)) =
     {p. pr_min (read_http_port_range env) \<le> p \<and> p \<le> pr_max (read_http_port_range env)} \<and>
   0 \<notin> set (port_range_iter (read_http_port_range env))"
  using read_http_port_range_valid [of env] by (auto simp: set_port_range_iter)

text \<open>
  Preparing the socket path removes a file only when the probe was refused and the file
  exists (a stale socket), and never succeeds while another listener accepts connections.
\<close>

theorem prepare_listen_path_safe:
  "(RemoveFile \<in> set (snd (prepare_listen_path w)) \<longleftrightarrow> uw_probe w = ConnRefused \<and> uw_exists w) \<and>
   (uw_probe w = Connected \<longleftrightarrow> fst (prepare_listen_path w) = Inl InUse)"
  by (auto simp: prepare_listen_path_def Let_def split: probe_result.splits)

end
