(* ===== verification/Nvn_Annotation.thy ===== *)
theory Nvn_Annotation
  imports Nvn_Config
begin

text \<open>
  IS-13 annotations: the types of the \<^verbatim>\<open>nvnmos\<close> crate and the in-memory part of the
  daemon's annotation store (\<^verbatim>\<open>nvnmosd/src/annotation_store.rs\<close>): lookup, update with its
  limit, the stored form and the create form of an annotation. The abstract view of a store is
  a function from keys to optional values; \<open>annotation_db\<close> is the interface through which
  the daemon relies on it.
\<close>

section \<open>Annotations\<close>

datatype resource_type = RtNode | RtDevice | RtSource | RtFlow | RtSender | RtReceiver

datatype update = Unchanged | Set | Reset

record annotation_tag =
  tag_key :: string
  tag_values_op :: update
  tag_values :: "string list"

record annotation =
  an_label_op :: update
  an_label :: "string option"
  an_description_op :: update
  an_description :: "string option"
  an_tags_op :: update
  an_tags :: "annotation_tag list"

record annotation_update =
  au_resource_type :: resource_type
  au_name :: "string option"
  au_annotation :: annotation

definition default_annotation :: annotation where
  "default_annotation =
     \<lparr>an_label_op = Unchanged, an_label = None, an_description_op = Unchanged,
      an_description = None, an_tags_op = Unchanged, an_tags = []\<rparr>"

section \<open>The stored form and the create form\<close>

record ann_key =
  k_seed :: string
  k_resource_type :: resource_type
  k_name :: string

definition blank_annotation :: annotation where
  "blank_annotation =
     \<lparr>an_label_op = Reset, an_label = None, an_description_op = Reset,
      an_description = None, an_tags_op = Reset, an_tags = []\<rparr>"

fun create_operation :: "update \<Rightarrow> update" where
  "create_operation Unchanged = Set"
| "create_operation Set = Set"
| "create_operation Reset = Unchanged"

fun present_value :: "update \<Rightarrow> string option \<Rightarrow> string option" where
  "present_value Unchanged v = v"
| "present_value Set v = v"
| "present_value Reset v = None"

definition annotation_at_create :: "annotation \<Rightarrow> annotation" where
  "annotation_at_create stored =
     (let tags_update = create_operation (an_tags_op stored)
      in \<lparr>an_label_op = create_operation (an_label_op stored),
          an_label = present_value (an_label_op stored) (an_label stored),
          an_description_op = create_operation (an_description_op stored),
          an_description = present_value (an_description_op stored) (an_description stored),
          an_tags_op = tags_update,
          an_tags = (if tags_update = Unchanged then []
                     else map (\<lambda>tag. \<lparr>tag_key = tag_key tag, tag_values_op = Set,
                                      tag_values = tag_values tag\<rparr>) (an_tags stored))\<rparr>)"

section \<open>The store\<close>

type_synonym entries = "(ann_key, annotation) hash_map"

record store_inner =
  si_entries :: entries
  si_limit :: nat

definition make_key :: "string \<Rightarrow> resource_type \<Rightarrow> string \<Rightarrow> ann_key" where
  "make_key seed rt name = \<lparr>k_seed = seed, k_resource_type = rt, k_name = name\<rparr>"

definition store_get :: "store_inner \<Rightarrow> string \<Rightarrow> resource_type \<Rightarrow> string \<Rightarrow> annotation option" where
  "store_get inner seed rt name = hm_get (si_entries inner) (make_key seed rt name)"

definition merge_label :: "annotation \<Rightarrow> annotation \<Rightarrow> annotation" where
  "merge_label a entry =
     (case an_label_op a of
        Unchanged \<Rightarrow> entry
      | Set \<Rightarrow> entry\<lparr>an_label := an_label a,
                    an_label_op := (if an_label a \<noteq> None then Unchanged else Reset)\<rparr>
      | Reset \<Rightarrow> entry\<lparr>an_label_op := Reset, an_label := None\<rparr>)"

definition merge_description :: "annotation \<Rightarrow> annotation \<Rightarrow> annotation" where
  "merge_description a entry =
     (case an_description_op a of
        Unchanged \<Rightarrow> entry
      | Set \<Rightarrow> entry\<lparr>an_description := an_description a,
                    an_description_op :=
                      (if an_description a \<noteq> None then Unchanged else Reset)\<rparr>
      | Reset \<Rightarrow> entry\<lparr>an_description_op := Reset, an_description := None\<rparr>)"

definition merge_tags :: "annotation \<Rightarrow> annotation \<Rightarrow> annotation" where
  "merge_tags a entry =
     (case an_tags_op a of
        Unchanged \<Rightarrow> entry
      | Set \<Rightarrow>
          (let tags = map (\<lambda>tag. \<lparr>tag_key = tag_key tag, tag_values_op = Unchanged,
                                  tag_values = tag_values tag\<rparr>) (an_tags a)
           in entry\<lparr>an_tags := tags, an_tags_op := (if tags \<noteq> [] then Unchanged else Reset)\<rparr>)
      | Reset \<Rightarrow> entry\<lparr>an_tags_op := Reset, an_tags := []\<rparr>)"

definition merge_annotation :: "annotation \<Rightarrow> annotation \<Rightarrow> annotation" where
  "merge_annotation a entry = merge_tags a (merge_description a (merge_label a entry))"

definition nothing_annotated :: "annotation \<Rightarrow> bool" where
  "nothing_annotated e \<longleftrightarrow>
     an_label_op e = Reset \<and> an_description_op e = Reset \<and> an_tags_op e = Reset"

datatype store_error = StoreFull nat

text \<open>
  \<^verbatim>\<open>AnnotationStore::apply\<close> on the locked map; on success the caller also notifies the
  writer thread (see the writer below).
\<close>

definition store_apply ::
  "string \<Rightarrow> annotation_update \<Rightarrow> store_inner \<Rightarrow> (store_error + unit) \<times> store_inner" where
  "store_apply seed upd inner =
     (let name = (case au_name upd of Some n \<Rightarrow> n | None \<Rightarrow> []);
          key = make_key seed (au_resource_type upd) name;
          old = (case hm_get (si_entries inner) key of Some e \<Rightarrow> e | None \<Rightarrow> blank_annotation);
          entry = merge_annotation (au_annotation upd) old
      in if nothing_annotated entry
         then (Inr (), inner\<lparr>si_entries := hm_remove key (si_entries inner)\<rparr>)
         else if \<not> hm_contains (si_entries inner) key \<and> length (si_entries inner) \<ge> si_limit inner
         then (Inl (StoreFull (si_limit inner)), inner)
         else (Inr (), inner\<lparr>si_entries := hm_insert key entry (si_entries inner)\<rparr>))"

section \<open>Specification: annotations as optional values\<close>

type_synonym abs_annotation = "string option \<times> string option \<times> (string \<times> string list) list"

definition tag_pair :: "annotation_tag \<Rightarrow> string \<times> string list" where
  "tag_pair t = (tag_key t, tag_values t)"

definition abs_annotation :: "annotation \<Rightarrow> abs_annotation" where
  "abs_annotation a = (an_label a, an_description a, map tag_pair (an_tags a))"

fun spec_field :: "update \<Rightarrow> 'a \<Rightarrow> 'a \<Rightarrow> 'a \<Rightarrow> 'a" where
  "spec_field Unchanged new absent old = old"
| "spec_field Set new absent old = new"
| "spec_field Reset new absent old = absent"

definition spec_merge :: "annotation \<Rightarrow> abs_annotation \<Rightarrow> abs_annotation" where
  "spec_merge u = (\<lambda>(l, d, ts).
     (spec_field (an_label_op u) (an_label u) None l,
      spec_field (an_description_op u) (an_description u) None d,
      spec_field (an_tags_op u) (map tag_pair (an_tags u)) [] ts))"

definition abs_store :: "store_inner \<Rightarrow> ann_key \<Rightarrow> abs_annotation" where
  "abs_store inner key =
     (case hm_get (si_entries inner) key of
        None \<Rightarrow> (None, None, []) | Some a \<Rightarrow> abs_annotation a)"

definition update_key :: "string \<Rightarrow> annotation_update \<Rightarrow> ann_key" where
  "update_key seed u =
     make_key seed (au_resource_type u) (case au_name u of Some n \<Rightarrow> n | None \<Rightarrow> [])"

definition stored_form :: "annotation \<Rightarrow> bool" where
  "stored_form a \<longleftrightarrow>
     an_label_op a = (if an_label a \<noteq> None then Unchanged else Reset) \<and>
     an_description_op a = (if an_description a \<noteq> None then Unchanged else Reset) \<and>
     an_tags_op a = (if an_tags a \<noteq> [] then Unchanged else Reset) \<and>
     list_all (\<lambda>t. tag_values_op t = Unchanged) (an_tags a)"

definition store_inv :: "store_inner \<Rightarrow> bool" where
  "store_inv inner \<longleftrightarrow>
     hm_wf (si_entries inner) \<and> length (si_entries inner) \<le> si_limit inner \<and>
     (\<forall>k a. hm_get (si_entries inner) k = Some a \<longrightarrow> stored_form a \<and> \<not> nothing_annotated a)"

text \<open>A history of updates: the accepted ones and the final store.\<close>

fun run_changes :: "(string \<Rightarrow> annotation_update \<Rightarrow> 's \<Rightarrow> (store_error + unit) \<times> 's)
    \<Rightarrow> (string \<times> annotation_update) list \<Rightarrow> 's \<Rightarrow> (string \<times> annotation_update) list \<times> 's" where
  "run_changes change [] s = ([], s)"
| "run_changes change ((seed, u) # us) s =
     (let (r, s') = change seed u s; (acc, s'') = run_changes change us s'
      in (if is_ok r then (seed, u) # acc else acc, s''))"

section \<open>The interface the daemon uses\<close>

text \<open>
  What the daemon relies on when it reads the store: an update changes the annotation of its
  own key only, a refused update changes nothing, and a lookup sees the merged value.
\<close>

locale annotation_db =
  fixes view :: "'s \<Rightarrow> ann_key \<Rightarrow> abs_annotation"
    and change :: "string \<Rightarrow> annotation_update \<Rightarrow> 's \<Rightarrow> (store_error + unit) \<times> 's"
    and ok :: "'s \<Rightarrow> bool"
  assumes change_ok: "ok s \<Longrightarrow> ok (snd (change seed u s))"
    and change_refused: "fst (change seed u s) = Inl e \<Longrightarrow> snd (change seed u s) = s"
    and change_view: "ok s \<Longrightarrow> fst (change seed u s) = Inr () \<Longrightarrow>
      view (snd (change seed u s)) =
        (view s)(update_key seed u := spec_merge (au_annotation u) (view s (update_key seed u)))"
begin

lemma run_changes_ok: "ok s \<Longrightarrow> ok (snd (run_changes change us s))"
proof (induction us arbitrary: s)
  case (Cons p us)
  obtain seed u where p: "p = (seed, u)" by (cases p)
  show ?case
    using Cons.IH [of "snd (change seed u s)"] change_ok [OF Cons.prems, of seed u]
    by (auto simp: p Let_def split: prod.splits)
qed simp

lemma run_changes_view:
  "ok s \<Longrightarrow> run_changes change us s = (acc, s') \<Longrightarrow>
   view s' key = fold (\<lambda>(seed, u). spec_merge (au_annotation u))
     (filter (\<lambda>(seed, u). update_key seed u = key) acc) (view s key)"
proof (induction us arbitrary: s acc s')
  case Nil
  then show ?case by simp
next
  case (Cons p us)
  obtain seed u where p: "p = (seed, u)" by (cases p)
  obtain r s1 where c: "change seed u s = (r, s1)" by fastforce
  obtain acc1 where rc: "run_changes change us s1 = (acc1, s')"
    and acc: "acc = (if is_ok r then (seed, u) # acc1 else acc1)"
    using Cons.prems(2) by (auto simp: p Let_def c split: prod.splits)
  have ok1: "ok s1" using change_ok [OF Cons.prems(1), of seed u] by (simp add: c)
  note IH = Cons.IH [OF ok1 rc]
  show ?case
  proof (cases r)
    case (Inl e)
    with change_refused [of seed u s e] c have "s1 = s" by simp
    with IH Inl acc show ?thesis by simp
  next
    case (Inr x)
    with change_view [OF Cons.prems(1), of seed u] c
    have "view s1 = (view s)(update_key seed u := spec_merge (au_annotation u) (view s (update_key seed u)))"
      by simp
    with IH Inr acc show ?thesis by simp
  qed
qed

end

section \<open>Lemmas on the store\<close>

lemma stored_form_blank [simp]: "stored_form blank_annotation"
  by (simp add: stored_form_def blank_annotation_def)

lemma stored_form_merge: "stored_form e \<Longrightarrow> stored_form (merge_annotation a e)"
  by (auto simp: stored_form_def merge_annotation_def merge_label_def merge_description_def
      merge_tags_def Let_def list_all_iff split: update.split)

lemma abs_merge: "abs_annotation (merge_annotation a e) = spec_merge a (abs_annotation e)"
  by (auto simp: abs_annotation_def spec_merge_def merge_annotation_def merge_label_def
      merge_description_def merge_tags_def Let_def tag_pair_def split: update.split)

lemma abs_blank [simp]: "abs_annotation blank_annotation = (None, None, [])"
  by (simp add: abs_annotation_def blank_annotation_def)

lemma nothing_annotated_abs:
  "stored_form e \<Longrightarrow> nothing_annotated e \<longleftrightarrow> abs_annotation e = (None, None, [])"
  by (auto simp: stored_form_def nothing_annotated_def abs_annotation_def split: if_splits)

lemma store_entry_abs:
  "abs_annotation (case hm_get (si_entries inner) key of Some e \<Rightarrow> e | None \<Rightarrow> blank_annotation) =
   abs_store inner key"
  by (simp add: abs_store_def split: option.split)

lemma store_entry_form:
  "store_inv inner \<Longrightarrow>
   stored_form (case hm_get (si_entries inner) key of Some e \<Rightarrow> e | None \<Rightarrow> blank_annotation)"
  by (auto simp: store_inv_def split: option.split)

definition merged_entry :: "string \<Rightarrow> annotation_update \<Rightarrow> store_inner \<Rightarrow> annotation" where
  "merged_entry seed u inner =
     merge_annotation (au_annotation u)
       (case hm_get (si_entries inner) (update_key seed u) of Some e \<Rightarrow> e | None \<Rightarrow> blank_annotation)"

lemma store_apply_cases:
  "store_apply seed u inner =
     (if nothing_annotated (merged_entry seed u inner)
      then (Inr (), inner\<lparr>si_entries := hm_remove (update_key seed u) (si_entries inner)\<rparr>)
      else if \<not> hm_contains (si_entries inner) (update_key seed u)
        \<and> length (si_entries inner) \<ge> si_limit inner
      then (Inl (StoreFull (si_limit inner)), inner)
      else (Inr (), inner\<lparr>si_entries :=
              hm_insert (update_key seed u) (merged_entry seed u inner) (si_entries inner)\<rparr>))"
  by (simp add: store_apply_def merged_entry_def update_key_def Let_def)

lemma merged_entry_form: "store_inv inner \<Longrightarrow> stored_form (merged_entry seed u inner)"
  by (simp add: merged_entry_def stored_form_merge store_entry_form)

lemma merged_entry_abs:
  "abs_annotation (merged_entry seed u inner) =
   spec_merge (au_annotation u) (abs_store inner (update_key seed u))"
  by (simp add: merged_entry_def abs_merge store_entry_abs)

lemma store_apply_inv: "store_inv inner \<Longrightarrow> store_inv (snd (store_apply seed u inner))"
  using merged_entry_form [of inner seed u] length_hm_remove_le [of "update_key seed u" "si_entries inner"]
  by (auto simp: store_apply_cases store_inv_def length_hm_insert)

lemma store_apply_refused:
  "fst (store_apply seed u inner) = Inl e \<Longrightarrow> snd (store_apply seed u inner) = inner"
  by (auto simp: store_apply_cases split: if_splits)

lemma store_apply_view:
  assumes inv: "store_inv inner" and ok: "fst (store_apply seed u inner) = Inr ()"
  shows "abs_store (snd (store_apply seed u inner)) =
    (abs_store inner)(update_key seed u :=
       spec_merge (au_annotation u) (abs_store inner (update_key seed u)))"
proof -
  have blank_iff: "nothing_annotated (merged_entry seed u inner) \<longleftrightarrow>
      spec_merge (au_annotation u) (abs_store inner (update_key seed u)) = (None, None, [])"
    by (simp add: nothing_annotated_abs [OF merged_entry_form [OF inv]] merged_entry_abs)
  show ?thesis
  proof (cases "nothing_annotated (merged_entry seed u inner)")
    case True
    with blank_iff have "spec_merge (au_annotation u) (abs_store inner (update_key seed u)) = (None, None, [])"
      by simp
    with True show ?thesis
      by (simp add: store_apply_cases) (simp add: abs_store_def fun_eq_iff)
  next
    case False
    with ok show ?thesis
      by (simp add: store_apply_cases merged_entry_abs [symmetric] split: if_splits)
        (auto simp: abs_store_def fun_eq_iff)
  qed
qed

interpretation db: annotation_db abs_store store_apply store_inv
  by unfold_locales (auto intro: store_apply_inv dest: store_apply_refused simp: store_apply_view)

section \<open>Properties\<close>

text \<open>
  C7. The store refines its specification: an accepted update changes exactly the annotation of
  its own key, to the value obtained by keeping, replacing or clearing each field; an update is
  refused only when it would create an entry beyond the limit, and then nothing changes.
\<close>

theorem store_apply_refines:
  assumes "store_inv inner"
  shows "case store_apply seed u inner of
      (Inl e, inner') \<Rightarrow> inner' = inner \<and> abs_store inner (update_key seed u) = (None, None, [])
        \<and> length (si_entries inner) = si_limit inner
    | (Inr _, inner') \<Rightarrow> store_inv inner' \<and>
        abs_store inner' = (abs_store inner)(update_key seed u :=
          spec_merge (au_annotation u) (abs_store inner (update_key seed u)))"
proof (cases "store_apply seed u inner")
  case (Pair r inner')
  show ?thesis
  proof (cases r)
    case (Inl e)
    have "\<not> hm_contains (si_entries inner) (update_key seed u) \<and> length (si_entries inner) = si_limit inner"
      using Pair Inl assms by (auto simp: store_apply_cases store_inv_def split: if_splits)
    with Pair Inl db.change_refused [of seed u inner e] show ?thesis
      by (simp add: abs_store_def hm_contains_def)
  next
    case (Inr x)
    with Pair assms db.change_ok [of inner seed u] db.change_view [of inner seed u] show ?thesis
      by simp
  qed
qed

definition demo_update :: "string \<Rightarrow> annotation_update" where
  "demo_update label =
     \<lparr>au_resource_type = RtSender, au_name = Some ''video'',
      au_annotation = default_annotation\<lparr>an_label_op := Set, an_label := Some label\<rparr>\<rparr>"

definition demo_store :: store_inner where
  "demo_store = \<lparr>si_entries = [], si_limit = 1\<rparr>"

lemma demo_store_inv: "store_inv demo_store"
  by (simp add: store_inv_def demo_store_def)

theorem store_apply_refines_witness:
  "abs_store (snd (store_apply ''seed'' (demo_update ''one'') demo_store))
     (make_key ''seed'' RtSender ''video'') = (Some ''one'', None, [])"
  using store_apply_refines [OF demo_store_inv, of "''seed''" "demo_update ''one''"]
  by (simp add: store_apply_def demo_update_def demo_store_def Let_def make_key_def update_key_def
      merge_annotation_def merge_label_def merge_description_def merge_tags_def
      default_annotation_def blank_annotation_def nothing_annotated_def hm_contains_def
      abs_store_def spec_merge_def)

text \<open>
  Over a whole history of updates, the annotation of a key is the result of the accepted
  updates of that key alone, in order: updates of other resources and refused updates leave no
  trace.
\<close>

theorem store_history:
  assumes "store_inv inner" and "run_changes store_apply us inner = (acc, inner')"
  shows "store_inv inner' \<and>
    abs_store inner' key =
      fold (\<lambda>(seed, u). spec_merge (au_annotation u))
        (filter (\<lambda>(seed, u). update_key seed u = key) acc) (abs_store inner key)"
  using db.run_changes_ok [OF assms(1), of us] db.run_changes_view [OF assms] assms(2) by simp

theorem store_history_witness:
  "abs_store (snd (run_changes store_apply
       [(''s'', demo_update ''one''), (''t'', demo_update ''two''), (''s'', demo_update ''three'')] demo_store))
     (make_key ''s'' RtSender ''video'') = (Some ''three'', None, [])"
proof -
  have "run_changes store_apply
      [(''s'', demo_update ''one''), (''t'', demo_update ''two''), (''s'', demo_update ''three'')] demo_store =
    ([(''s'', demo_update ''one''), (''s'', demo_update ''three'')],
     snd (store_apply ''s'' (demo_update ''three'') (snd (store_apply ''s'' (demo_update ''one'') demo_store))))"
    by (simp add: store_apply_def demo_update_def demo_store_def Let_def make_key_def
        merge_annotation_def merge_label_def merge_description_def merge_tags_def
        default_annotation_def blank_annotation_def nothing_annotated_def hm_contains_def
        hm_insert_def)
  from store_history [OF demo_store_inv this, of "make_key ''s'' RtSender ''video''"] this
  show ?thesis
    by (simp add: update_key_def demo_update_def spec_merge_def abs_store_def demo_store_def
        default_annotation_def)
qed

text \<open>
  Re-creating a resource from its stored annotation restores it: the create form never
  contains a reset (which is invalid at creation), and merging it into a resource without
  annotations gives the stored annotation back.
\<close>

theorem annotation_at_create_restores:
  assumes "stored_form a"
  shows "merge_annotation (annotation_at_create a) blank_annotation = a \<and>
    an_label_op (annotation_at_create a) \<noteq> Reset \<and>
    an_description_op (annotation_at_create a) \<noteq> Reset \<and>
    an_tags_op (annotation_at_create a) \<noteq> Reset"
proof -
  have "map ((\<lambda>t. \<lparr>tag_key = tag_key t, tag_values_op = Unchanged, tag_values = tag_values t\<rparr>) \<circ>
      (\<lambda>t. \<lparr>tag_key = tag_key t, tag_values_op = Set, tag_values = tag_values t\<rparr>)) (an_tags a) = an_tags a"
    using assms by (auto simp: stored_form_def list_all_iff intro!: map_idI)
  then show ?thesis
    using assms by (auto simp: stored_form_def annotation_at_create_def merge_annotation_def
        merge_label_def merge_description_def merge_tags_def blank_annotation_def Let_def split: if_splits)
qed

theorem annotation_at_create_restores_witness:
  "merge_annotation
     (annotation_at_create (blank_annotation\<lparr>an_label_op := Unchanged, an_label := Some ''x''\<rparr>))
     blank_annotation = blank_annotation\<lparr>an_label_op := Unchanged, an_label := Some ''x''\<rparr>"
  using annotation_at_create_restores
    [of "blank_annotation\<lparr>an_label_op := Unchanged, an_label := Some ''x''\<rparr>"]
  by (simp add: stored_form_def blank_annotation_def)

end
