(* ===== verification/Nvn_Channel.thy ===== *)
theory Nvn_Channel
  imports Nvn_Prelude
begin

text \<open>
  The channels of the daemon. A \<^verbatim>\<open>tokio::sync::mpsc\<close> channel lives in a heap, because
  its two ends are held by different parties: the daemon's table of subscriptions holds the
  sending end (a channel id), the gRPC stream holds the receiving end. Removing the sending end
  from a table leaves what was queued readable. \<^verbatim>\<open>is_closed\<close> and \<^verbatim>\<open>try_send\<close> are
  tokio's: a send to a channel whose receiver is gone reports \<open>SendClosed\<close>, a send to a full
  one \<open>SendFull\<close>, and neither changes the queue.
\<close>

record 'e chan =
  ch_capacity :: nat
  ch_queue :: "'e list"
  ch_rx_open :: bool

type_synonym chan_id = nat
type_synonym 'e chan_heap = "(chan_id, 'e chan) hash_map"

datatype send_result = SendOk | SendFull | SendClosed

definition is_closed :: "'e chan_heap \<Rightarrow> chan_id \<Rightarrow> bool" where
  "is_closed heap tx = (case hm_get heap tx of None \<Rightarrow> True | Some c \<Rightarrow> \<not> ch_rx_open c)"

definition try_send :: "chan_id \<Rightarrow> 'e \<Rightarrow> 'e chan_heap \<Rightarrow> send_result \<times> 'e chan_heap" where
  "try_send tx e heap =
     (case hm_get heap tx of
        None \<Rightarrow> (SendClosed, heap)
      | Some c \<Rightarrow>
          (if \<not> ch_rx_open c then (SendClosed, heap)
           else if ch_capacity c \<le> length (ch_queue c) then (SendFull, heap)
           else (SendOk, hm_insert tx (c\<lparr>ch_queue := ch_queue c @ [e]\<rparr>) heap)))"

text \<open>A new channel under an unused id, as \<^verbatim>\<open>mpsc::channel(capacity)\<close> makes it.\<close>

definition fresh_chan :: "'e chan_heap \<Rightarrow> chan_id" where
  "fresh_chan heap = Suc (fold max (map fst heap) 0)"

definition new_chan :: "nat \<Rightarrow> 'e chan_heap \<Rightarrow> chan_id \<times> 'e chan_heap" where
  "new_chan capacity heap =
     (let tx = fresh_chan heap
      in (tx, hm_insert tx \<lparr>ch_capacity = capacity, ch_queue = [], ch_rx_open = True\<rparr> heap))"

text \<open>What the client does with its end: take the oldest event, or go away.\<close>

definition chan_recv :: "chan_id \<Rightarrow> 'e chan_heap \<Rightarrow> 'e option \<times> 'e chan_heap" where
  "chan_recv tx heap =
     (case hm_get heap tx of
        None \<Rightarrow> (None, heap)
      | Some c \<Rightarrow> (case ch_queue c of
            [] \<Rightarrow> (None, heap)
          | e # es \<Rightarrow> (Some e, hm_insert tx (c\<lparr>ch_queue := es\<rparr>) heap)))"

definition chan_drop_rx :: "chan_id \<Rightarrow> 'e chan_heap \<Rightarrow> 'e chan_heap" where
  "chan_drop_rx tx heap =
     (case hm_get heap tx of
        None \<Rightarrow> heap
      | Some c \<Rightarrow> hm_insert tx (c\<lparr>ch_rx_open := False\<rparr>) heap)"

definition queue_of :: "'e chan_heap \<Rightarrow> chan_id \<Rightarrow> 'e list" where
  "queue_of heap tx = (case hm_get heap tx of None \<Rightarrow> [] | Some c \<Rightarrow> ch_queue c)"

section \<open>Lemmas\<close>

lemma fresh_chan_gt: "x \<in> fst ` set heap \<Longrightarrow> x < fresh_chan heap"
proof -
  have "x \<in> set xs \<Longrightarrow> x \<le> fold max xs (a::nat)" for xs a
  proof (induction xs arbitrary: a)
    case (Cons y ys)
    have "b \<le> fold max ys b" for b :: nat
      by (induction ys arbitrary: b) (auto intro: order_trans [OF max.cobounded2])
    with Cons show ?case by (auto intro: order_trans [OF max.cobounded1])
  qed simp
  from this [of "map fst heap" 0] show "x \<in> fst ` set heap \<Longrightarrow> x < fresh_chan heap"
    by (simp add: fresh_chan_def)
qed

lemma fresh_chan_unused [simp]: "hm_get heap (fresh_chan heap) = None"
  using fresh_chan_gt [of "fresh_chan heap" heap] by (auto simp: map_of_eq_None_iff)

lemma new_chan_open:
  "new_chan n heap = (tx, heap') \<Longrightarrow> \<not> is_closed heap' tx \<and> queue_of heap' tx = []"
  by (auto simp: new_chan_def Let_def is_closed_def queue_of_def)

lemma new_chan_other:
  "new_chan n heap = (tx, heap') \<Longrightarrow> t \<noteq> tx \<Longrightarrow> hm_get heap' t = hm_get heap t"
  by (auto simp: new_chan_def Let_def)

lemma try_send_ok_queue:
  "try_send tx e heap = (SendOk, heap') \<Longrightarrow>
   queue_of heap' tx = queue_of heap tx @ [e] \<and> \<not> is_closed heap tx"
  by (auto simp: try_send_def queue_of_def is_closed_def split: option.splits if_splits)

lemma try_send_fail_heap: "try_send tx e heap = (r, heap') \<Longrightarrow> r \<noteq> SendOk \<Longrightarrow> heap' = heap"
  by (auto simp: try_send_def split: option.splits if_splits)

lemma try_send_closed [simp]: "try_send tx e heap = (SendClosed, heap') \<longleftrightarrow> is_closed heap tx \<and> heap' = heap"
  by (auto simp: try_send_def is_closed_def split: option.splits if_splits)

lemma is_closed_try_send: "try_send tx e heap = (r, heap') \<Longrightarrow> is_closed heap' t = is_closed heap t"
  by (auto simp: try_send_def is_closed_def split: option.splits if_splits)

lemma queue_of_try_send_other:
  "try_send tx e heap = (r, heap') \<Longrightarrow> t \<noteq> tx \<Longrightarrow> queue_of heap' t = queue_of heap t"
  by (auto simp: try_send_def queue_of_def split: option.splits if_splits)

lemma try_send_prefix:
  "try_send tx e heap = (r, heap') \<Longrightarrow> \<exists>xs. queue_of heap' t = queue_of heap t @ xs"
  by (cases "t = tx"; cases r)
    (auto dest: try_send_ok_queue try_send_fail_heap queue_of_try_send_other)

lemma try_send_room:
  assumes "hm_get heap tx = Some c" "ch_rx_open c" "length (ch_queue c) < ch_capacity c"
  shows "try_send tx e heap = (SendOk, hm_insert tx (c\<lparr>ch_queue := ch_queue c @ [e]\<rparr>) heap)"
  using assms by (simp add: try_send_def)

end
