(* ===== verification/Nvn_State.thy ===== *)
theory Nvn_State
  imports Nvn_Config Nvn_Annotation Nvn_Channel
begin

text \<open>
  The data of the daemon (\<^verbatim>\<open>nvnmosd/src/state.rs\<close>): gRPC statuses, Nodes, sessions,
  resources, channel mappings, subscriptions, pending activations, and the \<^verbatim>\<open>State\<close> that
  holds them, with the allocation of handles.

  Modelling choices. A \<^verbatim>\<open>Status\<close> is its code and the branch that produced it (one
  constructor of \<open>reason\<close> per message; the formatted text is left out). An
  \<^verbatim>\<open>Arc<NodeServer>\<close> is the number of the server. The record \<open>state\<close> has the fields of
  the Rust struct; after them come the heaps the channels of those fields live in. The
  one-element \<^verbatim>\<open>sync_channel\<close> of a pending activation is identified by its activation
  handle: \<open>acks\<close> holds what was sent and not yet received, \<open>ack_waiting\<close> the handles whose
  receiver still exists. Logging is left out.
\<close>

section \<open>Statuses\<close>

datatype code =
    InvalidArgument | NotFound | AlreadyExists | FailedPrecondition | Unavailable | Internal
  | ResourceExhausted | UnknownCode

datatype reason =
    SeedEmpty | NameEmpty | NodeBeingCreated | NodeExists | PortAssigned string | PortUnavailable
  | NoPortInRange | SessionUnknown | NodeEntryMissing | NoNodeForSeed | NodeRefcounted
  | NodeHasSessions nat | TransportNamesOther string | TransportUnnamed | SubscribeRequired
  | ResourceNameExists string | SessionClosedDuringAdd | HandleNotOwned | EntryMissing
  | AlreadySubscribed | HandleMustBeEmpty | TypeOfOtherSide | ActivationNotPending
  | ChannelMappingNameExists | BadInputId string | BadOutputId string | BadRoutableInput string
  | InputIdExists string | OutputIdExists string | LibCall | EmbeddedNameDiffers | LibQuery
  | WrongReadyKind | TransportUnspecified | UnknownTransport | BadHttpPort | BadRegistrationPort
  | BadSystemPort | AssetManufacturer | AssetProduct | AssetInstance | AssetFunctions
  | AssetFunctionEmpty nat | AnnotationApiOff | SnapshotDoesNotFit | ResourceTypeUnspecified
  | UnknownUpdate | TagKeyEmpty | TagDuplicate string | TagReadOnly string | StoreRefused

datatype status = Status (status_code: code) (status_reason: reason)

section \<open>Nodes, sessions, resources\<close>

datatype lifetime = SessionRefcounted | Persistent

datatype side = Sender | Receiver

datatype transport = Rtp | Mxl

type_synonym server = nat

record resource_entry =
  re_name :: string
  re_node_seed :: string
  re_session_handle :: string
  re_side :: side

record node_entry =
  ne_server :: server
  ne_node_id :: string
  ne_device_id :: string
  ne_lifetime :: lifetime
  ne_attached_sessions :: nat
  ne_http_port :: port

record session_entry =
  se_node_seed :: string
  se_resources :: "string hash_set"
  se_channelmappings :: "string hash_set"

record channelmapping_entry =
  cm_name :: string
  cm_node_seed :: string
  cm_session_handle :: string
  cm_input_ids :: "string hash_set"
  cm_output_ids :: "string hash_set"

record ack_outcome =
  ack_success :: bool
  ack_failure_reason :: string

section \<open>Events\<close>

record activation_event =
  ae_resource_handle :: string
  ae_activation_handle :: string
  ae_transport_file :: "string option"
  ae_side :: int

record active_map_entry =
  am_input_id :: "string option"
  am_input_channel :: "32 word option"

record cm_activation_event =
  ce_channelmapping_handle :: string
  ce_activation_handle :: string
  ce_output_id :: string
  ce_active_map :: "active_map_entry list"

record proto_tag =
  pt_key :: string
  pt_values_op :: int
  pt_values :: "string list"

record proto_annotation =
  pa_label_op :: int
  pa_label :: string
  pa_description_op :: int
  pa_description :: string
  pa_tags_op :: int
  pa_tags :: "proto_tag list"

record annotation_event =
  ve_resource_type :: int
  ve_resource_handle :: string
  ve_annotation :: proto_annotation

section \<open>The state\<close>

record state =
  nodes :: "(string, node_entry) hash_map"
  pending_nodes :: "string hash_set"
  sessions :: "(string, session_entry) hash_map"
  resources :: "(string, resource_entry) hash_map"
  by_name :: "(string \<times> side \<times> string, string) hash_map"
  subscriptions :: "(string, chan_id) hash_map"
  annotation_subscriptions :: "(string, chan_id) hash_map"
  pending_activations :: "(string, string) hash_map"
  channelmappings :: "(string, channelmapping_entry) hash_map"
  channelmappings_by_name :: "(string \<times> string, string) hash_map"
  outputs_by_id :: "(string \<times> string, string) hash_map"
  channelmapping_subscriptions :: "(string, chan_id) hash_map"
  pending_channelmapping_activations :: "(string, string) hash_map"
  http_ports :: "(port, string) hash_map"
  next_session_id :: "64 word"
  next_resource_id :: "64 word"
  next_activation_id :: "64 word"
  next_channelmapping_id :: "64 word"
  next_channelmapping_activation_id :: "64 word"
  act_chans :: "activation_event chan_heap"
  ann_chans :: "annotation_event chan_heap"
  cm_chans :: "cm_activation_event chan_heap"
  acks :: "(string, ack_outcome) hash_map"
  ack_waiting :: "string hash_set"
  cm_acks :: "(string, ack_outcome) hash_map"
  cm_ack_waiting :: "string hash_set"

definition state_new :: state where
  "state_new =
     \<lparr>nodes = [], pending_nodes = [], sessions = [], resources = [], by_name = [],
      subscriptions = [], annotation_subscriptions = [], pending_activations = [],
      channelmappings = [], channelmappings_by_name = [], outputs_by_id = [],
      channelmapping_subscriptions = [], pending_channelmapping_activations = [],
      http_ports = [],
      next_session_id = 0, next_resource_id = 0, next_activation_id = 0,
      next_channelmapping_id = 0, next_channelmapping_activation_id = 0,
      act_chans = [], ann_chans = [], cm_chans = [],
      acks = [], ack_waiting = [], cm_acks = [], cm_ack_waiting = []\<rparr>"

section \<open>Handles\<close>

definition session_handle :: "64 word \<Rightarrow> string" where
  "session_handle n = ''sess-'' @ show_nat (unat n)"

definition resource_handle :: "64 word \<Rightarrow> string" where
  "resource_handle n = ''res-'' @ show_nat (unat n)"

definition activation_handle :: "64 word \<Rightarrow> string" where
  "activation_handle n = ''act-'' @ show_nat (unat n)"

definition channelmapping_handle :: "64 word \<Rightarrow> string" where
  "channelmapping_handle n = ''cm-'' @ show_nat (unat n)"

definition cm_activation_handle :: "64 word \<Rightarrow> string" where
  "cm_activation_handle n = ''cm-act-'' @ show_nat (unat n)"

definition allocate_session_handle :: "state \<Rightarrow> string \<times> state" where
  "allocate_session_handle s =
     (session_handle (next_session_id s), s\<lparr>next_session_id := next_session_id s + 1\<rparr>)"

definition allocate_resource_handle :: "state \<Rightarrow> string \<times> state" where
  "allocate_resource_handle s =
     (resource_handle (next_resource_id s), s\<lparr>next_resource_id := next_resource_id s + 1\<rparr>)"

definition allocate_activation_handle :: "state \<Rightarrow> string \<times> state" where
  "allocate_activation_handle s =
     (activation_handle (next_activation_id s), s\<lparr>next_activation_id := next_activation_id s + 1\<rparr>)"

definition allocate_channelmapping_handle :: "state \<Rightarrow> string \<times> state" where
  "allocate_channelmapping_handle s =
     (channelmapping_handle (next_channelmapping_id s),
      s\<lparr>next_channelmapping_id := next_channelmapping_id s + 1\<rparr>)"

definition allocate_channelmapping_activation_handle :: "state \<Rightarrow> string \<times> state" where
  "allocate_channelmapping_activation_handle s =
     (cm_activation_handle (next_channelmapping_activation_id s),
      s\<lparr>next_channelmapping_activation_id := next_channelmapping_activation_id s + 1\<rparr>)"

lemma session_handle_inj [simp]: "session_handle m = session_handle n \<longleftrightarrow> m = n"
  by (simp add: session_handle_def)

lemma resource_handle_inj [simp]: "resource_handle m = resource_handle n \<longleftrightarrow> m = n"
  by (simp add: resource_handle_def)

lemma activation_handle_inj [simp]: "activation_handle m = activation_handle n \<longleftrightarrow> m = n"
  by (simp add: activation_handle_def)

lemma channelmapping_handle_inj [simp]: "channelmapping_handle m = channelmapping_handle n \<longleftrightarrow> m = n"
  by (simp add: channelmapping_handle_def)

lemma cm_activation_handle_inj [simp]: "cm_activation_handle m = cm_activation_handle n \<longleftrightarrow> m = n"
  by (simp add: cm_activation_handle_def)

text \<open>
  The contract of an allocator: it hands out the handle of its counter and advances it. As long
  as the 64-bit counter has not wrapped around, a handle was never given before.
\<close>

definition issued :: "(64 word \<Rightarrow> string) \<Rightarrow> 64 word \<Rightarrow> string \<Rightarrow> bool" where
  "issued mk c h \<longleftrightarrow> (\<exists>k < c. h = mk k)"

locale handle_allocator =
  fixes counter :: "'s \<Rightarrow> 64 word" and mk :: "64 word \<Rightarrow> string" and alloc :: "'s \<Rightarrow> string \<times> 's"
  assumes mk_inj: "mk m = mk n \<longleftrightarrow> m = n"
    and alloc_handle: "fst (alloc s) = mk (counter s)"
    and alloc_counter: "counter (snd (alloc s)) = counter s + 1"
begin

lemma alloc_fresh: "issued mk (counter s) h \<Longrightarrow> fst (alloc s) \<noteq> h"
  by (auto simp: issued_def alloc_handle mk_inj)

lemma issued_mono:
  assumes "counter s \<noteq> - 1" "issued mk (counter s) h"
  shows "issued mk (counter (snd (alloc s))) h"
proof -
  have "counter s < counter s + 1"
    using assms(1) by (rule word_less_succ)
  with assms(2) show ?thesis by (auto simp: issued_def alloc_counter intro: less_trans)
qed

lemma alloc_issued:
  assumes "counter s \<noteq> - 1"
  shows "issued mk (counter (snd (alloc s))) (fst (alloc s))"
  using assms by (auto simp: issued_def alloc_counter alloc_handle intro: word_less_succ)

end

interpretation sess: handle_allocator next_session_id session_handle allocate_session_handle
  by unfold_locales (simp_all add: allocate_session_handle_def)

interpretation res: handle_allocator next_resource_id resource_handle allocate_resource_handle
  by unfold_locales (simp_all add: allocate_resource_handle_def)

interpretation act: handle_allocator next_activation_id activation_handle allocate_activation_handle
  by unfold_locales (simp_all add: allocate_activation_handle_def)

interpretation cm: handle_allocator next_channelmapping_id channelmapping_handle
  allocate_channelmapping_handle
  by unfold_locales (simp_all add: allocate_channelmapping_handle_def)

interpretation cmact: handle_allocator next_channelmapping_activation_id cm_activation_handle
  allocate_channelmapping_activation_handle
  by unfold_locales (simp_all add: allocate_channelmapping_activation_handle_def)

end
