(* ===== verification/Nvn_Lib.thy ===== *)
theory Nvn_Lib
  imports Nvn_State
begin

text \<open>
  The boundary to libnvnmos. The C library (and the nmos-cpp it is built on) is not modelled:
  its operations, as the \<^verbatim>\<open>nvnmos\<close> crate presents them on \<^verbatim>\<open>NodeServer\<close>, are a
  record of functions over an abstract world \<open>'w\<close>, an argument of every definition that calls
  them. Dropping a reference to a server is \<open>lib_release\<close>. Every piece of deferred work holds
  a reference and drops it when it is done; whether that one was the last, so that the server is
  destroyed, is the world's business (the model does not count the clones of an \<^verbatim>\<open>Arc\<close>).

  The rest of the theory is what \<^verbatim>\<open>nvnmosd/src/state.rs\<close> does at this boundary: the
  configurations, their translation from the gRPC messages, the dispatch on the side of a
  resource, and the name that a transport file carries. The JSON parser of
  \<^verbatim>\<open>transport_file_name\<close> is \<^verbatim>\<open>serde_json\<close>'s: a parameter.
\<close>

section \<open>Configurations\<close>

record asset_config =
  ac_manufacturer :: string
  ac_product :: string
  ac_instance_id :: string
  ac_functions :: "string list"

record 'p network_services_config =
  ns_domain :: string
  ns_registration_address :: string
  ns_registration_port :: 'p
  ns_registration_version :: string
  ns_system_address :: string
  ns_system_port :: 'p
  ns_system_version :: string

record node_config =
  nc_seed :: string
  nc_host_name :: string
  nc_host_addresses :: "string list"
  nc_http_port :: port
  nc_label :: string
  nc_description :: string
  nc_asset_tags :: "asset_config option"
  nc_network_services :: "port network_services_config option"
  nc_node_annotation :: "annotation option"
  nc_device_annotation :: "annotation option"

record proto_node_config =
  pn_seed :: string
  pn_host_name :: string
  pn_host_addresses :: "string list"
  pn_http_port :: "32 word"
  pn_label :: string
  pn_description :: string
  pn_asset_tags :: "asset_config option"
  pn_network_services :: "32 word network_services_config option"

record sender_config =
  sc_transport :: transport
  sc_transport_file :: string
  sc_source_annotation :: "annotation option"
  sc_flow_annotation :: "annotation option"
  sc_sender_annotation :: "annotation option"

record receiver_config =
  rc_transport :: transport
  rc_transport_file :: string
  rc_receiver_annotation :: "annotation option"

datatype parent_type = ParentReceiver | ParentSource

record cm_input =
  ci_id :: string
  ci_name :: string
  ci_description :: string
  ci_channel_labels :: "string list"
  ci_parent_name :: string
  ci_parent_type :: parent_type
  ci_reordering :: bool
  ci_block_size :: "32 word"

record cm_output =
  co_id :: string
  co_name :: string
  co_description :: string
  co_channel_labels :: "string list"
  co_sender_name :: string
  co_routable_inputs :: "string list option"

record channelmapping_config =
  cc_inputs :: "cm_input list"
  cc_outputs :: "cm_output list"

section \<open>The library\<close>

datatype nv_error = InteriorNul | InvalidConfig | Failed string | InvalidUtf8

record 'w libnvnmos =
  lib_create :: "node_config \<Rightarrow> 'w \<Rightarrow> (nv_error + server) \<times> 'w"
  lib_node_id :: "server \<Rightarrow> 'w \<Rightarrow> nv_error + string"
  lib_device_id :: "server \<Rightarrow> 'w \<Rightarrow> nv_error + string"
  lib_add_sender :: "server \<Rightarrow> sender_config \<Rightarrow> 'w \<Rightarrow> (nv_error + unit) \<times> 'w"
  lib_add_receiver :: "server \<Rightarrow> receiver_config \<Rightarrow> 'w \<Rightarrow> (nv_error + unit) \<times> 'w"
  lib_sender_id :: "server \<Rightarrow> string \<Rightarrow> 'w \<Rightarrow> nv_error + string option"
  lib_receiver_id :: "server \<Rightarrow> string \<Rightarrow> 'w \<Rightarrow> nv_error + string option"
  lib_source_id :: "server \<Rightarrow> string \<Rightarrow> 'w \<Rightarrow> nv_error + string option"
  lib_flow_id :: "server \<Rightarrow> string \<Rightarrow> 'w \<Rightarrow> nv_error + string option"
  lib_remove_sender :: "server \<Rightarrow> string \<Rightarrow> 'w \<Rightarrow> (nv_error + unit) \<times> 'w"
  lib_remove_receiver :: "server \<Rightarrow> string \<Rightarrow> 'w \<Rightarrow> (nv_error + unit) \<times> 'w"
  lib_activate_connection :: "server \<Rightarrow> side \<Rightarrow> string \<Rightarrow> string option \<Rightarrow> 'w \<Rightarrow> (nv_error + unit) \<times> 'w"
  lib_add_channelmapping :: "server \<Rightarrow> string \<Rightarrow> channelmapping_config \<Rightarrow> 'w \<Rightarrow> (nv_error + unit) \<times> 'w"
  lib_remove_channelmapping :: "server \<Rightarrow> string \<Rightarrow> 'w \<Rightarrow> (nv_error + unit) \<times> 'w"
  lib_activate_channelmapping ::
    "server \<Rightarrow> string \<Rightarrow> string \<Rightarrow> active_map_entry list \<Rightarrow> 'w \<Rightarrow> (nv_error + unit) \<times> 'w"
  lib_release :: "server \<Rightarrow> 'w \<Rightarrow> 'w"

fun libnvnmos_status :: "nv_error \<Rightarrow> status" where
  "libnvnmos_status (Failed f) = Status UnknownCode LibCall"
| "libnvnmos_status InteriorNul = Status InvalidArgument LibCall"
| "libnvnmos_status InvalidConfig = Status InvalidArgument LibCall"
| "libnvnmos_status InvalidUtf8 = Status Internal LibCall"

section \<open>Dispatch on the side\<close>

fun side_label :: "side \<Rightarrow> string" where
  "side_label Sender = ''sender''"
| "side_label Receiver = ''receiver''"

fun side_to_proto :: "side \<Rightarrow> int" where
  "side_to_proto Sender = 1"
| "side_to_proto Receiver = 2"

fun side_order :: "side \<Rightarrow> nat" where
  "side_order Sender = 0"
| "side_order Receiver = 1"

definition stored_at_create ::
  "store_inner option \<Rightarrow> string \<Rightarrow> resource_type \<Rightarrow> string \<Rightarrow> annotation option" where
  "stored_at_create annotations seed rt name =
     map_option annotation_at_create
       (case annotations of None \<Rightarrow> None | Some store \<Rightarrow> store_get store seed rt name)"

fun add_to_server ::
  "'w libnvnmos \<Rightarrow> side \<Rightarrow> server \<Rightarrow> transport \<Rightarrow> string \<Rightarrow> store_inner option \<Rightarrow> string \<Rightarrow> string \<Rightarrow> 'w
    \<Rightarrow> (nv_error + unit) \<times> 'w" where
  "add_to_server lib Sender srv tr file annotations seed name w =
     lib_add_sender lib srv
       \<lparr>sc_transport = tr, sc_transport_file = file,
        sc_source_annotation = stored_at_create annotations seed RtSource name,
        sc_flow_annotation = stored_at_create annotations seed RtFlow name,
        sc_sender_annotation = stored_at_create annotations seed RtSender name\<rparr> w"
| "add_to_server lib Receiver srv tr file annotations seed name w =
     lib_add_receiver lib srv
       \<lparr>rc_transport = tr, rc_transport_file = file,
        rc_receiver_annotation = stored_at_create annotations seed RtReceiver name\<rparr> w"

fun lookup_id :: "'w libnvnmos \<Rightarrow> side \<Rightarrow> server \<Rightarrow> string \<Rightarrow> 'w \<Rightarrow> nv_error + string option" where
  "lookup_id lib Sender srv name w = lib_sender_id lib srv name w"
| "lookup_id lib Receiver srv name w = lib_receiver_id lib srv name w"

fun remove_from_server :: "'w libnvnmos \<Rightarrow> side \<Rightarrow> server \<Rightarrow> string \<Rightarrow> 'w \<Rightarrow> (nv_error + unit) \<times> 'w" where
  "remove_from_server lib Sender srv name w = lib_remove_sender lib srv name w"
| "remove_from_server lib Receiver srv name w = lib_remove_receiver lib srv name w"

section \<open>Translation of the gRPC messages\<close>

text \<open>\<^verbatim>\<open>u16::try_from\<close> on a 32-bit value.\<close>

definition u16_try_from :: "32 word \<Rightarrow> port option" where
  "u16_try_from n = (if unat n \<le> u16_max then Some (ucast n) else None)"

fun first_empty :: "nat \<Rightarrow> string list \<Rightarrow> nat option" where
  "first_empty i [] = None"
| "first_empty i (f # fs) = (if f = [] then Some i else first_empty (Suc i) fs)"

definition translate_asset_tags :: "asset_config option \<Rightarrow> status + asset_config option" where
  "translate_asset_tags pr =
     (case pr of
        None \<Rightarrow> Inr None
      | Some a \<Rightarrow>
          (if ac_manufacturer a = [] \<and> ac_product a = [] \<and> ac_instance_id a = [] \<and> ac_functions a = []
           then Inr None
           else if ac_manufacturer a = [] then Inl (Status InvalidArgument AssetManufacturer)
           else if ac_product a = [] then Inl (Status InvalidArgument AssetProduct)
           else if ac_instance_id a = [] then Inl (Status InvalidArgument AssetInstance)
           else if ac_functions a = [] then Inl (Status InvalidArgument AssetFunctions)
           else case first_empty 0 (ac_functions a) of
             Some i \<Rightarrow> Inl (Status InvalidArgument (AssetFunctionEmpty i))
           | None \<Rightarrow> Inr (Some a)))"

definition translate_network_services ::
  "32 word network_services_config option \<Rightarrow> status + port network_services_config option" where
  "translate_network_services pr =
     (case pr of
        None \<Rightarrow> Inr None
      | Some p \<Rightarrow>
          (if ns_domain p = [] \<and> ns_registration_address p = [] \<and> ns_registration_port p = 0 \<and>
              ns_registration_version p = [] \<and> ns_system_address p = [] \<and> ns_system_port p = 0 \<and>
              ns_system_version p = []
           then Inr None
           else case u16_try_from (ns_registration_port p) of
             None \<Rightarrow> Inl (Status InvalidArgument BadRegistrationPort)
           | Some rp \<Rightarrow>
               (case u16_try_from (ns_system_port p) of
                  None \<Rightarrow> Inl (Status InvalidArgument BadSystemPort)
                | Some sp \<Rightarrow> Inr (Some
                    \<lparr>ns_domain = ns_domain p, ns_registration_address = ns_registration_address p,
                     ns_registration_port = rp,
                     ns_registration_version = ns_registration_version p,
                     ns_system_address = ns_system_address p, ns_system_port = sp,
                     ns_system_version = ns_system_version p\<rparr>))))"

definition default_proto_node_config :: proto_node_config where
  "default_proto_node_config =
     \<lparr>pn_seed = [], pn_host_name = [], pn_host_addresses = [], pn_http_port = 0, pn_label = [],
      pn_description = [], pn_asset_tags = None, pn_network_services = None\<rparr>"

definition translate_config :: "proto_node_config option \<Rightarrow> status + node_config" where
  "translate_config pr =
     (let p = (case pr of Some p \<Rightarrow> p | None \<Rightarrow> default_proto_node_config)
      in case u16_try_from (pn_http_port p) of
           None \<Rightarrow> Inl (Status InvalidArgument BadHttpPort)
         | Some hp \<Rightarrow>
             (case translate_asset_tags (pn_asset_tags p) of
                Inl e \<Rightarrow> Inl e
              | Inr ats \<Rightarrow>
                  (case translate_network_services (pn_network_services p) of
                     Inl e \<Rightarrow> Inl e
                   | Inr ns \<Rightarrow> Inr
                       \<lparr>nc_seed = pn_seed p, nc_host_name = pn_host_name p,
                        nc_host_addresses = pn_host_addresses p, nc_http_port = hp,
                        nc_label = pn_label p, nc_description = pn_description p,
                        nc_asset_tags = ats, nc_network_services = ns,
                        nc_node_annotation = None, nc_device_annotation = None\<rparr>)))"

text \<open>The wire value of the transport enum: 0 is unspecified, 1 RTP, 2 MXL.\<close>

datatype proto_transport = PtUnspecified | PtRtp | PtMxl

definition decode_proto_transport :: "int \<Rightarrow> status + proto_transport" where
  "decode_proto_transport raw =
     (if raw = 0 then Inr PtUnspecified else if raw = 1 then Inr PtRtp else if raw = 2 then Inr PtMxl
      else Inl (Status InvalidArgument UnknownTransport))"

fun translate_transport :: "proto_transport \<Rightarrow> status + transport" where
  "translate_transport PtUnspecified = Inl (Status InvalidArgument TransportUnspecified)"
| "translate_transport PtRtp = Inr Rtp"
| "translate_transport PtMxl = Inr Mxl"

section \<open>The name a transport file carries\<close>

datatype json =
    JNull | JBool bool | JNumber string | JString string | JArray "json list"
  | JObject "(string \<times> json) list"

fun json_get :: "string \<Rightarrow> json \<Rightarrow> json option" where
  "json_get k (JObject m) = map_of m k"
| "json_get k _ = None"

fun json_index :: "nat \<Rightarrow> json \<Rightarrow> json option" where
  "json_index i (JArray xs) = (if i < length xs then Some (xs ! i) else None)"
| "json_index i _ = None"

fun json_as_str :: "json \<Rightarrow> string option" where
  "json_as_str (JString s) = Some s"
| "json_as_str _ = None"

text \<open>
  \<^verbatim>\<open>str::lines\<close>: split at line feeds, without a final empty line, and drop one carriage
  return before each line feed. The second component says whether the line ended in a line feed.
\<close>

fun split_lf :: "string \<Rightarrow> string \<Rightarrow> (string \<times> bool) list" where
  "split_lf acc [] = (if acc = [] then [] else [(rev acc, False)])"
| "split_lf acc (c # cs) =
     (if c = CHR 0x0A then (rev acc, True) # split_lf [] cs else split_lf (c # acc) cs)"

definition chomp_cr :: "string \<times> bool \<Rightarrow> string" where
  "chomp_cr p = (case p of (l, lf) \<Rightarrow>
     if lf \<and> l \<noteq> [] \<and> last l = CHR 0x0D then butlast l else l)"

definition str_lines :: "string \<Rightarrow> string list" where
  "str_lines s = map chomp_cr (split_lf [] s)"

definition strip_prefix :: "string \<Rightarrow> string \<Rightarrow> string option" where
  "strip_prefix pre s = (if starts_with s pre then Some (drop (length pre) s) else None)"

fun find_map :: "('a \<Rightarrow> 'b option) \<Rightarrow> 'a list \<Rightarrow> 'b option" where
  "find_map f [] = None"
| "find_map f (x # xs) = (case f x of Some y \<Rightarrow> Some y | None \<Rightarrow> find_map f xs)"

definition transport_file_name ::
  "(string \<Rightarrow> json option) \<Rightarrow> transport \<Rightarrow> string \<Rightarrow> string option" where
  "transport_file_name from_str tr file =
     (case (case tr of
         Rtp \<Rightarrow> find_map (strip_prefix ''a=x-nvnmos-name:'')
                  (takeWhile (\<lambda>l. \<not> starts_with l ''m='') (str_lines file))
       | Mxl \<Rightarrow>
           Option.bind (from_str file) (\<lambda>v.
           Option.bind (json_get ''tags'' v) (\<lambda>tags.
           Option.bind (json_get ''urn:x-nvnmos:tag:name'' tags) (\<lambda>names.
           Option.bind (json_index 0 names) json_as_str)))) of
        None \<Rightarrow> None
      | Some name \<Rightarrow> if name \<noteq> [] then Some name else None)"

section \<open>Lemmas\<close>

lemma transport_file_name_nonempty: "transport_file_name js tr f = Some n \<Longrightarrow> n \<noteq> []"
  by (auto simp: transport_file_name_def split: option.splits if_splits)

lemma u16_try_from_Some: "u16_try_from n = Some p \<longleftrightarrow> unat n \<le> u16_max \<and> unat p = unat n"
proof -
  have small: "unat (ucast n :: port) = unat n" if "unat n \<le> u16_max"
    using that by (simp add: u16_max_def unsigned_ucast_eq unsigned_take_bit_eq take_bit_nat_eq_self)
  then show ?thesis
    by (auto simp: u16_try_from_def) (metis unat_inj)
qed

lemma first_empty_None: "first_empty i fs = None \<longleftrightarrow> [] \<notin> set fs"
  by (induction i fs rule: first_empty.induct) auto

lemma translate_config_seed: "translate_config (Some p) = Inr c \<Longrightarrow> nc_seed c = pn_seed p"
  by (auto simp: translate_config_def Let_def split: option.splits sum.splits)

lemma translate_asset_tags_ok:
  assumes "translate_asset_tags pr = Inr (Some a)"
  shows "pr = Some a \<and> ac_manufacturer a \<noteq> [] \<and> ac_product a \<noteq> [] \<and> ac_instance_id a \<noteq> [] \<and>
    ac_functions a \<noteq> [] \<and> [] \<notin> set (ac_functions a)"
proof (cases pr)
  case (Some b)
  with assms show ?thesis
    using first_empty_None [of 0 "ac_functions b"]
    by (cases "first_empty 0 (ac_functions b)") (auto simp: translate_asset_tags_def split: if_splits)
qed (use assms in \<open>simp add: translate_asset_tags_def\<close>)

lemma translate_network_services_ok:
  assumes "translate_network_services (Some q) = Inr (Some n)"
  shows "unat (ns_registration_port n) = unat (ns_registration_port q) \<and>
    unat (ns_system_port n) = unat (ns_system_port q) \<and> ns_domain n = ns_domain q \<and>
    ns_registration_address n = ns_registration_address q \<and> ns_system_address n = ns_system_address q \<and>
    ns_registration_version n = ns_registration_version q \<and> ns_system_version n = ns_system_version q"
proof -
  from assms obtain rp sp where "u16_try_from (ns_registration_port q) = Some rp"
      "u16_try_from (ns_system_port q) = Some sp"
      "n = \<lparr>ns_domain = ns_domain q, ns_registration_address = ns_registration_address q,
         ns_registration_port = rp, ns_registration_version = ns_registration_version q,
         ns_system_address = ns_system_address q, ns_system_port = sp, ns_system_version = ns_system_version q\<rparr>"
    by (simp add: translate_network_services_def split: if_splits option.splits)
  then show ?thesis by (simp add: u16_try_from_Some)
qed

text \<open>
  A Node configuration that is accepted is the one that was asked for: no port is truncated on
  the way from 32 to 16 bits, an asset tag is complete or absent, and network services keep every
  field.
\<close>

theorem translate_config_faithful:
  assumes "translate_config (Some p) = Inr c"
  shows "nc_seed c = pn_seed p \<and> nc_host_name c = pn_host_name p \<and>
    nc_host_addresses c = pn_host_addresses p \<and> nc_label c = pn_label p \<and>
    nc_description c = pn_description p \<and> unat (nc_http_port c) = unat (pn_http_port p) \<and>
    (\<forall>a. nc_asset_tags c = Some a \<longrightarrow> pn_asset_tags p = Some a \<and> ac_manufacturer a \<noteq> [] \<and>
       ac_product a \<noteq> [] \<and> ac_instance_id a \<noteq> [] \<and> ac_functions a \<noteq> [] \<and> [] \<notin> set (ac_functions a)) \<and>
    (\<forall>n q. nc_network_services c = Some n \<longrightarrow> pn_network_services p = Some q \<longrightarrow>
       unat (ns_registration_port n) = unat (ns_registration_port q) \<and>
       unat (ns_system_port n) = unat (ns_system_port q) \<and> ns_domain n = ns_domain q \<and>
       ns_registration_address n = ns_registration_address q \<and> ns_system_address n = ns_system_address q \<and>
       ns_registration_version n = ns_registration_version q \<and> ns_system_version n = ns_system_version q)"
proof -
  from assms obtain hp ats ns where "u16_try_from (pn_http_port p) = Some hp"
      "translate_asset_tags (pn_asset_tags p) = Inr ats"
      "translate_network_services (pn_network_services p) = Inr ns"
      "c = \<lparr>nc_seed = pn_seed p, nc_host_name = pn_host_name p, nc_host_addresses = pn_host_addresses p,
        nc_http_port = hp, nc_label = pn_label p, nc_description = pn_description p, nc_asset_tags = ats,
        nc_network_services = ns, nc_node_annotation = None, nc_device_annotation = None\<rparr>"
    by (auto simp: translate_config_def split: option.splits sum.splits)
  then show ?thesis
    using translate_asset_tags_ok [of "pn_asset_tags p"]
    by (auto simp: u16_try_from_Some translate_network_services_ok)
qed

theorem translate_config_faithful_witness:
  "\<exists>c. translate_config (Some (default_proto_node_config\<lparr>pn_seed := ''n'', pn_http_port := 8080\<rparr>)) = Inr c \<and>
     unat (nc_http_port c) = 8080"
proof -
  let ?p = "default_proto_node_config\<lparr>pn_seed := ''n'', pn_http_port := 8080\<rparr>"
  obtain c where c: "translate_config (Some ?p) = Inr c"
    by (simp add: translate_config_def default_proto_node_config_def u16_try_from_def u16_max_def
        translate_asset_tags_def translate_network_services_def Let_def)
  with translate_config_faithful [OF c] show ?thesis by simp
qed

lemma find_map_takeWhile_iff:
  "find_map f (takeWhile P xs) = Some y \<longleftrightarrow>
     (\<exists>us x vs. xs = us @ x # vs \<and> f x = Some y \<and> P x \<and> (\<forall>u \<in> set us. P u \<and> f u = None))"
proof (induction xs)
  case (Cons z zs)
  have "(\<exists>us x vs. z # zs = us @ x # vs \<and> f x = Some y \<and> P x \<and> (\<forall>u \<in> set us. P u \<and> f u = None)) \<longleftrightarrow>
      f z = Some y \<and> P z \<or>
      P z \<and> f z = None \<and> (\<exists>us x vs. zs = us @ x # vs \<and> f x = Some y \<and> P x \<and> (\<forall>u \<in> set us. P u \<and> f u = None))"
    (is "?l \<longleftrightarrow> ?r")
  proof
    assume ?l
    then obtain us x vs where "z # zs = us @ x # vs" "f x = Some y" "P x" "\<forall>u \<in> set us. P u \<and> f u = None" by blast
    then show ?r by (cases us) auto
  next
    assume ?r
    then show ?l
    proof
      assume "f z = Some y \<and> P z"
      then show ?l by (intro exI [of _ "[]"] exI [of _ z] exI [of _ zs]) simp
    next
      assume "P z \<and> f z = None \<and> (\<exists>us x vs. zs = us @ x # vs \<and> f x = Some y \<and> P x \<and> (\<forall>u \<in> set us. P u \<and> f u = None))"
      then obtain us x vs where "P z" "f z = None" "zs = us @ x # vs" "f x = Some y" "P x" "\<forall>u \<in> set us. P u \<and> f u = None"
        by blast
      then show ?l by (intro exI [of _ "z # us"] exI [of _ x] exI [of _ vs]) simp
    qed
  qed
  with Cons.IH show ?case by (cases "f z") auto
qed simp

lemma strip_prefix_iff: "strip_prefix pre l = Some n \<longleftrightarrow> l = pre @ n"
  by (auto simp: strip_prefix_def starts_with_def) (metis append_take_drop_id)

lemma strip_prefix_None: "strip_prefix pre l = None \<longleftrightarrow> \<not> starts_with l pre"
  by (simp add: strip_prefix_def)

text \<open>
  The name of an RTP transport file is that of its first \<^verbatim>\<open>a=x-nvnmos-name\<close> line at
  session level: a line in a media description never names the resource, and an empty name is no
  name.
\<close>

theorem rtp_name_is_session_level:
  "transport_file_name js Rtp sdp = Some n \<longleftrightarrow>
     n \<noteq> [] \<and> (\<exists>before after. str_lines sdp = before @ (''a=x-nvnmos-name:'' @ n) # after \<and>
       (\<forall>l \<in> set before. \<not> starts_with l ''m='' \<and> \<not> starts_with l ''a=x-nvnmos-name:''))"
proof -
  let ?P = "\<lambda>l. \<not> starts_with l ''m=''" and ?pre = "''a=x-nvnmos-name:''"
  have "transport_file_name js Rtp sdp = Some n \<longleftrightarrow>
      n \<noteq> [] \<and> find_map (strip_prefix ?pre) (takeWhile ?P (str_lines sdp)) = Some n"
    by (auto simp: transport_file_name_def split: option.splits if_splits)
  then show ?thesis
    by (simp add: find_map_takeWhile_iff strip_prefix_iff strip_prefix_None) (simp add: starts_with_def)
qed

theorem rtp_name_is_session_level_witness:
  "transport_file_name (\<lambda>_. None) Rtp
     (''v=0'' @ [CHR 0x0D, CHR 0x0A] @ ''a=x-nvnmos-name:cam'' @ [CHR 0x0A] @ ''m=video'') = Some ''cam''"
  unfolding rtp_name_is_session_level
  by (intro conjI exI [of _ "[''v=0'']"] exI [of _ "[''m=video'']"])
    (simp_all add: str_lines_def chomp_cr_def starts_with_def)

end
