(* ===== verification/Nvn_Nodes.thy ===== *)
theory Nvn_Nodes
  imports Nvn_Lib
begin

text \<open>
  Node and session lifecycle of \<^verbatim>\<open>nvnmosd/src/state.rs\<close>: opening and closing sessions,
  adding and removing persistent Nodes, the HTTP ports of Nodes, and the libnvnmos work that
  these operations defer until the state lock is released.

  Every operation returns its result and the state after it, also when it fails. The host's
  answer to the bind probe of \<^verbatim>\<open>is_tcp_port_bindable\<close> is an argument.
\<close>

section \<open>Outcomes and deferred work\<close>

record open_outcome =
  oo_session_handle :: string
  oo_node_id :: string
  oo_device_id :: string
  oo_lifetime :: lifetime
  oo_created_node :: bool
  oo_http_port :: port

record close_outcome =
  clo_node_seed :: string
  clo_node_id :: string
  clo_lifetime :: lifetime
  clo_remaining_sessions :: nat
  clo_node_destroyed :: bool

record add_node_outcome =
  ano_node_id :: string
  ano_device_id :: string
  ano_http_port :: port

record close_session_ffi =
  csf_server :: server
  csf_resource_removals :: "(side \<times> string) list"
  csf_channelmapping_removals :: "string list"

record create_node_prep =
  cnp_seed :: string
  cnp_config :: node_config
  cnp_http_port :: port

record create_node_ready =
  cnr_seed :: string
  cnr_http_port :: port
  cnr_server :: server
  cnr_node_id :: string
  cnr_device_id :: string

datatype open_session_plan = Attached open_outcome | Create create_node_prep

definition close_session_ffi_run :: "'w libnvnmos \<Rightarrow> close_session_ffi \<Rightarrow> 'w \<Rightarrow> 'w" where
  "close_session_ffi_run lib ffi w =
     (let srv = csf_server ffi;
          w1 = fold (\<lambda>(sd, name) w. snd (remove_from_server lib sd srv name w))
                 (csf_resource_removals ffi) w;
          w2 = fold (\<lambda>name w. snd (lib_remove_channelmapping lib srv name w))
                 (csf_channelmapping_removals ffi) w1
      in lib_release lib srv w2)"

definition remove_node_ffi_run :: "'w libnvnmos \<Rightarrow> server \<Rightarrow> 'w \<Rightarrow> 'w" where
  "remove_node_ffi_run lib srv w = lib_release lib srv w"

text \<open>
  \<^verbatim>\<open>CreateNodePrep::run_ffi\<close>, without the callbacks it installs: they enter the daemon
  through \<^verbatim>\<open>route_activation\<close>, \<^verbatim>\<open>route_channelmapping_activation\<close> and
  \<^verbatim>\<open>publish_annotation\<close>.
\<close>

definition create_node_prep_run_ffi ::
  "'w libnvnmos \<Rightarrow> store_inner option \<Rightarrow> create_node_prep \<Rightarrow> 'w \<Rightarrow> (status + create_node_ready) \<times> 'w" where
  "create_node_prep_run_ffi lib annotations prep w =
     (let config = (case annotations of
            None \<Rightarrow> cnp_config prep
          | Some store \<Rightarrow> (cnp_config prep)\<lparr>
              nc_node_annotation := stored_at_create annotations (cnp_seed prep) RtNode [],
              nc_device_annotation := stored_at_create annotations (cnp_seed prep) RtDevice []\<rparr>)
      in case lib_create lib config w of
           (Inl e, w') \<Rightarrow> (Inl (libnvnmos_status e), w')
         | (Inr srv, w') \<Rightarrow>
             (case lib_node_id lib srv w' of
                Inl e \<Rightarrow> (Inl (Status Internal LibQuery), lib_release lib srv w')
              | Inr nid \<Rightarrow>
                  (case lib_device_id lib srv w' of
                     Inl e \<Rightarrow> (Inl (Status Internal LibQuery), lib_release lib srv w')
                   | Inr did \<Rightarrow>
                       (Inr \<lparr>cnr_seed = cnp_seed prep, cnr_http_port = cnp_http_port prep,
                             cnr_server = srv, cnr_node_id = nid, cnr_device_id = did\<rparr>, w'))))"

section \<open>HTTP ports\<close>

definition require_non_empty_seed :: "string \<Rightarrow> status + unit" where
  "require_non_empty_seed seed =
     (if seed = [] then Inl (Status InvalidArgument SeedEmpty) else Inr ())"

definition resolve_http_port ::
  "(port \<Rightarrow> bool) \<Rightarrow> port \<Rightarrow> port_range \<Rightarrow> state \<Rightarrow> status + port" where
  "resolve_http_port bindable requested rng s =
     (if requested \<noteq> 0
      then case hm_get (http_ports s) requested of
             Some owner \<Rightarrow> Inl (Status AlreadyExists (PortAssigned owner))
           | None \<Rightarrow>
               (if \<not> bindable requested then Inl (Status FailedPrecondition PortUnavailable)
                else Inr requested)
      else case List.find (\<lambda>p. \<not> hm_contains (http_ports s) p \<and> bindable p) (port_range_iter rng) of
             Some p \<Rightarrow> Inr p
           | None \<Rightarrow> Inl (Status ResourceExhausted NoPortInRange))"

section \<open>Sessions\<close>

definition new_session :: "string \<Rightarrow> session_entry" where
  "new_session seed = \<lparr>se_node_seed = seed, se_resources = [], se_channelmappings = []\<rparr>"

definition reserve_node :: "node_config \<Rightarrow> port \<Rightarrow> state \<Rightarrow> create_node_prep \<times> state" where
  "reserve_node config hp s =
     (let seed = nc_seed config
      in (\<lparr>cnp_seed = seed, cnp_config = config\<lparr>nc_http_port := hp\<rparr>, cnp_http_port = hp\<rparr>,
          s\<lparr>http_ports := hm_insert hp seed (http_ports s),
            pending_nodes := hs_insert seed (pending_nodes s)\<rparr>))"

definition prepare_open_session ::
  "(port \<Rightarrow> bool) \<Rightarrow> node_config \<Rightarrow> port_range \<Rightarrow> state \<Rightarrow> (status + open_session_plan) \<times> state" where
  "prepare_open_session bindable config rng s =
     (let seed = nc_seed config
      in case require_non_empty_seed seed of
           Inl e \<Rightarrow> (Inl e, s)
         | Inr _ \<Rightarrow>
             (case hm_get (nodes s) seed of
                Some entry \<Rightarrow>
                  (let entry' = entry\<lparr>ne_attached_sessions := ne_attached_sessions entry + 1\<rparr>;
                       (h, s1) = allocate_session_handle (s\<lparr>nodes := hm_insert seed entry' (nodes s)\<rparr>)
                   in (Inr (Attached
                         \<lparr>oo_session_handle = h, oo_node_id = ne_node_id entry,
                          oo_device_id = ne_device_id entry, oo_lifetime = ne_lifetime entry,
                          oo_created_node = False, oo_http_port = ne_http_port entry\<rparr>),
                       s1\<lparr>sessions := hm_insert h (new_session seed) (sessions s1)\<rparr>))
              | None \<Rightarrow>
                  (if seed \<in> set (pending_nodes s)
                   then (Inl (Status Unavailable NodeBeingCreated), s)
                   else case resolve_http_port bindable (nc_http_port config) rng s of
                     Inl e \<Rightarrow> (Inl e, s)
                   | Inr hp \<Rightarrow> (case reserve_node config hp s of
                        (prep, s') \<Rightarrow> (Inr (Create prep), s')))))"

definition node_of_ready :: "lifetime \<Rightarrow> nat \<Rightarrow> create_node_ready \<Rightarrow> node_entry" where
  "node_of_ready lt n ready =
     \<lparr>ne_server = cnr_server ready, ne_node_id = cnr_node_id ready,
      ne_device_id = cnr_device_id ready, ne_lifetime = lt, ne_attached_sessions = n,
      ne_http_port = cnr_http_port ready\<rparr>"

definition commit_open_session :: "create_node_ready \<Rightarrow> state \<Rightarrow> open_outcome \<times> state" where
  "commit_open_session ready s =
     (let s1 = s\<lparr>pending_nodes := hs_remove (cnr_seed ready) (pending_nodes s),
                 nodes := hm_insert (cnr_seed ready) (node_of_ready SessionRefcounted 1 ready) (nodes s)\<rparr>;
          (h, s2) = allocate_session_handle s1
      in (\<lparr>oo_session_handle = h, oo_node_id = cnr_node_id ready, oo_device_id = cnr_device_id ready,
           oo_lifetime = SessionRefcounted, oo_created_node = True,
           oo_http_port = cnr_http_port ready\<rparr>,
          s2\<lparr>sessions := hm_insert h (new_session (cnr_seed ready)) (sessions s2)\<rparr>))"

definition abort_pending_node :: "string \<Rightarrow> port \<Rightarrow> state \<Rightarrow> state" where
  "abort_pending_node seed hp s =
     (let s1 = s\<lparr>pending_nodes := hs_remove seed (pending_nodes s)\<rparr>
      in if hm_get (http_ports s1) hp = Some seed
         then s1\<lparr>http_ports := hm_remove hp (http_ports s1)\<rparr> else s1)"

definition resource_key :: "resource_entry \<Rightarrow> string \<times> side \<times> string" where
  "resource_key e = (re_node_seed e, re_side e, re_name e)"

text \<open>The two loops of \<^verbatim>\<open>close_session\<close> over what the session owns.\<close>

fun close_resources :: "string list \<Rightarrow> state \<Rightarrow> (side \<times> string) list \<times> state" where
  "close_resources [] s = ([], s)"
| "close_resources (r # rs) s =
     (case hm_get (resources s) r of
        None \<Rightarrow> close_resources rs s
      | Some e \<Rightarrow>
          (case close_resources rs
                  (s\<lparr>resources := hm_remove r (resources s),
                     by_name := hm_remove (resource_key e) (by_name s)\<rparr>) of
             (removals, s') \<Rightarrow> ((re_side e, re_name e) # removals, s')))"

definition remove_outputs ::
  "string \<Rightarrow> string list \<Rightarrow> (string \<times> string, string) hash_map \<Rightarrow> (string \<times> string, string) hash_map" where
  "remove_outputs seed ids m = fold hm_remove (map (\<lambda>i. (seed, i)) ids) m"

fun close_channelmappings :: "string list \<Rightarrow> state \<Rightarrow> string list \<times> state" where
  "close_channelmappings [] s = ([], s)"
| "close_channelmappings (c # cs) s =
     (case hm_get (channelmappings s) c of
        None \<Rightarrow> close_channelmappings cs s
      | Some e \<Rightarrow>
          (case close_channelmappings cs
                  (s\<lparr>channelmappings := hm_remove c (channelmappings s),
                     channelmappings_by_name :=
                       hm_remove (cm_node_seed e, cm_name e) (channelmappings_by_name s),
                     outputs_by_id :=
                       remove_outputs (cm_node_seed e) (cm_output_ids e) (outputs_by_id s)\<rparr>) of
             (removals, s') \<Rightarrow> (cm_name e # removals, s')))"

definition drop_session_streams :: "string \<Rightarrow> state \<Rightarrow> state" where
  "drop_session_streams h s =
     s\<lparr>subscriptions := hm_remove h (subscriptions s),
       annotation_subscriptions := hm_remove h (annotation_subscriptions s),
       pending_activations := hm_retain (\<lambda>_ owner. owner \<noteq> h) (pending_activations s)\<rparr>"

definition drop_session_cm_streams :: "string \<Rightarrow> state \<Rightarrow> state" where
  "drop_session_cm_streams h s =
     s\<lparr>channelmapping_subscriptions := hm_remove h (channelmapping_subscriptions s),
       pending_channelmapping_activations :=
         hm_retain (\<lambda>_ owner. owner \<noteq> h) (pending_channelmapping_activations s)\<rparr>"

definition detach_session :: "string \<Rightarrow> node_entry \<Rightarrow> state \<Rightarrow> close_outcome \<times> state" where
  "detach_session seed entry s =
     (let remaining = ne_attached_sessions entry - 1;
          destroyed = (ne_lifetime entry = SessionRefcounted \<and> remaining = 0);
          s1 = s\<lparr>nodes := hm_insert seed (entry\<lparr>ne_attached_sessions := remaining\<rparr>) (nodes s)\<rparr>
      in (\<lparr>clo_node_seed = seed, clo_node_id = ne_node_id entry, clo_lifetime = ne_lifetime entry,
           clo_remaining_sessions = remaining, clo_node_destroyed = destroyed\<rparr>,
          if destroyed
          then s1\<lparr>http_ports := hm_remove (ne_http_port entry) (http_ports s1),
                  nodes := hm_remove seed (nodes s1)\<rparr>
          else s1))"

definition close_session ::
  "string \<Rightarrow> state \<Rightarrow> (status + close_outcome \<times> close_session_ffi) \<times> state" where
  "close_session h s =
     (case hm_get (sessions s) h of
        None \<Rightarrow> (Inl (Status NotFound SessionUnknown), s)
      | Some session \<Rightarrow>
          (let s1 = drop_session_streams h (s\<lparr>sessions := hm_remove h (sessions s)\<rparr>);
               seed = se_node_seed session
           in case hm_get (nodes s1) seed of
                None \<Rightarrow> (Inl (Status Internal NodeEntryMissing), s1)
              | Some entry \<Rightarrow>
                  (let (resource_removals, s2) = close_resources (se_resources session) s1;
                       (cm_removals, s3) = close_channelmappings (se_channelmappings session) s2;
                       s4 = drop_session_cm_streams h s3;
                       (outcome, s5) = detach_session seed entry s4
                   in (Inr (outcome,
                            \<lparr>csf_server = ne_server entry, csf_resource_removals = resource_removals,
                             csf_channelmapping_removals = cm_removals\<rparr>), s5))))"

definition resource_count_for_node :: "string \<Rightarrow> state \<Rightarrow> nat" where
  "resource_count_for_node seed s = hm_count (\<lambda>e. re_node_seed e = seed) (resources s)"

section \<open>Persistent Nodes\<close>

definition prepare_add_node ::
  "(port \<Rightarrow> bool) \<Rightarrow> node_config \<Rightarrow> port_range \<Rightarrow> state \<Rightarrow> (status + create_node_prep) \<times> state" where
  "prepare_add_node bindable config rng s =
     (let seed = nc_seed config
      in case require_non_empty_seed seed of
           Inl e \<Rightarrow> (Inl e, s)
         | Inr _ \<Rightarrow>
             (if hm_contains (nodes s) seed then (Inl (Status AlreadyExists NodeExists), s)
              else if seed \<in> set (pending_nodes s)
              then (Inl (Status AlreadyExists NodeBeingCreated), s)
              else case resolve_http_port bindable (nc_http_port config) rng s of
                     Inl e \<Rightarrow> (Inl e, s)
                   | Inr hp \<Rightarrow> (case reserve_node config hp s of (prep, s') \<Rightarrow> (Inr prep, s'))))"

definition commit_add_node :: "create_node_ready \<Rightarrow> state \<Rightarrow> add_node_outcome \<times> state" where
  "commit_add_node ready s =
     (\<lparr>ano_node_id = cnr_node_id ready, ano_device_id = cnr_device_id ready,
       ano_http_port = cnr_http_port ready\<rparr>,
      s\<lparr>pending_nodes := hs_remove (cnr_seed ready) (pending_nodes s),
        nodes := hm_insert (cnr_seed ready) (node_of_ready Persistent 0 ready) (nodes s)\<rparr>)"

definition remove_node :: "string \<Rightarrow> state \<Rightarrow> (status + string \<times> server) \<times> state" where
  "remove_node seed s =
     (case require_non_empty_seed seed of
        Inl e \<Rightarrow> (Inl e, s)
      | Inr _ \<Rightarrow>
          (case hm_get (nodes s) seed of
             None \<Rightarrow> (Inl (Status NotFound NoNodeForSeed), s)
           | Some entry \<Rightarrow>
               (if ne_lifetime entry = SessionRefcounted
                then (Inl (Status FailedPrecondition NodeRefcounted), s)
                else if ne_attached_sessions entry \<noteq> 0
                then (Inl (Status FailedPrecondition (NodeHasSessions (ne_attached_sessions entry))), s)
                else (Inr (ne_node_id entry, ne_server entry),
                      s\<lparr>nodes := hm_remove seed (nodes s),
                        http_ports := hm_remove (ne_http_port entry) (http_ports s)\<rparr>))))"

section \<open>Memory trimming\<close>

text \<open>\<^verbatim>\<open>malloc_trim.rs\<close>: whether an operation that freed something trims the heap.\<close>

definition maybe_trim :: "bool \<Rightarrow> state \<Rightarrow> string \<Rightarrow> bool \<Rightarrow> bool" where
  "maybe_trim trim_enabled s seed node_removed \<longleftrightarrow>
     trim_enabled \<and> (node_removed \<or> resource_count_for_node seed s = 0)"

section \<open>Properties\<close>

text \<open>
  The HTTP port of a new Node is free in the daemon and can be bound. A port that is asked for
  is the one that is used; otherwise it is the first port of the range that is free and can be
  bound, and there is a port whenever the range has one.
\<close>

theorem resolve_http_port_correct:
  "(\<forall>p. resolve_http_port bindable requested rng s = Inr p \<longrightarrow>
      bindable p \<and> hm_get (http_ports s) p = None \<and>
      (if requested \<noteq> 0 then p = requested
       else pr_min rng \<le> p \<and> p \<le> pr_max rng \<and>
         (\<forall>q. pr_min rng \<le> q \<and> q < p \<longrightarrow> hm_get (http_ports s) q \<noteq> None \<or> \<not> bindable q))) \<and>
   (requested \<noteq> 0 \<and> bindable requested \<and> hm_get (http_ports s) requested = None \<longrightarrow>
      resolve_http_port bindable requested rng s = Inr requested) \<and>
   (requested = 0 \<and> (\<exists>q. pr_min rng \<le> q \<and> q \<le> pr_max rng \<and> hm_get (http_ports s) q = None \<and> bindable q) \<longrightarrow>
      (\<exists>p. resolve_http_port bindable requested rng s = Inr p))"
proof (cases "requested = 0")
  case True
  then show ?thesis
    by (fastforce simp: resolve_http_port_def hm_contains_def find_None_iff set_port_range_iter
        dest!: find_SomeD port_range_iter_split split: option.splits)
next
  case False
  then show ?thesis by (auto simp: resolve_http_port_def split: option.splits if_splits)
qed

theorem resolve_http_port_correct_witness:
  "\<exists>p. resolve_http_port (\<lambda>p. p \<noteq> 9001) 0 \<lparr>pr_min = 9000, pr_max = 9003\<rparr>
     (state_new\<lparr>http_ports := [(9000, ''n'')]\<rparr>) = Inr p \<and> p \<noteq> 9001 \<and> p \<noteq> 9000 \<and> p \<le> 9003"
proof -
  let ?s = "state_new\<lparr>http_ports := [(9000, ''n'')]\<rparr>" and ?b = "\<lambda>p :: port. p \<noteq> 9001"
  let ?r = "\<lparr>pr_min = 9000, pr_max = 9003\<rparr> :: port_range"
  note ok = resolve_http_port_correct [of ?b 0 ?r ?s]
  have "\<exists>q. pr_min ?r \<le> q \<and> q \<le> pr_max ?r \<and> hm_get (http_ports ?s) q = None \<and> ?b q"
    by (intro exI [of _ 9002]) simp
  with ok obtain p where p: "resolve_http_port ?b 0 ?r ?s = Inr p" by blast
  have "?b p \<and> hm_get (http_ports ?s) p = None \<and> p \<le> pr_max ?r"
    using ok [THEN conjunct1, rule_format, OF p] by simp
  with p show ?thesis by (intro exI [of _ p]) (simp split: if_splits)
qed

end
