(* ===== verification/Nvn_Subscriptions.thy ===== *)
theory Nvn_Subscriptions
  imports Nvn_State
begin

text \<open>
  The three kinds of event streams of a session in \<^verbatim>\<open>nvnmosd/src/state.rs\<close>: IS-05
  activations, IS-08 channel mapping activations and IS-13 annotations. A session has at most
  one stream of each kind. The table of a kind maps the session to the sending end of the
  stream's channel; a slot whose client is gone is found by \<^verbatim>\<open>is_closed\<close> and replaced.

  The locale \<open>subscription_slot\<close> is the contract that the three kinds share; it is
  interpreted on the operations of each of them.
\<close>

section \<open>IS-05 activations\<close>

definition subscribe_activations :: "string \<Rightarrow> chan_id \<Rightarrow> state \<Rightarrow> (status + unit) \<times> state" where
  "subscribe_activations h tx s =
     (if \<not> hm_contains (sessions s) h then (Inl (Status NotFound SessionUnknown), s)
      else case hm_get (subscriptions s) h of
        Some existing \<Rightarrow>
          (if \<not> is_closed (act_chans s) existing
           then (Inl (Status AlreadyExists AlreadySubscribed), s)
           else (Inr (), s\<lparr>subscriptions := hm_insert h tx (subscriptions s)\<rparr>))
      | None \<Rightarrow> (Inr (), s\<lparr>subscriptions := hm_insert h tx (subscriptions s)\<rparr>))"

definition has_active_subscription :: "string \<Rightarrow> state \<Rightarrow> bool" where
  "has_active_subscription h s =
     (case hm_get (subscriptions s) h of
        None \<Rightarrow> False | Some tx \<Rightarrow> \<not> is_closed (act_chans s) tx)"

definition reap_closed_subscription :: "string \<Rightarrow> state \<Rightarrow> state" where
  "reap_closed_subscription h s =
     (case hm_get (subscriptions s) h of
        None \<Rightarrow> s
      | Some tx \<Rightarrow>
          (if is_closed (act_chans s) tx then s\<lparr>subscriptions := hm_remove h (subscriptions s)\<rparr>
           else s))"

section \<open>IS-08 channel mapping activations\<close>

definition subscribe_channelmapping_activations ::
  "string \<Rightarrow> chan_id \<Rightarrow> state \<Rightarrow> (status + unit) \<times> state" where
  "subscribe_channelmapping_activations h tx s =
     (if \<not> hm_contains (sessions s) h then (Inl (Status NotFound SessionUnknown), s)
      else case hm_get (channelmapping_subscriptions s) h of
        Some existing \<Rightarrow>
          (if \<not> is_closed (cm_chans s) existing
           then (Inl (Status AlreadyExists AlreadySubscribed), s)
           else (Inr (), s\<lparr>channelmapping_subscriptions :=
                             hm_insert h tx (channelmapping_subscriptions s)\<rparr>))
      | None \<Rightarrow> (Inr (), s\<lparr>channelmapping_subscriptions :=
                             hm_insert h tx (channelmapping_subscriptions s)\<rparr>))"

definition has_active_channelmapping_subscription :: "string \<Rightarrow> state \<Rightarrow> bool" where
  "has_active_channelmapping_subscription h s =
     (case hm_get (channelmapping_subscriptions s) h of
        None \<Rightarrow> False | Some tx \<Rightarrow> \<not> is_closed (cm_chans s) tx)"

definition reap_closed_channelmapping_subscription :: "string \<Rightarrow> state \<Rightarrow> state" where
  "reap_closed_channelmapping_subscription h s =
     (case hm_get (channelmapping_subscriptions s) h of
        None \<Rightarrow> s
      | Some tx \<Rightarrow>
          (if is_closed (cm_chans s) tx
           then s\<lparr>channelmapping_subscriptions := hm_remove h (channelmapping_subscriptions s)\<rparr>
           else s))"

section \<open>IS-13 annotations\<close>

definition subscribe_annotations :: "string \<Rightarrow> chan_id \<Rightarrow> state \<Rightarrow> (status + unit) \<times> state" where
  "subscribe_annotations h tx s =
     (if \<not> hm_contains (sessions s) h then (Inl (Status NotFound SessionUnknown), s)
      else case hm_get (annotation_subscriptions s) h of
        Some existing \<Rightarrow>
          (if \<not> is_closed (ann_chans s) existing
           then (Inl (Status AlreadyExists AlreadySubscribed), s)
           else (Inr (), s\<lparr>annotation_subscriptions := hm_insert h tx (annotation_subscriptions s)\<rparr>))
      | None \<Rightarrow> (Inr (), s\<lparr>annotation_subscriptions := hm_insert h tx (annotation_subscriptions s)\<rparr>))"

definition annotation_stream_open :: "string \<Rightarrow> state \<Rightarrow> bool" where
  "annotation_stream_open h s =
     (case hm_get (annotation_subscriptions s) h of
        None \<Rightarrow> False | Some tx \<Rightarrow> \<not> is_closed (ann_chans s) tx)"

definition reap_annotation_subscription :: "string \<Rightarrow> state \<Rightarrow> state" where
  "reap_annotation_subscription h s =
     (case hm_get (annotation_subscriptions s) h of
        None \<Rightarrow> s
      | Some tx \<Rightarrow>
          (if is_closed (ann_chans s) tx
           then s\<lparr>annotation_subscriptions := hm_remove h (annotation_subscriptions s)\<rparr>
           else s))"

definition drop_annotation_subscription :: "string \<Rightarrow> state \<Rightarrow> state" where
  "drop_annotation_subscription h s =
     s\<lparr>annotation_subscriptions := hm_remove h (annotation_subscriptions s)\<rparr>"

section \<open>Ends of streams\<close>

definition has_any_activation_subscription :: "string \<Rightarrow> state \<Rightarrow> bool" where
  "has_any_activation_subscription h s \<longleftrightarrow>
     has_active_subscription h s \<or> has_active_channelmapping_subscription h s"

definition sessions_contains :: "string \<Rightarrow> state \<Rightarrow> bool" where
  "sessions_contains h s = hm_contains (sessions s) h"

definition on_subscription_stream_ended :: "string \<Rightarrow> state \<Rightarrow> bool \<times> state" where
  "on_subscription_stream_ended h s =
     (let s1 = reap_closed_subscription h s
      in (hm_contains (sessions s1) h \<and> \<not> has_any_activation_subscription h s1, s1))"

definition on_channelmapping_subscription_stream_ended :: "string \<Rightarrow> state \<Rightarrow> bool \<times> state" where
  "on_channelmapping_subscription_stream_ended h s =
     (let s1 = reap_closed_channelmapping_subscription h s
      in (hm_contains (sessions s1) h \<and> \<not> has_any_activation_subscription h s1, s1))"

section \<open>The contract of a stream slot\<close>

text \<open>
  \<open>slots\<close> is the table of one kind of stream, \<open>gone\<close> says that the client of a channel
  has left, \<open>known\<close> that a session exists. The laws are what \<^verbatim>\<open>subscribe\<close> and
  \<^verbatim>\<open>reap\<close> do with the slot of the session they are called for; they leave every other
  slot, the clients and the sessions alone.
\<close>

locale subscription_slot =
  fixes slots :: "'s \<Rightarrow> (string, chan_id) hash_map"
    and gone :: "'s \<Rightarrow> chan_id \<Rightarrow> bool"
    and known :: "'s \<Rightarrow> string \<Rightarrow> bool"
    and subscribe :: "string \<Rightarrow> chan_id \<Rightarrow> 's \<Rightarrow> (status + unit) \<times> 's"
    and reap :: "string \<Rightarrow> 's \<Rightarrow> 's"
    and live :: "string \<Rightarrow> 's \<Rightarrow> bool"
  assumes live_iff: "live h s \<longleftrightarrow> (\<exists>tx. hm_get (slots s) h = Some tx \<and> \<not> gone s tx)"
    and subscribe_refused:
      "\<not> known s h \<Longrightarrow> subscribe h tx s = (Inl (Status NotFound SessionUnknown), s)"
    and subscribe_busy:
      "known s h \<Longrightarrow> live h s \<Longrightarrow> subscribe h tx s = (Inl (Status AlreadyExists AlreadySubscribed), s)"
    and subscribe_taken: "known s h \<Longrightarrow> \<not> live h s \<Longrightarrow> fst (subscribe h tx s) = Inr ()"
    and subscribe_slot: "known s h \<Longrightarrow> \<not> live h s \<Longrightarrow> hm_get (slots (snd (subscribe h tx s))) h = Some tx"
    and subscribe_other: "h' \<noteq> h \<Longrightarrow> hm_get (slots (snd (subscribe h tx s))) h' = hm_get (slots s) h'"
    and subscribe_gone: "gone (snd (subscribe h tx s)) = gone s"
    and subscribe_known: "known (snd (subscribe h tx s)) = known s"
    and reap_slot: "hm_get (slots (reap h s)) h' = (if h' = h \<and> \<not> live h s then None else hm_get (slots s) h')"
    and reap_gone: "gone (reap h s) = gone s"
begin

lemma live_reap: "live h' (reap h s) \<longleftrightarrow> live h' s"
  by (auto simp: live_iff reap_slot reap_gone)

lemma live_subscribe_other: "h' \<noteq> h \<Longrightarrow> live h' (snd (subscribe h tx s)) \<longleftrightarrow> live h' s"
  by (simp add: live_iff subscribe_other subscribe_gone)

lemma subscribe_makes_live:
  assumes "known s h" "\<not> gone s tx"
  shows "live h (snd (subscribe h tx s))"
proof (cases "live h s")
  case True
  with assms show ?thesis by (simp add: subscribe_busy)
next
  case False
  with assms show ?thesis by (auto simp: live_iff [of h "snd (subscribe h tx s)"] subscribe_slot subscribe_gone)
qed

text \<open>A client that holds an open stream keeps it: no later subscription takes its slot.\<close>

lemma live_slot_kept:
  assumes "hm_get (slots s) h = Some tx" "\<not> gone s tx"
  shows "hm_get (slots (snd (subscribe h' tx' s))) h = Some tx"
proof (cases "h' = h")
  case True
  from assms have "live h s" by (auto simp: live_iff)
  with True assms show ?thesis
    by (cases "known s h") (simp_all add: subscribe_busy subscribe_refused)
next
  case False
  with assms show ?thesis by (simp add: subscribe_other)
qed

lemma subscribe_ok_iff: "fst (subscribe h tx s) = Inr () \<longleftrightarrow> known s h \<and> \<not> live h s"
  by (cases "known s h"; cases "live h s")
    (simp_all add: subscribe_refused subscribe_busy subscribe_taken)

lemma kept_slot:
  assumes "hm_get (slots s) h = Some tx" "\<not> gone s tx"
  shows "hm_get (slots (snd (subscribe h' tx' s))) h = Some tx" "hm_get (slots (reap h' s)) h = Some tx"
    "fst (subscribe h tx' s) \<noteq> Inr ()"
  using assms live_iff [of h s] by (auto simp: live_slot_kept reap_slot subscribe_ok_iff)

lemma slots_only_for_known:
  assumes "\<forall>h. hm_get (slots s) h \<noteq> None \<longrightarrow> known s h"
  shows "\<forall>h. hm_get (slots (snd (subscribe h' tx s))) h \<noteq> None \<longrightarrow> known (snd (subscribe h' tx s)) h"
  using assms subscribe_refused [of s h' tx] subscribe_other [of _ h' tx s]
  by (metis subscribe_known snd_conv)

end

interpretation act_sub: subscription_slot subscriptions "\<lambda>s. is_closed (act_chans s)"
  "\<lambda>s. hm_contains (sessions s)" subscribe_activations reap_closed_subscription has_active_subscription
  by unfold_locales
    (auto simp: subscribe_activations_def reap_closed_subscription_def has_active_subscription_def
      split: option.splits)

interpretation cm_sub: subscription_slot channelmapping_subscriptions "\<lambda>s. is_closed (cm_chans s)"
  "\<lambda>s. hm_contains (sessions s)" subscribe_channelmapping_activations
  reap_closed_channelmapping_subscription has_active_channelmapping_subscription
  by unfold_locales
    (auto simp: subscribe_channelmapping_activations_def reap_closed_channelmapping_subscription_def
      has_active_channelmapping_subscription_def split: option.splits)

interpretation ann_sub: subscription_slot annotation_subscriptions "\<lambda>s. is_closed (ann_chans s)"
  "\<lambda>s. hm_contains (sessions s)" subscribe_annotations reap_annotation_subscription annotation_stream_open
  by unfold_locales
    (auto simp: subscribe_annotations_def reap_annotation_subscription_def annotation_stream_open_def
      split: option.splits)

lemma reap_closed_subscription_frame:
  "reap_closed_subscription h s = s\<lparr>subscriptions := subscriptions (reap_closed_subscription h s)\<rparr>"
  by (simp add: reap_closed_subscription_def split: option.split)

lemma reap_closed_channelmapping_subscription_frame:
  "reap_closed_channelmapping_subscription h s =
     s\<lparr>channelmapping_subscriptions := channelmapping_subscriptions (reap_closed_channelmapping_subscription h s)\<rparr>"
  by (simp add: reap_closed_channelmapping_subscription_def split: option.split)

section \<open>Properties\<close>

text \<open>
  A client keeps the stream it holds. While its channel is open, no subscription of any session
  replaces its slot, and its own session is told that it has a stream already, for each of the
  three kinds of streams.
\<close>

theorem live_stream_kept:
  "(hm_get (subscriptions s) h = Some tx \<and> \<not> is_closed (act_chans s) tx \<longrightarrow>
      hm_get (subscriptions (snd (subscribe_activations h' tx' s))) h = Some tx \<and>
      hm_get (subscriptions (reap_closed_subscription h' s)) h = Some tx \<and>
      fst (subscribe_activations h tx' s) \<noteq> Inr ()) \<and>
   (hm_get (channelmapping_subscriptions s) h = Some tx \<and> \<not> is_closed (cm_chans s) tx \<longrightarrow>
      hm_get (channelmapping_subscriptions (snd (subscribe_channelmapping_activations h' tx' s))) h = Some tx \<and>
      hm_get (channelmapping_subscriptions (reap_closed_channelmapping_subscription h' s)) h = Some tx \<and>
      fst (subscribe_channelmapping_activations h tx' s) \<noteq> Inr ()) \<and>
   (hm_get (annotation_subscriptions s) h = Some tx \<and> \<not> is_closed (ann_chans s) tx \<longrightarrow>
      hm_get (annotation_subscriptions (snd (subscribe_annotations h' tx' s))) h = Some tx \<and>
      hm_get (annotation_subscriptions (reap_annotation_subscription h' s)) h = Some tx \<and>
      fst (subscribe_annotations h tx' s) \<noteq> Inr ())"
  by (simp add: act_sub.kept_slot cm_sub.kept_slot ann_sub.kept_slot)


theorem live_stream_kept_witness:
  "hm_get (subscriptions (snd (subscribe_activations ''h'' 2 (state_new\<lparr>subscriptions := [(''h'', 1)],
     act_chans := [(1, \<lparr>ch_capacity = 16, ch_queue = [], ch_rx_open = True\<rparr>)]\<rparr>)))) ''h'' = Some 1"
  using live_stream_kept [of "state_new\<lparr>subscriptions := [(''h'', 1)],
     act_chans := [(1, \<lparr>ch_capacity = 16, ch_queue = [], ch_rx_open = True\<rparr>)]\<rparr>" "''h''" 1 "''h''" 2]
  by (simp add: is_closed_def)

end
