(* ===== verification/Nvn_Resources.thy ===== *)
theory Nvn_Resources
  imports Nvn_Nodes Nvn_Subscriptions
begin

text \<open>
  Senders and receivers in \<^verbatim>\<open>nvnmosd/src/state.rs\<close>: adding one in three phases (check
  under the lock, libnvnmos without the lock, record under the lock), removing one, and pushing
  a change of state into libnvnmos.
\<close>

section \<open>Outcomes and deferred work\<close>

record add_sender_outcome =
  aso_resource_handle :: string
  aso_source_id :: string
  aso_flow_id :: string
  aso_sender_id :: string
  aso_node_seed :: string

record add_receiver_outcome =
  aro_resource_handle :: string
  aro_receiver_id :: string
  aro_node_seed :: string

record remove_resource_outcome =
  rro_node_seed :: string
  rro_name :: string
  rro_side :: side

record sync_resource_state_outcome =
  sro_node_seed :: string
  sro_name :: string
  sro_side :: side
  sro_activated :: bool

record remove_resource_ffi =
  rrf_server :: "server option"
  rrf_side :: side
  rrf_name :: string

record sync_resource_ffi =
  srf_server :: server
  srf_side :: side
  srf_name :: string
  srf_transport_file :: "string option"

record add_resource_prep =
  arp_server :: server
  arp_side :: side
  arp_transport :: transport
  arp_transport_file :: string
  arp_name :: string
  arp_node_seed :: string
  arp_session_handle :: string

record add_sender_ready =
  asr_name :: string
  asr_node_seed :: string
  asr_session_handle :: string
  asr_source_id :: string
  asr_flow_id :: string
  asr_sender_id :: string

record add_receiver_ready =
  arr_name :: string
  arr_node_seed :: string
  arr_session_handle :: string
  arr_receiver_id :: string

datatype add_resource_ready = ReadySender add_sender_ready | ReadyReceiver add_receiver_ready

definition remove_resource_ffi_run :: "'w libnvnmos \<Rightarrow> remove_resource_ffi \<Rightarrow> 'w \<Rightarrow> 'w" where
  "remove_resource_ffi_run lib ffi w =
     (case rrf_server ffi of
        None \<Rightarrow> w
      | Some srv \<Rightarrow> lib_release lib srv (snd (remove_from_server lib (rrf_side ffi) srv (rrf_name ffi) w)))"

definition sync_resource_ffi_run ::
  "'w libnvnmos \<Rightarrow> sync_resource_ffi \<Rightarrow> 'w \<Rightarrow> (status + unit) \<times> 'w" where
  "sync_resource_ffi_run lib ffi w =
     (case lib_activate_connection lib (srf_server ffi) (srf_side ffi) (srf_name ffi)
             (srf_transport_file ffi) w of
        (Inl e, w') \<Rightarrow> (Inl (libnvnmos_status e), lib_release lib (srf_server ffi) w')
      | (Inr _, w') \<Rightarrow> (Inr (), lib_release lib (srf_server ffi) w'))"

text \<open>The answer to a libnvnmos query for an id that has to exist.\<close>

definition require_id :: "nv_error + string option \<Rightarrow> status + string" where
  "require_id r = (case r of Inr (Some i) \<Rightarrow> Inr i | _ \<Rightarrow> Inl (Status Internal LibQuery))"

definition ready_after_add ::
  "'w libnvnmos \<Rightarrow> add_resource_prep \<Rightarrow> 'w \<Rightarrow> status + add_resource_ready" where
  "ready_after_add lib prep w =
     (let srv = arp_server prep; name = arp_name prep
      in case lookup_id lib (arp_side prep) srv name w of
           Inl e \<Rightarrow> Inl (Status Internal LibQuery)
         | Inr None \<Rightarrow> Inl (Status InvalidArgument EmbeddedNameDiffers)
         | Inr (Some rid) \<Rightarrow>
             (case arp_side prep of
                Sender \<Rightarrow>
                  (case require_id (lib_source_id lib srv name w) of
                     Inl e \<Rightarrow> Inl e
                   | Inr source_id \<Rightarrow>
                       (case require_id (lib_flow_id lib srv name w) of
                          Inl e \<Rightarrow> Inl e
                        | Inr flow_id \<Rightarrow>
                            Inr (ReadySender \<lparr>asr_name = name, asr_node_seed = arp_node_seed prep,
                                   asr_session_handle = arp_session_handle prep,
                                   asr_source_id = source_id, asr_flow_id = flow_id,
                                   asr_sender_id = rid\<rparr>)))
              | Receiver \<Rightarrow>
                  Inr (ReadyReceiver \<lparr>arr_name = name, arr_node_seed = arp_node_seed prep,
                         arr_session_handle = arp_session_handle prep, arr_receiver_id = rid\<rparr>)))"

definition add_resource_prep_run_ffi ::
  "'w libnvnmos \<Rightarrow> store_inner option \<Rightarrow> add_resource_prep \<Rightarrow> 'w
    \<Rightarrow> (status + add_resource_ready) \<times> 'w" where
  "add_resource_prep_run_ffi lib annotations prep w =
     (case add_to_server lib (arp_side prep) (arp_server prep) (arp_transport prep)
             (arp_transport_file prep) annotations (arp_node_seed prep) (arp_name prep) w of
        (Inl e, w') \<Rightarrow> (Inl (libnvnmos_status e), lib_release lib (arp_server prep) w')
      | (Inr _, w') \<Rightarrow> (ready_after_add lib prep w', lib_release lib (arp_server prep) w'))"

section \<open>Adding\<close>

definition prepare_add_resource ::
  "(string \<Rightarrow> json option) \<Rightarrow> side \<Rightarrow> string \<Rightarrow> transport \<Rightarrow> string \<Rightarrow> string \<Rightarrow> state
    \<Rightarrow> (status + add_resource_prep) \<times> state" where
  "prepare_add_resource from_str sd h tr file claimed s =
     (if claimed = [] then (Inl (Status InvalidArgument NameEmpty), s)
      else case transport_file_name from_str tr file of
        None \<Rightarrow> (Inl (Status InvalidArgument TransportUnnamed), s)
      | Some embedded \<Rightarrow>
          (if embedded \<noteq> claimed
           then (Inl (Status InvalidArgument (TransportNamesOther embedded)), s)
           else
             (let s1 = reap_closed_subscription h s
              in if \<not> has_active_subscription h s1
                 then (Inl (Status FailedPrecondition SubscribeRequired), s1)
                 else case hm_get (sessions s1) h of
                   None \<Rightarrow> (Inl (Status NotFound SessionUnknown), s1)
                 | Some session \<Rightarrow>
                     (let seed = se_node_seed session
                      in case hm_get (by_name s1) (seed, sd, claimed) of
                           Some existing \<Rightarrow> (Inl (Status AlreadyExists (ResourceNameExists existing)), s1)
                         | None \<Rightarrow>
                             (case hm_get (nodes s1) seed of
                                None \<Rightarrow> (Inl (Status Internal NodeEntryMissing), s1)
                              | Some node \<Rightarrow>
                                  (Inr \<lparr>arp_server = ne_server node, arp_side = sd, arp_transport = tr,
                                        arp_transport_file = file, arp_name = claimed,
                                        arp_node_seed = seed, arp_session_handle = h\<rparr>, s1))))))"

definition commit_add_resource ::
  "side \<Rightarrow> string \<Rightarrow> string \<Rightarrow> string \<Rightarrow> state \<Rightarrow> (status \<times> remove_resource_ffi + string) \<times> state" where
  "commit_add_resource sd name seed h s =
     (case hm_get (sessions s) h of
        None \<Rightarrow>
          (Inl (Status NotFound SessionClosedDuringAdd,
                \<lparr>rrf_server = map_option ne_server (hm_get (nodes s) seed), rrf_side = sd,
                 rrf_name = name\<rparr>), s)
      | Some session \<Rightarrow>
          (let (r, s1) = allocate_resource_handle s;
               entry = \<lparr>re_name = name, re_node_seed = seed, re_session_handle = h, re_side = sd\<rparr>
           in (Inr r,
               s1\<lparr>resources := hm_insert r entry (resources s1),
                  by_name := hm_insert (seed, sd, name) r (by_name s1),
                  sessions := hm_insert h
                    (session\<lparr>se_resources := hs_insert r (se_resources session)\<rparr>) (sessions s1)\<rparr>)))"

definition commit_add_sender ::
  "add_sender_ready \<Rightarrow> state \<Rightarrow> (status \<times> remove_resource_ffi + add_sender_outcome) \<times> state" where
  "commit_add_sender ready s =
     (case commit_add_resource Sender (asr_name ready) (asr_node_seed ready)
             (asr_session_handle ready) s of
        (Inl e, s') \<Rightarrow> (Inl e, s')
      | (Inr r, s') \<Rightarrow>
          (Inr \<lparr>aso_resource_handle = r, aso_source_id = asr_source_id ready,
                aso_flow_id = asr_flow_id ready, aso_sender_id = asr_sender_id ready,
                aso_node_seed = asr_node_seed ready\<rparr>, s'))"

definition commit_add_receiver ::
  "add_receiver_ready \<Rightarrow> state \<Rightarrow> (status \<times> remove_resource_ffi + add_receiver_outcome) \<times> state" where
  "commit_add_receiver ready s =
     (case commit_add_resource Receiver (arr_name ready) (arr_node_seed ready)
             (arr_session_handle ready) s of
        (Inl e, s') \<Rightarrow> (Inl e, s')
      | (Inr r, s') \<Rightarrow>
          (Inr \<lparr>aro_resource_handle = r, aro_receiver_id = arr_receiver_id ready,
                aro_node_seed = arr_node_seed ready\<rparr>, s'))"

section \<open>Removing and synchronising\<close>

definition remove_resource ::
  "string \<Rightarrow> string \<Rightarrow> state
    \<Rightarrow> (status + remove_resource_outcome \<times> remove_resource_ffi) \<times> state" where
  "remove_resource h r s =
     (case hm_get (sessions s) h of
        None \<Rightarrow> (Inl (Status NotFound SessionUnknown), s)
      | Some session \<Rightarrow>
          (if r \<notin> set (se_resources session) then (Inl (Status NotFound HandleNotOwned), s)
           else case hm_get (resources s) r of
             None \<Rightarrow> (Inl (Status Internal EntryMissing), s)
           | Some e \<Rightarrow>
               (let s1 = s\<lparr>resources := hm_remove r (resources s),
                           by_name := hm_remove (resource_key e) (by_name s),
                           sessions := hm_insert h
                             (session\<lparr>se_resources := hs_remove r (se_resources session)\<rparr>) (sessions s)\<rparr>
                in (Inr (\<lparr>rro_node_seed = re_node_seed e, rro_name = re_name e, rro_side = re_side e\<rparr>,
                         \<lparr>rrf_server = map_option ne_server (hm_get (nodes s1) (re_node_seed e)),
                          rrf_side = re_side e, rrf_name = re_name e\<rparr>), s1))))"

definition sync_resource_state ::
  "string \<Rightarrow> string \<Rightarrow> string option \<Rightarrow> state
    \<Rightarrow> status + sync_resource_state_outcome \<times> sync_resource_ffi" where
  "sync_resource_state h r file s =
     (case hm_get (sessions s) h of
        None \<Rightarrow> Inl (Status NotFound SessionUnknown)
      | Some session \<Rightarrow>
          (if r \<notin> set (se_resources session) then Inl (Status NotFound HandleNotOwned)
           else case hm_get (resources s) r of
             None \<Rightarrow> Inl (Status Internal EntryMissing)
           | Some e \<Rightarrow>
               (case hm_get (nodes s) (re_node_seed e) of
                  None \<Rightarrow> Inl (Status Internal NodeEntryMissing)
                | Some node \<Rightarrow>
                    Inr (\<lparr>sro_node_seed = re_node_seed e, sro_name = re_name e, sro_side = re_side e,
                          sro_activated = (file \<noteq> None)\<rparr>,
                         \<lparr>srf_server = ne_server node, srf_side = re_side e, srf_name = re_name e,
                          srf_transport_file = file\<rparr>))))"

end
