(* ===== verification/Nvn_Activation.thy ===== *)
theory Nvn_Activation
  imports Nvn_Resources
begin

text \<open>
  The activation router: \<^verbatim>\<open>State::dispatch_activation\<close>, \<^verbatim>\<open>complete_activation\<close> and
  \<^verbatim>\<open>cleanup_pending_activation\<close> of \<^verbatim>\<open>nvnmosd/src/state.rs\<close> and the libnvnmos
  callback \<^verbatim>\<open>route_activation\<close> of \<^verbatim>\<open>nvnmosd/src/main.rs\<close>.

  A callback runs on a thread of libnvnmos in three parts, with other calls of the daemon
  between them: it dispatches the event under the state lock, waits for the client's answer
  without the lock (\<open>recv_timeout\<close>, whose argument says that the time is up), and takes the
  lock again to clean up. \<open>route_result\<close> is what it then tells libnvnmos.

  The locale \<open>ack_protocol\<close> is the contract between a waiting callback, the client's
  acknowledgement and the clean-up. It is interpreted here for IS-05 and in the theory of channel
  mappings for IS-08.
\<close>

section \<open>Dispatch\<close>

datatype activation_dispatch = Routed string | NoResource | NoSubscriber | SubscriberBusy

definition dispatch_to_subscriber ::
  "string \<Rightarrow> string \<Rightarrow> side \<Rightarrow> string option \<Rightarrow> chan_id \<Rightarrow> state \<Rightarrow> activation_dispatch \<times> state" where
  "dispatch_to_subscriber r owner sd file tx s =
     (let (a, s1) = allocate_activation_handle s;
          event = \<lparr>ae_resource_handle = r, ae_activation_handle = a, ae_transport_file = file,
                   ae_side = side_to_proto sd\<rparr>
      in case try_send tx event (act_chans s1) of
           (SendFull, _) \<Rightarrow> (SubscriberBusy, s1)
         | (SendClosed, _) \<Rightarrow>
             (NoSubscriber, s1\<lparr>subscriptions := hm_remove owner (subscriptions s1)\<rparr>)
         | (SendOk, heap) \<Rightarrow>
             (Routed a,
              s1\<lparr>act_chans := heap,
                 pending_activations := hm_insert a owner (pending_activations s1),
                 ack_waiting := hs_insert a (ack_waiting s1)\<rparr>))"

definition dispatch_activation ::
  "string \<Rightarrow> side \<Rightarrow> string \<Rightarrow> string option \<Rightarrow> state \<Rightarrow> activation_dispatch \<times> state" where
  "dispatch_activation seed sd name file s =
     (case hm_get (by_name s) (seed, sd, name) of
        None \<Rightarrow> (NoResource, s)
      | Some r \<Rightarrow>
          (case hm_get (resources s) r of
             None \<Rightarrow> (NoResource, s)
           | Some resource \<Rightarrow>
               (let owner = re_session_handle resource;
                    s1 = reap_closed_subscription owner s
                in case hm_get (subscriptions s1) owner of
                     None \<Rightarrow> (NoSubscriber, s1)
                   | Some tx \<Rightarrow> dispatch_to_subscriber r owner sd file tx s1)))"

section \<open>Acknowledgement\<close>

definition complete_activation ::
  "string \<Rightarrow> string \<Rightarrow> ack_outcome \<Rightarrow> state \<Rightarrow> (status + unit) \<times> state" where
  "complete_activation h a outcome s =
     (if \<not> hm_contains (sessions s) h then (Inl (Status NotFound SessionUnknown), s)
      else if hm_get (pending_activations s) a \<noteq> Some h
      then (Inl (Status NotFound ActivationNotPending), s)
      else
        (let s1 = s\<lparr>pending_activations := hm_remove a (pending_activations s)\<rparr>
         in (Inr (), if a \<in> set (ack_waiting s1) then s1\<lparr>acks := hm_insert a outcome (acks s1)\<rparr> else s1)))"

definition cleanup_pending_activation :: "string \<Rightarrow> state \<Rightarrow> state" where
  "cleanup_pending_activation a s =
     s\<lparr>pending_activations := hm_remove a (pending_activations s)\<rparr>"

section \<open>The waiting callback\<close>

datatype recv_result = AckReceived ack_outcome | AckTimeout | AckDisconnected

text \<open>
  \<^verbatim>\<open>recv_timeout\<close> of the one-element channel: a value that was sent is received even
  when the sender is gone; without one the call ends when the sender is gone or when the time is
  up, and otherwise goes on waiting (\<open>None\<close>).
\<close>

definition recv_timeout ::
  "(string, ack_outcome) hash_map \<Rightarrow> (string, string) hash_map \<Rightarrow> string \<Rightarrow> bool \<Rightarrow> recv_result option" where
  "recv_timeout received pending a time_up =
     (case hm_get received a of
        Some outcome \<Rightarrow> Some (AckReceived outcome)
      | None \<Rightarrow>
          (if \<not> hm_contains pending a then Some AckDisconnected
           else if time_up then Some AckTimeout else None))"

definition activation_recv :: "string \<Rightarrow> bool \<Rightarrow> state \<Rightarrow> recv_result option" where
  "activation_recv a time_up s = recv_timeout (acks s) (pending_activations s) a time_up"

text \<open>The end of the callback: the clean-up under the lock, then the receiver is dropped.\<close>

definition activation_finish :: "string \<Rightarrow> state \<Rightarrow> state" where
  "activation_finish a s =
     (let s1 = cleanup_pending_activation a s
      in s1\<lparr>acks := hm_remove a (acks s1), ack_waiting := hs_remove a (ack_waiting s1)\<rparr>)"

fun dispatch_refusal :: "activation_dispatch \<Rightarrow> string option" where
  "dispatch_refusal (Routed a) = None"
| "dispatch_refusal NoResource = Some ''resource not known to daemon''"
| "dispatch_refusal NoSubscriber = Some ''no SubscribeActivations stream on owning session''"
| "dispatch_refusal SubscriberBusy = Some ''subscriber stream buffer is full''"

fun route_result :: "recv_result \<Rightarrow> string + unit" where
  "route_result (AckReceived outcome) =
     (if ack_success outcome then Inr () else Inl (ack_failure_reason outcome))"
| "route_result AckTimeout = Inl ''activation ack timed out''"
| "route_result AckDisconnected = Inl ''session closed before ack''"

section \<open>The contract of an acknowledgement\<close>

lemma recv_timeout_cong:
  "hm_get r a = hm_get r' a \<Longrightarrow> hm_get p a = hm_get p' a \<Longrightarrow> recv_timeout r p a t = recv_timeout r' p' a t"
  by (auto simp: recv_timeout_def hm_contains_def split: option.split)

locale ack_protocol =
  fixes pending :: "'s \<Rightarrow> (string, string) hash_map"
    and received :: "'s \<Rightarrow> (string, ack_outcome) hash_map"
    and waiting :: "'s \<Rightarrow> string hash_set"
    and known :: "'s \<Rightarrow> string \<Rightarrow> bool"
    and complete :: "string \<Rightarrow> string \<Rightarrow> ack_outcome \<Rightarrow> 's \<Rightarrow> (status + unit) \<times> 's"
    and recv :: "string \<Rightarrow> bool \<Rightarrow> 's \<Rightarrow> recv_result option"
    and finish :: "string \<Rightarrow> 's \<Rightarrow> 's"
  assumes complete_refused:
      "\<not> known s h \<or> hm_get (pending s) a \<noteq> Some h \<Longrightarrow>
       \<exists>why. complete h a outcome s = (Inl (Status NotFound why), s)"
    and complete_ok: "known s h \<Longrightarrow> hm_get (pending s) a = Some h \<Longrightarrow> fst (complete h a outcome s) = Inr ()"
    and complete_pending: "known s h \<Longrightarrow> hm_get (pending s) a = Some h \<Longrightarrow>
       hm_get (pending (snd (complete h a outcome s))) b = (if b = a then None else hm_get (pending s) b)"
    and complete_received: "known s h \<Longrightarrow> hm_get (pending s) a = Some h \<Longrightarrow>
       hm_get (received (snd (complete h a outcome s))) b =
         (if b = a \<and> a \<in> set (waiting s) then Some outcome else hm_get (received s) b)"
    and recv_eq: "recv a time_up s = recv_timeout (received s) (pending s) a time_up"
    and finish_pending: "hm_get (pending (finish a s)) b = (if b = a then None else hm_get (pending s) b)"
    and finish_received: "hm_get (received (finish a s)) b = (if b = a then None else hm_get (received s) b)"
    and finish_waiting: "set (waiting (finish a s)) = set (waiting s) - {a}"
begin

lemma complete_ok_iff:
  "fst (complete h a outcome s) = Inr () \<longleftrightarrow> known s h \<and> hm_get (pending s) a = Some h"
  using complete_refused [of s h a outcome] complete_ok [of s h a outcome] by fastforce

text \<open>Only the session that owns a pending activation acknowledges it, and only once.\<close>

lemma complete_once:
  assumes "fst (complete h a outcome s) = Inr ()"
  shows "fst (complete h' a outcome' (snd (complete h a outcome s))) \<noteq> Inr ()"
  using assms by (simp add: complete_ok_iff complete_pending)

lemma complete_other: "b \<noteq> a \<Longrightarrow> recv b t (snd (complete h a outcome s)) = recv b t s"
  using complete_refused [of s h a outcome]
  by (cases "known s h \<and> hm_get (pending s) a = Some h")
    (force simp: recv_eq complete_pending complete_received intro!: recv_timeout_cong)+

text \<open>The callback that waits receives what the client answered.\<close>

lemma complete_delivers:
  assumes "fst (complete h a outcome s) = Inr ()" "a \<in> set (waiting s)"
  shows "recv a time_up (snd (complete h a outcome s)) = Some (AckReceived outcome)"
  using assms by (simp add: complete_ok_iff recv_eq recv_timeout_def complete_received)

text \<open>A callback never waits past its time, nor for a sender that is gone.\<close>

lemma recv_ends: "recv a True s \<noteq> None"
  by (simp add: recv_eq recv_timeout_def split: option.split)

lemma recv_None_iff:
  "recv a time_up s = None \<longleftrightarrow>
     hm_get (received s) a = None \<and> hm_contains (pending s) a \<and> \<not> time_up"
  by (auto simp: recv_eq recv_timeout_def split: option.split if_splits)

lemma finish_forgets: "\<not> hm_contains (pending (finish a s)) a \<and> a \<notin> set (waiting (finish a s))"
  by (simp add: hm_contains_def finish_pending finish_waiting)

lemma finish_other: "b \<noteq> a \<Longrightarrow> recv b t (finish a s) = recv b t s"
  by (simp add: recv_eq finish_pending finish_received cong: recv_timeout_cong)

end

interpretation act_ack: ack_protocol pending_activations acks ack_waiting
  "\<lambda>s. hm_contains (sessions s)" complete_activation activation_recv activation_finish
  by unfold_locales
    (auto simp: complete_activation_def activation_recv_def activation_finish_def
      cleanup_pending_activation_def Let_def split: if_splits)

end
