(* ===== verification/Nvn_ChannelMapping.thy ===== *)
theory Nvn_ChannelMapping
  imports Nvn_Activation
begin

text \<open>
  IS-08 channel mappings in \<^verbatim>\<open>nvnmosd/src/state.rs\<close>: the ids of inputs and outputs, adding
  a channel mapping in three phases, removing and synchronising one, and routing its activations.
  The routing has the shape of the IS-05 activations, with its own tables; it interprets the same
  contract.
\<close>

section \<open>Requests\<close>

record proto_cm_input =
  pi_id :: string
  pi_name :: string
  pi_description :: string
  pi_channel_labels :: "string list"
  pi_parent_name :: string
  pi_parent_type :: int
  pi_reordering :: bool
  pi_block_size :: "32 word"

record proto_cm_output =
  po_id :: string
  po_name :: string
  po_description :: string
  po_channel_labels :: "string list"
  po_sender_name :: string
  po_routable_inputs :: "string list"

definition is_ascii_alphanumeric :: "char \<Rightarrow> bool" where
  "is_ascii_alphanumeric c =
     (let n = of_char c :: nat
      in (48 \<le> n \<and> n \<le> 57) \<or> (65 \<le> n \<and> n \<le> 90) \<or> (97 \<le> n \<and> n \<le> 122))"

definition is_channelmapping_id :: "string \<Rightarrow> bool" where
  "is_channelmapping_id i \<longleftrightarrow>
     i \<noteq> [] \<and> list_all (\<lambda>b. is_ascii_alphanumeric b \<or> b = CHR ''-'' \<or> b = CHR ''_'') i"

definition effective_channelmapping_input_ids :: "proto_cm_input list \<Rightarrow> string list" where
  "effective_channelmapping_input_ids inputs =
     map (\<lambda>(index, input). if pi_id input = [] then ''input'' @ show_nat index else pi_id input)
       (enumerate 0 inputs)"

definition effective_channelmapping_output_ids :: "proto_cm_output list \<Rightarrow> string list" where
  "effective_channelmapping_output_ids outputs =
     map (\<lambda>(index, output). if po_id output = [] then ''output'' @ show_nat index else po_id output)
       (enumerate 0 outputs)"

definition channelmapping_parent_type :: "int \<Rightarrow> parent_type" where
  "channelmapping_parent_type raw = (if raw = 1 then ParentSource else ParentReceiver)"

definition build_channelmapping ::
  "proto_cm_input list \<Rightarrow> proto_cm_output list \<Rightarrow> string list \<Rightarrow> string list \<Rightarrow> channelmapping_config" where
  "build_channelmapping inputs outputs input_ids output_ids =
     \<lparr>cc_inputs = map (\<lambda>(input, i).
        \<lparr>ci_id = i, ci_name = pi_name input, ci_description = pi_description input,
         ci_channel_labels = pi_channel_labels input, ci_parent_name = pi_parent_name input,
         ci_parent_type = channelmapping_parent_type (pi_parent_type input),
         ci_reordering = pi_reordering input, ci_block_size = pi_block_size input\<rparr>) (zip inputs input_ids),
      cc_outputs = map (\<lambda>(output, i).
        \<lparr>co_id = i, co_name = po_name output, co_description = po_description output,
         co_channel_labels = po_channel_labels output, co_sender_name = po_sender_name output,
         co_routable_inputs =
           (if po_routable_inputs output = [] then None else Some (po_routable_inputs output))\<rparr>)
        (zip outputs output_ids)\<rparr>"

definition active_map_from_proto :: "active_map_entry list \<Rightarrow> active_map_entry list" where
  "active_map_from_proto entries =
     map (\<lambda>e. \<lparr>am_input_id = am_input_id e, am_input_channel = am_input_channel e\<rparr>) entries"

definition active_map_to_proto :: "active_map_entry list \<Rightarrow> active_map_entry list" where
  "active_map_to_proto entries =
     map (\<lambda>e. \<lparr>am_input_id = am_input_id e, am_input_channel = am_input_channel e\<rparr>) entries"

section \<open>Outcomes and deferred work\<close>

record add_channelmapping_outcome =
  aco_channelmapping_handle :: string
  aco_input_ids :: "string list"
  aco_output_ids :: "string list"
  aco_node_seed :: string

record channelmapping_outcome =
  cmo_node_seed :: string
  cmo_name :: string

record remove_channelmapping_ffi =
  rcf_server :: "server option"
  rcf_name :: string

record sync_channelmapping_ffi =
  scf_server :: server
  scf_name :: string
  scf_output_id :: string
  scf_active_map :: "active_map_entry list"

record add_channelmapping_prep =
  acp_server :: server
  acp_name :: string
  acp_mapping :: channelmapping_config
  acp_node_seed :: string
  acp_session_handle :: string
  acp_input_ids :: "string list"
  acp_output_ids :: "string list"

record add_channelmapping_ready =
  acr_name :: string
  acr_node_seed :: string
  acr_session_handle :: string
  acr_input_ids :: "string list"
  acr_output_ids :: "string list"

definition remove_channelmapping_ffi_run :: "'w libnvnmos \<Rightarrow> remove_channelmapping_ffi \<Rightarrow> 'w \<Rightarrow> 'w" where
  "remove_channelmapping_ffi_run lib ffi w =
     (case rcf_server ffi of
        None \<Rightarrow> w
      | Some srv \<Rightarrow> lib_release lib srv (snd (lib_remove_channelmapping lib srv (rcf_name ffi) w)))"

definition sync_channelmapping_ffi_run ::
  "'w libnvnmos \<Rightarrow> sync_channelmapping_ffi \<Rightarrow> 'w \<Rightarrow> (status + unit) \<times> 'w" where
  "sync_channelmapping_ffi_run lib ffi w =
     (case lib_activate_channelmapping lib (scf_server ffi) (scf_name ffi) (scf_output_id ffi)
             (scf_active_map ffi) w of
        (Inl e, w') \<Rightarrow> (Inl (libnvnmos_status e), lib_release lib (scf_server ffi) w')
      | (Inr _, w') \<Rightarrow> (Inr (), lib_release lib (scf_server ffi) w'))"

definition add_channelmapping_prep_run_ffi ::
  "'w libnvnmos \<Rightarrow> add_channelmapping_prep \<Rightarrow> 'w \<Rightarrow> (status + add_channelmapping_ready) \<times> 'w" where
  "add_channelmapping_prep_run_ffi lib prep w =
     (case lib_add_channelmapping lib (acp_server prep) (acp_name prep) (acp_mapping prep) w of
        (Inl e, w') \<Rightarrow> (Inl (libnvnmos_status e), lib_release lib (acp_server prep) w')
      | (Inr _, w') \<Rightarrow>
          (Inr \<lparr>acr_name = acp_name prep, acr_node_seed = acp_node_seed prep,
                acr_session_handle = acp_session_handle prep, acr_input_ids = acp_input_ids prep,
                acr_output_ids = acp_output_ids prep\<rparr>, lib_release lib (acp_server prep) w'))"

section \<open>Adding\<close>

text \<open>The checks of the ids, in the order of the code.\<close>

definition bad_routable_input :: "proto_cm_output list \<Rightarrow> string option" where
  "bad_routable_input outputs =
     find_map (\<lambda>output. List.find (\<lambda>i. i \<noteq> [] \<and> \<not> is_channelmapping_id i) (po_routable_inputs output))
       outputs"

definition check_channelmapping_ids ::
  "proto_cm_output list \<Rightarrow> string list \<Rightarrow> string list \<Rightarrow> status option" where
  "check_channelmapping_ids outputs input_ids output_ids =
     (case List.find (\<lambda>i. \<not> is_channelmapping_id i) input_ids of
        Some i \<Rightarrow> Some (Status InvalidArgument (BadInputId i))
      | None \<Rightarrow>
          (case List.find (\<lambda>i. \<not> is_channelmapping_id i) output_ids of
             Some i \<Rightarrow> Some (Status InvalidArgument (BadOutputId i))
           | None \<Rightarrow>
               (case bad_routable_input outputs of
                  Some i \<Rightarrow> Some (Status InvalidArgument (BadRoutableInput i))
                | None \<Rightarrow> None)))"

definition entry_id_clash ::
  "string list \<Rightarrow> string list \<Rightarrow> channelmapping_entry \<Rightarrow> status option" where
  "entry_id_clash input_ids output_ids entry =
     (case List.find (\<lambda>i. i \<in> set (cm_input_ids entry)) input_ids of
        Some i \<Rightarrow> Some (Status AlreadyExists (InputIdExists i))
      | None \<Rightarrow>
          (case List.find (\<lambda>i. i \<in> set (cm_output_ids entry)) output_ids of
             Some i \<Rightarrow> Some (Status AlreadyExists (OutputIdExists i))
           | None \<Rightarrow> None))"

definition node_id_clash ::
  "string \<Rightarrow> string list \<Rightarrow> string list \<Rightarrow> state \<Rightarrow> status option" where
  "node_id_clash seed input_ids output_ids s =
     find_map (entry_id_clash input_ids output_ids)
       (filter (\<lambda>entry. cm_node_seed entry = seed) (map snd (channelmappings s)))"

definition prepare_add_channelmapping ::
  "string \<Rightarrow> string \<Rightarrow> proto_cm_input list \<Rightarrow> proto_cm_output list \<Rightarrow> state
    \<Rightarrow> (status + add_channelmapping_prep) \<times> state" where
  "prepare_add_channelmapping h name inputs outputs s =
     (if name = [] then (Inl (Status InvalidArgument NameEmpty), s)
      else
        (let s1 = reap_closed_channelmapping_subscription h s
         in if \<not> has_active_channelmapping_subscription h s1
            then (Inl (Status FailedPrecondition SubscribeRequired), s1)
            else case hm_get (sessions s1) h of
              None \<Rightarrow> (Inl (Status NotFound SessionUnknown), s1)
            | Some session \<Rightarrow>
                (let seed = se_node_seed session;
                     input_ids = effective_channelmapping_input_ids inputs;
                     output_ids = effective_channelmapping_output_ids outputs
                 in if hm_contains (channelmappings_by_name s1) (seed, name)
                    then (Inl (Status AlreadyExists ChannelMappingNameExists), s1)
                    else case check_channelmapping_ids outputs input_ids output_ids of
                      Some e \<Rightarrow> (Inl e, s1)
                    | None \<Rightarrow>
                        (case node_id_clash seed input_ids output_ids s1 of
                           Some e \<Rightarrow> (Inl e, s1)
                         | None \<Rightarrow>
                             (case hm_get (nodes s1) seed of
                                None \<Rightarrow> (Inl (Status Internal NodeEntryMissing), s1)
                              | Some node \<Rightarrow>
                                  (Inr \<lparr>acp_server = ne_server node, acp_name = name,
                                        acp_mapping = build_channelmapping inputs outputs input_ids output_ids,
                                        acp_node_seed = seed, acp_session_handle = h,
                                        acp_input_ids = input_ids, acp_output_ids = output_ids\<rparr>, s1))))))"

definition commit_add_channelmapping ::
  "add_channelmapping_ready \<Rightarrow> state
    \<Rightarrow> (status \<times> remove_channelmapping_ffi + add_channelmapping_outcome) \<times> state" where
  "commit_add_channelmapping ready s =
     (let name = acr_name ready; seed = acr_node_seed ready; h = acr_session_handle ready
      in case hm_get (sessions s) h of
           None \<Rightarrow>
             (Inl (Status NotFound SessionClosedDuringAdd,
                   \<lparr>rcf_server = map_option ne_server (hm_get (nodes s) seed), rcf_name = name\<rparr>), s)
         | Some session \<Rightarrow>
             (let (c, s1) = allocate_channelmapping_handle s;
                  entry = \<lparr>cm_name = name, cm_node_seed = seed, cm_session_handle = h,
                           cm_input_ids = remdups (acr_input_ids ready),
                           cm_output_ids = remdups (acr_output_ids ready)\<rparr>
              in (Inr \<lparr>aco_channelmapping_handle = c, aco_input_ids = acr_input_ids ready,
                       aco_output_ids = acr_output_ids ready, aco_node_seed = seed\<rparr>,
                  s1\<lparr>outputs_by_id :=
                       fold (\<lambda>k. hm_insert k c) (map (\<lambda>i. (seed, i)) (acr_output_ids ready)) (outputs_by_id s1),
                     channelmappings := hm_insert c entry (channelmappings s1),
                     channelmappings_by_name := hm_insert (seed, name) c (channelmappings_by_name s1),
                     sessions := hm_insert h
                       (session\<lparr>se_channelmappings := hs_insert c (se_channelmappings session)\<rparr>)
                       (sessions s1)\<rparr>)))"

section \<open>Removing and synchronising\<close>

definition remove_channelmapping ::
  "string \<Rightarrow> string \<Rightarrow> state \<Rightarrow> (status + channelmapping_outcome \<times> remove_channelmapping_ffi) \<times> state" where
  "remove_channelmapping h c s =
     (case hm_get (sessions s) h of
        None \<Rightarrow> (Inl (Status NotFound SessionUnknown), s)
      | Some session \<Rightarrow>
          (if c \<notin> set (se_channelmappings session) then (Inl (Status NotFound HandleNotOwned), s)
           else case hm_get (channelmappings s) c of
             None \<Rightarrow> (Inl (Status Internal EntryMissing), s)
           | Some e \<Rightarrow>
               (Inr (\<lparr>cmo_node_seed = cm_node_seed e, cmo_name = cm_name e\<rparr>,
                     \<lparr>rcf_server = map_option ne_server (hm_get (nodes s) (cm_node_seed e)),
                      rcf_name = cm_name e\<rparr>),
                s\<lparr>channelmappings := hm_remove c (channelmappings s),
                  channelmappings_by_name :=
                    hm_remove (cm_node_seed e, cm_name e) (channelmappings_by_name s),
                  outputs_by_id := remove_outputs (cm_node_seed e) (cm_output_ids e) (outputs_by_id s),
                  sessions := hm_insert h
                    (session\<lparr>se_channelmappings := hs_remove c (se_channelmappings session)\<rparr>)
                    (sessions s)\<rparr>)))"

definition sync_channelmapping_state ::
  "string \<Rightarrow> string \<Rightarrow> string \<Rightarrow> active_map_entry list \<Rightarrow> state
    \<Rightarrow> status + channelmapping_outcome \<times> sync_channelmapping_ffi" where
  "sync_channelmapping_state h c output_id active_map s =
     (case hm_get (sessions s) h of
        None \<Rightarrow> Inl (Status NotFound SessionUnknown)
      | Some session \<Rightarrow>
          (if c \<notin> set (se_channelmappings session) then Inl (Status NotFound HandleNotOwned)
           else case hm_get (channelmappings s) c of
             None \<Rightarrow> Inl (Status Internal EntryMissing)
           | Some e \<Rightarrow>
               (case hm_get (nodes s) (cm_node_seed e) of
                  None \<Rightarrow> Inl (Status Internal NodeEntryMissing)
                | Some node \<Rightarrow>
                    Inr (\<lparr>cmo_node_seed = cm_node_seed e, cmo_name = cm_name e\<rparr>,
                         \<lparr>scf_server = ne_server node, scf_name = cm_name e, scf_output_id = output_id,
                          scf_active_map = active_map_from_proto active_map\<rparr>))))"

section \<open>Routing activations\<close>

datatype cm_activation_dispatch = CmRouted string | NoChannelMapping | CmNoSubscriber | CmSubscriberBusy

definition dispatch_to_cm_subscriber ::
  "string \<Rightarrow> string \<Rightarrow> string \<Rightarrow> active_map_entry list \<Rightarrow> chan_id \<Rightarrow> state \<Rightarrow> cm_activation_dispatch \<times> state" where
  "dispatch_to_cm_subscriber c owner output_id active_map tx s =
     (let (a, s1) = allocate_channelmapping_activation_handle s;
          event = \<lparr>ce_channelmapping_handle = c, ce_activation_handle = a, ce_output_id = output_id,
                   ce_active_map = active_map\<rparr>
      in case try_send tx event (cm_chans s1) of
           (SendFull, _) \<Rightarrow> (CmSubscriberBusy, s1)
         | (SendClosed, _) \<Rightarrow>
             (CmNoSubscriber,
              s1\<lparr>channelmapping_subscriptions := hm_remove owner (channelmapping_subscriptions s1)\<rparr>)
         | (SendOk, heap) \<Rightarrow>
             (CmRouted a,
              s1\<lparr>cm_chans := heap,
                 pending_channelmapping_activations :=
                   hm_insert a owner (pending_channelmapping_activations s1),
                 cm_ack_waiting := hs_insert a (cm_ack_waiting s1)\<rparr>))"

definition dispatch_channelmapping_activation ::
  "string \<Rightarrow> string \<Rightarrow> active_map_entry list \<Rightarrow> state \<Rightarrow> cm_activation_dispatch \<times> state" where
  "dispatch_channelmapping_activation seed output_id active_map s =
     (case hm_get (outputs_by_id s) (seed, output_id) of
        None \<Rightarrow> (NoChannelMapping, s)
      | Some c \<Rightarrow>
          (case hm_get (channelmappings s) c of
             None \<Rightarrow> (NoChannelMapping, s)
           | Some e \<Rightarrow>
               (let owner = cm_session_handle e;
                    s1 = reap_closed_channelmapping_subscription owner s
                in case hm_get (channelmapping_subscriptions s1) owner of
                     None \<Rightarrow> (CmNoSubscriber, s1)
                   | Some tx \<Rightarrow> dispatch_to_cm_subscriber c owner output_id active_map tx s1)))"

definition complete_channelmapping_activation ::
  "string \<Rightarrow> string \<Rightarrow> ack_outcome \<Rightarrow> state \<Rightarrow> (status + unit) \<times> state" where
  "complete_channelmapping_activation h a outcome s =
     (if \<not> hm_contains (sessions s) h then (Inl (Status NotFound SessionUnknown), s)
      else if hm_get (pending_channelmapping_activations s) a \<noteq> Some h
      then (Inl (Status NotFound ActivationNotPending), s)
      else
        (let s1 = s\<lparr>pending_channelmapping_activations :=
                      hm_remove a (pending_channelmapping_activations s)\<rparr>
         in (Inr (), if a \<in> set (cm_ack_waiting s1)
                     then s1\<lparr>cm_acks := hm_insert a outcome (cm_acks s1)\<rparr> else s1)))"

definition cleanup_pending_channelmapping_activation :: "string \<Rightarrow> state \<Rightarrow> state" where
  "cleanup_pending_channelmapping_activation a s =
     s\<lparr>pending_channelmapping_activations := hm_remove a (pending_channelmapping_activations s)\<rparr>"

definition cm_activation_recv :: "string \<Rightarrow> bool \<Rightarrow> state \<Rightarrow> recv_result option" where
  "cm_activation_recv a time_up s =
     recv_timeout (cm_acks s) (pending_channelmapping_activations s) a time_up"

definition cm_activation_finish :: "string \<Rightarrow> state \<Rightarrow> state" where
  "cm_activation_finish a s =
     (let s1 = cleanup_pending_channelmapping_activation a s
      in s1\<lparr>cm_acks := hm_remove a (cm_acks s1), cm_ack_waiting := hs_remove a (cm_ack_waiting s1)\<rparr>)"

fun cm_dispatch_refusal :: "cm_activation_dispatch \<Rightarrow> string option" where
  "cm_dispatch_refusal (CmRouted a) = None"
| "cm_dispatch_refusal NoChannelMapping = Some ''channel mapping not known to daemon''"
| "cm_dispatch_refusal CmNoSubscriber =
     Some ''no SubscribeChannelMappingActivations stream on owning session''"
| "cm_dispatch_refusal CmSubscriberBusy = Some ''subscriber stream buffer is full''"

interpretation cm_ack: ack_protocol pending_channelmapping_activations cm_acks cm_ack_waiting
  "\<lambda>s. hm_contains (sessions s)" complete_channelmapping_activation cm_activation_recv
  cm_activation_finish
  by unfold_locales
    (auto simp: complete_channelmapping_activation_def cm_activation_recv_def cm_activation_finish_def
      cleanup_pending_channelmapping_activation_def Let_def split: if_splits)

section \<open>Lemmas on ids\<close>

lemma digit_char_alphanumeric: "d < 10 \<Longrightarrow> is_ascii_alphanumeric (digit_char d)"
  by (simp add: is_ascii_alphanumeric_def digit_char_def)

lemma show_nat_id: "list_all is_ascii_alphanumeric (show_nat n)"
proof (induction n rule: show_nat.induct)
  case (1 n)
  then show ?case
    by (cases "n < 10") (simp_all add: show_nat.simps [of n] digit_char_alphanumeric)
qed

lemma default_id_ok:
  "is_channelmapping_id (''input'' @ show_nat n)" "is_channelmapping_id (''output'' @ show_nat n)"
  using show_nat_id [of n]
  by (auto simp: is_channelmapping_id_def is_ascii_alphanumeric_def list_all_iff)

lemma find_map_None_iff: "find_map f xs = None \<longleftrightarrow> (\<forall>x \<in> set xs. f x = None)"
  by (induction xs) (auto split: option.splits)

lemma find_None_iff': "List.find P xs = None \<longleftrightarrow> (\<forall>x \<in> set xs. \<not> P x)"
  by (auto simp: find_None_iff)

lemma entry_id_clash_None_iff:
  "entry_id_clash ins outs e = None \<longleftrightarrow>
     set ins \<inter> set (cm_input_ids e) = {} \<and> set outs \<inter> set (cm_output_ids e) = {}"
proof -
  have "entry_id_clash ins outs e = None \<longleftrightarrow>
      List.find (\<lambda>i. i \<in> set (cm_input_ids e)) ins = None \<and>
      List.find (\<lambda>i. i \<in> set (cm_output_ids e)) outs = None"
    by (auto simp: entry_id_clash_def split: option.splits)
  then show ?thesis by (auto simp: find_None_iff')
qed

lemma node_id_clash_None:
  assumes "node_id_clash seed ins outs s = None" "hm_get (channelmappings s) c = Some e"
    "cm_node_seed e = seed"
  shows "set ins \<inter> set (cm_input_ids e) = {} \<and> set outs \<inter> set (cm_output_ids e) = {}"
proof -
  have "e \<in> set (map snd (channelmappings s))"
    using assms(2) by (force dest: map_of_SomeD)
  with assms show ?thesis
    by (auto simp: node_id_clash_def find_map_None_iff entry_id_clash_None_iff)
qed

section \<open>Properties\<close>

lemma check_ids_None:
  "check_channelmapping_ids outputs input_ids output_ids = None \<longleftrightarrow>
     (\<forall>i \<in> set input_ids \<union> set output_ids. is_channelmapping_id i) \<and>
     (\<forall>output \<in> set outputs. \<forall>i \<in> set (po_routable_inputs output). i = [] \<or> is_channelmapping_id i)"
proof -
  have "check_channelmapping_ids outputs input_ids output_ids = None \<longleftrightarrow>
      List.find (\<lambda>i. \<not> is_channelmapping_id i) input_ids = None \<and>
      List.find (\<lambda>i. \<not> is_channelmapping_id i) output_ids = None \<and> bad_routable_input outputs = None"
    by (auto simp: check_channelmapping_ids_def split: option.splits)
  then show ?thesis
    by (auto simp: find_None_iff' bad_routable_input_def find_map_None_iff)
qed

lemma effective_ids:
  "length (effective_channelmapping_input_ids ins) = length ins"
  "length (effective_channelmapping_output_ids outs) = length outs"
  "i < length ins \<Longrightarrow> effective_channelmapping_input_ids ins ! i =
     (if pi_id (ins ! i) = [] then ''input'' @ show_nat i else pi_id (ins ! i))"
  "i < length outs \<Longrightarrow> effective_channelmapping_output_ids outs ! i =
     (if po_id (outs ! i) = [] then ''output'' @ show_nat i else po_id (outs ! i))"
  by (simp_all add: effective_channelmapping_input_ids_def effective_channelmapping_output_ids_def nth_enumerate_eq)

lemma built_ids:
  "map ci_id (cc_inputs (build_channelmapping ins outs (effective_channelmapping_input_ids ins) ids)) =
     effective_channelmapping_input_ids ins"
  "map co_id (cc_outputs (build_channelmapping ins outs ids (effective_channelmapping_output_ids outs))) =
     effective_channelmapping_output_ids outs"
  by (simp_all add: build_channelmapping_def comp_def case_prod_beta effective_ids map_snd_zip [unfolded snd_def]
      flip: snd_def)

lemma prepare_channelmapping_ok:
  assumes "prepare_add_channelmapping h name inputs outputs s = (Inr prep, s')"
  shows "name \<noteq> [] \<and> s' = reap_closed_channelmapping_subscription h s \<and>
    has_active_channelmapping_subscription h s' \<and>
    (\<exists>session node. hm_get (sessions s') h = Some session \<and>
      hm_get (nodes s') (se_node_seed session) = Some node \<and>
      hm_get (channelmappings_by_name s') (se_node_seed session, name) = None \<and>
      (let input_ids = effective_channelmapping_input_ids inputs;
           output_ids = effective_channelmapping_output_ids outputs
       in check_channelmapping_ids outputs input_ids output_ids = None \<and>
          node_id_clash (se_node_seed session) input_ids output_ids s' = None \<and>
          prep = \<lparr>acp_server = ne_server node, acp_name = name,
            acp_mapping = build_channelmapping inputs outputs input_ids output_ids,
            acp_node_seed = se_node_seed session, acp_session_handle = h,
            acp_input_ids = input_ids, acp_output_ids = output_ids\<rparr>))"
  using assms
  by (auto simp: prepare_add_channelmapping_def Let_def hm_contains_def split: if_splits option.splits)

text \<open>
  C18. A channel mapping that passes the checks of the daemon has valid ids, one per input and
  output and as the client gave them where it gave one; none of them is in use on the Node; and
  its client holds a live stream for its activations.
\<close>

theorem channelmapping_ids_valid:
  assumes "prepare_add_channelmapping h name inputs outputs s = (Inr prep, s')"
  shows "has_active_channelmapping_subscription h s \<and>
    length (acp_input_ids prep) = length inputs \<and> length (acp_output_ids prep) = length outputs \<and>
    (\<forall>i < length inputs. pi_id (inputs ! i) \<noteq> [] \<longrightarrow> acp_input_ids prep ! i = pi_id (inputs ! i)) \<and>
    (\<forall>i < length outputs. po_id (outputs ! i) \<noteq> [] \<longrightarrow> acp_output_ids prep ! i = po_id (outputs ! i)) \<and>
    (\<forall>i \<in> set (acp_input_ids prep) \<union> set (acp_output_ids prep). is_channelmapping_id i) \<and>
    map ci_id (cc_inputs (acp_mapping prep)) = acp_input_ids prep \<and>
    map co_id (cc_outputs (acp_mapping prep)) = acp_output_ids prep \<and>
    (\<forall>c e. hm_get (channelmappings s) c = Some e \<longrightarrow> cm_node_seed e = acp_node_seed prep \<longrightarrow>
      set (acp_input_ids prep) \<inter> set (cm_input_ids e) = {} \<and>
      set (acp_output_ids prep) \<inter> set (cm_output_ids e) = {})"
proof -
  let ?ins = "effective_channelmapping_input_ids inputs" and ?outs = "effective_channelmapping_output_ids outputs"
  have s': "s' = reap_closed_channelmapping_subscription h s" "has_active_channelmapping_subscription h s'"
    and checks: "check_channelmapping_ids outputs ?ins ?outs = None"
      "node_id_clash (acp_node_seed prep) ?ins ?outs s' = None"
    and prep: "acp_input_ids prep = ?ins" "acp_output_ids prep = ?outs"
      "acp_mapping prep = build_channelmapping inputs outputs ?ins ?outs"
    using prepare_channelmapping_ok [OF assms] by (auto simp: Let_def)
  have "channelmappings s = channelmappings s'"
    using s' by (simp add: reap_closed_channelmapping_subscription_def split: option.split)
  moreover have "has_active_channelmapping_subscription h s"
    using s' cm_sub.live_reap by metis
  ultimately show ?thesis
    using checks(1) node_id_clash_None [OF checks(2)]
    by (simp add: prep effective_ids check_ids_None built_ids)
qed

theorem channelmapping_ids_valid_witness:
  "\<exists>prep s'. prepare_add_channelmapping ''h'' ''m'' [\<lparr>pi_id = [], pi_name = [], pi_description = [],
       pi_channel_labels = [], pi_parent_name = [], pi_parent_type = 0, pi_reordering = True, pi_block_size = 1\<rparr>] []
     (state_new\<lparr>sessions := [(''h'', new_session ''n'')], nodes := [(''n'', \<lparr>ne_server = 0, ne_node_id = [],
        ne_device_id = [], ne_lifetime = Persistent, ne_attached_sessions = 1, ne_http_port = 1\<rparr>)],
        channelmapping_subscriptions := [(''h'', 1)],
        cm_chans := [(1, \<lparr>ch_capacity = 16, ch_queue = [], ch_rx_open = True\<rparr>)]\<rparr>) = (Inr prep, s') \<and>
     length (acp_input_ids prep) = 1 \<and> (\<forall>i \<in> set (acp_input_ids prep). is_channelmapping_id i)"
proof -
  let ?in = "\<lparr>pi_id = [], pi_name = [], pi_description = [], pi_channel_labels = [], pi_parent_name = [],
    pi_parent_type = 0, pi_reordering = True, pi_block_size = 1\<rparr> :: proto_cm_input"
  let ?s = "state_new\<lparr>sessions := [(''h'', new_session ''n'')], nodes := [(''n'', \<lparr>ne_server = 0, ne_node_id = [],
        ne_device_id = [], ne_lifetime = Persistent, ne_attached_sessions = 1, ne_http_port = 1\<rparr>)],
        channelmapping_subscriptions := [(''h'', 1)],
        cm_chans := [(1, \<lparr>ch_capacity = 16, ch_queue = [], ch_rx_open = True\<rparr>)]\<rparr>"
  obtain prep s' where p: "prepare_add_channelmapping ''h'' ''m'' [?in] [] ?s = (Inr prep, s')"
    by (simp add: prepare_add_channelmapping_def reap_closed_channelmapping_subscription_def is_closed_def
        has_active_channelmapping_subscription_def state_new_def new_session_def Let_def hm_contains_def
        effective_channelmapping_input_ids_def effective_channelmapping_output_ids_def check_channelmapping_ids_def
        is_channelmapping_id_def is_ascii_alphanumeric_def show_nat.simps digit_char_def bad_routable_input_def
        node_id_clash_def)
  from channelmapping_ids_valid [OF p] p show ?thesis by (intro exI [of _ prep] exI [of _ s']) simp
qed

end
