(* ===== verification/Nvn_Checkpoint.thy ===== *)
theory Nvn_Checkpoint
  imports Nvn_Annotation
begin

text \<open>
  The persistent part of the annotation store (\<^verbatim>\<open>nvnmosd/src/annotation_store.rs\<close>): the
  JSON checkpoint, its reading and its atomic replacement, and the background writer thread.

  Serialisation to and from JSON is \<^verbatim>\<open>serde_json\<close>'s: the functions \<open>to_vec\<close> and
  \<open>from_reader\<close> are parameters, over an abstract type of file contents.
  The file system is a map from paths to files together with a record that says which of the
  calls of one write fail. A file that was created but not completely written is \<open>Partial\<close>;
  the directory sync, whose result the code ignores, is left out. \<^verbatim>\<open>BTreeMap\<close> is an
  association list in increasing key order.
\<close>

section \<open>The checkpoint file\<close>

record checkpoint_record =
  cr_seed :: string
  cr_resource_type :: string
  cr_name :: string
  cr_label :: "string option"
  cr_description :: "string option"
  cr_tags :: "(string \<times> string list) list"

record checkpoint_file =
  cf_version :: nat
  cf_annotations :: "checkpoint_record list"

definition CHECKPOINT_VERSION :: nat where "CHECKPOINT_VERSION = 1"

datatype checkpoint_error =
    CpOverLimit nat | CpReadFailed | CpParseFailed | CpUnsupportedVersion nat
  | CpUnknownResourceType string | CpReadOnlyTag string | CpDuplicate
  | CpSerialize | CpCreateFailed | CpWriteFailed | CpSyncFailed | CpReplaceFailed | CpSpawnFailed

datatype 'b fs_file = Partial | Contents 'b

type_synonym 'b file_system = "(string, 'b fs_file) hash_map"

record fs_faults =
  ff_open_ok :: bool
  ff_create_ok :: bool
  ff_write_ok :: bool
  ff_sync_ok :: bool
  ff_rename_ok :: bool
  ff_remove_ok :: bool

fun resource_type_name :: "resource_type \<Rightarrow> string" where
  "resource_type_name RtNode = ''node''"
| "resource_type_name RtDevice = ''device''"
| "resource_type_name RtSource = ''source''"
| "resource_type_name RtFlow = ''flow''"
| "resource_type_name RtSender = ''sender''"
| "resource_type_name RtReceiver = ''receiver''"

definition resource_type_from_name :: "string \<Rightarrow> checkpoint_error + resource_type" where
  "resource_type_from_name name =
     (if name = ''node'' then Inr RtNode
      else if name = ''device'' then Inr RtDevice
      else if name = ''source'' then Inr RtSource
      else if name = ''flow'' then Inr RtFlow
      else if name = ''sender'' then Inr RtSender
      else if name = ''receiver'' then Inr RtReceiver
      else Inl (CpUnknownResourceType name))"

definition read_only_tag :: "string \<Rightarrow> bool" where
  "read_only_tag key \<longleftrightarrow>
     starts_with key ''urn:x-nmos:tag:asset:'' \<or> starts_with key ''urn:x-nmos:tag:grouphint/'' \<or>
     starts_with key ''urn:x-nvnmos:tag:''"

definition temp_path :: "string \<Rightarrow> string" where
  "temp_path path = path @ ''.tmp''"

fun btree_insert :: "'k::linorder \<Rightarrow> 'v \<Rightarrow> ('k \<times> 'v) list \<Rightarrow> ('k \<times> 'v) list" where
  "btree_insert k v [] = [(k, v)]"
| "btree_insert k v ((k', v') # m) =
     (if k < k' then (k, v) # (k', v') # m
      else if k = k' then (k, v) # m
      else (k', v') # btree_insert k v m)"

definition btree_collect :: "('k::linorder \<times> 'v) list \<Rightarrow> ('k \<times> 'v) list" where
  "btree_collect kvs = fold (\<lambda>(k, v). btree_insert k v) kvs []"

definition stored_annotation ::
  "string option \<Rightarrow> string option \<Rightarrow> (string \<times> string list) list \<Rightarrow> annotation" where
  "stored_annotation label description tags =
     (let ts = map (\<lambda>(key, vals). \<lparr>tag_key = key, tag_values_op = Unchanged, tag_values = vals\<rparr>) tags
      in \<lparr>an_label_op = (if label \<noteq> None then Unchanged else Reset),
          an_label = label,
          an_description_op = (if description \<noteq> None then Unchanged else Reset),
          an_description = description,
          an_tags_op = (if ts \<noteq> [] then Unchanged else Reset),
          an_tags = ts\<rparr>)"

definition checkpoint_record_of :: "ann_key \<Rightarrow> annotation \<Rightarrow> checkpoint_record" where
  "checkpoint_record_of key a =
     \<lparr>cr_seed = k_seed key,
      cr_resource_type = resource_type_name (k_resource_type key),
      cr_name = k_name key,
      cr_label = present_value (an_label_op a) (an_label a),
      cr_description = present_value (an_description_op a) (an_description a),
      cr_tags = (if an_tags_op a = Reset then []
                 else btree_collect (map (\<lambda>t. (tag_key t, tag_values t)) (an_tags a)))\<rparr>"

definition checkpoint_of_entries :: "entries \<Rightarrow> checkpoint_file" where
  "checkpoint_of_entries es =
     \<lparr>cf_version = CHECKPOINT_VERSION,
      cf_annotations =
        sort_key (\<lambda>r. (cr_seed r, cr_resource_type r, cr_name r))
          (map (\<lambda>(key, a). checkpoint_record_of key a) es)\<rparr>"

text \<open>The closure of \<^verbatim>\<open>write_checkpoint\<close> that creates, fills, syncs and renames the temporary file.\<close>

definition replace_file ::
  "fs_faults \<Rightarrow> string \<Rightarrow> 'b \<Rightarrow> 'b file_system \<Rightarrow> (checkpoint_error + unit) \<times> 'b file_system" where
  "replace_file ff path body fs =
     (let tmp = temp_path path;
          fs1 = hm_insert tmp Partial fs;
          fs2 = hm_insert tmp (Contents body) fs1
      in if \<not> ff_create_ok ff then (Inl CpCreateFailed, fs)
         else if \<not> ff_write_ok ff then (Inl CpWriteFailed, fs1)
         else if \<not> ff_sync_ok ff then (Inl CpSyncFailed, fs2)
         else if \<not> ff_rename_ok ff then (Inl CpReplaceFailed, fs2)
         else (Inr (), hm_insert path (Contents body) (hm_remove tmp fs2)))"

definition write_checkpoint ::
  "(checkpoint_file \<Rightarrow> 'b option) \<Rightarrow> fs_faults \<Rightarrow> string \<Rightarrow> entries \<Rightarrow> 'b file_system
    \<Rightarrow> (checkpoint_error + unit) \<times> 'b file_system" where
  "write_checkpoint to_vec ff path es fs =
     (case to_vec (checkpoint_of_entries es) of
        None \<Rightarrow> (Inl CpSerialize, fs)
      | Some body \<Rightarrow>
          (case replace_file ff path body fs of
             (Inl e, fs') \<Rightarrow>
               (Inl e, if ff_remove_ok ff then hm_remove (temp_path path) fs' else fs')
           | (Inr u, fs') \<Rightarrow> (Inr u, fs')))"

fun read_records :: "checkpoint_record list \<Rightarrow> entries \<Rightarrow> checkpoint_error + entries" where
  "read_records [] es = Inr es"
| "read_records (r # rs) es =
     (case resource_type_from_name (cr_resource_type r) of
        Inl e \<Rightarrow> Inl e
      | Inr rt \<Rightarrow>
          (let key = make_key (cr_seed r) rt (cr_name r)
           in case List.find read_only_tag (map fst (cr_tags r)) of
                Some tag \<Rightarrow> Inl (CpReadOnlyTag tag)
              | None \<Rightarrow>
                  (if hm_contains es key then Inl CpDuplicate
                   else read_records rs
                     (hm_insert key (stored_annotation (cr_label r) (cr_description r) (cr_tags r)) es))))"

definition read_checkpoint ::
  "('b \<Rightarrow> checkpoint_file option) \<Rightarrow> fs_faults \<Rightarrow> string \<Rightarrow> 'b file_system
    \<Rightarrow> checkpoint_error + entries" where
  "read_checkpoint from_reader ff path fs =
     (case hm_get fs path of
        None \<Rightarrow> Inr []
      | Some f \<Rightarrow>
          (if \<not> ff_open_ok ff then Inl CpReadFailed
           else case (case f of Partial \<Rightarrow> None | Contents b \<Rightarrow> from_reader b) of
             None \<Rightarrow> Inl CpParseFailed
           | Some parsed \<Rightarrow>
               (if cf_version parsed \<noteq> CHECKPOINT_VERSION
                then Inl (CpUnsupportedVersion (cf_version parsed))
                else read_records (cf_annotations parsed) [])))"

text \<open>
  \<^verbatim>\<open>AnnotationStore::with_file\<close>: load, check the limit, prove that the file can be
  replaced, start the writer thread (\<open>spawn_ok\<close>).
\<close>

definition store_with_file ::
  "('b \<Rightarrow> checkpoint_file option) \<Rightarrow> (checkpoint_file \<Rightarrow> 'b option) \<Rightarrow> fs_faults \<Rightarrow> bool \<Rightarrow> string \<Rightarrow> nat
    \<Rightarrow> 'b file_system \<Rightarrow> (checkpoint_error + store_inner) \<times> 'b file_system" where
  "store_with_file from_reader to_vec ff spawn_ok path limit fs =
     (case read_checkpoint from_reader ff path fs of
        Inl e \<Rightarrow> (Inl e, fs)
      | Inr es \<Rightarrow>
          (if limit < length es then (Inl (CpOverLimit (length es)), fs)
           else case write_checkpoint to_vec ff path es fs of
             (Inl e, fs') \<Rightarrow> (Inl e, fs')
           | (Inr (), fs') \<Rightarrow>
               (if spawn_ok then (Inr \<lparr>si_entries = es, si_limit = limit\<rparr>, fs')
                else (Inl CpSpawnFailed, fs'))))"

definition default_checkpoint_file :: "string \<Rightarrow> string \<Rightarrow> string" where
  "default_checkpoint_file dir file_name = dir @ file_name @ ''-annotations.json''"

definition checkpoint_path :: "environment \<Rightarrow> string \<Rightarrow> string \<Rightarrow> string" where
  "checkpoint_path env dir file_name =
     (case env ''NVNMOSD_ANNOTATION_CHECKPOINT_FILE'' of
        Some v \<Rightarrow> if trim v \<noteq> [] then trim v else default_checkpoint_file dir file_name
      | None \<Rightarrow> default_checkpoint_file dir file_name)"

section \<open>The writer thread\<close>

datatype msg = Dirty | Flush nat | Shutdown

datatype recv = Received msg | RecvTimeout | RecvDisconnected

datatype writer_phase = WIdle | WDebounce | WExited

text \<open>
  The store as the threads share it: the locked map, the updates that have changed the map and
  not yet sent their message, the message queue, whether the sending end still exists, and the
  writer's own position, files, acknowledged flushes and whether a write has failed.
\<close>

record 'b writer_world =
  ww_inner :: store_inner
  ww_inflight :: nat
  ww_queue :: "msg list"
  ww_open :: bool
  ww_phase :: writer_phase
  ww_fs :: "'b file_system"
  ww_acked :: "nat list"
  ww_failed :: bool

definition write_snapshot ::
  "(checkpoint_file \<Rightarrow> 'b option) \<Rightarrow> fs_faults \<Rightarrow> string \<Rightarrow> 'b writer_world \<Rightarrow> 'b writer_world" where
  "write_snapshot to_vec ff path w =
     (case write_checkpoint to_vec ff path (si_entries (ww_inner w)) (ww_fs w) of
        (r, fs') \<Rightarrow> w\<lparr>ww_fs := fs', ww_failed := (ww_failed w \<or> \<not> is_ok r)\<rparr>)"

fun writer_loop ::
  "(checkpoint_file \<Rightarrow> 'b option) \<Rightarrow> fs_faults \<Rightarrow> string \<Rightarrow> recv \<Rightarrow> 'b writer_world \<Rightarrow> 'b writer_world" where
  "writer_loop to_vec ff path (Received Dirty) w = w\<lparr>ww_phase := WDebounce\<rparr>"
| "writer_loop to_vec ff path (Received (Flush a)) w =
     (let w' = write_snapshot to_vec ff path w in w'\<lparr>ww_acked := a # ww_acked w'\<rparr>)"
| "writer_loop to_vec ff path (Received Shutdown) w =
     (write_snapshot to_vec ff path w)\<lparr>ww_phase := WExited\<rparr>"
| "writer_loop to_vec ff path RecvDisconnected w =
     (write_snapshot to_vec ff path w)\<lparr>ww_phase := WExited\<rparr>"
| "writer_loop to_vec ff path RecvTimeout w = w"

fun debounce_then_write ::
  "(checkpoint_file \<Rightarrow> 'b option) \<Rightarrow> fs_faults \<Rightarrow> string \<Rightarrow> recv \<Rightarrow> 'b writer_world \<Rightarrow> 'b writer_world" where
  "debounce_then_write to_vec ff path (Received Dirty) w = w"
| "debounce_then_write to_vec ff path (Received (Flush a)) w =
     (let w' = write_snapshot to_vec ff path w in w'\<lparr>ww_acked := a # ww_acked w'\<rparr>)"
| "debounce_then_write to_vec ff path (Received Shutdown) w =
     (write_snapshot to_vec ff path w)\<lparr>ww_phase := WExited\<rparr>"
| "debounce_then_write to_vec ff path RecvDisconnected w =
     (write_snapshot to_vec ff path w)\<lparr>ww_phase := WExited\<rparr>"
| "debounce_then_write to_vec ff path RecvTimeout w =
     (write_snapshot to_vec ff path w)\<lparr>ww_phase := WIdle\<rparr>"

text \<open>
  The interleavings of the callers and the writer: \<open>apply\<close> changes the map under the lock and
  sends its message afterwards; the blocking receive of the writer times out only on an empty
  queue and reports a disconnection only when the queue is empty and the sender gone.
\<close>

inductive writer_step ::
  "(checkpoint_file \<Rightarrow> 'b option) \<Rightarrow> string \<Rightarrow> 'b writer_world \<Rightarrow> 'b writer_world \<Rightarrow> bool"
  for to_vec :: "checkpoint_file \<Rightarrow> 'b option" and path :: string
where
  apply_map: "ww_open w \<Longrightarrow> store_apply seed u (ww_inner w) = (Inr (), inner') \<Longrightarrow>
    writer_step to_vec path w (w\<lparr>ww_inner := inner', ww_inflight := Suc (ww_inflight w)\<rparr>)"
| notify: "ww_open w \<Longrightarrow> ww_inflight w = Suc n \<Longrightarrow>
    writer_step to_vec path w (w\<lparr>ww_inflight := n, ww_queue := ww_queue w @ [Dirty]\<rparr>)"
| flush: "ww_open w \<Longrightarrow>
    writer_step to_vec path w (w\<lparr>ww_queue := ww_queue w @ [Flush a]\<rparr>)"
| drop: "ww_open w \<Longrightarrow> ww_inflight w = 0 \<Longrightarrow>
    writer_step to_vec path w (w\<lparr>ww_queue := ww_queue w @ [Shutdown], ww_open := False\<rparr>)"
| idle_recv: "ww_phase w = WIdle \<Longrightarrow> ww_queue w = m # q \<Longrightarrow>
    writer_step to_vec path w (writer_loop to_vec ff path (Received m) (w\<lparr>ww_queue := q\<rparr>))"
| idle_disconnected: "ww_phase w = WIdle \<Longrightarrow> ww_queue w = [] \<Longrightarrow> \<not> ww_open w \<Longrightarrow>
    writer_step to_vec path w (writer_loop to_vec ff path RecvDisconnected w)"
| debounce_recv: "ww_phase w = WDebounce \<Longrightarrow> ww_queue w = m # q \<Longrightarrow>
    writer_step to_vec path w (debounce_then_write to_vec ff path (Received m) (w\<lparr>ww_queue := q\<rparr>))"
| debounce_timeout: "ww_phase w = WDebounce \<Longrightarrow> ww_queue w = [] \<Longrightarrow>
    writer_step to_vec path w (debounce_then_write to_vec ff path RecvTimeout w)"
| debounce_disconnected: "ww_phase w = WDebounce \<Longrightarrow> ww_queue w = [] \<Longrightarrow> \<not> ww_open w \<Longrightarrow>
    writer_step to_vec path w (debounce_then_write to_vec ff path RecvDisconnected w)"

text \<open>The state right after a successful \<open>with_file\<close>: the map has just been written.\<close>

definition writer_init :: "store_inner \<Rightarrow> 'b file_system \<Rightarrow> 'b writer_world" where
  "writer_init inner fs =
     \<lparr>ww_inner = inner, ww_inflight = 0, ww_queue = [], ww_open = True, ww_phase = WIdle,
      ww_fs = fs, ww_acked = [], ww_failed = False\<rparr>"

definition on_disk :: "(checkpoint_file \<Rightarrow> 'b option) \<Rightarrow> string \<Rightarrow> 'b writer_world \<Rightarrow> bool" where
  "on_disk to_vec path w \<longleftrightarrow>
     to_vec (checkpoint_of_entries (si_entries (ww_inner w))) \<noteq> None \<and>
     hm_get (ww_fs w) path =
       map_option Contents (to_vec (checkpoint_of_entries (si_entries (ww_inner w))))"

definition sort_tags :: "annotation \<Rightarrow> annotation" where
  "sort_tags a = a\<lparr>an_tags := sort_key tag_key (an_tags a)\<rparr>"

definition checkpointable :: "annotation \<Rightarrow> bool" where
  "checkpointable a \<longleftrightarrow>
     stored_form a \<and> distinct (map tag_key (an_tags a)) \<and>
     list_all (\<lambda>t. \<not> read_only_tag (tag_key t)) (an_tags a)"

section \<open>Lemmas on sorted maps\<close>

lemma btree_insert_insort:
  "k \<notin> fst ` set m \<Longrightarrow> btree_insert k v m = insort_key fst (k, v) m"
  by (induction k v m rule: btree_insert.induct) auto

lemma btree_fold_insort:
  "distinct (map fst kvs) \<Longrightarrow> fst ` set kvs \<inter> fst ` set m = {} \<Longrightarrow>
   fold (\<lambda>(k, v). btree_insert k v) kvs m = fold (insort_key fst) kvs m"
proof (induction kvs arbitrary: m)
  case (Cons p kvs)
  obtain k v where p: "p = (k, v)" by (cases p)
  have "k \<notin> fst ` set m" using Cons.prems by (auto simp: p)
  then have "btree_insert k v m = insort_key fst (k, v) m" by (rule btree_insert_insort)
  moreover have "fold (\<lambda>(k, v). btree_insert k v) kvs (insort_key fst (k, v) m) =
      fold (insort_key fst) kvs (insort_key fst (k, v) m)"
    using Cons.prems by (intro Cons.IH) (auto simp: p set_insort_key)
  ultimately show ?case by (simp add: p)
qed simp

lemma btree_collect_sort:
  assumes "distinct (map fst kvs)"
  shows "btree_collect kvs = sort_key fst kvs"
  using assms
  by (simp add: btree_collect_def btree_fold_insort sort_key_conv_fold distinct_map)

lemma insort_key_map: "insort_key f (g x) (map g xs) = map g (insort_key (\<lambda>y. f (g y)) x xs)"
  by (induction xs) auto

lemma sort_key_map: "sort_key f (map g xs) = map g (sort_key (f \<circ> g) xs)"
  by (induction xs) (simp_all add: insort_key_map comp_def)

section \<open>Lemmas on the checkpoint\<close>

lemma resource_type_from_to_name [simp]:
  "resource_type_from_name (resource_type_name rt) = Inr rt"
  by (cases rt) (simp_all add: resource_type_from_name_def)

lemma stored_annotation_record:
  assumes "checkpointable a"
  shows "stored_annotation (cr_label (checkpoint_record_of k a))
      (cr_description (checkpoint_record_of k a)) (cr_tags (checkpoint_record_of k a)) = sort_tags a"
proof -
  have form: "stored_form a" and dist: "distinct (map tag_key (an_tags a))"
    using assms by (simp_all add: checkpointable_def)
  have tags: "cr_tags (checkpoint_record_of k a) =
      map (\<lambda>t. (tag_key t, tag_values t)) (sort_key tag_key (an_tags a))"
    using form dist by (auto simp: checkpoint_record_of_def stored_form_def btree_collect_sort
        sort_key_map comp_def split: if_splits)
  have id: "map (\<lambda>t. \<lparr>tag_key = tag_key t, tag_values_op = Unchanged, tag_values = tag_values t\<rparr>)
      (sort_key tag_key (an_tags a)) = sort_key tag_key (an_tags a)"
    using form by (intro map_idI) (auto simp: stored_form_def list_all_iff)
  have nil: "sort_key tag_key (an_tags a) = [] \<longleftrightarrow> an_tags a = []"
    by (metis length_0_conv length_sort)
  show ?thesis
    using form unfolding tags
    by (auto intro!: annotation.equality simp: stored_annotation_def sort_tags_def checkpoint_record_of_def
        stored_form_def Let_def comp_def id nil split: if_splits)
qed

lemma record_tags_writable:
  assumes "checkpointable a"
  shows "List.find read_only_tag (map fst (cr_tags (checkpoint_record_of k a))) = None"
  using assms
  by (auto simp: find_None_iff checkpointable_def checkpoint_record_of_def list_all_iff
      btree_collect_sort comp_def split: if_splits)

lemma record_key:
  "make_key (cr_seed (checkpoint_record_of k a)) (k_resource_type k) (cr_name (checkpoint_record_of k a)) = k"
  by (simp add: make_key_def checkpoint_record_of_def)

lemma read_records_written:
  assumes "\<forall>(k, a) \<in> set es. checkpointable a" "distinct (map fst es)"
    and "fst ` set es \<inter> fst ` set acc = {}"
  shows "\<exists>es'. read_records (map (\<lambda>(k, a). checkpoint_record_of k a) es) acc = Inr es' \<and>
    (\<forall>k. hm_get es' k = (case map_of es k of Some a \<Rightarrow> Some (sort_tags a) | None \<Rightarrow> hm_get acc k))"
  using assms
proof (induction es arbitrary: acc)
  case Nil
  then show ?case by simp
next
  case (Cons p es)
  obtain k a where p: "p = (k, a)" by (cases p)
  have a: "checkpointable a" and k: "hm_get acc k = None" and nk: "map_of es k = None"
    using Cons.prems by (auto simp: p map_of_eq_None_iff)
  let ?acc = "hm_insert k (sort_tags a) acc"
  have "\<exists>es'. read_records (map (\<lambda>(k, a). checkpoint_record_of k a) es) ?acc = Inr es' \<and>
    (\<forall>k. hm_get es' k = (case map_of es k of Some a \<Rightarrow> Some (sort_tags a) | None \<Rightarrow> hm_get ?acc k))"
    using Cons.prems by (intro Cons.IH) (auto simp: p hm_insert_def hm_remove_def)
  then obtain es' where rd: "read_records (map (\<lambda>(k, a). checkpoint_record_of k a) es) ?acc = Inr es'"
    and get: "\<And>k. hm_get es' k = (case map_of es k of Some a \<Rightarrow> Some (sort_tags a) | None \<Rightarrow> hm_get ?acc k)"
    by blast
  have rt: "cr_resource_type (checkpoint_record_of k a) = resource_type_name (k_resource_type k)"
    by (simp add: checkpoint_record_of_def)
  have "read_records (map (\<lambda>(k, a). checkpoint_record_of k a) (p # es)) acc = Inr es'"
    using k rd by (simp add: p rt Let_def stored_annotation_record [OF a] record_tags_writable [OF a]
        record_key hm_contains_def)
  moreover have "hm_get es' k' = (case map_of (p # es) k' of Some a \<Rightarrow> Some (sort_tags a) | None \<Rightarrow> hm_get acc k')" for k'
    using nk by (simp add: get p split: option.split)
  ultimately show ?case by blast
qed

definition entries_checkpointable :: "entries \<Rightarrow> bool" where
  "entries_checkpointable es \<longleftrightarrow> hm_wf es \<and> list_all (\<lambda>(k, a). checkpointable a) es"

lemma read_checkpoint_of_entries:
  assumes "entries_checkpointable es"
  shows "\<exists>es'. read_records (cf_annotations (checkpoint_of_entries es)) [] = Inr es' \<and>
    (\<forall>k. hm_get es' k = map_option sort_tags (hm_get es k))"
proof -
  let ?f = "(\<lambda>r. (cr_seed r, cr_resource_type r, cr_name r)) \<circ> (\<lambda>(k, a). checkpoint_record_of k a)"
  let ?es = "sort_key ?f es"
  have dist: "distinct (map fst es)" using assms by (simp add: entries_checkpointable_def hm_wf_def)
  have dist': "distinct (map fst ?es)"
    using dist by (simp add: distinct_map)
  have same: "map_of ?es = map_of es"
    using map_of_inject_set [OF dist' dist] by simp
  have "\<exists>es'. read_records (map (\<lambda>(k, a). checkpoint_record_of k a) ?es) [] = Inr es' \<and>
    (\<forall>k. hm_get es' k = (case map_of ?es k of Some a \<Rightarrow> Some (sort_tags a) | None \<Rightarrow> hm_get [] k))"
    using assms dist' by (intro read_records_written)
      (auto simp: entries_checkpointable_def list_all_iff)
  then show ?thesis
    by (simp add: checkpoint_of_entries_def sort_key_map same map_option_case cong: option.case_cong)
qed

lemma temp_path_neq [simp]: "temp_path path \<noteq> path" "path \<noteq> temp_path path"
  by (simp_all add: temp_path_def)

lemma replace_file_ok:
  "replace_file ff path body fs = (Inr u, fs') \<Longrightarrow> hm_get fs' path = Some (Contents body)"
  by (auto simp: replace_file_def Let_def split: if_split_asm)

lemma replace_file_err:
  "replace_file ff path body fs = (Inl e, fs') \<Longrightarrow> hm_get fs' path = hm_get fs path"
  by (auto simp: replace_file_def Let_def split: if_split_asm)

lemma replace_file_frame:
  "replace_file ff path body fs = (r, fs') \<Longrightarrow> p \<noteq> path \<Longrightarrow> p \<noteq> temp_path path \<Longrightarrow>
   hm_get fs' p = hm_get fs p"
  by (auto simp: replace_file_def Let_def split: if_split_asm)

lemma write_checkpoint_ok:
  "write_checkpoint to_vec ff path es fs = (Inr u, fs') \<Longrightarrow>
   \<exists>body. to_vec (checkpoint_of_entries es) = Some body \<and> hm_get fs' path = Some (Contents body)"
  by (auto simp: write_checkpoint_def dest: replace_file_ok split: option.splits prod.splits sum.splits)

lemma write_checkpoint_err:
  "write_checkpoint to_vec ff path es fs = (Inl e, fs') \<Longrightarrow> hm_get fs' path = hm_get fs path"
  by (auto simp: write_checkpoint_def dest!: replace_file_err
      split: option.splits prod.splits sum.splits if_split_asm)

lemma replace_file_temp:
  "replace_file ff path body fs = (r, fs') \<Longrightarrow>
   hm_get fs' (temp_path path) \<in>
     (case r of Inl e \<Rightarrow> {hm_get fs (temp_path path), Some Partial, Some (Contents body)} | Inr u \<Rightarrow> {None})"
  by (auto simp: replace_file_def Let_def split: if_split_asm)

lemma write_checkpoint_temp:
  "write_checkpoint to_vec ff path es fs = (r, fs') \<Longrightarrow>
   case to_vec (checkpoint_of_entries es) of
     None \<Rightarrow> fs' = fs
   | Some body \<Rightarrow>
       hm_get fs' (temp_path path) \<in>
         (if is_ok r \<or> ff_remove_ok ff then {None}
          else {hm_get fs (temp_path path), Some Partial, Some (Contents body)})"
  by (auto simp: write_checkpoint_def dest!: replace_file_temp split: option.splits prod.splits sum.splits if_split_asm)

lemma write_checkpoint_frame:
  "write_checkpoint to_vec ff path es fs = (r, fs') \<Longrightarrow> p \<noteq> path \<Longrightarrow> p \<noteq> temp_path path \<Longrightarrow>
   hm_get fs' p = hm_get fs p"
  by (auto simp: write_checkpoint_def dest!: replace_file_frame [where p = p]
      split: option.splits prod.splits sum.splits if_split_asm)

section \<open>Lemmas on the writer\<close>

lemma write_snapshot_fields [simp]:
  "ww_inner (write_snapshot to_vec ff path w) = ww_inner w"
  "ww_inflight (write_snapshot to_vec ff path w) = ww_inflight w"
  "ww_queue (write_snapshot to_vec ff path w) = ww_queue w"
  "ww_open (write_snapshot to_vec ff path w) = ww_open w"
  "ww_phase (write_snapshot to_vec ff path w) = ww_phase w"
  "ww_acked (write_snapshot to_vec ff path w) = ww_acked w"
  by (simp_all add: write_snapshot_def split: prod.split)

lemma on_disk_cong:
  "ww_inner w' = ww_inner w \<Longrightarrow> ww_fs w' = ww_fs w \<Longrightarrow> on_disk to_vec path w' = on_disk to_vec path w"
  by (simp add: on_disk_def)

lemma write_snapshot_saves:
  "\<not> ww_failed (write_snapshot to_vec ff path w) \<Longrightarrow>
   \<not> ww_failed w \<and> on_disk to_vec path (write_snapshot to_vec ff path w)"
  using write_checkpoint_ok [of to_vec ff path "si_entries (ww_inner w)" "ww_fs w"]
  by (auto simp: write_snapshot_def on_disk_def is_ok_iff split: prod.splits)

definition writer_inv :: "(checkpoint_file \<Rightarrow> 'b option) \<Rightarrow> string \<Rightarrow> 'b writer_world \<Rightarrow> bool" where
  "writer_inv to_vec path w \<longleftrightarrow>
     (ww_open w \<or> ww_inflight w = 0) \<and>
     (ww_phase w = WExited \<longrightarrow> \<not> ww_open w) \<and>
     (ww_open w \<longrightarrow> Shutdown \<notin> set (ww_queue w)) \<and>
     (ww_failed w \<or> on_disk to_vec path w \<or> ww_phase w = WDebounce \<or>
      (Dirty \<in> set (ww_queue w) \<and> ww_phase w \<noteq> WExited) \<or> 0 < ww_inflight w)"

lemma writer_inv_init:
  "on_disk to_vec path (writer_init inner fs) \<Longrightarrow> writer_inv to_vec path (writer_init inner fs)"
  by (simp add: writer_inv_def) (simp add: writer_init_def)

lemma writer_loop_inv:
  assumes "writer_inv to_vec path w" "ww_phase w = WIdle" "ww_queue w = m # q"
  shows "writer_inv to_vec path (writer_loop to_vec ff path (Received m) (w\<lparr>ww_queue := q\<rparr>))"
proof (cases m)
  case Dirty
  with assms show ?thesis by (simp add: writer_inv_def on_disk_def)
next
  case (Flush a)
  with assms write_snapshot_saves [of to_vec ff path "w\<lparr>ww_queue := q\<rparr>"] show ?thesis
    by (auto simp: writer_inv_def Let_def on_disk_def)
next
  case Shutdown
  with assms write_snapshot_saves [of to_vec ff path "w\<lparr>ww_queue := q\<rparr>"] show ?thesis
    by (auto simp: writer_inv_def on_disk_def)
qed

lemma debounce_inv:
  assumes "writer_inv to_vec path w" "ww_phase w = WDebounce" "ww_queue w = m # q"
  shows "writer_inv to_vec path (debounce_then_write to_vec ff path (Received m) (w\<lparr>ww_queue := q\<rparr>))"
proof (cases m)
  case Dirty
  with assms show ?thesis by (simp add: writer_inv_def on_disk_def)
next
  case (Flush a)
  with assms write_snapshot_saves [of to_vec ff path "w\<lparr>ww_queue := q\<rparr>"] show ?thesis
    by (auto simp: writer_inv_def Let_def on_disk_def)
next
  case Shutdown
  with assms write_snapshot_saves [of to_vec ff path "w\<lparr>ww_queue := q\<rparr>"] show ?thesis
    by (auto simp: writer_inv_def on_disk_def)
qed

lemma writer_step_inv:
  "writer_step to_vec path w w' \<Longrightarrow> writer_inv to_vec path w \<Longrightarrow> writer_inv to_vec path w'"
proof (induction rule: writer_step.induct)
  case (idle_recv w m q ff)
  then show ?case by (intro writer_loop_inv)
next
  case (debounce_recv w m q ff)
  then show ?case by (intro debounce_inv)
next
  case (idle_disconnected w ff)
  then show ?case using write_snapshot_saves [of to_vec ff path w]
    by (auto simp: writer_inv_def on_disk_def)
next
  case (debounce_timeout w ff)
  then show ?case using write_snapshot_saves [of to_vec ff path w]
    by (auto simp: writer_inv_def on_disk_def)
next
  case (debounce_disconnected w ff)
  then show ?case using write_snapshot_saves [of to_vec ff path w]
    by (auto simp: writer_inv_def on_disk_def)
qed (auto simp: writer_inv_def on_disk_def)

lemma writer_run_inv:
  "(writer_step to_vec path)\<^sup>*\<^sup>* w w' \<Longrightarrow> writer_inv to_vec path w \<Longrightarrow> writer_inv to_vec path w'"
  by (induction rule: rtranclp_induct) (auto intro: writer_step_inv)

section \<open>Properties\<close>

text \<open>
  C15. The checkpoint is replaced atomically: when a write reports success the file holds the
  serialised store, when it reports an error the file is exactly what it was, and no file
  other than the checkpoint and its temporary file is touched. A write that succeeds leaves no
  temporary file. A write that fails at a file leaves none either, unless the file system also refuses
  to remove it; then the next write replaces it. If the store cannot be serialised no file is touched.
\<close>

theorem write_checkpoint_atomic:
  assumes "write_checkpoint to_vec ff path es fs = (r, fs')"
  shows "(case r of
      Inl e \<Rightarrow> hm_get fs' path = hm_get fs path \<and>
        (if to_vec (checkpoint_of_entries es) = None then fs' = fs
         else if ff_remove_ok ff then hm_get fs' (temp_path path) = None
         else hm_get fs' (temp_path path) \<in>
           {hm_get fs (temp_path path), Some Partial, map_option Contents (to_vec (checkpoint_of_entries es))})
    | Inr u \<Rightarrow> map_option Contents (to_vec (checkpoint_of_entries es)) = hm_get fs' path \<and>
        hm_get fs' path \<noteq> None \<and> hm_get fs' (temp_path path) = None) \<and>
    {p. hm_get fs' p \<noteq> hm_get fs p} \<subseteq> {path, temp_path path}"
proof -
  have "{p. hm_get fs' p \<noteq> hm_get fs p} \<subseteq> {path, temp_path path}"
    using write_checkpoint_frame [OF assms] by blast
  then show ?thesis
    using assms write_checkpoint_temp [OF assms]
    by (auto split: sum.split dest: write_checkpoint_ok write_checkpoint_err)
qed

text \<open>The disk is full: the file is not synced, and the temporary file goes away.\<close>

theorem write_checkpoint_atomic_witness:
  "\<exists>fs'. write_checkpoint Some \<lparr>ff_open_ok = True, ff_create_ok = True, ff_write_ok = True, ff_sync_ok = False,
      ff_rename_ok = True, ff_remove_ok = True\<rparr> ''c'' [] [(''c'', Partial)] = (Inl CpSyncFailed, fs') \<and>
    hm_get fs' ''c'' = Some Partial \<and> hm_get fs' (temp_path ''c'') = None"
proof -
  let ?ff = "\<lparr>ff_open_ok = True, ff_create_ok = True, ff_write_ok = True, ff_sync_ok = False,
      ff_rename_ok = True, ff_remove_ok = True\<rparr>"
  obtain fs' where w: "write_checkpoint Some ?ff ''c'' [] [(''c'', Partial)] = (Inl CpSyncFailed, fs')"
    by (simp add: write_checkpoint_def replace_file_def Let_def)
  with write_checkpoint_atomic [OF w] show ?thesis by simp
qed

text \<open>
  C16. Reading a checkpoint back restores the store: when the JSON library reads what it wrote,
  every annotation that the store can hold comes back, with its tags in key order, and no other
  key appears.
\<close>

theorem checkpoint_roundtrip:
  assumes serde: "\<And>f. case to_vec f of None \<Rightarrow> True | Some b \<Rightarrow> from_reader b = Some f"
    and "entries_checkpointable es" and "ff_open_ok ff'"
    and "write_checkpoint to_vec ff path es fs = (Inr u, fs')"
  shows "\<exists>es'. read_checkpoint from_reader ff' path fs' = Inr es' \<and>
    (\<forall>k. hm_get es' k = map_option sort_tags (hm_get es k))"
proof -
  obtain body where body: "to_vec (checkpoint_of_entries es) = Some body"
    and disk: "hm_get fs' path = Some (Contents body)"
    using write_checkpoint_ok [OF assms(4)] by blast
  have "from_reader body = Some (checkpoint_of_entries es)"
    using serde [of "checkpoint_of_entries es"] by (simp add: body)
  then have "read_checkpoint from_reader ff' path fs' =
      read_records (cf_annotations (checkpoint_of_entries es)) []"
    using assms(3) by (simp add: read_checkpoint_def disk checkpoint_of_entries_def)
  with read_checkpoint_of_entries [OF assms(2)] show ?thesis by simp
qed

definition no_faults :: fs_faults where
  "no_faults = \<lparr>ff_open_ok = True, ff_create_ok = True, ff_write_ok = True, ff_sync_ok = True,
     ff_rename_ok = True, ff_remove_ok = True\<rparr>"

definition demo_entries :: entries where
  "demo_entries =
     [(make_key ''s'' RtNode [],
       stored_annotation (Some ''n'') None [(''b'', [''1'']), (''a'', [])])]"

theorem checkpoint_roundtrip_witness:
  "\<exists>es'. read_checkpoint Some no_faults ''c''
      (snd (write_checkpoint Some no_faults ''c'' demo_entries [])) = Inr es' \<and>
    map_option (map tag_key \<circ> an_tags) (hm_get es' (make_key ''s'' RtNode [])) = Some [''a'', ''b'']"
proof -
  have wf: "entries_checkpointable demo_entries"
    by (simp add: entries_checkpointable_def hm_wf_def demo_entries_def checkpointable_def
        stored_form_def stored_annotation_def read_only_tag_def starts_with_def)
  have open_ok: "ff_open_ok no_faults" by (simp add: no_faults_def)
  have wr: "write_checkpoint Some no_faults ''c'' demo_entries [] =
      (Inr (), snd (write_checkpoint Some no_faults ''c'' demo_entries []))"
    by (simp add: write_checkpoint_def replace_file_def no_faults_def Let_def)
  have serde: "case Some f of None \<Rightarrow> True | Some b \<Rightarrow> Some b = Some f" for f :: checkpoint_file
    by simp
  from checkpoint_roundtrip [OF serde wf open_ok wr] obtain es' where
    "read_checkpoint Some no_faults ''c'' (snd (write_checkpoint Some no_faults ''c'' demo_entries [])) = Inr es'"
    and "\<forall>k. hm_get es' k = map_option sort_tags (hm_get demo_entries k)" by blast
  then show ?thesis
    by (simp add: demo_entries_def sort_tags_def stored_annotation_def)
qed

text \<open>
  C8. No update is lost: in every interleaving of updates, flushes, the shutdown and the writer
  thread, if no write has failed then, once the writer is idle with nothing queued or has
  exited, the checkpoint on disk is the current store.
\<close>

theorem writer_no_lost_update:
  assumes "on_disk to_vec path (writer_init inner fs)"
    and "(writer_step to_vec path)\<^sup>*\<^sup>* (writer_init inner fs) w"
    and "\<not> ww_failed w"
    and "ww_phase w = WExited \<or> ww_phase w = WIdle \<and> ww_queue w = [] \<and> ww_inflight w = 0"
  shows "on_disk to_vec path w"
  using writer_run_inv [OF assms(2) writer_inv_init [OF assms(1)]] assms(3,4)
  by (auto simp: writer_inv_def)

definition demo_world0 :: "checkpoint_file writer_world" where
  "demo_world0 = writer_init demo_store [(''c'', Contents (checkpoint_of_entries []))]"

definition demo_world1 :: "checkpoint_file writer_world" where
  "demo_world1 = demo_world0\<lparr>ww_inner := snd (store_apply ''s'' (demo_update ''x'') demo_store),
     ww_inflight := 1\<rparr>"

definition demo_world2 :: "checkpoint_file writer_world" where
  "demo_world2 = demo_world1\<lparr>ww_inflight := 0, ww_queue := [Dirty]\<rparr>"

lemma demo_apply_ok:
  "store_apply ''s'' (demo_update ''x'') demo_store =
    (Inr (), snd (store_apply ''s'' (demo_update ''x'') demo_store))"
  by (simp add: store_apply_def demo_update_def demo_store_def Let_def make_key_def
      merge_annotation_def merge_label_def merge_description_def merge_tags_def
      default_annotation_def blank_annotation_def nothing_annotated_def hm_contains_def)

lemma demo_step1: "writer_step Some ''c'' demo_world0 demo_world1"
  using writer_step.apply_map [of demo_world0 "''s''" "demo_update ''x''"
      "snd (store_apply ''s'' (demo_update ''x'') demo_store)" Some "''c''"] demo_apply_ok
  by (simp add: demo_world0_def demo_world1_def writer_init_def)

theorem writer_no_lost_update_witness:
  "\<exists>w. (writer_step Some ''c'')\<^sup>*\<^sup>* demo_world0 w \<and> ww_phase w = WIdle \<and> on_disk Some ''c'' w \<and>
     ww_inner w = snd (store_apply ''s'' (demo_update ''x'') demo_store)"
proof -
  let ?w3 = "writer_loop Some no_faults ''c'' (Received Dirty) (demo_world2\<lparr>ww_queue := []\<rparr>)"
  let ?w4 = "debounce_then_write Some no_faults ''c'' RecvTimeout ?w3"
  have s2: "writer_step Some ''c'' demo_world1 demo_world2"
    using writer_step.notify [of demo_world1 0 Some "''c''"]
    by (simp add: demo_world2_def demo_world1_def demo_world0_def writer_init_def)
  have s3: "writer_step Some ''c'' demo_world2 ?w3"
    by (rule writer_step.idle_recv)
      (simp_all add: demo_world2_def demo_world1_def demo_world0_def writer_init_def)
  have s4: "writer_step Some ''c'' ?w3 ?w4"
    by (rule writer_step.debounce_timeout) simp_all
  have run: "(writer_step Some ''c'')\<^sup>*\<^sup>* demo_world0 ?w4"
    by (rule rtranclp_4 [of "writer_step Some ''c''", OF demo_step1 s2 s3 s4])
  have ok: "\<not> ww_failed ?w4"
    by (simp add: write_snapshot_def write_checkpoint_def replace_file_def no_faults_def Let_def
        demo_world2_def demo_world1_def demo_world0_def writer_init_def)
  have start: "on_disk Some ''c'' demo_world0"
    by (simp add: on_disk_def demo_world0_def writer_init_def demo_store_def)
  have idle: "ww_phase ?w4 = WExited \<or> ww_phase ?w4 = WIdle \<and> ww_queue ?w4 = [] \<and> ww_inflight ?w4 = 0"
    by (simp add: demo_world2_def)
  have "on_disk Some ''c'' ?w4"
    by (rule writer_no_lost_update [OF start [unfolded demo_world0_def] run [unfolded demo_world0_def] ok idle])
  with run show ?thesis
    by (intro exI [of _ ?w4]) (simp add: demo_world2_def demo_world1_def)
qed

end
