(* ===== verification/Nvn_AnnotStream.thy ===== *)
theory Nvn_AnnotStream
  imports Nvn_Checkpoint Nvn_Resources
begin

text \<open>
  Annotations on the wire: the events of a \<^verbatim>\<open>SubscribeAnnotations\<close> stream, who receives
  them, the snapshot with which a stream starts, and the checks of an \<^verbatim>\<open>UpdateAnnotation\<close>
  request (\<^verbatim>\<open>nvnmosd/src/state.rs\<close> and \<^verbatim>\<open>nvnmosd/src/main.rs\<close>).

  The annotation store is an argument. The library's \<^verbatim>\<open>nmos_annotation_update\<close>, which calls
  back into the daemon, is a function on the pair of store and state with the refusal slot of the
  calling thread.
\<close>

section \<open>Events\<close>

fun proto_resource_type :: "resource_type \<Rightarrow> int" where
  "proto_resource_type RtNode = 1"
| "proto_resource_type RtDevice = 2"
| "proto_resource_type RtSource = 3"
| "proto_resource_type RtFlow = 4"
| "proto_resource_type RtSender = 5"
| "proto_resource_type RtReceiver = 6"

fun proto_update :: "update \<Rightarrow> int" where
  "proto_update Unchanged = 0"
| "proto_update Set = 1"
| "proto_update Reset = 2"

definition proto_annotation :: "annotation option \<Rightarrow> proto_annotation" where
  "proto_annotation stored =
     (case stored of
        None \<Rightarrow> \<lparr>pa_label_op = proto_update Reset, pa_label = [], pa_description_op = proto_update Reset,
                 pa_description = [], pa_tags_op = proto_update Reset, pa_tags = []\<rparr>
      | Some a \<Rightarrow>
          \<lparr>pa_label_op = proto_update (an_label_op a),
           pa_label = (case an_label a of Some l \<Rightarrow> l | None \<Rightarrow> []),
           pa_description_op = proto_update (an_description_op a),
           pa_description = (case an_description a of Some d \<Rightarrow> d | None \<Rightarrow> []),
           pa_tags_op = proto_update (an_tags_op a),
           pa_tags = map (\<lambda>t. \<lparr>pt_key = tag_key t, pt_values_op = proto_update (tag_values_op t),
                               pt_values = tag_values t\<rparr>) (an_tags a)\<rparr>)"

definition annotation_event :: "resource_type \<Rightarrow> string \<Rightarrow> annotation option \<Rightarrow> annotation_event" where
  "annotation_event rt r stored =
     \<lparr>ve_resource_type = proto_resource_type rt, ve_resource_handle = r,
      ve_annotation = proto_annotation stored\<rparr>"

fun resource_types_for_side :: "side \<Rightarrow> resource_type list" where
  "resource_types_for_side Sender = [RtSource, RtFlow, RtSender]"
| "resource_types_for_side Receiver = [RtReceiver]"

section \<open>Which resource an update is for\<close>

definition owned_resource_name :: "string \<Rightarrow> string \<Rightarrow> side \<Rightarrow> state \<Rightarrow> status + string" where
  "owned_resource_name h r sd s =
     (case hm_get (sessions s) h of
        None \<Rightarrow> Inl (Status NotFound SessionUnknown)
      | Some session \<Rightarrow>
          (if r = [] \<or> r \<notin> set (se_resources session) then Inl (Status NotFound HandleNotOwned)
           else case hm_get (resources s) r of
             None \<Rightarrow> Inl (Status Internal EntryMissing)
           | Some e \<Rightarrow>
               (if re_side e \<noteq> sd then Inl (Status InvalidArgument TypeOfOtherSide)
                else Inr (re_name e))))"

record annotation_update_prep =
  aup_server :: server
  aup_resource_type :: resource_type
  aup_name :: "string option"

fun side_of_type :: "resource_type \<Rightarrow> side option" where
  "side_of_type RtNode = None"
| "side_of_type RtDevice = None"
| "side_of_type RtSource = Some Sender"
| "side_of_type RtFlow = Some Sender"
| "side_of_type RtSender = Some Sender"
| "side_of_type RtReceiver = Some Receiver"

definition prepare_annotation_update ::
  "string \<Rightarrow> resource_type \<Rightarrow> string \<Rightarrow> state \<Rightarrow> status + annotation_update_prep" where
  "prepare_annotation_update h rt r s =
     (case hm_get (sessions s) h of
        None \<Rightarrow> Inl (Status NotFound SessionUnknown)
      | Some session \<Rightarrow>
          (case hm_get (nodes s) (se_node_seed session) of
             None \<Rightarrow> Inl (Status Internal NodeEntryMissing)
           | Some node \<Rightarrow>
               (case side_of_type rt of
                  None \<Rightarrow>
                    (if r \<noteq> [] then Inl (Status InvalidArgument HandleMustBeEmpty)
                     else Inr \<lparr>aup_server = ne_server node, aup_resource_type = rt, aup_name = None\<rparr>)
                | Some sd \<Rightarrow>
                    (case owned_resource_name h r sd s of
                       Inl e \<Rightarrow> Inl e
                     | Inr name \<Rightarrow>
                         Inr \<lparr>aup_server = ne_server node, aup_resource_type = rt,
                              aup_name = Some name\<rparr>))))"

section \<open>The snapshot\<close>

definition owned_resources :: "session_entry \<Rightarrow> state \<Rightarrow> (string \<times> string \<times> side) list" where
  "owned_resources session s =
     sort_key (\<lambda>(r, name, sd). (name, side_order sd))
       (List.map_filter
          (\<lambda>r. map_option (\<lambda>e. (r, re_name e, re_side e)) (hm_get (resources s) r))
          (se_resources session))"

definition resource_events ::
  "store_inner \<Rightarrow> string \<Rightarrow> string \<times> string \<times> side \<Rightarrow> annotation_event list" where
  "resource_events store seed = (\<lambda>(r, name, sd).
     map (\<lambda>rt. annotation_event rt r (store_get store seed rt name)) (resource_types_for_side sd))"

definition annotation_snapshot :: "string \<Rightarrow> store_inner \<Rightarrow> state \<Rightarrow> status + annotation_event list" where
  "annotation_snapshot h store s =
     (case hm_get (sessions s) h of
        None \<Rightarrow> Inl (Status NotFound SessionUnknown)
      | Some session \<Rightarrow>
          (let seed = se_node_seed session
           in Inr ([annotation_event RtNode [] (store_get store seed RtNode []),
                    annotation_event RtDevice [] (store_get store seed RtDevice [])]
                   @ concat (map (resource_events store seed) (owned_resources session s)))))"

section \<open>Publishing\<close>

definition resource_recipient :: "string \<Rightarrow> side \<Rightarrow> string \<Rightarrow> state \<Rightarrow> (string \<times> string) list" where
  "resource_recipient seed sd name s =
     (case hm_get (by_name s) (seed, sd, name) of
        None \<Rightarrow> []
      | Some r \<Rightarrow>
          (case hm_get (resources s) r of
             None \<Rightarrow> []
           | Some e \<Rightarrow>
               (if annotation_stream_open (re_session_handle e) s
                then [(re_session_handle e, r)] else [])))"

definition annotation_recipients ::
  "string \<Rightarrow> resource_type \<Rightarrow> string \<Rightarrow> state \<Rightarrow> (string \<times> string) list" where
  "annotation_recipients seed rt name s =
     (case side_of_type rt of
        None \<Rightarrow>
          map (\<lambda>(h, session). (h, []))
            (filter (\<lambda>(h, session). se_node_seed session = seed \<and> annotation_stream_open h s) (sessions s))
      | Some sd \<Rightarrow> resource_recipient seed sd name s)"

definition send_annotation :: "string \<Rightarrow> annotation_event \<Rightarrow> state \<Rightarrow> state" where
  "send_annotation h event s =
     (case hm_get (annotation_subscriptions s) h of
        None \<Rightarrow> s
      | Some tx \<Rightarrow>
          (if is_closed (ann_chans s) tx
           then s\<lparr>annotation_subscriptions := hm_remove h (annotation_subscriptions s)\<rparr>
           else case try_send tx event (ann_chans s) of
             (SendOk, heap) \<Rightarrow> s\<lparr>ann_chans := heap\<rparr>
           | (SendFull, _) \<Rightarrow> s\<lparr>annotation_subscriptions := hm_remove h (annotation_subscriptions s)\<rparr>
           | (SendClosed, _) \<Rightarrow>
               s\<lparr>annotation_subscriptions := hm_remove h (annotation_subscriptions s)\<rparr>))"

definition publish_annotation :: "string \<Rightarrow> annotation_update \<Rightarrow> store_inner \<Rightarrow> state \<Rightarrow> state" where
  "publish_annotation seed upd store s =
     (let name = (case au_name upd of Some n \<Rightarrow> n | None \<Rightarrow> []);
          rt = au_resource_type upd;
          stored = store_get store seed rt name
      in fold (\<lambda>(h, r). send_annotation h (annotation_event rt r stored))
           (annotation_recipients seed rt name s) s)"

definition emit_added_resource :: "string \<Rightarrow> store_inner \<Rightarrow> state \<Rightarrow> state" where
  "emit_added_resource r store s =
     (case hm_get (resources s) r of
        None \<Rightarrow> s
      | Some e \<Rightarrow>
          (if \<not> annotation_stream_open (re_session_handle e) s then s
           else fold (send_annotation (re_session_handle e))
                  (resource_events store (re_node_seed e) (r, re_name e, re_side e)) s))"

text \<open>
  The callback \<^verbatim>\<open>on_annotation_updated\<close> that \<^verbatim>\<open>CreateNodePrep::run_ffi\<close> installs,
  under the state lock: store the update, or note the refusal; then publish.
\<close>

record ann_world =
  aw_store :: store_inner
  aw_state :: state
  aw_refusal :: "store_error option"

definition on_annotation_updated :: "string \<Rightarrow> annotation_update \<Rightarrow> ann_world \<Rightarrow> (store_error + unit) \<times> ann_world" where
  "on_annotation_updated seed upd w =
     (case store_apply seed upd (aw_store w) of
        (Inl e, store) \<Rightarrow> (Inl e, w\<lparr>aw_store := store, aw_refusal := Some e\<rparr>)
      | (Inr _, store) \<Rightarrow>
          (Inr (), w\<lparr>aw_store := store, aw_state := publish_annotation seed upd store (aw_state w)\<rparr>))"

section \<open>Requests\<close>

definition subscription_buffer :: nat where
  "subscription_buffer = 16"

fun send_all :: "chan_id \<Rightarrow> 'e list \<Rightarrow> 'e chan_heap \<Rightarrow> bool \<times> 'e chan_heap" where
  "send_all tx [] heap = (True, heap)"
| "send_all tx (e # es) heap =
     (case try_send tx e heap of
        (SendOk, heap') \<Rightarrow> send_all tx es heap'
      | (_, heap') \<Rightarrow> (False, heap'))"

text \<open>
  The handler of \<^verbatim>\<open>SubscribeAnnotations\<close>: the snapshot and the registration happen under one
  hold of the state lock. The result is the receiving end of the stream.
\<close>

definition subscribe_annotations_rpc ::
  "store_inner option \<Rightarrow> string \<Rightarrow> state \<Rightarrow> (status + chan_id) \<times> state" where
  "subscribe_annotations_rpc annotations h s =
     (case annotations of
        None \<Rightarrow> (Inl (Status FailedPrecondition AnnotationApiOff), s)
      | Some store \<Rightarrow>
          (case annotation_snapshot h store s of
             Inl e \<Rightarrow> (Inl e, s)
           | Inr evs \<Rightarrow>
               (let (tx, heap) = new_chan (max (length evs) subscription_buffer) (ann_chans s)
                in case subscribe_annotations h tx (s\<lparr>ann_chans := heap\<rparr>) of
                     (Inl e, s1) \<Rightarrow> (Inl e, s1\<lparr>ann_chans := chan_drop_rx tx (ann_chans s1)\<rparr>)
                   | (Inr _, s1) \<Rightarrow>
                       (case annotation_snapshot h store s1 of
                          Inl e \<Rightarrow> (Inl e, s1\<lparr>ann_chans := chan_drop_rx tx (ann_chans s1)\<rparr>)
                        | Inr events \<Rightarrow>
                            (case send_all tx events (ann_chans s1) of
                               (True, heap') \<Rightarrow> (Inr tx, s1\<lparr>ann_chans := heap'\<rparr>)
                             | (False, heap') \<Rightarrow>
                                 (Inl (Status Internal SnapshotDoesNotFit),
                                  drop_annotation_subscription h
                                    (s1\<lparr>ann_chans := chan_drop_rx tx heap'\<rparr>)))))))"

definition decode_resource_type :: "int \<Rightarrow> status + resource_type" where
  "decode_resource_type raw =
     (if raw = 1 then Inr RtNode else if raw = 2 then Inr RtDevice else if raw = 3 then Inr RtSource
      else if raw = 4 then Inr RtFlow else if raw = 5 then Inr RtSender
      else if raw = 6 then Inr RtReceiver
      else Inl (Status InvalidArgument ResourceTypeUnspecified))"

definition decode_update :: "int \<Rightarrow> status + update" where
  "decode_update raw =
     (if raw = 0 then Inr Unchanged else if raw = 1 then Inr Set else if raw = 2 then Inr Reset
      else Inl (Status InvalidArgument UnknownUpdate))"

fun decode_tags :: "string hash_set \<Rightarrow> proto_tag list \<Rightarrow> status + annotation_tag list" where
  "decode_tags seen [] = Inr []"
| "decode_tags seen (tag # tags) =
     (case decode_update (pt_values_op tag) of
        Inl e \<Rightarrow> Inl e
      | Inr Unchanged \<Rightarrow> decode_tags seen tags
      | Inr u \<Rightarrow>
          (if pt_key tag = [] then Inl (Status InvalidArgument TagKeyEmpty)
           else if pt_key tag \<in> set seen then Inl (Status InvalidArgument (TagDuplicate (pt_key tag)))
           else if read_only_tag (pt_key tag) then Inl (Status InvalidArgument (TagReadOnly (pt_key tag)))
           else case decode_tags (hs_insert (pt_key tag) seen) tags of
             Inl e \<Rightarrow> Inl e
           | Inr ts \<Rightarrow>
               Inr (\<lparr>tag_key = pt_key tag, tag_values_op = u, tag_values = pt_values tag\<rparr> # ts)))"

definition decode_annotation_update :: "proto_annotation option \<Rightarrow> status + annotation" where
  "decode_annotation_update annotation =
     (case annotation of
        None \<Rightarrow> Inr default_annotation
      | Some p \<Rightarrow>
          (case decode_update (pa_label_op p) of
             Inl e \<Rightarrow> Inl e
           | Inr lu \<Rightarrow>
               (case decode_update (pa_description_op p) of
                  Inl e \<Rightarrow> Inl e
                | Inr du \<Rightarrow>
                    (case decode_update (pa_tags_op p) of
                       Inl e \<Rightarrow> Inl e
                     | Inr tu \<Rightarrow>
                         (case (if tu = Set then decode_tags [] (pa_tags p) else Inr []) of
                            Inl e \<Rightarrow> Inl e
                          | Inr tags \<Rightarrow>
                              Inr \<lparr>an_label_op = lu,
                                   an_label = (if lu = Set then Some (pa_label p) else None),
                                   an_description_op = du,
                                   an_description = (if du = Set then Some (pa_description p) else None),
                                   an_tags_op = tu, an_tags = tags\<rparr>)))))"

text \<open>
  The handler of \<^verbatim>\<open>UpdateAnnotation\<close>. The library call is a parameter; it may run the
  callback above on the same thread, which leaves its reason in the refusal slot.
\<close>

definition update_annotation_rpc ::
  "(server \<Rightarrow> resource_type \<Rightarrow> string option \<Rightarrow> annotation \<Rightarrow> ann_world \<Rightarrow> (nv_error + unit) \<times> ann_world)
    \<Rightarrow> bool \<Rightarrow> string \<Rightarrow> int \<Rightarrow> string \<Rightarrow> proto_annotation option \<Rightarrow> ann_world
    \<Rightarrow> (status + unit) \<times> ann_world" where
  "update_annotation_rpc lib_update api_on h raw_type r annotation w =
     (if \<not> api_on then (Inl (Status FailedPrecondition AnnotationApiOff), w)
      else case decode_resource_type raw_type of
        Inl e \<Rightarrow> (Inl e, w)
      | Inr rt \<Rightarrow>
          (case decode_annotation_update annotation of
             Inl e \<Rightarrow> (Inl e, w)
           | Inr a \<Rightarrow>
               (case prepare_annotation_update h rt r (aw_state w) of
                  Inl e \<Rightarrow> (Inl e, w)
                | Inr prep \<Rightarrow>
                    (case lib_update (aup_server prep) (aup_resource_type prep) (aup_name prep) a
                            (w\<lparr>aw_refusal := None\<rparr>) of
                       (Inr _, w') \<Rightarrow> (Inr (), w')
                     | (Inl e, w') \<Rightarrow>
                         (Inl (case aw_refusal w' of
                                 Some why \<Rightarrow> Status FailedPrecondition StoreRefused
                               | None \<Rightarrow> Status UnknownCode LibCall),
                          w'\<lparr>aw_refusal := None\<rparr>)))))"

section \<open>Properties\<close>

lemma send_all_room:
  assumes "hm_get heap tx = Some c" "ch_rx_open c" "length (ch_queue c) + length es \<le> ch_capacity c"
  shows "\<exists>heap'. send_all tx es heap = (True, heap') \<and> \<not> is_closed heap' tx \<and>
    queue_of heap' tx = ch_queue c @ es"
  using assms
proof (induction es arbitrary: heap c)
  case Nil
  then show ?case by (simp add: is_closed_def queue_of_def)
next
  case (Cons e es)
  let ?c = "c\<lparr>ch_queue := ch_queue c @ [e]\<rparr>"
  have "try_send tx e heap = (SendOk, hm_insert tx ?c heap)"
    using Cons.prems by (intro try_send_room) auto
  moreover have "\<exists>heap'. send_all tx es (hm_insert tx ?c heap) = (True, heap') \<and> \<not> is_closed heap' tx \<and>
      queue_of heap' tx = ch_queue ?c @ es"
    using Cons.prems by (intro Cons.IH) auto
  ultimately show ?case by simp
qed

lemma annotation_snapshot_cong:
  "sessions s' = sessions s \<Longrightarrow> resources s' = resources s \<Longrightarrow>
   annotation_snapshot h store s' = annotation_snapshot h store s"
  by (simp add: annotation_snapshot_def owned_resources_def Let_def split: option.split)

lemma subscribe_annotations_frame:
  "sessions (snd (subscribe_annotations h tx s)) = sessions s"
  "resources (snd (subscribe_annotations h tx s)) = resources s"
  "ann_chans (snd (subscribe_annotations h tx s)) = ann_chans s"
  by (simp_all add: subscribe_annotations_def split: option.split)

text \<open>
  A new annotation stream starts with the whole snapshot: the channel is made large enough for
  it, so the request never fails with \<^verbatim>\<open>INTERNAL\<close>, and the events of the snapshot, in their
  order, are the first and only ones in the stream when it is handed out.
\<close>

theorem subscribe_annotations_starts_with_snapshot:
  "case subscribe_annotations_rpc annotations h s of
     (Inl e, s') \<Rightarrow> status_code e \<noteq> Internal
   | (Inr tx, s') \<Rightarrow> \<exists>store evs. annotations = Some store \<and> annotation_snapshot h store s = Inr evs \<and>
       queue_of (ann_chans s') tx = evs \<and> hm_get (annotation_subscriptions s') h = Some tx \<and>
       annotation_stream_open h s'"
proof (cases annotations)
  case (Some store)
  show ?thesis
  proof (cases "annotation_snapshot h store s")
    case (Inl e)
    then have "status_code e \<noteq> Internal" by (auto simp: annotation_snapshot_def Let_def split: option.splits)
    with Some Inl show ?thesis by (simp add: subscribe_annotations_rpc_def)
  next
    case (Inr evs)
    let ?cap = "max (length evs) subscription_buffer" and ?tx = "fresh_chan (ann_chans s)"
    let ?c = "\<lparr>ch_capacity = ?cap, ch_queue = [], ch_rx_open = True\<rparr> :: annotation_event chan"
    let ?s0 = "s\<lparr>ann_chans := hm_insert ?tx ?c (ann_chans s)\<rparr>"
    obtain r s1 where sub: "subscribe_annotations h ?tx ?s0 = (r, s1)" by fastforce
    have frame: "sessions s1 = sessions s" "resources s1 = resources s" "ann_chans s1 = hm_insert ?tx ?c (ann_chans s)"
      using subscribe_annotations_frame [of h ?tx ?s0] by (simp_all add: sub)
    show ?thesis
    proof (cases r)
      case (Inl e)
      then have "status_code e \<noteq> Internal"
        using sub by (auto simp: subscribe_annotations_def split: option.splits if_splits)
      with Inl Inr Some sub show ?thesis
        by (simp add: subscribe_annotations_rpc_def new_chan_def Let_def)
    next
      case (Inr u)
      have slot: "hm_get (annotation_subscriptions s1) h = Some ?tx"
        using sub Inr by (auto simp: subscribe_annotations_def split: option.splits if_splits)
      obtain heap' where sent: "send_all ?tx evs (ann_chans s1) = (True, heap')" "\<not> is_closed heap' ?tx"
          "queue_of heap' ?tx = evs"
        using send_all_room [of "ann_chans s1" ?tx ?c evs] frame(3) by auto
      have "subscribe_annotations_rpc annotations h s = (Inr ?tx, s1\<lparr>ann_chans := heap'\<rparr>)"
        using Some \<open>annotation_snapshot h store s = Inr evs\<close> sub Inr sent
          annotation_snapshot_cong [OF frame(1,2), of h store]
        by (simp add: subscribe_annotations_rpc_def new_chan_def Let_def)
      with Some \<open>annotation_snapshot h store s = Inr evs\<close> sent slot show ?thesis
        by (simp add: annotation_stream_open_def)
    qed
  qed
qed (simp add: subscribe_annotations_rpc_def)

lemma send_annotation_none:
  "hm_get (annotation_subscriptions s) h = None \<Longrightarrow> send_annotation h e s = s"
  by (simp add: send_annotation_def)

lemma fold_send_none:
  "hm_get (annotation_subscriptions s) h = None \<Longrightarrow> fold (send_annotation h) es s = s"
  by (induction es) (simp_all add: send_annotation_none)

lemma fold_send_annotation:
  assumes "hm_get (annotation_subscriptions s) h = Some tx" "hm_get (ann_chans s) tx = Some c" "ch_rx_open c"
  defines "room \<equiv> ch_capacity c - length (ch_queue c)"
  shows "queue_of (ann_chans (fold (send_annotation h) es s)) tx = ch_queue c @ take room es \<and>
    hm_get (annotation_subscriptions (fold (send_annotation h) es s)) h = (if length es \<le> room then Some tx else None)"
  using assms(1-3) unfolding room_def
proof (induction es arbitrary: s c)
  case Nil
  then show ?case by (simp add: queue_of_def)
next
  case (Cons e es)
  let ?s = "send_annotation h e s" and ?c = "c\<lparr>ch_queue := ch_queue c @ [e]\<rparr>"
  have alive: "\<not> is_closed (ann_chans s) tx" using Cons.prems by (simp add: is_closed_def)
  show ?case
  proof (cases "length (ch_queue c) < ch_capacity c")
    case True
    have "?s = s\<lparr>ann_chans := hm_insert tx ?c (ann_chans s)\<rparr>"
      using Cons.prems alive try_send_room [OF Cons.prems(2,3) True, of e] by (simp add: send_annotation_def)
    then show ?thesis
      using Cons.prems Cons.IH [of ?s ?c] True by (simp add: take_Cons' Suc_le_eq) (auto simp: Suc_le_eq)
  next
    case False
    then have "?s = s\<lparr>annotation_subscriptions := hm_remove h (annotation_subscriptions s)\<rparr>"
      using Cons.prems alive by (simp add: send_annotation_def try_send_def)
    with False Cons.prems show ?thesis by (simp add: fold_send_none queue_of_def)
  qed
qed

text \<open>
  C17. An annotation stream has no gaps. When a resource is added, its session's open stream gets
  the annotations of that resource as they are stored, in order, as far as its buffer has room: for a
  sender those of its source, its flow and itself, for a receiver its own. The stream stays open exactly
  if all of them fit, and is closed at the first one that does not, so a client that still has its stream
  has missed nothing. What was queued before stays.
\<close>

theorem annotation_stream_has_no_gaps:
  fixes store
  assumes "hm_get (resources s) r = Some e" "hm_get (annotation_subscriptions s) (re_session_handle e) = Some tx"
    and "hm_get (ann_chans s) tx = Some c" "ch_rx_open c"
  defines "events \<equiv> map (\<lambda>rt. annotation_event rt r (store_get store (re_node_seed e) rt (re_name e)))
      (case re_side e of Sender \<Rightarrow> [RtSource, RtFlow, RtSender] | Receiver \<Rightarrow> [RtReceiver])"
    and "room \<equiv> ch_capacity c - length (ch_queue c)"
  shows "queue_of (ann_chans (emit_added_resource r store s)) tx = ch_queue c @ take room events \<and>
    hm_get (annotation_subscriptions (emit_added_resource r store s)) (re_session_handle e) =
      (if length events \<le> room then Some tx else None)"
proof -
  have "resource_events store (re_node_seed e) (r, re_name e, re_side e) = events"
    by (cases "re_side e") (simp_all add: resource_events_def events_def)
  then show ?thesis
    using assms fold_send_annotation [OF assms(2-4)]
    by (simp add: emit_added_resource_def annotation_stream_open_def is_closed_def)
qed

text \<open>A sender is added; two of its three annotations fit, so the stream is closed, or all, and it stays.\<close>

definition demo_annotated :: "nat \<Rightarrow> state" where
  "demo_annotated n = state_new\<lparr>resources := [(''res-0'', \<lparr>re_name = ''cam'', re_node_seed = ''n'', re_session_handle = ''sess-0'',
       re_side = Sender\<rparr>)], annotation_subscriptions := [(''sess-0'', 1)],
     ann_chans := [(1, \<lparr>ch_capacity = n, ch_queue = [], ch_rx_open = True\<rparr>)]\<rparr>"

theorem annotation_stream_has_no_gaps_witness:
  "map ve_resource_type (queue_of (ann_chans (emit_added_resource ''res-0'' demo_store (demo_annotated 2))) 1) = [3, 4] \<and>
   hm_get (annotation_subscriptions (emit_added_resource ''res-0'' demo_store (demo_annotated 2))) ''sess-0'' = None \<and>
   map ve_resource_type (queue_of (ann_chans (emit_added_resource ''res-0'' demo_store (demo_annotated 3))) 1) = [3, 4, 5] \<and>
   hm_get (annotation_subscriptions (emit_added_resource ''res-0'' demo_store (demo_annotated 3))) ''sess-0'' = Some 1"
proof -
  let ?e = "\<lparr>re_name = ''cam'', re_node_seed = ''n'', re_session_handle = ''sess-0'', re_side = Sender\<rparr>"
  have s: "hm_get (resources (demo_annotated n)) ''res-0'' = Some ?e"
    "hm_get (annotation_subscriptions (demo_annotated n)) (re_session_handle ?e) = Some 1"
    "hm_get (ann_chans (demo_annotated n)) 1 = Some \<lparr>ch_capacity = n, ch_queue = [], ch_rx_open = True\<rparr>" for n
    by (simp_all add: demo_annotated_def)
  show ?thesis
    using annotation_stream_has_no_gaps [OF s [of 2], of demo_store] annotation_stream_has_no_gaps [OF s [of 3], of demo_store]
    by (simp add: annotation_event_def take_Cons')
qed

lemma decode_tags_ok:
  assumes "decode_tags seen tags = Inr ts"
  shows "distinct (map tag_key ts) \<and> set (map tag_key ts) \<inter> set seen = {} \<and>
    (\<forall>t \<in> set ts. tag_key t \<noteq> [] \<and> \<not> read_only_tag (tag_key t) \<and> tag_values_op t \<noteq> Unchanged)"
  using assms
proof (induction seen tags arbitrary: ts rule: decode_tags.induct)
  case (2 seen tag tags)
  obtain u where u: "decode_update (pt_values_op tag) = Inr u"
    using "2.prems" by (cases "decode_update (pt_values_op tag)") auto
  show ?case
  proof (cases "u = Unchanged")
    case True
    with u "2.prems" "2.IH"(1) show ?thesis by simp
  next
    case False
    then have keep: "decode_tags seen (tag # tags) =
       (if pt_key tag = [] then Inl (Status InvalidArgument TagKeyEmpty)
        else if pt_key tag \<in> set seen then Inl (Status InvalidArgument (TagDuplicate (pt_key tag)))
        else if read_only_tag (pt_key tag) then Inl (Status InvalidArgument (TagReadOnly (pt_key tag)))
        else case decode_tags (hs_insert (pt_key tag) seen) tags of
             Inl e \<Rightarrow> Inl e
           | Inr ts \<Rightarrow> Inr (\<lparr>tag_key = pt_key tag, tag_values_op = u, tag_values = pt_values tag\<rparr> # ts))"
      using u by (cases u) (simp_all split: sum.split)
    then obtain ts' where ts': "decode_tags (hs_insert (pt_key tag) seen) tags = Inr ts'"
      "ts = \<lparr>tag_key = pt_key tag, tag_values_op = u, tag_values = pt_values tag\<rparr> # ts'"
      and key: "pt_key tag \<noteq> []" "pt_key tag \<notin> set seen" "\<not> read_only_tag (pt_key tag)"
      using "2.prems" by (auto split: if_splits sum.splits)
    have "distinct (map tag_key ts') \<and> set (map tag_key ts') \<inter> set (hs_insert (pt_key tag) seen) = {} \<and>
      (\<forall>t \<in> set ts'. tag_key t \<noteq> [] \<and> \<not> read_only_tag (tag_key t) \<and> tag_values_op t \<noteq> Unchanged)"
      using u False ts'(1) key "2.IH"(2,3) by (cases u) auto
    with ts' key False show ?thesis by auto
  qed
qed simp

text \<open>
  What an \<^verbatim>\<open>UpdateAnnotation\<close> request passes on to libnvnmos is well formed: the tags have
  distinct, non-empty keys that a client may write, each with a change; tags are there only when
  the tags are set, and a label or description exactly when it is set.
\<close>

theorem decoded_annotation_wf:
  assumes "decode_annotation_update annotation = Inr a"
  shows "distinct (map tag_key (an_tags a)) \<and>
    (\<forall>t \<in> set (an_tags a). tag_key t \<noteq> [] \<and> \<not> read_only_tag (tag_key t) \<and> tag_values_op t \<noteq> Unchanged) \<and>
    (an_tags a \<noteq> [] \<longrightarrow> an_tags_op a = Set) \<and>
    (an_label a \<noteq> None \<longleftrightarrow> an_label_op a = Set) \<and> (an_description a \<noteq> None \<longleftrightarrow> an_description_op a = Set)"
proof (cases annotation)
  case None
  with assms show ?thesis by (auto simp: decode_annotation_update_def default_annotation_def)
next
  case (Some p)
  with assms obtain lu du tu tags where "decode_update (pa_tags_op p) = Inr tu"
    "(if tu = Set then decode_tags [] (pa_tags p) else Inr []) = Inr tags"
    "a = \<lparr>an_label_op = lu, an_label = (if lu = Set then Some (pa_label p) else None), an_description_op = du,
       an_description = (if du = Set then Some (pa_description p) else None), an_tags_op = tu, an_tags = tags\<rparr>"
    by (auto simp: decode_annotation_update_def split: sum.splits)
  then show ?thesis using decode_tags_ok [of "[]" "pa_tags p" tags] by (auto split: if_splits)
qed

theorem decoded_annotation_wf_witness:
  "\<exists>a. decode_annotation_update (Some \<lparr>pa_label_op = 1, pa_label = ''l'', pa_description_op = 0, pa_description = [],
      pa_tags_op = 1, pa_tags = [\<lparr>pt_key = ''k'', pt_values_op = 1, pt_values = [''v'']\<rparr>]\<rparr>) = Inr a \<and>
     distinct (map tag_key (an_tags a)) \<and> an_label a \<noteq> None"
proof -
  let ?p = "\<lparr>pa_label_op = 1, pa_label = ''l'', pa_description_op = 0, pa_description = [],
      pa_tags_op = 1, pa_tags = [\<lparr>pt_key = ''k'', pt_values_op = 1, pt_values = [''v'']\<rparr>]\<rparr>"
  obtain a where a: "decode_annotation_update (Some ?p) = Inr a" "an_label_op a = Set"
    by (simp add: decode_annotation_update_def decode_update_def read_only_tag_def starts_with_def)
  with decoded_annotation_wf [OF a(1)] show ?thesis by blast
qed

end
