(* ===== verification/Nvn_Invariants.thy ===== *)
theory Nvn_Invariants
  imports Nvn_ChannelMapping Nvn_AnnotStream
begin

text \<open>
  The invariant of the daemon state and that every operation of \<^verbatim>\<open>State\<close> keeps it. It has
  five parts, each over the tables it speaks about:

  \<^item> \<open>nodes_ok\<close>: every session is attached to an existing Node, the count of a Node is the number
    of its sessions, a session-refcounted Node has at least one, every Node holds its HTTP port,
    and every assigned port belongs to a Node or to the one creation in flight that reserved it;
  \<^item> \<open>owned_ok\<close> and \<open>index_ok\<close> for senders and receivers: sessions and resources agree on who
    owns what, and the index by name only leads to resources with that name;
  \<^item> the same for channel mappings, with the indexes by name and by output id;
  \<^item> \<open>streams_ok\<close>: streams and pending activations belong to open sessions;
  \<^item> \<open>handles_ok\<close>: every handle in use was given out by its counter.

  Ownership and indexes are stated once, for any table of entries owned by sessions.
\<close>

section \<open>Lookups as functions\<close>

lemma hm_get_insert_fun: "hm_get (hm_insert k v m) = (hm_get m)(k \<mapsto> v)"
  by (rule ext) simp

lemma hm_get_remove_fun: "hm_get (hm_remove k m) = (hm_get m)(k := None)"
  by (rule ext) simp

lemmas hm_fun_simps = hm_get_insert_fun hm_get_remove_fun

section \<open>Ownership\<close>

definition owned_ok ::
  "(string \<Rightarrow> session_entry option) \<Rightarrow> (session_entry \<Rightarrow> string list) \<Rightarrow> (string \<Rightarrow> 'e option)
    \<Rightarrow> ('e \<Rightarrow> string) \<Rightarrow> ('e \<Rightarrow> string) \<Rightarrow> bool" where
  "owned_ok sess own tbl owner seed \<longleftrightarrow>
     (\<forall>r e. tbl r = Some e \<longrightarrow>
        (\<exists>se. sess (owner e) = Some se \<and> r \<in> set (own se) \<and> se_node_seed se = seed e)) \<and>
     (\<forall>h se r. sess h = Some se \<longrightarrow> r \<in> set (own se) \<longrightarrow> (\<exists>e. tbl r = Some e \<and> owner e = h))"

definition index_ok :: "('k \<Rightarrow> string option) \<Rightarrow> (string \<Rightarrow> 'e option) \<Rightarrow> ('e \<Rightarrow> 'k set) \<Rightarrow> bool" where
  "index_ok idx tbl keys \<longleftrightarrow> (\<forall>k r. idx k = Some r \<longrightarrow> (\<exists>e. tbl r = Some e \<and> k \<in> keys e))"

lemma owned_okI:
  assumes "\<And>r e. tbl r = Some e \<Longrightarrow> \<exists>se. sess (owner e) = Some se \<and> r \<in> set (own se) \<and> se_node_seed se = seed e"
    and "\<And>h se r. sess h = Some se \<Longrightarrow> r \<in> set (own se) \<Longrightarrow> \<exists>e. tbl r = Some e \<and> owner e = h"
  shows "owned_ok sess own tbl owner seed"
  using assms by (auto simp: owned_ok_def)

lemma owned_okD1:
  "owned_ok sess own tbl owner seed \<Longrightarrow> tbl r = Some e \<Longrightarrow>
     \<exists>se. sess (owner e) = Some se \<and> r \<in> set (own se) \<and> se_node_seed se = seed e"
  by (simp add: owned_ok_def)

lemma owned_okD2:
  "owned_ok sess own tbl owner seed \<Longrightarrow> sess h = Some se \<Longrightarrow> r \<in> set (own se) \<Longrightarrow>
     \<exists>e. tbl r = Some e \<and> owner e = h"
  by (simp add: owned_ok_def)

text \<open>A new session owns nothing.\<close>

lemma owned_open:
  assumes "owned_ok sess own tbl owner seed" "sess h = None" "own se = []"
  shows "owned_ok (sess(h \<mapsto> se)) own tbl owner seed"
  using assms unfolding owned_ok_def by (fastforce split: if_splits)

text \<open>A session entry is rewritten without touching what it owns.\<close>

lemma owned_same:
  assumes "owned_ok sess own tbl owner seed" "sess h = Some se" "own se' = own se"
    "se_node_seed se' = se_node_seed se"
  shows "owned_ok (sess(h \<mapsto> se')) own tbl owner seed"
  using assms unfolding owned_ok_def by (fastforce split: if_splits)

text \<open>A session gains an object under a fresh handle, or loses one.\<close>

lemma owned_add:
  assumes ok: "owned_ok sess own tbl owner seed" and fresh: "tbl r = None" and h: "sess h = Some se"
    and own: "set (own se') = insert r (set (own se))" and seed: "se_node_seed se' = se_node_seed se"
    and e: "owner e = h" "seed e = se_node_seed se"
  shows "owned_ok (sess(h \<mapsto> se')) own (tbl(r \<mapsto> e)) owner seed"
proof (rule owned_okI)
  fix r' e' assume *: "(tbl(r \<mapsto> e)) r' = Some e'"
  show "\<exists>se0. (sess(h \<mapsto> se')) (owner e') = Some se0 \<and> r' \<in> set (own se0) \<and> se_node_seed se0 = seed e'"
  proof (cases "r' = r")
    case True
    with * own seed e show ?thesis by auto
  next
    case False
    with * have "tbl r' = Some e'" by simp
    from owned_okD1 [OF ok this] obtain se0
      where "sess (owner e') = Some se0" "r' \<in> set (own se0)" "se_node_seed se0 = seed e'" by blast
    with h own seed show ?thesis by (cases "owner e' = h") simp_all
  qed
next
  fix h' se0 r' assume *: "(sess(h \<mapsto> se')) h' = Some se0" "r' \<in> set (own se0)"
  show "\<exists>e'. (tbl(r \<mapsto> e)) r' = Some e' \<and> owner e' = h'"
  proof (cases "h' = h")
    case True
    with * own have "r' = r \<or> r' \<in> set (own se)" by auto
    with owned_okD2 [OF ok h, of r'] True e show ?thesis by auto
  next
    case False
    with * owned_okD2 [OF ok, of h' se0 r'] fresh show ?thesis by auto
  qed
qed

lemma owned_remove:
  assumes ok: "owned_ok sess own tbl owner seed" and h: "sess h = Some se"
    and own: "set (own se') = set (own se) - {r}" and seed: "se_node_seed se' = se_node_seed se"
    and r: "r \<in> set (own se)"
  shows "owned_ok (sess(h \<mapsto> se')) own (tbl(r := None)) owner seed"
proof (rule owned_okI)
  fix r' e' assume "(tbl(r := None)) r' = Some e'"
  then have "r' \<noteq> r" "tbl r' = Some e'" by (auto split: if_splits)
  with owned_okD1 [OF ok this(2)] obtain se0 where "r' \<noteq> r"
    "sess (owner e') = Some se0" "r' \<in> set (own se0)" "se_node_seed se0 = seed e'" by blast
  with h own seed
  show "\<exists>se0. (sess(h \<mapsto> se')) (owner e') = Some se0 \<and> r' \<in> set (own se0) \<and> se_node_seed se0 = seed e'"
    by (cases "owner e' = h") simp_all
next
  fix h' se0 r' assume *: "(sess(h \<mapsto> se')) h' = Some se0" "r' \<in> set (own se0)"
  obtain e where e: "tbl r = Some e" "owner e = h"
    using owned_okD2 [OF ok h r] by blast
  show "\<exists>e'. (tbl(r := None)) r' = Some e' \<and> owner e' = h'"
  proof (cases "h' = h")
    case True
    with * own have "r' \<noteq> r" "r' \<in> set (own se)" by auto
    with owned_okD2 [OF ok h, of r'] True show ?thesis by auto
  next
    case False
    with * owned_okD2 [OF ok, of h' se0 r'] e show ?thesis by auto
  qed
qed

text \<open>A session closes, and all it owned goes.\<close>

lemma owned_close:
  assumes ok: "owned_ok sess own tbl owner seed" and h: "sess h = Some se"
  shows "owned_ok (sess(h := None)) own (tbl |` (- set (own se))) owner seed"
proof (rule owned_okI)
  fix r e assume "(tbl |` (- set (own se))) r = Some e"
  then show "\<exists>se0. (sess(h := None)) (owner e) = Some se0 \<and> r \<in> set (own se0) \<and> se_node_seed se0 = seed e"
    using owned_okD1 [OF ok, of r e] h by (auto simp: restrict_map_def split: if_splits)
next
  fix h' se0 r assume *: "(sess(h := None)) h' = Some se0" "r \<in> set (own se0)"
  then show "\<exists>e. (tbl |` (- set (own se))) r = Some e \<and> owner e = h'"
    using owned_okD2 [OF ok, of h' se0 r] owned_okD2 [OF ok h, of r]
    by (auto simp: restrict_map_def split: if_splits)
qed

section \<open>Indexes\<close>

lemma index_add:
  assumes "index_ok idx tbl keys" "tbl r = None"
    and "\<And>k. idx' k = idx k \<or> idx' k = Some r \<and> k \<in> keys e"
  shows "index_ok idx' (tbl(r \<mapsto> e)) keys"
  using assms unfolding index_ok_def by (metis fun_upd_apply option.distinct(1) option.inject)

lemma index_remove:
  assumes "index_ok idx tbl keys"
    and "\<And>k. idx' k = idx k \<or> idx' k = None"
    and "\<And>k r e. r \<in> rs \<Longrightarrow> tbl r = Some e \<Longrightarrow> k \<in> keys e \<Longrightarrow> idx' k = None"
  shows "index_ok idx' (tbl |` (- rs)) keys"
  unfolding index_ok_def
proof (intro allI impI)
  fix k r assume r: "idx' k = Some r"
  with assms(2) [of k] have "idx k = Some r" by auto
  with assms(1) obtain e where "tbl r = Some e" "k \<in> keys e" by (auto simp: index_ok_def)
  moreover from this r assms(3) [of r e k] have "r \<notin> rs" by auto
  ultimately show "\<exists>e. (tbl |` (- rs)) r = Some e \<and> k \<in> keys e" by (auto simp: restrict_map_def)
qed

lemma restrict_minus_single: "m |` (- {r}) = m(r := None)"
  by (auto simp: restrict_map_def)

section \<open>Nodes, sessions and ports\<close>

text \<open>
  \<open>creates\<close> are the seeds and ports of the Node creations in flight, \<open>cnt\<close> the number of
  sessions on a seed.
\<close>

definition nodes_ok ::
  "(string \<times> port) list \<Rightarrow> (string \<Rightarrow> node_entry option) \<Rightarrow> string set \<Rightarrow> (string \<Rightarrow> nat)
    \<Rightarrow> (port \<Rightarrow> string option) \<Rightarrow> bool" where
  "nodes_ok creates nds pend cnt prt \<longleftrightarrow>
     (\<forall>seed n. nds seed = Some n \<longrightarrow>
        ne_attached_sessions n = cnt seed \<and> (ne_lifetime n = SessionRefcounted \<longrightarrow> 0 < cnt seed) \<and>
        prt (ne_http_port n) = Some seed) \<and>
     (\<forall>seed. nds seed = None \<longrightarrow> cnt seed = 0) \<and>
     (\<forall>p seed. prt p = Some seed \<longrightarrow>
        (\<exists>n. nds seed = Some n \<and> ne_http_port n = p) \<or> (seed, p) \<in> set creates) \<and>
     (\<forall>seed p. (seed, p) \<in> set creates \<longrightarrow> nds seed = None \<and> prt p = Some seed) \<and>
     pend = fst ` set creates \<and> distinct (map fst creates)"

definition attached_count :: "(string, session_entry) hash_map \<Rightarrow> string \<Rightarrow> nat" where
  "attached_count sess seed = hm_count (\<lambda>se. se_node_seed se = seed) sess"

lemma nodes_okD:
  assumes "nodes_ok creates nds pend cnt prt"
  shows "nds seed = Some n \<Longrightarrow> ne_attached_sessions n = cnt seed"
    and "nds seed = Some n \<Longrightarrow> ne_lifetime n = SessionRefcounted \<Longrightarrow> 0 < cnt seed"
    and "nds seed = Some n \<Longrightarrow> prt (ne_http_port n) = Some seed"
    and "nds seed = None \<Longrightarrow> cnt seed = 0"
    and "prt p = Some seed \<Longrightarrow> (\<exists>n. nds seed = Some n \<and> ne_http_port n = p) \<or> (seed, p) \<in> set creates"
    and "(seed, p) \<in> set creates \<Longrightarrow> nds seed = None \<and> prt p = Some seed"
    and "pend = fst ` set creates" and "distinct (map fst creates)"
  using assms unfolding nodes_ok_def by blast+

lemma nodes_okI:
  assumes "\<And>seed n. nds seed = Some n \<Longrightarrow> ne_attached_sessions n = cnt seed"
    and "\<And>seed n. nds seed = Some n \<Longrightarrow> ne_lifetime n = SessionRefcounted \<Longrightarrow> 0 < cnt seed"
    and "\<And>seed n. nds seed = Some n \<Longrightarrow> prt (ne_http_port n) = Some seed"
    and "\<And>seed. nds seed = None \<Longrightarrow> cnt seed = 0"
    and "\<And>p seed. prt p = Some seed \<Longrightarrow>
      (\<exists>n. nds seed = Some n \<and> ne_http_port n = p) \<or> (seed, p) \<in> set creates"
    and "\<And>p seed. (seed, p) \<in> set creates \<Longrightarrow> nds seed = None \<and> prt p = Some seed"
    and "pend = fst ` set creates" and "distinct (map fst creates)"
  shows "nodes_ok creates nds pend cnt prt"
  using assms unfolding nodes_ok_def by blast

lemma nodes_create_port:
  assumes "nodes_ok creates nds pend cnt prt" "(seed, p) \<in> set creates" "(seed, q) \<in> set creates"
  shows "q = p"
  using assms(2,3) nodes_okD(8) [OF assms(1)] by (meson eq_key_imp_eq_value)

lemma nodes_attach:
  assumes ok: "nodes_ok creates nds pend cnt prt" and n: "nds seed = Some n"
  shows "nodes_ok creates (nds(seed \<mapsto> n\<lparr>ne_attached_sessions := ne_attached_sessions n + 1\<rparr>)) pend
    (cnt(seed := Suc (cnt seed))) prt"
proof (rule nodes_okI)
  fix p seed' assume "(seed', p) \<in> set creates"
  with nodes_okD(6) [OF ok this] n
  show "(nds(seed \<mapsto> n\<lparr>ne_attached_sessions := ne_attached_sessions n + 1\<rparr>)) seed' = None \<and> prt p = Some seed'"
    by auto
next
  fix p seed' assume "prt p = Some seed'"
  with nodes_okD(5) [OF ok this] n
  show "(\<exists>m. (nds(seed \<mapsto> n\<lparr>ne_attached_sessions := ne_attached_sessions n + 1\<rparr>)) seed' = Some m \<and>
      ne_http_port m = p) \<or> (seed', p) \<in> set creates"
    by auto
qed (use n nodes_okD(1-4,7,8) [OF ok] in \<open>auto split: if_splits\<close>)

lemma nodes_reserve:
  assumes ok: "nodes_ok creates nds pend cnt prt"
    and fresh: "nds seed = None" "seed \<notin> pend" "prt p = None"
  shows "nodes_ok ((seed, p) # creates) nds (insert seed pend) cnt (prt(p \<mapsto> seed))"
proof (rule nodes_okI)
  fix q seed' assume "(seed', q) \<in> set ((seed, p) # creates)"
  then show "nds seed' = None \<and> (prt(p \<mapsto> seed)) q = Some seed'"
    using nodes_okD(6) [OF ok, of seed' q] fresh by auto
next
  fix q seed' assume "(prt(p \<mapsto> seed)) q = Some seed'"
  then show "(\<exists>n. nds seed' = Some n \<and> ne_http_port n = q) \<or> (seed', q) \<in> set ((seed, p) # creates)"
    using nodes_okD(5) [OF ok, of q seed'] by (auto split: if_splits)
qed (use fresh nodes_okD(1-4,7,8) [OF ok] in \<open>auto split: if_splits\<close>)

lemma nodes_commit:
  assumes ok: "nodes_ok creates nds pend cnt prt" and c: "(seed, p) \<in> set creates"
    and n: "ne_http_port n = p" "ne_attached_sessions n = k" "ne_lifetime n = SessionRefcounted \<longrightarrow> 0 < k"
  shows "nodes_ok (filter (\<lambda>c. fst c \<noteq> seed) creates) (nds(seed \<mapsto> n)) (pend - {seed}) (cnt(seed := k)) prt"
proof (rule nodes_okI)
  fix q seed' assume "(seed', q) \<in> set (filter (\<lambda>c. fst c \<noteq> seed) creates)"
  then show "(nds(seed \<mapsto> n)) seed' = None \<and> prt q = Some seed'"
    using nodes_okD(6) [OF ok, of seed' q] by auto
next
  fix q seed' assume *: "prt q = Some seed'"
  show "(\<exists>m. (nds(seed \<mapsto> n)) seed' = Some m \<and> ne_http_port m = q) \<or>
      (seed', q) \<in> set (filter (\<lambda>c. fst c \<noteq> seed) creates)"
    using nodes_okD(5) [OF ok *] nodes_okD(6) [OF ok c] nodes_create_port [OF ok c] n(1)
    by (cases "seed' = seed") auto
qed (use n nodes_okD(6) [OF ok c] nodes_okD(1-4,7,8) [OF ok] in \<open>auto simp: distinct_map_filter split: if_splits\<close>)

lemma nodes_abort:
  assumes ok: "nodes_ok creates nds pend cnt prt" and c: "(seed, p) \<in> set creates"
  shows "nodes_ok (filter (\<lambda>c. fst c \<noteq> seed) creates) nds (pend - {seed}) cnt (prt(p := None))"
proof (rule nodes_okI)
  fix q seed' assume "(seed', q) \<in> set (filter (\<lambda>c. fst c \<noteq> seed) creates)"
  then show "nds seed' = None \<and> (prt(p := None)) q = Some seed'"
    using nodes_okD(6) [OF ok, of seed' q] nodes_okD(6) [OF ok c] by auto
next
  fix q seed' assume "(prt(p := None)) q = Some seed'"
  then show "(\<exists>m. nds seed' = Some m \<and> ne_http_port m = q) \<or>
      (seed', q) \<in> set (filter (\<lambda>c. fst c \<noteq> seed) creates)"
    using nodes_okD(5) [OF ok, of q seed'] nodes_okD(6) [OF ok c] nodes_create_port [OF ok c, of q]
    by (cases "seed' = seed") (auto split: if_splits)
next
  fix seed' n assume *: "nds seed' = Some n"
  with nodes_okD(3) [OF ok *] nodes_okD(6) [OF ok c] show "(prt(p := None)) (ne_http_port n) = Some seed'"
    by auto
qed (use nodes_okD(1,2,4,7,8) [OF ok] in \<open>auto simp: distinct_map_filter split: if_splits\<close>)

lemma nodes_detach_keep:
  assumes ok: "nodes_ok creates nds pend cnt prt" and n: "nds seed = Some n"
    and keep: "ne_lifetime n = Persistent \<or> ne_attached_sessions n \<noteq> 1" and pos: "0 < cnt seed"
  shows "nodes_ok creates (nds(seed \<mapsto> n\<lparr>ne_attached_sessions := ne_attached_sessions n - 1\<rparr>)) pend
    (cnt(seed := cnt seed - 1)) prt"
proof (rule nodes_okI)
  fix p seed' assume "(seed', p) \<in> set creates"
  with nodes_okD(6) [OF ok this] n
  show "(nds(seed \<mapsto> n\<lparr>ne_attached_sessions := ne_attached_sessions n - 1\<rparr>)) seed' = None \<and> prt p = Some seed'"
    by auto
next
  fix p seed' assume "prt p = Some seed'"
  with nodes_okD(5) [OF ok this] n
  show "(\<exists>m. (nds(seed \<mapsto> n\<lparr>ne_attached_sessions := ne_attached_sessions n - 1\<rparr>)) seed' = Some m \<and>
      ne_http_port m = p) \<or> (seed', p) \<in> set creates"
    by auto
qed (use n pos keep nodes_okD(1-4,7,8) [OF ok] in \<open>auto split: if_splits intro!: Suc_lessI\<close>)

lemma nodes_destroy:
  assumes ok: "nodes_ok creates nds pend cnt prt" and n: "nds seed = Some n"
  shows "nodes_ok creates (nds(seed := None)) pend (cnt(seed := 0)) (prt(ne_http_port n := None))"
proof (rule nodes_okI)
  fix p seed' assume "(seed', p) \<in> set creates"
  with nodes_okD(6) [OF ok this] nodes_okD(3) [OF ok n] n
  show "(nds(seed := None)) seed' = None \<and> (prt(ne_http_port n := None)) p = Some seed'"
    by auto
next
  fix p seed' assume "(prt(ne_http_port n := None)) p = Some seed'"
  with nodes_okD(5) [OF ok, of p seed'] n
  show "(\<exists>m. (nds(seed := None)) seed' = Some m \<and> ne_http_port m = p) \<or> (seed', p) \<in> set creates"
    by (auto split: if_splits)
next
  fix seed' m assume "(nds(seed := None)) seed' = Some m"
  with nodes_okD(3) [OF ok, of seed' m] nodes_okD(3) [OF ok n]
  show "(prt(ne_http_port n := None)) (ne_http_port m) = Some seed'"
    by (auto split: if_splits)
qed (use n nodes_okD(1,2,4,7,8) [OF ok] in \<open>auto split: if_splits\<close>)

lemma attached_count_open:
  "hm_get sess h = None \<Longrightarrow>
   attached_count (hm_insert h se sess) =
     (attached_count sess)(se_node_seed se := Suc (attached_count sess (se_node_seed se)))"
  by (auto simp: attached_count_def hm_count_insert)

lemma attached_count_same:
  assumes "hm_wf sess" "hm_get sess h = Some se" "se_node_seed se' = se_node_seed se"
  shows "attached_count (hm_insert h se' sess) = attached_count sess"
  using assms hm_count_remove [OF assms(1,2)] by (auto simp: attached_count_def hm_count_insert)

lemma attached_count_close:
  assumes "hm_wf sess" "hm_get sess h = Some se"
  shows "attached_count (hm_remove h sess) =
     (attached_count sess)(se_node_seed se := attached_count sess (se_node_seed se) - 1)"
    and "0 < attached_count sess (se_node_seed se)"
  using hm_count_remove [OF assms] by (auto simp: attached_count_def)

section \<open>The invariant\<close>

definition resources_ok ::
  "(string \<Rightarrow> session_entry option) \<Rightarrow> (string \<Rightarrow> resource_entry option)
    \<Rightarrow> (string \<times> side \<times> string \<Rightarrow> string option) \<Rightarrow> bool" where
  "resources_ok sess tbl idx \<longleftrightarrow>
     owned_ok sess se_resources tbl re_session_handle re_node_seed \<and>
     index_ok idx tbl (\<lambda>e. {resource_key e})"

definition output_keys :: "channelmapping_entry \<Rightarrow> (string \<times> string) set" where
  "output_keys e = (\<lambda>i. (cm_node_seed e, i)) ` set (cm_output_ids e)"

definition cms_ok ::
  "(string \<Rightarrow> session_entry option) \<Rightarrow> (string \<Rightarrow> channelmapping_entry option)
    \<Rightarrow> (string \<times> string \<Rightarrow> string option) \<Rightarrow> (string \<times> string \<Rightarrow> string option) \<Rightarrow> bool" where
  "cms_ok sess tbl idx outs \<longleftrightarrow>
     owned_ok sess se_channelmappings tbl cm_session_handle cm_node_seed \<and>
     index_ok idx tbl (\<lambda>e. {(cm_node_seed e, cm_name e)}) \<and> index_ok outs tbl output_keys"

definition streams_ok ::
  "string set \<Rightarrow> (string \<Rightarrow> chan_id option) \<Rightarrow> (string \<Rightarrow> chan_id option) \<Rightarrow> (string \<Rightarrow> chan_id option)
    \<Rightarrow> (string \<Rightarrow> string option) \<Rightarrow> (string \<Rightarrow> string option) \<Rightarrow> bool" where
  "streams_ok open_sessions subs anns cms pend cm_pend \<longleftrightarrow>
     dom subs \<subseteq> open_sessions \<and> dom anns \<subseteq> open_sessions \<and> dom cms \<subseteq> open_sessions \<and>
     ran pend \<subseteq> open_sessions \<and> ran cm_pend \<subseteq> open_sessions"

definition handles_ok :: "state \<Rightarrow> bool" where
  "handles_ok s \<longleftrightarrow>
     (\<forall>h \<in> dom (hm_get (sessions s)). issued session_handle (next_session_id s) h) \<and>
     (\<forall>r \<in> dom (hm_get (resources s)). issued resource_handle (next_resource_id s) r) \<and>
     (\<forall>c \<in> dom (hm_get (channelmappings s)). issued channelmapping_handle (next_channelmapping_id s) c) \<and>
     (\<forall>a \<in> dom (hm_get (pending_activations s)) \<union> dom (hm_get (acks s)) \<union> set (ack_waiting s).
        issued activation_handle (next_activation_id s) a) \<and>
     (\<forall>a \<in> dom (hm_get (pending_channelmapping_activations s)) \<union> dom (hm_get (cm_acks s)) \<union>
          set (cm_ack_waiting s).
        issued cm_activation_handle (next_channelmapping_activation_id s) a)"

definition tables_ok :: "state \<Rightarrow> bool" where
  "tables_ok s \<longleftrightarrow>
     hm_wf (nodes s) \<and> hm_wf (sessions s) \<and> hm_wf (resources s) \<and> hm_wf (by_name s) \<and>
     hm_wf (subscriptions s) \<and> hm_wf (annotation_subscriptions s) \<and> hm_wf (pending_activations s) \<and>
     hm_wf (channelmappings s) \<and> hm_wf (channelmappings_by_name s) \<and> hm_wf (outputs_by_id s) \<and>
     hm_wf (channelmapping_subscriptions s) \<and> hm_wf (pending_channelmapping_activations s) \<and>
     hm_wf (http_ports s)"

definition state_inv :: "(string \<times> port) list \<Rightarrow> state \<Rightarrow> bool" where
  "state_inv creates s \<longleftrightarrow>
     tables_ok s \<and>
     nodes_ok creates (hm_get (nodes s)) (set (pending_nodes s)) (attached_count (sessions s))
       (hm_get (http_ports s)) \<and>
     resources_ok (hm_get (sessions s)) (hm_get (resources s)) (hm_get (by_name s)) \<and>
     cms_ok (hm_get (sessions s)) (hm_get (channelmappings s)) (hm_get (channelmappings_by_name s))
       (hm_get (outputs_by_id s)) \<and>
     streams_ok (dom (hm_get (sessions s))) (hm_get (subscriptions s))
       (hm_get (annotation_subscriptions s)) (hm_get (channelmapping_subscriptions s))
       (hm_get (pending_activations s)) (hm_get (pending_channelmapping_activations s)) \<and>
     handles_ok s"

text \<open>The counters have not used up their 64 bits.\<close>

definition no_wrap :: "state \<Rightarrow> bool" where
  "no_wrap s \<longleftrightarrow>
     next_session_id s \<noteq> - 1 \<and> next_resource_id s \<noteq> - 1 \<and> next_activation_id s \<noteq> - 1 \<and>
     next_channelmapping_id s \<noteq> - 1 \<and> next_channelmapping_activation_id s \<noteq> - 1"

lemma state_invI:
  assumes "tables_ok s"
    and "nodes_ok creates (hm_get (nodes s)) (set (pending_nodes s)) (attached_count (sessions s))
       (hm_get (http_ports s))"
    and "resources_ok (hm_get (sessions s)) (hm_get (resources s)) (hm_get (by_name s))"
    and "cms_ok (hm_get (sessions s)) (hm_get (channelmappings s)) (hm_get (channelmappings_by_name s))
       (hm_get (outputs_by_id s))"
    and "streams_ok (dom (hm_get (sessions s))) (hm_get (subscriptions s))
       (hm_get (annotation_subscriptions s)) (hm_get (channelmapping_subscriptions s))
       (hm_get (pending_activations s)) (hm_get (pending_channelmapping_activations s))"
    and "handles_ok s"
  shows "state_inv creates s"
  using assms by (simp add: state_inv_def)

lemma state_invD:
  assumes "state_inv creates s"
  shows "tables_ok s"
    and "nodes_ok creates (hm_get (nodes s)) (set (pending_nodes s)) (attached_count (sessions s))
       (hm_get (http_ports s))"
    and "resources_ok (hm_get (sessions s)) (hm_get (resources s)) (hm_get (by_name s))"
    and "cms_ok (hm_get (sessions s)) (hm_get (channelmappings s)) (hm_get (channelmappings_by_name s))
       (hm_get (outputs_by_id s))"
    and "streams_ok (dom (hm_get (sessions s))) (hm_get (subscriptions s))
       (hm_get (annotation_subscriptions s)) (hm_get (channelmapping_subscriptions s))
       (hm_get (pending_activations s)) (hm_get (pending_channelmapping_activations s))"
    and "handles_ok s"
  using assms by (simp_all add: state_inv_def)

lemma state_inv_new: "state_inv [] state_new"
  by (simp add: state_inv_def state_new_def tables_ok_def nodes_ok_def resources_ok_def cms_ok_def
      owned_ok_def index_ok_def streams_ok_def handles_ok_def attached_count_def)

section \<open>Handles stay issued\<close>

lemma issued_succ:
  "n \<noteq> - 1 \<Longrightarrow> issued mk n h \<Longrightarrow> issued mk (n + 1) h"
  "n \<noteq> - 1 \<Longrightarrow> issued mk (n + 1) (mk n)"
  by (auto simp: issued_def intro: word_less_succ less_trans)

lemma session_handle_fresh:
  "handles_ok s \<Longrightarrow> hm_get (sessions s) (session_handle (next_session_id s)) = None"
  using sess.alloc_fresh [of s "session_handle (next_session_id s)"]
  by (force simp: handles_ok_def allocate_session_handle_def)

lemma resource_handle_fresh:
  "handles_ok s \<Longrightarrow> hm_get (resources s) (resource_handle (next_resource_id s)) = None"
  using res.alloc_fresh [of s "resource_handle (next_resource_id s)"]
  by (force simp: handles_ok_def allocate_resource_handle_def)

lemma channelmapping_handle_fresh:
  "handles_ok s \<Longrightarrow> hm_get (channelmappings s) (channelmapping_handle (next_channelmapping_id s)) = None"
  using cm.alloc_fresh [of s "channelmapping_handle (next_channelmapping_id s)"]
  by (force simp: handles_ok_def allocate_channelmapping_handle_def)

lemma activation_handle_fresh:
  assumes "handles_ok s"
  shows "hm_get (pending_activations s) (activation_handle (next_activation_id s)) = None"
    and "hm_get (acks s) (activation_handle (next_activation_id s)) = None"
    and "activation_handle (next_activation_id s) \<notin> set (ack_waiting s)"
  using assms act.alloc_fresh [of s "activation_handle (next_activation_id s)"]
  by (force simp: handles_ok_def allocate_activation_handle_def)+

lemma cm_activation_handle_fresh:
  assumes "handles_ok s"
  shows "hm_get (pending_channelmapping_activations s)
      (cm_activation_handle (next_channelmapping_activation_id s)) = None"
    and "hm_get (cm_acks s) (cm_activation_handle (next_channelmapping_activation_id s)) = None"
    and "cm_activation_handle (next_channelmapping_activation_id s) \<notin> set (cm_ack_waiting s)"
  using assms cmact.alloc_fresh [of s "cm_activation_handle (next_channelmapping_activation_id s)"]
  by (force simp: handles_ok_def allocate_channelmapping_activation_handle_def)+

end
