(* ===== verification/Nvn_Inv_Nodes.thy ===== *)
theory Nvn_Inv_Nodes
  imports Nvn_Invariants
begin

text \<open>
  The operations on Nodes and sessions keep the invariant of the daemon state: opening a session,
  the phases of a Node's creation, removing a Node, and closing a session, which clears every
  table of what the session owned.
\<close>

section \<open>Opening sessions\<close>

lemma dom_new_session: "dom ((hm_get (sessions s))(h \<mapsto> se)) = insert h (dom (hm_get (sessions s)))"
  by simp

lemma streams_more:
  "streams_ok K subs anns cms pend cm_pend \<Longrightarrow> K \<subseteq> K' \<Longrightarrow> streams_ok K' subs anns cms pend cm_pend"
  by (auto simp: streams_ok_def)

lemma inv_add_session:
  assumes inv: "state_inv creates s" and wrap: "no_wrap s" and wf: "hm_wf N"
    and nodes': "nodes_ok creates' (hm_get N) (set P)
      ((attached_count (sessions s))(seed := Suc (attached_count (sessions s) seed))) (hm_get (http_ports s))"
  shows "state_inv creates' (s\<lparr>pending_nodes := P, nodes := N, next_session_id := next_session_id s + 1,
    sessions := hm_insert (session_handle (next_session_id s)) (new_session seed) (sessions s)\<rparr>)"
proof -
  let ?h = "session_handle (next_session_id s)"
  note D = state_invD [OF inv]
  have fresh: "hm_get (sessions s) ?h = None"
    by (rule session_handle_fresh [OF D(6)])
  show ?thesis
  proof (rule state_invI, simp_all add: hm_get_insert_fun)
    show "tables_ok (s\<lparr>pending_nodes := P, nodes := N, next_session_id := next_session_id s + 1,
        sessions := hm_insert ?h (new_session seed) (sessions s)\<rparr>)"
      using D(1) wf by (simp add: tables_ok_def)
    show "nodes_ok creates' (hm_get N) (set P) (attached_count (hm_insert ?h (new_session seed) (sessions s)))
        (hm_get (http_ports s))"
      using nodes' fresh by (simp add: attached_count_open new_session_def)
    show "resources_ok ((hm_get (sessions s))(?h \<mapsto> new_session seed)) (hm_get (resources s)) (hm_get (by_name s))"
      using D(3) fresh by (simp add: resources_ok_def owned_open new_session_def)
    show "cms_ok ((hm_get (sessions s))(?h \<mapsto> new_session seed)) (hm_get (channelmappings s))
        (hm_get (channelmappings_by_name s)) (hm_get (outputs_by_id s))"
      using D(4) fresh by (simp add: cms_ok_def owned_open new_session_def)
    show "streams_ok (insert ?h (dom (hm_get (sessions s)))) (hm_get (subscriptions s))
        (hm_get (annotation_subscriptions s)) (hm_get (channelmapping_subscriptions s))
        (hm_get (pending_activations s)) (hm_get (pending_channelmapping_activations s))"
      using D(5) by (rule streams_more) auto
    show "handles_ok (s\<lparr>pending_nodes := P, nodes := N, next_session_id := next_session_id s + 1,
        sessions := hm_insert ?h (new_session seed) (sessions s)\<rparr>)"
      using D(6) wrap by (auto simp: handles_ok_def no_wrap_def hm_get_insert_fun intro: issued_succ)
  qed
qed

lemma resolve_http_port_free:
  assumes "resolve_http_port bindable req rng s = Inr p"
  shows "hm_get (http_ports s) p = None"
  using assms
  by (auto simp: resolve_http_port_def hm_contains_def find_Some_iff split: option.splits if_splits)

lemma inv_reserve:
  assumes inv: "state_inv creates s" and free: "hm_get (nodes s) (nc_seed config) = None"
    "nc_seed config \<notin> set (pending_nodes s)" "hm_get (http_ports s) p = None"
  shows "state_inv ((nc_seed config, p) # creates) (snd (reserve_node config p s))"
  using nodes_reserve [OF state_invD(2) [OF inv] free] state_invD [OF inv]
  by (simp add: reserve_node_def Let_def state_inv_def tables_ok_def handles_ok_def hm_get_insert_fun)

lemma inv_prepare_open_session:
  assumes inv: "state_inv creates s" and wrap: "no_wrap s"
    and r: "prepare_open_session bindable config rng s = (r, s')"
  shows "state_inv (case r of Inr (Create prep) \<Rightarrow> (cnp_seed prep, cnp_http_port prep) # creates | _ \<Rightarrow> creates) s'"
proof (cases "hm_get (nodes s) (nc_seed config)")
  case (Some entry)
  show ?thesis
  proof (cases "nc_seed config = []")
    case True
    with r inv show ?thesis by (auto simp: prepare_open_session_def require_non_empty_seed_def)
  next
    case False
    have "nodes_ok creates (hm_get (hm_insert (nc_seed config)
          (entry\<lparr>ne_attached_sessions := ne_attached_sessions entry + 1\<rparr>) (nodes s))) (set (pending_nodes s))
        ((attached_count (sessions s))(nc_seed config := Suc (attached_count (sessions s) (nc_seed config))))
        (hm_get (http_ports s))"
      using nodes_attach [OF state_invD(2) [OF inv] Some] by (simp add: hm_get_insert_fun)
    from inv_add_session [OF inv wrap _ this] state_invD(1) [OF inv] r Some False show ?thesis
      by (auto simp: prepare_open_session_def require_non_empty_seed_def allocate_session_handle_def
          tables_ok_def Let_def)
  qed
next
  case None
  with r inv inv_reserve [OF inv None] show ?thesis
    by (auto simp: prepare_open_session_def require_non_empty_seed_def reserve_node_def Let_def
        split: if_splits sum.splits dest: resolve_http_port_free)
qed

lemma inv_prepare_add_node:
  assumes inv: "state_inv creates s"
    and r: "prepare_add_node bindable config rng s = (r, s')"
  shows "state_inv (case r of Inr prep \<Rightarrow> (cnp_seed prep, cnp_http_port prep) # creates | Inl _ \<Rightarrow> creates) s'"
  using r inv inv_reserve [OF inv]
  by (auto simp: prepare_add_node_def require_non_empty_seed_def reserve_node_def Let_def hm_contains_def
      split: if_splits sum.splits dest: resolve_http_port_free)

lemma inv_commit_open_session:
  assumes inv: "state_inv creates s" and wrap: "no_wrap s"
    and c: "(cnr_seed ready, cnr_http_port ready) \<in> set creates"
  shows "state_inv (filter (\<lambda>c. fst c \<noteq> cnr_seed ready) creates) (snd (commit_open_session ready s))"
proof -
  let ?n = "node_of_ready SessionRefcounted 1 ready"
  have "attached_count (sessions s) (cnr_seed ready) = 0"
    using nodes_okD(4,6) [OF state_invD(2) [OF inv]] c by blast
  then have "nodes_ok (filter (\<lambda>c. fst c \<noteq> cnr_seed ready) creates)
      (hm_get (hm_insert (cnr_seed ready) ?n (nodes s))) (set (hs_remove (cnr_seed ready) (pending_nodes s)))
      ((attached_count (sessions s))(cnr_seed ready := Suc (attached_count (sessions s) (cnr_seed ready))))
      (hm_get (http_ports s))"
    using nodes_commit [OF state_invD(2) [OF inv] c, of ?n 1]
    by (simp add: node_of_ready_def hm_get_insert_fun)
  from inv_add_session [OF inv wrap _ this] state_invD(1) [OF inv] show ?thesis
    by (simp add: commit_open_session_def allocate_session_handle_def tables_ok_def Let_def)
qed

lemma inv_commit_add_node:
  assumes inv: "state_inv creates s" and c: "(cnr_seed ready, cnr_http_port ready) \<in> set creates"
  shows "state_inv (filter (\<lambda>c. fst c \<noteq> cnr_seed ready) creates) (snd (commit_add_node ready s))"
proof -
  let ?n = "node_of_ready Persistent 0 ready"
  have "attached_count (sessions s) (cnr_seed ready) = 0"
    using nodes_okD(4,6) [OF state_invD(2) [OF inv]] c by blast
  then have "(attached_count (sessions s))(cnr_seed ready := 0) = attached_count (sessions s)"
    by auto
  with nodes_commit [OF state_invD(2) [OF inv] c, of ?n 0] state_invD [OF inv] show ?thesis
    by (simp add: commit_add_node_def node_of_ready_def state_inv_def tables_ok_def handles_ok_def
        hm_get_insert_fun)
qed

lemma inv_abort_pending_node:
  assumes inv: "state_inv creates s" and c: "(seed, p) \<in> set creates"
  shows "state_inv (filter (\<lambda>c. fst c \<noteq> seed) creates) (abort_pending_node seed p s)"
  using nodes_abort [OF state_invD(2) [OF inv] c] nodes_okD(6) [OF state_invD(2) [OF inv] c] state_invD [OF inv]
  by (simp add: abort_pending_node_def state_inv_def tables_ok_def handles_ok_def hm_get_remove_fun)

lemma inv_remove_node:
  assumes inv: "state_inv creates s" and r: "remove_node seed s = (r, s')"
  shows "state_inv creates s'"
proof (cases "is_ok r")
  case False
  with r inv show ?thesis
    by (auto simp: remove_node_def split: if_splits option.splits sum.splits)
next
  case True
  with r obtain entry where e: "hm_get (nodes s) seed = Some entry" "ne_attached_sessions entry = 0"
    and s': "s' = s\<lparr>nodes := hm_remove seed (nodes s), http_ports := hm_remove (ne_http_port entry) (http_ports s)\<rparr>"
    by (auto simp: remove_node_def split: if_splits option.splits sum.splits)
  have "(attached_count (sessions s))(seed := 0) = attached_count (sessions s)"
    using nodes_okD(1) [OF state_invD(2) [OF inv] e(1)] e(2) by auto
  with nodes_destroy [OF state_invD(2) [OF inv] e(1)] state_invD [OF inv] show ?thesis
    by (simp add: s' state_inv_def tables_ok_def handles_ok_def hm_get_remove_fun)
qed

section \<open>Closing sessions\<close>

definition removed_keys :: "('k \<Rightarrow> 'v option) \<Rightarrow> ('k \<Rightarrow> 'v option) \<Rightarrow> (string \<Rightarrow> 'e option) \<Rightarrow> string set
    \<Rightarrow> ('e \<Rightarrow> 'k set) \<Rightarrow> bool" where
  "removed_keys idx' idx tbl rs keys \<longleftrightarrow>
     (\<forall>k. idx' k = (if \<exists>r \<in> rs. \<exists>e. tbl r = Some e \<and> k \<in> keys e then None else idx k))"

lemma removed_keys_empty: "removed_keys idx idx tbl {} keys"
  by (simp add: removed_keys_def)

lemma removed_keys_skip:
  "removed_keys idx' idx tbl rs keys \<Longrightarrow> tbl r = None \<Longrightarrow> removed_keys idx' idx tbl (insert r rs) keys"
  by (simp add: removed_keys_def)

lemma removed_keys_step:
  assumes "removed_keys idx'' idx' (tbl(r := None)) rs keys" "tbl r = Some e"
    "\<And>k. idx' k = (if k \<in> keys e then None else idx k)"
  shows "removed_keys idx'' idx tbl (insert r rs) keys"
  unfolding removed_keys_def
proof (rule allI)
  fix k
  show "idx'' k = (if \<exists>r' \<in> insert r rs. \<exists>e. tbl r' = Some e \<and> k \<in> keys e then None else idx k)"
  proof (cases "\<exists>r' \<in> rs. \<exists>e. (tbl(r := None)) r' = Some e \<and> k \<in> keys e")
    case True
    then have "\<exists>r' \<in> insert r rs. \<exists>e. tbl r' = Some e \<and> k \<in> keys e"
      by (auto split: if_splits)
    with True assms(1) show ?thesis by (simp add: removed_keys_def)
  next
    case False
    then have "(\<exists>r' \<in> insert r rs. \<exists>e. tbl r' = Some e \<and> k \<in> keys e) \<longleftrightarrow> k \<in> keys e"
      using assms(2) by (auto split: if_splits)
    moreover have "idx'' k = idx' k"
      using False assms(1) unfolding removed_keys_def by (metis (mono_tags, lifting))
    ultimately show ?thesis using assms(3) by simp
  qed
qed

lemma index_removed:
  assumes "index_ok idx tbl keys" "removed_keys idx' idx tbl rs keys"
  shows "index_ok idx' (tbl |` (- rs)) keys"
  using assms(2) by (intro index_remove [OF assms(1)]) (auto simp: removed_keys_def)

lemma upd_None_Some_iff: "(m(r := None)) q = Some e \<longleftrightarrow> q \<noteq> r \<and> m q = Some e"
  by simp

lemma images_step:
  assumes "m r = Some e0"
  shows "insert (f e0) {f e |e q. q \<in> rs \<and> (m(r := None)) q = Some e} =
    {f e |e q. q \<in> insert r rs \<and> m q = Some e}"
  unfolding upd_None_Some_iff
proof (intro equalityI subsetI)
  fix x assume "x \<in> {f e |e q. q \<in> insert r rs \<and> m q = Some e}"
  then obtain e q where *: "x = f e" "q \<in> insert r rs" "m q = Some e" by blast
  show "x \<in> insert (f e0) {f e |e q. q \<in> rs \<and> q \<noteq> r \<and> m q = Some e}"
    using * assms by (cases "q = r") auto
qed (use assms in blast)

lemma restrict_insert: "(m(r := None)) |` (- rs) = m |` (- insert r rs)"
  by (auto simp: restrict_map_def)

lemma restrict_skip: "m r = None \<Longrightarrow> m |` (- insert r rs) = m |` (- rs)"
  by (auto simp: restrict_map_def)

lemma close_resources_spec:
  assumes "close_resources rs s = (removals, s')"
  shows "\<exists>R B. s' = s\<lparr>resources := R, by_name := B\<rparr> \<and>
    (hm_wf (resources s) \<longrightarrow> hm_wf R) \<and> (hm_wf (by_name s) \<longrightarrow> hm_wf B) \<and>
    hm_get R = hm_get (resources s) |` (- set rs) \<and>
    removed_keys (hm_get B) (hm_get (by_name s)) (hm_get (resources s)) (set rs) (\<lambda>e. {resource_key e}) \<and>
    set removals = {(re_side e, re_name e) |e r. r \<in> set rs \<and> hm_get (resources s) r = Some e}"
  using assms
proof (induction rs arbitrary: s removals)
  case Nil
  then have "s' = s\<lparr>resources := resources s, by_name := by_name s\<rparr>" by simp
  with Nil show ?case
    by (intro exI [of _ "resources s"] exI [of _ "by_name s"]) (simp add: removed_keys_empty)
next
  case (Cons r rs)
  show ?case
  proof (cases "hm_get (resources s) r")
    case None
    with Cons.prems Cons.IH [of s removals] obtain R B where IH:
      "s' = s\<lparr>resources := R, by_name := B\<rparr>" "hm_wf (resources s) \<longrightarrow> hm_wf R"
      "hm_wf (by_name s) \<longrightarrow> hm_wf B" "hm_get R = hm_get (resources s) |` (- set rs)"
      "removed_keys (hm_get B) (hm_get (by_name s)) (hm_get (resources s)) (set rs) (\<lambda>e. {resource_key e})"
      "set removals = {(re_side e, re_name e) |e r. r \<in> set rs \<and> hm_get (resources s) r = Some e}"
      by auto
    from IH(6) None have "set removals =
        {(re_side e, re_name e) |e q. q \<in> set (r # rs) \<and> hm_get (resources s) q = Some e}" by auto
    with IH None show ?thesis
      by (intro exI [of _ R] exI [of _ B]) (simp add: removed_keys_skip restrict_skip)
  next
    case (Some e)
    let ?s = "s\<lparr>resources := hm_remove r (resources s), by_name := hm_remove (resource_key e) (by_name s)\<rparr>"
    from Cons.prems Some obtain removals' where c: "close_resources rs ?s = (removals', s')"
      and rem: "removals = (re_side e, re_name e) # removals'"
      by (auto split: prod.splits)
    from Cons.IH [OF c] obtain R B where IH:
      "s' = ?s\<lparr>resources := R, by_name := B\<rparr>" "hm_wf (resources ?s) \<longrightarrow> hm_wf R"
      "hm_wf (by_name ?s) \<longrightarrow> hm_wf B" "hm_get R = hm_get (resources ?s) |` (- set rs)"
      "removed_keys (hm_get B) (hm_get (by_name ?s)) (hm_get (resources ?s)) (set rs) (\<lambda>e. {resource_key e})"
      "set removals' = {(re_side e, re_name e) |e r. r \<in> set rs \<and> hm_get (resources ?s) r = Some e}"
      by blast
    have "set removals = {(re_side e, re_name e) |e q. q \<in> set (r # rs) \<and> hm_get (resources s) q = Some e}"
      using IH(6) images_step [of "hm_get (resources s)", OF Some, of "\<lambda>e. (re_side e, re_name e)" "set rs"]
      by (simp add: rem hm_get_remove_fun)
    moreover have "removed_keys (hm_get B) (hm_get (by_name s)) (hm_get (resources s)) (insert r (set rs))
        (\<lambda>e. {resource_key e})"
      using IH(5) Some by (intro removed_keys_step [where idx' = "hm_get (by_name ?s)"]) (auto simp: hm_get_remove_fun)
    moreover have "hm_get (resources ?s) = (hm_get (resources s))(r := None)"
      by (simp add: hm_get_remove_fun)
    then have "hm_get R = hm_get (resources s) |` (- set (r # rs))"
      by (simp only: IH(4) restrict_insert list.set)
    ultimately show ?thesis using IH(1-3)
      by (intro exI [of _ R] exI [of _ B]) simp
  qed
qed

lemma remove_outputs_get:
  "hm_get (remove_outputs seed ids m) k = (if k \<in> (\<lambda>i. (seed, i)) ` set ids then None else hm_get m k)"
  by (simp add: remove_outputs_def hm.lookup_fold_del)

lemma remove_outputs_wf [simp]: "hm_wf m \<Longrightarrow> hm_wf (remove_outputs seed ids m)"
  by (induction ids arbitrary: m) (simp_all add: remove_outputs_def)

lemma close_channelmappings_spec:
  assumes "close_channelmappings cs s = (removals, s')"
  shows "\<exists>C B O'. s' = s\<lparr>channelmappings := C, channelmappings_by_name := B, outputs_by_id := O'\<rparr> \<and>
    (hm_wf (channelmappings s) \<longrightarrow> hm_wf C) \<and> (hm_wf (channelmappings_by_name s) \<longrightarrow> hm_wf B) \<and>
    (hm_wf (outputs_by_id s) \<longrightarrow> hm_wf O') \<and>
    hm_get C = hm_get (channelmappings s) |` (- set cs) \<and>
    removed_keys (hm_get B) (hm_get (channelmappings_by_name s)) (hm_get (channelmappings s)) (set cs)
      (\<lambda>e. {(cm_node_seed e, cm_name e)}) \<and>
    removed_keys (hm_get O') (hm_get (outputs_by_id s)) (hm_get (channelmappings s)) (set cs) output_keys \<and>
    set removals = {cm_name e |e c. c \<in> set cs \<and> hm_get (channelmappings s) c = Some e}"
  using assms
proof (induction cs arbitrary: s removals)
  case Nil
  then have "s' = s\<lparr>channelmappings := channelmappings s,
      channelmappings_by_name := channelmappings_by_name s, outputs_by_id := outputs_by_id s\<rparr>" by simp
  with Nil show ?case
    by (intro exI [of _ "channelmappings s"] exI [of _ "channelmappings_by_name s"]
        exI [of _ "outputs_by_id s"]) (simp add: removed_keys_empty)
next
  case (Cons c cs)
  show ?case
  proof (cases "hm_get (channelmappings s) c")
    case None
    with Cons.prems Cons.IH [of s removals] obtain C B O' where IH:
      "s' = s\<lparr>channelmappings := C, channelmappings_by_name := B, outputs_by_id := O'\<rparr>"
      "hm_wf (channelmappings s) \<longrightarrow> hm_wf C" "hm_wf (channelmappings_by_name s) \<longrightarrow> hm_wf B"
      "hm_wf (outputs_by_id s) \<longrightarrow> hm_wf O'" "hm_get C = hm_get (channelmappings s) |` (- set cs)"
      "removed_keys (hm_get B) (hm_get (channelmappings_by_name s)) (hm_get (channelmappings s)) (set cs)
        (\<lambda>e. {(cm_node_seed e, cm_name e)})"
      "removed_keys (hm_get O') (hm_get (outputs_by_id s)) (hm_get (channelmappings s)) (set cs) output_keys"
      "set removals = {cm_name e |e c. c \<in> set cs \<and> hm_get (channelmappings s) c = Some e}"
      by auto
    from IH(8) None have "set removals =
        {cm_name e |e q. q \<in> set (c # cs) \<and> hm_get (channelmappings s) q = Some e}" by auto
    with IH None show ?thesis
      by (intro exI [of _ C] exI [of _ B] exI [of _ O']) (simp add: removed_keys_skip restrict_skip)
  next
    case (Some e)
    let ?s = "s\<lparr>channelmappings := hm_remove c (channelmappings s),
      channelmappings_by_name := hm_remove (cm_node_seed e, cm_name e) (channelmappings_by_name s),
      outputs_by_id := remove_outputs (cm_node_seed e) (cm_output_ids e) (outputs_by_id s)\<rparr>"
    from Cons.prems Some obtain removals' where cl: "close_channelmappings cs ?s = (removals', s')"
      and rem: "removals = cm_name e # removals'"
      by (auto split: prod.splits)
    from Cons.IH [OF cl] obtain C B O' where IH:
      "s' = ?s\<lparr>channelmappings := C, channelmappings_by_name := B, outputs_by_id := O'\<rparr>"
      "hm_wf (channelmappings ?s) \<longrightarrow> hm_wf C" "hm_wf (channelmappings_by_name ?s) \<longrightarrow> hm_wf B"
      "hm_wf (outputs_by_id ?s) \<longrightarrow> hm_wf O'" "hm_get C = hm_get (channelmappings ?s) |` (- set cs)"
      "removed_keys (hm_get B) (hm_get (channelmappings_by_name ?s)) (hm_get (channelmappings ?s)) (set cs)
        (\<lambda>e. {(cm_node_seed e, cm_name e)})"
      "removed_keys (hm_get O') (hm_get (outputs_by_id ?s)) (hm_get (channelmappings ?s)) (set cs) output_keys"
      "set removals' = {cm_name e |e c. c \<in> set cs \<and> hm_get (channelmappings ?s) c = Some e}"
      by blast
    have "set removals = {cm_name e |e q. q \<in> set (c # cs) \<and> hm_get (channelmappings s) q = Some e}"
      using IH(8) images_step [of "hm_get (channelmappings s)", OF Some, of cm_name "set cs"]
      by (simp add: rem hm_get_remove_fun)
    moreover have "removed_keys (hm_get B) (hm_get (channelmappings_by_name s)) (hm_get (channelmappings s))
        (insert c (set cs)) (\<lambda>e. {(cm_node_seed e, cm_name e)})"
      using IH(6) Some by (intro removed_keys_step [where idx' = "hm_get (channelmappings_by_name ?s)"]) (auto simp: hm_get_remove_fun)
    moreover have "removed_keys (hm_get O') (hm_get (outputs_by_id s)) (hm_get (channelmappings s))
        (insert c (set cs)) output_keys"
      using IH(7) Some by (intro removed_keys_step [where idx' = "hm_get (outputs_by_id ?s)"]) (auto simp: hm_get_remove_fun remove_outputs_get output_keys_def)
    moreover have "hm_get (channelmappings ?s) = (hm_get (channelmappings s))(c := None)"
      by (simp add: hm_get_remove_fun)
    then have "hm_get C = hm_get (channelmappings s) |` (- set (c # cs))"
      by (simp only: IH(5) restrict_insert list.set)
    ultimately show ?thesis using IH(1-4)
      by (intro exI [of _ C] exI [of _ B] exI [of _ O']) simp
  qed
qed


text \<open>The node part of closing: the count of the Node goes down, and the last session of a
  refcounted Node takes the Node with it.\<close>

lemma nodes_detach:
  assumes ok: "nodes_ok creates (hm_get (nodes s)) (set (pending_nodes s)) cnt (hm_get (http_ports s))"
    and n: "hm_get (nodes s) seed = Some n" and pos: "0 < cnt seed"
    and d: "detach_session seed n s = (out, s')"
  shows "nodes_ok creates (hm_get (nodes s')) (set (pending_nodes s')) (cnt(seed := cnt seed - 1))
      (hm_get (http_ports s'))"
proof (cases "ne_lifetime n = SessionRefcounted \<and> ne_attached_sessions n - 1 = 0")
  case True
  with pos nodes_okD(1) [OF ok n] have one: "cnt seed = 1" by simp
  from True d have "s' = s\<lparr>http_ports := hm_remove (ne_http_port n) (http_ports s),
      nodes := hm_remove seed (hm_insert seed (n\<lparr>ne_attached_sessions := ne_attached_sessions n - 1\<rparr>) (nodes s))\<rparr>"
    by (simp add: detach_session_def Let_def)
  with nodes_destroy [OF ok n] one show ?thesis
    by (simp add: hm_get_remove_fun hm_get_insert_fun)
next
  case False
  with pos nodes_okD(1) [OF ok n] have "ne_lifetime n = Persistent \<or> ne_attached_sessions n \<noteq> 1"
    by (cases "ne_lifetime n") auto
  with nodes_detach_keep [OF ok n _ pos] False d show ?thesis
    by (auto simp: detach_session_def Let_def hm_get_insert_fun)
qed

lemma detach_session_frame:
  "detach_session seed n s = (out, s') \<Longrightarrow> s' = s\<lparr>nodes := nodes s', http_ports := http_ports s'\<rparr>"
  by (auto simp: detach_session_def Let_def)

lemma detach_session_wf:
  "detach_session seed n s = (out, s') \<Longrightarrow> hm_wf (nodes s) \<Longrightarrow> hm_wf (http_ports s) \<Longrightarrow>
   hm_wf (nodes s') \<and> hm_wf (http_ports s')"
  by (auto simp: detach_session_def Let_def)

lemma ran_retain_owner:
  assumes "hm_wf p"
  shows "ran (hm_get (hm_retain (\<lambda>_ owner. owner \<noteq> h) p)) = ran (hm_get p) - {h}"
proof -
  have "hm_get (hm_retain (\<lambda>_ owner. owner \<noteq> h) p) a = Some o' \<longleftrightarrow> hm_get p a = Some o' \<and> o' \<noteq> h" for a o'
    by (auto simp: hm_get_retain [OF assms] split: option.splits)
  then show ?thesis by (auto simp: ran_def)
qed

lemma streams_close:
  assumes "streams_ok (dom sess) subs anns cms (hm_get p) (hm_get q)" "hm_wf p" "hm_wf q"
  shows "streams_ok (dom sess - {h}) (subs(h := None)) (anns(h := None)) (cms(h := None))
    (hm_get (hm_retain (\<lambda>_ owner. owner \<noteq> h) p)) (hm_get (hm_retain (\<lambda>_ owner. owner \<noteq> h) q))"
  using assms by (auto simp: streams_ok_def ran_retain_owner)

lemma nodes_inv_session_node:
  assumes inv: "state_inv creates s" and h: "hm_get (sessions s) h = Some se"
  obtains n where "hm_get (nodes s) (se_node_seed se) = Some n"
proof -
  have "hm_wf (sessions s)" using state_invD(1) [OF inv] by (simp add: tables_ok_def)
  then have "0 < attached_count (sessions s) (se_node_seed se)"
    using h by (rule attached_count_close)
  with nodes_okD(4) [OF state_invD(2) [OF inv]] that show thesis by fastforce
qed

lemma close_session_ok:
  assumes inv: "state_inv creates s" and h: "hm_get (sessions s) h = Some session"
  obtains n rs s2 cms s3 out s5 where
    "hm_get (nodes s) (se_node_seed session) = Some n"
    "close_resources (se_resources session) (drop_session_streams h (s\<lparr>sessions := hm_remove h (sessions s)\<rparr>)) = (rs, s2)"
    "close_channelmappings (se_channelmappings session) s2 = (cms, s3)"
    "detach_session (se_node_seed session) n (drop_session_cm_streams h s3) = (out, s5)"
    "close_session h s =
       (Inr (out, \<lparr>csf_server = ne_server n, csf_resource_removals = rs, csf_channelmapping_removals = cms\<rparr>), s5)"
proof -
  obtain n where n: "hm_get (nodes s) (se_node_seed session) = Some n"
    by (rule nodes_inv_session_node [OF inv h])
  obtain rs s2 where rs: "close_resources (se_resources session)
      (drop_session_streams h (s\<lparr>sessions := hm_remove h (sessions s)\<rparr>)) = (rs, s2)" by fastforce
  obtain cms s3 where cms: "close_channelmappings (se_channelmappings session) s2 = (cms, s3)" by fastforce
  obtain out s5 where out: "detach_session (se_node_seed session) n (drop_session_cm_streams h s3) = (out, s5)"
    by fastforce
  have "hm_get (nodes (drop_session_streams h (s\<lparr>sessions := hm_remove h (sessions s)\<rparr>))) (se_node_seed session) = Some n"
    using n by (simp add: drop_session_streams_def)
  then have "close_session h s =
      (Inr (out, \<lparr>csf_server = ne_server n, csf_resource_removals = rs, csf_channelmapping_removals = cms\<rparr>), s5)"
    using h rs cms out by (simp add: close_session_def Let_def)
  with n rs cms out that show thesis by blast
qed

text \<open>What the session owned is gone from every table; the rest is as it was.\<close>

definition session_cleared :: "string \<Rightarrow> session_entry \<Rightarrow> state \<Rightarrow> state \<Rightarrow> bool" where
  "session_cleared h se s s' \<longleftrightarrow>
     sessions s' = hm_remove h (sessions s) \<and>
     hm_get (resources s') = hm_get (resources s) |` (- set (se_resources se)) \<and>
     removed_keys (hm_get (by_name s')) (hm_get (by_name s)) (hm_get (resources s))
       (set (se_resources se)) (\<lambda>e. {resource_key e}) \<and>
     hm_get (channelmappings s') = hm_get (channelmappings s) |` (- set (se_channelmappings se)) \<and>
     removed_keys (hm_get (channelmappings_by_name s')) (hm_get (channelmappings_by_name s))
       (hm_get (channelmappings s)) (set (se_channelmappings se)) (\<lambda>e. {(cm_node_seed e, cm_name e)}) \<and>
     removed_keys (hm_get (outputs_by_id s')) (hm_get (outputs_by_id s)) (hm_get (channelmappings s))
       (set (se_channelmappings se)) output_keys \<and>
     subscriptions s' = hm_remove h (subscriptions s) \<and>
     annotation_subscriptions s' = hm_remove h (annotation_subscriptions s) \<and>
     channelmapping_subscriptions s' = hm_remove h (channelmapping_subscriptions s) \<and>
     pending_activations s' = hm_retain (\<lambda>_ owner. owner \<noteq> h) (pending_activations s) \<and>
     pending_channelmapping_activations s' =
       hm_retain (\<lambda>_ owner. owner \<noteq> h) (pending_channelmapping_activations s)"

definition same_rest :: "state \<Rightarrow> state \<Rightarrow> bool" where
  "same_rest s s' \<longleftrightarrow>
     act_chans s' = act_chans s \<and> ann_chans s' = ann_chans s \<and> cm_chans s' = cm_chans s \<and>
     acks s' = acks s \<and> ack_waiting s' = ack_waiting s \<and> cm_acks s' = cm_acks s \<and>
     cm_ack_waiting s' = cm_ack_waiting s \<and> next_session_id s' = next_session_id s \<and>
     next_resource_id s' = next_resource_id s \<and> next_activation_id s' = next_activation_id s \<and>
     next_channelmapping_id s' = next_channelmapping_id s \<and>
     next_channelmapping_activation_id s' = next_channelmapping_activation_id s"

lemma cleared_before_detach:
  assumes rs: "close_resources (se_resources se)
      (drop_session_streams h (s\<lparr>sessions := hm_remove h (sessions s)\<rparr>)) = (rs, s2)"
    and cms: "close_channelmappings (se_channelmappings se) s2 = (cms, s3)"
    and s4: "s4 = drop_session_cm_streams h s3"
  shows "session_cleared h se s s4 \<and> same_rest s s4 \<and> (tables_ok s \<longrightarrow> tables_ok s4) \<and>
    nodes s4 = nodes s \<and> pending_nodes s4 = pending_nodes s \<and> http_ports s4 = http_ports s \<and>
    set rs = {(re_side e, re_name e) |e r. r \<in> set (se_resources se) \<and> hm_get (resources s) r = Some e} \<and>
    set cms = {cm_name e |e c. c \<in> set (se_channelmappings se) \<and> hm_get (channelmappings s) c = Some e}"
proof -
  let ?s1 = "drop_session_streams h (s\<lparr>sessions := hm_remove h (sessions s)\<rparr>)"
  obtain R B where R: "s2 = ?s1\<lparr>resources := R, by_name := B\<rparr>"
    "hm_wf (resources s) \<longrightarrow> hm_wf R" "hm_wf (by_name s) \<longrightarrow> hm_wf B"
    "hm_get R = hm_get (resources s) |` (- set (se_resources se))"
    "removed_keys (hm_get B) (hm_get (by_name s)) (hm_get (resources s)) (set (se_resources se)) (\<lambda>e. {resource_key e})"
    "set rs = {(re_side e, re_name e) |e r. r \<in> set (se_resources se) \<and> hm_get (resources s) r = Some e}"
    using close_resources_spec [OF rs] by (auto simp: drop_session_streams_def)
  obtain C N O' where C: "s3 = s2\<lparr>channelmappings := C, channelmappings_by_name := N, outputs_by_id := O'\<rparr>"
    "hm_wf (channelmappings s2) \<longrightarrow> hm_wf C" "hm_wf (channelmappings_by_name s2) \<longrightarrow> hm_wf N"
    "hm_wf (outputs_by_id s2) \<longrightarrow> hm_wf O'"
    "hm_get C = hm_get (channelmappings s2) |` (- set (se_channelmappings se))"
    "removed_keys (hm_get N) (hm_get (channelmappings_by_name s2)) (hm_get (channelmappings s2))
      (set (se_channelmappings se)) (\<lambda>e. {(cm_node_seed e, cm_name e)})"
    "removed_keys (hm_get O') (hm_get (outputs_by_id s2)) (hm_get (channelmappings s2))
      (set (se_channelmappings se)) output_keys"
    "set cms = {cm_name e |e c. c \<in> set (se_channelmappings se) \<and> hm_get (channelmappings s2) c = Some e}"
    using close_channelmappings_spec [OF cms] by blast
  have s2: "channelmappings s2 = channelmappings s" "channelmappings_by_name s2 = channelmappings_by_name s"
    "outputs_by_id s2 = outputs_by_id s"
    by (simp_all add: R(1) drop_session_streams_def)
  have "session_cleared h se s s4"
    using R(4,5) C(5,6,7)
    by (simp add: session_cleared_def s4 drop_session_cm_streams_def drop_session_streams_def C(1) R(1))
  moreover have "tables_ok s \<longrightarrow> tables_ok s4"
    using R(2,3) C(2,3,4)
    by (simp add: tables_ok_def s4 drop_session_cm_streams_def drop_session_streams_def C(1) R(1))
  moreover have "same_rest s s4 \<and> nodes s4 = nodes s \<and> pending_nodes s4 = pending_nodes s \<and> http_ports s4 = http_ports s"
    by (simp add: same_rest_def s4 drop_session_cm_streams_def drop_session_streams_def C(1) R(1))
  ultimately show ?thesis using R(6) C(8) s2 by simp
qed

lemma close_session_cleared:
  assumes inv: "state_inv creates s" and h: "hm_get (sessions s) h = Some se"
    and c: "close_session h s = (r, s')"
  shows "session_cleared h se s s' \<and> same_rest s s' \<and> tables_ok s' \<and>
    nodes_ok creates (hm_get (nodes s')) (set (pending_nodes s')) (attached_count (sessions s'))
      (hm_get (http_ports s'))"
proof -
  obtain n rs s2 cms s3 out s5 where n: "hm_get (nodes s) (se_node_seed se) = Some n"
    and rs: "close_resources (se_resources se)
      (drop_session_streams h (s\<lparr>sessions := hm_remove h (sessions s)\<rparr>)) = (rs, s2)"
    and cms: "close_channelmappings (se_channelmappings se) s2 = (cms, s3)"
    and out: "detach_session (se_node_seed se) n (drop_session_cm_streams h s3) = (out, s5)"
    and r: "close_session h s =
       (Inr (out, \<lparr>csf_server = ne_server n, csf_resource_removals = rs, csf_channelmapping_removals = cms\<rparr>), s5)"
    by (rule close_session_ok [OF inv h])
  define s4 where "s4 = drop_session_cm_streams h s3"
  have out': "detach_session (se_node_seed se) n s4 = (out, s')" using out r c by (simp add: s4_def)
  have wf: "hm_wf (sessions s)" "tables_ok s" using state_invD(1) [OF inv] by (simp_all add: tables_ok_def)
  note s4 = cleared_before_detach [OF rs cms s4_def]
  note frame = detach_session_frame [OF out']
  have "nodes_ok creates (hm_get (nodes s4)) (set (pending_nodes s4)) (attached_count (sessions s))
      (hm_get (http_ports s4))"
    using state_invD(2) [OF inv] s4 by simp
  from nodes_detach [OF this _ _ out'] n s4 attached_count_close [OF wf(1) h]
  have "nodes_ok creates (hm_get (nodes s')) (set (pending_nodes s')) (attached_count (sessions s4))
      (hm_get (http_ports s'))"
    by (simp add: session_cleared_def)
  moreover have "session_cleared h se s s'" "same_rest s s'" "sessions s' = sessions s4"
    using s4 by (subst frame, simp add: session_cleared_def same_rest_def)+
  moreover have "tables_ok s'"
    using s4 wf detach_session_wf [OF out'] by (subst frame) (simp add: tables_ok_def)
  ultimately show ?thesis by simp
qed

lemma handles_mono:
  assumes "handles_ok s"
    and "next_session_id s' = next_session_id s" "next_resource_id s' = next_resource_id s"
      "next_activation_id s' = next_activation_id s" "next_channelmapping_id s' = next_channelmapping_id s"
      "next_channelmapping_activation_id s' = next_channelmapping_activation_id s"
    and "dom (hm_get (sessions s')) \<subseteq> dom (hm_get (sessions s))"
      "dom (hm_get (resources s')) \<subseteq> dom (hm_get (resources s))"
      "dom (hm_get (channelmappings s')) \<subseteq> dom (hm_get (channelmappings s))"
      "dom (hm_get (pending_activations s')) \<subseteq> dom (hm_get (pending_activations s))"
      "dom (hm_get (pending_channelmapping_activations s')) \<subseteq> dom (hm_get (pending_channelmapping_activations s))"
      "dom (hm_get (acks s')) \<subseteq> dom (hm_get (acks s)) \<union> set (ack_waiting s)"
      "dom (hm_get (cm_acks s')) \<subseteq> dom (hm_get (cm_acks s)) \<union> set (cm_ack_waiting s)"
      "set (ack_waiting s') \<subseteq> set (ack_waiting s)" "set (cm_ack_waiting s') \<subseteq> set (cm_ack_waiting s)"
  shows "handles_ok s'"
  unfolding handles_ok_def
proof (intro conjI ballI)
  fix a assume "a \<in> dom (hm_get (pending_activations s')) \<union> dom (hm_get (acks s')) \<union> set (ack_waiting s')"
  then have "a \<in> dom (hm_get (pending_activations s)) \<union> dom (hm_get (acks s)) \<union> set (ack_waiting s)"
    using assms(10,12,14) by blast
  with assms(1,4) show "issued activation_handle (next_activation_id s') a"
    unfolding handles_ok_def by metis
next
  fix a assume "a \<in> dom (hm_get (pending_channelmapping_activations s')) \<union> dom (hm_get (cm_acks s')) \<union>
    set (cm_ack_waiting s')"
  then have "a \<in> dom (hm_get (pending_channelmapping_activations s)) \<union> dom (hm_get (cm_acks s)) \<union>
      set (cm_ack_waiting s)"
    using assms(11,13,15) by blast
  with assms(1,6) show "issued cm_activation_handle (next_channelmapping_activation_id s') a"
    unfolding handles_ok_def by metis
next
  fix h assume "h \<in> dom (hm_get (sessions s'))"
  with assms(1,2,7) show "issued session_handle (next_session_id s') h"
    unfolding handles_ok_def by (metis subsetD)
next
  fix r assume "r \<in> dom (hm_get (resources s'))"
  with assms(1,3,8) show "issued resource_handle (next_resource_id s') r"
    unfolding handles_ok_def by (metis subsetD)
next
  fix c assume "c \<in> dom (hm_get (channelmappings s'))"
  with assms(1,5,9) show "issued channelmapping_handle (next_channelmapping_id s') c"
    unfolding handles_ok_def by (metis subsetD)
qed

lemma dom_retain: "hm_wf m \<Longrightarrow> dom (hm_get (hm_retain P m)) \<subseteq> dom (hm_get m)"
  by (auto simp: hm_get_retain split: option.splits)

lemma inv_close_session:
  assumes inv: "state_inv creates s" and c: "close_session h s = (r, s')"
  shows "state_inv creates s'"
proof (cases "hm_get (sessions s) h")
  case None
  with c inv show ?thesis by (simp add: close_session_def)
next
  case (Some se)
  note cl = close_session_cleared [OF inv Some c]
  note D = state_invD [OF inv]
  show ?thesis
  proof (rule state_invI)
    show "resources_ok (hm_get (sessions s')) (hm_get (resources s')) (hm_get (by_name s'))"
      using D(3) cl Some
      by (auto simp: resources_ok_def session_cleared_def hm_get_remove_fun intro: owned_close index_removed)
    show "cms_ok (hm_get (sessions s')) (hm_get (channelmappings s')) (hm_get (channelmappings_by_name s'))
       (hm_get (outputs_by_id s'))"
      using D(4) cl Some
      by (auto simp: cms_ok_def session_cleared_def hm_get_remove_fun intro: owned_close index_removed)
    show "streams_ok (dom (hm_get (sessions s'))) (hm_get (subscriptions s'))
       (hm_get (annotation_subscriptions s')) (hm_get (channelmapping_subscriptions s'))
       (hm_get (pending_activations s')) (hm_get (pending_channelmapping_activations s'))"
      using streams_close [OF D(5)] D(1) cl
      by (simp add: session_cleared_def hm_get_remove_fun tables_ok_def)
    show "handles_ok s'"
      using cl D(1) by (intro handles_mono [OF D(6)])
        (auto simp: session_cleared_def same_rest_def hm_get_remove_fun tables_ok_def dest: dom_retain [THEN subsetD])
  qed (use cl in simp_all)
qed

end
