(* ===== verification/Nvn_Inv_Objects.thy ===== *)
theory Nvn_Inv_Objects
  imports Nvn_Inv_Nodes
begin

text \<open>
  The operations on streams, annotation events, senders, receivers, channel mappings and
  activations keep the invariant of the daemon state.
\<close>

section \<open>Streams\<close>

text \<open>A change of the stream tables and of the channels only.\<close>

lemma inv_streams:
  assumes inv: "state_inv creates s"
    and s': "s' = s\<lparr>subscriptions := A, annotation_subscriptions := B, channelmapping_subscriptions := C,
      act_chans := X, ann_chans := Y, cm_chans := Z\<rparr>"
    and A: "hm_wf A" "dom (hm_get A) \<subseteq> dom (hm_get (sessions s))"
    and B: "hm_wf B" "dom (hm_get B) \<subseteq> dom (hm_get (sessions s))"
    and C: "hm_wf C" "dom (hm_get C) \<subseteq> dom (hm_get (sessions s))"
  shows "state_inv creates s'"
  using state_invD [OF inv] A B C by (simp add: s' state_inv_def tables_ok_def handles_ok_def streams_ok_def)

lemma inv_slots:
  assumes "state_inv creates s"
  shows "hm_wf (subscriptions s)" "hm_wf (annotation_subscriptions s)" "hm_wf (channelmapping_subscriptions s)"
    "dom (hm_get (subscriptions s)) \<subseteq> dom (hm_get (sessions s))"
    "dom (hm_get (annotation_subscriptions s)) \<subseteq> dom (hm_get (sessions s))"
    "dom (hm_get (channelmapping_subscriptions s)) \<subseteq> dom (hm_get (sessions s))"
  using state_invD(1,5) [OF assms] by (simp_all add: tables_ok_def streams_ok_def)

lemma inv_subscriptions:
  assumes "state_inv creates s" "hm_wf A" "dom (hm_get A) \<subseteq> dom (hm_get (sessions s))"
  shows "state_inv creates (s\<lparr>subscriptions := A\<rparr>)"
  using inv_slots [OF assms(1)] assms(2,3)
  by (intro inv_streams [OF assms(1), where A = A and B = "annotation_subscriptions s" and
        C = "channelmapping_subscriptions s" and X = "act_chans s" and Y = "ann_chans s" and Z = "cm_chans s"]) simp_all

lemma inv_annotation_subscriptions:
  assumes "state_inv creates s" "hm_wf B" "dom (hm_get B) \<subseteq> dom (hm_get (sessions s))"
  shows "state_inv creates (s\<lparr>annotation_subscriptions := B\<rparr>)"
  using inv_slots [OF assms(1)] assms(2,3)
  by (intro inv_streams [OF assms(1), where A = "subscriptions s" and B = B and
        C = "channelmapping_subscriptions s" and X = "act_chans s" and Y = "ann_chans s" and Z = "cm_chans s"]) simp_all

lemma inv_channelmapping_subscriptions:
  assumes "state_inv creates s" "hm_wf C" "dom (hm_get C) \<subseteq> dom (hm_get (sessions s))"
  shows "state_inv creates (s\<lparr>channelmapping_subscriptions := C\<rparr>)"
  using inv_slots [OF assms(1)] assms(2,3)
  by (intro inv_streams [OF assms(1), where A = "subscriptions s" and B = "annotation_subscriptions s" and
        C = C and X = "act_chans s" and Y = "ann_chans s" and Z = "cm_chans s"]) simp_all

lemma inv_chans:
  assumes "state_inv creates s"
  shows "state_inv creates (s\<lparr>act_chans := X\<rparr>)" "state_inv creates (s\<lparr>ann_chans := Y\<rparr>)"
    "state_inv creates (s\<lparr>cm_chans := Z\<rparr>)"
  using assms by (simp_all add: state_inv_def tables_ok_def handles_ok_def)

lemma dom_hm_insert: "dom (hm_get (hm_insert h v m)) = insert h (dom (hm_get m))"
  by (simp add: hm_get_insert_fun)

lemma dom_hm_remove: "dom (hm_get (hm_remove h m)) = dom (hm_get m) - {h}"
  by (simp add: hm_get_remove_fun)

lemma hm_contains_dom: "hm_contains m h \<longleftrightarrow> h \<in> dom (hm_get m)"
  by (simp add: hm_contains_def dom_def)

lemma inv_take_slot:
  assumes inv: "state_inv creates s" and h: "hm_contains (sessions s) h"
  shows "state_inv creates (s\<lparr>subscriptions := hm_insert h tx (subscriptions s)\<rparr>)"
    "state_inv creates (s\<lparr>annotation_subscriptions := hm_insert h tx (annotation_subscriptions s)\<rparr>)"
    "state_inv creates (s\<lparr>channelmapping_subscriptions := hm_insert h tx (channelmapping_subscriptions s)\<rparr>)"
proof -
  have "insert h K \<subseteq> dom (hm_get (sessions s))" if "K \<subseteq> dom (hm_get (sessions s))" for K
    using that h by (simp add: hm_contains_dom)
  then show "state_inv creates (s\<lparr>subscriptions := hm_insert h tx (subscriptions s)\<rparr>)"
    "state_inv creates (s\<lparr>annotation_subscriptions := hm_insert h tx (annotation_subscriptions s)\<rparr>)"
    "state_inv creates (s\<lparr>channelmapping_subscriptions := hm_insert h tx (channelmapping_subscriptions s)\<rparr>)"
    using inv_slots [OF inv] inv_subscriptions [OF inv] inv_annotation_subscriptions [OF inv]
      inv_channelmapping_subscriptions [OF inv]
    by (metis dom_hm_insert hm_wf_insert)+
qed

lemma inv_leave_slot:
  assumes inv: "state_inv creates s"
  shows "state_inv creates (s\<lparr>subscriptions := hm_remove h (subscriptions s)\<rparr>)"
    "state_inv creates (s\<lparr>annotation_subscriptions := hm_remove h (annotation_subscriptions s)\<rparr>)"
    "state_inv creates (s\<lparr>channelmapping_subscriptions := hm_remove h (channelmapping_subscriptions s)\<rparr>)"
proof -
  have "K - {h} \<subseteq> dom (hm_get (sessions s))" if "K \<subseteq> dom (hm_get (sessions s))" for K
    using that by blast
  then show "state_inv creates (s\<lparr>subscriptions := hm_remove h (subscriptions s)\<rparr>)"
    "state_inv creates (s\<lparr>annotation_subscriptions := hm_remove h (annotation_subscriptions s)\<rparr>)"
    "state_inv creates (s\<lparr>channelmapping_subscriptions := hm_remove h (channelmapping_subscriptions s)\<rparr>)"
    using inv_slots [OF inv] inv_subscriptions [OF inv] inv_annotation_subscriptions [OF inv]
      inv_channelmapping_subscriptions [OF inv]
    by (metis dom_hm_remove hm_wf_remove)+
qed

lemma inv_subscribe:
  assumes "state_inv creates s"
  shows "state_inv creates (snd (subscribe_activations h tx s))"
    "state_inv creates (snd (subscribe_annotations h tx s))"
    "state_inv creates (snd (subscribe_channelmapping_activations h tx s))"
  using assms inv_take_slot [OF assms]
  by (simp_all add: subscribe_activations_def subscribe_annotations_def
      subscribe_channelmapping_activations_def split: option.split)

lemma inv_drop_annotation_subscription: "state_inv creates s \<Longrightarrow> state_inv creates (drop_annotation_subscription h s)"
  by (simp add: drop_annotation_subscription_def inv_leave_slot)

lemma inv_reap:
  assumes "state_inv creates s"
  shows "state_inv creates (reap_closed_subscription h s)"
    "state_inv creates (reap_closed_channelmapping_subscription h s)"
    "state_inv creates (reap_annotation_subscription h s)"
  using assms inv_leave_slot [OF assms, of h]
  by (simp_all add: reap_closed_subscription_def reap_closed_channelmapping_subscription_def
      reap_annotation_subscription_def split: option.split)

lemma inv_stream_ended:
  assumes "state_inv creates s"
  shows "state_inv creates (snd (on_subscription_stream_ended h s))"
    "state_inv creates (snd (on_channelmapping_subscription_stream_ended h s))"
  using inv_reap [OF assms]
  by (simp_all add: on_subscription_stream_ended_def on_channelmapping_subscription_stream_ended_def Let_def)

section \<open>Annotation events\<close>

lemma inv_send_annotation: "state_inv creates s \<Longrightarrow> state_inv creates (send_annotation h ev s)"
  by (auto simp: send_annotation_def inv_leave_slot inv_chans
      split: option.split prod.split send_result.split)

lemma inv_send_annotations: "state_inv creates s \<Longrightarrow> state_inv creates (fold (send_annotation h) evs s)"
  by (induction evs arbitrary: s) (simp_all add: inv_send_annotation)

lemma inv_publish_annotation: "state_inv creates s \<Longrightarrow> state_inv creates (publish_annotation seed upd store s)"
proof -
  have "state_inv creates s \<Longrightarrow> state_inv creates (fold (\<lambda>(h, r). send_annotation h (f r)) xs s)" for f xs
    by (induction xs arbitrary: s) (auto simp: inv_send_annotation)
  then show "state_inv creates s \<Longrightarrow> state_inv creates (publish_annotation seed upd store s)"
    by (simp add: publish_annotation_def Let_def)
qed

lemma inv_emit_added_resource: "state_inv creates s \<Longrightarrow> state_inv creates (emit_added_resource r store s)"
  by (simp add: emit_added_resource_def inv_send_annotations split: option.split)

lemma inv_subscribe_annotations_rpc:
  assumes inv: "state_inv creates s"
  shows "state_inv creates (snd (subscribe_annotations_rpc annotations h s))"
proof -
  have "state_inv creates s1" if "subscribe_annotations h tx (s\<lparr>ann_chans := heap\<rparr>) = (r1, s1)" for tx heap r1 s1
    using inv_subscribe(2) [OF inv_chans(2) [OF inv], of h tx heap] that by simp
  then show ?thesis using inv
    by (auto simp: subscribe_annotations_rpc_def Let_def split: option.split sum.split prod.split bool.split
        intro!: inv_chans inv_drop_annotation_subscription)
qed

section \<open>Senders and receivers\<close>

lemma inv_prepare_add_resource:
  assumes "state_inv creates s"
  shows "state_inv creates (snd (prepare_add_resource js sd h tr file claimed s))"
  using assms inv_reap(1) [OF assms, of h]
  by (simp add: prepare_add_resource_def Let_def split: option.split)

lemma inv_commit_add_resource:
  assumes inv: "state_inv creates s" and wrap: "no_wrap s"
    and seed: "\<forall>se. hm_get (sessions s) h = Some se \<longrightarrow> se_node_seed se = seed"
    and c: "commit_add_resource sd name seed h s = (r, s')"
  shows "state_inv creates s'"
proof (cases "hm_get (sessions s) h")
  case None
  with c inv show ?thesis by (simp add: commit_add_resource_def)
next
  case (Some se)
  let ?r = "resource_handle (next_resource_id s)"
  let ?e = "\<lparr>re_name = name, re_node_seed = seed, re_session_handle = h, re_side = sd\<rparr>"
  let ?se = "se\<lparr>se_resources := hs_insert ?r (se_resources se)\<rparr>"
  note D = state_invD [OF inv]
  have fresh: "hm_get (resources s) ?r = None" by (rule resource_handle_fresh [OF D(6)])
  have s': "s' = s\<lparr>next_resource_id := next_resource_id s + 1, resources := hm_insert ?r ?e (resources s),
      by_name := hm_insert (seed, sd, name) ?r (by_name s), sessions := hm_insert h ?se (sessions s)\<rparr>"
    using c Some by (simp add: commit_add_resource_def allocate_resource_handle_def Let_def)
  have wf: "hm_wf (sessions s)" using D(1) by (simp add: tables_ok_def)
  have "owned_ok ((hm_get (sessions s))(h \<mapsto> ?se)) se_resources ((hm_get (resources s))(?r \<mapsto> ?e))
      re_session_handle re_node_seed"
    using D(3) seed Some fresh by (intro owned_add) (auto simp: resources_ok_def)
  moreover have "index_ok ((hm_get (by_name s))((seed, sd, name) \<mapsto> ?r)) ((hm_get (resources s))(?r \<mapsto> ?e))
      (\<lambda>e. {resource_key e})"
    using D(3) fresh by (intro index_add [where idx = "hm_get (by_name s)"]) (auto simp: resources_ok_def resource_key_def)
  ultimately have res: "resources_ok (hm_get (sessions s')) (hm_get (resources s')) (hm_get (by_name s'))"
    by (simp add: s' resources_ok_def hm_get_insert_fun)
  have cms: "cms_ok (hm_get (sessions s')) (hm_get (channelmappings s')) (hm_get (channelmappings_by_name s'))
      (hm_get (outputs_by_id s'))"
    using D(4) Some by (simp add: s' cms_ok_def hm_get_insert_fun owned_same [where se = se])
  have "handles_ok s'"
    using D(6) wrap Some by (auto simp: s' handles_ok_def no_wrap_def hm_get_insert_fun intro: issued_succ)
  moreover have "insert h (dom (hm_get (sessions s))) = dom (hm_get (sessions s))"
    using Some by auto
  ultimately show ?thesis
    using D(1,2,5) res cms attached_count_same [OF wf Some, of ?se]
    by (intro state_invI) (simp_all add: s' tables_ok_def hm_get_insert_fun)
qed

lemma inv_commit_add_sender:
  assumes "state_inv creates s" "no_wrap s"
    "\<forall>se. hm_get (sessions s) (asr_session_handle ready) = Some se \<longrightarrow> se_node_seed se = asr_node_seed ready"
  shows "state_inv creates (snd (commit_add_sender ready s))"
  using inv_commit_add_resource [OF assms]
  by (auto simp: commit_add_sender_def split: prod.split sum.split)

lemma inv_commit_add_receiver:
  assumes "state_inv creates s" "no_wrap s"
    "\<forall>se. hm_get (sessions s) (arr_session_handle ready) = Some se \<longrightarrow> se_node_seed se = arr_node_seed ready"
  shows "state_inv creates (snd (commit_add_receiver ready s))"
  using inv_commit_add_resource [OF assms]
  by (auto simp: commit_add_receiver_def split: prod.split sum.split)

lemma inv_remove_resource:
  assumes inv: "state_inv creates s" and c: "remove_resource h r s = (out, s')"
  shows "state_inv creates s'"
proof (cases "is_ok out")
  case False
  with c inv show ?thesis by (auto simp: remove_resource_def Let_def split: option.splits if_splits)
next
  case True
  with c obtain se e where se: "hm_get (sessions s) h = Some se" and r: "r \<in> set (se_resources se)"
    and e: "hm_get (resources s) r = Some e"
    and s': "s' = s\<lparr>resources := hm_remove r (resources s), by_name := hm_remove (resource_key e) (by_name s),
      sessions := hm_insert h (se\<lparr>se_resources := hs_remove r (se_resources se)\<rparr>) (sessions s)\<rparr>"
    by (auto simp: remove_resource_def Let_def split: option.splits if_splits)
  let ?se = "se\<lparr>se_resources := hs_remove r (se_resources se)\<rparr>"
  note D = state_invD [OF inv]
  have wf: "hm_wf (sessions s)" using D(1) by (simp add: tables_ok_def)
  have "owned_ok ((hm_get (sessions s))(h \<mapsto> ?se)) se_resources ((hm_get (resources s))(r := None))
      re_session_handle re_node_seed"
    using D(3) se r by (intro owned_remove) (auto simp: resources_ok_def)
  moreover have "index_ok ((hm_get (by_name s))(resource_key e := None)) (hm_get (resources s) |` (- {r}))
      (\<lambda>e. {resource_key e})"
    using D(3) e by (intro index_remove [where idx = "hm_get (by_name s)"]) (auto simp: resources_ok_def)
  ultimately have res: "resources_ok (hm_get (sessions s')) (hm_get (resources s')) (hm_get (by_name s'))"
    by (simp add: s' resources_ok_def hm_fun_simps restrict_minus_single)
  have cms: "cms_ok (hm_get (sessions s')) (hm_get (channelmappings s')) (hm_get (channelmappings_by_name s'))
      (hm_get (outputs_by_id s'))"
    using D(4) se by (simp add: s' cms_ok_def hm_get_insert_fun owned_same [where se = se])
  have dom: "insert h (dom (hm_get (sessions s))) = dom (hm_get (sessions s))" using se by auto
  have "handles_ok s'"
    by (rule handles_mono [OF D(6)]) (simp_all add: s' hm_fun_simps dom)
  with dom show ?thesis
    using D(1,2,5) res cms attached_count_same [OF wf se, of ?se]
    by (intro state_invI) (simp_all add: s' tables_ok_def hm_get_insert_fun)
qed

section \<open>Channel mappings\<close>

lemma inv_prepare_add_channelmapping:
  assumes "state_inv creates s"
  shows "state_inv creates (snd (prepare_add_channelmapping h name ins outs s))"
  using assms inv_reap(2) [OF assms, of h]
  by (simp add: prepare_add_channelmapping_def Let_def split: option.split)

lemma fold_insert_wf [simp]: "hm_wf m \<Longrightarrow> hm_wf (fold (\<lambda>k. hm_insert k c) ks m)"
  by (induction ks arbitrary: m) simp_all

lemma inv_commit_add_channelmapping:
  assumes inv: "state_inv creates s" and wrap: "no_wrap s"
    and seed: "\<forall>se. hm_get (sessions s) (acr_session_handle ready) = Some se \<longrightarrow>
      se_node_seed se = acr_node_seed ready"
    and c: "commit_add_channelmapping ready s = (r, s')"
  shows "state_inv creates s'"
proof (cases "hm_get (sessions s) (acr_session_handle ready)")
  case None
  with c inv show ?thesis by (simp add: commit_add_channelmapping_def Let_def)
next
  case (Some se)
  let ?h = "acr_session_handle ready" and ?seed = "acr_node_seed ready" and ?name = "acr_name ready"
  let ?c = "channelmapping_handle (next_channelmapping_id s)"
  let ?e = "\<lparr>cm_name = ?name, cm_node_seed = ?seed, cm_session_handle = ?h,
    cm_input_ids = remdups (acr_input_ids ready), cm_output_ids = remdups (acr_output_ids ready)\<rparr>"
  let ?se = "se\<lparr>se_channelmappings := hs_insert ?c (se_channelmappings se)\<rparr>"
  let ?outs = "fold (\<lambda>k. hm_insert k ?c) (map (\<lambda>i. (?seed, i)) (acr_output_ids ready)) (outputs_by_id s)"
  note D = state_invD [OF inv]
  have fresh: "hm_get (channelmappings s) ?c = None" by (rule channelmapping_handle_fresh [OF D(6)])
  have s': "s' = s\<lparr>next_channelmapping_id := next_channelmapping_id s + 1, outputs_by_id := ?outs,
      channelmappings := hm_insert ?c ?e (channelmappings s),
      channelmappings_by_name := hm_insert (?seed, ?name) ?c (channelmappings_by_name s),
      sessions := hm_insert ?h ?se (sessions s)\<rparr>"
    using c Some by (simp add: commit_add_channelmapping_def allocate_channelmapping_handle_def Let_def)
  have wf: "hm_wf (sessions s)" using D(1) by (simp add: tables_ok_def)
  have "owned_ok ((hm_get (sessions s))(?h \<mapsto> ?se)) se_channelmappings ((hm_get (channelmappings s))(?c \<mapsto> ?e))
      cm_session_handle cm_node_seed"
    using D(4) seed Some fresh by (intro owned_add) (auto simp: cms_ok_def)
  moreover have "index_ok ((hm_get (channelmappings_by_name s))((?seed, ?name) \<mapsto> ?c))
      ((hm_get (channelmappings s))(?c \<mapsto> ?e)) (\<lambda>e. {(cm_node_seed e, cm_name e)})"
    using D(4) fresh by (intro index_add [where idx = "hm_get (channelmappings_by_name s)"]) (auto simp: cms_ok_def)
  moreover have "index_ok (hm_get ?outs) ((hm_get (channelmappings s))(?c \<mapsto> ?e)) output_keys"
    using D(4) fresh
    by (intro index_add [where idx = "hm_get (outputs_by_id s)"])
      (auto simp: cms_ok_def output_keys_def hm.lookup_fold_put)
  ultimately have cms: "cms_ok (hm_get (sessions s')) (hm_get (channelmappings s'))
      (hm_get (channelmappings_by_name s')) (hm_get (outputs_by_id s'))"
    by (simp add: s' cms_ok_def hm_get_insert_fun)
  have res: "resources_ok (hm_get (sessions s')) (hm_get (resources s')) (hm_get (by_name s'))"
    using D(3) Some by (simp add: s' resources_ok_def hm_get_insert_fun owned_same [where se = se])
  have "handles_ok s'"
    using D(6) wrap Some by (auto simp: s' handles_ok_def no_wrap_def hm_get_insert_fun intro: issued_succ)
  moreover have "insert ?h (dom (hm_get (sessions s))) = dom (hm_get (sessions s))" using Some by auto
  ultimately show ?thesis
    using D(1,2,5) res cms attached_count_same [OF wf Some, of ?se]
    by (intro state_invI) (simp_all add: s' tables_ok_def hm_get_insert_fun)
qed

lemma inv_remove_channelmapping:
  assumes inv: "state_inv creates s" and c: "remove_channelmapping h c s = (out, s')"
  shows "state_inv creates s'"
proof (cases "is_ok out")
  case False
  with c inv show ?thesis by (auto simp: remove_channelmapping_def split: option.splits if_splits)
next
  case True
  with c obtain se e where se: "hm_get (sessions s) h = Some se" and own: "c \<in> set (se_channelmappings se)"
    and e: "hm_get (channelmappings s) c = Some e"
    and s': "s' = s\<lparr>channelmappings := hm_remove c (channelmappings s),
      channelmappings_by_name := hm_remove (cm_node_seed e, cm_name e) (channelmappings_by_name s),
      outputs_by_id := remove_outputs (cm_node_seed e) (cm_output_ids e) (outputs_by_id s),
      sessions := hm_insert h (se\<lparr>se_channelmappings := hs_remove c (se_channelmappings se)\<rparr>) (sessions s)\<rparr>"
    by (auto simp: remove_channelmapping_def split: option.splits if_splits)
  let ?se = "se\<lparr>se_channelmappings := hs_remove c (se_channelmappings se)\<rparr>"
  let ?outs = "remove_outputs (cm_node_seed e) (cm_output_ids e) (outputs_by_id s)"
  note D = state_invD [OF inv]
  have wf: "hm_wf (sessions s)" using D(1) by (simp add: tables_ok_def)
  have "owned_ok ((hm_get (sessions s))(h \<mapsto> ?se)) se_channelmappings ((hm_get (channelmappings s))(c := None))
      cm_session_handle cm_node_seed"
    using D(4) se own by (intro owned_remove) (auto simp: cms_ok_def)
  moreover have "index_ok ((hm_get (channelmappings_by_name s))((cm_node_seed e, cm_name e) := None))
      (hm_get (channelmappings s) |` (- {c})) (\<lambda>e. {(cm_node_seed e, cm_name e)})"
    using D(4) e by (intro index_remove [where idx = "hm_get (channelmappings_by_name s)"]) (auto simp: cms_ok_def)
  moreover have "index_ok (hm_get ?outs) (hm_get (channelmappings s) |` (- {c})) output_keys"
    using D(4) e by (intro index_remove [where idx = "hm_get (outputs_by_id s)"])
      (auto simp: cms_ok_def remove_outputs_get output_keys_def)
  ultimately have cms: "cms_ok (hm_get (sessions s')) (hm_get (channelmappings s'))
      (hm_get (channelmappings_by_name s')) (hm_get (outputs_by_id s'))"
    by (simp add: s' cms_ok_def hm_fun_simps restrict_minus_single)
  have res: "resources_ok (hm_get (sessions s')) (hm_get (resources s')) (hm_get (by_name s'))"
    using D(3) se by (simp add: s' resources_ok_def hm_get_insert_fun owned_same [where se = se])
  have dom: "insert h (dom (hm_get (sessions s))) = dom (hm_get (sessions s))" using se by auto
  have "handles_ok s'"
    by (rule handles_mono [OF D(6)]) (simp_all add: s' hm_fun_simps dom)
  with dom show ?thesis
    using D(1,2,5) res cms attached_count_same [OF wf se, of ?se]
    by (intro state_invI) (simp_all add: s' tables_ok_def hm_get_insert_fun)
qed

section \<open>Activations\<close>

lemma inv_next_activation:
  assumes "state_inv creates s" "no_wrap s"
  shows "state_inv creates (s\<lparr>next_activation_id := next_activation_id s + 1\<rparr>)"
    "state_inv creates (s\<lparr>next_channelmapping_activation_id := next_channelmapping_activation_id s + 1\<rparr>)"
  using assms by (auto simp: state_inv_def tables_ok_def handles_ok_def no_wrap_def intro: issued_succ)

lemma inv_route:
  assumes inv: "state_inv creates s" and wrap: "no_wrap s" and owner: "hm_contains (sessions s) owner"
    and a: "a = activation_handle (next_activation_id s)"
  shows "state_inv creates (s\<lparr>next_activation_id := next_activation_id s + 1, act_chans := heap,
    pending_activations := hm_insert a owner (pending_activations s), ack_waiting := hs_insert a (ack_waiting s)\<rparr>)"
proof -
  note D = state_invD [OF inv]
  have "ran ((hm_get (pending_activations s))(a \<mapsto> owner)) \<subseteq> insert owner (ran (hm_get (pending_activations s)))"
    by (auto simp: ran_def)
  then have "streams_ok (dom (hm_get (sessions s))) (hm_get (subscriptions s))
       (hm_get (annotation_subscriptions s)) (hm_get (channelmapping_subscriptions s))
       ((hm_get (pending_activations s))(a \<mapsto> owner)) (hm_get (pending_channelmapping_activations s))"
    using D(5) owner unfolding streams_ok_def hm_contains_dom by blast
  moreover have "issued activation_handle (next_activation_id s + 1) a"
    "issued activation_handle (next_activation_id s) b \<Longrightarrow> issued activation_handle (next_activation_id s + 1) b" for b
    using wrap by (simp_all add: a no_wrap_def issued_succ)
  ultimately show ?thesis using D
    by (auto simp: state_inv_def tables_ok_def handles_ok_def hm_get_insert_fun)
qed

lemma inv_cm_route:
  assumes inv: "state_inv creates s" and wrap: "no_wrap s" and owner: "hm_contains (sessions s) owner"
    and a: "a = cm_activation_handle (next_channelmapping_activation_id s)"
  shows "state_inv creates (s\<lparr>next_channelmapping_activation_id := next_channelmapping_activation_id s + 1,
    cm_chans := heap,
    pending_channelmapping_activations := hm_insert a owner (pending_channelmapping_activations s),
    cm_ack_waiting := hs_insert a (cm_ack_waiting s)\<rparr>)"
proof -
  note D = state_invD [OF inv]
  have "ran ((hm_get (pending_channelmapping_activations s))(a \<mapsto> owner)) \<subseteq>
      insert owner (ran (hm_get (pending_channelmapping_activations s)))"
    by (auto simp: ran_def)
  then have "streams_ok (dom (hm_get (sessions s))) (hm_get (subscriptions s))
       (hm_get (annotation_subscriptions s)) (hm_get (channelmapping_subscriptions s))
       (hm_get (pending_activations s)) ((hm_get (pending_channelmapping_activations s))(a \<mapsto> owner))"
    using D(5) owner unfolding streams_ok_def hm_contains_dom by blast
  moreover have "issued cm_activation_handle (next_channelmapping_activation_id s + 1) a"
    "issued cm_activation_handle (next_channelmapping_activation_id s) b \<Longrightarrow>
       issued cm_activation_handle (next_channelmapping_activation_id s + 1) b" for b
    using wrap by (simp_all add: a no_wrap_def issued_succ)
  ultimately show ?thesis using D
    by (auto simp: state_inv_def tables_ok_def handles_ok_def hm_get_insert_fun)
qed

lemma no_wrap_reap:
  "no_wrap (reap_closed_subscription h s) \<longleftrightarrow> no_wrap s"
  "no_wrap (reap_closed_channelmapping_subscription h s) \<longleftrightarrow> no_wrap s"
  by (simp_all add: no_wrap_def reap_closed_subscription_def reap_closed_channelmapping_subscription_def
      split: option.split)

lemma inv_dispatch_activation:
  assumes inv: "state_inv creates s" and wrap: "no_wrap s"
  shows "state_inv creates (snd (dispatch_activation seed sd name file s))"
proof -
  have "state_inv creates (snd (dispatch_to_subscriber r owner sd file tx s1))"
    if "state_inv creates s1" "no_wrap s1" "hm_get (subscriptions s1) owner = Some tx" for r owner tx s1
  proof -
    from inv_slots(4) [OF that(1)] that(3) have owner: "hm_contains (sessions s1) owner"
      by (auto simp: hm_contains_dom)
    let ?s = "s1\<lparr>next_activation_id := next_activation_id s1 + 1\<rparr>"
    have "state_inv creates ?s" by (rule inv_next_activation [OF that(1,2)])
    with inv_leave_slot(1) [OF this, of owner] inv_route [OF that(1,2) owner refl] show ?thesis
      by (simp add: dispatch_to_subscriber_def allocate_activation_handle_def Let_def
          split: prod.split send_result.split)
  qed
  with inv_reap(1) [OF inv] no_wrap_reap(1) [of _ s] wrap inv show ?thesis
    by (simp add: dispatch_activation_def Let_def split: option.split)
qed

lemma inv_dispatch_channelmapping_activation:
  assumes inv: "state_inv creates s" and wrap: "no_wrap s"
  shows "state_inv creates (snd (dispatch_channelmapping_activation seed oid am s))"
proof -
  have "state_inv creates (snd (dispatch_to_cm_subscriber c owner oid am tx s1))"
    if "state_inv creates s1" "no_wrap s1" "hm_get (channelmapping_subscriptions s1) owner = Some tx" for c owner tx s1
  proof -
    from inv_slots(6) [OF that(1)] that(3) have owner: "hm_contains (sessions s1) owner"
      by (auto simp: hm_contains_dom)
    let ?s = "s1\<lparr>next_channelmapping_activation_id := next_channelmapping_activation_id s1 + 1\<rparr>"
    have "state_inv creates ?s" by (rule inv_next_activation [OF that(1,2)])
    with inv_leave_slot(3) [OF this, of owner] inv_cm_route [OF that(1,2) owner refl] show ?thesis
      by (simp add: dispatch_to_cm_subscriber_def allocate_channelmapping_activation_handle_def Let_def
          split: prod.split send_result.split)
  qed
  with inv_reap(2) [OF inv] no_wrap_reap(2) [of _ s] wrap inv show ?thesis
    by (simp add: dispatch_channelmapping_activation_def Let_def split: option.split)
qed

lemma ran_remove: "ran (m(a := None)) \<subseteq> ran m"
  by (auto simp: ran_def)

lemma streams_pending_less:
  assumes "streams_ok K subs anns cms pend cm_pend" "ran pend' \<subseteq> ran pend" "ran cm_pend' \<subseteq> ran cm_pend"
  shows "streams_ok K subs anns cms pend' cm_pend'"
  using assms unfolding streams_ok_def by blast

text \<open>Pending activations go; answers come only for callbacks that wait.\<close>

lemma inv_pending:
  assumes inv: "state_inv creates s"
    and s': "s' = s\<lparr>pending_activations := hm_remove a (pending_activations s), acks := A, ack_waiting := W\<rparr>"
    and A: "dom (hm_get A) \<subseteq> dom (hm_get (acks s)) \<union> set (ack_waiting s)" "set W \<subseteq> set (ack_waiting s)"
  shows "state_inv creates s'"
proof (rule state_invI)
  note D = state_invD [OF inv]
  show "streams_ok (dom (hm_get (sessions s'))) (hm_get (subscriptions s'))
       (hm_get (annotation_subscriptions s')) (hm_get (channelmapping_subscriptions s'))
       (hm_get (pending_activations s')) (hm_get (pending_channelmapping_activations s'))"
    using streams_pending_less [OF D(5) ran_remove order_refl] by (simp add: s' hm_get_remove_fun)
  show "handles_ok s'"
    using A by (intro handles_mono [OF D(6)]) (auto simp: s' hm_get_remove_fun)
qed (use state_invD [OF inv] in \<open>simp_all add: s' tables_ok_def\<close>)

lemma inv_cm_pending:
  assumes inv: "state_inv creates s"
    and s': "s' = s\<lparr>pending_channelmapping_activations := hm_remove a (pending_channelmapping_activations s),
      cm_acks := A, cm_ack_waiting := W\<rparr>"
    and A: "dom (hm_get A) \<subseteq> dom (hm_get (cm_acks s)) \<union> set (cm_ack_waiting s)" "set W \<subseteq> set (cm_ack_waiting s)"
  shows "state_inv creates s'"
proof (rule state_invI)
  note D = state_invD [OF inv]
  show "streams_ok (dom (hm_get (sessions s'))) (hm_get (subscriptions s'))
       (hm_get (annotation_subscriptions s')) (hm_get (channelmapping_subscriptions s'))
       (hm_get (pending_activations s')) (hm_get (pending_channelmapping_activations s'))"
    using streams_pending_less [OF D(5) order_refl ran_remove] by (simp add: s' hm_get_remove_fun)
  show "handles_ok s'"
    using A by (intro handles_mono [OF D(6)]) (auto simp: s' hm_get_remove_fun)
qed (use state_invD [OF inv] in \<open>simp_all add: s' tables_ok_def\<close>)

lemma inv_complete_activation:
  assumes inv: "state_inv creates s"
  shows "state_inv creates (snd (complete_activation h a outcome s))"
proof -
  have "state_inv creates (s\<lparr>pending_activations := hm_remove a (pending_activations s)\<rparr>)"
    by (rule inv_pending [OF inv, where A = "acks s" and W = "ack_waiting s"]) simp_all
  moreover have "state_inv creates (s\<lparr>pending_activations := hm_remove a (pending_activations s),
      acks := hm_insert a outcome (acks s)\<rparr>)" if "a \<in> set (ack_waiting s)"
    using that by (intro inv_pending [OF inv, where W = "ack_waiting s"]) (auto split: if_splits)
  ultimately show ?thesis using inv by (simp add: complete_activation_def Let_def)
qed

lemma inv_complete_channelmapping_activation:
  assumes inv: "state_inv creates s"
  shows "state_inv creates (snd (complete_channelmapping_activation h a outcome s))"
proof -
  have "state_inv creates (s\<lparr>pending_channelmapping_activations := hm_remove a (pending_channelmapping_activations s)\<rparr>)"
    by (rule inv_cm_pending [OF inv, where A = "cm_acks s" and W = "cm_ack_waiting s"]) simp_all
  moreover have "state_inv creates (s\<lparr>pending_channelmapping_activations :=
      hm_remove a (pending_channelmapping_activations s), cm_acks := hm_insert a outcome (cm_acks s)\<rparr>)"
    if "a \<in> set (cm_ack_waiting s)"
    using that by (intro inv_cm_pending [OF inv, where W = "cm_ack_waiting s"]) (auto split: if_splits)
  ultimately show ?thesis using inv by (simp add: complete_channelmapping_activation_def Let_def)
qed

lemma inv_activation_finish:
  assumes "state_inv creates s"
  shows "state_inv creates (activation_finish a s)" "state_inv creates (cm_activation_finish a s)"
  by (auto simp: activation_finish_def cleanup_pending_activation_def cm_activation_finish_def
      cleanup_pending_channelmapping_activation_def split: if_splits
      intro!: inv_pending [OF assms refl] inv_cm_pending [OF assms refl])

end
