(* ===== verification/Nvn_Daemon.thy ===== *)
theory Nvn_Daemon
  imports Nvn_Inv_Objects
begin

text \<open>
  The daemon as a whole (\<^verbatim>\<open>nvnmosd/src/main.rs\<close> and \<^verbatim>\<open>nvnmosd/src/session_gc.rs\<close>):
  the gRPC handlers, the streams, the session watchdogs and the callbacks of libnvnmos, as they
  interleave.

  A handler is a sequence of parts: what it does under one hold of the state lock is one atomic
  part, a call of libnvnmos without the lock is another. What remains of a handler after a part
  is a \<open>task\<close>; the tasks in flight are run in any order, with any other action between them.
  An \<open>action\<close> is a request, a callback, a client reading or leaving a stream, a watchdog that
  fires, or a task that goes on; \<open>perform\<close> is its effect with the reply, if it gives one.

  Dropping a stream (\<^verbatim>\<open>Drop for SubscriptionStream\<close>) spawns the task that ends the
  subscription and then drops the receiver, so both are tasks here and run in either order.
  \<^verbatim>\<open>blocking_ffi\<close> and \<^verbatim>\<open>finish_ffi\<close> make a task of what they run: it goes on when the
  client has given up. The trimming of the heap has no effect on the state and is left out.
\<close>

section \<open>Tasks and the daemon\<close>

datatype purpose = ForSession | ForNode

datatype stream_kind = Activations | CmActivations | Annotations

datatype task =
    CreateNode purpose create_node_prep
  | NodeBuilt purpose string port "status + create_node_ready"
  | ArmSubscribe string
  | AddResource add_resource_prep
  | ResourceReady side add_resource_ready
  | AddMapping add_channelmapping_prep
  | MappingReady add_channelmapping_ready
  | CloseFfi close_session_ffi
  | NodeFfi server
  | ResourceFfi "status option" remove_resource_ffi
  | MappingFfi "status option" remove_channelmapping_ffi
  | SyncFfi sync_resource_ffi
  | MappingSyncFfi sync_channelmapping_ffi
  | StreamEnded stream_kind string
  | DropReceiver stream_kind chan_id
  | ArmResubscribe string
  | GcDone string
  | Waiting string
  | Answered string recv_result
  | MappingWaiting string
  | MappingAnswered string recv_result

datatype reply =
    RpcFailed status
  | RpcOk
  | RpcOpened open_outcome
  | RpcNode add_node_outcome
  | RpcSender add_sender_outcome
  | RpcReceiver add_receiver_outcome
  | RpcMapping add_channelmapping_outcome
  | RpcStream chan_id
  | CallbackResult "string + unit"

record 'w daemon =
  d_state :: state
  d_world :: 'w
  d_annotations :: "store_inner option"
  d_http_port_range :: port_range
  d_gc_enabled :: bool
  d_watchdogs :: "(string, nat) hash_map"
  d_timers :: "(nat, string) hash_map"
  d_next_timer :: nat
  d_streams :: "(stream_kind \<times> string \<times> chan_id) list"
  d_tasks :: "task list"

definition spawn :: "task list \<Rightarrow> 'w daemon \<Rightarrow> 'w daemon" where
  "spawn ts d = d\<lparr>d_tasks := d_tasks d @ ts\<rparr>"

section \<open>The session watchdogs\<close>

definition cancel_timeout :: "string \<Rightarrow> 'w daemon \<Rightarrow> 'w daemon" where
  "cancel_timeout h d =
     (case hm_get (d_watchdogs d) h of
        None \<Rightarrow> d
      | Some t \<Rightarrow> d\<lparr>d_watchdogs := hm_remove h (d_watchdogs d), d_timers := hm_remove t (d_timers d)\<rparr>)"

definition start_timeout :: "string \<Rightarrow> 'w daemon \<Rightarrow> 'w daemon" where
  "start_timeout h d =
     (if \<not> d_gc_enabled d then d
      else
        (let d1 = cancel_timeout h d; t = d_next_timer d1
         in d1\<lparr>d_timers := hm_insert t h (d_timers d1), d_next_timer := t + 1,
               d_watchdogs := hm_insert h t (d_watchdogs d1)\<rparr>))"

text \<open>A watchdog wakes up: it looks again before it closes the session.\<close>

definition watchdog_fires :: "nat \<Rightarrow> 'w daemon \<Rightarrow> 'w daemon" where
  "watchdog_fires t d =
     (case hm_get (d_timers d) t of
        None \<Rightarrow> d
      | Some h \<Rightarrow>
          (let d1 = d\<lparr>d_timers := hm_remove t (d_timers d)\<rparr>; s = d_state d1
           in if \<not> sessions_contains h s then d1
              else if has_any_activation_subscription h s then d1
              else case close_session h s of
                (Inl e, s') \<Rightarrow> d1\<lparr>d_state := s'\<rparr>
              | (Inr (outcome, ffi), s') \<Rightarrow> spawn [CloseFfi ffi, GcDone h] (d1\<lparr>d_state := s'\<rparr>)))"

section \<open>Handlers: Nodes and sessions\<close>

definition rpc_add_node ::
  "(port \<Rightarrow> bool) \<Rightarrow> proto_node_config option \<Rightarrow> 'w daemon \<Rightarrow> reply option \<times> 'w daemon" where
  "rpc_add_node bindable config d =
     (case translate_config config of
        Inl e \<Rightarrow> (Some (RpcFailed e), d)
      | Inr c \<Rightarrow>
          (case prepare_add_node bindable c (d_http_port_range d) (d_state d) of
             (Inl e, s) \<Rightarrow> (Some (RpcFailed e), d\<lparr>d_state := s\<rparr>)
           | (Inr prep, s) \<Rightarrow> (None, spawn [CreateNode ForNode prep] (d\<lparr>d_state := s\<rparr>))))"

definition rpc_remove_node :: "string \<Rightarrow> 'w daemon \<Rightarrow> reply option \<times> 'w daemon" where
  "rpc_remove_node seed d =
     (case remove_node seed (d_state d) of
        (Inl e, s) \<Rightarrow> (Some (RpcFailed e), d\<lparr>d_state := s\<rparr>)
      | (Inr (node_id, srv), s) \<Rightarrow> (None, spawn [NodeFfi srv] (d\<lparr>d_state := s\<rparr>)))"

definition rpc_open_session ::
  "(port \<Rightarrow> bool) \<Rightarrow> proto_node_config option \<Rightarrow> 'w daemon \<Rightarrow> reply option \<times> 'w daemon" where
  "rpc_open_session bindable config d =
     (case translate_config config of
        Inl e \<Rightarrow> (Some (RpcFailed e), d)
      | Inr c \<Rightarrow>
          (case prepare_open_session bindable c (d_http_port_range d) (d_state d) of
             (Inl e, s) \<Rightarrow> (Some (RpcFailed e), d\<lparr>d_state := s\<rparr>)
           | (Inr (Attached outcome), s) \<Rightarrow>
               (Some (RpcOpened outcome), spawn [ArmSubscribe (oo_session_handle outcome)] (d\<lparr>d_state := s\<rparr>))
           | (Inr (Create prep), s) \<Rightarrow> (None, spawn [CreateNode ForSession prep] (d\<lparr>d_state := s\<rparr>))))"

definition rpc_close_session :: "string \<Rightarrow> 'w daemon \<Rightarrow> reply option \<times> 'w daemon" where
  "rpc_close_session h d =
     (let d1 = cancel_timeout h d
      in case close_session h (d_state d1) of
           (Inl e, s) \<Rightarrow> (Some (RpcFailed e), d1\<lparr>d_state := s\<rparr>)
         | (Inr (outcome, ffi), s) \<Rightarrow> (None, spawn [CloseFfi ffi] (d1\<lparr>d_state := s\<rparr>)))"

text \<open>After the library has built the Node, or not: commit or abort.\<close>

definition node_built ::
  "purpose \<Rightarrow> string \<Rightarrow> port \<Rightarrow> status + create_node_ready \<Rightarrow> 'w daemon \<Rightarrow> reply option \<times> 'w daemon" where
  "node_built purpose seed port built d =
     (case built of
        Inl e \<Rightarrow> (Some (RpcFailed e), d\<lparr>d_state := abort_pending_node seed port (d_state d)\<rparr>)
      | Inr ready \<Rightarrow>
          (case purpose of
             ForNode \<Rightarrow>
               (case commit_add_node ready (d_state d) of
                  (outcome, s) \<Rightarrow> (Some (RpcNode outcome), d\<lparr>d_state := s\<rparr>))
           | ForSession \<Rightarrow>
               (case commit_open_session ready (d_state d) of
                  (outcome, s) \<Rightarrow>
                    (Some (RpcOpened outcome), spawn [ArmSubscribe (oo_session_handle outcome)] (d\<lparr>d_state := s\<rparr>)))))"

section \<open>Handlers: senders, receivers and channel mappings\<close>

definition rpc_add_resource ::
  "(string \<Rightarrow> json option) \<Rightarrow> side \<Rightarrow> string \<Rightarrow> int \<Rightarrow> string \<Rightarrow> string \<Rightarrow> 'w daemon
    \<Rightarrow> reply option \<times> 'w daemon" where
  "rpc_add_resource from_str sd h raw_transport file name d =
     (case (case decode_proto_transport raw_transport of Inl e \<Rightarrow> Inl e | Inr t \<Rightarrow> translate_transport t) of
        Inl e \<Rightarrow> (Some (RpcFailed e), d)
      | Inr tr \<Rightarrow>
          (case prepare_add_resource from_str sd h tr file name (d_state d) of
             (Inl e, s) \<Rightarrow> (Some (RpcFailed e), d\<lparr>d_state := s\<rparr>)
           | (Inr prep, s) \<Rightarrow> (None, spawn [AddResource prep] (d\<lparr>d_state := s\<rparr>))))"

text \<open>The commit, and the annotations of the new resource under the same hold of the lock.\<close>

definition emit_if_on :: "store_inner option \<Rightarrow> string \<Rightarrow> state \<Rightarrow> state" where
  "emit_if_on annotations r s =
     (case annotations of None \<Rightarrow> s | Some store \<Rightarrow> emit_added_resource r store s)"

definition resource_ready :: "side \<Rightarrow> add_resource_ready \<Rightarrow> 'w daemon \<Rightarrow> reply option \<times> 'w daemon" where
  "resource_ready expected ready d =
     (case ready of
        ReadySender rd \<Rightarrow>
          (if expected \<noteq> Sender then (Some (RpcFailed (Status Internal WrongReadyKind)), d)
           else case commit_add_sender rd (d_state d) of
             (Inl (e, ffi), s) \<Rightarrow> (None, spawn [ResourceFfi (Some e) ffi] (d\<lparr>d_state := s\<rparr>))
           | (Inr outcome, s) \<Rightarrow>
               (Some (RpcSender outcome),
                d\<lparr>d_state := emit_if_on (d_annotations d) (aso_resource_handle outcome) s\<rparr>))
      | ReadyReceiver rd \<Rightarrow>
          (if expected \<noteq> Receiver then (Some (RpcFailed (Status Internal WrongReadyKind)), d)
           else case commit_add_receiver rd (d_state d) of
             (Inl (e, ffi), s) \<Rightarrow> (None, spawn [ResourceFfi (Some e) ffi] (d\<lparr>d_state := s\<rparr>))
           | (Inr outcome, s) \<Rightarrow>
               (Some (RpcReceiver outcome),
                d\<lparr>d_state := emit_if_on (d_annotations d) (aro_resource_handle outcome) s\<rparr>)))"

definition rpc_remove_resource :: "string \<Rightarrow> string \<Rightarrow> 'w daemon \<Rightarrow> reply option \<times> 'w daemon" where
  "rpc_remove_resource h r d =
     (case remove_resource h r (d_state d) of
        (Inl e, s) \<Rightarrow> (Some (RpcFailed e), d\<lparr>d_state := s\<rparr>)
      | (Inr (outcome, ffi), s) \<Rightarrow> (None, spawn [ResourceFfi None ffi] (d\<lparr>d_state := s\<rparr>)))"

definition rpc_sync_resource_state ::
  "string \<Rightarrow> string \<Rightarrow> string option \<Rightarrow> 'w daemon \<Rightarrow> reply option \<times> 'w daemon" where
  "rpc_sync_resource_state h r file d =
     (case sync_resource_state h r file (d_state d) of
        Inl e \<Rightarrow> (Some (RpcFailed e), d)
      | Inr (outcome, ffi) \<Rightarrow> (None, spawn [SyncFfi ffi] d))"

definition rpc_add_channel_mapping ::
  "string \<Rightarrow> string \<Rightarrow> proto_cm_input list \<Rightarrow> proto_cm_output list \<Rightarrow> 'w daemon
    \<Rightarrow> reply option \<times> 'w daemon" where
  "rpc_add_channel_mapping h name inputs outputs d =
     (case prepare_add_channelmapping h name inputs outputs (d_state d) of
        (Inl e, s) \<Rightarrow> (Some (RpcFailed e), d\<lparr>d_state := s\<rparr>)
      | (Inr prep, s) \<Rightarrow> (None, spawn [AddMapping prep] (d\<lparr>d_state := s\<rparr>)))"

definition mapping_ready :: "add_channelmapping_ready \<Rightarrow> 'w daemon \<Rightarrow> reply option \<times> 'w daemon" where
  "mapping_ready ready d =
     (case commit_add_channelmapping ready (d_state d) of
        (Inl (e, ffi), s) \<Rightarrow> (None, spawn [MappingFfi (Some e) ffi] (d\<lparr>d_state := s\<rparr>))
      | (Inr outcome, s) \<Rightarrow> (Some (RpcMapping outcome), d\<lparr>d_state := s\<rparr>))"

definition rpc_remove_channel_mapping :: "string \<Rightarrow> string \<Rightarrow> 'w daemon \<Rightarrow> reply option \<times> 'w daemon" where
  "rpc_remove_channel_mapping h c d =
     (case remove_channelmapping h c (d_state d) of
        (Inl e, s) \<Rightarrow> (Some (RpcFailed e), d\<lparr>d_state := s\<rparr>)
      | (Inr (outcome, ffi), s) \<Rightarrow> (None, spawn [MappingFfi None ffi] (d\<lparr>d_state := s\<rparr>)))"

definition rpc_sync_channel_mapping_state ::
  "string \<Rightarrow> string \<Rightarrow> string \<Rightarrow> active_map_entry list \<Rightarrow> 'w daemon \<Rightarrow> reply option \<times> 'w daemon" where
  "rpc_sync_channel_mapping_state h c output_id active_map d =
     (case sync_channelmapping_state h c output_id active_map (d_state d) of
        Inl e \<Rightarrow> (Some (RpcFailed e), d)
      | Inr (outcome, ffi) \<Rightarrow> (None, spawn [MappingSyncFfi ffi] d))"

section \<open>Handlers: streams and acknowledgements\<close>

definition rpc_subscribe_activations :: "string \<Rightarrow> 'w daemon \<Rightarrow> reply option \<times> 'w daemon" where
  "rpc_subscribe_activations h d =
     (let s = d_state d; (tx, heap) = new_chan subscription_buffer (act_chans s)
      in case subscribe_activations h tx (s\<lparr>act_chans := heap\<rparr>) of
           (Inl e, s') \<Rightarrow>
             (Some (RpcFailed e), d\<lparr>d_state := s'\<lparr>act_chans := chan_drop_rx tx (act_chans s')\<rparr>\<rparr>)
         | (Inr _, s') \<Rightarrow>
             (let d1 = cancel_timeout h (d\<lparr>d_state := s'\<rparr>)
              in (Some (RpcStream tx), d1\<lparr>d_streams := (Activations, h, tx) # d_streams d1\<rparr>)))"

definition rpc_subscribe_channel_mapping_activations :: "string \<Rightarrow> 'w daemon \<Rightarrow> reply option \<times> 'w daemon" where
  "rpc_subscribe_channel_mapping_activations h d =
     (let s = d_state d; (tx, heap) = new_chan subscription_buffer (cm_chans s)
      in case subscribe_channelmapping_activations h tx (s\<lparr>cm_chans := heap\<rparr>) of
           (Inl e, s') \<Rightarrow>
             (Some (RpcFailed e), d\<lparr>d_state := s'\<lparr>cm_chans := chan_drop_rx tx (cm_chans s')\<rparr>\<rparr>)
         | (Inr _, s') \<Rightarrow>
             (let d1 = cancel_timeout h (d\<lparr>d_state := s'\<rparr>)
              in (Some (RpcStream tx), d1\<lparr>d_streams := (CmActivations, h, tx) # d_streams d1\<rparr>)))"

definition rpc_subscribe_annotations :: "string \<Rightarrow> 'w daemon \<Rightarrow> reply option \<times> 'w daemon" where
  "rpc_subscribe_annotations h d =
     (case subscribe_annotations_rpc (d_annotations d) h (d_state d) of
        (Inl e, s) \<Rightarrow> (Some (RpcFailed e), d\<lparr>d_state := s\<rparr>)
      | (Inr tx, s) \<Rightarrow>
          (Some (RpcStream tx), d\<lparr>d_state := s, d_streams := (Annotations, h, tx) # d_streams d\<rparr>))"

definition rpc_ack_activation :: "string \<Rightarrow> string \<Rightarrow> ack_outcome \<Rightarrow> 'w daemon \<Rightarrow> reply option \<times> 'w daemon" where
  "rpc_ack_activation h a outcome d =
     (case complete_activation h a outcome (d_state d) of
        (Inl e, s) \<Rightarrow> (Some (RpcFailed e), d\<lparr>d_state := s\<rparr>)
      | (Inr _, s) \<Rightarrow> (Some RpcOk, d\<lparr>d_state := s\<rparr>))"

definition rpc_ack_channel_mapping_activation ::
  "string \<Rightarrow> string \<Rightarrow> ack_outcome \<Rightarrow> 'w daemon \<Rightarrow> reply option \<times> 'w daemon" where
  "rpc_ack_channel_mapping_activation h a outcome d =
     (case complete_channelmapping_activation h a outcome (d_state d) of
        (Inl e, s) \<Rightarrow> (Some (RpcFailed e), d\<lparr>d_state := s\<rparr>)
      | (Inr _, s) \<Rightarrow> (Some RpcOk, d\<lparr>d_state := s\<rparr>))"

text \<open>The client reads from its stream, or its stream is dropped.\<close>

definition drop_receiver :: "stream_kind \<Rightarrow> chan_id \<Rightarrow> state \<Rightarrow> state" where
  "drop_receiver kind tx s =
     (case kind of
        Activations \<Rightarrow> s\<lparr>act_chans := chan_drop_rx tx (act_chans s)\<rparr>
      | CmActivations \<Rightarrow> s\<lparr>cm_chans := chan_drop_rx tx (cm_chans s)\<rparr>
      | Annotations \<Rightarrow> s\<lparr>ann_chans := chan_drop_rx tx (ann_chans s)\<rparr>)"

definition read_stream :: "stream_kind \<Rightarrow> chan_id \<Rightarrow> state \<Rightarrow> state" where
  "read_stream kind tx s =
     (case kind of
        Activations \<Rightarrow> s\<lparr>act_chans := snd (chan_recv tx (act_chans s))\<rparr>
      | CmActivations \<Rightarrow> s\<lparr>cm_chans := snd (chan_recv tx (cm_chans s))\<rparr>
      | Annotations \<Rightarrow> s\<lparr>ann_chans := snd (chan_recv tx (ann_chans s))\<rparr>)"

definition stream_dropped :: "stream_kind \<Rightarrow> string \<Rightarrow> chan_id \<Rightarrow> 'w daemon \<Rightarrow> 'w daemon" where
  "stream_dropped kind h tx d =
     (if (kind, h, tx) \<in> set (d_streams d)
      then spawn [StreamEnded kind h, DropReceiver kind tx]
             (d\<lparr>d_streams := removeAll (kind, h, tx) (d_streams d)\<rparr>)
      else d)"

definition stream_ended :: "stream_kind \<Rightarrow> string \<Rightarrow> 'w daemon \<Rightarrow> 'w daemon" where
  "stream_ended kind h d =
     (case kind of
        Activations \<Rightarrow>
          (case on_subscription_stream_ended h (d_state d) of
             (arm, s) \<Rightarrow> spawn (if arm then [ArmResubscribe h] else []) (d\<lparr>d_state := s\<rparr>))
      | CmActivations \<Rightarrow>
          (case on_channelmapping_subscription_stream_ended h (d_state d) of
             (arm, s) \<Rightarrow> spawn (if arm then [ArmResubscribe h] else []) (d\<lparr>d_state := s\<rparr>))
      | Annotations \<Rightarrow> d\<lparr>d_state := reap_annotation_subscription h (d_state d)\<rparr>)"

section \<open>Callbacks of libnvnmos\<close>

definition activation_callback ::
  "string \<Rightarrow> side \<Rightarrow> string \<Rightarrow> string option \<Rightarrow> 'w daemon \<Rightarrow> reply option \<times> 'w daemon" where
  "activation_callback seed sd name file d =
     (case dispatch_activation seed sd name file (d_state d) of
        (Routed a, s) \<Rightarrow> (None, spawn [Waiting a] (d\<lparr>d_state := s\<rparr>))
      | (other, s) \<Rightarrow>
          (map_option (\<lambda>why. CallbackResult (Inl why)) (dispatch_refusal other), d\<lparr>d_state := s\<rparr>))"

definition channelmapping_callback ::
  "string \<Rightarrow> string \<Rightarrow> active_map_entry list \<Rightarrow> 'w daemon \<Rightarrow> reply option \<times> 'w daemon" where
  "channelmapping_callback seed output_id active_map d =
     (case dispatch_channelmapping_activation seed output_id (active_map_to_proto active_map) (d_state d) of
        (CmRouted a, s) \<Rightarrow> (None, spawn [MappingWaiting a] (d\<lparr>d_state := s\<rparr>))
      | (other, s) \<Rightarrow>
          (map_option (\<lambda>why. CallbackResult (Inl why)) (cm_dispatch_refusal other), d\<lparr>d_state := s\<rparr>))"

definition annotation_callback :: "string \<Rightarrow> annotation_update \<Rightarrow> 'w daemon \<Rightarrow> 'w daemon" where
  "annotation_callback seed upd d =
     (case d_annotations d of
        None \<Rightarrow> d
      | Some store \<Rightarrow>
          (case on_annotation_updated seed upd
                  \<lparr>aw_store = store, aw_state = d_state d, aw_refusal = None\<rparr> of
             (_, w) \<Rightarrow> d\<lparr>d_annotations := Some (aw_store w), d_state := aw_state w\<rparr>))"

section \<open>Tasks go on\<close>

definition ffi_reply :: "status option \<Rightarrow> reply" where
  "ffi_reply e = (case e of None \<Rightarrow> RpcOk | Some st \<Rightarrow> RpcFailed st)"

definition sum_reply :: "status + unit \<Rightarrow> reply" where
  "sum_reply r = (case r of Inl e \<Rightarrow> RpcFailed e | Inr _ \<Rightarrow> RpcOk)"

fun run_task :: "'w libnvnmos \<Rightarrow> bool \<Rightarrow> task \<Rightarrow> 'w daemon \<Rightarrow> reply option \<times> 'w daemon" where
  "run_task lib time_up (CreateNode purpose prep) d =
     (case create_node_prep_run_ffi lib (d_annotations d) prep (d_world d) of
        (built, w) \<Rightarrow>
          (None, spawn [NodeBuilt purpose (cnp_seed prep) (cnp_http_port prep) built] (d\<lparr>d_world := w\<rparr>)))"
| "run_task lib time_up (NodeBuilt purpose seed port built) d = node_built purpose seed port built d"
| "run_task lib time_up (ArmSubscribe h) d = (None, start_timeout h d)"
| "run_task lib time_up (AddResource prep) d =
     (case add_resource_prep_run_ffi lib (d_annotations d) prep (d_world d) of
        (Inl e, w) \<Rightarrow> (Some (RpcFailed e), d\<lparr>d_world := w\<rparr>)
      | (Inr ready, w) \<Rightarrow> (None, spawn [ResourceReady (arp_side prep) ready] (d\<lparr>d_world := w\<rparr>)))"
| "run_task lib time_up (ResourceReady sd ready) d = resource_ready sd ready d"
| "run_task lib time_up (AddMapping prep) d =
     (case add_channelmapping_prep_run_ffi lib prep (d_world d) of
        (Inl e, w) \<Rightarrow> (Some (RpcFailed e), d\<lparr>d_world := w\<rparr>)
      | (Inr ready, w) \<Rightarrow> (None, spawn [MappingReady ready] (d\<lparr>d_world := w\<rparr>)))"
| "run_task lib time_up (MappingReady ready) d = mapping_ready ready d"
| "run_task lib time_up (CloseFfi ffi) d =
     (Some RpcOk, d\<lparr>d_world := close_session_ffi_run lib ffi (d_world d)\<rparr>)"
| "run_task lib time_up (NodeFfi srv) d =
     (Some RpcOk, d\<lparr>d_world := remove_node_ffi_run lib srv (d_world d)\<rparr>)"
| "run_task lib time_up (ResourceFfi e ffi) d =
     (Some (ffi_reply e), d\<lparr>d_world := remove_resource_ffi_run lib ffi (d_world d)\<rparr>)"
| "run_task lib time_up (MappingFfi e ffi) d =
     (Some (ffi_reply e), d\<lparr>d_world := remove_channelmapping_ffi_run lib ffi (d_world d)\<rparr>)"
| "run_task lib time_up (SyncFfi ffi) d =
     (case sync_resource_ffi_run lib ffi (d_world d) of
        (r, w) \<Rightarrow> (Some (sum_reply r), d\<lparr>d_world := w\<rparr>))"
| "run_task lib time_up (MappingSyncFfi ffi) d =
     (case sync_channelmapping_ffi_run lib ffi (d_world d) of
        (r, w) \<Rightarrow> (Some (sum_reply r), d\<lparr>d_world := w\<rparr>))"
| "run_task lib time_up (StreamEnded kind h) d = (None, stream_ended kind h d)"
| "run_task lib time_up (DropReceiver kind tx) d = (None, d\<lparr>d_state := drop_receiver kind tx (d_state d)\<rparr>)"
| "run_task lib time_up (ArmResubscribe h) d = (None, start_timeout h d)"
| "run_task lib time_up (GcDone h) d = (None, d\<lparr>d_watchdogs := hm_remove h (d_watchdogs d)\<rparr>)"
| "run_task lib time_up (Waiting a) d =
     (case activation_recv a time_up (d_state d) of
        None \<Rightarrow> (None, spawn [Waiting a] d)
      | Some result \<Rightarrow> (None, spawn [Answered a result] d))"
| "run_task lib time_up (Answered a result) d =
     (Some (CallbackResult (route_result result)), d\<lparr>d_state := activation_finish a (d_state d)\<rparr>)"
| "run_task lib time_up (MappingWaiting a) d =
     (case cm_activation_recv a time_up (d_state d) of
        None \<Rightarrow> (None, spawn [MappingWaiting a] d)
      | Some result \<Rightarrow> (None, spawn [MappingAnswered a result] d))"
| "run_task lib time_up (MappingAnswered a result) d =
     (Some (CallbackResult (route_result result)), d\<lparr>d_state := cm_activation_finish a (d_state d)\<rparr>)"

section \<open>Actions\<close>

datatype action =
    DoAddNode "port \<Rightarrow> bool" "proto_node_config option"
  | DoRemoveNode string
  | DoOpenSession "port \<Rightarrow> bool" "proto_node_config option"
  | DoCloseSession string
  | DoAddResource side string int string string
  | DoRemoveResource string string
  | DoSyncResource string string "string option"
  | DoAddMapping string string "proto_cm_input list" "proto_cm_output list"
  | DoRemoveMapping string string
  | DoSyncMapping string string string "active_map_entry list"
  | DoSubscribe stream_kind string
  | DoAck string string ack_outcome
  | DoAckMapping string string ack_outcome
  | DoRead stream_kind chan_id
  | DoDropStream stream_kind string chan_id
  | DoActivation string side string "string option"
  | DoMappingActivation string string "active_map_entry list"
  | DoAnnotation string annotation_update
  | DoFire nat
  | DoTask nat bool

definition drop_nth :: "nat \<Rightarrow> 'a list \<Rightarrow> 'a list" where
  "drop_nth i xs = take i xs @ drop (Suc i) xs"

fun perform ::
  "'w libnvnmos \<Rightarrow> (string \<Rightarrow> json option) \<Rightarrow> action \<Rightarrow> 'w daemon \<Rightarrow> reply option \<times> 'w daemon" where
  "perform lib js (DoAddNode bindable config) d = rpc_add_node bindable config d"
| "perform lib js (DoRemoveNode seed) d = rpc_remove_node seed d"
| "perform lib js (DoOpenSession bindable config) d = rpc_open_session bindable config d"
| "perform lib js (DoCloseSession h) d = rpc_close_session h d"
| "perform lib js (DoAddResource sd h tr file name) d = rpc_add_resource js sd h tr file name d"
| "perform lib js (DoRemoveResource h r) d = rpc_remove_resource h r d"
| "perform lib js (DoSyncResource h r file) d = rpc_sync_resource_state h r file d"
| "perform lib js (DoAddMapping h name ins outs) d = rpc_add_channel_mapping h name ins outs d"
| "perform lib js (DoRemoveMapping h c) d = rpc_remove_channel_mapping h c d"
| "perform lib js (DoSyncMapping h c output_id active_map) d =
     rpc_sync_channel_mapping_state h c output_id active_map d"
| "perform lib js (DoSubscribe kind h) d =
     (case kind of
        Activations \<Rightarrow> rpc_subscribe_activations h d
      | CmActivations \<Rightarrow> rpc_subscribe_channel_mapping_activations h d
      | Annotations \<Rightarrow> rpc_subscribe_annotations h d)"
| "perform lib js (DoAck h a outcome) d = rpc_ack_activation h a outcome d"
| "perform lib js (DoAckMapping h a outcome) d = rpc_ack_channel_mapping_activation h a outcome d"
| "perform lib js (DoRead kind tx) d = (None, d\<lparr>d_state := read_stream kind tx (d_state d)\<rparr>)"
| "perform lib js (DoDropStream kind h tx) d = (None, stream_dropped kind h tx d)"
| "perform lib js (DoActivation seed sd name file) d = activation_callback seed sd name file d"
| "perform lib js (DoMappingActivation seed output_id active_map) d =
     channelmapping_callback seed output_id active_map d"
| "perform lib js (DoAnnotation seed upd) d = (None, annotation_callback seed upd d)"
| "perform lib js (DoFire t) d = (None, watchdog_fires t d)"
| "perform lib js (DoTask i time_up) d =
     (if i < length (d_tasks d)
      then run_task lib time_up (d_tasks d ! i) (d\<lparr>d_tasks := drop_nth i (d_tasks d)\<rparr>)
      else (None, d))"

definition daemon_new :: "'w \<Rightarrow> store_inner option \<Rightarrow> port_range \<Rightarrow> bool \<Rightarrow> 'w daemon" where
  "daemon_new w annotations rng gc =
     \<lparr>d_state = state_new, d_world = w, d_annotations = annotations, d_http_port_range = rng,
      d_gc_enabled = gc, d_watchdogs = [], d_timers = [], d_next_timer = 0, d_streams = [], d_tasks = []\<rparr>"

text \<open>
  The states a daemon reaches from its start, by any actions in any order. An action is taken
  only while the 64-bit counters of handles have not run out.
\<close>

inductive reach :: "'w libnvnmos \<Rightarrow> (string \<Rightarrow> json option) \<Rightarrow> 'w daemon \<Rightarrow> bool" for lib js where
  reach_new: "reach lib js (daemon_new w annotations rng gc)"
| reach_step: "reach lib js d \<Longrightarrow> no_wrap (d_state d) \<Longrightarrow> perform lib js act d = (r, d') \<Longrightarrow> reach lib js d'"

end
