(* ===== verification/Nvn_Daemon_Inv.thy ===== *)
theory Nvn_Daemon_Inv
  imports Nvn_Daemon
begin

text \<open>
  The invariant of the whole daemon: its state satisfies \<open>state_inv\<close> for the Node creations
  among its tasks, and the tasks that will add something to a session agree with that session on
  its Node. Every action keeps it, so it holds in every reachable state (\<open>reach_inv\<close>).
\<close>

section \<open>Sessions keep their Node\<close>

definition same_sessions :: "state \<Rightarrow> state \<Rightarrow> bool" where
  "same_sessions s s' \<longleftrightarrow> sessions s' = sessions s \<and> next_session_id s' = next_session_id s"

definition sess_ext :: "state \<Rightarrow> state \<Rightarrow> bool" where
  "sess_ext s s' \<longleftrightarrow>
     (\<forall>h. issued session_handle (next_session_id s) h \<longrightarrow> issued session_handle (next_session_id s') h) \<and>
     (\<forall>h se'. issued session_handle (next_session_id s) h \<longrightarrow> hm_get (sessions s') h = Some se' \<longrightarrow>
        (\<exists>se. hm_get (sessions s) h = Some se \<and> se_node_seed se = se_node_seed se'))"

lemma sess_ext_same: "same_sessions s s' \<Longrightarrow> sess_ext s s'"
  by (auto simp: sess_ext_def same_sessions_def)

lemma same_sessions_refl [simp]: "same_sessions s s"
  by (simp add: same_sessions_def)

lemma same_sessions_trans: "same_sessions s t \<Longrightarrow> same_sessions t u \<Longrightarrow> same_sessions s u"
  by (simp add: same_sessions_def)

lemma sess_ext_rewrite:
  assumes "next_session_id s' = next_session_id s" "hm_get (sessions s) h = Some se"
    "hm_get (sessions s') = (hm_get (sessions s))(h \<mapsto> se')" "se_node_seed se' = se_node_seed se"
  shows "sess_ext s s'"
  using assms by (auto simp: sess_ext_def)

lemma sess_ext_fewer:
  assumes "next_session_id s' = next_session_id s" "hm_get (sessions s') = (hm_get (sessions s))(h := None)"
  shows "sess_ext s s'"
  using assms by (auto simp: sess_ext_def split: if_splits)

lemma sess_ext_open:
  assumes "next_session_id s' = next_session_id s + 1" "next_session_id s \<noteq> - 1"
    "hm_get (sessions s') = (hm_get (sessions s))(session_handle (next_session_id s) \<mapsto> se)"
  shows "sess_ext s s'"
  using assms sess.alloc_fresh [of s]
  by (auto simp: sess_ext_def allocate_session_handle_def intro: issued_succ split: if_splits)

lemma same_sessions_reap:
  "same_sessions s (reap_closed_subscription h s)" "same_sessions s (reap_closed_channelmapping_subscription h s)"
  "same_sessions s (reap_annotation_subscription h s)"
  by (simp_all add: same_sessions_def reap_closed_subscription_def reap_closed_channelmapping_subscription_def
      reap_annotation_subscription_def split: option.split)

lemma same_sessions_stream_ended:
  "same_sessions s (snd (on_subscription_stream_ended h s))"
  "same_sessions s (snd (on_channelmapping_subscription_stream_ended h s))"
  by (simp_all add: on_subscription_stream_ended_def on_channelmapping_subscription_stream_ended_def Let_def
      same_sessions_reap)

lemma same_sessions_subscribe:
  "same_sessions s (snd (subscribe_activations h tx s))" "same_sessions s (snd (subscribe_annotations h tx s))"
  "same_sessions s (snd (subscribe_channelmapping_activations h tx s))"
  by (simp_all add: same_sessions_def subscribe_activations_def subscribe_annotations_def
      subscribe_channelmapping_activations_def split: option.split)

lemma same_sessions_dispatch: "same_sessions s (snd (dispatch_activation seed sd name file s))"
  using same_sessions_reap(1) [of s]
  by (auto simp: same_sessions_def dispatch_activation_def dispatch_to_subscriber_def
      allocate_activation_handle_def Let_def split: option.split prod.split send_result.split)

lemma same_sessions_cm_dispatch: "same_sessions s (snd (dispatch_channelmapping_activation seed oid am s))"
  using same_sessions_reap(2) [of s]
  by (auto simp: same_sessions_def dispatch_channelmapping_activation_def dispatch_to_cm_subscriber_def
      allocate_channelmapping_activation_handle_def Let_def split: option.split prod.split send_result.split)

lemma same_sessions_ack:
  "same_sessions s (snd (complete_activation h a oc s))"
  "same_sessions s (snd (complete_channelmapping_activation h a oc s))"
  "same_sessions s (activation_finish a s)" "same_sessions s (cm_activation_finish a s)"
  by (simp_all add: same_sessions_def complete_activation_def complete_channelmapping_activation_def
      activation_finish_def cm_activation_finish_def cleanup_pending_activation_def
      cleanup_pending_channelmapping_activation_def Let_def)

lemma same_sessions_prepare:
  "same_sessions s (snd (prepare_add_resource js sd h tr file name s))"
  "same_sessions s (snd (prepare_add_channelmapping h name ins outs s))"
  using same_sessions_reap [of s h]
  by (simp_all add: prepare_add_resource_def prepare_add_channelmapping_def Let_def split: option.split)

lemma same_sessions_nodes:
  "same_sessions s (snd (prepare_add_node bindable c rng s))" "same_sessions s (snd (remove_node seed s))"
  "same_sessions s (snd (commit_add_node ready s))" "same_sessions s (abort_pending_node seed p s)"
  by (auto simp: same_sessions_def prepare_add_node_def reserve_node_def remove_node_def commit_add_node_def
      abort_pending_node_def Let_def split: option.split sum.split)

lemma same_sessions_send: "same_sessions s (send_annotation h ev s)"
  by (auto simp: same_sessions_def send_annotation_def split: option.split prod.split send_result.split)

lemma same_sessions_fold_send: "same_sessions s (fold (\<lambda>x. send_annotation (f x) (g x)) xs s)"
  by (induction xs arbitrary: s) (auto intro: same_sessions_trans same_sessions_send)

lemma same_sessions_publish:
  "same_sessions s (publish_annotation seed upd store s)" "same_sessions s (emit_added_resource r store s)"
  using same_sessions_fold_send [of s fst "\<lambda>x. annotation_event (au_resource_type upd) (snd x) st" for st]
    same_sessions_fold_send [of s "\<lambda>_. h" "\<lambda>x. x" for h]
  by (auto simp: publish_annotation_def emit_added_resource_def Let_def case_prod_unfold split: option.split)

lemma same_sessions_subscribe_annotations_rpc: "same_sessions s (snd (subscribe_annotations_rpc st h s))"
proof -
  have "same_sessions s s1" if "subscribe_annotations h tx (s\<lparr>ann_chans := heap\<rparr>) = (r1, s1)" for tx heap r1 s1
    using same_sessions_subscribe(2) [of "s\<lparr>ann_chans := heap\<rparr>" h tx] that by (simp add: same_sessions_def)
  then show ?thesis
    by (auto simp: subscribe_annotations_rpc_def Let_def same_sessions_def drop_annotation_subscription_def
        split: option.split sum.split prod.split bool.split)
qed

lemma sess_ext_prepare_open_session:
  assumes "no_wrap s"
  shows "sess_ext s (snd (prepare_open_session bindable c rng s))"
proof (cases "hm_get (nodes s) (nc_seed c)")
  case None
  then have "same_sessions s (snd (prepare_open_session bindable c rng s))"
    by (auto simp: same_sessions_def prepare_open_session_def reserve_node_def Let_def split: sum.split)
  then show ?thesis by (rule sess_ext_same)
next
  case (Some e)
  show ?thesis
  proof (cases "nc_seed c = []")
    case True
    then show ?thesis by (simp add: prepare_open_session_def require_non_empty_seed_def sess_ext_same)
  next
    case False
    with Some assms show ?thesis
      by (intro sess_ext_open)
        (auto simp: prepare_open_session_def require_non_empty_seed_def allocate_session_handle_def Let_def
          no_wrap_def hm_get_insert_fun)
  qed
qed

lemma sess_ext_commit_open_session: "no_wrap s \<Longrightarrow> sess_ext s (snd (commit_open_session ready s))"
  by (rule sess_ext_open)
    (auto simp: commit_open_session_def allocate_session_handle_def Let_def no_wrap_def hm_get_insert_fun)

lemma sess_ext_close_session:
  assumes inv: "state_inv creates s" and c: "close_session h s = (r, s')"
  shows "sess_ext s s'"
proof (cases "hm_get (sessions s) h")
  case None
  with c show ?thesis by (simp add: close_session_def sess_ext_same)
next
  case (Some se)
  with close_session_cleared [OF inv Some c] show ?thesis
    by (intro sess_ext_fewer) (auto simp: session_cleared_def same_rest_def hm_get_remove_fun)
qed

lemma sess_ext_commit_add_resource: "sess_ext s (snd (commit_add_resource sd name seed h s))"
proof (cases "hm_get (sessions s) h")
  case None
  then show ?thesis by (simp add: commit_add_resource_def sess_ext_same)
next
  case (Some se)
  then show ?thesis
    by (intro sess_ext_rewrite [where se = se and se' = "se\<lparr>se_resources :=
          hs_insert (resource_handle (next_resource_id s)) (se_resources se)\<rparr>"])
      (auto simp: commit_add_resource_def allocate_resource_handle_def Let_def hm_get_insert_fun)
qed

lemma sess_ext_commit_add:
  "sess_ext s (snd (commit_add_sender rs s))" "sess_ext s (snd (commit_add_receiver rr s))"
  using sess_ext_commit_add_resource [of s]
  by (auto simp: commit_add_sender_def commit_add_receiver_def split: prod.split sum.split) (metis snd_conv)+

lemma sess_ext_commit_add_channelmapping: "sess_ext s (snd (commit_add_channelmapping ready s))"
proof (cases "hm_get (sessions s) (acr_session_handle ready)")
  case None
  then show ?thesis by (simp add: commit_add_channelmapping_def Let_def sess_ext_same)
next
  case (Some se)
  then show ?thesis
    by (intro sess_ext_rewrite [where se = se and se' = "se\<lparr>se_channelmappings :=
          hs_insert (channelmapping_handle (next_channelmapping_id s)) (se_channelmappings se)\<rparr>"])
      (auto simp: commit_add_channelmapping_def allocate_channelmapping_handle_def Let_def hm_get_insert_fun)
qed

lemma sess_ext_remove_resource: "sess_ext s (snd (remove_resource h r s))"
proof (cases "is_ok (fst (remove_resource h r s))")
  case False
  then have "snd (remove_resource h r s) = s"
    by (auto simp: remove_resource_def Let_def split: option.splits if_splits)
  then show ?thesis by (simp add: sess_ext_same)
next
  case True
  then obtain se where "hm_get (sessions s) h = Some se"
    by (auto simp: remove_resource_def split: option.splits)
  with True show ?thesis
    by (intro sess_ext_rewrite [where se = se and se' = "se\<lparr>se_resources := hs_remove r (se_resources se)\<rparr>"])
      (auto simp: remove_resource_def Let_def hm_get_insert_fun split: option.splits if_splits)
qed

lemma sess_ext_remove_channelmapping: "sess_ext s (snd (remove_channelmapping h c s))"
proof (cases "is_ok (fst (remove_channelmapping h c s))")
  case False
  then have "snd (remove_channelmapping h c s) = s"
    by (auto simp: remove_channelmapping_def split: option.splits if_splits)
  then show ?thesis by (simp add: sess_ext_same)
next
  case True
  then obtain se where "hm_get (sessions s) h = Some se"
    by (auto simp: remove_channelmapping_def split: option.splits)
  with True show ?thesis
    by (intro sess_ext_rewrite [where se = se and
          se' = "se\<lparr>se_channelmappings := hs_remove c (se_channelmappings se)\<rparr>"])
      (auto simp: remove_channelmapping_def hm_get_insert_fun split: option.splits if_splits)
qed

section \<open>The invariant of the daemon\<close>

fun create_of :: "task \<Rightarrow> (string \<times> port) option" where
  "create_of (CreateNode purpose prep) = Some (cnp_seed prep, cnp_http_port prep)"
| "create_of (NodeBuilt purpose seed port built) = Some (seed, port)"
| "create_of _ = None"

fun creates_of :: "task list \<Rightarrow> (string \<times> port) list" where
  "creates_of [] = []"
| "creates_of (t # ts) = (case create_of t of None \<Rightarrow> creates_of ts | Some c \<Rightarrow> c # creates_of ts)"

definition add_ok :: "state \<Rightarrow> string \<Rightarrow> string \<Rightarrow> bool" where
  "add_ok s h seed \<longleftrightarrow>
     issued session_handle (next_session_id s) h \<and>
     (\<forall>se. hm_get (sessions s) h = Some se \<longrightarrow> se_node_seed se = seed)"

fun task_ok :: "state \<Rightarrow> task \<Rightarrow> bool" where
  "task_ok s (NodeBuilt purpose seed port (Inr ready)) \<longleftrightarrow> cnr_seed ready = seed \<and> cnr_http_port ready = port"
| "task_ok s (AddResource prep) \<longleftrightarrow> add_ok s (arp_session_handle prep) (arp_node_seed prep)"
| "task_ok s (ResourceReady sd (ReadySender rd)) \<longleftrightarrow> add_ok s (asr_session_handle rd) (asr_node_seed rd)"
| "task_ok s (ResourceReady sd (ReadyReceiver rd)) \<longleftrightarrow> add_ok s (arr_session_handle rd) (arr_node_seed rd)"
| "task_ok s (AddMapping prep) \<longleftrightarrow> add_ok s (acp_session_handle prep) (acp_node_seed prep)"
| "task_ok s (MappingReady ready) \<longleftrightarrow> add_ok s (acr_session_handle ready) (acr_node_seed ready)"
| "task_ok s _ \<longleftrightarrow> True"

definition daemon_inv :: "'w daemon \<Rightarrow> bool" where
  "daemon_inv d \<longleftrightarrow>
     state_inv (creates_of (d_tasks d)) (d_state d) \<and> (\<forall>t \<in> set (d_tasks d). task_ok (d_state d) t)"

lemma add_ok_ext: "sess_ext s s' \<Longrightarrow> add_ok s h seed \<Longrightarrow> add_ok s' h seed"
  unfolding add_ok_def sess_ext_def by metis

lemma task_ok_ext: "sess_ext s s' \<Longrightarrow> task_ok s t \<Longrightarrow> task_ok s' t"
  by (induction s t rule: task_ok.induct) (auto intro: add_ok_ext)

lemma creates_of_append [simp]: "creates_of (ts @ us) = creates_of ts @ creates_of us"
  by (induction ts) (simp_all split: option.split)

lemma nodes_ok_perm:
  assumes "nodes_ok C nds pend cnt prt" "set C' = set C" "distinct (map fst C')"
  shows "nodes_ok C' nds pend cnt prt"
  using assms by (simp add: nodes_ok_def)

lemma state_inv_perm:
  assumes "state_inv C s" "set C' = set C" "distinct (map fst C')"
  shows "state_inv C' s"
  using assms nodes_ok_perm [of C _ _ _ _ C'] by (simp add: state_inv_def)

lemma state_inv_distinct: "state_inv C s \<Longrightarrow> distinct (map fst C)"
  using nodes_okD(8) state_invD(2) by blast

definition good_step :: "'w daemon \<Rightarrow> 'w daemon \<Rightarrow> bool" where
  "good_step d d' \<longleftrightarrow> daemon_inv d' \<and> sess_ext (d_state d) (d_state d')"

text \<open>The general step: the state changes, tasks are added.\<close>

lemma daemon_step:
  assumes inv: "daemon_inv d" and ts: "d_tasks d' = d_tasks d @ ts"
    and ext: "sess_ext (d_state d) (d_state d')"
    and st: "state_inv (creates_of (d_tasks d) @ creates_of ts) (d_state d')"
    and new: "\<forall>t \<in> set ts. task_ok (d_state d') t"
  shows "good_step d d'"
  using assms task_ok_ext [OF ext] by (auto simp: good_step_def daemon_inv_def)

lemma daemon_step0:
  assumes "daemon_inv d" "d_tasks d' = d_tasks d @ ts" "creates_of ts = []"
    "sess_ext (d_state d) (d_state d')" "state_inv (creates_of (d_tasks d)) (d_state d')"
    "\<forall>t \<in> set ts. task_ok (d_state d') t"
  shows "good_step d d'"
  using daemon_step [OF assms(1,2,4)] assms(3,5,6) by simp

lemma daemon_invD:
  "daemon_inv d \<Longrightarrow> state_inv (creates_of (d_tasks d)) (d_state d)"
  "daemon_inv d \<Longrightarrow> t \<in> set (d_tasks d) \<Longrightarrow> task_ok (d_state d) t"
  by (auto simp: daemon_inv_def)

lemma spawn_simps [simp]:
  "d_state (spawn ts d) = d_state d" "d_tasks (spawn ts d) = d_tasks d @ ts"
  by (simp_all add: spawn_def)

lemma timeout_simps [simp]:
  "d_state (cancel_timeout h d) = d_state d" "d_tasks (cancel_timeout h d) = d_tasks d"
  "d_state (start_timeout h d) = d_state d" "d_tasks (start_timeout h d) = d_tasks d"
  by (simp_all add: cancel_timeout_def start_timeout_def Let_def split: option.split)

lemma sess_ext_refl [simp]: "sess_ext s s"
  by (simp add: sess_ext_same)

lemma daemon_inv_cong:
  "daemon_inv d \<Longrightarrow> d_state d' = d_state d \<Longrightarrow> d_tasks d' = d_tasks d \<Longrightarrow> good_step d d'"
  by (simp add: daemon_inv_def good_step_def)

lemma good_step_refl [simp]: "daemon_inv d \<Longrightarrow> good_step d d"
  by (simp add: good_step_def)

lemma good_step_from [simp]:
  "good_step (d\<lparr>d_tasks := ts\<rparr>) d' \<longleftrightarrow> good_step d d'" "good_step (d\<lparr>d_timers := tm\<rparr>) d' \<longleftrightarrow> good_step d d'"
  by (simp_all add: good_step_def)

lemma good_step_inv: "good_step d d' \<Longrightarrow> daemon_inv d'"
  by (simp add: good_step_def)

section \<open>Handlers keep it\<close>

lemma keep_add_node:
  assumes inv: "daemon_inv d"
  shows "good_step d (snd (rpc_add_node bindable config d))"
proof (cases "translate_config config")
  case (Inl e)
  with inv show ?thesis by (simp add: rpc_add_node_def)
next
  case (Inr c)
  obtain r s where r: "prepare_add_node bindable c (d_http_port_range d) (d_state d) = (r, s)" by fastforce
  note st = inv_prepare_add_node [OF daemon_invD(1) [OF inv] r]
  have ext: "sess_ext (d_state d) s"
    using same_sessions_nodes(1) [of "d_state d" bindable c "d_http_port_range d"] r by (simp add: sess_ext_same)
  show ?thesis
  proof (cases r)
    case (Inl e)
    with st ext inv show ?thesis
      by (intro daemon_step0 [OF inv, where ts = "[]"]) (simp_all add: rpc_add_node_def Inr r)
  next
    case i: (Inr prep)
    have "state_inv (creates_of (d_tasks d) @ [(cnp_seed prep, cnp_http_port prep)]) s"
      using st state_inv_distinct [OF st] by (auto simp: i intro: state_inv_perm)
    with ext show ?thesis
      by (intro daemon_step [OF inv, where ts = "[CreateNode ForNode prep]"]) (simp_all add: rpc_add_node_def Inr r i)
  qed
qed

lemma keep_open_session:
  assumes inv: "daemon_inv d" and wrap: "no_wrap (d_state d)"
  shows "good_step d (snd (rpc_open_session bindable config d))"
proof (cases "translate_config config")
  case (Inl e)
  with inv show ?thesis by (simp add: rpc_open_session_def)
next
  case (Inr c)
  obtain r s where r: "prepare_open_session bindable c (d_http_port_range d) (d_state d) = (r, s)" by fastforce
  note st = inv_prepare_open_session [OF daemon_invD(1) [OF inv] wrap r]
  have ext: "sess_ext (d_state d) s"
    using sess_ext_prepare_open_session [OF wrap, of bindable c "d_http_port_range d"] r by simp
  consider e where "r = Inl e" | out where "r = Inr (Attached out)" | prep where "r = Inr (Create prep)"
    by (metis sum.exhaust open_session_plan.exhaust)
  then show ?thesis
  proof cases
    case 1
    with st ext show ?thesis
      by (intro daemon_step0 [OF inv, where ts = "[]"]) (simp_all add: rpc_open_session_def Inr r)
  next
    case 2
    with st ext show ?thesis
      by (intro daemon_step0 [OF inv, where ts = "[ArmSubscribe (oo_session_handle out)]"])
        (simp_all add: rpc_open_session_def Inr r)
  next
    case 3
    have "state_inv (creates_of (d_tasks d) @ [(cnp_seed prep, cnp_http_port prep)]) s"
      using st state_inv_distinct [OF st] by (auto simp: 3 intro: state_inv_perm)
    with ext 3 show ?thesis
      by (intro daemon_step [OF inv, where ts = "[CreateNode ForSession prep]"])
        (simp_all add: rpc_open_session_def Inr r)
  qed
qed

lemma keep_remove_node:
  assumes inv: "daemon_inv d"
  shows "good_step d (snd (rpc_remove_node seed d))"
proof -
  obtain r s where r: "remove_node seed (d_state d) = (r, s)" by fastforce
  have "sess_ext (d_state d) s"
    using same_sessions_nodes(2) [of "d_state d" seed] r by (simp add: sess_ext_same)
  with inv_remove_node [OF daemon_invD(1) [OF inv] r] show ?thesis
    by (intro daemon_step0 [OF inv, where ts = "case r of Inl e \<Rightarrow> [] | Inr (i, srv) \<Rightarrow> [NodeFfi srv]"])
      (auto simp: rpc_remove_node_def r split: sum.split)
qed

lemma keep_close_session:
  assumes inv: "daemon_inv d"
  shows "good_step d (snd (rpc_close_session h d))"
proof -
  obtain r s where r: "close_session h (d_state d) = (r, s)" by fastforce
  note st = daemon_invD(1) [OF inv]
  from inv_close_session [OF st r] sess_ext_close_session [OF st r] show ?thesis
    by (intro daemon_step0 [OF inv, where ts = "case r of Inl e \<Rightarrow> [] | Inr (o', ffi) \<Rightarrow> [CloseFfi ffi]"])
      (auto simp: rpc_close_session_def r Let_def split: sum.split)
qed

lemma keep_watchdog:
  assumes inv: "daemon_inv d"
  shows "good_step d (watchdog_fires t d)"
proof (cases "hm_get (d_timers d) t")
  case None
  with inv show ?thesis by (simp add: watchdog_fires_def)
next
  case (Some h)
  let ?d = "d\<lparr>d_timers := hm_remove t (d_timers d)\<rparr>"
  have inv': "daemon_inv ?d" using inv by (simp add: daemon_inv_def)
  obtain r s where r: "close_session h (d_state d) = (r, s)" by fastforce
  note st = daemon_invD(1) [OF inv]
  let ?ts = "case r of Inl e \<Rightarrow> [] | Inr (o', ffi) \<Rightarrow> [CloseFfi ffi, GcDone h]"
  have "good_step ?d (spawn ?ts (?d\<lparr>d_state := s\<rparr>))"
    using inv_close_session [OF st r] sess_ext_close_session [OF st r]
    by (intro daemon_step0 [OF inv', where ts = ?ts]) (auto split: sum.split)
  with inv' good_step_refl [OF inv'] Some r show ?thesis
    by (auto simp: watchdog_fires_def Let_def spawn_def split: sum.splits prod.splits)
qed

lemma inv_session_issued:
  "state_inv creates s \<Longrightarrow> hm_get (sessions s) h = Some se \<Longrightarrow> issued session_handle (next_session_id s) h"
  using state_invD(6) by (force simp: handles_ok_def)

lemma prepare_add_resource_ok:
  assumes inv: "state_inv creates s" and r: "prepare_add_resource js sd h tr file name s = (Inr prep, s')"
  shows "add_ok s' (arp_session_handle prep) (arp_node_seed prep)"
proof -
  have inv': "state_inv creates s'"
    using inv_prepare_add_resource [OF inv, of js sd h tr "file" name] r by simp
  from r obtain se where "hm_get (sessions s') h = Some se" "arp_session_handle prep = h"
    "arp_node_seed prep = se_node_seed se"
    by (auto simp: prepare_add_resource_def Let_def split: if_splits option.splits)
  with inv_session_issued [OF inv'] show ?thesis by (simp add: add_ok_def)
qed

lemma prepare_add_channelmapping_ok:
  assumes inv: "state_inv creates s" and r: "prepare_add_channelmapping h name ins outs s = (Inr prep, s')"
  shows "add_ok s' (acp_session_handle prep) (acp_node_seed prep)"
proof -
  have inv': "state_inv creates s'"
    using inv_prepare_add_channelmapping [OF inv, of h name ins outs] r by simp
  from r obtain se where "hm_get (sessions s') h = Some se" "acp_session_handle prep = h"
    "acp_node_seed prep = se_node_seed se"
    by (auto simp: prepare_add_channelmapping_def Let_def split: if_splits option.splits)
  with inv_session_issued [OF inv'] show ?thesis by (simp add: add_ok_def)
qed

lemma keep_add_resource:
  assumes inv: "daemon_inv d"
  shows "good_step d (snd (rpc_add_resource js sd h raw file name d))"
proof (cases "case decode_proto_transport raw of Inl e \<Rightarrow> Inl e | Inr t \<Rightarrow> translate_transport t")
  case (Inl e)
  with inv show ?thesis by (simp add: rpc_add_resource_def)
next
  case (Inr tr)
  obtain r s where r: "prepare_add_resource js sd h tr file name (d_state d) = (r, s)" by fastforce
  note st = daemon_invD(1) [OF inv]
  have "state_inv (creates_of (d_tasks d)) s" "sess_ext (d_state d) s"
    using inv_prepare_add_resource [OF st, of js sd h tr "file" name]
      sess_ext_same [OF same_sessions_prepare(1) [of "d_state d" js sd h tr "file" name]] r by simp_all
  moreover have "add_ok s (arp_session_handle prep) (arp_node_seed prep)" if "r = Inr prep" for prep
    using prepare_add_resource_ok [OF st] r that by blast
  ultimately show ?thesis
    by (intro daemon_step0 [OF inv, where ts = "case r of Inl e \<Rightarrow> [] | Inr prep \<Rightarrow> [AddResource prep]"])
      (auto simp: rpc_add_resource_def Inr r split: sum.split)
qed

lemma keep_add_channel_mapping:
  assumes inv: "daemon_inv d"
  shows "good_step d (snd (rpc_add_channel_mapping h name ins outs d))"
proof -
  obtain r s where r: "prepare_add_channelmapping h name ins outs (d_state d) = (r, s)" by fastforce
  note st = daemon_invD(1) [OF inv]
  have "state_inv (creates_of (d_tasks d)) s" "sess_ext (d_state d) s"
    using inv_prepare_add_channelmapping [OF st, of h name ins outs]
      sess_ext_same [OF same_sessions_prepare(2) [of "d_state d" h name ins outs]] r by simp_all
  moreover have "add_ok s (acp_session_handle prep) (acp_node_seed prep)" if "r = Inr prep" for prep
    using prepare_add_channelmapping_ok [OF st] r that by blast
  ultimately show ?thesis
    by (intro daemon_step0 [OF inv, where ts = "case r of Inl e \<Rightarrow> [] | Inr prep \<Rightarrow> [AddMapping prep]"])
      (auto simp: rpc_add_channel_mapping_def r split: sum.split)
qed

lemma sess_ext_emit: "sess_ext s t \<Longrightarrow> sess_ext s (emit_if_on st r t)"
  using same_sessions_publish(2) by (auto simp: emit_if_on_def sess_ext_def same_sessions_def split: option.split)

lemma inv_emit: "state_inv creates s \<Longrightarrow> state_inv creates (emit_if_on st r s)"
  by (simp add: emit_if_on_def inv_emit_added_resource split: option.split)

lemma keep_resource_ready:
  assumes inv: "daemon_inv d" and wrap: "no_wrap (d_state d)" and ok: "task_ok (d_state d) (ResourceReady sd ready)"
  shows "good_step d (snd (resource_ready sd ready d))"
proof (cases ready)
  case (ReadySender rd)
  obtain r s where r: "commit_add_sender rd (d_state d) = (r, s)" by fastforce
  have st: "state_inv (creates_of (d_tasks d)) s"
    using inv_commit_add_sender [OF daemon_invD(1) [OF inv] wrap, of rd] ok r by (simp add: ReadySender add_ok_def)
  have ext: "sess_ext (d_state d) s" using sess_ext_commit_add(1) [of "d_state d" rd] r by simp
  show ?thesis
    by (rule daemon_step0 [OF inv, where ts = "if sd \<noteq> Sender then [] else
          case r of Inl (e, ffi) \<Rightarrow> [ResourceFfi (Some e) ffi] | Inr out \<Rightarrow> []"])
      (use st ext inv in \<open>auto simp: resource_ready_def ReadySender r sess_ext_emit inv_emit daemon_inv_def split: sum.split\<close>)
next
  case (ReadyReceiver rd)
  obtain r s where r: "commit_add_receiver rd (d_state d) = (r, s)" by fastforce
  have st: "state_inv (creates_of (d_tasks d)) s"
    using inv_commit_add_receiver [OF daemon_invD(1) [OF inv] wrap, of rd] ok r by (simp add: ReadyReceiver add_ok_def)
  have ext: "sess_ext (d_state d) s" using sess_ext_commit_add(2) [of "d_state d" rd] r by simp
  show ?thesis
    by (rule daemon_step0 [OF inv, where ts = "if sd \<noteq> Receiver then [] else
          case r of Inl (e, ffi) \<Rightarrow> [ResourceFfi (Some e) ffi] | Inr out \<Rightarrow> []"])
      (use st ext inv in \<open>auto simp: resource_ready_def ReadyReceiver r sess_ext_emit inv_emit daemon_inv_def split: sum.split\<close>)
qed

lemma keep_mapping_ready:
  assumes inv: "daemon_inv d" and wrap: "no_wrap (d_state d)" and ok: "task_ok (d_state d) (MappingReady ready)"
  shows "good_step d (snd (mapping_ready ready d))"
proof -
  obtain r s where r: "commit_add_channelmapping ready (d_state d) = (r, s)" by fastforce
  have st: "state_inv (creates_of (d_tasks d)) s"
    using inv_commit_add_channelmapping [OF daemon_invD(1) [OF inv] wrap _ r] ok by (simp add: add_ok_def)
  have ext: "sess_ext (d_state d) s" using sess_ext_commit_add_channelmapping [of "d_state d" ready] r by simp
  show ?thesis
    by (rule daemon_step0 [OF inv, where ts = "case r of Inl (e, ffi) \<Rightarrow> [MappingFfi (Some e) ffi] | Inr out \<Rightarrow> []"])
      (use st ext in \<open>auto simp: mapping_ready_def r split: sum.split\<close>)
qed

lemma keep_remove_resource:
  assumes inv: "daemon_inv d"
  shows "good_step d (snd (rpc_remove_resource h r d))"
proof -
  obtain out s where o': "remove_resource h r (d_state d) = (out, s)" by fastforce
  have "sess_ext (d_state d) s" using sess_ext_remove_resource [of "d_state d" h r] o' by simp
  with inv_remove_resource [OF daemon_invD(1) [OF inv] o'] show ?thesis
    by (intro daemon_step0 [OF inv, where ts = "case out of Inl e \<Rightarrow> [] | Inr (oc, ffi) \<Rightarrow> [ResourceFfi None ffi]"])
      (auto simp: rpc_remove_resource_def o' split: sum.split)
qed

lemma keep_remove_channel_mapping:
  assumes inv: "daemon_inv d"
  shows "good_step d (snd (rpc_remove_channel_mapping h c d))"
proof -
  obtain out s where o': "remove_channelmapping h c (d_state d) = (out, s)" by fastforce
  have "sess_ext (d_state d) s" using sess_ext_remove_channelmapping [of "d_state d" h c] o' by simp
  with inv_remove_channelmapping [OF daemon_invD(1) [OF inv] o'] show ?thesis
    by (intro daemon_step0 [OF inv, where ts = "case out of Inl e \<Rightarrow> [] | Inr (oc, ffi) \<Rightarrow> [MappingFfi None ffi]"])
      (auto simp: rpc_remove_channel_mapping_def o' split: sum.split)
qed

lemma keep_sync:
  assumes inv: "daemon_inv d"
  shows "good_step d (snd (rpc_sync_resource_state h r file d))"
    "good_step d (snd (rpc_sync_channel_mapping_state h c oid am d))"
  using inv daemon_step0 [OF inv, where d' = "spawn [SyncFfi x] d" and ts = "[SyncFfi x]" for x]
    daemon_step0 [OF inv, where d' = "spawn [MappingSyncFfi x] d" and ts = "[MappingSyncFfi x]" for x]
  by (auto simp: rpc_sync_resource_state_def rpc_sync_channel_mapping_state_def daemon_invD split: sum.split)

text \<open>A handler that changes the state under one hold of the lock and spawns nothing new.\<close>

lemma keep_state:
  assumes inv: "daemon_inv d" and t: "d_tasks d' = d_tasks d" and same: "same_sessions (d_state d) (d_state d')"
    and st: "\<And>creates. state_inv creates (d_state d) \<Longrightarrow> state_inv creates (d_state d')"
  shows "good_step d d'"
  using t st [OF daemon_invD(1) [OF inv]] sess_ext_same [OF same]
  by (intro daemon_step0 [OF inv, where ts = "[]"]) simp_all

lemma keep_subscribe_activations: "daemon_inv d \<Longrightarrow> good_step d (snd (rpc_subscribe_activations h d))"
proof (rule keep_state)
  let ?s = "\<lambda>heap. (d_state d)\<lparr>act_chans := heap\<rparr>"
  show "same_sessions (d_state d) (d_state (snd (rpc_subscribe_activations h d)))"
    using same_sessions_subscribe(1) [of "?s heap" h tx for heap tx]
    by (auto simp: rpc_subscribe_activations_def Let_def same_sessions_def split: prod.split sum.split) (metis snd_conv)+
  fix creates assume "state_inv creates (d_state d)"
  with inv_subscribe(1) [OF inv_chans(1) [OF this], of h]
  show "state_inv creates (d_state (snd (rpc_subscribe_activations h d)))"
    by (auto simp: rpc_subscribe_activations_def Let_def inv_chans split: prod.split sum.split) (metis snd_conv inv_chans(1))+
qed (auto simp: rpc_subscribe_activations_def Let_def split: prod.split sum.split)

lemma keep_subscribe_cm: "daemon_inv d \<Longrightarrow> good_step d (snd (rpc_subscribe_channel_mapping_activations h d))"
proof (rule keep_state)
  let ?s = "\<lambda>heap. (d_state d)\<lparr>cm_chans := heap\<rparr>"
  show "same_sessions (d_state d) (d_state (snd (rpc_subscribe_channel_mapping_activations h d)))"
    using same_sessions_subscribe(3) [of "?s heap" h tx for heap tx]
    by (auto simp: rpc_subscribe_channel_mapping_activations_def Let_def same_sessions_def split: prod.split sum.split)
      (metis snd_conv)+
  fix creates assume "state_inv creates (d_state d)"
  with inv_subscribe(3) [OF inv_chans(3) [OF this], of h]
  show "state_inv creates (d_state (snd (rpc_subscribe_channel_mapping_activations h d)))"
    by (auto simp: rpc_subscribe_channel_mapping_activations_def Let_def inv_chans split: prod.split sum.split)
      (metis snd_conv inv_chans(3))+
qed (auto simp: rpc_subscribe_channel_mapping_activations_def Let_def split: prod.split sum.split)

lemma keep_subscribe_annotations: "daemon_inv d \<Longrightarrow> good_step d (snd (rpc_subscribe_annotations h d))"
proof (rule keep_state)
  have eq: "d_state (snd (rpc_subscribe_annotations h d)) = snd (subscribe_annotations_rpc (d_annotations d) h (d_state d))"
    by (auto simp: rpc_subscribe_annotations_def split: prod.split sum.split)
  show "same_sessions (d_state d) (d_state (snd (rpc_subscribe_annotations h d)))"
    by (simp add: eq same_sessions_subscribe_annotations_rpc)
  show "state_inv creates (d_state (snd (rpc_subscribe_annotations h d)))" if "state_inv creates (d_state d)" for creates
    using that by (simp add: eq inv_subscribe_annotations_rpc)
qed (auto simp: rpc_subscribe_annotations_def split: prod.split sum.split)

lemma keep_ack:
  assumes "daemon_inv d"
  shows "good_step d (snd (rpc_ack_activation h a outcome d))"
    "good_step d (snd (rpc_ack_channel_mapping_activation h a outcome d))"
proof -
  have eq: "d_state (snd (rpc_ack_activation h a outcome d)) = snd (complete_activation h a outcome (d_state d))"
    "d_state (snd (rpc_ack_channel_mapping_activation h a outcome d)) =
      snd (complete_channelmapping_activation h a outcome (d_state d))"
    "d_tasks (snd (rpc_ack_activation h a outcome d)) = d_tasks d"
    "d_tasks (snd (rpc_ack_channel_mapping_activation h a outcome d)) = d_tasks d"
    by (auto simp: rpc_ack_activation_def rpc_ack_channel_mapping_activation_def split: prod.split sum.split)
  show "good_step d (snd (rpc_ack_activation h a outcome d))"
    by (rule keep_state [OF assms]) (simp_all add: eq same_sessions_ack inv_complete_activation)
  show "good_step d (snd (rpc_ack_channel_mapping_activation h a outcome d))"
    by (rule keep_state [OF assms]) (simp_all add: eq same_sessions_ack inv_complete_channelmapping_activation)
qed

section \<open>Streams, callbacks and tasks keep it\<close>

lemma keep_read: "daemon_inv d \<Longrightarrow> good_step d (d\<lparr>d_state := read_stream kind tx (d_state d)\<rparr>)"
  by (rule keep_state) (auto simp: read_stream_def same_sessions_def inv_chans split: stream_kind.split)

lemma keep_drop_receiver: "daemon_inv d \<Longrightarrow> good_step d (d\<lparr>d_state := drop_receiver kind tx (d_state d)\<rparr>)"
  by (rule keep_state) (auto simp: drop_receiver_def same_sessions_def inv_chans split: stream_kind.split)

lemma keep_stream_dropped:
  assumes "daemon_inv d"
  shows "good_step d (stream_dropped kind h tx d)"
proof (cases "(kind, h, tx) \<in> set (d_streams d)")
  case True
  then show ?thesis using daemon_invD(1) [OF assms]
    by (intro daemon_step0 [OF assms, where ts = "[StreamEnded kind h, DropReceiver kind tx]"])
      (simp_all add: stream_dropped_def)
next
  case False
  with assms show ?thesis by (auto simp: stream_dropped_def)
qed

lemma keep_stream_ended:
  assumes inv: "daemon_inv d"
  shows "good_step d (stream_ended kind h d)"
proof -
  note st = daemon_invD(1) [OF inv]
  have "good_step d (spawn [ArmResubscribe h] (d\<lparr>d_state := s\<rparr>)) \<and> good_step d (spawn [] (d\<lparr>d_state := s\<rparr>))"
    if "state_inv (creates_of (d_tasks d)) s" "same_sessions (d_state d) s" for s
    using that daemon_step0 [OF inv, where ts = "[ArmResubscribe h]" and d' = "spawn [ArmResubscribe h] (d\<lparr>d_state := s\<rparr>)"]
      daemon_step0 [OF inv, where ts = "[]" and d' = "spawn [] (d\<lparr>d_state := s\<rparr>)"]
    by (auto intro: sess_ext_same)
  moreover have "good_step d (d\<lparr>d_state := reap_annotation_subscription h (d_state d)\<rparr>)"
    by (rule keep_state [OF inv]) (simp_all add: same_sessions_reap inv_reap)
  ultimately show ?thesis
    using inv_stream_ended [OF st, of h] same_sessions_stream_ended [of "d_state d" h]
    by (auto simp: stream_ended_def split: stream_kind.split prod.splits)
qed

lemma keep_activation_callback:
  assumes inv: "daemon_inv d" and wrap: "no_wrap (d_state d)"
  shows "good_step d (snd (activation_callback seed sd name file d))"
proof -
  obtain r s where r: "dispatch_activation seed sd name file (d_state d) = (r, s)" by fastforce
  have "state_inv (creates_of (d_tasks d)) s" "sess_ext (d_state d) s"
    using inv_dispatch_activation [OF daemon_invD(1) [OF inv] wrap, of seed sd name "file"]
      sess_ext_same [OF same_sessions_dispatch [of "d_state d" seed sd name "file"]] r by simp_all
  then show ?thesis
    by (intro daemon_step0 [OF inv, where ts = "case r of Routed a \<Rightarrow> [Waiting a] | _ \<Rightarrow> []"])
      (auto simp: activation_callback_def r split: activation_dispatch.split)
qed

lemma keep_channelmapping_callback:
  assumes inv: "daemon_inv d" and wrap: "no_wrap (d_state d)"
  shows "good_step d (snd (channelmapping_callback seed oid am d))"
proof -
  obtain r s where r: "dispatch_channelmapping_activation seed oid (active_map_to_proto am) (d_state d) = (r, s)"
    by fastforce
  have "state_inv (creates_of (d_tasks d)) s" "sess_ext (d_state d) s"
    using inv_dispatch_channelmapping_activation [OF daemon_invD(1) [OF inv] wrap, of seed oid "active_map_to_proto am"]
      sess_ext_same [OF same_sessions_cm_dispatch [of "d_state d" seed oid "active_map_to_proto am"]] r by simp_all
  then show ?thesis
    by (intro daemon_step0 [OF inv, where ts = "case r of CmRouted a \<Rightarrow> [MappingWaiting a] | _ \<Rightarrow> []"])
      (auto simp: channelmapping_callback_def r split: cm_activation_dispatch.split)
qed

lemma on_annotation_updated_state:
  "aw_state (snd (on_annotation_updated seed upd w)) = aw_state w \<or>
   (\<exists>store. aw_state (snd (on_annotation_updated seed upd w)) = publish_annotation seed upd store (aw_state w))"
  by (auto simp: on_annotation_updated_def split: prod.split sum.split)

lemma keep_annotation_callback:
  assumes inv: "daemon_inv d"
  shows "good_step d (annotation_callback seed upd d)"
proof (cases "d_annotations d")
  case None
  with inv show ?thesis by (simp add: annotation_callback_def)
next
  case (Some store)
  let ?w = "snd (on_annotation_updated seed upd \<lparr>aw_store = store, aw_state = d_state d, aw_refusal = None\<rparr>)"
  have st: "d_state (annotation_callback seed upd d) = aw_state ?w" "d_tasks (annotation_callback seed upd d) = d_tasks d"
    using Some by (simp_all add: annotation_callback_def split: prod.split)
  show ?thesis
    using on_annotation_updated_state [of seed upd "\<lparr>aw_store = store, aw_state = d_state d, aw_refusal = None\<rparr>"]
    by (intro keep_state [OF inv]) (auto simp: st same_sessions_publish inv_publish_annotation)
qed

text \<open>Taking a task out of the list.\<close>

lemma set_drop_nth: "i < length ts \<Longrightarrow> set ts = insert (ts ! i) (set (drop_nth i ts))"
  unfolding drop_nth_def by (subst id_take_nth_drop [of i]) auto

lemma creates_drop_nth_None:
  "i < length ts \<Longrightarrow> create_of (ts ! i) = None \<Longrightarrow> creates_of (drop_nth i ts) = creates_of ts"
  unfolding drop_nth_def by (subst (3) id_take_nth_drop [of i]) simp_all

lemma creates_drop_nth_Some:
  assumes i: "i < length ts" and c: "create_of (ts ! i) = Some c" and dist: "distinct (map fst (creates_of ts))"
  shows "creates_of (drop_nth i ts) = filter (\<lambda>x. fst x \<noteq> fst c) (creates_of ts)"
    and "c \<in> set (creates_of ts)"
proof -
  have eq: "creates_of ts = creates_of (take i ts) @ c # creates_of (drop (Suc i) ts)"
    using c by (subst id_take_nth_drop [OF i]) simp
  then show "c \<in> set (creates_of ts)" by simp
  have "filter (\<lambda>x. fst x \<noteq> fst c) (creates_of (take i ts)) = creates_of (take i ts)"
    "filter (\<lambda>x. fst x \<noteq> fst c) (creates_of (drop (Suc i) ts)) = creates_of (drop (Suc i) ts)"
    using dist unfolding eq by (auto simp: filter_id_conv image_iff)
  with eq show "creates_of (drop_nth i ts) = filter (\<lambda>x. fst x \<noteq> fst c) (creates_of ts)"
    by (simp add: drop_nth_def)
qed

lemma take_task:
  assumes inv: "daemon_inv d" and i: "i < length (d_tasks d)" and c: "create_of (d_tasks d ! i) = None"
  shows "daemon_inv (d\<lparr>d_tasks := drop_nth i (d_tasks d)\<rparr>)"
  using inv set_drop_nth [OF i] creates_drop_nth_None [OF i c] by (auto simp: daemon_inv_def)

lemma create_ready:
  "create_node_prep_run_ffi lib store prep w = (Inr ready, w') \<Longrightarrow>
   cnr_seed ready = cnp_seed prep \<and> cnr_http_port ready = cnp_http_port prep"
  by (auto simp: create_node_prep_run_ffi_def Let_def split: prod.splits sum.splits)

lemma add_ready:
  assumes "add_resource_prep_run_ffi lib store prep w = (Inr ready, w')"
    "add_ok s (arp_session_handle prep) (arp_node_seed prep)"
  shows "task_ok s (ResourceReady sd ready)"
  using assms
  by (auto simp: add_resource_prep_run_ffi_def ready_after_add_def Let_def
      split: prod.splits sum.splits option.splits side.splits)

lemma add_mapping_ready:
  assumes "add_channelmapping_prep_run_ffi lib prep w = (Inr ready, w')"
    "add_ok s (acp_session_handle prep) (acp_node_seed prep)"
  shows "add_ok s (acr_session_handle ready) (acr_node_seed ready)"
  using assms by (auto simp: add_channelmapping_prep_run_ffi_def split: prod.splits sum.splits)

lemma keep_build:
  assumes inv: "daemon_inv d" and i: "i < length (d_tasks d)" and t: "d_tasks d ! i = CreateNode p prep"
  shows "good_step d (snd (run_task lib tu (CreateNode p prep) (d\<lparr>d_tasks := drop_nth i (d_tasks d)\<rparr>)))"
proof -
  note st = daemon_invD(1) [OF inv]
  have c: "create_of (d_tasks d ! i) = Some (cnp_seed prep, cnp_http_port prep)" using t by simp
  note cs = creates_drop_nth_Some [OF i c state_inv_distinct [OF st]]
  obtain built w where b: "create_node_prep_run_ffi lib (d_annotations d) prep (d_world d) = (built, w)" by fastforce
  let ?C = "creates_of (drop_nth i (d_tasks d)) @ [(cnp_seed prep, cnp_http_port prep)]"
  have "x \<in> set ?C \<longleftrightarrow> x \<in> set (creates_of (d_tasks d))" for x
    using cs(2) nodes_create_port [OF state_invD(2) [OF st] cs(2), of "snd x"]
    by (cases x) (auto simp: cs(1))
  then have "set ?C = set (creates_of (d_tasks d))" by blast
  moreover have "distinct (map fst ?C)"
    using cs(1) state_inv_distinct [OF st] by (auto simp: distinct_map_filter)
  ultimately have "state_inv ?C (d_state d)" by (rule state_inv_perm [OF st])
  moreover have "task_ok (d_state d) (NodeBuilt p (cnp_seed prep) (cnp_http_port prep) built)"
    using b by (cases built) (simp_all add: create_ready)
  moreover have "\<forall>t \<in> set (drop_nth i (d_tasks d)). task_ok (d_state d) t"
    using daemon_invD(2) [OF inv] set_drop_nth [OF i] by simp
  ultimately show ?thesis by (auto simp: good_step_def daemon_inv_def b)
qed

lemma keep_node_built:
  assumes inv: "daemon_inv d" and wrap: "no_wrap (d_state d)" and i: "i < length (d_tasks d)"
    and t: "d_tasks d ! i = NodeBuilt p seed port built"
  shows "good_step d (snd (node_built p seed port built (d\<lparr>d_tasks := drop_nth i (d_tasks d)\<rparr>)))"
proof -
  note st = daemon_invD(1) [OF inv]
  have c: "create_of (d_tasks d ! i) = Some (seed, port)" using t by simp
  note cs = creates_drop_nth_Some [OF i c state_inv_distinct [OF st]]
  let ?d = "d\<lparr>d_tasks := drop_nth i (d_tasks d)\<rparr>"
  have old: "\<forall>t \<in> set (drop_nth i (d_tasks d)). task_ok s t" if "sess_ext (d_state d) s" for s
    using daemon_invD(2) [OF inv] set_drop_nth [OF i] task_ok_ext [OF that] by auto
  have ready: "cnr_seed ready = seed \<and> cnr_http_port ready = port" if "built = Inr ready" for ready
    using daemon_invD(2) [OF inv nth_mem [OF i]] t that by simp
  show ?thesis
  proof (cases built)
    case (Inl e)
    with inv_abort_pending_node [OF st cs(2)] cs(1) old [OF sess_ext_same [OF same_sessions_nodes(4)]] show ?thesis
      by (simp add: node_built_def good_step_def daemon_inv_def sess_ext_same same_sessions_nodes)
  next
    case (Inr rd)
    show ?thesis
    proof (cases p)
      case ForNode
      with inv_commit_add_node [OF st, of rd] cs ready [OF Inr] old [OF sess_ext_same [OF same_sessions_nodes(3) [of _ rd]]]
        sess_ext_same [OF same_sessions_nodes(3) [of "d_state d" rd]] Inr show ?thesis
        by (auto simp: node_built_def good_step_def daemon_inv_def split: prod.splits)
    next
      case ForSession
      with inv_commit_open_session [OF st wrap, of rd] cs ready [OF Inr] old [OF sess_ext_commit_open_session [OF wrap, of rd]]
        sess_ext_commit_open_session [OF wrap, of rd] Inr show ?thesis
        by (auto simp: node_built_def good_step_def daemon_inv_def split: prod.splits)
    qed
  qed
qed

lemma keep_run_task:
  assumes inv: "daemon_inv d" and wrap: "no_wrap (d_state d)" and i: "i < length (d_tasks d)"
  shows "good_step d (snd (run_task lib tu (d_tasks d ! i) (d\<lparr>d_tasks := drop_nth i (d_tasks d)\<rparr>)))"
proof -
  let ?d = "d\<lparr>d_tasks := drop_nth i (d_tasks d)\<rparr>"
  have ok: "task_ok (d_state d) (d_tasks d ! i)" using daemon_invD(2) [OF inv] i by simp
  have inv': "daemon_inv ?d" if "create_of (d_tasks d ! i) = None"
    by (rule take_task [OF inv i that])
  have more: "good_step d (spawn ts (?d\<lparr>d_world := w\<rparr>))" "good_step d (spawn ts ?d)"
    if "create_of (d_tasks d ! i) = None" "creates_of ts = []" "\<forall>t \<in> set ts. task_ok (d_state d) t" for ts w
    using daemon_step0 [OF inv' [OF that(1)], where ts = ts and d' = "spawn ts (?d\<lparr>d_world := w\<rparr>)"]
      daemon_step0 [OF inv' [OF that(1)], where ts = ts and d' = "spawn ts ?d"]
      daemon_invD(1) [OF inv' [OF that(1)]] that(2,3) by simp_all
  have rest: "good_step d d'" if "create_of (d_tasks d ! i) = None" "d_state d' = d_state d"
    "d_tasks d' = drop_nth i (d_tasks d)" for d' :: "'a daemon"
    using daemon_inv_cong [OF inv' [OF that(1)], of d'] that(2,3) by simp
  show ?thesis
  proof (cases "d_tasks d ! i")
    case (CreateNode p prep)
    with keep_build [OF inv i CreateNode] show ?thesis by simp
  next
    case (NodeBuilt p seed port built)
    with keep_node_built [OF inv wrap i NodeBuilt] show ?thesis by simp
  next
    case (AddResource prep)
    with ok inv' show ?thesis
      by (auto split: prod.split sum.split intro: rest intro!: more add_ready)
  next
    case (ResourceReady sd ready)
    with ok keep_resource_ready [OF inv', of sd ready] wrap show ?thesis by simp
  next
    case (AddMapping prep)
    with ok inv' show ?thesis
      by (auto split: prod.split sum.split intro: rest intro!: more add_mapping_ready)
  next
    case (MappingReady ready)
    with ok keep_mapping_ready [OF inv', of ready] wrap show ?thesis by simp
  next
    case (StreamEnded kind h)
    with keep_stream_ended [OF inv', of kind h] show ?thesis by simp
  next
    case (DropReceiver kind tx)
    with keep_drop_receiver [OF inv'] show ?thesis by simp
  next
    case (Waiting a)
    with more show ?thesis by (auto split: option.split)
  next
    case (MappingWaiting a)
    with more show ?thesis by (auto split: option.split)
  next
    case (Answered a result)
    with keep_state [OF inv', where d' = "?d\<lparr>d_state := activation_finish a (d_state d)\<rparr>"] show ?thesis
      by (simp add: same_sessions_ack inv_activation_finish)
  next
    case (MappingAnswered a result)
    with keep_state [OF inv', where d' = "?d\<lparr>d_state := cm_activation_finish a (d_state d)\<rparr>"] show ?thesis
      by (simp add: same_sessions_ack inv_activation_finish)
  qed (use inv' in \<open>auto split: prod.split intro: rest\<close>)
qed

lemma keep_perform:
  assumes "daemon_inv d" "no_wrap (d_state d)"
  shows "good_step d (snd (perform lib js act d))"
  using assms
  by (cases act)
    (auto simp: keep_add_node keep_remove_node keep_open_session keep_close_session keep_add_resource
      keep_remove_resource keep_sync keep_add_channel_mapping keep_remove_channel_mapping
      keep_subscribe_activations keep_subscribe_cm keep_subscribe_annotations keep_ack keep_read
      keep_stream_dropped keep_activation_callback keep_channelmapping_callback keep_annotation_callback
      keep_watchdog keep_run_task split: stream_kind.split)

lemma reach_inv: "reach lib js d \<Longrightarrow> daemon_inv d"
proof (induction rule: reach.induct)
  case (reach_new w annotations rng gc)
  then show ?case by (simp add: daemon_inv_def daemon_new_def state_inv_new)
next
  case (reach_step d act r d')
  with keep_perform [of d lib js act] show ?case by (simp add: good_step_inv)
qed

lemma reach_state_inv: "reach lib js d \<Longrightarrow> state_inv (creates_of (d_tasks d)) (d_state d)"
  by (rule daemon_invD(1) [OF reach_inv])

lemma perform_sess_ext:
  "reach lib js d \<Longrightarrow> no_wrap (d_state d) \<Longrightarrow> sess_ext (d_state d) (d_state (snd (perform lib js act d)))"
  using keep_perform [OF reach_inv, of lib js d lib js act] by (simp add: good_step_def)

end
