(* ===== verification/Nvn_Examples.thy ===== *)
theory Nvn_Examples
  imports Nvn_Daemon_Inv
begin

text \<open>
  Example runs of the daemon: a small library to run it on, and states it reaches. The witnesses of
  the daemon's properties apply them here; two runs show behaviour that the code does not intend.
\<close>

section \<open>Runs\<close>

fun run :: "'w libnvnmos \<Rightarrow> (string \<Rightarrow> json option) \<Rightarrow> action list \<Rightarrow> 'w daemon \<Rightarrow> 'w daemon" where
  "run lib js [] d = d"
| "run lib js (a # as) d = run lib js as (snd (perform lib js a d))"

fun run_ok :: "'w libnvnmos \<Rightarrow> (string \<Rightarrow> json option) \<Rightarrow> action list \<Rightarrow> 'w daemon \<Rightarrow> bool" where
  "run_ok lib js [] d \<longleftrightarrow> True"
| "run_ok lib js (a # as) d \<longleftrightarrow> no_wrap (d_state d) \<and> run_ok lib js as (snd (perform lib js a d))"

lemma reach_run: "reach lib js d \<Longrightarrow> run_ok lib js acts d \<Longrightarrow> reach lib js (run lib js acts d)"
  by (induction acts arbitrary: d) (auto intro: reach_step prod.collapse [symmetric])

section \<open>A library for examples\<close>

record demo_world =
  dw_next :: nat
  dw_objects :: "(nat \<times> side \<times> string) list"

definition demo_add :: "server \<Rightarrow> side \<Rightarrow> string option \<Rightarrow> demo_world \<Rightarrow> (nv_error + unit) \<times> demo_world" where
  "demo_add srv sd name w =
     (case name of
        None \<Rightarrow> (Inl (Failed ''name''), w)
      | Some n \<Rightarrow>
          (if (srv, sd, n) \<in> set (dw_objects w) then (Inl (Failed ''duplicate''), w)
           else (Inr (), w\<lparr>dw_objects := (srv, sd, n) # dw_objects w\<rparr>)))"

definition demo_remove :: "server \<Rightarrow> side \<Rightarrow> string \<Rightarrow> demo_world \<Rightarrow> (nv_error + unit) \<times> demo_world" where
  "demo_remove srv sd n w =
     (if (srv, sd, n) \<in> set (dw_objects w)
      then (Inr (), w\<lparr>dw_objects := removeAll (srv, sd, n) (dw_objects w)\<rparr>)
      else (Inl (Failed ''absent''), w))"

definition demo_id :: "server \<Rightarrow> side \<Rightarrow> string \<Rightarrow> demo_world \<Rightarrow> nv_error + string option" where
  "demo_id srv sd n w = Inr (if (srv, sd, n) \<in> set (dw_objects w) then Some ''id'' else None)"

definition no_json :: "string \<Rightarrow> json option" where
  "no_json s = None"

definition demo_lib :: "demo_world libnvnmos" where
  "demo_lib =
     \<lparr>lib_create = (\<lambda>c w. (Inr (dw_next w), w\<lparr>dw_next := dw_next w + 1\<rparr>)),
      lib_node_id = (\<lambda>srv w. Inr ''node''), lib_device_id = (\<lambda>srv w. Inr ''device''),
      lib_add_sender = (\<lambda>srv c. demo_add srv Sender (transport_file_name no_json (sc_transport c) (sc_transport_file c))),
      lib_add_receiver = (\<lambda>srv c. demo_add srv Receiver (transport_file_name no_json (rc_transport c) (rc_transport_file c))),
      lib_sender_id = (\<lambda>srv. demo_id srv Sender), lib_receiver_id = (\<lambda>srv. demo_id srv Receiver),
      lib_source_id = (\<lambda>srv. demo_id srv Sender), lib_flow_id = (\<lambda>srv. demo_id srv Sender),
      lib_remove_sender = (\<lambda>srv. demo_remove srv Sender), lib_remove_receiver = (\<lambda>srv. demo_remove srv Receiver),
      lib_activate_connection = (\<lambda>srv sd n f w. (Inr (), w)),
      lib_add_channelmapping = (\<lambda>srv n c w. (Inr (), w)),
      lib_remove_channelmapping = (\<lambda>srv n w. (Inr (), w)),
      lib_activate_channelmapping = (\<lambda>srv n i m w. (Inr (), w)),
      lib_release = (\<lambda>srv w. w)\<rparr>"

definition demo_node :: "string \<Rightarrow> proto_node_config option" where
  "demo_node seed = Some (default_proto_node_config\<lparr>pn_seed := seed, pn_http_port := 8080\<rparr>)"

definition demo_start :: "demo_world daemon" where
  "demo_start = daemon_new \<lparr>dw_next = 0, dw_objects = []\<rparr> None \<lparr>pr_min = 9000, pr_max = 9009\<rparr> True"

definition demo_sdp :: string where
  "demo_sdp = ''a=x-nvnmos-name:cam''"

definition demo_config :: node_config where
  "demo_config = \<lparr>nc_seed = ''n'', nc_host_name = [], nc_host_addresses = [], nc_http_port = 8080,
     nc_label = [], nc_description = [], nc_asset_tags = None, nc_network_services = None,
     nc_node_annotation = None, nc_device_annotation = None\<rparr>"

definition demo_prep :: create_node_prep where
  "demo_prep = \<lparr>cnp_seed = ''n'', cnp_config = demo_config, cnp_http_port = 8080\<rparr>"


definition demo_ready :: create_node_ready where
  "demo_ready = \<lparr>cnr_seed = ''n'', cnr_http_port = 8080, cnr_server = 0, cnr_node_id = ''node'',
     cnr_device_id = ''device''\<rparr>"

text \<open>One session with an activation stream on its own Node.\<close>

definition demo_subscribed :: "demo_world daemon" where
  "demo_subscribed = demo_start\<lparr>d_world := \<lparr>dw_next = 1, dw_objects = []\<rparr>, d_next_timer := 1,
     d_streams := [(Activations, ''sess-0'', 1)],
     d_state := state_new\<lparr>http_ports := [(8080, ''n'')],
       nodes := [(''n'', node_of_ready SessionRefcounted 1 demo_ready)],
       sessions := [(''sess-0'', new_session ''n'')], next_session_id := 1,
       subscriptions := [(''sess-0'', 1)],
       act_chans := [(1, \<lparr>ch_capacity = 16, ch_queue = [], ch_rx_open = True\<rparr>)]\<rparr>\<rparr>"

definition demo_add_prep :: "server \<Rightarrow> string \<Rightarrow> add_resource_prep" where
  "demo_add_prep srv h = \<lparr>arp_server = srv, arp_side = Sender, arp_transport = Rtp, arp_transport_file = demo_sdp,
     arp_name = ''cam'', arp_node_seed = ''n'', arp_session_handle = h\<rparr>"

definition demo_add_ready :: "string \<Rightarrow> add_sender_ready" where
  "demo_add_ready h = \<lparr>asr_name = ''cam'', asr_node_seed = ''n'', asr_session_handle = h,
     asr_source_id = ''id'', asr_flow_id = ''id'', asr_sender_id = ''id''\<rparr>"

definition demo_entry :: "string \<Rightarrow> resource_entry" where
  "demo_entry h = \<lparr>re_name = ''cam'', re_node_seed = ''n'', re_session_handle = h, re_side = Sender\<rparr>"

text \<open>The library has added a sender; the session does not have it yet, and then has it.\<close>

definition demo_adding :: "demo_world daemon" where
  "demo_adding = demo_subscribed\<lparr>d_world := \<lparr>dw_next = 1, dw_objects = [(0, Sender, ''cam'')]\<rparr>,
     d_tasks := [ResourceReady Sender (ReadySender (demo_add_ready ''sess-0''))]\<rparr>"

definition demo_added :: "demo_world daemon" where
  "demo_added = demo_adding\<lparr>d_tasks := [],
     d_state := (d_state demo_adding)\<lparr>resources := [(''res-0'', demo_entry ''sess-0'')],
       by_name := [((''n'', Sender, ''cam''), ''res-0'')], next_resource_id := 1,
       sessions := [(''sess-0'', (new_session ''n'')\<lparr>se_resources := [''res-0'']\<rparr>)]\<rparr>\<rparr>"

lemmas handler_defs = rpc_open_session_def rpc_add_node_def rpc_remove_node_def rpc_close_session_def
  node_built_def rpc_add_resource_def resource_ready_def rpc_remove_resource_def rpc_subscribe_activations_def
  rpc_ack_activation_def stream_dropped_def stream_ended_def activation_callback_def watchdog_fires_def
  start_timeout_def cancel_timeout_def spawn_def drop_nth_def emit_if_on_def drop_receiver_def ffi_reply_def

lemmas operation_defs = prepare_open_session_def require_non_empty_seed_def resolve_http_port_def reserve_node_def
  create_node_prep_run_ffi_def commit_open_session_def node_of_ready_def new_session_def allocate_session_handle_def
  new_chan_def fresh_chan_def subscribe_activations_def hm_insert_def hm_remove_def hm_retain_def hm_contains_def
  hs_insert_def hs_remove_def subscription_buffer_def prepare_add_resource_def reap_closed_subscription_def
  has_active_subscription_def is_closed_def add_resource_prep_run_ffi_def ready_after_add_def require_id_def
  commit_add_sender_def commit_add_resource_def allocate_resource_handle_def decode_proto_transport_def
  close_session_def drop_session_streams_def drop_session_cm_streams_def detach_session_def resource_key_def
  dispatch_activation_def dispatch_to_subscriber_def allocate_activation_handle_def try_send_def
  complete_activation_def on_subscription_stream_ended_def has_any_activation_subscription_def
  has_active_channelmapping_subscription_def chan_drop_rx_def sessions_contains_def stored_at_create_def
  remove_resource_ffi_run_def close_session_ffi_run_def

lemmas demo_defs = demo_config_def demo_prep_def demo_ready_def demo_start_def daemon_new_def state_new_def
  demo_subscribed_def demo_adding_def demo_added_def demo_lib_def
  demo_add_prep_def demo_add_ready_def demo_entry_def demo_add_def demo_remove_def demo_id_def

lemma demo_name: "transport_file_name no_json Rtp demo_sdp = Some ''cam''"
  by code_simp

lemma handle_numbers:
  "session_handle 0 = ''sess-0''" "session_handle 1 = ''sess-1''" "resource_handle 0 = ''res-0''"
  "resource_handle 1 = ''res-1''" "activation_handle 0 = ''act-0''"
  by (simp_all add: session_handle_def resource_handle_def activation_handle_def show_nat.simps digit_char_def
      char_of_def bit_0)

lemma demo_translate: "translate_config (demo_node ''n'') = Inr demo_config"
  by (simp add: translate_config_def demo_node_def default_proto_node_config_def u16_try_from_def u16_max_def
      translate_asset_tags_def translate_network_services_def demo_config_def Let_def)


lemmas demo_simps = handler_defs operation_defs demo_defs demo_translate demo_name handle_numbers Let_def no_wrap_def

section \<open>Runs of the example\<close>

definition demo_acts :: "action list" where
  "demo_acts = [DoOpenSession (\<lambda>_. True) (demo_node ''n''), DoTask 0 False, DoTask 0 False, DoTask 0 False,
     DoSubscribe Activations ''sess-0'', DoAddResource Sender ''sess-0'' 1 demo_sdp ''cam'', DoTask 0 False]"

lemma demo_run_subscribed: "run demo_lib no_json (take 5 demo_acts) demo_start = demo_subscribed \<and>
    run_ok demo_lib no_json (take 5 demo_acts) demo_start"
  by (simp add: demo_acts_def demo_simps)

lemma demo_run_adding: "run demo_lib no_json demo_acts demo_start = demo_adding \<and> run_ok demo_lib no_json demo_acts demo_start"
  by (simp add: demo_acts_def demo_simps)

lemma demo_run_added: "snd (perform demo_lib no_json (DoTask 0 False) demo_adding) = demo_added \<and> no_wrap (d_state demo_adding)"
  by (simp add: demo_simps)

lemma reach_start: "reach demo_lib no_json demo_start"
  unfolding demo_start_def by (rule reach_new)

lemma reach_subscribed: "reach demo_lib no_json demo_subscribed"
  using reach_run [OF reach_start, of "take 5 demo_acts"] demo_run_subscribed by simp

lemma reach_adding: "reach demo_lib no_json demo_adding"
  using reach_run [OF reach_start, of demo_acts] demo_run_adding by simp

lemma reach_added: "reach demo_lib no_json demo_added"
  using reach_step [OF reach_adding, of "DoTask 0 False"] demo_run_added by (metis prod.collapse)

text \<open>The stream of the session is dropped, and its end is noticed before the receiver is gone.\<close>

definition race_acts :: "action list" where
  "race_acts = [DoDropStream Activations ''sess-0'' 1, DoTask 0 False, DoTask 0 False]"

definition abandoned :: "demo_world daemon" where
  "abandoned = demo_subscribed\<lparr>d_streams := [], d_state := (d_state demo_subscribed)\<lparr>
     act_chans := [(1, \<lparr>ch_capacity = 16, ch_queue = [], ch_rx_open = False\<rparr>)]\<rparr>\<rparr>"

lemma race_run: "run demo_lib no_json race_acts demo_subscribed = abandoned \<and> run_ok demo_lib no_json race_acts demo_subscribed"
  by (simp add: race_acts_def abandoned_def demo_simps)

text \<open>
  The session closes while its sender is being added, which destroys the Node; another session
  creates a Node for the same seed and adds a sender of the same name; then the first add goes on.
\<close>

definition reuse_acts :: "action list" where
  "reuse_acts = [DoCloseSession ''sess-0'', DoOpenSession (\<lambda>_. True) (demo_node ''n''), DoTask 2 False, DoTask 2 False,
     DoSubscribe Activations ''sess-1'', DoAddResource Sender ''sess-1'' 1 demo_sdp ''cam'', DoTask 3 False,
     DoTask 3 False, DoTask 0 False, DoTask 2 False]"

lemma reuse_run: "dw_objects (d_world (run demo_lib no_json reuse_acts demo_adding)) = [(0, Sender, ''cam'')] \<and>
   resources (d_state (run demo_lib no_json reuse_acts demo_adding)) = [(''res-0'', demo_entry ''sess-1'')] \<and>
   map_option ne_server (hm_get (nodes (d_state (run demo_lib no_json reuse_acts demo_adding))) ''n'') = Some 1 \<and>
   run_ok demo_lib no_json reuse_acts demo_adding"
  by (simp add: reuse_acts_def demo_simps)
end
