(* ===== verification/Nvn_Daemon_Facts.thy ===== *)
theory Nvn_Daemon_Facts
  imports Nvn_Examples
begin

text \<open>
  What the invariant of reachable daemons gives to a client of a session: the Node of a session
  exists, the objects in its lists are its own, an operation never finds the tables in
  disagreement, and nothing refers to a session that is not open.
\<close>

section \<open>Nodes and sessions\<close>

lemma hm_count_card:
  assumes "hm_wf m"
  shows "hm_count P m = card {k. \<exists>v. hm_get m k = Some v \<and> P v}"
proof -
  have "{k. \<exists>v. hm_get m k = Some v \<and> P v} = set (map fst (filter (\<lambda>p. P (snd p)) m))"
    using assms by (force simp: hm_wf_def)
  moreover have "distinct (map fst (filter (\<lambda>p. P (snd p)) m))"
    using assms by (simp add: hm_wf_def distinct_map_filter)
  ultimately show ?thesis by (simp only: distinct_card hm_count_def length_map)
qed

lemma reach_node:
  assumes "reach lib js d" "hm_get (nodes (d_state d)) seed = Some n"
  shows "ne_attached_sessions n = card {h. \<exists>se. hm_get (sessions (d_state d)) h = Some se \<and> se_node_seed se = seed}"
    and "ne_lifetime n = SessionRefcounted \<Longrightarrow> 0 < ne_attached_sessions n"
    and "hm_get (http_ports (d_state d)) (ne_http_port n) = Some seed"
proof -
  note inv = reach_state_inv [OF assms(1)]
  note ok = nodes_okD [OF state_invD(2) [OF inv]]
  have "hm_wf (sessions (d_state d))" using state_invD(1) [OF inv] by (simp add: tables_ok_def)
  then show "ne_attached_sessions n = card {h. \<exists>se. hm_get (sessions (d_state d)) h = Some se \<and> se_node_seed se = seed}"
    using ok(1) [OF assms(2)] by (simp add: attached_count_def hm_count_card)
  show "ne_lifetime n = SessionRefcounted \<Longrightarrow> 0 < ne_attached_sessions n"
    "hm_get (http_ports (d_state d)) (ne_http_port n) = Some seed"
    using ok(1,2,3) [OF assms(2)] by simp_all
qed

lemma session_node:
  assumes "state_inv creates s" "hm_get (sessions s) h = Some se"
  shows "hm_get (nodes s) (se_node_seed se) \<noteq> None"
  using nodes_inv_session_node [OF assms] by auto

lemma owned_resource:
  assumes "state_inv creates s" "hm_get (sessions s) h = Some se" "r \<in> set (se_resources se)"
  shows "\<exists>e n. hm_get (resources s) r = Some e \<and> re_session_handle e = h \<and> re_node_seed e = se_node_seed se \<and>
    hm_get (nodes s) (re_node_seed e) = Some n"
proof -
  have own: "owned_ok (hm_get (sessions s)) se_resources (hm_get (resources s)) re_session_handle re_node_seed"
    using state_invD(3) [OF assms(1)] by (simp add: resources_ok_def)
  obtain e where e: "hm_get (resources s) r = Some e" "re_session_handle e = h"
    using owned_okD2 [OF own assms(2,3)] by blast
  with owned_okD1 [OF own e(1)] assms(2) have "re_node_seed e = se_node_seed se" by auto
  with e session_node [OF assms(1,2)] show ?thesis by auto
qed

lemma owned_mapping:
  assumes "state_inv creates s" "hm_get (sessions s) h = Some se" "c \<in> set (se_channelmappings se)"
  shows "\<exists>e n. hm_get (channelmappings s) c = Some e \<and> cm_session_handle e = h \<and> cm_node_seed e = se_node_seed se \<and>
    hm_get (nodes s) (cm_node_seed e) = Some n"
proof -
  have own: "owned_ok (hm_get (sessions s)) se_channelmappings (hm_get (channelmappings s)) cm_session_handle cm_node_seed"
    using state_invD(4) [OF assms(1)] by (simp add: cms_ok_def)
  obtain e where e: "hm_get (channelmappings s) c = Some e" "cm_session_handle e = h"
    using owned_okD2 [OF own assms(2,3)] by blast
  with owned_okD1 [OF own e(1)] assms(2) have "cm_node_seed e = se_node_seed se" by auto
  with e session_node [OF assms(1,2)] show ?thesis by auto
qed

text \<open>The operations do not find their tables in disagreement.\<close>

lemma close_session_not_internal:
  "state_inv creates s \<Longrightarrow> fst (close_session h s) = Inl e \<Longrightarrow> status_code e = NotFound"
  by (cases "hm_get (sessions s) h") (auto simp: close_session_def elim: close_session_ok)

lemma remove_not_internal:
  assumes "state_inv creates s"
  shows "fst (remove_resource h r s) = Inl e \<Longrightarrow> status_code e = NotFound"
    "sync_resource_state h r file s = Inl e \<Longrightarrow> status_code e = NotFound"
    "fst (remove_channelmapping h c s) = Inl e \<Longrightarrow> status_code e = NotFound"
    "sync_channelmapping_state h c oid am s = Inl e \<Longrightarrow> status_code e = NotFound"
  using owned_resource [OF assms, of h _ r] owned_mapping [OF assms, of h _ c]
  by (fastforce simp: remove_resource_def sync_resource_state_def remove_channelmapping_def
      sync_channelmapping_state_def Let_def split: option.splits if_splits)+
lemma find_map_SomeD: "find_map f xs = Some y \<Longrightarrow> \<exists>x \<in> set xs. f x = Some y"
  by (induction xs) (auto split: option.splits)

lemma id_checks_code:
  "check_channelmapping_ids outs ins ids = Some e \<Longrightarrow> status_code e = InvalidArgument"
  "node_id_clash seed ins ids s = Some e \<Longrightarrow> status_code e = AlreadyExists"
  by (auto simp: check_channelmapping_ids_def node_id_clash_def entry_id_clash_def
      dest!: find_map_SomeD split: option.splits)

lemma prepare_not_internal:
  assumes inv: "state_inv creates s"
  shows "fst (prepare_add_resource js sd h tr file name s) = Inl e \<Longrightarrow> status_code e \<noteq> Internal"
    "fst (prepare_add_channelmapping h name ins outs s) = Inl e \<Longrightarrow> status_code e \<noteq> Internal"
  using session_node [OF inv_reap(1) [OF inv, of h], of h] session_node [OF inv_reap(2) [OF inv, of h], of h]
  by (auto simp: prepare_add_resource_def prepare_add_channelmapping_def id_checks_code Let_def
      split: option.splits if_splits)

lemma annotation_update_not_internal:
  assumes inv: "state_inv creates s"
  shows "prepare_annotation_update h rt r s = Inl e \<Longrightarrow> status_code e \<noteq> Internal"
  using session_node [OF inv, of h] owned_resource [OF inv, of h _ r]
  by (fastforce simp: prepare_annotation_update_def owned_resource_name_def split: option.splits if_splits sum.splits)

section \<open>Sessions that are not open\<close>

definition owns_nothing :: "string \<Rightarrow> state \<Rightarrow> bool" where
  "owns_nothing h s \<longleftrightarrow>
     hm_get (sessions s) h = None \<and>
     (\<forall>r e. hm_get (resources s) r = Some e \<longrightarrow> re_session_handle e \<noteq> h) \<and>
     (\<forall>c e. hm_get (channelmappings s) c = Some e \<longrightarrow> cm_session_handle e \<noteq> h) \<and>
     hm_get (subscriptions s) h = None \<and> hm_get (annotation_subscriptions s) h = None \<and>
     hm_get (channelmapping_subscriptions s) h = None \<and>
     (\<forall>a. hm_get (pending_activations s) a \<noteq> Some h) \<and>
     (\<forall>a. hm_get (pending_channelmapping_activations s) a \<noteq> Some h)"

lemma inv_absent_owns_nothing:
  assumes inv: "state_inv creates s" and h: "hm_get (sessions s) h = None"
  shows "owns_nothing h s"
proof -
  note D = state_invD [OF inv]
  have own: "owned_ok (hm_get (sessions s)) se_resources (hm_get (resources s)) re_session_handle re_node_seed"
    "owned_ok (hm_get (sessions s)) se_channelmappings (hm_get (channelmappings s)) cm_session_handle cm_node_seed"
    using D(3,4) by (simp_all add: resources_ok_def cms_ok_def)
  have "h \<notin> dom (hm_get (sessions s))" using h by auto
  with D(5) have "h \<notin> dom (hm_get (subscriptions s))" "h \<notin> dom (hm_get (annotation_subscriptions s))"
    "h \<notin> dom (hm_get (channelmapping_subscriptions s))" "h \<notin> ran (hm_get (pending_activations s))"
    "h \<notin> ran (hm_get (pending_channelmapping_activations s))"
    unfolding streams_ok_def by blast+
  with owned_okD1 [OF own(1)] owned_okD1 [OF own(2)] h show ?thesis
    by (auto simp: owns_nothing_def domIff ran_def) fastforce+
qed

lemma owned_iff_listed:
  assumes inv: "state_inv creates s" and se: "hm_get (sessions s) h = Some se"
  shows "hm_get (resources s) r = Some e \<Longrightarrow> r \<in> set (se_resources se) \<longleftrightarrow> re_session_handle e = h"
    and "hm_get (channelmappings s) c = Some m \<Longrightarrow> c \<in> set (se_channelmappings se) \<longleftrightarrow> cm_session_handle m = h"
proof -
  have own: "owned_ok (hm_get (sessions s)) se_resources (hm_get (resources s)) re_session_handle re_node_seed"
    "owned_ok (hm_get (sessions s)) se_channelmappings (hm_get (channelmappings s)) cm_session_handle cm_node_seed"
    using state_invD(3,4) [OF inv] by (simp_all add: resources_ok_def cms_ok_def)
  show "r \<in> set (se_resources se) \<longleftrightarrow> re_session_handle e = h" if "hm_get (resources s) r = Some e"
    using owned_okD1 [OF own(1) that] owned_okD2 [OF own(1) se, of r] that se by auto
  show "c \<in> set (se_channelmappings se) \<longleftrightarrow> cm_session_handle m = h" if "hm_get (channelmappings s) c = Some m"
    using owned_okD1 [OF own(2) that] owned_okD2 [OF own(2) se, of c] that se by auto
qed

lemma removal_sets:
  assumes inv: "state_inv creates s" and se: "hm_get (sessions s) h = Some se"
  shows "{(re_side e, re_name e) |e r. r \<in> set (se_resources se) \<and> hm_get (resources s) r = Some e} =
      {(re_side e, re_name e) |e r. hm_get (resources s) r = Some e \<and> re_session_handle e = h}"
    "{cm_name e |e c. c \<in> set (se_channelmappings se) \<and> hm_get (channelmappings s) c = Some e} =
      {cm_name e |e c. hm_get (channelmappings s) c = Some e \<and> cm_session_handle e = h}"
  using owned_iff_listed [OF inv se] by metis+

lemma closed_owns_nothing:
  assumes "state_inv creates s" "close_session h s = (Inr out, s')"
  shows "owns_nothing h s'"
    and "\<forall>h'. h' \<noteq> h \<longrightarrow> hm_get (sessions s') h' = hm_get (sessions s) h'"
proof -
  obtain se where se: "hm_get (sessions s) h = Some se"
    using assms(2) by (auto simp: close_session_def split: option.splits)
  have cl: "hm_get (sessions s') h = None" "\<forall>h'. h' \<noteq> h \<longrightarrow> hm_get (sessions s') h' = hm_get (sessions s) h'"
    using close_session_cleared [OF assms(1) se assms(2)] by (simp_all add: session_cleared_def)
  then show "\<forall>h'. h' \<noteq> h \<longrightarrow> hm_get (sessions s') h' = hm_get (sessions s) h'" by simp
  show "owns_nothing h s'"
    by (rule inv_absent_owns_nothing [OF inv_close_session [OF assms] cl(1)])
qed

section \<open>Routed activations\<close>

lemma dispatch_routed:
  assumes "dispatch_activation seed sd name file s = (Routed a, s')"
  shows "\<exists>r e tx heap. hm_get (by_name s) (seed, sd, name) = Some r \<and> hm_get (resources s) r = Some e \<and>
    hm_get (subscriptions s) (re_session_handle e) = Some tx \<and> a = activation_handle (next_activation_id s) \<and>
    try_send tx \<lparr>ae_resource_handle = r, ae_activation_handle = a, ae_transport_file = file,
      ae_side = side_to_proto sd\<rparr> (act_chans s) = (SendOk, heap) \<and>
    s' = s\<lparr>next_activation_id := next_activation_id s + 1, act_chans := heap,
      pending_activations := hm_insert a (re_session_handle e) (pending_activations s),
      ack_waiting := hs_insert a (ack_waiting s)\<rparr>"
proof -
  from assms obtain r e where r: "hm_get (by_name s) (seed, sd, name) = Some r" "hm_get (resources s) r = Some e"
    by (auto simp: dispatch_activation_def split: option.splits)
  let ?o = "re_session_handle e"
  have "reap_closed_subscription ?o s = s"
  proof (rule ccontr)
    assume "reap_closed_subscription ?o s \<noteq> s"
    then have "hm_get (subscriptions (reap_closed_subscription ?o s)) ?o = None"
      by (auto simp: reap_closed_subscription_def split: option.splits if_splits)
    with assms r show False by (simp add: dispatch_activation_def Let_def)
  qed
  with assms r show ?thesis
    by (auto simp: dispatch_activation_def dispatch_to_subscriber_def allocate_activation_handle_def Let_def
        split: option.splits prod.splits send_result.splits)
qed

section \<open>Ends of streams\<close>

lemma stream_ended_arms:
  assumes "kind \<noteq> Annotations" "hm_contains (sessions (d_state d)) h"
    "\<not> has_any_activation_subscription h (d_state d)"
  shows "\<exists>s. stream_ended kind h d = spawn [ArmResubscribe h] (d\<lparr>d_state := s\<rparr>) \<and>
    hm_contains (sessions s) h \<and> \<not> has_any_activation_subscription h s"
proof (cases kind)
  case Activations
  let ?s = "reap_closed_subscription h (d_state d)"
  have "sessions ?s = sessions (d_state d)" "\<not> has_any_activation_subscription h ?s"
    using assms(3) act_sub.live_reap [of h h "d_state d"]
    by (simp_all add: has_any_activation_subscription_def has_active_channelmapping_subscription_def
        reap_closed_subscription_def split: option.splits)
  with Activations assms(2) show ?thesis
    by (auto simp: stream_ended_def on_subscription_stream_ended_def Let_def)
next
  case CmActivations
  let ?s = "reap_closed_channelmapping_subscription h (d_state d)"
  have "sessions ?s = sessions (d_state d)" "\<not> has_any_activation_subscription h ?s"
    using assms(3) cm_sub.live_reap [of h h "d_state d"]
    by (simp_all add: has_any_activation_subscription_def has_active_subscription_def
        reap_closed_channelmapping_subscription_def split: option.splits)
  with CmActivations assms(2) show ?thesis
    by (auto simp: stream_ended_def on_channelmapping_subscription_stream_ended_def Let_def)
qed (use assms in simp)

lemma perform_spawned:
  "perform lib js (DoTask (length (d_tasks (spawn [t] d)) - 1) time_up) (spawn [t] d) = run_task lib time_up t d"
  by (simp add: spawn_def drop_nth_def)

lemma start_timeout_facts:
  assumes "d_gc_enabled d"
  shows "\<exists>t. hm_get (d_timers (start_timeout h d)) t = Some h \<and> t = d_next_timer d \<and>
    hm_get (d_watchdogs (start_timeout h d)) h = Some t \<and> d_state (start_timeout h d) = d_state d"
  using assms by (simp add: start_timeout_def cancel_timeout_def Let_def split: option.split)

lemma watchdog_fires_closes:
  assumes inv: "state_inv creates (d_state d)" and t: "hm_get (d_timers d) t = Some h"
    and h: "hm_contains (sessions (d_state d)) h" "\<not> has_any_activation_subscription h (d_state d)"
  shows "owns_nothing h (d_state (watchdog_fires t d)) \<and>
      (\<forall>h'. h' \<noteq> h \<longrightarrow> hm_get (sessions (d_state (watchdog_fires t d))) h' = hm_get (sessions (d_state d)) h') \<and>
      (\<exists>ffi. d_tasks (watchdog_fires t d) = d_tasks d @ [CloseFfi ffi, GcDone h])"
proof -
  obtain se where se: "hm_get (sessions (d_state d)) h = Some se" using h(1) by (auto simp: hm_contains_def)
  obtain out ffi s' where c: "close_session h (d_state d) = (Inr (out, ffi), s')"
    using close_session_ok [OF inv se] by metis
  from t h c closed_owns_nothing [OF inv c] show ?thesis
    by (simp add: watchdog_fires_def Let_def sessions_contains_def spawn_def)
qed

end
