(* ===== verification/Gst_Prelude.thy ===== *)
theory Gst_Prelude
  imports Nvn_Lib
begin

text \<open>
  The operations of Rust's standard library on slices, strings and numbers that the client side
  (\<^verbatim>\<open>gst-nmos-rs\<close>) uses, with their lemmas.
\<close>

type_synonym u32 = "32 word"

type_synonym u64 = "64 word"

section \<open>Positions and bounded access\<close>

text \<open>\<^verbatim>\<open>Iterator::position\<close> and \<^verbatim>\<open>slice::get\<close>.\<close>

fun position :: "('a \<Rightarrow> bool) \<Rightarrow> 'a list \<Rightarrow> nat option" where
  "position P [] = None"
| "position P (x # xs) = (if P x then Some 0 else map_option Suc (position P xs))"

definition list_get :: "'a list \<Rightarrow> nat \<Rightarrow> 'a option" where
  "list_get xs i = (if i < length xs then Some (xs ! i) else None)"

lemma position_SomeD: "position P xs = Some i \<Longrightarrow> i < length xs \<and> P (xs ! i)"
  by (induction xs arbitrary: i) (auto split: if_splits)

lemma position_None_iff: "position P xs = None \<longleftrightarrow> (\<forall>x \<in> set xs. \<not> P x)"
  by (induction xs) auto

lemma position_nth: "distinct xs \<Longrightarrow> i < length xs \<Longrightarrow> position (\<lambda>x. x = xs ! i) xs = Some i"
  by (induction xs arbitrary: i) (auto simp: nth_Cons split: nat.splits)

lemma list_get_Some [simp]: "list_get xs i = Some x \<longleftrightarrow> i < length xs \<and> x = xs ! i"
  by (auto simp: list_get_def)

lemma list_get_None [simp]: "list_get xs i = None \<longleftrightarrow> length xs \<le> i"
  by (auto simp: list_get_def)

lemma list_get_nth [simp]: "i < length xs \<Longrightarrow> list_get xs i = Some (xs ! i)"
  by (simp add: list_get_def)

section \<open>Strings\<close>

fun split_once :: "char \<Rightarrow> string \<Rightarrow> (string \<times> string) option" where
  "split_once d [] = None"
| "split_once d (c # cs) =
     (if c = d then Some ([], cs) else map_option (\<lambda>(a, b). (c # a, b)) (split_once d cs))"

definition parse_u32 :: "string \<Rightarrow> u32 option" where
  "parse_u32 s = map_option of_nat (parse_unsigned u32_max s)"

definition to_ascii_lowercase :: "char \<Rightarrow> char" where
  "to_ascii_lowercase c =
     (let n = of_char c :: nat in if 65 \<le> n \<and> n \<le> 90 then char_of (n + 32) else c)"

definition to_ascii_uppercase :: "char \<Rightarrow> char" where
  "to_ascii_uppercase c =
     (let n = of_char c :: nat in if 97 \<le> n \<and> n \<le> 122 then char_of (n - 32) else c)"

definition eq_ignore_ascii_case :: "string \<Rightarrow> string \<Rightarrow> bool" where
  "eq_ignore_ascii_case a b \<longleftrightarrow> map to_ascii_lowercase a = map to_ascii_lowercase b"

section \<open>Numbers\<close>

definition saturating_pred :: "u32 \<Rightarrow> u32" where
  "saturating_pred n = (if n = 0 then 0 else n - 1)"

definition u32_range :: "u32 \<Rightarrow> u32 list" where
  "u32_range n = map of_nat [0 ..< unat n]"

section \<open>GStreamer structures\<close>

text \<open>
  A value of a field, as far as the code tells them apart: a string (\<open>None\<close> is the null
  string), an integer, a range of integers, a fraction, a bit mask, an array, a list, anything else. A structure has its fields in
  order; caps are structures with their names. Reading a field as \<^verbatim>\<open>i32\<close> fails beyond 32 bits.
\<close>

datatype gvalue =
    GString "string option"
  | GInt int
  | GIntRange int int
  | GFraction int int
  | GBitmask u64
  | GArray "gvalue list"
  | GList "gvalue list"
  | GOther

type_synonym gst_structure = "(string \<times> gvalue) list"

type_synonym gst_caps = "(string \<times> gst_structure) list"

fun value_string :: "gvalue \<Rightarrow> string option" where
  "value_string (GString (Some s)) = Some s"
| "value_string _ = None"

definition i32_range :: "int \<Rightarrow> bool" where
  "i32_range n \<longleftrightarrow> - (2 ^ 31) \<le> n \<and> n < 2 ^ 31"

fun value_int :: "gvalue \<Rightarrow> int option" where
  "value_int (GInt n) = (if i32_range n then Some n else None)"
| "value_int _ = None"

fun value_fraction :: "gvalue \<Rightarrow> (int \<times> int) option" where
  "value_fraction (GFraction n d) = (if i32_range n \<and> i32_range d then Some (n, d) else None)"
| "value_fraction _ = None"

definition has_field :: "gst_structure \<Rightarrow> string \<Rightarrow> bool" where
  "has_field st field \<longleftrightarrow> field \<in> set (map fst st)"

definition field_string :: "gst_structure \<Rightarrow> string \<Rightarrow> string option" where
  "field_string st field = (case map_of st field of None \<Rightarrow> None | Some v \<Rightarrow> value_string v)"

definition field_fraction :: "gst_structure \<Rightarrow> string \<Rightarrow> (int \<times> int) option" where
  "field_fraction st field = (case map_of st field of None \<Rightarrow> None | Some v \<Rightarrow> value_fraction v)"

definition field_int :: "gst_structure \<Rightarrow> string \<Rightarrow> int option" where
  "field_int st field = (case map_of st field of None \<Rightarrow> None | Some v \<Rightarrow> value_int v)"

lemma split_once_append [simp]: "d \<notin> set xs \<Longrightarrow> split_once d (xs @ d # ys) = Some (xs, ys)"
  by (induction xs) auto

lemma split_once_SomeD: "split_once d s = Some (a, b) \<Longrightarrow> s = a @ d # b \<and> d \<notin> set a"
  by (induction s arbitrary: a) (auto split: if_splits)

lemma unat_u32: "n < 2 ^ 32 \<Longrightarrow> unat (of_nat n :: u32) = n"
  by (simp add: unat_of_nat)

lemma inj_of_nat_u32: "inj_on (of_nat :: nat \<Rightarrow> u32) {..< 2 ^ 32}"
  by (rule inj_onI) (metis lessThan_iff unat_u32)

lemma unat_u32_less: "unat (n :: u32) < 2 ^ 32"
  using unsigned_less [of n, where 'a = nat] by simp

lemma unat_u32_add: "unat a + unat b < 2 ^ 32 \<Longrightarrow> unat (a + b :: u32) = unat a + unat b"
  by (simp add: unat_word_ariths)

lemma length_u32_range [simp]: "length (u32_range n) = unat n"
  by (simp add: u32_range_def)

lemma unat_u32_range: "map unat (u32_range n) = [0 ..< unat n]"
proof -
  have "unat (of_nat i :: u32) = i" if "i < unat n" for i
    using that unat_u32_less [of n] by (intro unat_u32) simp
  then show ?thesis by (auto simp: u32_range_def comp_def intro: map_idI)
qed

lemma nth_u32_range [simp]: "i < unat n \<Longrightarrow> u32_range n ! i = of_nat i"
  by (simp add: u32_range_def)

lemma set_u32_range: "set (u32_range n) = {c. c < n}"
proof (rule set_eqI)
  fix c
  have "c \<in> set (u32_range n) \<longleftrightarrow> unat c \<in> set (map unat (u32_range n))" by force
  then show "c \<in> set (u32_range n) \<longleftrightarrow> c \<in> {c. c < n}"
    by (simp add: unat_u32_range word_less_nat_alt)
qed

lemma distinct_u32_range: "distinct (u32_range n)"
proof -
  have "distinct (map unat (u32_range n))" by (simp add: unat_u32_range)
  then show ?thesis by (simp add: distinct_map)
qed

end
