(* ===== verification/Gst_ChannelMap.thy ===== *)
theory Gst_ChannelMap
  imports Gst_Prelude Nvn_ChannelMapping
begin

text \<open>
  IS-08 channel mapping in the GStreamer element \<^verbatim>\<open>nmosaudiochannelmap\<close>
  (\<^verbatim>\<open>gst-nmos-rs/src/channel_mapping\<close>): the topology frozen from the pads, active maps as
  the client writes them and as the controller sends them, the mix matrices that realise a map,
  and the request with which the element registers its channel mapping.

  The inputs are laid out side by side on one bus; every input has a matrix onto the bus and every
  output one from the bus. Matrices have the coefficients 0 and 1, integers here. An index that
  Rust would refuse is a panic, \<open>None\<close>. Counts of channels are 32-bit words; the running
  offset wraps as in a release build.
\<close>

section \<open>Snapshots and topology\<close>

record sink_pad_snapshot =
  sk_receiver_name :: string
  sk_input_id :: string
  sk_label :: string
  sk_description :: string
  sk_negotiated_channels :: u32

record src_pad_snapshot =
  sp_sender_name :: string
  sp_output_id :: string
  sp_label :: string
  sp_description :: string
  sp_negotiated_channels :: u32
  sp_active_map :: "gst_structure option"

record frozen_topology =
  ft_input_ids :: "string list"
  ft_output_ids :: "string list"
  ft_input_channels :: "u32 list"
  ft_output_channels :: "u32 list"
  ft_input_bus_offsets :: "u32 list"
  ft_input_bus_channels :: u32

fun bus_offsets :: "u32 \<Rightarrow> u32 list \<Rightarrow> u32 list \<times> u32" where
  "bus_offsets offset [] = ([], offset)"
| "bus_offsets offset (n # ns) =
     (case bus_offsets (offset + n) ns of (os, width) \<Rightarrow> (offset # os, width))"

definition from_snapshots ::
  "sink_pad_snapshot list \<Rightarrow> src_pad_snapshot list \<Rightarrow> string list \<Rightarrow> string list \<Rightarrow> frozen_topology" where
  "from_snapshots sinks srcs effective_input_ids effective_output_ids =
     (let input_channels = map sk_negotiated_channels sinks;
          (offsets, width) = bus_offsets 0 input_channels
      in \<lparr>ft_input_ids = effective_input_ids, ft_output_ids = effective_output_ids,
          ft_input_channels = input_channels, ft_output_channels = map sp_negotiated_channels srcs,
          ft_input_bus_offsets = offsets, ft_input_bus_channels = width\<rparr>)"

definition input_bus_index :: "frozen_topology \<Rightarrow> string \<Rightarrow> u32 \<Rightarrow> u32 option" where
  "input_bus_index t input_id input_channel =
     (case position (\<lambda>i. i = input_id) (ft_input_ids t) of
        None \<Rightarrow> None
      | Some idx \<Rightarrow>
          (case list_get (ft_input_bus_offsets t) idx of
             None \<Rightarrow> None
           | Some offset \<Rightarrow>
               (case list_get (ft_input_channels t) idx of
                  None \<Rightarrow> None
                | Some channels \<Rightarrow>
                    if input_channel \<ge> channels then None else Some (offset + input_channel))))"

section \<open>Active maps\<close>

record active_map_route =
  rt_output_channel :: u32
  rt_input_id :: string
  rt_input_channel :: u32

datatype active_map_error =
    InvalidOutputChannelKey string
  | ParsedTwice u32
  | InvalidValue u32

definition parse_input_channel_ref :: "string \<Rightarrow> (string \<times> u32) option" where
  "parse_input_channel_ref v =
     (case split_once CHR '':'' v of
        None \<Rightarrow> None
      | Some (input_id, ch) \<Rightarrow>
          if input_id = [] then None
          else case parse_u32 ch of None \<Rightarrow> None | Some c \<Rightarrow> Some (input_id, c))"

text \<open>The loop over the fields of the structure; \<open>seen\<close> are the output channels so far.\<close>

fun parse_active_map_fields ::
  "gst_structure \<Rightarrow> u32 hash_set \<Rightarrow> string list \<Rightarrow> active_map_error + active_map_route list" where
  "parse_active_map_fields structure seen [] = Inr []"
| "parse_active_map_fields structure seen (key # keys) =
     (case parse_u32 key of
        None \<Rightarrow> Inl (InvalidOutputChannelKey key)
      | Some out \<Rightarrow>
          if out \<in> set seen then Inl (ParsedTwice out)
          else
            (let rest = parse_active_map_fields structure (hs_insert out seen) keys
             in case map_of structure key of
                  Some (GString None) \<Rightarrow> rest
                | Some (GString (Some v)) \<Rightarrow>
                    if eq_ignore_ascii_case v ''null'' then rest
                    else (case parse_input_channel_ref v of
                            None \<Rightarrow> Inl (InvalidValue out)
                          | Some (input_id, ch) \<Rightarrow>
                              (case rest of
                                 Inl e \<Rightarrow> Inl e
                               | Inr rs \<Rightarrow>
                                   Inr (\<lparr>rt_output_channel = out, rt_input_id = input_id,
                                         rt_input_channel = ch\<rparr> # rs)))
                | _ \<Rightarrow> Inl (InvalidValue out)))"

definition parse_active_map_structure ::
  "gst_structure \<Rightarrow> active_map_error + active_map_route list" where
  "parse_active_map_structure structure =
     (case parse_active_map_fields structure [] (map fst structure) of
        Inl e \<Rightarrow> Inl e
      | Inr routes \<Rightarrow> Inr (sort_key rt_output_channel routes))"

definition put_route :: "u32 \<Rightarrow> active_map_route \<Rightarrow> active_map_entry list \<Rightarrow> active_map_entry list" where
  "put_route output_channels route entries =
     (if rt_output_channel route \<ge> output_channels then entries
      else entries[unat (rt_output_channel route) :=
             \<lparr>am_input_id = Some (rt_input_id route), am_input_channel = Some (rt_input_channel route)\<rparr>])"

definition active_map_entries_from_routes ::
  "u32 \<Rightarrow> active_map_route list \<Rightarrow> active_map_entry list" where
  "active_map_entries_from_routes output_channels routes =
     fold (put_route output_channels) routes
       (replicate (unat output_channels) \<lparr>am_input_id = None, am_input_channel = None\<rparr>)"

text \<open>The nested loops with their early return, over the channels in order.\<close>

fun identity_loop :: "u32 \<Rightarrow> u32 \<Rightarrow> (string \<times> u32) list \<Rightarrow> active_map_route list" where
  "identity_loop output_channels logical [] = []"
| "identity_loop output_channels logical ((input_id, ch) # rest) =
     (if logical \<ge> output_channels then []
      else \<lparr>rt_output_channel = logical, rt_input_id = input_id, rt_input_channel = ch\<rparr>
           # identity_loop output_channels (logical + 1) rest)"

definition default_identity_routes ::
  "frozen_topology \<Rightarrow> nat \<Rightarrow> u32 \<Rightarrow> sink_pad_snapshot list \<Rightarrow> nat \<Rightarrow> active_map_route list" where
  "default_identity_routes t src_index output_channels sinks src_count =
     (if src_count = 1
      then identity_loop output_channels 0
             (concat (map (\<lambda>(pad_idx, sink).
                let input_id = (case list_get (ft_input_ids t) pad_idx of
                                  Some i \<Rightarrow> i | None \<Rightarrow> sk_input_id sink)
                in map (\<lambda>ch. (input_id, ch)) (u32_range (sk_negotiated_channels sink)))
              (enumerate 0 sinks)))
      else
        (let input_id = (case list_get (ft_input_ids t) src_index of
               Some i \<Rightarrow> i
             | None \<Rightarrow> (case list_get sinks src_index of Some s \<Rightarrow> sk_input_id s | None \<Rightarrow> []))
         in if input_id = [] then []
            else
              (let sink_channels = (case list_get sinks src_index of
                     Some s \<Rightarrow> sk_negotiated_channels s | None \<Rightarrow> 0)
               in map (\<lambda>ch. \<lparr>rt_output_channel = ch, rt_input_id = input_id, rt_input_channel = ch\<rparr>)
                    (u32_range (min output_channels sink_channels)))))"

definition active_map_entries_for_src ::
  "frozen_topology \<Rightarrow> src_pad_snapshot \<Rightarrow> nat \<Rightarrow> sink_pad_snapshot list \<Rightarrow> nat
    \<Rightarrow> active_map_error + active_map_entry list" where
  "active_map_entries_for_src t src src_index sinks src_count =
     (let output_channels = sp_negotiated_channels src
      in case sp_active_map src of
           Some structure \<Rightarrow>
             (case parse_active_map_structure structure of
                Inl e \<Rightarrow> Inl e
              | Inr routes \<Rightarrow> Inr (active_map_entries_from_routes output_channels routes))
         | None \<Rightarrow>
             Inr (active_map_entries_from_routes output_channels
                    (default_identity_routes t src_index output_channels sinks src_count)))"

section \<open>Mix matrices\<close>

datatype active_map_validation_error =
    UnknownInputId string
  | InputChannelOutOfRange string u32 u32
  | DuplicateOutputChannel u32
  | OutputChannelOutOfRange u32 u32

type_synonym matrix = "int list list"

definition zero_matrix :: "nat \<Rightarrow> nat \<Rightarrow> matrix" where
  "zero_matrix rows cols = replicate rows (replicate cols 0)"

definition set_one :: "nat \<Rightarrow> nat \<Rightarrow> matrix \<Rightarrow> matrix option" where
  "set_one i j m =
     (if i < length m \<and> j < length (m ! i) then Some (m[i := (m ! i)[j := 1]]) else None)"

fun set_ones :: "(nat \<times> nat) list \<Rightarrow> matrix \<Rightarrow> matrix option" where
  "set_ones [] m = Some m"
| "set_ones ((i, j) # cells) m = (case set_one i j m of None \<Rightarrow> None | Some m' \<Rightarrow> set_ones cells m')"

definition build_input_bus_mix_matrix :: "u32 \<Rightarrow> u32 \<Rightarrow> u32 \<Rightarrow> matrix option" where
  "build_input_bus_mix_matrix input_bus_channels input_channels bus_offset =
     set_ones (map (\<lambda>ch. (unat bus_offset + ch, ch)) [0 ..< unat input_channels])
       (zero_matrix (unat input_bus_channels) (unat input_channels))"

fun validate_routes ::
  "frozen_topology \<Rightarrow> u32 \<Rightarrow> u32 hash_set \<Rightarrow> active_map_route list \<Rightarrow> active_map_validation_error + unit" where
  "validate_routes t output_channels seen [] = Inr ()"
| "validate_routes t output_channels seen (r # rs) =
     (if rt_output_channel r \<ge> output_channels
      then Inl (OutputChannelOutOfRange (rt_output_channel r) (saturating_pred output_channels))
      else if rt_output_channel r \<in> set seen then Inl (DuplicateOutputChannel (rt_output_channel r))
      else case position (\<lambda>i. i = rt_input_id r) (ft_input_ids t) of
        None \<Rightarrow> Inl (UnknownInputId (rt_input_id r))
      | Some pad_idx \<Rightarrow>
          (let max_ch = (case list_get (ft_input_channels t) pad_idx of Some n \<Rightarrow> n | None \<Rightarrow> 0)
           in if rt_input_channel r \<ge> max_ch
              then Inl (InputChannelOutOfRange (rt_input_id r) (rt_input_channel r) (saturating_pred max_ch))
              else validate_routes t output_channels (hs_insert (rt_output_channel r) seen) rs))"

definition validate_active_map_for_output ::
  "frozen_topology \<Rightarrow> u32 \<Rightarrow> active_map_route list \<Rightarrow> active_map_validation_error + unit" where
  "validate_active_map_for_output t output_channels routes = validate_routes t output_channels [] routes"

fun fill_output_matrix ::
  "frozen_topology \<Rightarrow> active_map_route list \<Rightarrow> matrix \<Rightarrow> (active_map_validation_error + matrix) option" where
  "fill_output_matrix t [] m = Some (Inr m)"
| "fill_output_matrix t (r # rs) m =
     (case input_bus_index t (rt_input_id r) (rt_input_channel r) of
        None \<Rightarrow> Some (Inl (UnknownInputId (rt_input_id r)))
      | Some b \<Rightarrow>
          (case set_one (unat (rt_output_channel r)) (unat b) m of
             None \<Rightarrow> None
           | Some m' \<Rightarrow> fill_output_matrix t rs m'))"

definition build_output_mix_matrix ::
  "frozen_topology \<Rightarrow> u32 \<Rightarrow> active_map_route list \<Rightarrow> (active_map_validation_error + matrix) option" where
  "build_output_mix_matrix t output_channels routes =
     (case validate_active_map_for_output t output_channels routes of
        Inl e \<Rightarrow> Some (Inl e)
      | Inr _ \<Rightarrow>
          fill_output_matrix t routes
            (zero_matrix (unat output_channels) (unat (ft_input_bus_channels t))))"

definition route_of_entry :: "nat \<Rightarrow> active_map_entry \<Rightarrow> active_map_route option" where
  "route_of_entry out_ch entry =
     (case am_input_id entry of
        None \<Rightarrow> None
      | Some input_id \<Rightarrow>
          if input_id = [] then None
          else map_option (\<lambda>ch. \<lparr>rt_output_channel = of_nat out_ch, rt_input_id = input_id,
                                 rt_input_channel = ch\<rparr>) (am_input_channel entry))"

definition routes_from_activation ::
  "frozen_topology \<Rightarrow> string \<Rightarrow> active_map_entry list \<Rightarrow> active_map_validation_error + active_map_route list" where
  "routes_from_activation t output_id active_map =
     (case position (\<lambda>i. i = output_id) (ft_output_ids t) of
        None \<Rightarrow> Inl (OutputChannelOutOfRange 0 0)
      | Some output_index \<Rightarrow>
          (let output_channels = (case list_get (ft_output_channels t) output_index of Some n \<Rightarrow> n | None \<Rightarrow> 0);
               routes = List.map_filter (\<lambda>(out_ch, entry). route_of_entry out_ch entry) (enumerate 0 active_map)
           in case validate_active_map_for_output t output_channels routes of
                Inl e \<Rightarrow> Inl e
              | Inr _ \<Rightarrow> Inr routes))"

section \<open>The request of the element\<close>

definition default_channel_labels :: "u32 \<Rightarrow> string list" where
  "default_channel_labels channels = map show_nat [0 ..< unat channels]"

definition request_input_ids :: "sink_pad_snapshot list \<Rightarrow> string list" where
  "request_input_ids sinks =
     map (\<lambda>(index, s). if sk_input_id s = [] then ''input'' @ show_nat index else sk_input_id s)
       (enumerate 0 sinks)"

record add_channel_mapping_request =
  ar_session_handle :: string
  ar_name :: string
  ar_inputs :: "proto_cm_input list"
  ar_outputs :: "proto_cm_output list"

definition build_add_channel_mapping_request ::
  "string \<Rightarrow> string \<Rightarrow> sink_pad_snapshot list \<Rightarrow> src_pad_snapshot list \<Rightarrow> bool \<Rightarrow> add_channel_mapping_request" where
  "build_add_channel_mapping_request session channelmapping_name sinks srcs restrict =
     (let input_ids = request_input_ids sinks;
          routable = input_ids @ [[]]
      in \<lparr>ar_session_handle = session, ar_name = channelmapping_name,
          ar_inputs = map (\<lambda>(s, i).
            \<lparr>pi_id = i, pi_name = sk_label s, pi_description = sk_description s,
             pi_channel_labels = default_channel_labels (sk_negotiated_channels s),
             pi_parent_name = sk_receiver_name s, pi_parent_type = 0, pi_reordering = True,
             pi_block_size = 1\<rparr>) (zip sinks input_ids),
          ar_outputs = map (\<lambda>(index, s).
            \<lparr>po_id = (if sp_output_id s = [] then ''output'' @ show_nat index else sp_output_id s),
             po_name = sp_label s, po_description = sp_description s,
             po_channel_labels = default_channel_labels (sp_negotiated_channels s),
             po_sender_name = sp_sender_name s,
             po_routable_inputs = (if restrict then routable else [])\<rparr>) (enumerate 0 srcs)\<rparr>)"

end
