(* ===== verification/Gst_ChannelRouting.thy ===== *)
theory Gst_ChannelRouting
  imports Gst_ChannelMap
begin

text \<open>
  What the channel mapping of the element does to the audio: the inputs have disjoint places on
  the bus, an output carries exactly the inputs its active map routes to it, maps survive the way
  to the daemon and back, and the request the element builds is one the daemon accepts.
\<close>

section \<open>Vocabulary\<close>

text \<open>The offset of an input on the bus: the channels of the inputs before it.\<close>

definition bus_start :: "u32 list \<Rightarrow> nat \<Rightarrow> nat" where
  "bus_start ns i = sum_list (map unat (take i ns))"

text \<open>A topology as the element freezes it, with inputs that fit a 32-bit bus.\<close>

definition bus_topology :: "frozen_topology \<Rightarrow> bool" where
  "bus_topology t \<longleftrightarrow>
     length (ft_input_ids t) = length (ft_input_channels t) \<and>
     length (ft_input_bus_offsets t) = length (ft_input_channels t) \<and>
     sum_list (map unat (ft_input_channels t)) < 2 ^ 32 \<and>
     unat (ft_input_bus_channels t) = sum_list (map unat (ft_input_channels t)) \<and>
     (\<forall>i < length (ft_input_channels t). unat (ft_input_bus_offsets t ! i) = bus_start (ft_input_channels t) i)"

definition dims :: "nat \<Rightarrow> nat \<Rightarrow> matrix \<Rightarrow> bool" where
  "dims rows cols m \<longleftrightarrow> length m = rows \<and> (\<forall>row \<in> set m. length row = cols)"

definition valid_routes :: "frozen_topology \<Rightarrow> u32 \<Rightarrow> active_map_route list \<Rightarrow> bool" where
  "valid_routes t oc routes \<longleftrightarrow> validate_active_map_for_output t oc routes = Inr ()"

definition mix :: "matrix \<Rightarrow> int list \<Rightarrow> int list" where
  "mix m xs = map (\<lambda>row. \<Sum>j < length xs. row ! j * xs ! j) m"

definition input_matrix :: "frozen_topology \<Rightarrow> nat \<Rightarrow> matrix option" where
  "input_matrix t i =
     build_input_bus_mix_matrix (ft_input_bus_channels t) (ft_input_channels t ! i) (ft_input_bus_offsets t ! i)"

definition contribution :: "frozen_topology \<Rightarrow> int list \<Rightarrow> nat \<Rightarrow> nat \<Rightarrow> int" where
  "contribution t xs i b = (case input_matrix t i of None \<Rightarrow> 0 | Some m \<Rightarrow> mix m xs ! b)"

definition bus_samples :: "frozen_topology \<Rightarrow> int list list \<Rightarrow> int list" where
  "bus_samples t xss =
     map (\<lambda>b. \<Sum>i < length xss. contribution t (xss ! i) i b)
       [0 ..< unat (ft_input_bus_channels t)]"

definition entry_of_route :: "active_map_route \<Rightarrow> active_map_entry" where
  "entry_of_route r = \<lparr>am_input_id = Some (rt_input_id r), am_input_channel = Some (rt_input_channel r)\<rparr>"

section \<open>The input bus\<close>

lemma length_bus_offsets [simp]: "length (fst (bus_offsets offset ns)) = length ns"
  by (induction ns arbitrary: offset) (simp_all add: case_prod_beta)

lemma bus_offsets_eq:
  assumes "unat offset + sum_list (map unat ns) < 2 ^ 32"
  shows "unat (snd (bus_offsets offset ns)) = unat offset + sum_list (map unat ns) \<and>
    (\<forall>i < length ns. unat (fst (bus_offsets offset ns) ! i) = unat offset + bus_start ns i)"
  using assms
proof (induction ns arbitrary: offset)
  case (Cons n ns)
  have add: "unat (offset + n) = unat offset + unat n" using Cons.prems by (intro unat_u32_add) simp
  obtain os w where os: "bus_offsets (offset + n) ns = (os, w)" by fastforce
  with Cons.IH [of "offset + n"] Cons.prems add show ?case
    by (auto simp: bus_start_def nth_Cons split: nat.split)
qed simp

lemma bus_start_mono: "i \<le> j \<Longrightarrow> bus_start ns i \<le> bus_start ns j"
proof -
  assume "i \<le> j"
  then have "take j ns = take i ns @ take (j - i) (drop i ns)"
    by (metis le_add_diff_inverse take_add)
  then show ?thesis by (simp add: bus_start_def)
qed

lemma bus_start_Suc: "i < length ns \<Longrightarrow> bus_start ns (Suc i) = bus_start ns i + unat (ns ! i)"
  by (simp add: bus_start_def take_Suc_conv_app_nth)

lemma bus_slot_bound: "i < length ns \<Longrightarrow> c < unat (ns ! i) \<Longrightarrow> bus_start ns i + c < sum_list (map unat ns)"
  using bus_start_Suc [of i ns] bus_start_mono [of "Suc i" "length ns" ns] by (simp add: bus_start_def)

lemma bus_slots_disjoint:
  assumes "i < length ns" "c < unat (ns ! i)" "j < length ns" "d < unat (ns ! j)"
    and "bus_start ns i + c = bus_start ns j + d"
  shows "i = j \<and> c = d"
proof -
  have "\<not> i < j" if "j < length ns" "c < unat (ns ! i)" "bus_start ns i + c = bus_start ns j + d" for i j c d
    using that bus_start_Suc [of i ns] bus_start_mono [of "Suc i" j ns] by auto
  with assms show ?thesis by (metis add_left_cancel linorder_neqE_nat)
qed

lemma bus_topology_from_snapshots:
  assumes "length input_ids = length sinks"
    and "sum_list (map (\<lambda>s. unat (sk_negotiated_channels s)) sinks) < 2 ^ 32"
  shows "bus_topology (from_snapshots sinks srcs input_ids output_ids)"
proof -
  let ?ns = "map sk_negotiated_channels sinks"
  obtain os w where os: "bus_offsets 0 ?ns = (os, w)" by fastforce
  with bus_offsets_eq [of 0 ?ns] length_bus_offsets [of 0 ?ns] assms show ?thesis
    by (simp add: bus_topology_def from_snapshots_def comp_def)
qed

lemma input_bus_index_Some:
  assumes "bus_topology t"
  shows "input_bus_index t input_id c = Some b \<longleftrightarrow>
    (\<exists>i. position (\<lambda>x. x = input_id) (ft_input_ids t) = Some i \<and> i < length (ft_input_channels t) \<and>
       c < ft_input_channels t ! i \<and> unat b = bus_start (ft_input_channels t) i + unat c)"
proof (cases "position (\<lambda>x. x = input_id) (ft_input_ids t)")
  case None
  then show ?thesis by (simp add: input_bus_index_def)
next
  case (Some i)
  let ?ns = "ft_input_channels t"
  have i: "i < length ?ns" using position_SomeD [OF Some] assms by (simp add: bus_topology_def)
  have sum: "unat (ft_input_bus_offsets t ! i + c) = bus_start ?ns i + unat c" if "c < ?ns ! i"
    using that i assms bus_slot_bound [of i ?ns "unat c"]
    by (subst unat_u32_add) (auto simp: bus_topology_def word_less_nat_alt)
  have "input_bus_index t input_id c = Some b \<longleftrightarrow> c < ?ns ! i \<and> b = ft_input_bus_offsets t ! i + c"
    using Some i assms by (auto simp: input_bus_index_def bus_topology_def)
  with Some i sum show ?thesis by (metis option.inject unat_inj)
qed

text \<open>
  The inputs of a channel mapping share the input bus without overlap: every channel of every
  input has a slot within the bus, and two channels have the same slot only if they are the same
  channel of the same input.
\<close>

theorem input_bus_disjoint:
  assumes "length input_ids = length sinks"
    and "sum_list (map (\<lambda>s. unat (sk_negotiated_channels s)) sinks) < 2 ^ 32"
    and t: "t = from_snapshots sinks srcs input_ids output_ids"
  shows "(\<forall>i < length sinks. distinct input_ids \<longrightarrow> (\<forall>c < sk_negotiated_channels (sinks ! i).
      \<exists>b. input_bus_index t (input_ids ! i) c = Some b)) \<and>
    (\<forall>id c b. input_bus_index t id c = Some b \<longrightarrow> b < ft_input_bus_channels t) \<and>
    (\<forall>id c id' c' b. input_bus_index t id c = Some b \<longrightarrow> input_bus_index t id' c' = Some b \<longrightarrow> id = id' \<and> c = c')"
proof -
  let ?ns = "ft_input_channels t"
  have bt: "bus_topology t" unfolding t by (rule bus_topology_from_snapshots [OF assms(1,2)])
  have ids: "ft_input_ids t = input_ids" "?ns = map sk_negotiated_channels sinks"
    by (simp_all add: t from_snapshots_def case_prod_beta Let_def)
  have "\<exists>b. input_bus_index t (input_ids ! i) c = Some b"
    if "i < length sinks" "distinct input_ids" "c < sk_negotiated_channels (sinks ! i)" for i c
  proof -
    have pos: "position (\<lambda>x. x = input_ids ! i) input_ids = Some i"
      using that assms(1) by (intro position_nth) auto
    have slot: "bus_start ?ns i + unat c < 2 ^ 32"
      using that bus_slot_bound [of i ?ns "unat c"] bt by (simp add: ids bus_topology_def word_less_nat_alt)
    obtain b :: u32 where "unat b = bus_start ?ns i + unat c"
      using unat_u32 [OF slot] by blast
    then show ?thesis using that pos by (auto simp: input_bus_index_Some [OF bt] ids)
  qed
  moreover have "b < ft_input_bus_channels t" if "input_bus_index t id c = Some b" for id c b
    using that bt bus_slot_bound [of _ ?ns "unat c"]
    by (auto simp: input_bus_index_Some [OF bt] bus_topology_def word_less_nat_alt)
  moreover have "id = id' \<and> c = c'" if same: "input_bus_index t id c = Some b" "input_bus_index t id' c' = Some b" for id c id' c' b
  proof -
    obtain i j where i: "position (\<lambda>x. x = id) input_ids = Some i" "i < length ?ns" "c < ?ns ! i"
        "unat b = bus_start ?ns i + unat c"
      and j: "position (\<lambda>x. x = id') input_ids = Some j" "j < length ?ns" "c' < ?ns ! j"
        "unat b = bus_start ?ns j + unat c'"
      using same unfolding input_bus_index_Some [OF bt] ids(1) by blast
    have "i = j \<and> unat c = unat c'"
      using i j by (intro bus_slots_disjoint [of i ?ns "unat c" j "unat c'"]) (simp_all add: word_less_nat_alt)
    with position_SomeD [OF i(1)] position_SomeD [OF j(1)] show ?thesis by auto
  qed
  ultimately show ?thesis by blast
qed


theorem input_bus_disjoint_witness:
  "\<exists>b. input_bus_index (from_snapshots
      [\<lparr>sk_receiver_name = [], sk_input_id = [], sk_label = [], sk_description = [], sk_negotiated_channels = 2\<rparr>,
       \<lparr>sk_receiver_name = [], sk_input_id = [], sk_label = [], sk_description = [], sk_negotiated_channels = 4\<rparr>]
      [] [''a'', ''b''] []) ''b'' 3 = Some b"
proof -
  let ?sink = "\<lambda>n. \<lparr>sk_receiver_name = [], sk_input_id = [], sk_label = [], sk_description = [], sk_negotiated_channels = n\<rparr>"
  have "\<forall>i < length [?sink 2, ?sink 4]. distinct [''a'', ''b''] \<longrightarrow>
      (\<forall>c < sk_negotiated_channels ([?sink 2, ?sink 4] ! i).
        \<exists>b. input_bus_index (from_snapshots [?sink 2, ?sink 4] [] [''a'', ''b''] []) ([''a'', ''b''] ! i) c = Some b)"
    using input_bus_disjoint [of "[''a'', ''b'']" "[?sink 2, ?sink 4]" _ "[]" "[]"] by simp
  from this [rule_format, of 1 3] show ?thesis by simp
qed

section \<open>Mix matrices\<close>

lemma dims_zero [simp]: "dims rows cols (zero_matrix rows cols)"
  by (simp add: dims_def zero_matrix_def)

lemma nth_zero_matrix [simp]: "i < rows \<Longrightarrow> j < cols \<Longrightarrow> zero_matrix rows cols ! i ! j = 0"
  by (simp add: zero_matrix_def)

lemma set_ones_ok:
  assumes "dims rows cols m" "\<forall>(i, j) \<in> set cells. i < rows \<and> j < cols"
  shows "\<exists>m'. set_ones cells m = Some m' \<and> dims rows cols m' \<and>
    (\<forall>i < rows. \<forall>j < cols. m' ! i ! j = (if (i, j) \<in> set cells then 1 else m ! i ! j))"
  using assms
proof (induction cells arbitrary: m)
  case (Cons cell cells)
  obtain i j where cell: "cell = (i, j)" by fastforce
  with Cons.prems have ij: "i < rows" "j < cols" by auto
  let ?m = "m[i := (m ! i)[j := 1]]"
  have len: "length (m ! k) = cols" if "k < rows" for k
    using that Cons.prems(1) by (simp add: dims_def)
  have "dims rows cols ?m"
    using Cons.prems(1) ij len [of i] by (auto simp: dims_def dest!: subsetD [OF set_update_subset_insert])
  then obtain m' where m': "set_ones cells ?m = Some m'" "dims rows cols m'"
      "\<forall>a < rows. \<forall>b < cols. m' ! a ! b = (if (a, b) \<in> set cells then 1 else ?m ! a ! b)"
    using Cons.IH [of ?m] Cons.prems(2) by auto
  have "set_one i j m = Some ?m" using ij len [of i] Cons.prems(1) by (simp add: set_one_def dims_def)
  moreover have "?m ! a ! b = (if (a, b) = (i, j) then 1 else m ! a ! b)" if "a < rows" "b < cols" for a b
    using that ij len [of i] Cons.prems(1) by (auto simp: dims_def nth_list_update)
  ultimately show ?case using m' cell by auto
qed auto

lemma input_bus_matrix:
  assumes "unat offset + unat n \<le> unat width"
  shows "\<exists>m. build_input_bus_mix_matrix width n offset = Some m \<and> dims (unat width) (unat n) m \<and>
    (\<forall>b < unat width. \<forall>c < unat n. m ! b ! c = (if b = unat offset + c then 1 else 0))"
proof -
  let ?cells = "map (\<lambda>ch. (unat offset + ch, ch)) [0 ..< unat n]"
  obtain m where "set_ones ?cells (zero_matrix (unat width) (unat n)) = Some m" "dims (unat width) (unat n) m"
    "\<forall>b < unat width. \<forall>c < unat n. m ! b ! c = (if (b, c) \<in> set ?cells then 1 else zero_matrix (unat width) (unat n) ! b ! c)"
    using set_ones_ok [of "unat width" "unat n" "zero_matrix (unat width) (unat n)" ?cells] assms by auto
  then show ?thesis by (auto simp: build_input_bus_mix_matrix_def)
qed

lemma validate_routes_iff:
  "validate_routes t oc seen rs = Inr () \<longleftrightarrow>
     (\<forall>r \<in> set rs. rt_output_channel r < oc \<and>
        (\<exists>i n. position (\<lambda>x. x = rt_input_id r) (ft_input_ids t) = Some i \<and>
           list_get (ft_input_channels t) i = Some n \<and> rt_input_channel r < n)) \<and>
     distinct (map rt_output_channel rs) \<and> set (map rt_output_channel rs) \<inter> set seen = {}"
proof (induction rs arbitrary: seen)
  case (Cons r rs)
  let ?ok = "\<lambda>r. \<exists>i n. position (\<lambda>x. x = rt_input_id r) (ft_input_ids t) = Some i \<and>
      list_get (ft_input_channels t) i = Some n \<and> rt_input_channel r < n"
  have "validate_routes t oc seen (r # rs) = Inr () \<longleftrightarrow>
      rt_output_channel r < oc \<and> rt_output_channel r \<notin> set seen \<and> ?ok r \<and>
      validate_routes t oc (hs_insert (rt_output_channel r) seen) rs = Inr ()"
    by (cases "position (\<lambda>x. x = rt_input_id r) (ft_input_ids t)")
      (auto simp: Let_def linorder_not_le split: option.split)
  then show ?case unfolding Cons.IH by auto
qed simp

lemma valid_routes_index:
  assumes "bus_topology t" "valid_routes t oc routes" "r \<in> set routes"
  shows "\<exists>b. input_bus_index t (rt_input_id r) (rt_input_channel r) = Some b \<and> b < ft_input_bus_channels t \<and>
    rt_output_channel r < oc"
proof -
  let ?ns = "ft_input_channels t"
  obtain i where i: "position (\<lambda>x. x = rt_input_id r) (ft_input_ids t) = Some i" "i < length ?ns"
      "rt_input_channel r < ?ns ! i" and oc: "rt_output_channel r < oc"
    using assms(2,3) by (auto simp: valid_routes_def validate_active_map_for_output_def validate_routes_iff)
  have slot: "bus_start ?ns i + unat (rt_input_channel r) < sum_list (map unat ?ns)"
    using i by (intro bus_slot_bound) (simp_all add: word_less_nat_alt)
  with assms(1) have "bus_start ?ns i + unat (rt_input_channel r) < 2 ^ 32" by (simp add: bus_topology_def)
  then obtain b :: u32 where b: "unat b = bus_start ?ns i + unat (rt_input_channel r)"
    using unat_u32 by blast
  with slot assms(1) have "b < ft_input_bus_channels t" by (simp add: bus_topology_def word_less_nat_alt)
  with b i oc show ?thesis by (auto simp: input_bus_index_Some [OF assms(1)])
qed

lemma fill_output_set_ones:
  assumes "\<forall>r \<in> set rs. input_bus_index t (rt_input_id r) (rt_input_channel r) = Some (bus r)"
  shows "fill_output_matrix t rs m =
    map_option Inr (set_ones (map (\<lambda>r. (unat (rt_output_channel r), unat (bus r))) rs) m)"
  using assms by (induction rs arbitrary: m) (auto split: option.split)

lemma output_matrix_cells:
  assumes bt: "bus_topology t"
  shows "case validate_active_map_for_output t oc routes of
      Inl e \<Rightarrow> build_output_mix_matrix t oc routes = Some (Inl e)
    | Inr _ \<Rightarrow> \<exists>m. build_output_mix_matrix t oc routes = Some (Inr m) \<and>
        dims (unat oc) (unat (ft_input_bus_channels t)) m \<and>
        (\<forall>i < unat oc. \<forall>j < unat (ft_input_bus_channels t). m ! i ! j =
          (if \<exists>r b. r \<in> set routes \<and> unat (rt_output_channel r) = i \<and>
                input_bus_index t (rt_input_id r) (rt_input_channel r) = Some b \<and> unat b = j then 1 else 0))"
proof (cases "validate_active_map_for_output t oc routes")
  case (Inl e)
  then show ?thesis by (simp add: build_output_mix_matrix_def)
next
  case (Inr u)
  have valid: "valid_routes t oc routes" using Inr by (simp add: valid_routes_def)
  let ?bus = "\<lambda>r. the (input_bus_index t (rt_input_id r) (rt_input_channel r))"
  let ?cells = "map (\<lambda>r. (unat (rt_output_channel r), unat (?bus r))) routes"
  let ?z = "zero_matrix (unat oc) (unat (ft_input_bus_channels t))"
  have idx: "input_bus_index t (rt_input_id r) (rt_input_channel r) = Some (?bus r) \<and>
      ?bus r < ft_input_bus_channels t \<and> rt_output_channel r < oc" if "r \<in> set routes" for r
    using valid_routes_index [OF bt valid that] by auto
  have "\<forall>(i, j) \<in> set ?cells. i < unat oc \<and> j < unat (ft_input_bus_channels t)"
    using idx by (auto simp: word_less_nat_alt)
  then obtain m where m: "set_ones ?cells ?z = Some m" "dims (unat oc) (unat (ft_input_bus_channels t)) m"
      "\<forall>i < unat oc. \<forall>j < unat (ft_input_bus_channels t). m ! i ! j = (if (i, j) \<in> set ?cells then 1 else ?z ! i ! j)"
    using set_ones_ok [of "unat oc" "unat (ft_input_bus_channels t)" ?z ?cells] by auto
  have "build_output_mix_matrix t oc routes = Some (Inr m)"
    using Inr m(1) idx fill_output_set_ones [of routes t ?bus ?z] by (simp add: build_output_mix_matrix_def)
  moreover have "(i, j) \<in> set ?cells \<longleftrightarrow> (\<exists>r b. r \<in> set routes \<and> unat (rt_output_channel r) = i \<and>
      input_bus_index t (rt_input_id r) (rt_input_channel r) = Some b \<and> unat b = j)" for i j
    using idx by force
  ultimately show ?thesis using Inr m by auto
qed


section \<open>What a listener hears\<close>

text \<open>
  The effect of the matrices on samples: \<open>mix\<close> multiplies, and the mixer adds up what the inputs
  put on the bus.
\<close>

lemma mix_input_matrix:
  assumes "bus_topology t" "i < length (ft_input_channels t)" "length xs = unat (ft_input_channels t ! i)"
  shows "\<exists>m. input_matrix t i = Some m \<and> (\<forall>b < unat (ft_input_bus_channels t).
    mix m xs ! b = (\<Sum>c < length xs. (if b = bus_start (ft_input_channels t) i + c then xs ! c else 0)))"
proof -
  let ?ns = "ft_input_channels t" and ?w = "ft_input_bus_channels t" and ?o = "ft_input_bus_offsets t ! i"
  have off: "unat ?o = bus_start ?ns i" using assms by (simp add: bus_topology_def)
  have "bus_start ?ns (Suc i) \<le> sum_list (map unat ?ns)"
    using bus_start_mono [of "Suc i" "length ?ns" ?ns] assms(2) by (simp add: bus_start_def)
  then have "unat ?o + unat (?ns ! i) \<le> unat ?w"
    using assms off by (simp add: bus_start_Suc bus_topology_def)
  then obtain m where m: "build_input_bus_mix_matrix ?w (?ns ! i) ?o = Some m" "dims (unat ?w) (unat (?ns ! i)) m"
      "\<forall>b < unat ?w. \<forall>c < unat (?ns ! i). m ! b ! c = (if b = unat ?o + c then 1 else 0)"
    using input_bus_matrix by blast
  have "mix m xs ! b = (\<Sum>c < length xs. (if b = bus_start ?ns i + c then xs ! c else 0))" if "b < unat ?w" for b
    using that m(2,3) assms(3) off by (auto simp: mix_def dims_def intro!: sum.cong)
  with m(1) show ?thesis by (auto simp: input_matrix_def)
qed

lemma bus_slot_carries:
  assumes bt: "bus_topology t" and len: "length xss = length (ft_input_channels t)"
      "\<forall>i < length xss. length (xss ! i) = unat (ft_input_channels t ! i)"
    and i: "i < length xss" and c: "c < length (xss ! i)"
  shows "bus_samples t xss ! (bus_start (ft_input_channels t) i + c) = xss ! i ! c"
proof -
  let ?ns = "ft_input_channels t" and ?b = "bus_start (ft_input_channels t) i + c"
  have b: "?b < unat (ft_input_bus_channels t)"
    using bus_slot_bound [of i ?ns c] bt len i c by (simp add: bus_topology_def)
  have part: "contribution t (xss ! k) k ?b = (if k = i then xss ! i ! c else 0)"
    if k: "k < length xss" for k
  proof -
    obtain m where m: "input_matrix t k = Some m" "mix m (xss ! k) ! ?b =
        (\<Sum>d < length (xss ! k). (if ?b = bus_start ?ns k + d then xss ! k ! d else 0))"
      using mix_input_matrix [OF bt, of k "xss ! k"] len k b by auto
    have "(\<Sum>d < length (xss ! k). (if ?b = bus_start ?ns k + d then xss ! k ! d else 0)) =
        (\<Sum>d < length (xss ! k). (if d = c then (if k = i then xss ! i ! c else 0) else 0))"
      using bus_slots_disjoint [of i ?ns c k] len i c k by (intro sum.cong) auto
    also have "\<dots> = (if k = i then xss ! i ! c else 0)" using c by auto
    finally show ?thesis using m by (simp add: contribution_def)
  qed
  have "bus_samples t xss ! ?b = (\<Sum>k < length xss. (if k = i then xss ! i ! c else 0))"
    using b part by (simp add: bus_samples_def)
  then show ?thesis using i by simp
qed

lemma routed_inputs_carried:
  assumes bt: "bus_topology t" and built: "build_output_mix_matrix t oc routes = Some (Inr m)"
    and len: "length xss = length (ft_input_channels t)" "\<forall>i < length xss. length (xss ! i) = unat (ft_input_channels t ! i)"
    and out: "out < oc"
  shows "(\<forall>r \<in> set routes. rt_output_channel r = out \<longrightarrow>
      (\<exists>i. position (\<lambda>x. x = rt_input_id r) (ft_input_ids t) = Some i \<and>
        mix m (bus_samples t xss) ! unat out = xss ! i ! unat (rt_input_channel r))) \<and>
    (out \<notin> rt_output_channel ` set routes \<longrightarrow> mix m (bus_samples t xss) ! unat out = 0)"
proof -
  let ?ns = "ft_input_channels t" and ?w = "unat (ft_input_bus_channels t)"
  have valid: "valid_routes t oc routes"
    using built by (auto simp: build_output_mix_matrix_def valid_routes_def split: sum.splits)
  then have "\<exists>m. build_output_mix_matrix t oc routes = Some (Inr m) \<and> dims (unat oc) ?w m \<and>
        (\<forall>i < unat oc. \<forall>j < ?w. m ! i ! j =
          (if \<exists>r b. r \<in> set routes \<and> unat (rt_output_channel r) = i \<and>
                input_bus_index t (rt_input_id r) (rt_input_channel r) = Some b \<and> unat b = j then 1 else 0))"
    using output_matrix_cells [OF bt, of oc routes]
    by (simp add: valid_routes_def)
  then have m: "dims (unat oc) ?w m" and cell: "\<forall>j < ?w. m ! unat out ! j =
          (if \<exists>r b. r \<in> set routes \<and> rt_output_channel r = out \<and>
                input_bus_index t (rt_input_id r) (rt_input_channel r) = Some b \<and> unat b = j then 1 else 0)"
    using built out by (auto simp: word_less_nat_alt)
  have row: "mix m (bus_samples t xss) ! unat out = (\<Sum>j < ?w. m ! unat out ! j * bus_samples t xss ! j)"
    using m out by (simp add: mix_def dims_def bus_samples_def word_less_nat_alt)
  have "\<exists>i. position (\<lambda>x. x = rt_input_id r) (ft_input_ids t) = Some i \<and>
      mix m (bus_samples t xss) ! unat out = xss ! i ! unat (rt_input_channel r)"
    if r: "r \<in> set routes" "rt_output_channel r = out" for r
  proof -
    obtain b where b: "input_bus_index t (rt_input_id r) (rt_input_channel r) = Some b" "b < ft_input_bus_channels t"
      using valid_routes_index [OF bt valid r(1)] by blast
    then obtain i where i: "position (\<lambda>x. x = rt_input_id r) (ft_input_ids t) = Some i" "i < length ?ns"
        "rt_input_channel r < ?ns ! i" "unat b = bus_start ?ns i + unat (rt_input_channel r)"
      by (auto simp: input_bus_index_Some [OF bt])
    have only: "r' = r" if "r' \<in> set routes" "rt_output_channel r' = out" for r'
      using valid that r by (auto simp: valid_routes_def validate_active_map_for_output_def validate_routes_iff distinct_map inj_on_def)
    have "(\<Sum>j < ?w. m ! unat out ! j * bus_samples t xss ! j) = (\<Sum>j < ?w. (if j = unat b then bus_samples t xss ! j else 0))"
    proof (intro sum.cong refl)
      fix j assume "j \<in> {..< ?w}"
      moreover have "(\<exists>r b. r \<in> set routes \<and> rt_output_channel r = out \<and>
          input_bus_index t (rt_input_id r) (rt_input_channel r) = Some b \<and> unat b = j) \<longleftrightarrow> j = unat b"
        using only r b(1) by (metis option.inject)
      ultimately show "m ! unat out ! j * bus_samples t xss ! j = (if j = unat b then bus_samples t xss ! j else 0)"
        using cell by simp
    qed
    also have "\<dots> = bus_samples t xss ! unat b" using b by (simp add: word_less_nat_alt)
    also have "\<dots> = xss ! i ! unat (rt_input_channel r)"
      unfolding i(4) using i(2,3) len by (intro bus_slot_carries [OF bt]) (simp_all add: word_less_nat_alt)
    finally show ?thesis using i(1) row by auto
  qed
  moreover have "mix m (bus_samples t xss) ! unat out = 0" if "out \<notin> rt_output_channel ` set routes"
    unfolding row using cell that by (intro sum.neutral) auto
  ultimately show ?thesis by blast
qed

text \<open>
  C19. The element plays the active map: with the matrices it builds, an output channel carries
  exactly the samples of the input channel that the map routes to it, and is silent when the map
  routes none.
\<close>

theorem outputs_carry_routed_inputs:
  assumes "length input_ids = length sinks"
    and "sum_list (map (\<lambda>s. unat (sk_negotiated_channels s)) sinks) < 2 ^ 32"
    and t: "t = from_snapshots sinks srcs input_ids output_ids"
    and built: "build_output_mix_matrix t oc routes = Some (Inr m)"
    and len: "length xss = length sinks" "\<forall>i < length xss. length (xss ! i) = unat (sk_negotiated_channels (sinks ! i))"
    and out: "out < oc"
  shows "(\<forall>r \<in> set routes. rt_output_channel r = out \<longrightarrow>
      (\<exists>i. position (\<lambda>x. x = rt_input_id r) input_ids = Some i \<and>
        mix m (bus_samples t xss) ! unat out = xss ! i ! unat (rt_input_channel r))) \<and>
    (out \<notin> rt_output_channel ` set routes \<longrightarrow> mix m (bus_samples t xss) ! unat out = 0)"
proof -
  have "bus_topology t" unfolding t by (rule bus_topology_from_snapshots [OF assms(1,2)])
  moreover have "ft_input_ids t = input_ids" "ft_input_channels t = map sk_negotiated_channels sinks"
    by (simp_all add: t from_snapshots_def case_prod_beta Let_def)
  ultimately show ?thesis using routed_inputs_carried [OF _ built, of xss out] len out by simp
qed

theorem outputs_carry_routed_inputs_witness:
  "\<exists>m. build_output_mix_matrix (from_snapshots
      [\<lparr>sk_receiver_name = [], sk_input_id = [], sk_label = [], sk_description = [], sk_negotiated_channels = 2\<rparr>]
      [] [''a''] []) 1 [\<lparr>rt_output_channel = 0, rt_input_id = ''a'', rt_input_channel = 1\<rparr>] = Some (Inr m) \<and>
     mix m (bus_samples (from_snapshots
      [\<lparr>sk_receiver_name = [], sk_input_id = [], sk_label = [], sk_description = [], sk_negotiated_channels = 2\<rparr>]
      [] [''a''] []) [[7, 9]]) ! 0 = 9"
proof -
  let ?sinks = "[\<lparr>sk_receiver_name = [], sk_input_id = [], sk_label = [], sk_description = [], sk_negotiated_channels = 2\<rparr>]"
  let ?t = "from_snapshots ?sinks [] [''a''] []"
  let ?r = "\<lparr>rt_output_channel = 0, rt_input_id = ''a'', rt_input_channel = 1\<rparr>"
  obtain m where m: "build_output_mix_matrix ?t 1 [?r] = Some (Inr m)"
    by (simp add: build_output_mix_matrix_def validate_active_map_for_output_def from_snapshots_def word_le_nat_alt
        input_bus_index_def list_get_def set_one_def zero_matrix_def)
  from outputs_carry_routed_inputs [of "[''a'']" ?sinks ?t "[]" "[]" 1 "[?r]" m "[[7, 9]]" 0] m show ?thesis by auto
qed

section \<open>Round trip of active maps\<close>

lemma length_put_route [simp]: "length (put_route oc r es) = length es"
  by (simp add: put_route_def)

lemma length_fold_put [simp]: "length (fold (put_route oc) rs es) = length es"
  by (induction rs arbitrary: es) simp_all

lemma fold_put_other:
  "\<forall>r \<in> set rs. unat (rt_output_channel r) \<noteq> o' \<Longrightarrow> fold (put_route oc) rs es ! o' = es ! o'"
  by (induction rs arbitrary: es) (simp_all add: put_route_def)

lemma fold_put_route:
  assumes "distinct (map rt_output_channel rs)" "r \<in> set rs" "rt_output_channel r < oc" "length es = unat oc"
  shows "fold (put_route oc) rs es ! unat (rt_output_channel r) = entry_of_route r"
  using assms
proof (induction rs arbitrary: es)
  case (Cons q qs)
  show ?case
  proof (cases "r = q")
    case True
    have "fold (put_route oc) qs (put_route oc q es) ! unat (rt_output_channel q) =
        put_route oc q es ! unat (rt_output_channel q)"
      using Cons.prems(1) by (intro fold_put_other) (force simp: image_iff)
    moreover have "put_route oc q es ! unat (rt_output_channel q) = entry_of_route q"
      using True Cons.prems(3,4)
      by (simp add: put_route_def entry_of_route_def word_less_nat_alt word_le_nat_alt)
    ultimately show ?thesis using True by simp
  next
    case False
    with Cons show ?thesis by simp
  qed
qed simp

lemma entries_nth:
  assumes "distinct (map rt_output_channel routes)" "\<forall>r \<in> set routes. rt_output_channel r < oc" "i < unat oc"
  shows "active_map_entries_from_routes oc routes ! i =
    (case List.find (\<lambda>r. unat (rt_output_channel r) = i) routes of
       None \<Rightarrow> \<lparr>am_input_id = None, am_input_channel = None\<rparr> | Some r \<Rightarrow> entry_of_route r)"
proof (cases "List.find (\<lambda>r. unat (rt_output_channel r) = i) routes")
  case None
  then have "\<forall>r \<in> set routes. unat (rt_output_channel r) \<noteq> i" by (simp add: find_None_iff)
  with None assms(3) show ?thesis
    by (simp add: active_map_entries_from_routes_def fold_put_other)
next
  case (Some r)
  then have "r \<in> set routes" "unat (rt_output_channel r) = i"
    by (auto simp: find_Some_iff)
  with Some assms show ?thesis
    using fold_put_route [of routes r oc "replicate (unat oc) \<lparr>am_input_id = None, am_input_channel = None\<rparr>"]
    by (auto simp: active_map_entries_from_routes_def)
qed

lemma map_filter_enumerate_keys:
  assumes "\<And>i r. i < length es \<Longrightarrow> f (i, es ! i) = Some r \<Longrightarrow> g r = i"
  shows "map g (List.map_filter f (enumerate 0 es)) = filter (\<lambda>i. f (i, es ! i) \<noteq> None) [0 ..< length es]"
proof -
  have en: "enumerate 0 es = map (\<lambda>i. (i, es ! i)) [0 ..< length es]"
    by (rule nth_equalityI) (simp_all add: nth_enumerate_eq)
  have "map g (List.map_filter f (map (\<lambda>i. (i, es ! i)) is)) = filter (\<lambda>i. f (i, es ! i) \<noteq> None) is"
    if "\<forall>i \<in> set is. i < length es" for "is"
    using assms that by (induction "is") (auto simp: map_filter_simps split: option.split)
  then show ?thesis by (simp add: en)
qed

lemma set_map_filter_enumerate:
  "set (List.map_filter f (enumerate 0 es)) = {r. \<exists>i < length es. f (i, es ! i) = Some r}"
  by (force simp: map_filter_def in_set_enumerate_eq)

lemma route_of_entry_roundtrip:
  assumes "distinct (map rt_output_channel routes)" "\<forall>r \<in> set routes. rt_output_channel r < oc \<and> rt_input_id r \<noteq> []"
    "i < unat oc"
  shows "route_of_entry i (active_map_entries_from_routes oc routes ! i) = Some r \<longleftrightarrow>
    r \<in> set routes \<and> unat (rt_output_channel r) = i"
proof (cases "List.find (\<lambda>r. unat (rt_output_channel r) = i) routes")
  case None
  then have "\<forall>r \<in> set routes. unat (rt_output_channel r) \<noteq> i" by (simp add: find_None_iff)
  with None assms show ?thesis
    by (auto simp: entries_nth route_of_entry_def)
next
  case (Some q)
  then have q: "q \<in> set routes" "unat (rt_output_channel q) = i" by (auto simp: find_Some_iff)
  have "of_nat i = rt_output_channel q" unfolding q(2) [symmetric] by simp
  then have "route_of_entry i (active_map_entries_from_routes oc routes ! i) = Some q"
    using Some assms q(1) by (simp add: entries_nth route_of_entry_def entry_of_route_def)
  moreover have "r = q" if "r \<in> set routes" "unat (rt_output_channel r) = i"
  proof -
    have "rt_output_channel r = rt_output_channel q" using that(2) q(2) by (metis unat_inj)
    with that(1) q(1) assms(1) show ?thesis by (simp add: distinct_map inj_on_def)
  qed
  ultimately show ?thesis using q by auto
qed

lemma routes_roundtrip:
  assumes "position (\<lambda>i. i = output_id) (ft_output_ids t) = Some k" "list_get (ft_output_channels t) k = Some oc"
    and valid: "validate_active_map_for_output t oc routes = Inr ()"
    and sorted: "sorted (map rt_output_channel routes)" and named: "\<forall>r \<in> set routes. rt_input_id r \<noteq> []"
  shows "routes_from_activation t output_id (active_map_entries_from_routes oc routes) = Inr routes"
proof -
  let ?es = "active_map_entries_from_routes oc routes"
  let ?f = "\<lambda>(out_ch, entry). route_of_entry out_ch entry"
  let ?got = "List.map_filter ?f (enumerate 0 ?es)"
  have dist: "distinct (map rt_output_channel routes)" and range: "\<forall>r \<in> set routes. rt_output_channel r < oc"
    using valid by (auto simp: validate_active_map_for_output_def validate_routes_iff)
  have len: "length ?es = unat oc" by (simp add: active_map_entries_from_routes_def)
  have set: "set ?got = set routes"
    using route_of_entry_roundtrip [OF dist] range named
    by (auto simp: set_map_filter_enumerate len word_less_nat_alt)
  have keys: "map (\<lambda>r. unat (rt_output_channel r)) ?got = filter (\<lambda>i. ?f (i, ?es ! i) \<noteq> None) [0 ..< length ?es]"
    using route_of_entry_roundtrip [OF dist] range named
    by (intro map_filter_enumerate_keys) (simp add: len)
  have "?got = routes"
  proof (rule map_sorted_distinct_set_unique)
    show "inj_on (\<lambda>r. unat (rt_output_channel r)) (set ?got \<union> set routes)"
      using dist by (auto simp: set distinct_map inj_on_def)
    show "sorted (map (\<lambda>r. unat (rt_output_channel r)) ?got)" "distinct (map (\<lambda>r. unat (rt_output_channel r)) ?got)"
      unfolding keys by (simp_all add: sorted_wrt_filter)
    show "sorted (map (\<lambda>r. unat (rt_output_channel r)) routes)"
      using sorted by (simp add: sorted_map word_le_nat_alt)
    show "distinct (map (\<lambda>r. unat (rt_output_channel r)) routes)"
      using dist by (auto simp: distinct_map inj_on_def)
  qed (rule set)
  with assms show ?thesis by (simp add: routes_from_activation_def Let_def)
qed

section \<open>Default maps\<close>

lemma identity_loop_eq:
  "identity_loop oc l cs =
     map (\<lambda>(i, input_id, ch). \<lparr>rt_output_channel = of_nat i, rt_input_id = input_id, rt_input_channel = ch\<rparr>)
       (zip [unat l ..< unat oc] cs)"
proof (induction oc l cs rule: identity_loop.induct)
  case (2 oc l input_id ch rest)
  show ?case
  proof (cases "l < oc")
    case True
    then have "unat (l + 1) = Suc (unat l)"
      using unat_u32_less [of oc] by (subst unat_u32_add) (simp_all add: word_less_nat_alt)
    with True 2 show ?thesis by (simp add: linorder_not_le word_less_nat_alt upt_conv_Cons)
  qed (simp add: linorder_not_less word_le_nat_alt)
qed simp

lemma zip_outputs_distinct:
  "distinct (map rt_output_channel (map (\<lambda>(i, input_id, ch). \<lparr>rt_output_channel = of_nat i, rt_input_id = input_id,
      rt_input_channel = ch\<rparr>) (zip [m ..< unat (oc :: u32)] cs)))"
proof -
  let ?is = "map fst (zip [m ..< unat oc] cs)"
  have "?is = take (min (length [m ..< unat oc]) (length cs)) [m ..< unat oc]" by (rule map_fst_zip_take)
  then have idx: "distinct ?is" "\<forall>i \<in> set ?is. i < 2 ^ 32"
    using unat_u32_less [of oc] by (auto simp del: map_map dest!: in_set_takeD)
  then have "distinct (map (of_nat :: nat \<Rightarrow> u32) ?is)"
    unfolding distinct_map [of of_nat] by (blast intro: inj_on_subset [OF inj_of_nat_u32])
  then show ?thesis by (simp add: comp_def case_prod_beta)
qed

lemma default_routes_valid:
  assumes "length input_ids = length sinks" "distinct input_ids" "t = from_snapshots sinks srcs input_ids output_ids"
  shows "validate_active_map_for_output t oc (default_identity_routes t src_index oc sinks src_count) = Inr ()"
proof -
  have t: "ft_input_ids t = input_ids" "ft_input_channels t = map sk_negotiated_channels sinks"
    by (simp_all add: assms(3) from_snapshots_def case_prod_beta Let_def)
  have pos: "position (\<lambda>x. x = input_ids ! i) input_ids = Some i" if "i < length sinks" for i
    using that assms(1,2) by (intro position_nth) simp_all
  show ?thesis
  proof (cases "src_count = 1")
    case True
    define cs where "cs = concat (map (\<lambda>(pad_idx, sink). let input_id = (case list_get (ft_input_ids t) pad_idx of
        Some i \<Rightarrow> i | None \<Rightarrow> sk_input_id sink) in map (\<lambda>ch. (input_id, ch)) (u32_range (sk_negotiated_channels sink)))
      (enumerate 0 sinks))"
    have cs: "\<exists>i < length sinks. input_id = input_ids ! i \<and> ch < sk_negotiated_channels (sinks ! i)"
      if "(input_id, ch) \<in> set cs" for input_id ch
      using that assms(1) by (auto simp: cs_def in_set_enumerate_eq set_u32_range t)
    have "default_identity_routes t src_index oc sinks src_count = identity_loop oc 0 cs"
      using True by (simp add: default_identity_routes_def cs_def)
    then have routes: "default_identity_routes t src_index oc sinks src_count =
        map (\<lambda>(i, input_id, ch). \<lparr>rt_output_channel = of_nat i, rt_input_id = input_id, rt_input_channel = ch\<rparr>)
          (zip [0 ..< unat oc] cs)"
      by (simp add: identity_loop_eq)
    have "rt_output_channel r < oc \<and> (\<exists>i n. position (\<lambda>x. x = rt_input_id r) input_ids = Some i \<and>
        list_get (map sk_negotiated_channels sinks) i = Some n \<and> rt_input_channel r < n)"
      if r': "r \<in> set (default_identity_routes t src_index oc sinks src_count)" for r
    proof -
      obtain k input_id ch where r: "(k, input_id, ch) \<in> set (zip [0 ..< unat oc] cs)"
        "r = \<lparr>rt_output_channel = of_nat k, rt_input_id = input_id, rt_input_channel = ch\<rparr>"
        using r' unfolding routes by auto
      then have "k < unat oc" "(input_id, ch) \<in> set cs" by (auto dest: set_zip_leftD set_zip_rightD)
      with cs pos r(2) unat_u32_less [of oc] show ?thesis
        by (fastforce simp: word_less_nat_alt unat_u32)
    qed
    moreover have "distinct (map rt_output_channel (default_identity_routes t src_index oc sinks src_count))"
      unfolding routes by (rule zip_outputs_distinct)
    ultimately show ?thesis by (simp add: validate_active_map_for_output_def validate_routes_iff t)
  next
    case False
    show ?thesis
    proof (cases "src_index < length sinks \<and> input_ids ! src_index \<noteq> []")
      case True
      with False assms(1) have "default_identity_routes t src_index oc sinks src_count =
          map (\<lambda>ch. \<lparr>rt_output_channel = ch, rt_input_id = input_ids ! src_index, rt_input_channel = ch\<rparr>)
            (u32_range (min oc (sk_negotiated_channels (sinks ! src_index))))"
        by (simp add: default_identity_routes_def t)
      with True pos [of src_index] show ?thesis
        by (auto simp: validate_active_map_for_output_def validate_routes_iff t set_u32_range comp_def distinct_u32_range)
    next
      case noinput: False
      with False assms(1) have "default_identity_routes t src_index oc sinks src_count = []"
        by (auto simp: default_identity_routes_def t list_get_def)
      then show ?thesis by (simp add: validate_active_map_for_output_def)
    qed
  qed
qed

text \<open>
  Building the matrix of an output never indexes out of bounds: for every map, whatever a
  client or a controller wrote, the element either gets a matrix or the error of the check. For
  the default map, when no active map is set, it always gets a matrix.
\<close>

theorem output_matrix_total:
  assumes "length input_ids = length sinks" "distinct input_ids"
    and "sum_list (map (\<lambda>s. unat (sk_negotiated_channels s)) sinks) < 2 ^ 32"
    and t: "t = from_snapshots sinks srcs input_ids output_ids"
  shows "(case validate_active_map_for_output t oc routes of
        Inl e \<Rightarrow> build_output_mix_matrix t oc routes = Some (Inl e)
      | Inr _ \<Rightarrow> \<exists>m. build_output_mix_matrix t oc routes = Some (Inr m)) \<and>
    (\<exists>m. build_output_mix_matrix t oc (default_identity_routes t src_index oc sinks src_count) = Some (Inr m))"
proof -
  have "bus_topology t" unfolding t by (rule bus_topology_from_snapshots [OF assms(1,3)])
  note cells = output_matrix_cells [OF this, of oc]
  from cells [of "default_identity_routes t src_index oc sinks src_count"] default_routes_valid [OF assms(1,2) t]
  have "\<exists>m. build_output_mix_matrix t oc (default_identity_routes t src_index oc sinks src_count) = Some (Inr m)"
    by auto
  moreover from cells [of routes]
  have "case validate_active_map_for_output t oc routes of
      Inl e \<Rightarrow> build_output_mix_matrix t oc routes = Some (Inl e)
    | Inr _ \<Rightarrow> \<exists>m. build_output_mix_matrix t oc routes = Some (Inr m)"
    by (cases "validate_active_map_for_output t oc routes") auto
  ultimately show ?thesis by blast
qed

theorem output_matrix_total_witness:
  "\<exists>m. build_output_mix_matrix (from_snapshots
      [\<lparr>sk_receiver_name = [], sk_input_id = [], sk_label = [], sk_description = [], sk_negotiated_channels = 2\<rparr>]
      [] [''a''] [])
     3 (default_identity_routes (from_snapshots
      [\<lparr>sk_receiver_name = [], sk_input_id = [], sk_label = [], sk_description = [], sk_negotiated_channels = 2\<rparr>]
      [] [''a''] []) 0 3
      [\<lparr>sk_receiver_name = [], sk_input_id = [], sk_label = [], sk_description = [], sk_negotiated_channels = 2\<rparr>] 1) = Some (Inr m)"
  by (rule output_matrix_total [THEN conjunct2]) simp_all

section \<open>The element and the daemon\<close>

lemma request_input_ids_nth:
  "length (request_input_ids sinks) = length sinks"
  "i < length sinks \<Longrightarrow> request_input_ids sinks ! i =
     (if sk_input_id (sinks ! i) = [] then ''input'' @ show_nat i else sk_input_id (sinks ! i))"
  by (simp_all add: request_input_ids_def nth_enumerate_eq)

text \<open>
  The element and the daemon agree on ids. The ids that the element resolves in its request are
  the ones that the daemon takes from it; they pass the daemon's checks whenever the ids set on
  the pads are empty or well formed; and every input and output has one label per channel.
\<close>

theorem element_request_accepted:
  assumes "\<forall>s \<in> set sinks. sk_input_id s = [] \<or> is_channelmapping_id (sk_input_id s)"
    and "\<forall>s \<in> set srcs. sp_output_id s = [] \<or> is_channelmapping_id (sp_output_id s)"
    and req: "req = build_add_channel_mapping_request session name sinks srcs restrict"
  shows "effective_channelmapping_input_ids (ar_inputs req) = request_input_ids sinks \<and>
    effective_channelmapping_output_ids (ar_outputs req) = map po_id (ar_outputs req) \<and>
    check_channelmapping_ids (ar_outputs req) (effective_channelmapping_input_ids (ar_inputs req))
      (effective_channelmapping_output_ids (ar_outputs req)) = None \<and>
    map (\<lambda>i. length (pi_channel_labels i)) (ar_inputs req) = map (\<lambda>s. unat (sk_negotiated_channels s)) sinks \<and>
    map (\<lambda>i. length (po_channel_labels i)) (ar_outputs req) = map (\<lambda>s. unat (sp_negotiated_channels s)) srcs"
proof -
  let ?ins = "ar_inputs req" and ?outs = "ar_outputs req"
  have ins: "length ?ins = length sinks" "\<And>i. i < length sinks \<Longrightarrow> pi_id (?ins ! i) = request_input_ids sinks ! i"
    by (simp_all add: req build_add_channel_mapping_request_def request_input_ids_nth Let_def)
  have outs: "length ?outs = length srcs" "\<And>i. i < length srcs \<Longrightarrow> po_id (?outs ! i) =
      (if sp_output_id (srcs ! i) = [] then ''output'' @ show_nat i else sp_output_id (srcs ! i))"
    by (simp_all add: req build_add_channel_mapping_request_def nth_enumerate_eq Let_def)
  have ids: "effective_channelmapping_input_ids ?ins = request_input_ids sinks"
    "effective_channelmapping_output_ids ?outs = map po_id ?outs"
    using ins outs by (auto intro!: nth_equalityI simp: effective_ids request_input_ids_nth)
  have vin: "is_channelmapping_id i" if "i \<in> set (request_input_ids sinks)" for i
    using that assms(1) default_id_ok by (auto simp: in_set_conv_nth request_input_ids_nth) (metis nth_mem)
  have vout: "is_channelmapping_id i" if "i \<in> set (map po_id ?outs)" for i
    using that assms(2) default_id_ok outs by (auto simp: in_set_conv_nth) (metis nth_mem)
  have "i = [] \<or> is_channelmapping_id i" if "outp \<in> set ?outs" "i \<in> set (po_routable_inputs outp)" for outp i
    using that vin by (auto simp: req build_add_channel_mapping_request_def Let_def split: if_splits)
  with vin vout have "check_channelmapping_ids ?outs (request_input_ids sinks) (map po_id ?outs) = None"
    by (auto simp: check_ids_None)
  moreover have "map (\<lambda>i. length (pi_channel_labels i)) ?ins = map (\<lambda>s. unat (sk_negotiated_channels s)) sinks"
    "map (\<lambda>i. length (po_channel_labels i)) ?outs = map (\<lambda>s. unat (sp_negotiated_channels s)) srcs"
    by (auto intro!: nth_equalityI simp: req build_add_channel_mapping_request_def default_channel_labels_def
        request_input_ids_nth nth_enumerate_eq Let_def)
  ultimately show ?thesis using ids by simp
qed

theorem element_request_accepted_witness:
  "effective_channelmapping_input_ids (ar_inputs (build_add_channel_mapping_request ''s'' ''m''
      [\<lparr>sk_receiver_name = [], sk_input_id = [], sk_label = [], sk_description = [], sk_negotiated_channels = 2\<rparr>] [] True)) =
   [''input'' @ show_nat 0]"
  using element_request_accepted [of "[\<lparr>sk_receiver_name = [], sk_input_id = [], sk_label = [], sk_description = [],
      sk_negotiated_channels = 2\<rparr>]" "[]" _ "''s''" "''m''" True]
  by (simp add: request_input_ids_def)

lemma parse_fields_wf:
  assumes "parse_active_map_fields st seen keys = Inr routes"
  shows "distinct (map rt_output_channel routes) \<and> set (map rt_output_channel routes) \<inter> set seen = {} \<and>
    (\<forall>r \<in> set routes. rt_input_id r \<noteq> [] \<and> (\<exists>key v. map_of st key = Some (GString (Some v)) \<and>
       parse_u32 key = Some (rt_output_channel r) \<and> parse_input_channel_ref v = Some (rt_input_id r, rt_input_channel r)))"
  using assms
proof (induction st seen keys arbitrary: routes rule: parse_active_map_fields.induct)
  case (2 st seen key keys)
  obtain out where out: "parse_u32 key = Some out" "out \<notin> set seen"
    using "2.prems" by (auto split: option.splits if_splits)
  let ?rest = "parse_active_map_fields st (hs_insert out seen) keys"
  obtain ov where ov: "map_of st key = Some (GString ov)"
    using "2.prems" out by (auto simp: Let_def split: option.splits if_splits gvalue.splits)
  have rest: "\<exists>rs. ?rest = Inr rs \<and> (routes = rs \<or> (\<exists>v input_id ch. ov = Some v \<and>
      parse_input_channel_ref v = Some (input_id, ch) \<and>
      routes = \<lparr>rt_output_channel = out, rt_input_id = input_id, rt_input_channel = ch\<rparr> # rs))"
    using "2.prems" out ov by (auto simp: Let_def split: option.splits if_splits sum.splits)
  then obtain rs where rs: "?rest = Inr rs" by blast
  note IH = "2.IH" [OF out rs]
  have named: "input_id \<noteq> []" if "parse_input_channel_ref v = Some (input_id, ch)" for v input_id ch
    using that by (auto simp: parse_input_channel_ref_def split: option.splits if_splits)
  show ?case using rest rs IH out ov named by (auto 4 4)
qed simp

lemma parse_active_map_wf:
  assumes "parse_active_map_structure st = Inr routes"
  shows "sorted (map rt_output_channel routes) \<and> distinct (map rt_output_channel routes) \<and>
    (\<forall>r \<in> set routes. rt_input_id r \<noteq> [])"
proof -
  obtain rs where rs: "parse_active_map_fields st [] (map fst st) = Inr rs"
      "routes = sort_key rt_output_channel rs"
    using assms by (auto simp: parse_active_map_structure_def split: sum.splits)
  with parse_fields_wf [OF rs(1)] show ?thesis
    by (auto simp: distinct_map inj_on_def)
qed

lemma sorted_of_nat_u32:
  assumes "sorted xs" "\<forall>i \<in> set xs. i < 2 ^ 32"
  shows "sorted (map (of_nat :: nat \<Rightarrow> u32) xs)"
proof -
  have "of_nat i \<le> (of_nat j :: u32)" if "i \<le> j" "i \<in> set xs" "j \<in> set xs" for i j
    using assms(2) that by (simp add: word_le_nat_alt unat_u32)
  then show ?thesis
    unfolding sorted_map by (intro sorted_wrt_mono_rel [OF _ assms(1)]) blast
qed

lemma sorted_identity:
  "sorted (map rt_output_channel (map (\<lambda>(i, input_id, ch). \<lparr>rt_output_channel = of_nat i, rt_input_id = input_id,
      rt_input_channel = ch\<rparr>) (zip [m ..< unat (oc :: u32)] cs)))"
proof -
  have "sorted (map fst (zip [m ..< unat oc] cs))"
    unfolding map_fst_zip_take by (rule sorted_wrt_take) simp
  moreover have "\<forall>i \<in> set (map fst (zip [m ..< unat oc] cs)). i < 2 ^ 32"
    unfolding map_fst_zip_take using unat_u32_less [of oc] by (auto dest!: in_set_takeD)
  ultimately show ?thesis using sorted_of_nat_u32 by (force simp: comp_def case_prod_beta)
qed

lemma sorted_u32_range: "sorted (u32_range n)"
  using unat_u32_range [of n] unfolding word_le_nat_alt [abs_def]
  by (metis (mono_tags, lifting) sorted_map sorted_upt sorted_wrt_mono_rel word_le_nat_alt)

lemma default_routes_sorted: "sorted (map rt_output_channel (default_identity_routes t k oc sinks n))"
proof (cases "n = 1")
  case True
  then show ?thesis by (simp add: default_identity_routes_def identity_loop_eq del: map_map) (rule sorted_identity)
next
  case False
  then show ?thesis by (simp add: default_identity_routes_def Let_def comp_def sorted_u32_range)
qed

lemma default_routes_named:
  assumes "length (ft_input_ids t) = length sinks" "\<forall>i \<in> set (ft_input_ids t). i \<noteq> []"
    "r \<in> set (default_identity_routes t k oc sinks n)"
  shows "rt_input_id r \<noteq> []"
proof (cases "n = 1")
  case True
  with assms show ?thesis
    by (auto simp: default_identity_routes_def identity_loop_eq in_set_enumerate_eq dest!: set_zip_rightD)
      (metis nth_mem)
next
  case False
  with assms show ?thesis by (auto simp: default_identity_routes_def Let_def split: if_splits)
qed

text \<open>
  An active map survives the wire. What the element sends for an output, be it the map set on
  the pad or the default, is read back from an activation with the same entries as the routes
  that were set, provided the map is valid for the topology (the default always is).
\<close>

theorem active_map_roundtrip:
  assumes t: "t = from_snapshots sinks srcs input_ids output_ids"
    and ids: "length input_ids = length sinks" "distinct input_ids" "\<forall>i \<in> set input_ids. i \<noteq> []"
      "length output_ids = length srcs" "distinct output_ids"
    and k: "k < length srcs"
    and sent: "active_map_entries_for_src t (srcs ! k) k sinks n = Inr entries"
  shows "case sp_active_map (srcs ! k) of
      None \<Rightarrow> routes_from_activation t (output_ids ! k) entries =
        Inr (default_identity_routes t k (sp_negotiated_channels (srcs ! k)) sinks n)
    | Some st \<Rightarrow> \<exists>routes. parse_active_map_structure st = Inr routes \<and>
        (validate_active_map_for_output t (sp_negotiated_channels (srcs ! k)) routes = Inr () \<longrightarrow>
          routes_from_activation t (output_ids ! k) entries = Inr routes)"
proof -
  let ?oc = "sp_negotiated_channels (srcs ! k)"
  have ft: "ft_input_ids t = input_ids" "ft_output_ids t = output_ids" "ft_output_channels t = map sp_negotiated_channels srcs"
    by (simp_all add: t from_snapshots_def case_prod_beta Let_def)
  have pos: "position (\<lambda>i. i = output_ids ! k) (ft_output_ids t) = Some k"
    "list_get (ft_output_channels t) k = Some ?oc"
    using k ids(4,5) by (simp_all add: ft position_nth)
  show ?thesis
  proof (cases "sp_active_map (srcs ! k)")
    case None
    let ?routes = "default_identity_routes t k ?oc sinks n"
    have "routes_from_activation t (output_ids ! k) (active_map_entries_from_routes ?oc ?routes) = Inr ?routes"
      using ids(1,3) default_routes_named [of t sinks _ k ?oc n]
      by (intro routes_roundtrip [OF pos default_routes_valid [OF ids(1,2) t]])
        (auto simp: ft default_routes_sorted)
    with None sent show ?thesis by (simp add: active_map_entries_for_src_def Let_def)
  next
    case (Some st)
    then obtain routes where routes: "parse_active_map_structure st = Inr routes"
        "entries = active_map_entries_from_routes ?oc routes"
      using sent by (auto simp: active_map_entries_for_src_def split: sum.splits)
    with parse_active_map_wf [OF routes(1)] routes_roundtrip [OF pos] Some show ?thesis by simp
  qed
qed

theorem active_map_roundtrip_witness:
  "\<exists>entries. routes_from_activation (from_snapshots
      [\<lparr>sk_receiver_name = [], sk_input_id = [], sk_label = [], sk_description = [], sk_negotiated_channels = 2\<rparr>]
      [\<lparr>sp_sender_name = [], sp_output_id = [], sp_label = [], sp_description = [], sp_negotiated_channels = 2,
        sp_active_map = None\<rparr>] [''a''] [''x'']) ''x'' entries =
    Inr (default_identity_routes (from_snapshots
      [\<lparr>sk_receiver_name = [], sk_input_id = [], sk_label = [], sk_description = [], sk_negotiated_channels = 2\<rparr>]
      [\<lparr>sp_sender_name = [], sp_output_id = [], sp_label = [], sp_description = [], sp_negotiated_channels = 2,
        sp_active_map = None\<rparr>] [''a''] [''x'']) 0 2
      [\<lparr>sk_receiver_name = [], sk_input_id = [], sk_label = [], sk_description = [], sk_negotiated_channels = 2\<rparr>] 1)"
proof -
  let ?sinks = "[\<lparr>sk_receiver_name = [], sk_input_id = [], sk_label = [], sk_description = [], sk_negotiated_channels = 2\<rparr>]"
  let ?src = "\<lparr>sp_sender_name = [], sp_output_id = [], sp_label = [], sp_description = [], sp_negotiated_channels = 2,
    sp_active_map = None\<rparr>"
  let ?t = "from_snapshots ?sinks [?src] [''a''] [''x'']"
  obtain entries where "active_map_entries_for_src ?t ([?src] ! 0) 0 ?sinks 1 = Inr entries"
    by (simp add: active_map_entries_for_src_def)
  from active_map_roundtrip [OF refl _ _ _ _ _ _ this] show ?thesis by auto
qed

end
