(* ===== verification/Gst_Node.thy ===== *)
theory Gst_Node
  imports Gst_Prelude
begin

text \<open>
  The Node that an element asks for: the \<^verbatim>\<open>NodeConfig\<close> of \<^verbatim>\<open>OpenSession\<close> from the
  properties of the element (\<^verbatim>\<open>session/node.rs\<close>) with the URLs of network services
  (\<^verbatim>\<open>network_services.rs\<close>). The parser of URLs is the crate \<^verbatim>\<open>url\<close>: a parameter. The
  regular expression for the version in a path is written out as a function.

  The daemon checks the configuration again (\<open>Nvn_Lib\<close>); \<open>element_node_config_accepted\<close> says that
  it never refuses one built here and takes it over as the properties say.
\<close>

section \<open>URLs of network services\<close>

datatype url_host = HostDomain string | HostIpv4 string | HostIpv6

record url =
  url_scheme :: string
  url_host :: "url_host option"
  url_port_or_known_default :: "port option"
  url_path :: string

record nmos_url_parts =
  up_address :: string
  up_port :: u32
  up_version :: string
  up_valid :: bool

definition default_url_parts :: nmos_url_parts where
  "default_url_parts = \<lparr>up_address = [], up_port = 0, up_version = [], up_valid = False\<rparr>"

text \<open>\<open>v[0-9]+\.[0-9]+\<close>, and an optional slash behind it.\<close>

definition is_digit :: "char \<Rightarrow> bool" where
  "is_digit c \<longleftrightarrow> digit_val c \<noteq> None"

definition is_version :: "string \<Rightarrow> bool" where
  "is_version s =
     (case s of
        [] \<Rightarrow> False
      | c # rest \<Rightarrow> c = CHR ''v'' \<and>
          (case split_once CHR ''.'' rest of
             None \<Rightarrow> False
           | Some (major, minor) \<Rightarrow>
               major \<noteq> [] \<and> minor \<noteq> [] \<and> list_all is_digit major \<and> list_all is_digit minor))"

definition parse_version_from_path :: "string \<Rightarrow> string \<Rightarrow> string \<Rightarrow> string" where
  "parse_version_from_path path service_type version =
     (case strip_prefix (''/x-nmos/'' @ service_type @ ''/'') path of
        None \<Rightarrow> version
      | Some rest \<Rightarrow>
          (let v = (if rest \<noteq> [] \<and> last rest = CHR ''/'' then butlast rest else rest)
           in if is_version v then v else version))"

definition url_address :: "url \<Rightarrow> string option" where
  "url_address parsed =
     (case url_host parsed of
        Some (HostDomain domain) \<Rightarrow> (if domain \<noteq> [] then Some domain else None)
      | Some (HostIpv4 addr) \<Rightarrow> Some addr
      | _ \<Rightarrow> None)"

definition parse_nmos_url :: "(string \<Rightarrow> url option) \<Rightarrow> string \<Rightarrow> string \<Rightarrow> nmos_url_parts" where
  "parse_nmos_url parse url_str service_type =
     (if url_str = [] then default_url_parts
      else case parse url_str of
        None \<Rightarrow> default_url_parts
      | Some parsed \<Rightarrow>
          if url_scheme parsed \<noteq> ''http'' then default_url_parts
          else
            (case url_address parsed of
               None \<Rightarrow> default_url_parts
             | Some address \<Rightarrow>
                 \<lparr>up_address = address,
                  up_port = ucast (case url_port_or_known_default parsed of Some p \<Rightarrow> p | None \<Rightarrow> 80),
                  up_version = parse_version_from_path (url_path parsed) service_type [],
                  up_valid = True\<rparr>))"

section \<open>Node settings\<close>

record node_settings =
  nst_node_seed :: string
  nst_http_port :: port
  nst_host_name :: string
  nst_node_properties :: "gst_structure option"
  nst_domain :: string
  nst_registration_url :: string
  nst_system_url :: string

datatype node_properties_error =
    UnknownField string
  | InvalidType string
  | IncompleteAsset

definition default_network_services :: "u32 network_services_config" where
  "default_network_services =
     \<lparr>ns_domain = [], ns_registration_address = [], ns_registration_port = 0, ns_registration_version = [],
      ns_system_address = [], ns_system_port = 0, ns_system_version = []\<rparr>"

text \<open>The three steps of \<^verbatim>\<open>build_network_services\<close>; the flag says that something was set.\<close>

definition put_domain ::
  "node_settings \<Rightarrow> bool \<times> u32 network_services_config \<Rightarrow> bool \<times> u32 network_services_config" where
  "put_domain settings acc =
     (if nst_domain settings \<noteq> [] then (True, (snd acc)\<lparr>ns_domain := nst_domain settings\<rparr>) else acc)"

definition put_registration ::
  "(string \<Rightarrow> url option) \<Rightarrow> node_settings \<Rightarrow> bool \<times> u32 network_services_config
    \<Rightarrow> bool \<times> u32 network_services_config" where
  "put_registration parse settings acc =
     (if nst_registration_url settings = [] then acc
      else
        (let parts = parse_nmos_url parse (nst_registration_url settings) ''registration''
         in if up_valid parts
            then (True, (snd acc)\<lparr>ns_registration_address := up_address parts,
                    ns_registration_port := up_port parts,
                    ns_registration_version := (if up_version parts \<noteq> [] then up_version parts
                                                else ns_registration_version (snd acc))\<rparr>)
            else acc))"

definition put_system ::
  "(string \<Rightarrow> url option) \<Rightarrow> node_settings \<Rightarrow> bool \<times> u32 network_services_config
    \<Rightarrow> bool \<times> u32 network_services_config" where
  "put_system parse settings acc =
     (if nst_system_url settings = [] then acc
      else
        (let parts = parse_nmos_url parse (nst_system_url settings) ''system''
         in if up_valid parts
            then (True, (snd acc)\<lparr>ns_system_address := up_address parts,
                    ns_system_port := up_port parts,
                    ns_system_version := (if up_version parts \<noteq> [] then up_version parts
                                          else ns_system_version (snd acc))\<rparr>)
            else acc))"

definition build_network_services ::
  "(string \<Rightarrow> url option) \<Rightarrow> node_settings \<Rightarrow> u32 network_services_config option" where
  "build_network_services parse settings =
     (case put_system parse settings (put_registration parse settings
             (put_domain settings (False, default_network_services))) of
        (True, ns) \<Rightarrow> Some ns
      | (False, _) \<Rightarrow> None)"

definition optional_string :: "gst_structure \<Rightarrow> string \<Rightarrow> node_properties_error + string option" where
  "optional_string properties field =
     (if \<not> has_field properties field then Inr None
      else case field_string properties field of
        Some s \<Rightarrow> Inr (Some s)
      | None \<Rightarrow> Inl (InvalidType field))"

fun collect_strings :: "gvalue list \<Rightarrow> string list option" where
  "collect_strings [] = Some []"
| "collect_strings (v # vs) =
     (case value_string v of
        None \<Rightarrow> None
      | Some s \<Rightarrow> map_option ((#) s) (collect_strings vs))"

definition optional_functions :: "gst_structure \<Rightarrow> node_properties_error + string list option" where
  "optional_functions properties =
     (let collect = (\<lambda>vs. case collect_strings vs of
            Some fs \<Rightarrow> Inr (Some fs) | None \<Rightarrow> Inl (InvalidType ''functions''))
      in case map_of properties ''functions'' of
           None \<Rightarrow> Inr None
         | Some (GString (Some f)) \<Rightarrow> Inr (Some [f])
         | Some (GArray vs) \<Rightarrow> collect vs
         | Some (GList vs) \<Rightarrow> collect vs
         | Some _ \<Rightarrow> Inl (InvalidType ''functions''))"

definition node_property_fields :: "string list" where
  "node_property_fields =
     [''label'', ''description'', ''manufacturer'', ''product'', ''instance-id'', ''functions'']"

definition build_asset ::
  "string option \<Rightarrow> string option \<Rightarrow> string option \<Rightarrow> string list option
    \<Rightarrow> node_properties_error + asset_config option" where
  "build_asset manufacturer product instance_id functions =
     (if manufacturer = None \<and> product = None \<and> instance_id = None \<and> functions = None then Inr None
      else
        (let asset = \<lparr>ac_manufacturer = (case manufacturer of Some s \<Rightarrow> s | None \<Rightarrow> []),
                      ac_product = (case product of Some s \<Rightarrow> s | None \<Rightarrow> []),
                      ac_instance_id = (case instance_id of Some s \<Rightarrow> s | None \<Rightarrow> []),
                      ac_functions = (case functions of Some fs \<Rightarrow> fs | None \<Rightarrow> [])\<rparr>
         in if ac_manufacturer asset = [] \<or> ac_product asset = [] \<or> ac_instance_id asset = [] \<or>
               ac_functions asset = [] \<or> (\<exists>f \<in> set (ac_functions asset). f = [])
            then Inl IncompleteAsset
            else Inr (Some asset)))"

definition apply_node_properties ::
  "gst_structure \<Rightarrow> proto_node_config \<Rightarrow> node_properties_error + proto_node_config" where
  "apply_node_properties properties config =
     (case find (\<lambda>f. f \<notin> set node_property_fields) (map fst properties) of
        Some f \<Rightarrow> Inl (UnknownField f)
      | None \<Rightarrow>
          (case optional_string properties ''label'' of Inl e \<Rightarrow> Inl e | Inr label \<Rightarrow>
          (case optional_string properties ''description'' of Inl e \<Rightarrow> Inl e | Inr description \<Rightarrow>
          (case optional_string properties ''manufacturer'' of Inl e \<Rightarrow> Inl e | Inr manufacturer \<Rightarrow>
          (case optional_string properties ''product'' of Inl e \<Rightarrow> Inl e | Inr product \<Rightarrow>
          (case optional_string properties ''instance-id'' of Inl e \<Rightarrow> Inl e | Inr instance_id \<Rightarrow>
          (case optional_functions properties of Inl e \<Rightarrow> Inl e | Inr functions \<Rightarrow>
          (case build_asset manufacturer product instance_id functions of Inl e \<Rightarrow> Inl e | Inr asset \<Rightarrow>
             Inr (config\<lparr>pn_label := (case label of Some s \<Rightarrow> s | None \<Rightarrow> []),
                         pn_description := (case description of Some s \<Rightarrow> s | None \<Rightarrow> []),
                         pn_asset_tags := (case asset of Some a \<Rightarrow> Some a | None \<Rightarrow> pn_asset_tags config)\<rparr>)))))))))"

definition to_node_config ::
  "(string \<Rightarrow> url option) \<Rightarrow> node_settings \<Rightarrow> node_properties_error + proto_node_config" where
  "to_node_config parse settings =
     (let config = default_proto_node_config
            \<lparr>pn_seed := nst_node_seed settings, pn_host_name := nst_host_name settings,
             pn_http_port := ucast (nst_http_port settings),
             pn_network_services := build_network_services parse settings\<rparr>
      in case nst_node_properties settings of
           None \<Rightarrow> Inr config
         | Some properties \<Rightarrow> apply_node_properties properties config)"

text \<open>What is used of the URL parser: the text of an IPv4 address is not empty.\<close>

definition ipv4_texts :: "(string \<Rightarrow> url option) \<Rightarrow> bool" where
  "ipv4_texts parse \<longleftrightarrow>
     (\<forall>str u addr. parse str = Some u \<longrightarrow> url_host u = Some (HostIpv4 addr) \<longrightarrow> addr \<noteq> [])"

section \<open>What the daemon makes of it\<close>

lemma u16_try_from_ucast [simp]: "u16_try_from (ucast (p :: port)) = Some p"
proof -
  have less: "unat p < 2 ^ 16" using unsigned_less [of p, where 'a = nat] by simp
  then have "unat (ucast p :: u32) = unat p" by (simp add: unsigned_ucast_eq take_bit_nat_eq_self)
  moreover have "ucast (ucast p :: u32) = p" by (rule bit_word_eqI) (simp add: bit_simps)
  ultimately show ?thesis using less by (simp add: u16_try_from_def u16_max_def)
qed

lemma parse_nmos_url_cases:
  "parse_nmos_url parse u s = default_url_parts \<or>
   (\<exists>parsed address port version. parse u = Some parsed \<and> url_address parsed = Some address \<and>
      parse_nmos_url parse u s = \<lparr>up_address = address, up_port = ucast (port :: port),
        up_version = version, up_valid = True\<rparr>)"
  by (cases "parse u"; cases "url_address (the (parse u))") (auto simp: parse_nmos_url_def)

lemma default_url_parts_simps [simp]:
  "up_address default_url_parts = []" "up_port default_url_parts = 0" "up_version default_url_parts = []"
  "\<not> up_valid default_url_parts"
  by (simp_all add: default_url_parts_def)

lemma parse_nmos_url_invalid: "\<not> up_valid (parse_nmos_url parse u s) \<Longrightarrow> parse_nmos_url parse u s = default_url_parts"
  using parse_nmos_url_cases [of parse u s] by auto

lemma up_port_fits: "\<exists>p. up_port (parse_nmos_url parse u s) = ucast (p :: port)"
  using parse_nmos_url_cases [of parse u s] by (metis default_url_parts_simps(2) nmos_url_parts.select_convs(2) ucast_0)

lemma parse_nmos_url_address:
  assumes "ipv4_texts parse" "up_valid (parse_nmos_url parse u s)"
  shows "up_address (parse_nmos_url parse u s) \<noteq> []"
proof -
  obtain parsed address where ok: "parse u = Some parsed" "url_address parsed = Some address"
      "up_address (parse_nmos_url parse u s) = address"
    using parse_nmos_url_cases [of parse u s] assms(2) by auto
  then show ?thesis using assms(1)
    by (auto simp: ipv4_texts_def url_address_def split: option.splits url_host.splits if_splits)
qed

lemma build_network_services_eq:
  assumes "reg = parse_nmos_url parse (nst_registration_url settings) ''registration''"
    and "sys = parse_nmos_url parse (nst_system_url settings) ''system''"
  shows "build_network_services parse settings =
    (if nst_domain settings = [] \<and> \<not> up_valid reg \<and> \<not> up_valid sys then None
     else Some \<lparr>ns_domain = nst_domain settings, ns_registration_address = up_address reg,
       ns_registration_port = up_port reg, ns_registration_version = up_version reg,
       ns_system_address = up_address sys, ns_system_port = up_port sys, ns_system_version = up_version sys\<rparr>)"
proof -
  have empty: "parse_nmos_url parse [] s = default_url_parts" for s by (simp add: parse_nmos_url_def)
  have inv: "\<not> up_valid (parse_nmos_url parse u s) \<Longrightarrow> up_address (parse_nmos_url parse u s) = [] \<and>
      up_port (parse_nmos_url parse u s) = 0 \<and> up_version (parse_nmos_url parse u s) = []" for u s
    by (drule parse_nmos_url_invalid) (simp add: default_url_parts_def)
  show ?thesis
    using inv [of "nst_registration_url settings" "''registration''"] inv [of "nst_system_url settings" "''system''"]
    by (auto simp: assms build_network_services_def put_system_def put_registration_def put_domain_def Let_def
        default_network_services_def empty default_url_parts_def split: if_splits)
qed

lemma translate_build_network_services:
  assumes "ipv4_texts parse"
    and reg: "reg = parse_nmos_url parse (nst_registration_url settings) ''registration''"
    and sys: "sys = parse_nmos_url parse (nst_system_url settings) ''system''"
  shows "\<exists>ns. translate_network_services (build_network_services parse settings) = Inr ns \<and>
    (if nst_domain settings = [] \<and> \<not> up_valid reg \<and> \<not> up_valid sys then ns = None
     else \<exists>n. ns = Some n \<and> ns_domain n = nst_domain settings \<and>
       ns_registration_address n = up_address reg \<and> ucast (ns_registration_port n) = up_port reg \<and>
       ns_registration_version n = up_version reg \<and> ns_system_address n = up_address sys \<and>
       ucast (ns_system_port n) = up_port sys \<and> ns_system_version n = up_version sys)"
proof -
  obtain rp where rp: "up_port reg = ucast (rp :: port)" using up_port_fits reg by blast
  obtain sp where sp: "up_port sys = ucast (sp :: port)" using up_port_fits sys by blast
  have "up_valid reg \<Longrightarrow> up_address reg \<noteq> []" unfolding reg by (rule parse_nmos_url_address [OF assms(1)])
  moreover have "up_valid sys \<Longrightarrow> up_address sys \<noteq> []" unfolding sys by (rule parse_nmos_url_address [OF assms(1)])
  ultimately show ?thesis
    by (auto simp: build_network_services_eq [OF reg sys] translate_network_services_def rp sp)
qed

lemma build_asset_ok:
  "build_asset m p i f = Inr asset \<Longrightarrow> translate_asset_tags asset = Inr asset"
proof -
  have first: "[] \<notin> set fs \<Longrightarrow> first_empty n fs = None" for n fs by (simp add: first_empty_None)
  assume "build_asset m p i f = Inr asset"
  then show ?thesis
    by (auto simp: build_asset_def translate_asset_tags_def Let_def first split: if_splits option.splits)
qed

lemma optional_string_value:
  assumes "optional_string st field = Inr v"
  shows "v = field_string st field"
proof (cases "map_of st field")
  case None
  then have "\<not> has_field st field" by (simp add: has_field_def map_of_eq_None_iff)
  with assms None show ?thesis by (simp add: optional_string_def field_string_def)
next
  case (Some x)
  then have "has_field st field" by (force simp: has_field_def dest: map_of_SomeD)
  with assms show ?thesis by (auto simp: optional_string_def split: option.splits)
qed

lemma apply_node_properties_ok:
  assumes "apply_node_properties properties config = Inr p" "pn_asset_tags config = None"
  shows "pn_seed p = pn_seed config \<and> pn_host_name p = pn_host_name config \<and>
    pn_http_port p = pn_http_port config \<and> pn_network_services p = pn_network_services config \<and>
    pn_label p = (case field_string properties ''label'' of Some s \<Rightarrow> s | None \<Rightarrow> []) \<and>
    pn_description p = (case field_string properties ''description'' of Some s \<Rightarrow> s | None \<Rightarrow> []) \<and>
    translate_asset_tags (pn_asset_tags p) = Inr (pn_asset_tags p)"
proof -
  obtain label description m pr i f asset where ok:
      "optional_string properties ''label'' = Inr label"
      "optional_string properties ''description'' = Inr description"
      "build_asset m pr i f = Inr asset"
      "p = config\<lparr>pn_label := (case label of Some s \<Rightarrow> s | None \<Rightarrow> []),
         pn_description := (case description of Some s \<Rightarrow> s | None \<Rightarrow> []),
         pn_asset_tags := (case asset of Some a \<Rightarrow> Some a | None \<Rightarrow> pn_asset_tags config)\<rparr>"
    using assms(1) unfolding apply_node_properties_def by (auto split: option.splits sum.splits)
  then show ?thesis
    using optional_string_value [OF ok(1)] optional_string_value [OF ok(2)] build_asset_ok [OF ok(3)] assms(2)
    by (cases asset) simp_all
qed

text \<open>
  An element is never refused for its Node: whenever the properties of the element give a
  \<^verbatim>\<open>NodeConfig\<close>, the daemon accepts it, and the Node has the seed, the host name, the HTTP port,
  the label, the description and the network services that the properties name, each port and each
  address unchanged. An invalid URL leaves its service out. (Of the URL parser it is assumed that
  the text of an IPv4 address is not empty.)
\<close>

theorem element_node_config_accepted:
  assumes ipv4: "ipv4_texts parse"
    and config: "to_node_config parse settings = Inr p"
    and reg: "reg = parse_nmos_url parse (nst_registration_url settings) ''registration''"
    and sys: "sys = parse_nmos_url parse (nst_system_url settings) ''system''"
  shows "\<exists>c. translate_config (Some p) = Inr c \<and> nc_seed c = nst_node_seed settings \<and>
    nc_host_name c = nst_host_name settings \<and> nc_http_port c = nst_http_port settings \<and>
    nc_asset_tags c = pn_asset_tags p \<and>
    nc_label c = (case nst_node_properties settings of None \<Rightarrow> []
      | Some st \<Rightarrow> (case field_string st ''label'' of Some s \<Rightarrow> s | None \<Rightarrow> [])) \<and>
    nc_description c = (case nst_node_properties settings of None \<Rightarrow> []
      | Some st \<Rightarrow> (case field_string st ''description'' of Some s \<Rightarrow> s | None \<Rightarrow> [])) \<and>
    (if nst_domain settings = [] \<and> \<not> up_valid reg \<and> \<not> up_valid sys then nc_network_services c = None
     else \<exists>n. nc_network_services c = Some n \<and> ns_domain n = nst_domain settings \<and>
       ns_registration_address n = up_address reg \<and> ucast (ns_registration_port n) = up_port reg \<and>
       ns_registration_version n = up_version reg \<and> ns_system_address n = up_address sys \<and>
       ucast (ns_system_port n) = up_port sys \<and> ns_system_version n = up_version sys)"
proof -
  obtain ns where ns: "translate_network_services (build_network_services parse settings) = Inr ns"
      "if nst_domain settings = [] \<and> \<not> up_valid reg \<and> \<not> up_valid sys then ns = None
       else \<exists>n. ns = Some n \<and> ns_domain n = nst_domain settings \<and>
         ns_registration_address n = up_address reg \<and> ucast (ns_registration_port n) = up_port reg \<and>
         ns_registration_version n = up_version reg \<and> ns_system_address n = up_address sys \<and>
         ucast (ns_system_port n) = up_port sys \<and> ns_system_version n = up_version sys"
    using translate_build_network_services [OF ipv4 reg sys] by blast
  let ?base = "default_proto_node_config\<lparr>pn_seed := nst_node_seed settings, pn_host_name := nst_host_name settings,
      pn_http_port := ucast (nst_http_port settings), pn_network_services := build_network_services parse settings\<rparr>"
  have p: "pn_seed p = nst_node_seed settings \<and> pn_host_name p = nst_host_name settings \<and>
      pn_http_port p = ucast (nst_http_port settings) \<and>
      pn_network_services p = build_network_services parse settings \<and>
      translate_asset_tags (pn_asset_tags p) = Inr (pn_asset_tags p) \<and>
      pn_label p = (case nst_node_properties settings of None \<Rightarrow> []
        | Some st \<Rightarrow> (case field_string st ''label'' of Some s \<Rightarrow> s | None \<Rightarrow> [])) \<and>
      pn_description p = (case nst_node_properties settings of None \<Rightarrow> []
        | Some st \<Rightarrow> (case field_string st ''description'' of Some s \<Rightarrow> s | None \<Rightarrow> []))"
  proof (cases "nst_node_properties settings")
    case None
    with config show ?thesis
      by (auto simp: to_node_config_def default_proto_node_config_def translate_asset_tags_def)
  next
    case (Some st)
    with config have a: "apply_node_properties st ?base = Inr p" by (simp add: to_node_config_def)
    have "pn_asset_tags ?base = None" by (simp add: default_proto_node_config_def)
    from apply_node_properties_ok [OF a this] Some show ?thesis by simp
  qed
  then show ?thesis using ns by (simp add: translate_config_def)
qed

theorem element_node_config_accepted_witness:
  "\<exists>c. translate_config (Some (default_proto_node_config\<lparr>pn_seed := ''seed'', pn_host_name := [],
      pn_http_port := ucast (8080 :: port),
      pn_network_services := Some (default_network_services\<lparr>ns_registration_address := ''reg'',
        ns_registration_port := 80, ns_registration_version := ''v1.3''\<rparr>)\<rparr>)) = Inr c \<and>
    nc_seed c = ''seed'' \<and> nc_http_port c = 8080"
proof -
  let ?url = "\<lparr>url_scheme = ''http'', url_host = Some (HostDomain ''reg''), url_port_or_known_default = Some 80,
    url_path = ''/x-nmos/registration/v1.3/''\<rparr>"
  let ?parse = "\<lambda>_. Some ?url"
  let ?settings = "\<lparr>nst_node_seed = ''seed'', nst_http_port = 8080, nst_host_name = [], nst_node_properties = None,
    nst_domain = [], nst_registration_url = ''u'', nst_system_url = []\<rparr>"
  have version: "parse_version_from_path ''/x-nmos/registration/v1.3/'' ''registration'' [] = ''v1.3''"
    by (simp add: parse_version_from_path_def strip_prefix_def starts_with_def is_version_def is_digit_def digit_val_def)
  have "to_node_config ?parse ?settings = Inr (default_proto_node_config\<lparr>pn_seed := ''seed'', pn_host_name := [],
      pn_http_port := ucast (8080 :: port),
      pn_network_services := Some (default_network_services\<lparr>ns_registration_address := ''reg'',
        ns_registration_port := 80, ns_registration_version := ''v1.3''\<rparr>)\<rparr>)"
    by (simp add: to_node_config_def build_network_services_def put_domain_def put_registration_def
        put_system_def parse_nmos_url_def url_address_def version default_network_services_def)
  moreover have "ipv4_texts ?parse" by (simp add: ipv4_texts_def)
  ultimately show ?thesis using element_node_config_accepted [of ?parse ?settings _ _ _, OF _ _ refl refl] by fastforce
qed

end
