(* ===== verification/Gst_Client.thy ===== *)
theory Gst_Client
  imports Gst_Node Gst_ChannelMap
begin

text \<open>
  The gRPC client inside an element (\<^verbatim>\<open>runtime.rs\<close>, \<^verbatim>\<open>daemon.rs\<close>): tasks that are waited
  for with a limit, calls that may stay outstanding, and the slot that holds an element's session,
  open or still being opened.

  Time is counted in nanoseconds. A task is known by the moment and the value with which it ends,
  \<open>None\<close> if it never does. The answers of the daemon are a parameter: for the n-th call a
  delay, absent when the daemon never answers, and a reply. The calls that the client has made are
  logged with the time they were sent; a task that runs in the background logs its calls with their
  own, later, times.
\<close>

section \<open>Tasks\<close>

type_synonym time = nat

type_synonym 'a task = "(time \<times> (string + 'a)) option"

definition wait_for_task :: "'a task \<Rightarrow> time \<Rightarrow> time \<Rightarrow> (string + 'a) option \<times> time" where
  "wait_for_task task limit now =
     (case task of
        Some (t, v) \<Rightarrow> if t \<le> now + limit then (Some v, max now t) else (None, now + limit)
      | None \<Rightarrow> (None, now + limit))"

definition rpc_timeout :: time where
  "rpc_timeout = 5000000000"

definition remaining :: "time \<Rightarrow> time \<Rightarrow> time" where
  "remaining deadline now = deadline - now"

text \<open>The flag says that the task was aborted.\<close>

definition settle_task :: "'a task \<Rightarrow> time \<Rightarrow> time \<Rightarrow> bool \<times> time" where
  "settle_task task deadline now =
     (case wait_for_task task (remaining deadline now) now of
        (None, now') \<Rightarrow> (True, now')
      | (Some _, now') \<Rightarrow> (False, now'))"

section \<open>Calls\<close>

datatype daemon_error =
    UnsupportedScheme string
  | TransportError
  | RpcError status
  | NodePropertiesFailed node_properties_error
  | AlreadyAdded
  | NoResource
  | TimedOut
  | Outstanding
  | CallEnded string
  | SessionClosed

datatype rpc =
    OpenSession proto_node_config
  | SubscribeActivations string
  | SubscribeChannelMappingActivations string
  | AddResource side string string proto_transport string
  | AddChannelMapping add_channel_mapping_request
  | SyncResourceState string string "string option"
  | SyncChannelMappingState string string string "active_map_entry list"
  | RemoveChannelMapping string string
  | CloseSession string

record client =
  clock :: time
  calls :: "(time \<times> rpc) list"

type_synonym 'a answer = "time option \<times> (status + 'a)"

text \<open>
  Code that awaits: it ends with a value, or hangs (\<open>None\<close>) with the calls it made before.
\<close>

type_synonym 'a async = "client \<Rightarrow> 'a option \<times> client"

definition ret :: "'a \<Rightarrow> 'a async" where
  "ret a c = (Some a, c)"

definition and_then :: "'a async \<Rightarrow> ('a \<Rightarrow> 'b async) \<Rightarrow> 'b async" where
  "and_then m f c = (case m c of (None, c1) \<Rightarrow> (None, c1) | (Some a, c1) \<Rightarrow> f a c1)"

definition sleep_for :: "time option \<Rightarrow> client \<Rightarrow> bool \<times> client" where
  "sleep_for delay c = (case delay of None \<Rightarrow> (False, c) | Some d \<Rightarrow> (True, c\<lparr>clock := clock c + d\<rparr>))"

definition ask :: "(nat \<Rightarrow> 'a answer) \<Rightarrow> rpc \<Rightarrow> (status + 'a) async" where
  "ask answers r c =
     (case answers (length (calls c)) of (delay, reply) \<Rightarrow>
        case sleep_for delay (c\<lparr>calls := calls c @ [(clock c, r)]\<rparr>) of
          (False, c1) \<Rightarrow> (None, c1)
        | (True, c1) \<Rightarrow> (Some reply, c1))"

text \<open>
  \<^verbatim>\<open>SHARED_RUNTIME.spawn\<close>: the body runs by itself; the caller goes on at its own time.
\<close>

definition spawn_task :: "'a async \<Rightarrow> client \<Rightarrow> 'a task \<times> client" where
  "spawn_task body c =
     (case body c of
        (None, c1) \<Rightarrow> (None, c\<lparr>calls := calls c1\<rparr>)
      | (Some v, c1) \<Rightarrow> (Some (clock c1, Inr v), c\<lparr>calls := calls c1\<rparr>))"

definition drive_call ::
  "(daemon_error + 'a) task option \<Rightarrow> (daemon_error + 'a) async \<Rightarrow> client
    \<Rightarrow> (daemon_error + 'a) \<times> (daemon_error + 'a) task option \<times> client" where
  "drive_call inflight body c =
     (if inflight \<noteq> None then (Inl Outstanding, inflight, c)
      else
        (case spawn_task body c of (handle, c1) \<Rightarrow>
           case wait_for_task handle rpc_timeout (clock c1) of
             (None, t) \<Rightarrow> (Inl TimedOut, Some handle, c1\<lparr>clock := t\<rparr>)
           | (Some (Inr result), t) \<Rightarrow> (result, None, c1\<lparr>clock := t\<rparr>)
           | (Some (Inl join), t) \<Rightarrow> (Inl (CallEnded join), None, c1\<lparr>clock := t\<rparr>)))"

text \<open>\<^verbatim>\<open>tokio::time::timeout\<close>: the body, or \<open>None\<close> when it takes longer.\<close>

definition timeout :: "time \<Rightarrow> 'a async \<Rightarrow> 'a option async" where
  "timeout limit body c =
     (case body c of
        (Some v, c1) \<Rightarrow> if clock c1 \<le> clock c + limit then (Some (Some v), c1)
                       else (Some None, c1\<lparr>clock := clock c + limit\<rparr>)
      | (None, c1) \<Rightarrow> (Some None, c1\<lparr>clock := clock c + limit\<rparr>))"

definition close_session_call ::
  "(nat \<Rightarrow> unit answer) \<Rightarrow> string \<Rightarrow> time \<Rightarrow> client \<Rightarrow> (daemon_error + unit) \<times> client" where
  "close_session_call answers handle deadline c =
     (case spawn_task (timeout rpc_timeout (ask answers (CloseSession handle))) c of (call, c1) \<Rightarrow>
        case wait_for_task call (remaining deadline (clock c1)) (clock c1) of
          (Some (Inr (Some (Inr _))), t) \<Rightarrow> (Inr (), c1\<lparr>clock := t\<rparr>)
        | (Some (Inr (Some (Inl st))), t) \<Rightarrow> (Inl (RpcError st), c1\<lparr>clock := t\<rparr>)
        | (Some (Inr None), t) \<Rightarrow> (Inl TimedOut, c1\<lparr>clock := t\<rparr>)
        | (None, t) \<Rightarrow> (Inl TimedOut, c1\<lparr>clock := t\<rparr>)
        | (Some (Inl join), t) \<Rightarrow> (Inl (CallEnded join), c1\<lparr>clock := t\<rparr>))"

section \<open>The slot of an element\<close>

datatype 's session_phase = Pending "(daemon_error + 's) task" | Open 's

datatype 's open_join = Ready 's | Finished | Running "(daemon_error + 's) task"

type_synonym 's slot = "'s session_phase option"

definition finish_opening :: "(daemon_error + 's) task \<Rightarrow> time \<Rightarrow> time \<Rightarrow> 's open_join \<times> time" where
  "finish_opening handle limit now =
     (case wait_for_task handle limit now of
        (Some (Inr (Inr s)), t) \<Rightarrow> (Ready s, t)
      | (Some _, t) \<Rightarrow> (Finished, t)
      | (None, t) \<Rightarrow> (Running handle, t))"

definition take_for_close :: "'s slot \<Rightarrow> time \<Rightarrow> client \<Rightarrow> 's option \<times> 's slot \<times> client" where
  "take_for_close slot deadline c =
     (case slot of
        Some (Open s) \<Rightarrow> (Some s, None, c)
      | Some (Pending handle) \<Rightarrow>
          (case finish_opening handle (remaining deadline (clock c)) (clock c) of
             (Ready s, t) \<Rightarrow> (Some s, None, c\<lparr>clock := t\<rparr>)
           | (Finished, t) \<Rightarrow> (None, None, c\<lparr>clock := t\<rparr>)
           | (Running handle, t) \<Rightarrow> (None, Some (Pending handle), c\<lparr>clock := t\<rparr>))
      | None \<Rightarrow> (None, None, c))"

text \<open>
  The part that the two functions \<^verbatim>\<open>validate_and_open\<close> share: an open that is still pending is
  joined first, a session that came of it is closed, then a new open is started and waited for.
\<close>

datatype open_failure =
    StillRunning
  | AlreadyOpen
  | OpenTimedOut
  | OpenFailed daemon_error
  | OpenEnded string

definition start_open ::
  "(daemon_error + 's) async \<Rightarrow> client \<Rightarrow> (open_failure + unit) \<times> 's slot \<times> client" where
  "start_open opener c =
     (case spawn_task opener c of (opening, c1) \<Rightarrow>
        case wait_for_task opening rpc_timeout (clock c1) of
          (None, t) \<Rightarrow> (Inl OpenTimedOut, Some (Pending opening), c1\<lparr>clock := t\<rparr>)
        | (Some (Inr (Inr s)), t) \<Rightarrow> (Inr (), Some (Open s), c1\<lparr>clock := t\<rparr>)
        | (Some (Inr (Inl e)), t) \<Rightarrow> (Inl (OpenFailed e), None, c1\<lparr>clock := t\<rparr>)
        | (Some (Inl join), t) \<Rightarrow> (Inl (OpenEnded join), None, c1\<lparr>clock := t\<rparr>))"

definition open_slot ::
  "(daemon_error + 's) async \<Rightarrow> ('s \<Rightarrow> time \<Rightarrow> client \<Rightarrow> (daemon_error + unit) \<times> client)
    \<Rightarrow> 's slot \<Rightarrow> client \<Rightarrow> (open_failure + unit) \<times> 's slot \<times> client" where
  "open_slot opener closer slot c =
     (case slot of
        Some (Pending handle) \<Rightarrow>
          (case finish_opening handle rpc_timeout (clock c) of
             (Running handle, t) \<Rightarrow> (Inl StillRunning, Some (Pending handle), c\<lparr>clock := t\<rparr>)
           | (Ready opened, t) \<Rightarrow>
               (case closer opened (t + rpc_timeout) (c\<lparr>clock := t\<rparr>) of (_, c1) \<Rightarrow> start_open opener c1)
           | (Finished, t) \<Rightarrow> start_open opener (c\<lparr>clock := t\<rparr>))
      | Some (Open existing) \<Rightarrow> (Inl AlreadyOpen, Some (Open existing), c)
      | None \<Rightarrow> start_open opener c)"

definition close_slot ::
  "('s \<Rightarrow> time \<Rightarrow> client \<Rightarrow> (daemon_error + unit) \<times> client) \<Rightarrow> 's slot \<Rightarrow> client \<Rightarrow> 's slot \<times> client" where
  "close_slot closer slot c =
     (let deadline = clock c + rpc_timeout
      in case take_for_close slot deadline c of
           (None, slot', c1) \<Rightarrow> (slot', c1)
         | (Some s, slot', c1) \<Rightarrow> (case closer s deadline c1 of (_, c2) \<Rightarrow> (slot', c2)))"

end
