(* ===== verification/Gst_Session.thy ===== *)
theory Gst_Session
  imports Gst_Client
begin

text \<open>
  The two kinds of session an element has with the daemon: \<^verbatim>\<open>Session\<close> of \<^verbatim>\<open>nmossink\<close> and
  \<^verbatim>\<open>nmossrc\<close> (\<^verbatim>\<open>daemon.rs\<close>) and \<^verbatim>\<open>ChannelMappingSession\<close> of
  \<^verbatim>\<open>nmosaudiochannelmap\<close> (\<^verbatim>\<open>channel_mapping_session.rs\<close>), each with its calls, and the slot
  operations on them (\<^verbatim>\<open>session/mod.rs\<close>, \<^verbatim>\<open>session/channel_mapping.rs\<close>).

  The daemon is a record of answers, a parameter. The task that reads activations is present or
  absent; what it does with an event is \<open>activation_reply\<close>.
\<close>

section \<open>The daemon as the client sees it\<close>

record open_session_response =
  os_session_handle :: string
  os_node_id :: string
  os_device_id :: string
  os_created_node :: bool
  os_http_port :: u32

datatype added_resource_kind =
    AddedSender (added_sender_id: string) (added_source_id: string) (added_flow_id: string)
  | AddedReceiver (added_receiver_id: string)

record added_resource =
  ad_handle :: string
  ad_kind :: added_resource_kind

record add_sender_response =
  as_resource_handle :: string
  as_source_id :: string
  as_flow_id :: string
  as_sender_id :: string

record add_receiver_response =
  arr_resource_handle :: string
  arr_receiver_id :: string

record add_cm_response =
  acm_handle :: string
  acm_input_ids :: "string list"
  acm_output_ids :: "string list"

record daemon_env =
  e_connect :: "nat \<Rightarrow> time option \<times> bool"
  e_open :: "nat \<Rightarrow> open_session_response answer"
  e_subscribe :: "nat \<Rightarrow> unit answer"
  e_add_sender :: "nat \<Rightarrow> add_sender_response answer"
  e_add_receiver :: "nat \<Rightarrow> add_receiver_response answer"
  e_add_cm :: "nat \<Rightarrow> add_cm_response answer"
  e_sync :: "nat \<Rightarrow> unit answer"
  e_remove_cm :: "nat \<Rightarrow> unit answer"
  e_close :: "nat \<Rightarrow> unit answer"

fun split_at_colon :: "string \<Rightarrow> string" where
  "split_at_colon [] = []"
| "split_at_colon (c # cs) = (if c = CHR '':'' then [] else c # split_at_colon cs)"

definition parse_unix_uri :: "string \<Rightarrow> daemon_error + string" where
  "parse_unix_uri daemon_uri =
     (case strip_prefix ''unix:'' daemon_uri of
        Some path \<Rightarrow> Inr path
      | None \<Rightarrow> Inl (UnsupportedScheme (split_at_colon daemon_uri)))"

definition connect_uds :: "daemon_env \<Rightarrow> string \<Rightarrow> bool async" where
  "connect_uds env path c =
     (case e_connect env (length (calls c)) of (delay, ok) \<Rightarrow>
        case sleep_for delay c of (False, c1) \<Rightarrow> (None, c1) | (True, c1) \<Rightarrow> (Some ok, c1))"

definition map_reply :: "('a \<Rightarrow> 'b) \<Rightarrow> status + 'a \<Rightarrow> daemon_error + 'b" where
  "map_reply f r = (case r of Inl st \<Rightarrow> Inl (RpcError st) | Inr a \<Rightarrow> Inr (f a))"

section \<open>Sessions of senders and receivers\<close>

record session =
  sn_session_handle :: string
  sn_node_id :: string
  sn_device_id :: string
  sn_created_node :: bool
  sn_http_port :: port
  sn_resource :: "added_resource option"
  sn_client :: bool
  sn_activation_task :: bool
  sn_inflight_add :: "(daemon_error + added_resource) task option"
  sn_inflight_sync :: "(daemon_error + unit) task option"
  sn_activation_incomplete :: bool

fun add_resource_call ::
  "daemon_env \<Rightarrow> string \<Rightarrow> side \<Rightarrow> string \<Rightarrow> proto_transport \<Rightarrow> string \<Rightarrow> (daemon_error + added_resource) async" where
  "add_resource_call env handle Sender name transport tfile =
     and_then (ask (e_add_sender env) (AddResource Sender handle name transport tfile)) (\<lambda>resp.
       ret (map_reply (\<lambda>r. \<lparr>ad_handle = as_resource_handle r,
         ad_kind = AddedSender (as_sender_id r) (as_source_id r) (as_flow_id r)\<rparr>) resp))"
| "add_resource_call env handle Receiver name transport tfile =
     and_then (ask (e_add_receiver env) (AddResource Receiver handle name transport tfile)) (\<lambda>resp.
       ret (map_reply (\<lambda>r. \<lparr>ad_handle = arr_resource_handle r,
         ad_kind = AddedReceiver (arr_receiver_id r)\<rparr>) resp))"

text \<open>
  The tail of \<^verbatim>\<open>Session::open\<close> once the daemon has granted a session: subscribe, add the resource
  when there is a transport file, and close the session again when either fails.
\<close>

definition opened_session :: "open_session_response \<Rightarrow> added_resource option \<Rightarrow> session" where
  "opened_session resp resource =
     \<lparr>sn_session_handle = os_session_handle resp, sn_node_id = os_node_id resp,
      sn_device_id = os_device_id resp, sn_created_node = os_created_node resp,
      sn_http_port = (case u16_try_from (os_http_port resp) of Some p \<Rightarrow> p | None \<Rightarrow> 0),
      sn_resource = resource, sn_client = True, sn_activation_task = True, sn_inflight_add = None,
      sn_inflight_sync = None, sn_activation_incomplete = False\<rparr>"

definition give_up :: "daemon_env \<Rightarrow> string \<Rightarrow> daemon_error \<Rightarrow> (daemon_error + 's) async" where
  "give_up env handle e = and_then (ask (e_close env) (CloseSession handle)) (\<lambda>_. ret (Inl e))"

definition open_granted ::
  "daemon_env \<Rightarrow> side \<Rightarrow> string \<Rightarrow> proto_transport \<Rightarrow> string option \<Rightarrow> open_session_response
    \<Rightarrow> (daemon_error + session) async" where
  "open_granted env sd name transport transport_file resp =
     (let handle = os_session_handle resp in
      and_then (ask (e_subscribe env) (SubscribeActivations handle)) (\<lambda>sub.
        case sub of
          Inl st \<Rightarrow> give_up env handle (RpcError st)
        | Inr _ \<Rightarrow>
            (case transport_file of
               None \<Rightarrow> ret (Inr (opened_session resp None))
             | Some tfile \<Rightarrow>
                 and_then (add_resource_call env handle sd name transport tfile) (\<lambda>added.
                   case added of
                     Inl e \<Rightarrow> give_up env handle e
                   | Inr r \<Rightarrow> ret (Inr (opened_session resp (Some r)))))))"

text \<open>Connecting and \<^verbatim>\<open>OpenSession\<close>, common to both kinds of session.\<close>

definition request_session ::
  "daemon_env \<Rightarrow> (string \<Rightarrow> url option) \<Rightarrow> string \<Rightarrow> node_settings
    \<Rightarrow> (open_session_response \<Rightarrow> (daemon_error + 's) async) \<Rightarrow> (daemon_error + 's) async" where
  "request_session env parse daemon_uri node granted =
     (case to_node_config parse node of
        Inl e \<Rightarrow> ret (Inl (NodePropertiesFailed e))
      | Inr node_config \<Rightarrow>
          (case parse_unix_uri daemon_uri of
             Inl e \<Rightarrow> ret (Inl e)
           | Inr uds_path \<Rightarrow>
               and_then (connect_uds env uds_path) (\<lambda>connected.
                 if \<not> connected then ret (Inl TransportError)
                 else
                   and_then (ask (e_open env) (OpenSession node_config)) (\<lambda>resp.
                     case resp of Inl st \<Rightarrow> ret (Inl (RpcError st)) | Inr resp \<Rightarrow> granted resp))))"

definition session_open ::
  "daemon_env \<Rightarrow> (string \<Rightarrow> url option) \<Rightarrow> string \<Rightarrow> node_settings \<Rightarrow> side \<Rightarrow> string \<Rightarrow> proto_transport
    \<Rightarrow> string option \<Rightarrow> (daemon_error + session) async" where
  "session_open env parse daemon_uri node sd name transport transport_file =
     request_session env parse daemon_uri node (open_granted env sd name transport transport_file)"

definition resource_id :: "session \<Rightarrow> (string \<times> string) option" where
  "resource_id s =
     map_option (\<lambda>r. (ad_handle r, case ad_kind r of AddedSender i _ _ \<Rightarrow> i | AddedReceiver i \<Rightarrow> i)) (sn_resource s)"

definition session_add_resource ::
  "daemon_env \<Rightarrow> side \<Rightarrow> string \<Rightarrow> proto_transport \<Rightarrow> string \<Rightarrow> session \<Rightarrow> client
    \<Rightarrow> (daemon_error + unit) \<times> session \<times> client" where
  "session_add_resource env sd name transport tfile s c =
     (if sn_resource s \<noteq> None then (Inl AlreadyAdded, s, c)
      else if \<not> sn_client s then (Inl SessionClosed, s, c)
      else
        (case drive_call (sn_inflight_add s)
                (add_resource_call env (sn_session_handle s) sd name transport tfile) c of
           (Inl e, inflight, c1) \<Rightarrow> (Inl e, s\<lparr>sn_inflight_add := inflight\<rparr>, c1)
         | (Inr r, inflight, c1) \<Rightarrow> (Inr (), s\<lparr>sn_inflight_add := inflight, sn_resource := Some r\<rparr>, c1)))"

definition session_sync_resource_state ::
  "daemon_env \<Rightarrow> string option \<Rightarrow> session \<Rightarrow> client \<Rightarrow> (daemon_error + unit) \<times> session \<times> client" where
  "session_sync_resource_state env transport_file s c =
     (case sn_resource s of
        None \<Rightarrow> (Inl NoResource, s, c)
      | Some r \<Rightarrow>
          if \<not> sn_client s then (Inl SessionClosed, s, c)
          else
            (case drive_call (sn_inflight_sync s)
                    (and_then (ask (e_sync env) (SyncResourceState (sn_session_handle s) (ad_handle r) transport_file))
                      (\<lambda>r. ret (map_reply id r))) c of
               (result, inflight, c1) \<Rightarrow> (result, s\<lparr>sn_inflight_sync := inflight\<rparr>, c1)))"

definition mark_activation_incomplete :: "session \<Rightarrow> session" where
  "mark_activation_incomplete s = s\<lparr>sn_activation_incomplete := True\<rparr>"

record resource_ids =
  ri_node_id :: string
  ri_device_id :: string
  ri_sender_id :: string
  ri_source_id :: string
  ri_flow_id :: string
  ri_receiver_id :: string

definition default_resource_ids :: resource_ids where
  "default_resource_ids = \<lparr>ri_node_id = [], ri_device_id = [], ri_sender_id = [], ri_source_id = [],
     ri_flow_id = [], ri_receiver_id = []\<rparr>"

definition session_resource_ids :: "session \<Rightarrow> resource_ids" where
  "session_resource_ids s =
     (let ids = default_resource_ids\<lparr>ri_node_id := sn_node_id s, ri_device_id := sn_device_id s\<rparr>
      in case sn_resource s of
           None \<Rightarrow> ids
         | Some r \<Rightarrow>
             (case ad_kind r of
                AddedSender sender source flow \<Rightarrow>
                  ids\<lparr>ri_sender_id := sender, ri_source_id := source, ri_flow_id := flow\<rparr>
              | AddedReceiver receiver \<Rightarrow> ids\<lparr>ri_receiver_id := receiver\<rparr>))"

text \<open>
  \<^verbatim>\<open>DetachedSession::close\<close>: outstanding calls are joined or aborted before \<^verbatim>\<open>CloseSession\<close>. It
  is the same code for both kinds of session.
\<close>

definition settle_option :: "'a task option \<Rightarrow> time \<Rightarrow> client \<Rightarrow> client" where
  "settle_option task deadline c =
     (case task of None \<Rightarrow> c | Some t \<Rightarrow> c\<lparr>clock := snd (settle_task t deadline (clock c))\<rparr>)"

definition detached_close ::
  "daemon_env \<Rightarrow> string \<Rightarrow> 'a task option \<Rightarrow> 'b task option \<Rightarrow> time \<Rightarrow> client \<Rightarrow> (daemon_error + unit) \<times> client" where
  "detached_close env handle inflight_add inflight_sync deadline c =
     close_session_call (e_close env) handle deadline
       (settle_option inflight_sync deadline (settle_option inflight_add deadline c))"

definition session_close ::
  "daemon_env \<Rightarrow> session \<Rightarrow> time \<Rightarrow> client \<Rightarrow> (daemon_error + unit) \<times> client" where
  "session_close env s deadline c =
     (if sn_client s
      then detached_close env (sn_session_handle s) (sn_inflight_add s) (sn_inflight_sync s) deadline c
      else (Inr (), c))"

section \<open>Sessions of channel mappings\<close>

record cm_session =
  cs_session_handle :: string
  cs_node_id :: string
  cs_created_node :: bool
  cs_http_port :: port
  cs_channelmapping :: "string option"
  cs_client :: bool
  cs_activation_task :: bool
  cs_inflight_add :: "(daemon_error + add_cm_response) task option"
  cs_inflight_sync :: "(daemon_error + unit) task option"

definition new_cm_session :: "open_session_response \<Rightarrow> cm_session" where
  "new_cm_session resp =
     \<lparr>cs_session_handle = os_session_handle resp, cs_node_id = os_node_id resp,
      cs_created_node = os_created_node resp,
      cs_http_port = (case u16_try_from (os_http_port resp) of Some p \<Rightarrow> p | None \<Rightarrow> 0),
      cs_channelmapping = None, cs_client = True, cs_activation_task = True, cs_inflight_add = None,
      cs_inflight_sync = None\<rparr>"

definition cm_open_granted ::
  "daemon_env \<Rightarrow> open_session_response \<Rightarrow> (daemon_error + cm_session) async" where
  "cm_open_granted env resp =
     (let handle = os_session_handle resp in
      and_then (ask (e_subscribe env) (SubscribeChannelMappingActivations handle)) (\<lambda>sub.
        case sub of
          Inl st \<Rightarrow> give_up env handle (RpcError st)
        | Inr _ \<Rightarrow> ret (Inr (new_cm_session resp))))"

definition cm_session_open ::
  "daemon_env \<Rightarrow> (string \<Rightarrow> url option) \<Rightarrow> string \<Rightarrow> node_settings \<Rightarrow> (daemon_error + cm_session) async" where
  "cm_session_open env parse daemon_uri node =
     request_session env parse daemon_uri node (cm_open_granted env)"

definition cm_add_channel_mapping ::
  "daemon_env \<Rightarrow> add_channel_mapping_request \<Rightarrow> cm_session \<Rightarrow> client
    \<Rightarrow> (daemon_error + add_cm_response) \<times> cm_session \<times> client" where
  "cm_add_channel_mapping env request s c =
     (if cs_channelmapping s \<noteq> None then (Inl AlreadyAdded, s, c)
      else if \<not> cs_client s then (Inl SessionClosed, s, c)
      else
        (case drive_call (cs_inflight_add s)
                (and_then (ask (e_add_cm env) (AddChannelMapping request)) (\<lambda>r. ret (map_reply id r))) c of
           (Inl e, inflight, c1) \<Rightarrow> (Inl e, s\<lparr>cs_inflight_add := inflight\<rparr>, c1)
         | (Inr r, inflight, c1) \<Rightarrow>
             (Inr r, s\<lparr>cs_inflight_add := inflight, cs_channelmapping := Some (acm_handle r)\<rparr>, c1)))"

text \<open>This call is awaited without a limit: it may hang.\<close>

definition cm_remove_channel_mapping ::
  "daemon_env \<Rightarrow> cm_session \<Rightarrow> client \<Rightarrow> (daemon_error + unit) option \<times> cm_session \<times> client" where
  "cm_remove_channel_mapping env s c =
     (case cs_channelmapping s of
        None \<Rightarrow> (Some (Inr ()), s, c)
      | Some cm \<Rightarrow>
          (let s1 = s\<lparr>cs_channelmapping := None\<rparr>
           in if \<not> cs_client s then (Some (Inl SessionClosed), s1, c)
              else case ask (e_remove_cm env) (RemoveChannelMapping (cs_session_handle s) cm) c of
                (None, c1) \<Rightarrow> (None, s1, c1)
              | (Some r, c1) \<Rightarrow> (Some (map_reply id r), s1, c1)))"

definition cm_sync_channel_mapping_state ::
  "daemon_env \<Rightarrow> string \<Rightarrow> active_map_entry list \<Rightarrow> cm_session \<Rightarrow> client
    \<Rightarrow> (daemon_error + unit) \<times> cm_session \<times> client" where
  "cm_sync_channel_mapping_state env output_id active_map s c =
     (case cs_channelmapping s of
        None \<Rightarrow> (Inl NoResource, s, c)
      | Some cm \<Rightarrow>
          if \<not> cs_client s then (Inl SessionClosed, s, c)
          else
            (case drive_call (cs_inflight_sync s)
                    (and_then (ask (e_sync env) (SyncChannelMappingState (cs_session_handle s) cm output_id active_map))
                      (\<lambda>r. ret (map_reply id r))) c of
               (result, inflight, c1) \<Rightarrow> (result, s\<lparr>cs_inflight_sync := inflight\<rparr>, c1)))"

definition cm_session_close ::
  "daemon_env \<Rightarrow> cm_session \<Rightarrow> time \<Rightarrow> client \<Rightarrow> (daemon_error + unit) \<times> client" where
  "cm_session_close env s deadline c =
     (if cs_client s
      then detached_close env (cs_session_handle s) (cs_inflight_add s) (cs_inflight_sync s) deadline c
      else (Inr (), c))"

section \<open>Activation events\<close>

fun side_try_from_proto :: "int \<Rightarrow> side option" where
  "side_try_from_proto value = (if value = 1 then Some Sender else if value = 2 then Some Receiver else None)"

record activation_request =
  arq_activation_handle :: string
  arq_resource_handle :: string
  arq_side :: side
  arq_transport_file :: "string option"

datatype activation_outcome = Applied | ApplyFailed string

record ack_activation_request =
  aa_session_handle :: string
  aa_activation_handle :: string
  aa_success :: bool
  aa_failure_reason :: string

text \<open>
  One turn of the task that reads activation events: the acknowledgement for an event. The handler
  answers with an outcome, or drops the channel it was given (\<open>None\<close>).
\<close>

definition activation_reply ::
  "string \<Rightarrow> (activation_request \<Rightarrow> activation_outcome option) \<Rightarrow> activation_event \<Rightarrow> ack_activation_request" where
  "activation_reply session handler ev =
     (let outcome =
            (case side_try_from_proto (ae_side ev) of
               None \<Rightarrow> ApplyFailed ''unrecognised side''
             | Some sd \<Rightarrow>
                 (case handler \<lparr>arq_activation_handle = ae_activation_handle ev,
                          arq_resource_handle = ae_resource_handle ev, arq_side = sd,
                          arq_transport_file = ae_transport_file ev\<rparr> of
                    Some outcome \<Rightarrow> outcome
                  | None \<Rightarrow> ApplyFailed ''oneshot dropped''));
          (success, reason) = (case outcome of Applied \<Rightarrow> (True, []) | ApplyFailed reason \<Rightarrow> (False, reason))
      in \<lparr>aa_session_handle = session, aa_activation_handle = ae_activation_handle ev,
          aa_success = success, aa_failure_reason = reason\<rparr>)"

record cm_activation_request =
  crq_channelmapping_handle :: string
  crq_activation_handle :: string
  crq_output_id :: string
  crq_active_map :: "active_map_entry list"

definition cm_activation_reply ::
  "string \<Rightarrow> (cm_activation_request \<Rightarrow> activation_outcome option) \<Rightarrow> cm_activation_event \<Rightarrow> ack_activation_request" where
  "cm_activation_reply session handler ev =
     (let outcome =
            (case handler \<lparr>crq_channelmapping_handle = ce_channelmapping_handle ev,
                     crq_activation_handle = ce_activation_handle ev, crq_output_id = ce_output_id ev,
                     crq_active_map = ce_active_map ev\<rparr> of
               Some outcome \<Rightarrow> outcome
             | None \<Rightarrow> ApplyFailed ''oneshot dropped'');
          (success, reason) = (case outcome of Applied \<Rightarrow> (True, []) | ApplyFailed reason \<Rightarrow> (False, reason))
      in \<lparr>aa_session_handle = session, aa_activation_handle = ce_activation_handle ev,
          aa_success = success, aa_failure_reason = reason\<rparr>)"

text \<open>
  The loop of that task over what the stream delivers: an event, the end of the stream, or an
  error, which ends it as well. The next event is read only after the acknowledgement.
\<close>

datatype 'e stream_message = StreamEvent 'e | StreamEnd | StreamError

fun activation_loop :: "('e \<Rightarrow> ack_activation_request) \<Rightarrow> 'e stream_message list \<Rightarrow> ack_activation_request list" where
  "activation_loop reply [] = []"
| "activation_loop reply (StreamEvent ev # ms) = reply ev # activation_loop reply ms"
| "activation_loop reply (StreamEnd # ms) = []"
| "activation_loop reply (StreamError # ms) = []"

end
