(* ===== verification/Gst_Slot.thy ===== *)
theory Gst_Slot
  imports Gst_Session
begin

text \<open>
  What an element may rely on when it opens, uses and closes its session, whatever the daemon
  answers and however long it takes: sessions are neither lost nor closed twice, and every state
  change returns. The argument is made once, for the contract \<open>client_session\<close>, which both
  kinds of session keep.
\<close>

section \<open>Vocabulary\<close>

text \<open>
  What an element does with its slot, in any order and at any time: open it with any settings,
  close it, use the open session.
\<close>

inductive slot_reach ::
  "('k \<Rightarrow> (daemon_error + 's) async) \<Rightarrow> ('s \<Rightarrow> time \<Rightarrow> client \<Rightarrow> (daemon_error + unit) \<times> client)
    \<Rightarrow> ('s \<Rightarrow> client \<Rightarrow> 's \<Rightarrow> client \<Rightarrow> bool) \<Rightarrow> 's slot \<Rightarrow> client \<Rightarrow> bool"
  for opener closer use where
  slot_init: "slot_reach opener closer use None \<lparr>clock = t, calls = []\<rparr>"
| slot_opens: "slot_reach opener closer use slot c \<Longrightarrow> open_slot (opener k) closer slot c = (r, slot', c')
    \<Longrightarrow> slot_reach opener closer use slot' c'"
| slot_closes: "slot_reach opener closer use slot c \<Longrightarrow> close_slot closer slot c = (slot', c')
    \<Longrightarrow> slot_reach opener closer use slot' c'"
| slot_uses: "slot_reach opener closer use (Some (Open s)) c \<Longrightarrow> use s c s' c'
    \<Longrightarrow> slot_reach opener closer use (Some (Open s')) c'"
| slot_idle: "slot_reach opener closer use slot c \<Longrightarrow> slot_reach opener closer use slot (c\<lparr>clock := clock c + d\<rparr>)"

text \<open>
  The sessions the daemon granted and the ones it was asked to close, from the log of calls.
\<close>

definition granted :: "(nat \<Rightarrow> open_session_response answer) \<Rightarrow> (time \<times> rpc) list \<Rightarrow> string list" where
  "granted answers log =
     List.map_filter (\<lambda>(i, t, r). case r of
         OpenSession _ \<Rightarrow> (case answers i of (Some _, Inr resp) \<Rightarrow> Some (os_session_handle resp) | _ \<Rightarrow> None)
       | _ \<Rightarrow> None) (enumerate 0 log)"

definition closed_handles :: "(time \<times> rpc) list \<Rightarrow> string list" where
  "closed_handles log = List.map_filter (\<lambda>(t, r). case r of CloseSession h \<Rightarrow> Some h | _ \<Rightarrow> None) log"

definition owed :: "(nat \<Rightarrow> open_session_response answer) \<Rightarrow> (time \<times> rpc) list \<Rightarrow> string \<Rightarrow> int" where
  "owed answers log h = int (count_list (granted answers log) h) - int (count_list (closed_handles log) h)"

definition slot_owes :: "('s \<Rightarrow> bool) \<Rightarrow> ('s \<Rightarrow> string) \<Rightarrow> 's slot \<Rightarrow> (string \<Rightarrow> int) \<Rightarrow> bool" where
  "slot_owes live handle slot f =
     (case slot of
        None \<Rightarrow> (\<forall>h. f h = 0)
      | Some (Open s) \<Rightarrow> live s \<and> (\<forall>h. f h = of_bool (h = handle s))
      | Some (Pending (Some (t, Inr (Inr s)))) \<Rightarrow> live s \<and> (\<forall>h. f h = of_bool (h = handle s))
      | Some (Pending (Some (t, _))) \<Rightarrow> (\<forall>h. f h = 0)
      | Some (Pending None) \<Rightarrow> (\<exists>held. length held \<le> 1 \<and> (\<forall>h. f h = int (count_list held h))))"

definition give_back :: "string \<Rightarrow> (string \<Rightarrow> int) \<Rightarrow> string \<Rightarrow> int" where
  "give_back h0 f = (\<lambda>h. f h - of_bool (h = h0))"

definition grant_outcome ::
  "(string \<Rightarrow> int) \<Rightarrow> ('s \<Rightarrow> bool) \<Rightarrow> ('s \<Rightarrow> string) \<Rightarrow> string \<Rightarrow> (daemon_error + 's) option
    \<Rightarrow> (string \<Rightarrow> int) \<Rightarrow> bool" where
  "grant_outcome f live handle h0 v f' =
     (case v of
        Some (Inr s) \<Rightarrow> live s \<and> handle s = h0 \<and> f' = f
      | Some (Inl e) \<Rightarrow> f' = give_back h0 f
      | None \<Rightarrow> f' = f \<or> f' = give_back h0 f)"

definition granted_ok ::
  "(nat \<Rightarrow> open_session_response answer) \<Rightarrow> ('s \<Rightarrow> bool) \<Rightarrow> ('s \<Rightarrow> string)
    \<Rightarrow> (open_session_response \<Rightarrow> (daemon_error + 's) async) \<Rightarrow> bool" where
  "granted_ok answers live handle g \<longleftrightarrow>
     (\<forall>resp c v c'. g resp c = (v, c') \<longrightarrow>
        grant_outcome (owed answers (calls c)) live handle (os_session_handle resp) v (owed answers (calls c')))"

definition opened_ok ::
  "(string \<Rightarrow> int) \<Rightarrow> ('s \<Rightarrow> bool) \<Rightarrow> ('s \<Rightarrow> string) \<Rightarrow> (daemon_error + 's) option \<Rightarrow> (string \<Rightarrow> int) \<Rightarrow> bool" where
  "opened_ok f live handle v f' =
     (case v of
        Some (Inr s) \<Rightarrow> live s \<and> (\<forall>h. f' h = f h + of_bool (h = handle s))
      | Some (Inl e) \<Rightarrow> (\<forall>h. f' h = f h)
      | None \<Rightarrow> (\<exists>held. length held \<le> 1 \<and> (\<forall>h. f' h = f h + int (count_list held h))))"

definition settled_by :: "'a task option \<Rightarrow> time \<Rightarrow> time \<Rightarrow> bool" where
  "settled_by task d t \<longleftrightarrow>
     (case task of None \<Rightarrow> True | Some None \<Rightarrow> d \<le> t | Some (Some (e, v)) \<Rightarrow> min e d \<le> t)"

text \<open>
  Every session the daemon granted was closed once, except for the one in the slot.
\<close>

definition balanced ::
  "(nat \<Rightarrow> open_session_response answer) \<Rightarrow> ('s \<Rightarrow> string) \<Rightarrow> 's slot \<Rightarrow> client \<Rightarrow> bool" where
  "balanced answers handle slot c \<longleftrightarrow>
     (slot = None \<longrightarrow> (\<forall>h. count_list (granted answers (calls c)) h = count_list (closed_handles (calls c)) h)) \<and>
     (\<forall>s. slot = Some (Open s) \<longrightarrow>
        (\<forall>h. count_list (granted answers (calls c)) h =
           count_list (closed_handles (calls c)) h + of_bool (h = handle s)))"

definition session_use :: "daemon_env \<Rightarrow> session \<Rightarrow> client \<Rightarrow> session \<Rightarrow> client \<Rightarrow> bool" where
  "session_use env s c s' c' \<longleftrightarrow>
     (\<exists>sd name tr tf r. session_add_resource env sd name tr tf s c = (r, s', c')) \<or>
     (\<exists>tf r. session_sync_resource_state env tf s c = (r, s', c')) \<or>
     s' = mark_activation_incomplete s \<and> c' = c"

definition cm_session_use :: "daemon_env \<Rightarrow> cm_session \<Rightarrow> client \<Rightarrow> cm_session \<Rightarrow> client \<Rightarrow> bool" where
  "cm_session_use env s c s' c' \<longleftrightarrow>
     (\<exists>request r. cm_add_channel_mapping env request s c = (r, s', c')) \<or>
     (\<exists>output_id active_map r. cm_sync_channel_mapping_state env output_id active_map s c = (r, s', c')) \<or>
     (\<exists>r. cm_remove_channel_mapping env s c = (Some r, s', c'))"

type_synonym open_request = "(string \<Rightarrow> url option) \<times> string \<times> node_settings \<times> side \<times> string \<times> proto_transport \<times> string option"

definition session_opener :: "daemon_env \<Rightarrow> open_request \<Rightarrow> (daemon_error + session) async" where
  "session_opener env k = (case k of (parse, uri, node, sd, name, tr, tfile) \<Rightarrow> session_open env parse uri node sd name tr tfile)"

definition cm_session_opener ::
  "daemon_env \<Rightarrow> (string \<Rightarrow> url option) \<times> string \<times> node_settings \<Rightarrow> (daemon_error + cm_session) async" where
  "cm_session_opener env k = (case k of (parse, uri, node) \<Rightarrow> cm_session_open env parse uri node)"

section \<open>The life of a slot\<close>

lemma owed_Nil [simp]: "owed answers [] h = 0"
  by (simp add: owed_def granted_def closed_handles_def map_filter_def)

lemma owed_snoc:
  "owed answers (log @ [(t, r)]) h = owed answers log h +
     (case r of
        OpenSession _ \<Rightarrow> (case answers (length log) of (Some _, Inr resp) \<Rightarrow> of_bool (h = os_session_handle resp) | _ \<Rightarrow> 0)
      | CloseSession h' \<Rightarrow> - of_bool (h = h')
      | _ \<Rightarrow> 0)"
  by (auto simp: owed_def granted_def closed_handles_def map_filter_def enumerate_append_eq
      split: rpc.splits option.splits sum.splits prod.splits)

text \<open>A daemon that answers every call after one nanosecond, for the examples.\<close>

definition demo_response :: open_session_response where
  "demo_response = \<lparr>os_session_handle = ''s1'', os_node_id = ''n'', os_device_id = ''d'', os_created_node = True,
     os_http_port = 80\<rparr>"

definition demo_env :: daemon_env where
  "demo_env = \<lparr>e_connect = (\<lambda>_. (Some 1, True)), e_open = (\<lambda>_. (Some 1, Inr demo_response)),
     e_subscribe = (\<lambda>_. (Some 1, Inr ())),
     e_add_sender = (\<lambda>_. (Some 1, Inr \<lparr>as_resource_handle = ''r'', as_source_id = ''so'', as_flow_id = ''f'',
       as_sender_id = ''se''\<rparr>)),
     e_add_receiver = (\<lambda>_. (Some 1, Inr \<lparr>arr_resource_handle = ''r'', arr_receiver_id = ''re''\<rparr>)),
     e_add_cm = (\<lambda>_. (Some 1, Inr \<lparr>acm_handle = ''c'', acm_input_ids = [], acm_output_ids = []\<rparr>)),
     e_sync = (\<lambda>_. (Some 1, Inr ())), e_remove_cm = (\<lambda>_. (Some 1, Inr ())), e_close = (\<lambda>_. (Some 1, Inr ()))\<rparr>"

definition demo_session :: session where
  "demo_session = opened_session demo_response None"

section \<open>Waiting\<close>

lemma wait_for_task_bounds:
  assumes "wait_for_task task limit now = (r, t)"
  shows "now \<le> t \<and> t \<le> now + limit"
  using assms by (auto simp: wait_for_task_def split: option.splits if_splits)

lemma wait_for_task_Some:
  assumes "wait_for_task task limit now = (Some v, t)"
  shows "\<exists>e. task = Some (e, v) \<and> e \<le> t"
  using assms by (auto simp: wait_for_task_def split: option.splits if_splits)

lemma wait_for_task_None:
  assumes "wait_for_task task limit now = (None, t)"
  shows "t = now + limit \<and> (task = None \<or> (\<exists>e v. task = Some (e, v) \<and> t < e))"
  using assms by (auto simp: wait_for_task_def split: option.splits if_splits)

lemma spawn_task_calls:
  assumes "spawn_task body c = (task, c')" "body c = (r, c1)"
  shows "calls c' = calls c1 \<and> clock c' = clock c"
  using assms by (auto simp: spawn_task_def split: option.splits)

lemma open_slot_result:
  assumes "open_slot opener closer slot c = (r, slot', c')"
  shows "(\<exists>s. slot' = Some (Open s)) \<longleftrightarrow> r = Inr () \<or> r = Inl AlreadyOpen"
proof -
  have start: "(\<exists>s. slot' = Some (Open s)) \<longleftrightarrow> r = Inr () \<or> r = Inl AlreadyOpen"
    if "start_open opener c = (r, slot', c')" for c
    using that by (auto simp: start_open_def split: prod.splits option.splits sum.splits)
  show ?thesis using assms unfolding open_slot_def
    by (auto simp: start split: option.splits session_phase.splits prod.splits open_join.splits)
qed

section \<open>The contract of a session\<close>

text \<open>
  What the slot operations rely on: opening grants at most one session and gives it back when it
  fails, closing asks the daemon to close exactly this session and returns by its deadline, and
  using a session neither opens nor closes one.
\<close>

locale client_session =
  fixes answers :: "nat \<Rightarrow> open_session_response answer"
    and opener :: "'k \<Rightarrow> (daemon_error + 's) async"
    and closer :: "'s \<Rightarrow> time \<Rightarrow> client \<Rightarrow> (daemon_error + unit) \<times> client"
    and use :: "'s \<Rightarrow> client \<Rightarrow> 's \<Rightarrow> client \<Rightarrow> bool"
    and live :: "'s \<Rightarrow> bool"
    and handle :: "'s \<Rightarrow> string"
  assumes open_ok: "opener k c = (Some (Inr s), c') \<Longrightarrow>
      live s \<and> (\<forall>h. owed answers (calls c') h = owed answers (calls c) h + of_bool (h = handle s))"
    and open_err: "opener k c = (Some (Inl e), c') \<Longrightarrow> \<forall>h. owed answers (calls c') h = owed answers (calls c) h"
    and open_hangs: "opener k c = (None, c') \<Longrightarrow>
      \<exists>held. length held \<le> 1 \<and> (\<forall>h. owed answers (calls c') h = owed answers (calls c) h + int (count_list held h))"
    and close_ok: "live s \<Longrightarrow> closer s d c = (r, c') \<Longrightarrow>
      (\<forall>h. owed answers (calls c') h = owed answers (calls c) h - of_bool (h = handle s)) \<and>
      clock c \<le> clock c' \<and> clock c' \<le> max (clock c) d"
    and use_ok: "live s \<Longrightarrow> use s c s' c' \<Longrightarrow>
      live s' \<and> handle s' = handle s \<and> (\<forall>h. owed answers (calls c') h = owed answers (calls c) h)"
begin

lemma start_open_owes:
  assumes none: "\<forall>h. owed answers (calls c) h = 0" and run: "start_open (opener k) c = (r, slot, c')"
  shows "slot_owes live handle slot (owed answers (calls c'))"
proof -
  obtain v c1 where body: "opener k c = (v, c1)" by fastforce
  obtain task c2 where spawn: "spawn_task (opener k) c = (task, c2)" by fastforce
  have c2: "calls c2 = calls c1" using spawn_task_calls [OF spawn body] by simp
  obtain w t where wait: "wait_for_task task rpc_timeout (clock c2) = (w, t)" by fastforce
  have task: "task = (case v of None \<Rightarrow> None | Some x \<Rightarrow> Some (clock c1, Inr x))"
    using spawn body by (auto simp: spawn_task_def split: option.splits)
  show ?thesis
  proof (cases v)
    case None
    with body none obtain held where "length held \<le> 1" "\<forall>h. owed answers (calls c1) h = int (count_list held h)"
      using open_hangs [of k c c1] by force
    with None task wait run spawn c2 show ?thesis
      by (auto simp: start_open_def slot_owes_def wait_for_task_def)
  next
    case (Some x)
    with body none open_err [of k c _ c1] open_ok [of k c _ c1]
    have "case x of Inl e \<Rightarrow> \<forall>h. owed answers (calls c1) h = 0
        | Inr s \<Rightarrow> live s \<and> (\<forall>h. owed answers (calls c1) h = of_bool (h = handle s))"
      by (cases x) auto
    with Some task wait run spawn c2 show ?thesis
      by (cases x) (auto simp: start_open_def slot_owes_def wait_for_task_def split: if_splits)
  qed
qed

lemma finish_opening_owes:
  assumes owes: "slot_owes live handle (Some (Pending task)) f" and "finish_opening task limit now = (j, t)"
  shows "case j of Ready s \<Rightarrow> live s \<and> (\<forall>h. f h = of_bool (h = handle s)) | Finished \<Rightarrow> \<forall>h. f h = 0
    | Running task' \<Rightarrow> task' = task"
proof -
  obtain w t' where wait: "wait_for_task task limit now = (w, t')" by fastforce
  show ?thesis
  proof (cases w)
    case None
    with assms(2) wait show ?thesis by (auto simp: finish_opening_def)
  next
    case (Some v)
    then obtain e where "task = Some (e, v)" using wait_for_task_Some wait by blast
    with assms wait Some show ?thesis
      by (auto simp: finish_opening_def slot_owes_def split: sum.splits)
  qed
qed

lemma open_slot_owes:
  assumes owes: "slot_owes live handle slot (owed answers (calls c))" and run: "open_slot (opener k) closer slot c = (r, slot', c')"
  shows "slot_owes live handle slot' (owed answers (calls c'))"
proof (cases slot)
  case None
  with assms show ?thesis using start_open_owes [of c k r slot' c'] by (simp add: open_slot_def slot_owes_def)
next
  case (Some ph)
  show ?thesis
  proof (cases ph)
    case (Open s)
    with Some assms show ?thesis by (auto simp: open_slot_def)
  next
    case (Pending task)
    obtain j t where fin: "finish_opening task rpc_timeout (clock c) = (j, t)" by fastforce
    note j = finish_opening_owes [OF owes [unfolded Some Pending] fin]
    show ?thesis
    proof (cases j)
      case (Ready s)
      obtain r1 c1 where cl: "closer s (t + rpc_timeout) (c\<lparr>clock := t\<rparr>) = (r1, c1)" by fastforce
      with j Ready close_ok [OF _ cl] have "\<forall>h. owed answers (calls c1) h = 0" by simp
      with start_open_owes [of c1 k r slot' c'] run Some Pending fin Ready cl show ?thesis
        by (simp add: open_slot_def)
    next
      case Finished
      with j start_open_owes [of "c\<lparr>clock := t\<rparr>" k r slot' c'] run Some Pending fin show ?thesis
        by (simp add: open_slot_def)
    next
      case (Running task')
      with j run Some Pending fin owes show ?thesis by (auto simp: open_slot_def)
    qed
  qed
qed

lemma close_slot_owes:
  assumes owes: "slot_owes live handle slot (owed answers (calls c))" and run: "close_slot closer slot c = (slot', c')"
  shows "slot_owes live handle slot' (owed answers (calls c')) \<and> (\<forall>s. slot' \<noteq> Some (Open s)) \<and>
    clock c \<le> clock c' \<and> clock c' \<le> clock c + rpc_timeout"
proof -
  let ?d = "clock c + rpc_timeout"
  have closes: ?thesis if s: "live s" "\<forall>h. owed answers (calls c1) h = of_bool (h = handle s)"
      and c1: "calls c1 = calls c" "clock c \<le> clock c1" "clock c1 \<le> ?d"
      and run': "closer s ?d c1 = (r, c')" "slot' = None" for s c1 r
    using close_ok [OF s(1) run'(1)] s(2) c1 run'(2) by (auto simp: slot_owes_def)
  show ?thesis
  proof (cases slot)
    case None
    with assms show ?thesis by (auto simp: close_slot_def take_for_close_def Let_def)
  next
    case (Some ph)
    show ?thesis
    proof (cases ph)
      case (Open s)
      with Some owes have "live s" "\<forall>h. owed answers (calls c) h = of_bool (h = handle s)" by (simp_all add: slot_owes_def)
      moreover obtain r where "closer s ?d c = (r, c')" "slot' = None"
        using run Some Open by (auto simp: close_slot_def take_for_close_def Let_def split: prod.splits)
      ultimately show ?thesis by (intro closes [of s c r]) simp_all
    next
      case (Pending task)
      obtain j t where fin: "finish_opening task (remaining ?d (clock c)) (clock c) = (j, t)" by fastforce
      have t: "clock c \<le> t" "t \<le> ?d"
        using fin wait_for_task_bounds [of task "remaining ?d (clock c)" "clock c"]
        by (auto simp: finish_opening_def remaining_def split: prod.splits option.splits sum.splits)
      note j = finish_opening_owes [OF owes [unfolded Some Pending] fin]
      show ?thesis
      proof (cases j)
        case (Ready s)
        obtain r where "closer s ?d (c\<lparr>clock := t\<rparr>) = (r, c')" "slot' = None"
          using run Some Pending Ready fin by (auto simp: close_slot_def take_for_close_def Let_def split: prod.splits)
        with j Ready t show ?thesis by (intro closes [of s "c\<lparr>clock := t\<rparr>" r]) simp_all
      next
        case Finished
        with j run Some Pending fin t show ?thesis
          by (auto simp: close_slot_def take_for_close_def Let_def slot_owes_def)
      next
        case (Running task')
        with j run Some Pending fin t owes show ?thesis by (auto simp: close_slot_def take_for_close_def Let_def)
      qed
    qed
  qed
qed

lemma start_open_time:
  assumes "start_open op c = (r, slot, c')"
  shows "clock c \<le> clock c' \<and> clock c' \<le> clock c + rpc_timeout"
proof -
  obtain task c2 where spawn: "spawn_task op c = (task, c2)" by fastforce
  then have "clock c2 = clock c" by (auto simp: spawn_task_def split: prod.splits option.splits)
  moreover obtain w t where "wait_for_task task rpc_timeout (clock c2) = (w, t)" by fastforce
  ultimately show ?thesis using assms spawn wait_for_task_bounds [of task rpc_timeout "clock c" w t]
    by (auto simp: start_open_def split: option.splits sum.splits)
qed

lemma open_slot_time:
  assumes owes: "slot_owes live handle slot (owed answers (calls c))" and run: "open_slot op closer slot c = (r, slot', c')"
  shows "clock c \<le> clock c' \<and> clock c' \<le> clock c + 3 * rpc_timeout"
proof (cases "\<exists>task. slot = Some (Pending task)")
  case False
  with run start_open_time [of op c r slot' c'] show ?thesis
    by (cases slot; cases "the slot") (auto simp: open_slot_def)
next
  case True
  then obtain task where slot: "slot = Some (Pending task)" by blast
  obtain j t where fin: "finish_opening task rpc_timeout (clock c) = (j, t)" by fastforce
  have t: "clock c \<le> t" "t \<le> clock c + rpc_timeout"
    using fin wait_for_task_bounds [of task rpc_timeout "clock c"]
    by (auto simp: finish_opening_def split: prod.splits option.splits sum.splits)
  note j = finish_opening_owes [OF owes [unfolded slot] fin]
  show ?thesis
  proof (cases j)
    case (Ready s)
    obtain r1 c1 where cl: "closer s (t + rpc_timeout) (c\<lparr>clock := t\<rparr>) = (r1, c1)" by fastforce
    have "t \<le> clock c1 \<and> clock c1 \<le> t + rpc_timeout" using j Ready close_ok [OF _ cl] by simp
    with start_open_time [of op c1 r slot' c'] run slot fin Ready cl t show ?thesis by (auto simp: open_slot_def)
  next
    case Finished
    with start_open_time [of op "c\<lparr>clock := t\<rparr>" r slot' c'] run slot fin t show ?thesis by (auto simp: open_slot_def)
  next
    case (Running task')
    with run slot fin t show ?thesis by (auto simp: open_slot_def)
  qed
qed

lemma reach_owes:
  "slot_reach opener closer use slot c \<Longrightarrow> slot_owes live handle slot (owed answers (calls c))"
proof (induction rule: slot_reach.induct)
  case (slot_init t)
  show ?case by (simp add: slot_owes_def)
next
  case (slot_opens slot c k r slot' c')
  then show ?case by (blast intro: open_slot_owes)
next
  case (slot_closes slot c slot' c')
  then show ?case using close_slot_owes by blast
next
  case (slot_uses s c s' c')
  then show ?case using use_ok [of s c s' c'] by (simp add: slot_owes_def)
next
  case (slot_idle slot c d)
  then show ?case by simp
qed

end

section \<open>Both kinds of session keep the contract\<close>

lemma ask_calls: "ask answers r c = (v, c') \<Longrightarrow> calls c' = calls c @ [(clock c, r)]"
  by (auto simp: ask_def sleep_for_def split: prod.splits option.splits bool.splits)

lemma ask_mono: "ask answers r c = (v, c') \<Longrightarrow> clock c \<le> clock c'"
  by (auto simp: ask_def sleep_for_def split: prod.splits option.splits bool.splits)

lemma and_then_cases:
  assumes "and_then m f c = (v, c')"
  obtains "m c = (None, c')" "v = None" | a c1 where "m c = (Some a, c1)" "f a c1 = (v, c')"
  using assms by (auto simp: and_then_def split: prod.splits option.splits)

lemma give_up_owed:
  assumes "give_up env h e c = (v, c')"
  shows "(v = None \<or> v = Some (Inl e)) \<and> owed answers (calls c') = give_back h (owed answers (calls c))"
  using assms unfolding give_up_def
  by (elim and_then_cases) (auto simp: ret_def owed_snoc give_back_def fun_eq_iff dest!: ask_calls)

lemma connect_uds_calls: "connect_uds env path c = (v, c') \<Longrightarrow> calls c' = calls c"
  by (auto simp: connect_uds_def sleep_for_def split: prod.splits option.splits bool.splits)

lemma opened_ok_same [simp]:
  "opened_ok f live handle None f" "opened_ok f live handle (Some (Inl e)) f"
  by (simp_all add: opened_ok_def exI [of _ "[]"])

lemma granted_opened:
  assumes g: "granted_ok (e_open env) live handle g"
    and asked: "ask (e_open env) (OpenSession nc) c = (Some (Inr resp), c1)" and run: "g resp c1 = (v, c')"
  shows "opened_ok (owed (e_open env) (calls c)) live handle v (owed (e_open env) (calls c'))"
proof -
  have "\<exists>d. e_open env (length (calls c)) = (Some d, Inr resp)"
    using asked by (auto simp: ask_def sleep_for_def split: prod.splits option.splits bool.splits)
  then have owes: "owed (e_open env) (calls c1) h = owed (e_open env) (calls c) h + of_bool (h = os_session_handle resp)" for h
    using ask_calls [OF asked] by (auto simp: owed_snoc)
  have "grant_outcome (owed (e_open env) (calls c1)) live handle (os_session_handle resp) v (owed (e_open env) (calls c'))"
    using g run by (simp add: granted_ok_def)
  then show ?thesis
  proof (cases v)
    case None
    with \<open>grant_outcome _ _ _ _ _ _\<close> consider "owed (e_open env) (calls c') = owed (e_open env) (calls c1)"
      | "owed (e_open env) (calls c') = give_back (os_session_handle resp) (owed (e_open env) (calls c1))"
      by (auto simp: grant_outcome_def)
    then show ?thesis
    proof cases
      case 1
      then show ?thesis unfolding None opened_ok_def option.case
        by (intro exI [of _ "[os_session_handle resp]"]) (simp add: owes)
    next
      case 2
      then show ?thesis unfolding None opened_ok_def option.case
        by (intro exI [of _ "[]"]) (simp add: owes give_back_def)
    qed
  next
    case (Some r)
    with \<open>grant_outcome _ _ _ _ _ _\<close> show ?thesis
      by (cases r) (auto simp: grant_outcome_def opened_ok_def give_back_def owes)
  qed
qed

lemma ask_open_refused:
  assumes "ask (e_open env) (OpenSession nc) c = (v, c')" "\<nexists>resp. v = Some (Inr resp)"
  shows "owed (e_open env) (calls c') = owed (e_open env) (calls c)"
proof -
  have "\<nexists>d resp. e_open env (length (calls c)) = (Some d, Inr resp)"
    using assms by (auto simp: ask_def sleep_for_def split: prod.splits option.splits bool.splits)
  with ask_calls [OF assms(1)] show ?thesis
    by (auto simp: owed_snoc fun_eq_iff split: option.splits sum.splits prod.splits)
qed

lemma request_session_owed:
  assumes g: "granted_ok (e_open env) live handle g" and run: "request_session env parse uri node g c = (v, c')"
  shows "opened_ok (owed (e_open env) (calls c)) live handle v (owed (e_open env) (calls c'))"
proof (cases "\<exists>nc path. to_node_config parse node = Inr nc \<and> parse_unix_uri uri = Inr path")
  case False
  then show ?thesis using run by (auto simp: request_session_def ret_def split: sum.splits)
next
  case True
  then obtain nc path where ok: "to_node_config parse node = Inr nc" "parse_unix_uri uri = Inr path" by blast
  let ?rest = "\<lambda>connected. if \<not> connected then ret (Inl TransportError)
    else and_then (ask (e_open env) (OpenSession nc))
      (\<lambda>resp. case resp of Inl st \<Rightarrow> ret (Inl (RpcError st)) | Inr resp \<Rightarrow> g resp)"
  have "and_then (connect_uds env path) ?rest c = (v, c')" using run ok by (simp add: request_session_def)
  then show ?thesis
  proof (cases rule: and_then_cases)
    case 1
    then show ?thesis using connect_uds_calls [OF 1(1)] by simp
  next
    case (2 connected c1)
    have c1: "calls c1 = calls c" by (rule connect_uds_calls [OF 2(1)])
    show ?thesis
    proof (cases connected)
      case False
      with 2 c1 show ?thesis by (auto simp: ret_def)
    next
      case True
      with 2(2) have "and_then (ask (e_open env) (OpenSession nc))
          (\<lambda>resp. case resp of Inl st \<Rightarrow> ret (Inl (RpcError st)) | Inr resp \<Rightarrow> g resp) c1 = (v, c')" by simp
      then show ?thesis
      proof (cases rule: and_then_cases)
        case 1
        with ask_open_refused [OF 1(1)] c1 show ?thesis by simp
      next
        case (2 reply c2)
        show ?thesis
        proof (cases reply)
          case (Inl st)
          with 2 ask_open_refused [OF 2(1)] c1 show ?thesis by (auto simp: ret_def)
        next
          case (Inr resp)
          with 2 have "ask (e_open env) (OpenSession nc) c1 = (Some (Inr resp), c2)" "g resp c2 = (v, c')" by simp_all
          from granted_opened [OF g this] c1 show ?thesis by simp
        qed
      qed
    qed
  qed
qed

lemma ask_neutral:
  assumes "ask answers r c = (v, c')" "\<forall>nc. r \<noteq> OpenSession nc" "\<forall>h. r \<noteq> CloseSession h"
  shows "owed opens (calls c') = owed opens (calls c)"
  using ask_calls [OF assms(1)] assms(2,3) by (auto simp: owed_snoc fun_eq_iff split: rpc.splits)

lemma rpc_add_resource_neutral:
  assumes "add_resource_call env handle sd name tr tf c = (v, c')"
  shows "owed opens (calls c') = owed opens (calls c)"
  using assms by (cases sd) (auto simp: ret_def dest: ask_neutral elim!: and_then_cases)

lemma grant_outcome_give_up:
  "give_up env h e c = (v, c') \<Longrightarrow> owed opens (calls c) = f \<Longrightarrow>
   grant_outcome f live handle h v (owed opens (calls c'))"
  using give_up_owed [of env h e c v c' opens] by (auto simp: grant_outcome_def)

lemma open_granted_ok: "granted_ok opens sn_client sn_session_handle (open_granted env sd name tr tfile)"
  unfolding granted_ok_def
proof (intro allI impI)
  fix resp :: open_session_response and c :: client and v c'
  let ?h = "os_session_handle resp"
  assume run: "open_granted env sd name tr tfile resp c = (v, c')"
  let ?goal = "grant_outcome (owed opens (calls c)) sn_client sn_session_handle ?h v (owed opens (calls c'))"
  have added: ?goal if "and_then (add_resource_call env ?h sd name tr tf) (\<lambda>added.
      case added of Inl e \<Rightarrow> give_up env ?h e | Inr r \<Rightarrow> ret (Inr (opened_session resp (Some r)))) c1 = (v, c')"
      and c1: "owed opens (calls c1) = owed opens (calls c)" for tf c1
    using that(1)
  proof (cases rule: and_then_cases)
    case 1
    with rpc_add_resource_neutral [OF 1(1), of opens] c1 show ?thesis by (simp add: grant_outcome_def)
  next
    case (2 a c2)
    with rpc_add_resource_neutral [OF 2(1), of opens] c1 show ?thesis
      by (cases a) (auto simp: grant_outcome_def ret_def opened_session_def intro: grant_outcome_give_up [unfolded grant_outcome_def])
  qed
  show ?goal using run [unfolded open_granted_def Let_def]
  proof (cases rule: and_then_cases)
    case 1
    with ask_neutral [OF 1(1), of opens] show ?thesis by (simp add: grant_outcome_def)
  next
    case (2 sub c1)
    have c1: "owed opens (calls c1) = owed opens (calls c)" using ask_neutral [OF 2(1), of opens] by simp
    show ?thesis
    proof (cases sub)
      case (Inl st)
      with 2 c1 show ?thesis by (intro grant_outcome_give_up [of env ?h "RpcError st" c1]) simp_all
    next
      case (Inr u)
      show ?thesis
      proof (cases tfile)
        case None
        with Inr 2 c1 show ?thesis by (auto simp: grant_outcome_def ret_def opened_session_def)
      next
        case (Some tf)
        with Inr 2 c1 show ?thesis by (intro added [of tf c1]) simp_all
      qed
    qed
  qed
qed

lemma cm_open_granted_ok: "granted_ok opens cs_client cs_session_handle (cm_open_granted env)"
  unfolding granted_ok_def
proof (intro allI impI)
  fix resp :: open_session_response and c :: client and v c'
  let ?h = "os_session_handle resp"
  assume "cm_open_granted env resp c = (v, c')"
  then show "grant_outcome (owed opens (calls c)) cs_client cs_session_handle ?h v (owed opens (calls c'))"
    unfolding cm_open_granted_def Let_def
  proof (cases rule: and_then_cases)
    case 1
    with ask_neutral [OF 1(1), of opens] show ?thesis by (simp add: grant_outcome_def)
  next
    case (2 sub c1)
    have c1: "owed opens (calls c1) = owed opens (calls c)" using ask_neutral [OF 2(1), of opens] by simp
    show ?thesis
    proof (cases sub)
      case (Inl st)
      with 2 c1 show ?thesis by (intro grant_outcome_give_up [of env ?h "RpcError st" c1]) simp_all
    next
      case (Inr u)
      with 2 c1 show ?thesis by (auto simp: grant_outcome_def ret_def new_cm_session_def)
    qed
  qed
qed

section \<open>Closing\<close>

lemma close_session_spec:
  assumes "close_session_call answers h d c = (r, c')"
  shows "calls c' = calls c @ [(clock c, CloseSession h)] \<and> clock c \<le> clock c' \<and> clock c' \<le> max (clock c) d"
proof -
  obtain call c1 where spawn: "spawn_task (timeout rpc_timeout (ask answers (CloseSession h))) c = (call, c1)" by fastforce
  have "calls c1 = calls c @ [(clock c, CloseSession h)]" "clock c1 = clock c"
    using spawn by (auto simp: spawn_task_def timeout_def dest!: ask_calls split: prod.splits option.splits if_splits)
  moreover obtain w t where "wait_for_task call (remaining d (clock c1)) (clock c1) = (w, t)" by fastforce
  ultimately show ?thesis using assms spawn wait_for_task_bounds [of call "remaining d (clock c1)" "clock c1" w t]
    by (auto simp: close_session_call_def remaining_def split: option.splits sum.splits)
qed

text \<open>At time \<open>t\<close> the task has ended, or the deadline has passed and it was aborted.\<close>

lemma settle_option_frame [simp]: "calls (settle_option task d c) = calls c"
  by (simp add: settle_option_def split: option.splits)

lemma settle_option_clock:
  "clock c \<le> clock (settle_option task d c)" "clock (settle_option task d c) \<le> max (clock c) d"
  "settled_by task d (clock (settle_option task d c))"
  by (auto simp: settled_by_def settle_option_def settle_task_def remaining_def wait_for_task_def split: option.splits)

lemma settled_by_mono: "settled_by task d t \<Longrightarrow> t \<le> t' \<Longrightarrow> settled_by task d t'"
  by (auto simp: settled_by_def split: option.splits)

lemma detached_close_spec:
  assumes "detached_close env h add sync d c = (r, c')"
  shows "\<exists>t. calls c' = calls c @ [(t, CloseSession h)] \<and> settled_by add d t \<and> settled_by sync d t \<and>
    clock c \<le> t \<and> t \<le> clock c' \<and> clock c' \<le> max (clock c) d"
proof -
  let ?c1 = "settle_option add d c" let ?c2 = "settle_option sync d ?c1"
  have "clock c \<le> clock ?c1" "clock ?c1 \<le> clock ?c2" "clock ?c2 \<le> max (clock c) d"
    using settle_option_clock(1,2) [where c = c and task = add and d = d]
      settle_option_clock(1,2) [where c = ?c1 and task = sync and d = d] by auto
  moreover have "settled_by add d (clock ?c2)" "settled_by sync d (clock ?c2)"
    using settle_option_clock(3) settled_by_mono calculation(2) by blast+
  ultimately show ?thesis using close_session_spec [OF assms [unfolded detached_close_def]] by auto
qed

lemma drive_call_calls:
  assumes "drive_call inflight body c = (r, inflight', c')" "body c = (v, c1)"
  shows "if inflight = None then calls c' = calls c1 else c' = c \<and> inflight' = inflight \<and> r = Inl Outstanding"
proof (cases "inflight = None")
  case True
  obtain task c2 where spawn: "spawn_task body c = (task, c2)" by fastforce
  from spawn_task_calls [OF spawn assms(2)] True assms(1) spawn show ?thesis
    by (auto simp: drive_call_def split: prod.splits option.splits sum.splits)
qed (use assms in \<open>auto simp: drive_call_def\<close>)

lemma drive_call_neutral:
  assumes "drive_call inflight body c = (r, inflight', c')"
    and "\<And>v c1. body c = (v, c1) \<Longrightarrow> owed opens (calls c1) = owed opens (calls c)"
  shows "owed opens (calls c') = owed opens (calls c)"
proof -
  obtain v c1 where body: "body c = (v, c1)" by fastforce
  from drive_call_calls [OF assms(1) body] assms(2) [OF body] show ?thesis by (auto split: if_splits)
qed

lemma ask_ret_neutral:
  assumes "and_then (ask answers r) (\<lambda>x. ret (f x)) c = (v, c1)" "\<forall>nc. r \<noteq> OpenSession nc" "\<forall>h. r \<noteq> CloseSession h"
  shows "owed opens (calls c1) = owed opens (calls c)"
  using assms(1) by (cases rule: and_then_cases) (auto simp: ret_def dest: ask_neutral [OF _ assms(2,3)])

lemma session_use_ok:
  assumes "session_use env s c s' c'"
  shows "sn_client s' = sn_client s \<and> sn_session_handle s' = sn_session_handle s \<and>
    owed opens (calls c') = owed opens (calls c)"
  using assms unfolding session_use_def
proof (elim disjE exE)
  fix sd name tr tf r assume run: "session_add_resource env sd name tr tf s c = (r, s', c')"
  obtain res infl c1 where dr: "drive_call (sn_inflight_add s)
      (add_resource_call env (sn_session_handle s) sd name tr tf) c = (res, infl, c1)" by (metis prod_cases3)
  have "owed opens (calls c1) = owed opens (calls c)"
    by (rule drive_call_neutral [OF dr]) (rule rpc_add_resource_neutral)
  with run dr show ?thesis by (auto simp: session_add_resource_def split: if_splits sum.splits)
next
  fix tf r assume run: "session_sync_resource_state env tf s c = (r, s', c')"
  let ?body = "\<lambda>a. and_then (ask (e_sync env) (SyncResourceState (sn_session_handle s) (ad_handle a) tf)) (\<lambda>r. ret (map_reply id r))"
  have "owed opens (calls c1) = owed opens (calls c)" if "drive_call (sn_inflight_sync s) (?body a) c = (res, infl, c1)" for a res infl c1
    by (rule drive_call_neutral [OF that]) (erule ask_ret_neutral, simp_all)
  with run show ?thesis
    by (fastforce simp: session_sync_resource_state_def split: if_splits option.splits prod.splits)
qed (simp add: mark_activation_incomplete_def)

lemma cm_session_use_ok:
  assumes "cm_session_use env s c s' c'"
  shows "cs_client s' = cs_client s \<and> cs_session_handle s' = cs_session_handle s \<and>
    owed opens (calls c') = owed opens (calls c)"
  using assms unfolding cm_session_use_def
proof (elim disjE exE)
  fix request r assume run: "cm_add_channel_mapping env request s c = (r, s', c')"
  obtain res infl c1 where dr: "drive_call (cs_inflight_add s)
      (and_then (ask (e_add_cm env) (AddChannelMapping request)) (\<lambda>r. ret (map_reply id r))) c = (res, infl, c1)"
    by (metis prod_cases3)
  have "owed opens (calls c1) = owed opens (calls c)"
    by (rule drive_call_neutral [OF dr]) (erule ask_ret_neutral, simp_all)
  with run dr show ?thesis by (auto simp: cm_add_channel_mapping_def split: if_splits sum.splits)
next
  fix output_id active_map r assume run: "cm_sync_channel_mapping_state env output_id active_map s c = (r, s', c')"
  let ?body = "\<lambda>a. and_then (ask (e_sync env) (SyncChannelMappingState (cs_session_handle s) a output_id active_map))
    (\<lambda>r. ret (map_reply id r))"
  have "owed opens (calls c1) = owed opens (calls c)" if "drive_call (cs_inflight_sync s) (?body a) c = (res, infl, c1)" for a res infl c1
    by (rule drive_call_neutral [OF that]) (erule ask_ret_neutral, simp_all)
  with run show ?thesis
    by (fastforce simp: cm_sync_channel_mapping_state_def split: if_splits option.splits prod.splits)
next
  fix r assume "cm_remove_channel_mapping env s c = (Some r, s', c')"
  then show ?thesis
    by (auto simp: cm_remove_channel_mapping_def Let_def split: option.splits if_splits prod.splits dest: ask_neutral)
qed

interpretation media: client_session "e_open env" "session_opener env" "session_close env" "session_use env"
  sn_client sn_session_handle for env
proof unfold_locales
  have opened: "opened_ok (owed (e_open env) (calls c)) sn_client sn_session_handle v (owed (e_open env) (calls c'))"
    if "session_opener env k c = (v, c')" for k c v c'
    using that request_session_owed [OF open_granted_ok]
    by (auto simp: session_opener_def session_open_def split: prod.splits)
  fix k c s c' e d r s'
  show "sn_client s \<and> (\<forall>h. owed (e_open env) (calls c') h = owed (e_open env) (calls c) h + of_bool (h = sn_session_handle s))"
    if "session_opener env k c = (Some (Inr s), c')"
    using opened [OF that] by (simp add: opened_ok_def)
  show "\<forall>h. owed (e_open env) (calls c') h = owed (e_open env) (calls c) h"
    if "session_opener env k c = (Some (Inl e), c')"
    using opened [OF that] by (simp add: opened_ok_def)
  show "\<exists>held. length held \<le> 1 \<and> (\<forall>h. owed (e_open env) (calls c') h = owed (e_open env) (calls c) h + int (count_list held h))"
    if "session_opener env k c = (None, c')"
    using opened [OF that] by (simp add: opened_ok_def)
  show "(\<forall>h. owed (e_open env) (calls c') h = owed (e_open env) (calls c) h - of_bool (h = sn_session_handle s)) \<and>
      clock c \<le> clock c' \<and> clock c' \<le> max (clock c) d"
    if "sn_client s" "session_close env s d c = (r, c')"
    using that detached_close_spec [of env "sn_session_handle s" "sn_inflight_add s" "sn_inflight_sync s" d c r c']
    by (auto simp: session_close_def owed_snoc)
  show "sn_client s' \<and> sn_session_handle s' = sn_session_handle s \<and>
      (\<forall>h. owed (e_open env) (calls c') h = owed (e_open env) (calls c) h)"
    if "sn_client s" "session_use env s c s' c'"
    using that(1) session_use_ok [OF that(2), of "e_open env"] by simp
qed

interpretation mapping: client_session "e_open env" "cm_session_opener env" "cm_session_close env" "cm_session_use env"
  cs_client cs_session_handle for env
proof unfold_locales
  have opened: "opened_ok (owed (e_open env) (calls c)) cs_client cs_session_handle v (owed (e_open env) (calls c'))"
    if "cm_session_opener env k c = (v, c')" for k c v c'
    using that request_session_owed [OF cm_open_granted_ok]
    by (auto simp: cm_session_opener_def cm_session_open_def split: prod.splits)
  fix k c s c' e d r s'
  show "cs_client s \<and> (\<forall>h. owed (e_open env) (calls c') h = owed (e_open env) (calls c) h + of_bool (h = cs_session_handle s))"
    if "cm_session_opener env k c = (Some (Inr s), c')"
    using opened [OF that] by (simp add: opened_ok_def)
  show "\<forall>h. owed (e_open env) (calls c') h = owed (e_open env) (calls c) h"
    if "cm_session_opener env k c = (Some (Inl e), c')"
    using opened [OF that] by (simp add: opened_ok_def)
  show "\<exists>held. length held \<le> 1 \<and> (\<forall>h. owed (e_open env) (calls c') h = owed (e_open env) (calls c) h + int (count_list held h))"
    if "cm_session_opener env k c = (None, c')"
    using opened [OF that] by (simp add: opened_ok_def)
  show "(\<forall>h. owed (e_open env) (calls c') h = owed (e_open env) (calls c) h - of_bool (h = cs_session_handle s)) \<and>
      clock c \<le> clock c' \<and> clock c' \<le> max (clock c) d"
    if "cs_client s" "cm_session_close env s d c = (r, c')"
    using that detached_close_spec [of env "cs_session_handle s" "cs_inflight_add s" "cs_inflight_sync s" d c r c']
    by (auto simp: cm_session_close_def owed_snoc)
  show "cs_client s' \<and> cs_session_handle s' = cs_session_handle s \<and>
      (\<forall>h. owed (e_open env) (calls c') h = owed (e_open env) (calls c) h)"
    if "cs_client s" "cm_session_use env s c s' c'"
    using that(1) cm_session_use_ok [OF that(2), of "e_open env"] by simp
qed

lemma slot_owes_balanced:
  assumes "slot_owes live handle slot (owed answers (calls c))"
  shows "balanced answers handle slot c"
proof -
  have "count_list (granted answers (calls c)) h = count_list (closed_handles (calls c)) h + of_bool (h = handle s)"
    if "slot = Some (Open s)" for s h
  proof -
    have "owed answers (calls c) h = of_bool (h = handle s)" using assms that by (simp add: slot_owes_def)
    then show ?thesis by (cases "h = handle s") (simp_all add: owed_def)
  qed
  moreover have "count_list (granted answers (calls c)) h = count_list (closed_handles (calls c)) h"
    if "slot = None" for h
    using assms that by (simp add: slot_owes_def owed_def)
  ultimately show ?thesis by (simp add: balanced_def)
qed

section \<open>A daemon for examples\<close>

lemma demo_env_simps [simp]:
  "e_connect demo_env = (\<lambda>_. (Some 1, True))" "e_open demo_env = (\<lambda>_. (Some 1, Inr demo_response))"
  "e_subscribe demo_env = (\<lambda>_. (Some 1, Inr ()))" "e_close demo_env = (\<lambda>_. (Some 1, Inr ()))"
  "os_session_handle demo_response = ''s1''"
  by (simp_all add: demo_env_def demo_response_def)

lemma demo_opened:
  "\<exists>s c. slot_reach (session_opener demo_env) (session_close demo_env) (session_use demo_env) (Some (Open s)) c \<and>
     count_list (granted (e_open demo_env) (calls c)) ''s1'' = 1"
proof -
  let ?start = "\<lparr>clock = 0, calls = []\<rparr>"
  let ?node = "\<lparr>nst_node_seed = ''seed'', nst_http_port = 0, nst_host_name = [], nst_node_properties = None,
    nst_domain = [], nst_registration_url = [], nst_system_url = []\<rparr>"
  let ?k = "(\<lambda>_. None, ''unix:/tmp/d'', ?node, Sender, ''cam'', PtRtp, None) :: open_request"
  obtain nc where nc: "to_node_config (\<lambda>_. None) ?node = Inr nc" by (simp add: to_node_config_def)
  have uri: "parse_unix_uri ''unix:/tmp/d'' = Inr ''/tmp/d''"
    by (simp add: parse_unix_uri_def strip_prefix_def starts_with_def)
  let ?c = "\<lparr>clock = 3, calls = [(1, OpenSession nc), (2, SubscribeActivations ''s1'')]\<rparr>"
  have "session_opener demo_env ?k ?start = (Some (Inr demo_session), ?c)"
    by (simp add: session_opener_def session_open_def request_session_def nc uri and_then_def connect_uds_def
        sleep_for_def ask_def open_granted_def ret_def demo_session_def Let_def)
  then have "open_slot (session_opener demo_env ?k) (session_close demo_env) None ?start = (Inr (), Some (Open demo_session), ?c)"
    by (simp add: open_slot_def start_open_def spawn_task_def wait_for_task_def rpc_timeout_def)
  then have "slot_reach (session_opener demo_env) (session_close demo_env) (session_use demo_env) (Some (Open demo_session)) ?c"
    by (rule slot_opens [OF slot_init])
  moreover have "granted (e_open demo_env) (calls ?c) = [''s1'']" by (simp add: granted_def map_filter_def)
  ultimately show ?thesis by (metis count_list.simps add_0)
qed

section \<open>Properties\<close>

text \<open>
  C20. No session is lost. Whatever an element did with its slot and however the daemon answered, the
  daemon has been asked to close each session it granted exactly once, except for the one that the
  slot holds; with an empty slot every session was closed. This holds for the sessions of senders
  and receivers and for those of channel mappings.
\<close>

theorem sessions_never_leak:
  "(slot_reach (session_opener env) (session_close env) (session_use env) slot c \<longrightarrow>
      balanced (e_open env) sn_session_handle slot c) \<and>
   (slot_reach (cm_session_opener env) (cm_session_close env) (cm_session_use env) cm_slot c \<longrightarrow>
      balanced (e_open env) cs_session_handle cm_slot c)"
  by (intro conjI impI) (erule media.reach_owes [THEN slot_owes_balanced], erule mapping.reach_owes [THEN slot_owes_balanced])

theorem sessions_never_leak_witness:
  "\<exists>(s :: session) c. count_list (granted (e_open demo_env) (calls c)) ''s1'' = 1 \<and>
     balanced (e_open demo_env) sn_session_handle (Some (Open s)) c"
proof -
  obtain s c where "slot_reach (session_opener demo_env) (session_close demo_env) (session_use demo_env) (Some (Open s)) c"
      "count_list (granted (e_open demo_env) (calls c)) ''s1'' = 1"
    using demo_opened by blast
  with sessions_never_leak [of demo_env "Some (Open s)" c None, THEN conjunct1, THEN mp] show ?thesis by blast
qed

text \<open>
  C21. Every state change returns. Whatever the daemon does, even if it never answers, closing takes
  at most the RPC timeout, all its steps together, and leaves no open session in the slot; opening
  takes at most three times the RPC timeout: to join an open that was left running, to close what
  came of it, and to open anew.
\<close>

theorem state_changes_return:
  assumes "slot_reach (session_opener env) (session_close env) (session_use env) slot c"
  shows "(\<forall>slot' c'. close_slot (session_close env) slot c = (slot', c') \<longrightarrow>
      clock c' \<le> clock c + rpc_timeout \<and> (\<forall>s. slot' \<noteq> Some (Open s))) \<and>
    (\<forall>k r slot' c'. open_slot (session_opener env k) (session_close env) slot c = (r, slot', c') \<longrightarrow>
      clock c' \<le> clock c + 3 * rpc_timeout \<and> ((\<exists>s. slot' = Some (Open s)) \<longleftrightarrow> r = Inr () \<or> r = Inl AlreadyOpen))"
proof -
  note owes = media.reach_owes [OF assms]
  have "clock c' \<le> clock c + rpc_timeout \<and> (\<forall>s. slot' \<noteq> Some (Open s))"
    if "close_slot (session_close env) slot c = (slot', c')" for slot' c'
    using media.close_slot_owes [OF owes that] by simp
  moreover have "clock c' \<le> clock c + 3 * rpc_timeout \<and> ((\<exists>s. slot' = Some (Open s)) \<longleftrightarrow> r = Inr () \<or> r = Inl AlreadyOpen)"
    if "open_slot (session_opener env k) (session_close env) slot c = (r, slot', c')" for k r slot' c'
    using media.open_slot_time [OF owes that] open_slot_result [OF that] by simp
  ultimately show ?thesis by blast
qed

theorem state_changes_return_witness:
  "\<exists>slot c slot' c'. slot_reach (session_opener demo_env) (session_close demo_env) (session_use demo_env) slot c \<and>
     close_slot (session_close demo_env) slot c = (slot', c') \<and> clock c' \<le> clock c + rpc_timeout"
proof -
  obtain s c where reach: "slot_reach (session_opener demo_env) (session_close demo_env) (session_use demo_env) (Some (Open s)) c"
    using demo_opened by blast
  obtain slot' c' where "close_slot (session_close demo_env) (Some (Open s)) c = (slot', c')" by fastforce
  with state_changes_return [OF reach] reach show ?thesis by blast
qed

text \<open>
  Outstanding calls. While an AddSender or AddReceiver is outstanding, adding again sends
  nothing and does not take the result of the first call. Closing the session then sends exactly
  one CloseSession, not before the outstanding calls have ended or the deadline has passed, and
  nothing after it.
\<close>

theorem outstanding_calls_settled:
  assumes "sn_client s"
  shows "(sn_inflight_add s \<noteq> None \<longrightarrow>
      (\<exists>e. session_add_resource env sd name tr tf s c = (Inl e, s, c) \<and> e \<in> {AlreadyAdded, Outstanding})) \<and>
    (\<forall>r c'. session_close env s d c = (r, c') \<longrightarrow>
      (\<exists>t. calls c' = calls c @ [(t, CloseSession (sn_session_handle s))] \<and>
        settled_by (sn_inflight_add s) d t \<and> settled_by (sn_inflight_sync s) d t \<and>
        clock c \<le> t \<and> t \<le> clock c' \<and> clock c' \<le> max (clock c) d))"
  using assms detached_close_spec [of env "sn_session_handle s" "sn_inflight_add s" "sn_inflight_sync s" d c]
  by (auto simp: session_add_resource_def drive_call_def session_close_def)

theorem outstanding_calls_settled_witness:
  "\<exists>c'. session_close demo_env (demo_session\<lparr>sn_inflight_add := Some None\<rparr>) 7 \<lparr>clock = 0, calls = []\<rparr> = (Inl TimedOut, c') \<and>
     (\<exists>t. calls c' = [(t, CloseSession ''s1'')] \<and> 7 \<le> t)"
proof -
  let ?s = "demo_session\<lparr>sn_inflight_add := Some None\<rparr>"
  obtain c' where "session_close demo_env ?s 7 \<lparr>clock = 0, calls = []\<rparr> = (Inl TimedOut, c')"
    by (simp add: session_close_def demo_session_def opened_session_def demo_response_def detached_close_def
        settle_option_def settle_task_def wait_for_task_def remaining_def close_session_call_def spawn_task_def
        timeout_def ask_def sleep_for_def rpc_timeout_def)
  with outstanding_calls_settled [of ?s demo_env Sender "[]" PtRtp "[]" "\<lparr>clock = 0, calls = []\<rparr>" 7]
  show ?thesis by (auto simp: demo_session_def opened_session_def demo_response_def settled_by_def)
qed

end
