(* ===== verification/Gst_FlowDef.thy ===== *)
theory Gst_FlowDef
  imports Gst_Prelude "HOL-Library.AList"
begin

text \<open>
  MXL flow definitions (\<^verbatim>\<open>flow_def.rs\<close>) and the identity of an MXL Domain
  (\<^verbatim>\<open>domain.rs\<close>), with the formats and enums of \<^verbatim>\<open>types.rs\<close>.

  A flow definition is JSON. The text is read and written by \<^verbatim>\<open>serde_json\<close>: \<open>from_str\<close> and
  \<open>to_string\<close> are parameters, and an object is an association list with distinct keys. Reading
  into a Rust struct is written out: an object is read by field names and an array by position,
  unknown fields are ignored, and a field of the wrong type is an error. The constructor of GStreamer
  fractions is a parameter that gives \<open>None\<close> where it panics. Texts of errors are left out.
\<close>

section \<open>Formats\<close>

datatype flow_format = FmtUnspecified | FmtVideo | FmtAudio | FmtData

fun as_format_urn :: "flow_format \<Rightarrow> string option" where
  "as_format_urn FmtUnspecified = None"
| "as_format_urn FmtVideo = Some ''urn:x-nmos:format:video''"
| "as_format_urn FmtAudio = Some ''urn:x-nmos:format:audio''"
| "as_format_urn FmtData = Some ''urn:x-nmos:format:data''"

definition from_format_urn :: "string \<Rightarrow> flow_format" where
  "from_format_urn s =
     (if s = ''urn:x-nmos:format:video'' then FmtVideo
      else if s = ''urn:x-nmos:format:audio'' then FmtAudio
      else if s = ''urn:x-nmos:format:data'' then FmtData
      else FmtUnspecified)"

definition format_from_caps :: "gst_caps \<Rightarrow> flow_format" where
  "format_from_caps caps =
     (case caps of
        [] \<Rightarrow> FmtUnspecified
      | (name, _) # _ \<Rightarrow>
          if name = ''video/x-raw'' then FmtVideo
          else if name = ''audio/x-raw'' then FmtAudio
          else if name = ''meta/x-st-2038'' then FmtData
          else FmtUnspecified)"

datatype caps_mode = CapsAuto | CapsConstrained | CapsUnconstrained

section \<open>Numbers and structs in JSON\<close>

definition show_int :: "int \<Rightarrow> string" where
  "show_int n = (if n < 0 then CHR ''-'' # show_nat (nat (- n)) else show_nat (nat n))"

definition digits_value :: "string \<Rightarrow> nat option" where
  "digits_value s = (if s = [] then None else parse_digits 0 s)"

definition parse_int :: "string \<Rightarrow> int option" where
  "parse_int s =
     (case s of
        [] \<Rightarrow> None
      | c # rest \<Rightarrow>
          if c = CHR ''-''
          then (case digits_value rest of Some n \<Rightarrow> if n = 0 then None else Some (- int n) | None \<Rightarrow> None)
          else map_option int (digits_value s))"

definition json_int :: "int \<Rightarrow> json" where
  "json_int n = JNumber (show_int n)"

fun as_int :: "json \<Rightarrow> int option" where
  "as_int (JNumber s) = parse_int s"
| "as_int _ = None"

definition as_i32 :: "json \<Rightarrow> int option" where
  "as_i32 v = (case as_int v of Some n \<Rightarrow> if i32_range n then Some n else None | None \<Rightarrow> None)"

definition as_i64 :: "json \<Rightarrow> int option" where
  "as_i64 v = (case as_int v of Some n \<Rightarrow> if - (2 ^ 63) \<le> n \<and> n < 2 ^ 63 then Some n else None | None \<Rightarrow> None)"

text \<open>
  The value of each field of a derived struct: from an object by name, from an array by position.
\<close>

definition struct_fields :: "string list \<Rightarrow> json \<Rightarrow> (string \<Rightarrow> json option) option" where
  "struct_fields names v =
     (case v of
        JObject m \<Rightarrow> Some (map_of m)
      | JArray xs \<Rightarrow> if length xs = length names then Some (map_of (zip names xs)) else None
      | _ \<Rightarrow> None)"

text \<open>An optional field: absent or null, or a value of the right type.\<close>

definition opt_field :: "(json \<Rightarrow> 'a option) \<Rightarrow> (string \<Rightarrow> json option) \<Rightarrow> string \<Rightarrow> 'a option option" where
  "opt_field conv get name =
     (case get name of
        None \<Rightarrow> Some None
      | Some v \<Rightarrow> if v = JNull then Some None else map_option Some (conv v))"

definition as_rational :: "json \<Rightarrow> (int \<times> int) option" where
  "as_rational v =
     (case struct_fields [''numerator'', ''denominator''] v of
        None \<Rightarrow> None
      | Some get \<Rightarrow>
          (case (Option.bind (get ''numerator'') as_i64, Option.bind (get ''denominator'') as_i64) of
             (Some n, Some d) \<Rightarrow> Some (n, d)
           | _ \<Rightarrow> None))"

section \<open>The MXL Domain\<close>

datatype domain_id = Concrete string | ApplicationResolved

datatype domain_error = DomainMismatch string string | DomainRead | DomainParse | DomainMissingId | DomainUnconfigured

datatype file_read = FileText string | FileNotFound | FileUnreadable

fun tag_json :: "domain_id \<Rightarrow> json" where
  "tag_json (Concrete i) = JArray [JString i]"
| "tag_json ApplicationResolved = JArray [JString []]"

definition read_domain_def_id ::
  "(string \<Rightarrow> json option) \<Rightarrow> (string \<Rightarrow> file_read) \<Rightarrow> string \<Rightarrow> domain_error + string option" where
  "read_domain_def_id from_str read domain_path =
     (case read (domain_path @ ''/domain_def.json'') of
        FileNotFound \<Rightarrow> Inr None
      | FileUnreadable \<Rightarrow> Inl DomainRead
      | FileText text \<Rightarrow>
          (case Option.bind (from_str text) (struct_fields [''id'']) of
             None \<Rightarrow> Inl DomainParse
           | Some get \<Rightarrow>
               (case opt_field json_as_str get ''id'' of
                  None \<Rightarrow> Inl DomainParse
                | Some i \<Rightarrow>
                    (let domain = (case i of Some s \<Rightarrow> s | None \<Rightarrow> [])
                     in if domain = [] then Inl DomainMissingId else Inr (Some domain)))))"

definition resolve_mxl_domain_id ::
  "(string \<Rightarrow> json option) \<Rightarrow> (string \<Rightarrow> file_read) \<Rightarrow> string \<Rightarrow> string \<Rightarrow> domain_error + domain_id" where
  "resolve_mxl_domain_id from_str read property_id domain_path =
     (case (if domain_path \<noteq> [] then read_domain_def_id from_str read domain_path else Inr None) of
        Inl e \<Rightarrow> Inl e
      | Inr (Some file_id) \<Rightarrow>
          if property_id = [] then Inr (Concrete file_id)
          else if file_id = property_id then Inr (Concrete file_id)
          else Inl (DomainMismatch property_id file_id)
      | Inr None \<Rightarrow>
          if property_id \<noteq> [] then Inr (Concrete property_id)
          else if domain_path \<noteq> [] then Inr ApplicationResolved
          else Inl DomainUnconfigured)"

section \<open>Reading flow definitions\<close>

datatype flow_def_error =
    FlowParse
  | UnknownFormat string
  | IdMismatch string string
  | FormatMismatch flow_format flow_format
  | NotAnObject
  | TagsNotAnObject
  | MissingName
  | EmptyCaps
  | UnsupportedCaps string
  | MissingCapsField string string
  | UnsupportedCapsValue string string string
  | InvalidDomainIdTag

record flow_def_meta =
  fm_id :: string
  fm_format :: flow_format

datatype value_origin = OriginProperty | OriginFile | OriginBoth | OriginNone

record flow_resolution =
  fr_id :: string
  fr_id_origin :: value_origin
  fr_format :: flow_format
  fr_format_origin :: value_origin

definition read_flow_def_meta :: "(string \<Rightarrow> json option) \<Rightarrow> string \<Rightarrow> flow_def_error + flow_def_meta" where
  "read_flow_def_meta from_str text =
     (case Option.bind (from_str text) (struct_fields [''id'', ''format'']) of
        None \<Rightarrow> Inl FlowParse
      | Some get \<Rightarrow>
          (case (opt_field json_as_str get ''id'', opt_field json_as_str get ''format'') of
             (Some i, Some fmt) \<Rightarrow>
               (let flow_id = (case i of Some s \<Rightarrow> s | None \<Rightarrow> [])
                in case fmt of
                     None \<Rightarrow> Inr \<lparr>fm_id = flow_id, fm_format = FmtUnspecified\<rparr>
                   | Some urn \<Rightarrow>
                       if from_format_urn urn = FmtUnspecified then Inl (UnknownFormat urn)
                       else Inr \<lparr>fm_id = flow_id, fm_format = from_format_urn urn\<rparr>)
           | _ \<Rightarrow> Inl FlowParse))"

definition name_tag :: string where
  "name_tag = ''urn:x-nvnmos:tag:name''"

definition mxl_domain_id_tag :: string where
  "mxl_domain_id_tag = ''urn:x-nvnmos:tag:mxl-domain-id''"

definition group_hint_tag :: string where
  "group_hint_tag = ''urn:x-nmos:tag:grouphint/v1.0''"

definition caps_tag :: string where
  "caps_tag = ''urn:x-nvnmos:tag:caps''"

text \<open>The loop over the entries of the tag; \<open>concrete\<close> are the identities so far.\<close>

fun domain_id_entries :: "string list \<Rightarrow> json list \<Rightarrow> flow_def_error + domain_id" where
  "domain_id_entries concrete [] =
     (case concrete of [i] \<Rightarrow> Inr (Concrete i) | _ \<Rightarrow> Inl InvalidDomainIdTag)"
| "domain_id_entries concrete (v # vs) =
     (case json_as_str v of
        None \<Rightarrow> Inl InvalidDomainIdTag
      | Some s \<Rightarrow>
          if s = [] then (if concrete \<noteq> [] then Inl InvalidDomainIdTag else Inr ApplicationResolved)
          else domain_id_entries (concrete @ [s]) vs)"

fun mxl_domain_id_from_tag_value :: "json \<Rightarrow> flow_def_error + domain_id" where
  "mxl_domain_id_from_tag_value (JArray arr) =
     (if arr = [] then Inr ApplicationResolved else domain_id_entries [] arr)"
| "mxl_domain_id_from_tag_value _ = Inl InvalidDomainIdTag"

fun as_object :: "json \<Rightarrow> (string \<times> json) list option" where
  "as_object (JObject m) = Some m"
| "as_object _ = None"

fun as_array :: "json \<Rightarrow> json list option" where
  "as_array (JArray xs) = Some xs"
| "as_array _ = None"

definition mxl_domain_id_from_transport ::
  "(string \<Rightarrow> json option) \<Rightarrow> string \<Rightarrow> flow_def_error + domain_id" where
  "mxl_domain_id_from_transport from_str text =
     (case from_str text of
        None \<Rightarrow> Inl FlowParse
      | Some raw \<Rightarrow>
          (case Option.bind (json_get ''tags'' raw) as_object of
             None \<Rightarrow> Inr ApplicationResolved
           | Some tags \<Rightarrow>
               (case map_of tags mxl_domain_id_tag of
                  None \<Rightarrow> Inr ApplicationResolved
                | Some v \<Rightarrow> mxl_domain_id_from_tag_value v)))"

definition resource_name_from_transport ::
  "(string \<Rightarrow> json option) \<Rightarrow> string \<Rightarrow> flow_def_error + string option" where
  "resource_name_from_transport from_str text =
     (case from_str text of
        None \<Rightarrow> Inl FlowParse
      | Some raw \<Rightarrow>
          Inr (case Option.bind (json_get ''tags'' raw) (\<lambda>tags.
                    Option.bind (json_get name_tag tags) (\<lambda>v.
                    Option.bind (as_array v) (\<lambda>arr.
                    Option.bind (list_get arr 0) json_as_str))) of
                 Some name \<Rightarrow> if name \<noteq> [] then Some name else None
               | None \<Rightarrow> None))"

definition resolve_id :: "string \<Rightarrow> string option \<Rightarrow> flow_def_error + string \<times> value_origin" where
  "resolve_id property fl =
     (let file_present = (case fl of Some s \<Rightarrow> if s \<noteq> [] then Some s else None | None \<Rightarrow> None)
      in case file_present of
           Some f \<Rightarrow>
             if property = [] then Inr (f, OriginFile)
             else if f = property then Inr (f, OriginBoth)
             else Inl (IdMismatch property f)
         | None \<Rightarrow>
             if property \<noteq> [] then Inr (property, OriginProperty) else Inr ([], OriginNone))"

definition resolve_format :: "flow_format \<Rightarrow> flow_format \<Rightarrow> flow_def_error + flow_format \<times> value_origin" where
  "resolve_format property fl =
     (if property = FmtUnspecified \<and> fl = FmtUnspecified then Inr (FmtUnspecified, OriginNone)
      else if fl = FmtUnspecified then Inr (property, OriginProperty)
      else if property = FmtUnspecified then Inr (fl, OriginFile)
      else if property = fl then Inr (property, OriginBoth)
      else Inl (FormatMismatch property fl))"

definition resolve_mxl_flow_meta ::
  "(string \<Rightarrow> json option) \<Rightarrow> string \<Rightarrow> flow_format \<Rightarrow> string option \<Rightarrow> flow_def_error + flow_resolution" where
  "resolve_mxl_flow_meta from_str property_id property_format text =
     (case (case text of
              Some t \<Rightarrow> if t \<noteq> [] then map_sum id Some (read_flow_def_meta from_str t) else Inr None
            | None \<Rightarrow> Inr None) of
        Inl e \<Rightarrow> Inl e
      | Inr file_meta \<Rightarrow>
          (case resolve_id property_id (map_option fm_id file_meta) of
             Inl e \<Rightarrow> Inl e
           | Inr (i, id_origin) \<Rightarrow>
               (case resolve_format property_format
                       (case file_meta of Some m \<Rightarrow> fm_format m | None \<Rightarrow> FmtUnspecified) of
                  Inl e \<Rightarrow> Inl e
                | Inr (fmt, format_origin) \<Rightarrow>
                    Inr \<lparr>fr_id = i, fr_id_origin = id_origin, fr_format = fmt, fr_format_origin = format_origin\<rparr>)))"

definition indicates_unconstrained_receiver_caps ::
  "(string \<Rightarrow> json option) \<Rightarrow> string \<Rightarrow> flow_def_error + bool" where
  "indicates_unconstrained_receiver_caps from_str text =
     (case from_str text of
        None \<Rightarrow> Inl FlowParse
      | Some v \<Rightarrow>
          (case Option.bind (json_get ''tags'' v) as_object of
             None \<Rightarrow> Inr False
           | Some tags \<Rightarrow>
               (case Option.bind (map_of tags caps_tag) as_array of
                  None \<Rightarrow> Inr False
                | Some arr \<Rightarrow> Inr (arr \<noteq> []))))"

section \<open>Splicing properties into a flow definition\<close>

record flow_def_overrides =
  ov_flow_id :: "string option"
  ov_name :: "string option"
  ov_label :: "string option"
  ov_description :: "string option"
  ov_group_hint :: "string option"
  ov_mxl_domain_id :: "domain_id option"
  ov_caps_mode :: caps_mode

definition put_opt :: "string \<Rightarrow> json option \<Rightarrow> (string \<times> json) list \<Rightarrow> (string \<times> json) list" where
  "put_opt k v m = (case v of Some j \<Rightarrow> AList.update k j m | None \<Rightarrow> m)"

definition put_caps_mode :: "caps_mode \<Rightarrow> (string \<times> json) list \<Rightarrow> (string \<times> json) list" where
  "put_caps_mode mode tags =
     (case mode of
        CapsAuto \<Rightarrow> tags
      | CapsConstrained \<Rightarrow> AList.delete caps_tag tags
      | CapsUnconstrained \<Rightarrow> AList.update caps_tag (JArray [JString []]) tags)"

definition splice_tags :: "flow_def_overrides \<Rightarrow> (string \<times> json) list \<Rightarrow> (string \<times> json) list" where
  "splice_tags overrides tags =
     put_caps_mode (ov_caps_mode overrides)
       (put_opt mxl_domain_id_tag (map_option tag_json (ov_mxl_domain_id overrides))
       (put_opt group_hint_tag (map_option (\<lambda>s. JArray [JString s]) (ov_group_hint overrides))
       (put_opt name_tag (map_option (\<lambda>s. JArray [JString s]) (ov_name overrides)) tags)))"

definition splice_fields :: "flow_def_overrides \<Rightarrow> (string \<times> json) list \<Rightarrow> (string \<times> json) list" where
  "splice_fields overrides members =
     put_opt ''description'' (map_option JString (ov_description overrides))
       (put_opt ''label'' (map_option JString (ov_label overrides))
       (put_opt ''id'' (map_option JString (ov_flow_id overrides)) members))"

definition splice_overrides ::
  "(json \<Rightarrow> string) \<Rightarrow> (string \<Rightarrow> json option) \<Rightarrow> string \<Rightarrow> flow_def_overrides \<Rightarrow> flow_def_error + string" where
  "splice_overrides to_string from_str text overrides =
     (case from_str text of
        None \<Rightarrow> Inl FlowParse
      | Some (JObject members) \<Rightarrow>
          (let members1 = splice_fields overrides members;
               touches_tags = (ov_name overrides \<noteq> None \<or> ov_group_hint overrides \<noteq> None \<or>
                 ov_mxl_domain_id overrides \<noteq> None \<or> ov_caps_mode overrides \<noteq> CapsAuto)
           in if \<not> touches_tags then Inr (to_string (JObject members1))
              else
                (case (case map_of members1 ''tags'' of Some v \<Rightarrow> v | None \<Rightarrow> JObject []) of
                   JObject tags \<Rightarrow>
                     Inr (to_string (JObject (AList.update ''tags'' (JObject (splice_tags overrides tags)) members1)))
                 | _ \<Rightarrow> Inl TagsNotAnObject))
      | Some _ \<Rightarrow> Inl NotAnObject)"

section \<open>Flow definitions from caps\<close>

record flow_def_build_input =
  bi_flow_id :: string
  bi_name :: string
  bi_mxl_domain_id :: domain_id
  bi_label :: string
  bi_description :: string
  bi_group_hint :: string
  bi_caps :: gst_caps

definition caps_field_string :: "string \<Rightarrow> gst_structure \<Rightarrow> string \<Rightarrow> flow_def_error + string" where
  "caps_field_string name st field =
     (case field_string st field of Some s \<Rightarrow> Inr s | None \<Rightarrow> Inl (MissingCapsField name field))"

definition caps_field_i32 :: "string \<Rightarrow> gst_structure \<Rightarrow> string \<Rightarrow> flow_def_error + int" where
  "caps_field_i32 name st field =
     (case field_int st field of Some n \<Rightarrow> Inr n | None \<Rightarrow> Inl (MissingCapsField name field))"

definition caps_field_fraction :: "string \<Rightarrow> gst_structure \<Rightarrow> string \<Rightarrow> flow_def_error + int \<times> int" where
  "caps_field_fraction name st field =
     (case field_fraction st field of Some q \<Rightarrow> Inr q | None \<Rightarrow> Inl (MissingCapsField name field))"

definition json_rational :: "int \<Rightarrow> int \<Rightarrow> json" where
  "json_rational n d = JObject [(''numerator'', json_int n), (''denominator'', json_int d)]"

definition component :: "string \<Rightarrow> int \<Rightarrow> int \<Rightarrow> json" where
  "component name width height =
     JObject [(''name'', JString name), (''width'', json_int width), (''height'', json_int height),
       (''bit_depth'', json_int 10)]"

text \<open>Division of \<^verbatim>\<open>i32\<close> truncates towards zero.\<close>

definition chroma_width :: "int \<Rightarrow> int" where
  "chroma_width width = (if width < 0 then - ((- width) div 2) else width div 2)"

definition build_video_body ::
  "string \<Rightarrow> gst_structure \<Rightarrow> flow_def_error + flow_format \<times> (string \<times> json) list" where
  "build_video_body name st =
     (case caps_field_string name st ''format'' of
        Inl e \<Rightarrow> Inl e
      | Inr fmt \<Rightarrow>
          if fmt \<noteq> ''v210'' then Inl (UnsupportedCapsValue name ''format'' fmt)
          else
            (case caps_field_i32 name st ''width'' of
               Inl e \<Rightarrow> Inl e
             | Inr width \<Rightarrow>
                 (case caps_field_i32 name st ''height'' of
                    Inl e \<Rightarrow> Inl e
                  | Inr height \<Rightarrow>
                      (case caps_field_fraction name st ''framerate'' of
                         Inl e \<Rightarrow> Inl e
                       | Inr (num, den) \<Rightarrow>
                           Inr (FmtVideo,
                             [(''media_type'', JString ''video/v210''),
                              (''grain_rate'', json_rational num den),
                              (''frame_width'', json_int width),
                              (''frame_height'', json_int height),
                              (''colorspace'', JString ''BT709''),
                              (''components'', JArray [component ''Y'' width height,
                                 component ''Cb'' (chroma_width width) height,
                                 component ''Cr'' (chroma_width width) height])] @
                             (case field_string st ''interlace-mode'' of
                                Some im \<Rightarrow> [(''interlace_mode'', JString im)]
                              | None \<Rightarrow> []))))))"

definition build_audio_body ::
  "string \<Rightarrow> gst_structure \<Rightarrow> flow_def_error + flow_format \<times> (string \<times> json) list" where
  "build_audio_body name st =
     (case caps_field_string name st ''format'' of
        Inl e \<Rightarrow> Inl e
      | Inr fmt \<Rightarrow>
          if fmt \<noteq> ''F32LE'' then Inl (UnsupportedCapsValue name ''format'' fmt)
          else
            (case caps_field_i32 name st ''rate'' of
               Inl e \<Rightarrow> Inl e
             | Inr rate \<Rightarrow>
                 (case caps_field_i32 name st ''channels'' of
                    Inl e \<Rightarrow> Inl e
                  | Inr channels \<Rightarrow>
                      Inr (FmtAudio,
                        [(''media_type'', JString ''audio/float32''),
                         (''sample_rate'', json_rational rate 1),
                         (''channel_count'', json_int channels),
                         (''bit_depth'', json_int 32)]))))"

definition build_data_body ::
  "string \<Rightarrow> gst_structure \<Rightarrow> flow_def_error + flow_format \<times> (string \<times> json) list" where
  "build_data_body name st =
     (case caps_field_fraction name st ''framerate'' of
        Inl e \<Rightarrow> Inl e
      | Inr (num, den) \<Rightarrow>
          Inr (FmtData, [(''media_type'', JString ''video/smpte291''), (''grain_rate'', json_rational num den)]))"

definition build_body ::
  "string \<Rightarrow> gst_structure \<Rightarrow> flow_def_error + flow_format \<times> (string \<times> json) list" where
  "build_body name st =
     (if name = ''video/x-raw'' then build_video_body name st
      else if name = ''audio/x-raw'' then build_audio_body name st
      else if name = ''meta/x-st-2038'' then build_data_body name st
      else Inl (UnsupportedCaps name))"

text \<open>
  The document around the body. The expectation that a body has a format is the value \<open>[]\<close> here;
  it never occurs.
\<close>

definition flow_def_fields ::
  "flow_def_build_input \<Rightarrow> flow_format \<Rightarrow> (string \<times> json) list \<Rightarrow> (string \<times> json) list" where
  "flow_def_fields input fmt body =
     (let label = (if bi_label input \<noteq> [] then bi_label input else bi_name input);
          urn = (case as_format_urn fmt of Some u \<Rightarrow> u | None \<Rightarrow> []);
          tags = [(name_tag, JArray [JString (bi_name input)]),
                  (mxl_domain_id_tag, tag_json (bi_mxl_domain_id input))] @
                 (if bi_group_hint input \<noteq> [] then [(group_hint_tag, JArray [JString (bi_group_hint input)])] else []);
          base = [(''format'', JString urn), (''label'', JString label),
                  (''description'', JString (bi_description input)), (''tags'', JObject tags),
                  (''parents'', JArray [])] @
                 (if bi_flow_id input \<noteq> [] then [(''id'', JString (bi_flow_id input))] else [])
      in fold (\<lambda>(k, v) m. AList.update k v m) body base)"

definition flow_def_value :: "flow_def_build_input \<Rightarrow> flow_def_error + json" where
  "flow_def_value input =
     (if bi_name input = [] then Inl MissingName
      else
        (case bi_caps input of
           [] \<Rightarrow> Inl EmptyCaps
         | (name, st) # _ \<Rightarrow>
             (case build_body name st of
                Inl e \<Rightarrow> Inl e
              | Inr (fmt, body) \<Rightarrow> Inr (JObject (flow_def_fields input fmt body)))))"

definition flow_def_from_caps :: "(json \<Rightarrow> string) \<Rightarrow> flow_def_build_input \<Rightarrow> flow_def_error + string" where
  "flow_def_from_caps to_string input = map_sum id to_string (flow_def_value input)"

section \<open>Caps from flow definitions\<close>

datatype flow_def_caps_error =
    CapsParse
  | CapsMissingField string
  | UnsupportedMediaType string
  | OutOfRangeField string int

text \<open>
  The outer option is a panic: \<open>mk_fraction\<close> gives \<open>None\<close> where \<^verbatim>\<open>gst::Fraction::new\<close>
  panics, otherwise the fraction in lowest terms.
\<close>

type_synonym 'a panics = "(flow_def_caps_error + 'a) option"

definition rational_to_gst_fraction ::
  "(int \<Rightarrow> int \<Rightarrow> (int \<times> int) option) \<Rightarrow> string \<Rightarrow> int \<times> int \<Rightarrow> gvalue panics" where
  "rational_to_gst_fraction mk_fraction field r =
     (if \<not> i32_range (fst r) then Some (Inl (OutOfRangeField field (fst r)))
      else if \<not> i32_range (snd r) then Some (Inl (OutOfRangeField field (snd r)))
      else map_option (\<lambda>(n, d). Inr (GFraction n d)) (mk_fraction (fst r) (snd r)))"

record raw_flow_def_for_caps =
  rf_media_type :: "string option"
  rf_grain_rate :: "(int \<times> int) option"
  rf_sample_rate :: "(int \<times> int) option"
  rf_frame_width :: "int option"
  rf_frame_height :: "int option"
  rf_channel_count :: "int option"
  rf_interlace_mode :: "string option"

definition read_raw_flow_def :: "json \<Rightarrow> raw_flow_def_for_caps option" where
  "read_raw_flow_def v =
     Option.bind (struct_fields [''media_type'', ''grain_rate'', ''sample_rate'', ''frame_width'',
         ''frame_height'', ''channel_count'', ''interlace_mode''] v) (\<lambda>get.
     Option.bind (opt_field json_as_str get ''media_type'') (\<lambda>media_type.
     Option.bind (opt_field as_rational get ''grain_rate'') (\<lambda>grain_rate.
     Option.bind (opt_field as_rational get ''sample_rate'') (\<lambda>sample_rate.
     Option.bind (opt_field as_i32 get ''frame_width'') (\<lambda>frame_width.
     Option.bind (opt_field as_i32 get ''frame_height'') (\<lambda>frame_height.
     Option.bind (opt_field as_i32 get ''channel_count'') (\<lambda>channel_count.
     Option.bind (opt_field json_as_str get ''interlace_mode'') (\<lambda>interlace_mode.
     Some \<lparr>rf_media_type = media_type, rf_grain_rate = grain_rate, rf_sample_rate = sample_rate,
       rf_frame_width = frame_width, rf_frame_height = frame_height, rf_channel_count = channel_count,
       rf_interlace_mode = interlace_mode\<rparr>))))))))"

definition video_caps_from ::
  "(int \<Rightarrow> int \<Rightarrow> (int \<times> int) option) \<Rightarrow> raw_flow_def_for_caps \<Rightarrow> gst_caps panics" where
  "video_caps_from mk_fraction raw =
     (case rf_grain_rate raw of
        None \<Rightarrow> Some (Inl (CapsMissingField ''grain_rate''))
      | Some rate \<Rightarrow>
          (case rf_frame_width raw of
             None \<Rightarrow> Some (Inl (CapsMissingField ''frame_width''))
           | Some width \<Rightarrow>
               (case rf_frame_height raw of
                  None \<Rightarrow> Some (Inl (CapsMissingField ''frame_height''))
                | Some height \<Rightarrow>
                    map_option (map_sum id (\<lambda>framerate.
                      [(''video/x-raw'',
                        [(''format'', GString (Some ''v210'')), (''width'', GInt width),
                         (''height'', GInt height), (''framerate'', framerate)] @
                        (case rf_interlace_mode raw of
                           Some im \<Rightarrow> [(''interlace-mode'', GString (Some im))] | None \<Rightarrow> []))]))
                      (rational_to_gst_fraction mk_fraction ''grain_rate'' rate))))"

definition audio_caps_from :: "raw_flow_def_for_caps \<Rightarrow> gst_caps panics" where
  "audio_caps_from raw =
     (case rf_sample_rate raw of
        None \<Rightarrow> Some (Inl (CapsMissingField ''sample_rate''))
      | Some rate \<Rightarrow>
          (case rf_channel_count raw of
             None \<Rightarrow> Some (Inl (CapsMissingField ''channel_count''))
           | Some channels \<Rightarrow>
               if snd rate \<noteq> 1 then Some (Inl (OutOfRangeField ''sample_rate.denominator'' (snd rate)))
               else if \<not> i32_range (fst rate) then Some (Inl (OutOfRangeField ''sample_rate.numerator'' (fst rate)))
               else Some (Inr [(''audio/x-raw'',
                 [(''format'', GString (Some ''F32LE'')), (''rate'', GInt (fst rate)),
                  (''channels'', GInt channels), (''layout'', GString (Some ''interleaved''))])])))"

definition caps_from ::
  "(string \<Rightarrow> json option) \<Rightarrow> (int \<Rightarrow> int \<Rightarrow> (int \<times> int) option) \<Rightarrow> string \<Rightarrow> gst_caps panics" where
  "caps_from from_str mk_fraction text =
     (case Option.bind (from_str text) read_raw_flow_def of
        None \<Rightarrow> Some (Inl CapsParse)
      | Some raw \<Rightarrow>
          (case rf_media_type raw of
             None \<Rightarrow> Some (Inl (CapsMissingField ''media_type''))
           | Some media_type \<Rightarrow>
               if media_type = ''video/v210'' then video_caps_from mk_fraction raw
               else if media_type = ''audio/float32'' then audio_caps_from raw
               else if media_type = ''video/smpte291'' then
                 (case rf_grain_rate raw of
                    None \<Rightarrow> Some (Inl (CapsMissingField ''grain_rate''))
                  | Some rate \<Rightarrow>
                      map_option (map_sum id (\<lambda>framerate. [(''meta/x-st-2038'', [(''framerate'', framerate)])]))
                        (rational_to_gst_fraction mk_fraction ''grain_rate'' rate))
               else Some (Inl (UnsupportedMediaType media_type))))"

section \<open>Metadata\<close>

record flow_metadata =
  md_label :: string
  md_description :: string
  md_group_hint :: string

text \<open>Every entry has to convert: all of an array, all of an object.\<close>

fun all_some :: "'a option list \<Rightarrow> 'a list option" where
  "all_some [] = Some []"
| "all_some (None # xs) = None"
| "all_some (Some x # xs) = map_option ((#) x) (all_some xs)"

definition as_string_array :: "json \<Rightarrow> string list option" where
  "as_string_array v = Option.bind (as_array v) (\<lambda>xs. all_some (map json_as_str xs))"

definition as_tags :: "json \<Rightarrow> (string \<times> string list) list option" where
  "as_tags v = Option.bind (as_object v) (\<lambda>m.
     all_some (map (\<lambda>(k, x). map_option (Pair k) (as_string_array x)) m))"

text \<open>A field with \<^verbatim>\<open>serde(default)\<close>: absent, or a value of the right type; null is not. Of an
  array the last entries may be missing.\<close>

definition default_field :: "(json \<Rightarrow> 'a option) \<Rightarrow> 'a \<Rightarrow> (string \<Rightarrow> json option) \<Rightarrow> string \<Rightarrow> 'a option" where
  "default_field conv d get name = (case get name of None \<Rightarrow> Some d | Some v \<Rightarrow> conv v)"

definition default_struct_fields :: "string list \<Rightarrow> json \<Rightarrow> (string \<Rightarrow> json option) option" where
  "default_struct_fields names v =
     (case v of
        JObject m \<Rightarrow> Some (map_of m)
      | JArray xs \<Rightarrow> if length xs \<le> length names then Some (map_of (zip names xs)) else None
      | _ \<Rightarrow> None)"

definition metadata_from_transport :: "(string \<Rightarrow> json option) \<Rightarrow> string \<Rightarrow> flow_def_error + flow_metadata" where
  "metadata_from_transport from_str text =
     (case Option.bind (from_str text) (default_struct_fields [''label'', ''description'', ''tags'']) of
        None \<Rightarrow> Inl FlowParse
      | Some get \<Rightarrow>
          (case (default_field json_as_str [] get ''label'', default_field json_as_str [] get ''description'',
                 default_field as_tags [] get ''tags'') of
             (Some label, Some description, Some tags) \<Rightarrow>
               Inr \<lparr>md_label = label, md_description = description,
                 md_group_hint = (case Option.bind (map_of tags group_hint_tag) (\<lambda>vs. list_get vs 0) of
                    Some v \<Rightarrow> v | None \<Rightarrow> [])\<rparr>
           | _ \<Rightarrow> Inl FlowParse))"

end
