(* ===== verification/Gst_FlowRoundtrip.thy ===== *)
theory Gst_FlowRoundtrip
  imports Gst_FlowDef
begin

text \<open>
  What the flow definitions of \<open>Gst_FlowDef\<close> keep: a definition made from caps is read back by the
  element and by the daemon as what went into it, and splicing the properties of an element into a
  definition changes what the properties name and nothing else. Of \<^verbatim>\<open>serde_json\<close> it is assumed
  that the text of the one document at hand is read back as that document.
\<close>

section \<open>Numbers\<close>

lemma digits_value_show_nat [simp]: "digits_value (show_nat n) = Some n"
  by (simp add: digits_value_def)

lemma show_nat_no_minus: "hd (show_nat n) \<noteq> CHR ''-''"
proof (induction n rule: show_nat.induct)
  case (1 n)
  have "digit_char k \<noteq> CHR ''-''" if "k < 10" for k :: nat
  proof
    assume "digit_char k = CHR ''-''"
    moreover have "digit_val (digit_char k) = Some k" using that by simp
    ultimately show False by (simp add: digit_val_def)
  qed
  with 1 show ?case by (subst show_nat.simps) (simp add: hd_append)
qed

lemma parse_show_int [simp]: "parse_int (show_int n) = Some n"
proof (cases "n < 0")
  case False
  obtain c cs where s: "show_nat (nat n) = c # cs" by (metis show_nat_nonempty list.exhaust)
  with show_nat_no_minus [of "nat n"] have "c \<noteq> CHR ''-''" by simp
  moreover have "digits_value (c # cs) = Some (nat n)" by (simp flip: s)
  ultimately show ?thesis using False s by (simp add: parse_int_def show_int_def)
qed (simp add: parse_int_def show_int_def)

lemma as_int_json [simp]: "as_int (json_int n) = Some n"
  by (simp add: json_int_def)

lemma as_i32_json [simp]: "i32_range n \<Longrightarrow> as_i32 (json_int n) = Some n"
  by (simp add: as_i32_def)

lemma as_i64_json [simp]: "i32_range n \<Longrightarrow> as_i64 (json_int n) = Some n"
  by (simp add: as_i64_def i32_range_def)

lemma i32_range_1 [simp]: "i32_range 1"
  by (simp add: i32_range_def)

lemma as_rational_json [simp]:
  "i32_range n \<Longrightarrow> i32_range d \<Longrightarrow> as_rational (json_rational n d) = Some (n, d)"
  by (simp add: as_rational_def json_rational_def struct_fields_def)

lemma field_int_range: "field_int st f = Some n \<Longrightarrow> i32_range n"
  unfolding field_int_def by (cases "map_of st f") (auto elim!: value_int.elims split: if_splits)

lemma field_fraction_range: "field_fraction st f = Some (n, d) \<Longrightarrow> i32_range n \<and> i32_range d"
  unfolding field_fraction_def by (cases "map_of st f") (auto elim!: value_fraction.elims split: if_splits)

lemma json_int_neq_Null [simp]: "json_int n \<noteq> JNull" "json_rational n d \<noteq> JNull"
  by (simp_all add: json_int_def json_rational_def)

section \<open>The fields of a built document\<close>

lemma build_body_cases:
  assumes "build_body name st = Inr (fmt, body)"
  obtains
    (video) w h n d where "name = ''video/x-raw''" "fmt = FmtVideo"
      "field_string st ''format'' = Some ''v210''" "field_int st ''width'' = Some w"
      "field_int st ''height'' = Some h" "field_fraction st ''framerate'' = Some (n, d)"
      "body = [(''media_type'', JString ''video/v210''), (''grain_rate'', json_rational n d),
         (''frame_width'', json_int w), (''frame_height'', json_int h), (''colorspace'', JString ''BT709''),
         (''components'', JArray [component ''Y'' w h, component ''Cb'' (chroma_width w) h,
            component ''Cr'' (chroma_width w) h])] @
         (case field_string st ''interlace-mode'' of Some im \<Rightarrow> [(''interlace_mode'', JString im)] | None \<Rightarrow> [])"
  | (audio) r c where "name = ''audio/x-raw''" "fmt = FmtAudio"
      "field_string st ''format'' = Some ''F32LE''" "field_int st ''rate'' = Some r"
      "field_int st ''channels'' = Some c"
      "body = [(''media_type'', JString ''audio/float32''), (''sample_rate'', json_rational r 1),
         (''channel_count'', json_int c), (''bit_depth'', json_int 32)]"
  | (data) n d where "name = ''meta/x-st-2038''" "fmt = FmtData"
      "field_fraction st ''framerate'' = Some (n, d)"
      "body = [(''media_type'', JString ''video/smpte291''), (''grain_rate'', json_rational n d)]"
  using assms
  by (auto simp: build_body_def build_video_body_def build_audio_body_def build_data_body_def
      caps_field_string_def caps_field_i32_def caps_field_fraction_def split: if_splits option.splits)

lemma fold_update_get:
  "map_of (fold (\<lambda>(k, v) m. AList.update k v m) body base) k =
    (case map_of (rev body) k of Some v \<Rightarrow> Some v | None \<Rightarrow> map_of base k)"
  by (induction body rule: rev_induct) (auto simp: update_conv' split: option.splits)

definition essence_keys :: "string set" where
  "essence_keys = {''media_type'', ''grain_rate'', ''sample_rate'', ''frame_width'', ''frame_height'',
     ''channel_count'', ''interlace_mode''}"

lemma built_identity:
  fixes input :: flow_def_build_input
  assumes "build_body name st = Inr (fmt, body)"
  defines "doc \<equiv> flow_def_fields input fmt body"
  shows "map_of doc ''id'' = (if bi_flow_id input = [] then None else Some (JString (bi_flow_id input)))"
    and "map_of doc ''format'' = map_option JString (as_format_urn fmt)"
    and "map_of doc ''label'' = Some (JString (if bi_label input \<noteq> [] then bi_label input else bi_name input))"
    and "map_of doc ''description'' = Some (JString (bi_description input))"
    and "map_of doc ''tags'' = Some (JObject ([(name_tag, JArray [JString (bi_name input)]),
           (mxl_domain_id_tag, tag_json (bi_mxl_domain_id input))] @
           (if bi_group_hint input \<noteq> [] then [(group_hint_tag, JArray [JString (bi_group_hint input)])] else [])))"
  using assms(1) unfolding doc_def
  by (cases rule: build_body_cases;
      simp add: flow_def_fields_def fold_update_get split: option.splits)+

lemma built_keys: "build_body name st = Inr (fmt, body) \<Longrightarrow> distinct (map fst body)"
  by (erule build_body_cases) (simp_all split: option.splits)

lemma built_essence:
  assumes "build_body name st = Inr (fmt, body)" "k \<in> essence_keys"
  shows "map_of (flow_def_fields input fmt body) k = map_of body k"
proof -
  have "map_of (rev body) = map_of body"
    using built_keys [OF assms(1)] by (intro map_of_inject_set [THEN iffD2]) (simp_all add: rev_map [symmetric])
  then show ?thesis using assms(2)
    by (auto simp: flow_def_fields_def fold_update_get essence_keys_def split: option.split)
qed

lemma built_format: "build_body name st = Inr (fmt, body) \<Longrightarrow> format_from_caps ((name, st) # rest) = fmt \<and> fmt \<noteq> FmtUnspecified"
  by (erule build_body_cases) (simp_all add: format_from_caps_def)

lemma read_raw_essence:
  assumes "build_body name st = Inr (fmt, body)"
  shows "read_raw_flow_def (JObject (flow_def_fields input fmt body)) = read_raw_flow_def (JObject body)"
  by (simp add: read_raw_flow_def_def struct_fields_def opt_field_def built_essence [OF assms] essence_keys_def)

text \<open>What a definition keeps of a structure of caps.\<close>

definition essence_kept :: "string \<Rightarrow> gst_structure \<Rightarrow> gst_structure \<Rightarrow> bool" where
  "essence_kept name st st' \<longleftrightarrow>
     (if name = ''video/x-raw'' then
        field_string st' ''format'' = field_string st ''format'' \<and>
        field_int st' ''width'' = field_int st ''width'' \<and>
        field_int st' ''height'' = field_int st ''height'' \<and>
        field_fraction st' ''framerate'' = field_fraction st ''framerate'' \<and>
        field_string st' ''interlace-mode'' = field_string st ''interlace-mode''
      else if name = ''audio/x-raw'' then
        field_string st' ''format'' = field_string st ''format'' \<and>
        field_int st' ''rate'' = field_int st ''rate'' \<and>
        field_int st' ''channels'' = field_int st ''channels''
      else field_fraction st' ''framerate'' = field_fraction st ''framerate'')"

lemma essence_read_back:
  assumes body: "build_body name st = Inr (fmt, body)"
    and doc: "from_str text = Some (JObject (flow_def_fields input fmt body))"
    and lowest: "\<And>n d. field_fraction st ''framerate'' = Some (n, d) \<Longrightarrow> mk_fraction n d = Some (n, d)"
  shows "\<exists>st'. caps_from from_str mk_fraction text = Some (Inr [(name, st')]) \<and> essence_kept name st st'"
proof -
  have raw: "Option.bind (from_str text) read_raw_flow_def = read_raw_flow_def (JObject body)"
    using doc read_raw_essence [OF body] by simp
  show ?thesis using body
  proof (cases rule: build_body_cases)
    case (video w h n d)
    have "i32_range w" "i32_range h" "i32_range n" "i32_range d"
      using video field_int_range field_fraction_range by blast+
    then show ?thesis
      using video lowest unfolding caps_from_def raw
      by (cases "field_string st ''interlace-mode''")
        (auto simp: read_raw_flow_def_def struct_fields_def opt_field_def video_caps_from_def
          rational_to_gst_fraction_def essence_kept_def field_string_def [of "_ # _"] field_int_def [of "_ # _"]
          field_fraction_def [of "_ # _"])
  next
    case (audio r c)
    have "i32_range r" "i32_range c" using audio field_int_range by blast+
    then show ?thesis
      using audio unfolding caps_from_def raw
      by (auto simp: read_raw_flow_def_def struct_fields_def opt_field_def audio_caps_from_def
          essence_kept_def field_string_def [of "_ # _"] field_int_def [of "_ # _"])
  next
    case (data n d)
    have "i32_range n" "i32_range d" using data field_fraction_range by blast+
    then show ?thesis
      using data lowest unfolding caps_from_def raw
      by (auto simp: read_raw_flow_def_def struct_fields_def opt_field_def
          rational_to_gst_fraction_def essence_kept_def field_fraction_def [of "_ # _"])
  qed
qed

section \<open>Reading a built document\<close>

lemmas tag_names = name_tag_def mxl_domain_id_tag_def group_hint_tag_def caps_tag_def

lemma from_format_urn_as: "as_format_urn fmt = Some urn \<Longrightarrow> from_format_urn urn = fmt"
  by (cases fmt) (auto simp: from_format_urn_def)

lemma domain_id_from_tag_json:
  "mxl_domain_id_from_tag_value (tag_json d) = Inr (if d = Concrete [] then ApplicationResolved else d)"
  by (cases d) auto

lemma identity_read_back:
  assumes body: "build_body name st = Inr (fmt, body)" and name: "bi_name input \<noteq> []"
    and doc: "from_str text = Some (JObject (flow_def_fields input fmt body))"
  shows "read_flow_def_meta from_str text = Inr \<lparr>fm_id = bi_flow_id input, fm_format = fmt\<rparr>"
    and "mxl_domain_id_from_transport from_str text =
      Inr (if bi_mxl_domain_id input = Concrete [] then ApplicationResolved else bi_mxl_domain_id input)"
    and "resource_name_from_transport from_str text = Inr (Some (bi_name input))"
    and "transport_file_name from_str Mxl text = Some (bi_name input)"
    and "metadata_from_transport from_str text =
      Inr \<lparr>md_label = (if bi_label input \<noteq> [] then bi_label input else bi_name input),
        md_description = bi_description input, md_group_hint = bi_group_hint input\<rparr>"
    and "indicates_unconstrained_receiver_caps from_str text = Inr False"
proof -
  note get = built_identity [OF body, of input]
  obtain urn where urn: "as_format_urn fmt = Some urn" "from_format_urn urn = fmt" "fmt \<noteq> FmtUnspecified"
    using built_format [OF body] from_format_urn_as by (cases fmt) auto
  show "read_flow_def_meta from_str text = Inr \<lparr>fm_id = bi_flow_id input, fm_format = fmt\<rparr>"
    using urn by (simp add: read_flow_def_meta_def doc struct_fields_def opt_field_def get)
  show "mxl_domain_id_from_transport from_str text =
      Inr (if bi_mxl_domain_id input = Concrete [] then ApplicationResolved else bi_mxl_domain_id input)"
    by (simp add: mxl_domain_id_from_transport_def doc get tag_names domain_id_from_tag_json)
  show "resource_name_from_transport from_str text = Inr (Some (bi_name input))"
    using name by (simp add: resource_name_from_transport_def doc get tag_names list_get_def)
  show "transport_file_name from_str Mxl text = Some (bi_name input)"
    using name by (simp add: transport_file_name_def doc get tag_names)
  show "metadata_from_transport from_str text =
      Inr \<lparr>md_label = (if bi_label input \<noteq> [] then bi_label input else bi_name input),
        md_description = bi_description input, md_group_hint = bi_group_hint input\<rparr>"
    by (cases "bi_mxl_domain_id input")
      (simp_all add: metadata_from_transport_def doc default_struct_fields_def default_field_def get tag_names
        as_tags_def as_string_array_def list_get_def)
  show "indicates_unconstrained_receiver_caps from_str text = Inr False"
    by (simp add: indicates_unconstrained_receiver_caps_def doc get tag_names)
qed

text \<open>
  C22. A flow definition that an element makes from its caps and properties is read back as what went
  into it: the element derives caps with the same essence, the flow id and the format of the caps,
  the MXL Domain, the label, the description and the group hint, and constrained capabilities; and
  the element and the daemon read the same resource name. No read panics.
\<close>

theorem flow_def_roundtrip:
  assumes built: "flow_def_from_caps to_string input = Inr text"
    and json: "\<And>doc. flow_def_value input = Inr doc \<Longrightarrow> from_str (to_string doc) = Some doc"
    and lowest: "\<And>st n d. st = snd (hd (bi_caps input)) \<Longrightarrow> field_fraction st ''framerate'' = Some (n, d) \<Longrightarrow>
      mk_fraction n d = Some (n, d)"
  shows "\<exists>name st rest st'. bi_caps input = (name, st) # rest \<and>
    caps_from from_str mk_fraction text = Some (Inr [(name, st')]) \<and> essence_kept name st st' \<and>
    read_flow_def_meta from_str text =
      Inr \<lparr>fm_id = bi_flow_id input, fm_format = format_from_caps (bi_caps input)\<rparr> \<and>
    mxl_domain_id_from_transport from_str text =
      Inr (if bi_mxl_domain_id input = Concrete [] then ApplicationResolved else bi_mxl_domain_id input) \<and>
    resource_name_from_transport from_str text = Inr (Some (bi_name input)) \<and>
    transport_file_name from_str Mxl text = Some (bi_name input) \<and>
    metadata_from_transport from_str text =
      Inr \<lparr>md_label = (if bi_label input \<noteq> [] then bi_label input else bi_name input),
        md_description = bi_description input, md_group_hint = bi_group_hint input\<rparr> \<and>
    indicates_unconstrained_receiver_caps from_str text = Inr False"
proof -
  obtain doc where v: "flow_def_value input = Inr doc" and t: "text = to_string doc"
    using built by (auto simp: flow_def_from_caps_def map_sum_def split: sum.splits)
  then obtain name st rest fmt body where caps: "bi_caps input = (name, st) # rest" and named: "bi_name input \<noteq> []"
      and body: "build_body name st = Inr (fmt, body)" and doc: "doc = JObject (flow_def_fields input fmt body)"
    by (auto simp: flow_def_value_def split: if_splits list.splits sum.splits)
  have read: "from_str text = Some (JObject (flow_def_fields input fmt body))" using json [OF v] t doc by simp
  obtain st' where "caps_from from_str mk_fraction text = Some (Inr [(name, st')])" "essence_kept name st st'"
    using essence_read_back [of name st fmt body from_str "text" input mk_fraction, OF body read] lowest [of st] caps by auto
  then show ?thesis
    using caps identity_read_back [of name st fmt body input from_str "text", OF body named read] built_format [OF body, of rest] by simp
qed

definition demo_input :: flow_def_build_input where
  "demo_input = \<lparr>bi_flow_id = ''f1'', bi_name = ''cam'', bi_mxl_domain_id = ApplicationResolved, bi_label = [],
     bi_description = [], bi_group_hint = [],
     bi_caps = [(''meta/x-st-2038'', [(''framerate'', GFraction 30000 1001)])]\<rparr>"

theorem flow_def_roundtrip_witness:
  "\<exists>text st. flow_def_from_caps (\<lambda>_. text) demo_input = Inr text \<and>
     caps_from (\<lambda>_. Some (projr (flow_def_value demo_input))) (\<lambda>n d. Some (n, d)) text = Some (Inr [(''meta/x-st-2038'', st)]) \<and>
     field_fraction st ''framerate'' = Some (30000, 1001)"
proof -
  have built: "flow_def_from_caps (\<lambda>_. []) demo_input = Inr []"
    by (simp add: flow_def_from_caps_def demo_input_def flow_def_value_def build_body_def build_data_body_def
        caps_field_fraction_def field_fraction_def i32_range_def)
  have "\<exists>name st rest st'. bi_caps demo_input = (name, st) # rest \<and>
      caps_from (\<lambda>_. Some (projr (flow_def_value demo_input))) (\<lambda>n d. Some (n, d)) [] = Some (Inr [(name, st')]) \<and>
      essence_kept name st st'"
    using flow_def_roundtrip [OF built, of "\<lambda>_. Some (projr (flow_def_value demo_input))" "\<lambda>n d. Some (n, d)"] by auto
  then show ?thesis using built
    by (auto simp: demo_input_def essence_kept_def field_fraction_def i32_range_def)
qed

lemma zero_rate_panics:
  assumes "read_raw_flow_def v = Some raw" "rf_media_type raw = Some ''video/smpte291''"
    and "rf_grain_rate raw = Some (n, 0)" "i32_range n" "mk_fraction n 0 = None" "from_str text = Some v"
  shows "caps_from from_str mk_fraction text = None"
  using assms by (simp add: caps_from_def rational_to_gst_fraction_def i32_range_def)

section \<open>Splicing\<close>

lemma map_of_put_opt:
  "map_of (put_opt k v m) k' = (if k' = k \<and> v \<noteq> None then v else map_of m k')"
  by (auto simp: put_opt_def update_conv' split: option.splits)

lemma map_of_splice_fields:
  "map_of (splice_fields ov m) k =
    (if k = ''id'' \<and> ov_flow_id ov \<noteq> None then map_option JString (ov_flow_id ov)
     else if k = ''label'' \<and> ov_label ov \<noteq> None then map_option JString (ov_label ov)
     else if k = ''description'' \<and> ov_description ov \<noteq> None then map_option JString (ov_description ov)
     else map_of m k)"
  by (auto simp: splice_fields_def map_of_put_opt)

lemma map_of_splice_tags:
  "map_of (splice_tags ov tags) name_tag =
    (case ov_name ov of Some s \<Rightarrow> Some (JArray [JString s]) | None \<Rightarrow> map_of tags name_tag)"
  "map_of (splice_tags ov tags) mxl_domain_id_tag =
    (case ov_mxl_domain_id ov of Some d \<Rightarrow> Some (tag_json d) | None \<Rightarrow> map_of tags mxl_domain_id_tag)"
  "map_of (splice_tags ov tags) caps_tag =
    (case ov_caps_mode ov of CapsAuto \<Rightarrow> map_of tags caps_tag | CapsConstrained \<Rightarrow> None
      | CapsUnconstrained \<Rightarrow> Some (JArray [JString []]))"
  by (auto simp: splice_tags_def put_caps_mode_def map_of_put_opt update_conv' delete_conv' tag_names
      split: option.splits caps_mode.splits)

definition touches_tags :: "flow_def_overrides \<Rightarrow> bool" where
  "touches_tags ov \<longleftrightarrow> ov_name ov \<noteq> None \<or> ov_group_hint ov \<noteq> None \<or> ov_mxl_domain_id ov \<noteq> None \<or>
     ov_caps_mode ov \<noteq> CapsAuto"

lemma splice_overrides_cases:
  assumes "splice_overrides to_string from_str text ov = Inr text'"
  obtains m m' where "from_str text = Some (JObject m)" "text' = to_string (JObject m')"
    "\<And>k. k \<noteq> ''tags'' \<Longrightarrow> map_of m' k = map_of (splice_fields ov m) k"
    "touches_tags ov \<Longrightarrow> \<exists>tags. map_of m' ''tags'' = Some (JObject (splice_tags ov tags)) \<and>
       (map_of m ''tags'' = Some (JObject tags) \<or> map_of m ''tags'' = None \<and> tags = [])"
    "\<not> touches_tags ov \<Longrightarrow> map_of m' ''tags'' = map_of m ''tags''"
proof -
  obtain m where m: "from_str text = Some (JObject m)"
    using assms by (auto simp: splice_overrides_def split: option.splits json.splits)
  show thesis
  proof (cases "touches_tags ov")
    case False
    then show thesis
      using assms m that [of m "splice_fields ov m"]
      by (simp add: splice_overrides_def touches_tags_def map_of_splice_fields)
  next
    case True
    have "map_of (splice_fields ov m) ''tags'' = map_of m ''tags''" by (simp add: map_of_splice_fields)
    moreover have "splice_overrides to_string from_str text ov =
        (case (case map_of (splice_fields ov m) ''tags'' of Some v \<Rightarrow> v | None \<Rightarrow> JObject []) of
           JObject tags \<Rightarrow> Inr (to_string (JObject
             (AList.update ''tags'' (JObject (splice_tags ov tags)) (splice_fields ov m))))
         | _ \<Rightarrow> Inl TagsNotAnObject)"
      using m True unfolding splice_overrides_def touches_tags_def by (simp add: Let_def)
    ultimately obtain tags where tags: "(case map_of m ''tags'' of Some v \<Rightarrow> v | None \<Rightarrow> JObject []) = JObject tags"
        "text' = to_string (JObject (AList.update ''tags'' (JObject (splice_tags ov tags)) (splice_fields ov m)))"
      using assms by (auto split: json.splits)
    have "map_of m ''tags'' = Some (JObject tags) \<or> map_of m ''tags'' = None \<and> tags = []"
      using tags(1) by (cases "map_of m ''tags''") auto
    then show thesis
      using True m tags(2) that [of m "AList.update ''tags'' (JObject (splice_tags ov tags)) (splice_fields ov m)"]
      by (simp add: update_conv') blast
  qed
qed

lemma spliced_essence:
  assumes "from_str text = Some (JObject m)" "from_str text' = Some (JObject m')"
    and "\<And>k. k \<noteq> ''tags'' \<Longrightarrow> map_of m' k = map_of (splice_fields ov m) k"
  shows "caps_from from_str mk_fraction text' = caps_from from_str mk_fraction text"
    and "read_flow_def_meta from_str text = Inr meta \<Longrightarrow>
      read_flow_def_meta from_str text' = Inr (case ov_flow_id ov of Some i \<Rightarrow> meta\<lparr>fm_id := i\<rparr> | None \<Rightarrow> meta)"
    and "ov_flow_id ov = Some i \<Longrightarrow> read_flow_def_meta from_str text' = Inr meta' \<Longrightarrow> fm_id meta' = i"
proof -
  have "read_raw_flow_def (JObject m') = read_raw_flow_def (JObject m)"
    by (simp add: read_raw_flow_def_def struct_fields_def opt_field_def assms(3) map_of_splice_fields)
  then show "caps_from from_str mk_fraction text' = caps_from from_str mk_fraction text"
    by (simp add: caps_from_def assms(1,2))
  show "read_flow_def_meta from_str text' = Inr (case ov_flow_id ov of Some i \<Rightarrow> meta\<lparr>fm_id := i\<rparr> | None \<Rightarrow> meta)"
    if "read_flow_def_meta from_str text = Inr meta"
    using that by (cases "ov_flow_id ov")
      (auto simp: read_flow_def_meta_def assms(1,2) struct_fields_def opt_field_def assms(3) map_of_splice_fields Let_def
        split: option.splits if_splits)
  show "fm_id meta' = i" if "ov_flow_id ov = Some i" "read_flow_def_meta from_str text' = Inr meta'"
    using that by (auto simp: read_flow_def_meta_def assms(2) struct_fields_def opt_field_def assms(3) map_of_splice_fields Let_def
        split: option.splits if_splits)
qed

lemma spliced_tags:
  assumes "from_str text = Some (JObject m)" "from_str text' = Some (JObject m')"
    and "touches_tags ov \<Longrightarrow> \<exists>tags. map_of m' ''tags'' = Some (JObject (splice_tags ov tags)) \<and>
       (map_of m ''tags'' = Some (JObject tags) \<or> map_of m ''tags'' = None \<and> tags = [])"
    and "\<not> touches_tags ov \<Longrightarrow> map_of m' ''tags'' = map_of m ''tags''"
  shows "resource_name_from_transport from_str text' =
      (case ov_name ov of Some n \<Rightarrow> Inr (if n = [] then None else Some n)
        | None \<Rightarrow> resource_name_from_transport from_str text)"
    and "mxl_domain_id_from_transport from_str text' =
      (case ov_mxl_domain_id ov of Some d \<Rightarrow> Inr (if d = Concrete [] then ApplicationResolved else d)
        | None \<Rightarrow> mxl_domain_id_from_transport from_str text)"
    and "indicates_unconstrained_receiver_caps from_str text' =
      (case ov_caps_mode ov of CapsAuto \<Rightarrow> indicates_unconstrained_receiver_caps from_str text
        | CapsConstrained \<Rightarrow> Inr False | CapsUnconstrained \<Rightarrow> Inr True)"
proof -
  consider (touched) tags where "map_of m' ''tags'' = Some (JObject (splice_tags ov tags))"
      "map_of m ''tags'' = Some (JObject tags) \<or> map_of m ''tags'' = None \<and> tags = []"
    | (untouched) "map_of m' ''tags'' = map_of m ''tags''" "ov_name ov = None" "ov_mxl_domain_id ov = None"
      "ov_caps_mode ov = CapsAuto"
    using assms(3,4) by (cases "touches_tags ov") (auto simp: touches_tags_def)
  note cases = this
  show "resource_name_from_transport from_str text' =
      (case ov_name ov of Some n \<Rightarrow> Inr (if n = [] then None else Some n)
        | None \<Rightarrow> resource_name_from_transport from_str text)"
    by (rule cases) (auto simp: resource_name_from_transport_def assms(1,2) map_of_splice_tags list_get_def split: option.splits)
  show "mxl_domain_id_from_transport from_str text' =
      (case ov_mxl_domain_id ov of Some d \<Rightarrow> Inr (if d = Concrete [] then ApplicationResolved else d)
        | None \<Rightarrow> mxl_domain_id_from_transport from_str text)"
    by (rule cases) (auto simp: mxl_domain_id_from_transport_def assms(1,2) map_of_splice_tags domain_id_from_tag_json
        split: option.splits)
  show "indicates_unconstrained_receiver_caps from_str text' =
      (case ov_caps_mode ov of CapsAuto \<Rightarrow> indicates_unconstrained_receiver_caps from_str text
        | CapsConstrained \<Rightarrow> Inr False | CapsUnconstrained \<Rightarrow> Inr True)"
    by (rule cases) (auto simp: indicates_unconstrained_receiver_caps_def assms(1,2) map_of_splice_tags
        split: option.splits caps_mode.splits)
qed

lemma resolve_meta_agrees:
  assumes "i \<noteq> []" "text \<noteq> []" "\<And>meta. read_flow_def_meta from_str text = Inr meta \<Longrightarrow> fm_id meta = i"
  shows "(\<forall>a b. resolve_mxl_flow_meta from_str i fmt (Some text) \<noteq> Inl (IdMismatch a b)) \<and>
    (\<forall>r. resolve_mxl_flow_meta from_str i fmt (Some text) = Inr r \<longrightarrow> fr_id r = i \<and> fr_id_origin r = OriginBoth)"
proof (cases "read_flow_def_meta from_str text")
  case (Inl e)
  then have "e \<noteq> IdMismatch a b" for a b
    by (auto simp: read_flow_def_meta_def Let_def split: option.splits if_splits)
  with Inl assms(1,2) show ?thesis by (auto simp: resolve_mxl_flow_meta_def)
next
  case (Inr meta)
  with assms show ?thesis
    by (auto simp: resolve_mxl_flow_meta_def resolve_id_def resolve_format_def Let_def split: sum.splits if_splits)
qed

text \<open>
  Properties override the transport file. A flow definition into which the properties of an
  element are spliced has the same essence, and the flow id, the resource name, the MXL Domain and
  the kind of capabilities that the properties set; what no property sets reads as before. Resolving
  the flow afterwards never finds the two in disagreement.
\<close>

theorem properties_override_file:
  assumes spliced: "splice_overrides to_string from_str text ov = Inr text'"
    and json: "\<And>doc. text' = to_string doc \<Longrightarrow> from_str text' = Some doc" and "text' \<noteq> []"
  shows "caps_from from_str mk_fraction text' = caps_from from_str mk_fraction text \<and>
    (\<forall>meta. read_flow_def_meta from_str text = Inr meta \<longrightarrow>
      read_flow_def_meta from_str text' = Inr (case ov_flow_id ov of Some i \<Rightarrow> meta\<lparr>fm_id := i\<rparr> | None \<Rightarrow> meta)) \<and>
    resource_name_from_transport from_str text' =
      (case ov_name ov of Some n \<Rightarrow> Inr (if n = [] then None else Some n)
        | None \<Rightarrow> resource_name_from_transport from_str text) \<and>
    mxl_domain_id_from_transport from_str text' =
      (case ov_mxl_domain_id ov of Some d \<Rightarrow> Inr (if d = Concrete [] then ApplicationResolved else d)
        | None \<Rightarrow> mxl_domain_id_from_transport from_str text) \<and>
    indicates_unconstrained_receiver_caps from_str text' =
      (case ov_caps_mode ov of CapsAuto \<Rightarrow> indicates_unconstrained_receiver_caps from_str text
        | CapsConstrained \<Rightarrow> Inr False | CapsUnconstrained \<Rightarrow> Inr True) \<and>
    (\<forall>i fmt a b. ov_flow_id ov = Some i \<and> i \<noteq> [] \<longrightarrow>
      resolve_mxl_flow_meta from_str i fmt (Some text') \<noteq> Inl (IdMismatch a b))"
proof (cases rule: splice_overrides_cases [OF spliced])
  case m: (1 m m')
  have read: "from_str text' = Some (JObject m')" using json m(2) by simp
  note essence = spliced_essence [of from_str "text" m text' m' ov, OF m(1) read m(3)]
  note tags = spliced_tags [of from_str "text" m text' m' ov, OF m(1) read m(4,5)]
  have "resolve_mxl_flow_meta from_str i fmt (Some text') \<noteq> Inl (IdMismatch a b)"
    if "ov_flow_id ov = Some i" "i \<noteq> []" for i fmt a b
    using resolve_meta_agrees [of i text' from_str fmt] essence(3) that \<open>text' \<noteq> []\<close> by blast
  then show ?thesis using essence(1,2) tags by auto
qed

theorem properties_override_file_witness:
  "\<exists>from_str. resource_name_from_transport from_str ''new'' = Inr (Some ''cam'') \<and>
     resource_name_from_transport from_str ''old'' = Inr None"
proof -
  let ?ov = "\<lparr>ov_flow_id = None, ov_name = Some ''cam'', ov_label = None, ov_description = None,
    ov_group_hint = None, ov_mxl_domain_id = None, ov_caps_mode = CapsAuto\<rparr>"
  let ?new = "JObject [(''tags'', JObject [(name_tag, JArray [JString ''cam''])])]"
  let ?to_string = "\<lambda>doc. if doc = ?new then ''new'' else ''old''"
  let ?from_str = "\<lambda>s. if s = ''new'' then Some ?new else Some (JObject [])"
  have "splice_overrides ?to_string ?from_str ''old'' ?ov = Inr ''new''"
    by (simp add: splice_overrides_def splice_fields_def put_opt_def splice_tags_def put_caps_mode_def)
  moreover have "?from_str ''new'' = Some doc" if "''new'' = ?to_string doc" for doc
    using that by (simp split: if_splits)
  ultimately have "resource_name_from_transport ?from_str ''new'' = Inr (Some ''cam'')"
    using properties_override_file [of ?to_string ?from_str "''old''" ?ov "''new''"] by simp
  moreover have "resource_name_from_transport ?from_str ''old'' = Inr None"
    by (simp add: resource_name_from_transport_def)
  ultimately show ?thesis by blast
qed

end
