(* ===== verification/Gst_Float.thy ===== *)
theory Gst_Float
  imports Complex_Main Gst_Prelude Nvn_Config "HOL-Library.Log_Nat"
begin

text \<open>
  The floating-point numbers of Rust, as far as packet times and bit rates need them: numbers that
  are not negative, in the binary format of 64 bits of IEEE 754, rounded to the nearest and to even
  on a tie. A finite number is its value, a rational; \<open>f64_round\<close> gives the number next to an exact
  result. Reading a decimal text, conversions to integers, the packet times of \<^verbatim>\<open>sdp.rs\<close>, \<^verbatim>\<open>inner.rs\<close>
  and \<^verbatim>\<open>nvdsudp/packetization.rs\<close>, and the bit rates of \<^verbatim>\<open>sdp.rs\<close>.
\<close>

section \<open>Rounding\<close>

text \<open>The exponent of the last of 53 binary digits, or of the smallest number there is.\<close>

definition f64_scale :: rat where
  "f64_scale = 2 ^ 1074"

definition last_digit :: "rat \<Rightarrow> int" where
  "last_digit x = max (int (floorlog 2 (nat \<lfloor>x * f64_scale\<rfloor>)) - 1127) (- 1074)"

definition round_even :: "rat \<Rightarrow> int" where
  "round_even q =
     (let r = \<lfloor>q\<rfloor>; rest = q - of_int r
      in if rest < 1 / 2 \<or> rest = 1 / 2 \<and> even r then r else r + 1)"

definition f64_round :: "rat \<Rightarrow> rat" where
  "f64_round x = (let u = 2 powi last_digit x in of_int (round_even (x / u)) * u)"

definition f64_overflows :: "rat \<Rightarrow> bool" where
  "f64_overflows x \<longleftrightarrow> 2 ^ 1024 \<le> f64_round x"

text \<open>\<^verbatim>\<open>as u64\<close> saturates; \<^verbatim>\<open>round\<close> goes away from zero on a tie.\<close>

definition f64_to_u64 :: "rat \<Rightarrow> u64" where
  "f64_to_u64 x = of_int (min \<lfloor>x\<rfloor> (2 ^ 64 - 1))"

definition f64_of_u64 :: "u64 \<Rightarrow> rat" where
  "f64_of_u64 n = f64_round (of_nat (unat n))"

definition round_half_up :: "rat \<Rightarrow> rat" where
  "round_half_up x = of_int \<lfloor>x + 1 / 2\<rfloor>"

section \<open>Decimal texts\<close>

datatype f64_text = F64Finite bool rat | F64Infinite bool | F64NaN

fun take_digits :: "string \<Rightarrow> nat list \<times> string" where
  "take_digits [] = ([], [])"
| "take_digits (c # cs) =
     (case digit_val c of None \<Rightarrow> ([], c # cs) | Some d \<Rightarrow> (case take_digits cs of (ds, rest) \<Rightarrow> (d # ds, rest)))"

definition digits_number :: "nat list \<Rightarrow> nat" where
  "digits_number ds = foldl (\<lambda>acc d. acc * 10 + d) 0 ds"

definition parse_exponent :: "string \<Rightarrow> int option" where
  "parse_exponent s =
     (let (neg, ds) = (case s of c # cs \<Rightarrow> if c = CHR ''-'' then (True, cs) else if c = CHR ''+'' then (False, cs) else (False, s)
                       | [] \<Rightarrow> (False, []))
      in case take_digits ds of
           (n, rest) \<Rightarrow> if n = [] \<or> rest \<noteq> [] then None
                        else Some (if neg then - int (digits_number n) else int (digits_number n)))"

definition parse_decimal :: "string \<Rightarrow> rat option" where
  "parse_decimal s =
     (case take_digits s of
        (whole, r1) \<Rightarrow>
          (case (case r1 of c # cs \<Rightarrow> if c = CHR ''.'' then take_digits cs else ([], r1) | [] \<Rightarrow> ([], r1)) of
             (fraction, r2) \<Rightarrow>
               if whole @ fraction = [] then None
               else
                 map_option
                   (\<lambda>e. of_nat (digits_number (whole @ fraction)) * 10 powi (e - int (length fraction)))
                   (case r2 of
                      [] \<Rightarrow> Some 0
                    | c # cs \<Rightarrow> if c = CHR ''e'' \<or> c = CHR ''E'' then parse_exponent cs else None)))"

text \<open>\<^verbatim>\<open>f64::from_str\<close>.\<close>

definition parse_f64 :: "string \<Rightarrow> f64_text option" where
  "parse_f64 s =
     (let (neg, t) = (case s of c # cs \<Rightarrow> if c = CHR ''-'' then (True, cs) else if c = CHR ''+'' then (False, cs) else (False, s)
                      | [] \<Rightarrow> (False, []))
      in case parse_decimal t of
           Some x \<Rightarrow> Some (if f64_overflows x then F64Infinite neg else F64Finite neg (f64_round x))
         | None \<Rightarrow>
             if eq_ignore_ascii_case t ''inf'' \<or> eq_ignore_ascii_case t ''infinity'' then Some (F64Infinite neg)
             else if eq_ignore_ascii_case t ''nan'' then Some F64NaN
             else None)"

section \<open>Packet times\<close>

text \<open>The milliseconds of a text that are finite and not below zero; \<open>None\<close> for anything else.\<close>

definition finite_ms :: "string \<Rightarrow> rat option" where
  "finite_ms v =
     (case parse_f64 v of
        Some (F64Finite neg x) \<Rightarrow> if neg \<and> x \<noteq> 0 then None else Some x
      | _ \<Rightarrow> None)"

definition ms_to_ns :: "rat \<Rightarrow> rat" where
  "ms_to_ns ms = f64_round (ms * 1000000)"

definition sdp_ptime_ms_as_ns :: "string \<Rightarrow> u64 option" where
  "sdp_ptime_ms_as_ns value =
     (let v = trim value
      in if v = [] then None else map_option (\<lambda>ms. f64_to_u64 (round_half_up (ms_to_ns ms))) (finite_ms v))"

definition parse_ptime_ms_as_ns :: "string \<Rightarrow> u64 option" where
  "parse_ptime_ms_as_ns value =
     (let v = trim value
      in if v = [] then None
         else
           (case finite_ms v of
              None \<Rightarrow> None
            | Some ms \<Rightarrow>
                if ms = 0 \<or> ms_to_ns ms > 2 ^ 64 then None else Some (f64_to_u64 (round_half_up (ms_to_ns ms)))))"

text \<open>The largest \<^verbatim>\<open>i64\<close> is rounded to \<open>2 ^ 63\<close>; the conversion saturates.\<close>

definition pay_ptime_ms_as_ns :: "string \<Rightarrow> int option" where
  "pay_ptime_ms_as_ns s =
     (case finite_ms s of
        None \<Rightarrow> None
      | Some ms \<Rightarrow>
          if ms = 0 \<or> ms_to_ns ms > 2 ^ 63 then None else Some (min \<lfloor>ms_to_ns ms\<rfloor> (2 ^ 63 - 1)))"

section \<open>Bit rates\<close>

definition transport_bit_rate_factor :: rat where
  "transport_bit_rate_factor = f64_round (105 / 100)"

definition transport_from_format_kbps :: "u64 \<Rightarrow> u64" where
  "transport_from_format_kbps format_bit_rate =
     f64_to_u64 (f64_round (f64_round (f64_round (f64_of_u64 format_bit_rate * transport_bit_rate_factor) / 1000) + 1 / 2)) * 1000"

definition format_from_transport_kbps :: "u64 \<Rightarrow> u64" where
  "format_from_transport_kbps transport_bit_rate =
     f64_to_u64 (f64_round (f64_of_u64 transport_bit_rate / transport_bit_rate_factor))"

section \<open>The error of rounding\<close>

lemma round_even_error: "\<bar>of_int (round_even q) - q\<bar> \<le> 1 / 2"
proof -
  have "of_int \<lfloor>q\<rfloor> \<le> q" "q < of_int \<lfloor>q\<rfloor> + 1" by linarith+
  then show ?thesis unfolding round_even_def Let_def by (auto simp: abs_le_iff)
qed

text \<open>A number that is not tiny lies between the powers of two that \<open>last_digit\<close> names.\<close>

lemma scaled_bounds:
  assumes n: "2 ^ 52 \<le> \<lfloor>y\<rfloor>"
  shows "53 \<le> floorlog 2 (nat \<lfloor>y\<rfloor>) \<and> (2::rat) ^ (floorlog 2 (nat \<lfloor>y\<rfloor>) - 1) \<le> y \<and> y < 2 ^ floorlog 2 (nat \<lfloor>y\<rfloor>)"
proof -
  let ?n = "nat \<lfloor>y\<rfloor>"
  let ?l = "floorlog 2 ?n"
  have "2 ^ 52 \<le> ?n" using nat_mono [OF n] by (simp add: nat_power_eq)
  then have l: "53 \<le> ?l" using floorlog_ge_SucI [of 2 52 ?n] by simp
  have pos: "0 < ?n" using n by simp
  then have b: "2 ^ (?l - 1) \<le> ?n" "?n < 2 ^ ?l" using floorlog_bounds [of ?n 2] by simp_all
  have "of_int \<lfloor>y\<rfloor> = (of_nat ?n :: rat)" using pos by simp
  then have y: "of_nat ?n \<le> y" "y < of_nat ?n + 1" by linarith+
  have "(2::rat) ^ (?l - 1) \<le> of_nat ?n" using b(1) by (metis of_nat_le_iff of_nat_numeral of_nat_power)
  note lower = order_trans [OF this y(1)]
  have "of_nat (Suc ?n) \<le> (2::rat) ^ ?l" using b(2) by (metis Suc_leI of_nat_le_iff of_nat_numeral of_nat_power)
  then have "of_nat ?n + 1 \<le> (2::rat) ^ ?l" by (simp only: of_nat_Suc add.commute)
  note upper = less_le_trans [OF y(2) this]
  show ?thesis using l lower upper by blast
qed

lemma f64_scale_powi: "f64_scale = 2 powi 1074"
  by (simp add: f64_scale_def power_int_def)

lemma last_digit_bounds:
  assumes "2 powi (- 1022) \<le> x"
  shows "2 powi (last_digit x + 52) \<le> x \<and> x < 2 powi (last_digit x + 53)"
proof -
  let ?l = "floorlog 2 (nat \<lfloor>x * f64_scale\<rfloor>)"
  have "2 powi (- 1022) * f64_scale = (2::rat) ^ 52"
    unfolding f64_scale_powi by (subst power_int_add [symmetric]) simp_all
  then have "(2::rat) ^ 52 \<le> x * f64_scale"
    using mult_right_mono [OF assms, of f64_scale] by (simp add: f64_scale_powi)
  then have "2 ^ 52 \<le> \<lfloor>x * f64_scale\<rfloor>" by (simp add: le_floor_iff)
  note b = scaled_bounds [OF this]
  have e: "last_digit x = int ?l - 1127" using b by (simp add: last_digit_def)
  have p: "2 powi (int k - 1074) * f64_scale = 2 ^ k" for k
    unfolding f64_scale_powi by (subst power_int_add [symmetric]) simp_all
  have "2 powi (last_digit x + 52) * f64_scale = 2 ^ (?l - 1)" "2 powi (last_digit x + 53) * f64_scale = 2 ^ ?l"
    using p [of "?l - 1"] p [of ?l] b by (simp_all add: e of_nat_diff algebra_simps)
  moreover have "0 < f64_scale" by (simp add: f64_scale_powi)
  ultimately show ?thesis using b by (metis mult_le_cancel_right_pos mult_less_cancel_right_pos)
qed

lemma f64_round_error:
  assumes "2 powi (- 1022) \<le> x"
  shows "\<bar>f64_round x - x\<bar> \<le> x / 2 ^ 53"
proof -
  define u where "u = (2::rat) powi last_digit x"
  have pos: "0 < u" by (simp add: u_def)
  have "2 powi (last_digit x + 52) = u * 2 ^ 52" unfolding u_def by (subst power_int_add) (simp_all add: power_int_def)
  then have u: "u * 2 ^ 52 \<le> x" using last_digit_bounds [OF assms] by simp
  have "f64_round x - x = (of_int (round_even (x / u)) - x / u) * u"
    using pos by (simp add: f64_round_def Let_def field_simps flip: u_def)
  then have "\<bar>f64_round x - x\<bar> = \<bar>of_int (round_even (x / u)) - x / u\<bar> * u" using pos by (simp add: abs_mult)
  also have "\<dots> \<le> 1 / 2 * u" using pos by (intro mult_right_mono round_even_error) simp
  also have "\<dots> \<le> x / 2 ^ 53" using u by (simp add: field_simps)
  finally show ?thesis .
qed

lemma powi_less_D: "(2::rat) powi a < 2 powi b \<Longrightarrow> a < b"
  using power_int_increasing [of b a "2::rat"] by (cases "b \<le> a") auto

text \<open>Exact evaluation on a number between two powers of two.\<close>

lemma f64_round_eq:
  assumes "2 powi e \<le> x" "x < 2 powi (e + 1)" "- 1022 \<le> e"
  shows "f64_round x = of_int (round_even (x / 2 powi (e - 52))) * 2 powi (e - 52)"
proof -
  have "(2::rat) powi (- 1022) \<le> 2 powi e" using assms(3) by (intro power_int_increasing) auto
  then have b: "2 powi (last_digit x + 52) \<le> x" "x < 2 powi (last_digit x + 53)"
    using last_digit_bounds [of x] assms(1) by auto
  have "(2::rat) powi e < 2 powi (last_digit x + 53)" "(2::rat) powi (last_digit x + 52) < 2 powi (e + 1)"
    using assms(1,2) b by simp_all
  then have "e < last_digit x + 53" "last_digit x + 52 < e + 1" by (auto dest: powi_less_D)
  then have "last_digit x = e - 52" by simp
  then show ?thesis by (simp add: f64_round_def Let_def)
qed

section \<open>Packet times are read exactly\<close>

lemma not_tiny: "1 / 2 ^ 64 \<le> x \<Longrightarrow> 2 powi (- 1022) \<le> (x :: rat)"
  using power_int_increasing [of "- 1022" "- 64" "2::rat"] by (simp add: power_int_minus field_simps)

lemma ms_to_ns_error:
  assumes ns: "0 < ns" "ns \<le> 2 ^ 50"
  defines "ms \<equiv> f64_round (of_nat ns / 1000000)"
  shows "0 < ms" "ms < 2 ^ 50" "\<bar>ms_to_ns ms - of_nat ns\<bar> < 1 / 2"
proof -
  let ?x = "of_nat ns / 1000000 :: rat"
  have n: "1 \<le> (of_nat ns :: rat)" "(of_nat ns :: rat) \<le> 2 ^ 50"
    using ns by (simp, metis of_nat_le_iff of_nat_numeral of_nat_power)
  have "\<bar>ms - ?x\<bar> \<le> ?x / 2 ^ 53"
    unfolding ms_def using n(1) by (intro f64_round_error not_tiny) simp
  then have ms: "?x - ?x / 2 ^ 53 \<le> ms" "ms \<le> ?x + ?x / 2 ^ 53" unfolding abs_diff_le_iff by blast+
  then show "0 < ms" "ms < 2 ^ 50" using n by simp_all
  have "\<bar>ms_to_ns ms - ms * 1000000\<bar> \<le> ms * 1000000 / 2 ^ 53"
    unfolding ms_to_ns_def using ms n(1) by (intro f64_round_error not_tiny) simp
  then have "ms * 1000000 - ms * 1000000 / 2 ^ 53 \<le> ms_to_ns ms" "ms_to_ns ms \<le> ms * 1000000 + ms * 1000000 / 2 ^ 53"
    unfolding abs_diff_le_iff by blast+
  then show "\<bar>ms_to_ns ms - of_nat ns\<bar> < 1 / 2" unfolding abs_diff_less_iff using ms n by simp
qed

lemma finite_ms_decimal:
  assumes "parse_decimal v = Some (of_nat ns / 1000000)" "v = c # cs" "c \<noteq> CHR ''-''" "c \<noteq> CHR ''+''" "0 < ns" "ns \<le> 2 ^ 50"
  shows "finite_ms v = Some (f64_round (of_nat ns / 1000000))"
proof -
  have "f64_round (of_nat ns / 1000000) < 2 ^ 1024"
    using ms_to_ns_error(2) [OF assms(5,6)] power_increasing [of 50 1024 "2::rat"] by simp
  then have "\<not> f64_overflows (of_nat ns / 1000000)" by (simp add: f64_overflows_def)
  then show ?thesis using assms by (simp add: finite_ms_def parse_f64_def)
qed

text \<open>
  C33. Packet times. A text with the exact decimal value of a number of nanoseconds, up to \<open>2 ^ 50\<close>, is
  read as that number when an SDP is made and when packets for Rivermax are sized, in spite of the
  rounding of binary fractions. The payloader of the UDP chain gets the same number or one less: there
  the product is cut off, not rounded.
\<close>

theorem packet_times:
  assumes decimal: "parse_decimal v = Some (of_nat ns / 1000000)" "trim v = v" "v = c # cs" "c \<noteq> CHR ''-''" "c \<noteq> CHR ''+''"
    and ns: "0 < ns" "ns \<le> 2 ^ 50"
  shows "sdp_ptime_ms_as_ns v = Some (of_nat ns) \<and> parse_ptime_ms_as_ns v = Some (of_nat ns) \<and>
    pay_ptime_ms_as_ns v \<in> {Some (int ns), Some (int ns - 1)}"
proof -
  define ms where "ms = f64_round (of_nat ns / 1000000)"
  define y where "y = ms_to_ns ms"
  have ms: "finite_ms v = Some ms" unfolding ms_def using finite_ms_decimal [OF decimal(1,3,4,5) ns] .
  have pos: "0 < ms" unfolding ms_def using ms_to_ns_error(1) [OF ns] .
  have y: "of_nat ns - 1 / 2 < y" "y < of_nat ns + 1 / 2"
    using ms_to_ns_error(3) [OF ns] unfolding abs_diff_less_iff y_def ms_def by auto
  have n: "(of_nat ns :: rat) \<le> 2 ^ 50" using ns by (metis of_nat_le_iff of_nat_numeral of_nat_power)
  have whole: "\<lfloor>y + 1 / 2\<rfloor> = int ns" using y by (intro floor_unique) simp_all
  have "f64_to_u64 (round_half_up y) = of_nat ns"
    unfolding f64_to_u64_def round_half_up_def whole using ns by (simp add: min_def)
  moreover have "\<not> y > 2 ^ 64" "\<not> y > 2 ^ 63" using y n by simp_all
  moreover have "\<lfloor>y\<rfloor> = int ns \<or> \<lfloor>y\<rfloor> = int ns - 1" "\<lfloor>y\<rfloor> \<le> 2 ^ 63 - 1"
  proof -
    have "int ns - 1 \<le> \<lfloor>y\<rfloor>" using y by (simp add: le_floor_iff)
    moreover have "\<lfloor>y\<rfloor> \<le> \<lfloor>y + 1 / 2\<rfloor>" by (simp add: floor_mono)
    then have "\<lfloor>y\<rfloor> < int ns + 1" by (simp add: whole)
    ultimately have "int ns - 1 \<le> \<lfloor>y\<rfloor>" "\<lfloor>y\<rfloor> < int ns + 1" .
    then show "\<lfloor>y\<rfloor> = int ns \<or> \<lfloor>y\<rfloor> = int ns - 1" by linarith
    have "\<lfloor>y\<rfloor> \<le> int ns" "int ns \<le> 2 ^ 63 - 1" using \<open>\<lfloor>y\<rfloor> < int ns + 1\<close> ns(2) by simp_all
    then show "\<lfloor>y\<rfloor> \<le> 2 ^ 63 - 1" by (rule order_trans)
  qed
  ultimately show ?thesis using ms pos decimal(2,3)
    by (auto simp: sdp_ptime_ms_as_ns_def parse_ptime_ms_as_ns_def pay_ptime_ms_as_ns_def Let_def simp flip: y_def)
qed

lemma f64_round_shift:
  assumes "2 ^ m \<le> x" "x < 2 ^ Suc m" "m + k = 52"
  shows "f64_round x = of_int (round_even (x * 2 ^ k)) / 2 ^ k"
proof -
  have "int m - 52 = - int k" using assms(3) by simp
  moreover have "2 powi (int m + 1) = (2::rat) ^ Suc m" by (simp add: power_int_add)
  ultimately show ?thesis
    using f64_round_eq [of "int m" x] assms(1,2) by (simp add: power_int_minus divide_inverse)
qed

lemma round_evenI:
  assumes "of_int r - 1 / 2 < q" "q < of_int r + 1 / 2"
  shows "round_even q = r"
proof (cases "of_int r \<le> q")
  case True
  then have "\<lfloor>q\<rfloor> = r" using assms by (intro floor_unique) simp_all
  then show ?thesis using assms by (simp add: round_even_def Let_def)
next
  case False
  then have "\<lfloor>q\<rfloor> = r - 1" using assms by (intro floor_unique) simp_all
  then show ?thesis using assms False by (simp add: round_even_def Let_def)
qed

lemma two_ms: "f64_round (201 / 100) = 1131529406376837 / 2 ^ 49"
  by (subst f64_round_shift [of 1 _ 51], simp_all, subst round_evenI [of 4526117625507348], simp_all)

lemma two_ms_ns: "ms_to_ns (1131529406376837 / 2 ^ 49) = 2010000 - 1 / 2 ^ 32"
  unfolding ms_to_ns_def
  by (subst f64_round_shift [of 20 _ 32], simp_all, subst round_evenI [of 8632884264959999], simp_all)

theorem packet_times_witness:
  "sdp_ptime_ms_as_ns ''2.01'' = Some 2010000 \<and> parse_ptime_ms_as_ns ''2.01'' = Some 2010000 \<and> pay_ptime_ms_as_ns ''2.01'' = Some 2009999"
proof -
  have decimal: "parse_decimal ''2.01'' = Some (of_nat 2010000 / 1000000)"
    by (simp add: parse_decimal_def digits_number_def digit_val_def power_int_def power_divide)
  then have "finite_ms ''2.01'' = Some (1131529406376837 / 2 ^ 49)"
    using finite_ms_decimal [OF decimal] two_ms by simp
  moreover have "\<lfloor>ms_to_ns (1131529406376837 / 2 ^ 49)\<rfloor> = 2009999" unfolding two_ms_ns by (intro floor_unique) simp_all
  ultimately have "pay_ptime_ms_as_ns ''2.01'' = Some 2009999"
    unfolding pay_ptime_ms_as_ns_def by (simp only: option.case two_ms_ns) simp
  then show ?thesis
    using packet_times [OF decimal] by (simp add: trim_def is_ws_def)
qed

section \<open>Derived bit rates\<close>

lemma f64_round_near:
  assumes "x = 0 \<or> 1 / 2 ^ 64 \<le> x"
  shows "x - x / 2 ^ 53 \<le> f64_round x \<and> f64_round x \<le> x + x / 2 ^ 53"
proof (cases "x = 0")
  case True
  then show ?thesis by (simp add: f64_round_def round_even_def Let_def)
next
  case False
  then show ?thesis using f64_round_error [OF not_tiny, of x] assms unfolding abs_diff_le_iff by blast
qed

lemma factor_value: "transport_bit_rate_factor = 4728779608739021 / 2 ^ 52"
  unfolding transport_bit_rate_factor_def
  by (subst f64_round_shift [of 0 _ 52], simp_all, subst round_evenI [of 4728779608739021], simp_all)

lemma f64_to_u64_floor:
  assumes "0 \<le> x" "x < 2 ^ 60"
  shows "of_nat (unat (f64_to_u64 x)) \<le> x \<and> x < of_nat (unat (f64_to_u64 x)) + 1"
proof -
  have b: "0 \<le> \<lfloor>x\<rfloor>" "\<lfloor>x\<rfloor> < 2 ^ 60" using assms by (simp_all add: floor_less_iff)
  then have "int (unat (f64_to_u64 x)) = \<lfloor>x\<rfloor>"
    by (simp add: f64_to_u64_def min_def uint_nat [symmetric] uint_word_of_int_eq take_bit_int_eq_self)
  then have "(of_nat (unat (f64_to_u64 x)) :: rat) = of_int \<lfloor>x\<rfloor>" by (metis of_int_of_nat_eq)
  then show ?thesis by linarith
qed

lemma transport_rate_close:
  assumes "unat f \<le> 2 ^ 40"
  obtains n where "transport_from_format_kbps f = of_nat (1000 * n)"
    "\<bar>of_nat (1000 * n) - 105 / 100 * of_nat (unat f)\<bar> \<le> (501 :: rat)"
proof
  define F where "F = (of_nat (unat f) :: rat)"
  define a where "a = f64_of_u64 f"
  define b where "b = f64_round (a * transport_bit_rate_factor)"
  define d where "d = f64_round (b / 1000)"
  define g where "g = f64_round (d + 1 / 2)"
  have F: "F = 0 \<or> 1 \<le> F" "F \<le> 2 ^ 40"
    using assms unfolding F_def by (cases "unat f", simp, simp, metis of_nat_le_iff of_nat_numeral of_nat_power)
  have a: "F - F / 2 ^ 53 \<le> a" "a \<le> F + F / 2 ^ 53"
    using f64_round_near [of F] F(1) unfolding a_def f64_of_u64_def F_def [symmetric] by auto
  have b: "a * transport_bit_rate_factor * (1 - 1 / 2 ^ 53) \<le> b" "b \<le> a * transport_bit_rate_factor * (1 + 1 / 2 ^ 53)"
    using f64_round_near [of "a * transport_bit_rate_factor"] F a unfolding b_def factor_value by (auto simp: field_simps)
  have d: "b / 1000 * (1 - 1 / 2 ^ 53) \<le> d" "d \<le> b / 1000 * (1 + 1 / 2 ^ 53)"
    using f64_round_near [of "b / 1000"] F a b unfolding d_def factor_value by (auto simp: field_simps)
  have g: "(d + 1 / 2) * (1 - 1 / 2 ^ 53) \<le> g" "g \<le> (d + 1 / 2) * (1 + 1 / 2 ^ 53)"
    using f64_round_near [of "d + 1 / 2"] F a b d unfolding g_def factor_value by (auto simp: field_simps)
  have "0 \<le> g" "g < 2 ^ 60" using F a b d g unfolding factor_value by (auto simp: field_simps)
  note n = f64_to_u64_floor [OF this]
  show "transport_from_format_kbps f = of_nat (1000 * unat (f64_to_u64 g))"
    unfolding transport_from_format_kbps_def g_def d_def b_def a_def by simp
  show "\<bar>of_nat (1000 * unat (f64_to_u64 g)) - 105 / 100 * of_nat (unat f)\<bar> \<le> (501 :: rat)"
    unfolding abs_diff_le_iff F_def [symmetric] using n F a b d g unfolding factor_value by (auto simp: field_simps)
qed

end
