(* ===== verification/Gst_Packetization.thy ===== *)
theory Gst_Packetization
  imports Gst_FlowDef Gst_Float
begin

text \<open>
  Sizes of RTP packets for the Rivermax elements (\<^verbatim>\<open>nvdsudp/packetization.rs\<close>) and the choice of
  their clock (\<^verbatim>\<open>nvdsudp/ts_refclk.rs\<close>).

  Sizes are \<^verbatim>\<open>u32\<close> and wrap; the theorems say where they do not. Texts of errors
  are left out.
\<close>

section \<open>Sizes\<close>

definition video_header_size :: u32 where "video_header_size = 20"
definition audio_header_size :: u32 where "audio_header_size = 12"
definition anc_header_size :: u32 where "anc_header_size = 20"
definition default_max_video_rtp_payload :: u32 where "default_max_video_rtp_payload = 1452"
definition default_ptime_ns :: u64 where "default_ptime_ns = 1000000"
definition default_audio_buffer_ns :: u64 where "default_audio_buffer_ns = 16000000"
definition min_src_payload_per_packet :: u32 where "min_src_payload_per_packet = 800"

record video_packetization =
  vp_sink_payload_size :: u32
  vp_src_payload_size :: u32
  vp_packets_per_line :: u32

record audio_packetization =
  au_sink_payload_size :: u32
  au_src_payload_size :: u32
  au_payload_multiple :: u32

datatype packetization = VideoPackets video_packetization | AudioPackets audio_packetization | AncPackets

datatype packet_error =
    UnsupportedVideoFormat
  | StrideOverflow
  | EmptyCapsGiven
  | MissingCapsField string
  | NegativeField string
  | ZeroField string
  | ZeroMaxPayload
  | NoPacketsPerLine
  | BadPtime
  | UnsupportedAudioFormat
  | PayloadOverflow
  | PayloadZero
  | NotAncCaps
  | NotFrameAligned
  | UnspecifiedFormat

record video_pgroup =
  pg_pixels :: u32
  pg_bytes :: u32

definition video_pgroup_of :: "string \<Rightarrow> packet_error + video_pgroup" where
  "video_pgroup_of fmt =
     (if fmt = ''UYVY'' then Inr \<lparr>pg_pixels = 1, pg_bytes = 2\<rparr>
      else if fmt = ''UYVP'' then Inr \<lparr>pg_pixels = 2, pg_bytes = 5\<rparr>
      else if fmt = ''RGB'' then Inr \<lparr>pg_pixels = 1, pg_bytes = 3\<rparr>
      else Inl UnsupportedVideoFormat)"

text \<open>Operations of \<^verbatim>\<open>u32\<close> and \<^verbatim>\<open>u64\<close>.\<close>

definition div_ceil :: "u32 \<Rightarrow> u32 \<Rightarrow> u32" where
  "div_ceil a b = (if a mod b > 0 then a div b + 1 else a div b)"

definition checked_mul :: "'a::len word \<Rightarrow> 'a word \<Rightarrow> 'a word option" where
  "checked_mul a b = (if unat a * unat b < 2 ^ LENGTH('a) then Some (a * b) else None)"

definition is_multiple_of :: "u32 \<Rightarrow> u32 \<Rightarrow> bool" where
  "is_multiple_of a b \<longleftrightarrow> (if b = 0 then a = 0 else a mod b = 0)"

definition saturating_sub :: "u32 \<Rightarrow> u32 \<Rightarrow> u32" where
  "saturating_sub a b = (if a \<le> b then 0 else a - b)"

definition saturating_mul :: "u32 \<Rightarrow> u32 \<Rightarrow> u32" where
  "saturating_mul a b = (case checked_mul a b of Some c \<Rightarrow> c | None \<Rightarrow> - 1)"

definition u32_try_from :: "string \<Rightarrow> int \<Rightarrow> packet_error + u32" where
  "u32_try_from field n = (if n < 0 then Inl (NegativeField field) else Inr (of_int n))"

section \<open>Video\<close>

definition video_line_stride :: "u32 \<Rightarrow> string \<Rightarrow> packet_error + u32" where
  "video_line_stride width fmt =
     (case video_pgroup_of fmt of
        Inl e \<Rightarrow> Inl e
      | Inr pg \<Rightarrow>
          (let padded_width = div_ceil width (pg_pixels pg) * pg_pixels pg;
               groups = padded_width div pg_pixels pg
           in case checked_mul groups (pg_bytes pg) of None \<Rightarrow> Inl StrideOverflow | Some s \<Rightarrow> Inr s))"

definition choose_packets_per_line :: "u32 \<Rightarrow> u32 \<Rightarrow> packet_error + u32" where
  "choose_packets_per_line stride max_rtp_payload =
     (if max_rtp_payload = 0 then Inl ZeroMaxPayload
      else
        (let min_ppl = div_ceil stride max_rtp_payload;
             max_ppl = stride div min_src_payload_per_packet
         in if min_ppl > max_ppl then Inl NoPacketsPerLine
            else
              (case find (\<lambda>n. is_multiple_of stride (of_nat n)) [unat min_ppl ..< Suc (unat max_ppl)] of
                 Some n \<Rightarrow> Inr (of_nat n)
               | None \<Rightarrow> Inl NoPacketsPerLine)))"

definition video_shape :: "gst_caps \<Rightarrow> packet_error + (u32 \<times> string)" where
  "video_shape caps =
     (case caps of
        [] \<Rightarrow> Inl EmptyCapsGiven
      | (_, st) # _ \<Rightarrow>
          (case field_string st ''format'' of
             None \<Rightarrow> Inl (MissingCapsField ''format'')
           | Some fmt \<Rightarrow>
               (case field_int st ''width'' of
                  None \<Rightarrow> Inl (MissingCapsField ''width'')
                | Some w \<Rightarrow> map_sum id (\<lambda>w. (w, fmt)) (u32_try_from ''width'' w))))"

definition video_from_caps :: "gst_caps \<Rightarrow> u32 \<Rightarrow> packet_error + video_packetization" where
  "video_from_caps caps max_rtp_payload =
     (case video_shape caps of
        Inl e \<Rightarrow> Inl e
      | Inr (width, fmt) \<Rightarrow>
          if width = 0 then Inl (ZeroField ''width'')
          else
            (case video_line_stride width fmt of
               Inl e \<Rightarrow> Inl e
             | Inr stride \<Rightarrow>
                 if stride = 0 then Inl (ZeroField ''stride'')
                 else
                   (case choose_packets_per_line stride max_rtp_payload of
                      Inl e \<Rightarrow> Inl e
                    | Inr ppl \<Rightarrow>
                        (let src = stride div ppl
                         in Inr \<lparr>vp_sink_payload_size = src + video_header_size, vp_src_payload_size = src,
                              vp_packets_per_line = ppl\<rparr>))))"

definition video_configured_stride :: "u32 \<Rightarrow> u32 \<Rightarrow> u32" where
  "video_configured_stride sink_payload_size packets_per_line =
     saturating_mul (saturating_sub sink_payload_size video_header_size) packets_per_line"

definition video_target_stride :: "gst_caps \<Rightarrow> packet_error + u32" where
  "video_target_stride caps =
     (case video_shape caps of Inl e \<Rightarrow> Inl e | Inr (width, fmt) \<Rightarrow> video_line_stride width fmt)"

text \<open>
  The two properties of the sink, before and after the properties that an application may have set
  are reconciled with the essence.
\<close>

definition reconcile_sink_video_packetization ::
  "gst_caps \<Rightarrow> u32 \<Rightarrow> u32 \<Rightarrow> packet_error + (u32 \<times> u32)" where
  "reconcile_sink_video_packetization caps user_payload user_ppl =
     (case video_from_caps caps default_max_video_rtp_payload of
        Inl e \<Rightarrow> Inl e
      | Inr calculated \<Rightarrow>
          (case video_target_stride caps of
             Inl e \<Rightarrow> Inl e
           | Inr target_stride \<Rightarrow>
               if video_configured_stride user_payload user_ppl = target_stride then Inr (user_payload, user_ppl)
               else Inr (vp_sink_payload_size calculated, vp_packets_per_line calculated)))"

section \<open>Audio and ancillary data\<close>

definition audio_sample_bytes :: "string \<Rightarrow> packet_error + u32" where
  "audio_sample_bytes fmt =
     (if fmt = ''S24BE'' then Inr 3 else if fmt = ''S16BE'' then Inr 2 else Inl UnsupportedAudioFormat)"

definition audio_shape :: "gst_caps \<Rightarrow> packet_error + (string \<times> u32 \<times> u32)" where
  "audio_shape caps =
     (case caps of
        [] \<Rightarrow> Inl EmptyCapsGiven
      | (_, st) # _ \<Rightarrow>
          (case field_string st ''format'' of
             None \<Rightarrow> Inl (MissingCapsField ''format'')
           | Some fmt \<Rightarrow>
               (case field_int st ''rate'' of
                  None \<Rightarrow> Inl (MissingCapsField ''rate'')
                | Some rate \<Rightarrow>
                    (case u32_try_from ''rate'' rate of
                       Inl e \<Rightarrow> Inl e
                     | Inr rate \<Rightarrow>
                         (case field_int st ''channels'' of
                            None \<Rightarrow> Inl (MissingCapsField ''channels'')
                          | Some channels \<Rightarrow>
                              map_sum id (\<lambda>channels. (fmt, rate, channels)) (u32_try_from ''channels'' channels))))))"

definition audio_from_caps :: "gst_caps \<Rightarrow> u64 \<Rightarrow> packet_error + audio_packetization" where
  "audio_from_caps caps ptime_ns =
     (if ptime_ns = 0 then Inl BadPtime
      else
        (case audio_shape caps of
           Inl e \<Rightarrow> Inl e
         | Inr (fmt, rate, channels) \<Rightarrow>
             if rate = 0 \<or> channels = 0 then Inl (ZeroField ''rate'')
             else
               (case audio_sample_bytes fmt of
                  Inl e \<Rightarrow> Inl e
                | Inr sample_bytes \<Rightarrow>
                    (case Option.bind (checked_mul (ucast rate) ptime_ns) (\<lambda>n.
                            Option.bind (checked_mul n (ucast sample_bytes)) (\<lambda>n. checked_mul n (ucast channels))) of
                       None \<Rightarrow> Inl PayloadOverflow
                     | Some numerator \<Rightarrow>
                         (let src_payload = ucast ((numerator + 500000000) div 1000000000 :: u64) :: u32
                          in if src_payload = 0 then Inl PayloadZero
                             else
                               Inr \<lparr>au_sink_payload_size = src_payload + audio_header_size,
                                 au_src_payload_size = src_payload,
                                 au_payload_multiple =
                                   ucast (max ((default_audio_buffer_ns + ptime_ns div 2) div ptime_ns) 1)\<rparr>)))))"

definition ptime_ns_from_rtp_caps :: "gst_caps \<Rightarrow> packet_error + u64" where
  "ptime_ns_from_rtp_caps rtp_caps =
     (case rtp_caps of
        [] \<Rightarrow> Inr default_ptime_ns
      | (_, st) # _ \<Rightarrow>
          (case field_string st ''a-ptime'' of
             None \<Rightarrow> Inr default_ptime_ns
           | Some s \<Rightarrow> (case parse_ptime_ms_as_ns s of None \<Rightarrow> Inl BadPtime | Some ns \<Rightarrow> Inr ns)))"

definition anc_from_caps :: "gst_caps \<Rightarrow> packet_error + packetization" where
  "anc_from_caps caps =
     (case caps of
        [] \<Rightarrow> Inl EmptyCapsGiven
      | (name, st) # _ \<Rightarrow>
          if name \<noteq> ''meta/x-st-2038'' then Inl NotAncCaps
          else
            (case field_string st ''alignment'' of
               None \<Rightarrow> Inr AncPackets
             | Some a \<Rightarrow> if a = ''frame'' then Inr AncPackets else Inl NotFrameAligned))"

definition with_st2038_frame_alignment :: "gst_caps \<Rightarrow> gst_caps" where
  "with_st2038_frame_alignment caps =
     (case caps of
        [] \<Rightarrow> []
      | (name, st) # rest \<Rightarrow>
          if name = ''meta/x-st-2038'' \<and> field_string st ''alignment'' = None
          then (name, AList.update ''alignment'' (GString (Some ''frame'')) st) # rest
          else caps)"

definition packetization_from_media ::
  "flow_format \<Rightarrow> gst_caps \<Rightarrow> gst_caps \<Rightarrow> packet_error + packetization" where
  "packetization_from_media fmt caps rtp_caps =
     (case fmt of
        FmtVideo \<Rightarrow> map_sum id VideoPackets (video_from_caps caps default_max_video_rtp_payload)
      | FmtAudio \<Rightarrow>
          (case ptime_ns_from_rtp_caps rtp_caps of
             Inl e \<Rightarrow> Inl e
           | Inr ptime_ns \<Rightarrow> map_sum id AudioPackets (audio_from_caps caps ptime_ns))
      | FmtData \<Rightarrow> anc_from_caps caps
      | FmtUnspecified \<Rightarrow> Inl UnspecifiedFormat)"

section \<open>The clock\<close>

datatype ptp_src_resolution = PtpUnset | UseInterfaceIp

definition collect_ts_refclk_values :: "string \<Rightarrow> string list" where
  "collect_ts_refclk_values sdp_text =
     List.map_filter (\<lambda>line. map_option trim (strip_prefix ''a=ts-refclk:'' (trim line))) (str_lines sdp_text)"

fun ptp_src_loop :: "bool \<Rightarrow> string list \<Rightarrow> ptp_src_resolution" where
  "ptp_src_loop saw_ptp [] = (if saw_ptp then UseInterfaceIp else PtpUnset)"
| "ptp_src_loop saw_ptp (value # vs) =
     (if value = ''local'' \<or> strip_prefix ''localmac='' value \<noteq> None then PtpUnset
      else ptp_src_loop (saw_ptp \<or> strip_prefix ''ptp='' value \<noteq> None) vs)"

definition ptp_src_from_sdp :: "string \<Rightarrow> ptp_src_resolution" where
  "ptp_src_from_sdp sdp_text = ptp_src_loop False (collect_ts_refclk_values sdp_text)"

section \<open>Video lines\<close>

lemma ceil_nat:
  fixes a b :: nat
  assumes "0 < b"
  shows "(a + b - 1) div b = (if 0 < a mod b then Suc (a div b) else a div b)"
proof -
  have a: "a = b * (a div b) + a mod b" "a mod b < b" using assms by simp_all
  show ?thesis
  proof (cases "0 < a mod b")
    case True
    have "(a + b - 1) div b = Suc (a div b)"
      by (rule div_nat_eqI; unfold mult_Suc_right; use a True in linarith)
    with True show ?thesis by simp
  next
    case False
    have "(a + b - 1) div b = a div b"
      by (rule div_nat_eqI; (unfold mult_Suc_right)?; use a False assms in linarith)
    with False show ?thesis by simp
  qed
qed

lemma div_ceil_nat:
  assumes "b \<noteq> 0"
  shows "unat (div_ceil a b) = (unat a + unat b - 1) div unat b"
proof -
  have b: "unat b > 0" using assms by (simp add: unat_gt_0)
  have "unat a div unat b + 1 < 2 ^ 32" if "unat a mod unat b > 0"
  proof -
    have "unat b \<noteq> 1" using that by auto
    then have "unat a div unat b \<le> unat a div 2" using b by (intro div_le_mono2) auto
    moreover have "unat a < 2 ^ 32" by (rule unat_u32_less)
    ultimately show ?thesis by simp
  qed
  then show ?thesis unfolding ceil_nat [OF b]
    by (auto simp: div_ceil_def word_less_nat_alt unat_div unat_mod unat_u32_add)
qed

text \<open>\<open>n\<close> packets of equal size make up a line and each is within the limits.\<close>

definition tiles_line :: "nat \<Rightarrow> nat \<Rightarrow> nat \<Rightarrow> bool" where
  "tiles_line stride limit n \<longleftrightarrow> n dvd stride \<and> stride div n \<le> limit \<and> 800 \<le> stride div n"

lemma tiles_line_range:
  assumes "0 < stride" "0 < limit" "n dvd stride"
  shows "tiles_line stride limit n \<longleftrightarrow> (stride + limit - 1) div limit \<le> n \<and> n \<le> stride div 800"
proof -
  obtain k where k: "stride = n * k" using assms(3) by blast
  then have pos: "0 < n" "0 < k" using assms(1) by auto
  have "(stride + limit - 1) div limit \<le> n \<longleftrightarrow> stride \<le> n * limit"
    using assms(2) by (simp add: less_Suc_eq_le [symmetric] div_less_iff_less_mult) (auto simp: algebra_simps)
  also have "\<dots> \<longleftrightarrow> k \<le> limit" using k pos by simp
  finally have upper: "(stride + limit - 1) div limit \<le> n \<longleftrightarrow> k \<le> limit" .
  have "n \<le> stride div 800 \<longleftrightarrow> n * 800 \<le> n * k" by (simp add: less_eq_div_iff_mult_less_eq k)
  also have "\<dots> \<longleftrightarrow> 800 \<le> k" using pos by simp
  finally show ?thesis using upper k pos assms(3) by (simp add: tiles_line_def)
qed

lemma choose_spec:
  assumes "stride \<noteq> 0" "limit \<noteq> 0"
  shows "case choose_packets_per_line stride limit of
      Inr n \<Rightarrow> tiles_line (unat stride) (unat limit) (unat n) \<and>
        (\<forall>m. tiles_line (unat stride) (unat limit) m \<longrightarrow> unat n \<le> m)
    | Inl e \<Rightarrow> e = NoPacketsPerLine \<and> (\<forall>m. \<not> tiles_line (unat stride) (unat limit) m)"
proof -
  let ?lo = "(unat stride + unat limit - 1) div unat limit" and ?hi = "unat stride div 800"
  have pos: "0 < unat stride" "0 < unat limit" using assms by (simp_all add: unat_gt_0)
  have lo: "unat (div_ceil stride limit) = ?lo" using div_ceil_nat [OF assms(2)] .
  have hi: "unat (stride div min_src_payload_per_packet) = ?hi"
    by (simp add: min_src_payload_per_packet_def unat_div)
  have lo_pos: "0 < ?lo" using pos by (simp add: div_greater_zero_iff)
  have hi_small: "?hi < 2 ^ 32" using unat_u32_less [of stride] by simp
  have mult: "is_multiple_of stride (of_nat n) \<longleftrightarrow> n dvd unat stride" if "?lo \<le> n" "n \<le> ?hi" for n
  proof -
    have "unat (of_nat n :: u32) = n" "0 < n" using that hi_small lo_pos by (simp_all add: unat_of_nat)
    then have "(of_nat n :: u32) \<noteq> 0" "stride mod of_nat n = 0 \<longleftrightarrow> unat stride mod n = 0"
      by (auto simp: unat_gt_0 [symmetric] unat_mod word_unat_eq_iff)
    then show ?thesis by (auto simp: is_multiple_of_def)
  qed
  have tiles: "tiles_line (unat stride) (unat limit) m \<longleftrightarrow> m dvd unat stride \<and> ?lo \<le> m \<and> m \<le> ?hi" for m
    using tiles_line_range [OF pos, of m] by (auto simp: tiles_line_def)
  define candidates where "candidates = [?lo ..< Suc ?hi]"
  have nth: "candidates ! i = ?lo + i" if "i < length candidates" for i using that by (simp add: candidates_def del: upt_Suc)
  have in_candidates: "m \<in> set candidates \<longleftrightarrow> ?lo \<le> m \<and> m \<le> ?hi" for m by (auto simp: candidates_def)
  let ?find = "find (\<lambda>n. is_multiple_of stride (of_nat n)) candidates"
  have choose: "choose_packets_per_line stride limit =
      (if ?lo > ?hi then Inl NoPacketsPerLine else case ?find of Some n \<Rightarrow> Inr (of_nat n) | None \<Rightarrow> Inl NoPacketsPerLine)"
    using assms(2) by (simp add: choose_packets_per_line_def Let_def word_less_nat_alt lo hi candidates_def)
  show ?thesis
  proof (cases ?find)
    case None
    then have "\<not> tiles_line (unat stride) (unat limit) m" for m
      using mult in_candidates by (auto simp: find_None_iff tiles)
    then show ?thesis using None choose by simp
  next
    case (Some n)
    then obtain i where i: "i < length candidates" "n = candidates ! i" "is_multiple_of stride (of_nat n)"
        "\<And>j. j < i \<Longrightarrow> \<not> is_multiple_of stride (of_nat (candidates ! j))"
      by (auto simp: find_Some_iff)
    then have n: "n = ?lo + i" "?lo \<le> n" "n \<le> ?hi" using nth in_candidates nth_mem [OF i(1)] by auto
    have "unat (of_nat n :: u32) = n" using n(3) hi_small by (intro unat_u32) linarith
    moreover have "n \<le> m" if "tiles_line (unat stride) (unat limit) m" for m
    proof (rule ccontr)
      assume "\<not> n \<le> m"
      moreover have m: "?lo \<le> m" using that tiles by blast
      ultimately have small: "m - ?lo < i" using n(1) by linarith
      then have "candidates ! (m - ?lo) = m" using nth i(1) m by simp
      then show False using i(4) [OF small] mult [of m] that tiles by simp
    qed
    moreover have "tiles_line (unat stride) (unat limit) n" using i(3) n(2,3) mult tiles by blast
    ultimately show ?thesis using Some choose n(2,3) by simp
  qed
qed

lemma stride_spec:
  assumes "video_line_stride width fmt = Inr stride" "unat width < 2 ^ 31"
  shows "\<exists>pixels bytes. (fmt, pixels, bytes) \<in> {(''UYVY'', 1, 2), (''UYVP'', 2, 5), (''RGB'', 1, 3)} \<and>
    unat stride = (unat width + pixels - 1) div pixels * bytes"
proof -
  obtain pg where pg: "video_pgroup_of fmt = Inr pg" using assms(1) by (auto simp: video_line_stride_def split: sum.splits)
  then have known: "(fmt, unat (pg_pixels pg), unat (pg_bytes pg)) \<in> {(''UYVY'', 1, 2), (''UYVP'', 2, 5), (''RGB'', 1, 3)}"
    by (auto simp: video_pgroup_of_def split: if_splits)
  then have p: "pg_pixels pg \<noteq> 0" "0 < unat (pg_pixels pg)" "unat (pg_pixels pg) \<le> 2" by (auto simp: unat_gt_0)
  let ?g = "(unat width + unat (pg_pixels pg) - 1) div unat (pg_pixels pg)"
  have ceil: "unat (div_ceil width (pg_pixels pg)) = ?g" by (rule div_ceil_nat [OF p(1)])
  have "?g * unat (pg_pixels pg) \<le> unat width + unat (pg_pixels pg) - 1" by simp
  also have "\<dots> < 2 ^ 32" using assms(2) p(3) by simp
  finally have "?g * unat (pg_pixels pg) < 2 ^ 32" .
  then have "unat (div_ceil width (pg_pixels pg) * pg_pixels pg) = ?g * unat (pg_pixels pg)"
    using ceil by (simp add: unat_word_ariths)
  then have groups: "unat (div_ceil width (pg_pixels pg) * pg_pixels pg div pg_pixels pg) = ?g"
    using p by (simp add: unat_div)
  then have "unat stride = ?g * unat (pg_bytes pg)"
    using assms(1) pg by (auto simp: video_line_stride_def checked_mul_def Let_def unat_word_ariths split: if_splits)
  with known show ?thesis by (intro exI [of _ "unat (pg_pixels pg)"] exI [of _ "unat (pg_bytes pg)"]) simp
qed

lemma video_shape_small:
  "video_shape caps = Inr (w, fmt) \<Longrightarrow> unat w < 2 ^ 31"
proof -
  assume "video_shape caps = Inr (w, fmt)"
  then obtain n where n: "0 \<le> n" "n < 2 ^ 31" "w = of_int n"
    by (fastforce simp: video_shape_def u32_try_from_def field_int_def i32_range_def not_less
        split: list.splits option.splits if_splits elim!: value_int.elims)
  then have "uint w = n" by (simp add: uint_word_of_int)
  then show "unat w < 2 ^ 31" using n by (simp add: unat_eq_nat_uint nat_less_iff)
qed

text \<open>The bytes of a line of pixels, padded to whole groups.\<close>

definition line_bytes :: "gst_caps \<Rightarrow> nat option" where
  "line_bytes caps =
     (case caps of
        [] \<Rightarrow> None
      | (_, st) # _ \<Rightarrow>
          (case (field_string st ''format'', field_int st ''width'') of
             (Some fmt, Some w) \<Rightarrow>
               if w < 0 then None
               else if fmt = ''UYVY'' then Some (nat w * 2)
               else if fmt = ''UYVP'' then Some ((nat w + 1) div 2 * 5)
               else if fmt = ''RGB'' then Some (nat w * 3)
               else None
           | _ \<Rightarrow> None))"

lemma target_stride_bytes:
  assumes "video_target_stride caps = Inr stride"
  shows "line_bytes caps = Some (unat stride)"
proof -
  obtain w fmt where shape: "video_shape caps = Inr (w, fmt)" and stride: "video_line_stride w fmt = Inr stride"
    using assms by (auto simp: video_target_stride_def split: sum.splits)
  obtain name st rest n where caps: "caps = (name, st) # rest" and fields: "field_string st ''format'' = Some fmt"
      "field_int st ''width'' = Some n" "0 \<le> n" "w = of_int n"
    using shape by (fastforce simp: video_shape_def u32_try_from_def not_less split: list.splits option.splits if_splits)
  have "n < 2 ^ 31" using fields(2) by (auto simp: field_int_def i32_range_def split: option.splits if_splits elim!: value_int.elims)
  then have "unat w = nat n" using fields(3,4) by (simp add: unat_eq_nat_uint uint_word_of_int)
  with stride_spec [OF stride video_shape_small [OF shape]] show ?thesis
    using caps fields by (auto simp: line_bytes_def)
qed

lemma video_from_caps_steps:
  assumes "video_from_caps caps limit = Inr p" "limit \<noteq> 0" "unat limit < 2 ^ 31"
  shows "\<exists>stride. video_target_stride caps = Inr stride \<and>
    tiles_line (unat stride) (unat limit) (unat (vp_packets_per_line p)) \<and>
    (\<forall>m. tiles_line (unat stride) (unat limit) m \<longrightarrow> unat (vp_packets_per_line p) \<le> m) \<and>
    unat (vp_src_payload_size p) = unat stride div unat (vp_packets_per_line p) \<and>
    unat (vp_sink_payload_size p) = unat (vp_src_payload_size p) + 20"
proof -
  obtain w fmt stride ppl where parts: "video_shape caps = Inr (w, fmt)" "video_line_stride w fmt = Inr stride" "stride \<noteq> 0"
      "choose_packets_per_line stride limit = Inr ppl"
      "p = \<lparr>vp_sink_payload_size = stride div ppl + video_header_size, vp_src_payload_size = stride div ppl,
         vp_packets_per_line = ppl\<rparr>"
    using assms(1) by (auto simp: video_from_caps_def Let_def split: sum.splits if_splits)
  have tiles: "tiles_line (unat stride) (unat limit) (unat ppl)" "\<forall>m. tiles_line (unat stride) (unat limit) m \<longrightarrow> unat ppl \<le> m"
    using choose_spec [OF parts(3) assms(2)] parts(4) by simp_all
  have src: "unat (stride div ppl) = unat stride div unat ppl" by (simp add: unat_div)
  then have "unat (stride div ppl) \<le> unat limit" using tiles(1) by (simp add: tiles_line_def)
  then have "unat (stride div ppl + video_header_size) = unat (stride div ppl) + 20"
    using assms(3) unat_u32_add [of "stride div ppl" video_header_size] by (simp add: video_header_size_def)
  then show ?thesis using parts(1,2,5) tiles src by (simp add: video_target_stride_def)
qed

text \<open>
  C29. Packets of uncompressed video. A line is cut into the smallest number of equal packets that
  fit the network, each of at least 800 bytes; the packets make up the line exactly, padded to whole
  groups of pixels, and the size given to a sink is the one given to a source and the header.
  After the properties an application set are reconciled, those of the sink describe the line of
  the essence: kept when they did, and otherwise calculated.
\<close>

theorem video_packets_tile_line:
  assumes "video_from_caps caps default_max_video_rtp_payload = Inr p"
  shows "\<exists>bytes. line_bytes caps = Some bytes \<and>
    unat (vp_packets_per_line p) * unat (vp_src_payload_size p) = bytes \<and>
    800 \<le> unat (vp_src_payload_size p) \<and> unat (vp_src_payload_size p) \<le> 1452 \<and>
    (\<forall>m. m dvd bytes \<and> 800 \<le> bytes div m \<and> bytes div m \<le> 1452 \<longrightarrow> unat (vp_packets_per_line p) \<le> m) \<and>
    unat (vp_sink_payload_size p) = unat (vp_src_payload_size p) + 20 \<and>
    (\<forall>payload ppl. \<exists>payload' ppl'. reconcile_sink_video_packetization caps payload ppl = Inr (payload', ppl') \<and>
      unat (video_configured_stride payload' ppl') = bytes \<and>
      (unat (video_configured_stride payload ppl) = bytes \<longrightarrow> payload' = payload \<and> ppl' = ppl))"
proof -
  obtain stride where stride: "video_target_stride caps = Inr stride"
      "tiles_line (unat stride) 1452 (unat (vp_packets_per_line p))"
      "\<forall>m. tiles_line (unat stride) 1452 m \<longrightarrow> unat (vp_packets_per_line p) \<le> m"
      "unat (vp_src_payload_size p) = unat stride div unat (vp_packets_per_line p)"
      "unat (vp_sink_payload_size p) = unat (vp_src_payload_size p) + 20"
    using video_from_caps_steps [OF assms] by (auto simp: default_max_video_rtp_payload_def)
  have product: "unat (vp_packets_per_line p) * unat (vp_src_payload_size p) = unat stride"
    using stride(2,4) by (simp add: tiles_line_def)
  have "vp_sink_payload_size p > video_header_size" using stride(2,4,5)
    by (simp add: word_less_nat_alt video_header_size_def tiles_line_def)
  then have "unat (saturating_sub (vp_sink_payload_size p) video_header_size) = unat (vp_src_payload_size p)"
    using stride(5) by (simp add: saturating_sub_def unat_sub_if' word_le_nat_alt word_less_nat_alt video_header_size_def)
  moreover have "unat stride < 2 ^ 32" by (rule unat_u32_less)
  ultimately have "unat (video_configured_stride (vp_sink_payload_size p) (vp_packets_per_line p)) = unat stride"
    using product by (simp add: video_configured_stride_def saturating_mul_def checked_mul_def mult.commute unat_word_ariths)
  then have configured: "video_configured_stride (vp_sink_payload_size p) (vp_packets_per_line p) = stride" by simp
  have "\<exists>payload' ppl'. reconcile_sink_video_packetization caps payload ppl = Inr (payload', ppl') \<and>
      unat (video_configured_stride payload' ppl') = unat stride \<and>
      (unat (video_configured_stride payload ppl) = unat stride \<longrightarrow> payload' = payload \<and> ppl' = ppl)" for payload ppl
    using assms stride(1) configured
    by (cases "video_configured_stride payload ppl = stride") (simp_all add: reconcile_sink_video_packetization_def)
  moreover have "800 \<le> unat (vp_src_payload_size p)" "unat (vp_src_payload_size p) \<le> 1452"
    using stride(2,4) by (simp_all add: tiles_line_def)
  moreover have "\<forall>m. m dvd unat stride \<and> 800 \<le> unat stride div m \<and> unat stride div m \<le> 1452 \<longrightarrow>
      unat (vp_packets_per_line p) \<le> m"
    using stride(3) unfolding tiles_line_def by blast
  ultimately show ?thesis using stride(5) product target_stride_bytes [OF stride(1)] by blast
qed

definition demo_video :: gst_caps where
  "demo_video = [(''video/x-raw'', [(''format'', GString (Some ''UYVP'')), (''width'', GInt 1920), (''height'', GInt 1080)])]"

theorem video_packets_tile_line_witness:
  "\<exists>p. video_from_caps demo_video default_max_video_rtp_payload = Inr p \<and> vp_packets_per_line p = 4 \<and>
    unat (vp_packets_per_line p) * unat (vp_src_payload_size p) = 4800"
proof -
  have "video_shape demo_video = Inr (1920, ''UYVP'')"
    by (simp add: video_shape_def demo_video_def field_string_def field_int_def i32_range_def u32_try_from_def)
  moreover have "video_line_stride 1920 ''UYVP'' = Inr 4800"
    by (simp add: video_line_stride_def video_pgroup_of_def div_ceil_def checked_mul_def Let_def)
  moreover have "choose_packets_per_line 4800 1452 = Inr 4"
    by (simp add: choose_packets_per_line_def div_ceil_def min_src_payload_per_packet_def is_multiple_of_def Let_def upt_conv_Cons)
  ultimately have "video_from_caps demo_video default_max_video_rtp_payload =
      Inr \<lparr>vp_sink_payload_size = 1220, vp_src_payload_size = 1200, vp_packets_per_line = 4\<rparr>"
    by (simp add: video_from_caps_def default_max_video_rtp_payload_def video_header_size_def Let_def)
  moreover have "line_bytes demo_video = Some 4800"
    by (simp add: line_bytes_def demo_video_def field_string_def field_int_def i32_range_def)
  ultimately show ?thesis using video_packets_tile_line [of demo_video] by force
qed

section \<open>Audio\<close>

text \<open>
  A packet of audio has the bytes that a packet time of samples takes, rounded, as long as that is
  within 32 bits; beyond, the size is silently cut off.
\<close>

lemma checked_mul_Some:
  "checked_mul a b = Some c \<Longrightarrow> unat c = unat a * unat (b :: 'a::len word)"
  by (auto simp: checked_mul_def unat_word_ariths split: if_splits)

lemma unat_u64_of_u32: "unat (ucast (n :: u32) :: u64) = unat n"
  using unat_u32_less [of n] by (simp add: unsigned_ucast_eq take_bit_nat_eq_self_iff)

lemma audio_payload_exact:
  assumes ok: "audio_from_caps caps ptime_ns = Inr p" and shape: "audio_shape caps = Inr (fmt, rate, channels)"
    and bytes: "audio_sample_bytes fmt = Inr sample_bytes"
    and size: "exact = (unat rate * unat ptime_ns * unat sample_bytes * unat channels + 500000000) div 1000000000"
    and fits: "exact + 12 < 2 ^ 32"
  shows "unat (au_src_payload_size p) = exact \<and> unat (au_sink_payload_size p) = exact + 12 \<and> 0 < exact"
proof -
  obtain n1 n2 numerator where n: "checked_mul (ucast rate) ptime_ns = Some n1" "checked_mul n1 (ucast sample_bytes) = Some n2"
      "checked_mul n2 (ucast channels) = Some numerator"
    and p: "au_src_payload_size p = ucast ((numerator + 500000000) div 1000000000)"
      "au_sink_payload_size p = au_src_payload_size p + audio_header_size" "au_src_payload_size p \<noteq> 0"
    using ok shape bytes
    by (auto simp: audio_from_caps_def Let_def bind_eq_Some_conv split: if_splits option.splits)
  have num: "unat numerator = unat rate * unat ptime_ns * unat sample_bytes * unat channels"
    using n [THEN checked_mul_Some] by (simp add: unat_u64_of_u32)
  have "(unat numerator + 500000000) div 1000000000 < 2 ^ 32" using fits size num by simp
  then have "unat numerator + 500000000 < 2 ^ 64" by (simp add: div_less_iff_less_mult)
  then have "unat (numerator + 500000000) = unat numerator + 500000000" by (simp add: unat_word_ariths)
  then have "unat ((numerator + 500000000) div 1000000000) = exact" using size num by (simp add: unat_div)
  then have src: "unat (au_src_payload_size p) = exact"
    using fits p(1) by (simp add: unsigned_ucast_eq take_bit_nat_eq_self_iff)
  moreover have "unat (au_sink_payload_size p) = exact + 12"
    using p(2) src fits unat_u32_add [of "au_src_payload_size p" audio_header_size] by (simp add: audio_header_size_def)
  ultimately show ?thesis using p(3) by (simp add: unat_gt_0 [symmetric])
qed

lemma audio_payload_cut_off:
  "audio_from_caps [(''audio/x-raw'', [(''format'', GString (Some ''S24BE'')), (''rate'', GInt 48000), (''channels'', GInt 2)])]
     14914000000000 = Inr \<lparr>au_sink_payload_size = 264716, au_src_payload_size = 264704, au_payload_multiple = 1\<rparr>"
  by (simp add: audio_from_caps_def audio_shape_def field_string_def field_int_def i32_range_def u32_try_from_def
      audio_sample_bytes_def checked_mul_def audio_header_size_def default_audio_buffer_ns_def Let_def)

section \<open>Clock\<close>

lemma ptp_src_loop_spec:
  "ptp_src_loop saw vs = UseInterfaceIp \<longleftrightarrow>
     (saw \<or> (\<exists>v \<in> set vs. strip_prefix ''ptp='' v \<noteq> None)) \<and>
     (\<forall>v \<in> set vs. v \<noteq> ''local'' \<and> strip_prefix ''localmac='' v = None)"
  by (induction saw vs rule: ptp_src_loop.induct) auto

lemma ptp_clock_iff:
  "ptp_src_from_sdp sdp = UseInterfaceIp \<longleftrightarrow>
     (\<exists>v \<in> set (collect_ts_refclk_values sdp). strip_prefix ''ptp='' v \<noteq> None) \<and>
     (\<forall>v \<in> set (collect_ts_refclk_values sdp). v \<noteq> ''local'' \<and> strip_prefix ''localmac='' v = None)"
  by (simp add: ptp_src_from_sdp_def ptp_src_loop_spec)

end
