(* ===== verification/Gst_Plan.thy ===== *)
theory Gst_Plan
  imports Gst_FlowRoundtrip Gst_Slot Gst_Packetization
begin

text \<open>
  From the properties of an element to its data path (\<^verbatim>\<open>session/mod.rs\<close>, \<^verbatim>\<open>session/mxl.rs\<close>,
  \<^verbatim>\<open>session/udp/mod.rs\<close>): which transport file is registered, whether the element comes up on a real
  chain or stays on a fake one, and what an activation from the daemon makes of it.

  \<open>host_env\<close> holds what is read from outside: files, \<^verbatim>\<open>serde_json\<close>, the UUID that the code generates,
  and the functions of \<^verbatim>\<open>sdp.rs\<close> and \<^verbatim>\<open>essence_caps.rs\<close> on the SDP messages and caps of GStreamer.
  A panic is \<open>None\<close>. Texts of errors are left out.
\<close>

section \<open>Settings\<close>

datatype gst_transport = TrMxl | TrUdp | TrUdp2 | TrNvDsUdp

fun transport_to_proto :: "gst_transport \<Rightarrow> proto_transport" where
  "transport_to_proto TrMxl = PtMxl"
| "transport_to_proto TrUdp = PtRtp"
| "transport_to_proto TrUdp2 = PtRtp"
| "transport_to_proto TrNvDsUdp = PtRtp"

record common_settings =
  cfg_daemon_uri :: string
  cfg_node :: node_settings
  cfg_transport :: gst_transport
  cfg_side :: side
  cfg_name :: string
  cfg_mxl_domain_id :: string
  cfg_mxl_domain_path :: string
  cfg_mxl_flow_id :: string
  cfg_transport_file :: string
  cfg_transport_file_path :: string
  cfg_label :: string
  cfg_description :: string
  cfg_group_hint :: string
  cfg_caps :: "gst_caps option"
  cfg_transport_caps :: "gst_caps option"
  cfg_format_bit_rate :: u64
  cfg_transport_bit_rate :: u64
  cfg_caps_mode :: caps_mode
  cfg_source_ip :: string
  cfg_source_port :: port
  cfg_destination_ip :: string
  cfg_destination_port :: port
  cfg_interface_ip :: string
  cfg_multicast_ip :: string
  cfg_auto_activate :: bool

record udp_leg =
  ul_destination_ip :: string
  ul_destination_port :: port
  ul_interface_ip :: "string option"
  ul_source_ip :: "string option"
  ul_source_port :: "port option"

definition receiver_interface_ip :: "udp_leg \<Rightarrow> string option" where
  "receiver_interface_ip leg = ul_interface_ip leg"

definition sender_interface_ip :: "udp_leg \<Rightarrow> string option" where
  "sender_interface_ip leg = (case ul_interface_ip leg of Some ip \<Rightarrow> Some ip | None \<Rightarrow> ul_source_ip leg)"

record udp_media =
  um_format :: flow_format
  um_primary :: udp_leg
  um_secondary :: "udp_leg option"
  um_rtp_caps :: gst_caps
  um_caps :: gst_caps

datatype udp_variant = UdpV1 | UdpV2

datatype transport_config =
    MxlConfig string string flow_format "string option"
  | UdpConfig udp_variant udp_media "string option"
  | NvDsUdpConfig udp_media "string option"

fun config_transport_file :: "transport_config \<Rightarrow> string option" where
  "config_transport_file (MxlConfig _ _ _ tf) = tf"
| "config_transport_file (UdpConfig _ _ tf) = tf"
| "config_transport_file (NvDsUdpConfig _ tf) = tf"

datatype fake_kind = NotConfigured | Misconfigured | NotActive

definition activation_succeeds :: "fake_kind \<Rightarrow> bool" where
  "activation_succeeds kind \<longleftrightarrow> kind = NotActive"

datatype inner_config = RealInner transport_config | FakeInner fake_kind

fun is_real :: "inner_config \<Rightarrow> bool" where
  "is_real (RealInner _) = True"
| "is_real (FakeInner _) = False"

section \<open>What is read from outside\<close>

record bit_rates =
  br_format :: u64
  br_transport :: u64

definition unset_bit_rates :: bit_rates where
  "unset_bit_rates = \<lparr>br_format = 0, br_transport = 0\<rparr>"

record sdp_build_input =
  sb_caps :: gst_caps
  sb_transport_caps :: "gst_caps option"
  sb_side :: side
  sb_name :: string
  sb_label :: string
  sb_description :: string
  sb_group_hint :: string
  sb_source_ip :: string
  sb_source_port :: port
  sb_destination_ip :: string
  sb_destination_port :: port
  sb_interface_ip :: string
  sb_advertise_caps :: bool
  sb_node_seed :: string
  sb_type_n :: bool
  sb_format_bit_rate :: u64
  sb_transport_bit_rate :: u64

record sdp_overrides =
  so_name :: "string option"
  so_label :: "string option"
  so_description :: "string option"
  so_group_hint :: "string option"
  so_interface_ip :: "string option"
  so_destination_ip :: "string option"
  so_destination_port :: "port option"
  so_source_ip :: "string option"
  so_source_port :: "port option"
  so_payload_type :: "8 word option"
  so_audio_clock_rate :: "u32 option"
  so_a_ptime :: "string option"
  so_a_maxptime :: "string option"
  so_caps_mode :: caps_mode
  so_bit_rates :: bit_rates

datatype cross_check_mode = CheckFull | FormatFamilyOnly

datatype dual_leg_policy = RejectDualLeg | AllowDualLeg

text \<open>
  What a function of \<^verbatim>\<open>sdp.rs\<close> that may panic ends in. Those given as options or booleans below
  never panic (\<open>nmos_sdp_never_panics\<close> in \<open>Gst_ConfigFacts\<close>).
\<close>

datatype 'a sdp_outcome = SdpGood 'a | SdpBad | SdpPanics

record sdp_ops =
  sdp_from_caps :: "sdp_build_input \<Rightarrow> string sdp_outcome"
  sdp_parse :: "string \<Rightarrow> udp_media sdp_outcome"
  sdp_cross_check :: "udp_media \<Rightarrow> gst_caps option \<Rightarrow> gst_caps option \<Rightarrow> cross_check_mode \<Rightarrow> bool"
  sdp_media_block_count :: "string \<Rightarrow> nat option"
  sdp_count_active_legs :: "string \<Rightarrow> nat option"
  sdp_unconstrained :: "string \<Rightarrow> bool"
  sdp_resource_name :: "string \<Rightarrow> (string option) option"
  sdp_bit_rates :: "string \<Rightarrow> bit_rates option"
  sdp_passthrough :: "string \<Rightarrow> sdp_overrides \<Rightarrow> dual_leg_policy \<Rightarrow> string sdp_outcome"
  sdp_normalise :: "string \<Rightarrow> string option"

record host_env =
  he_from_str :: "string \<Rightarrow> json option"
  he_to_string :: "json \<Rightarrow> string"
  he_read :: "string \<Rightarrow> file_read"
  he_uuid :: string
  he_sdp :: sdp_ops
  he_overlay_features :: "gst_caps \<Rightarrow> gst_caps option \<Rightarrow> gst_caps"
  he_is_unspecified :: "string \<Rightarrow> bool"
  he_fraction :: "int \<Rightarrow> int \<Rightarrow> (int \<times> int) option"

datatype config_error =
    NodeSeedRequired
  | TransportFilesExclusive
  | TransportFileUnreadable
  | TransportFileEmpty
  | DomainFailed domain_error
  | FlowFailed flow_def_error
  | SdpFailed
  | BitRateMismatch
  | DualLegNotSupported
  | SourceIpRequired
  | InterfaceIpRequired
  | NameRequired
  | NameMissingInFile
  | NotASender
  | WrongTransport
  | PeerCapsEmpty
  | PeerCapsAny
  | CapsUnavailable flow_def_caps_error
  | MissingPlugin string
  | WiringFailed string
  | BadSettings
  | InternalError
  | SdpFileUnwritable
  | PacketizationFailed packet_error

type_synonym 'a resolved = "(config_error + 'a) option"

definition fail :: "config_error \<Rightarrow> 'a resolved" where
  "fail e = Some (Inl e)"

definition give :: "'a \<Rightarrow> 'a resolved" where
  "give a = Some (Inr a)"

definition bind_res :: "'a resolved \<Rightarrow> ('a \<Rightarrow> 'b resolved) \<Rightarrow> 'b resolved" where
  "bind_res m f = (case m of None \<Rightarrow> None | Some (Inl e) \<Rightarrow> Some (Inl e) | Some (Inr a) \<Rightarrow> f a)"

definition need :: "config_error \<Rightarrow> 'a option \<Rightarrow> 'a resolved" where
  "need e x = (case x of None \<Rightarrow> fail e | Some a \<Rightarrow> give a)"

definition need_sdp :: "'a sdp_outcome \<Rightarrow> 'a resolved" where
  "need_sdp x = (case x of SdpGood a \<Rightarrow> give a | SdpBad \<Rightarrow> fail SdpFailed | SdpPanics \<Rightarrow> None)"

definition lift_flow :: "flow_def_error + 'a \<Rightarrow> 'a resolved" where
  "lift_flow r = (case r of Inl e \<Rightarrow> fail (FlowFailed e) | Inr a \<Rightarrow> give a)"

definition lift_domain :: "domain_error + 'a \<Rightarrow> 'a resolved" where
  "lift_domain r = (case r of Inl e \<Rightarrow> fail (DomainFailed e) | Inr a \<Rightarrow> give a)"

section \<open>Common parts\<close>

definition resolve_transport_file :: "host_env \<Rightarrow> common_settings \<Rightarrow> string option resolved" where
  "resolve_transport_file env cfg =
     (if cfg_transport_file cfg \<noteq> [] \<and> cfg_transport_file_path cfg \<noteq> [] then fail TransportFilesExclusive
      else if cfg_transport_file cfg \<noteq> [] then give (Some (cfg_transport_file cfg))
      else if cfg_transport_file_path cfg \<noteq> [] then
        (case he_read env (cfg_transport_file_path cfg) of
           FileText t \<Rightarrow> if t = [] then fail TransportFileEmpty else give (Some t)
         | _ \<Rightarrow> fail TransportFileUnreadable)
      else give None)"

definition resolve_resource_name :: "host_env \<Rightarrow> common_settings \<Rightarrow> string option \<Rightarrow> string resolved" where
  "resolve_resource_name env cfg transport_file =
     (if cfg_name cfg \<noteq> [] then give (cfg_name cfg)
      else
        (case transport_file of
           None \<Rightarrow> fail NameRequired
         | Some t \<Rightarrow>
             if t = [] then fail NameRequired
             else
               bind_res
                 (if cfg_transport cfg = TrMxl then lift_flow (resource_name_from_transport (he_from_str env) t)
                  else need SdpFailed (sdp_resource_name (he_sdp env) t))
                 (need NameMissingInFile)))"

definition caps_format :: "common_settings \<Rightarrow> flow_format" where
  "caps_format cfg = (case cfg_caps cfg of Some caps \<Rightarrow> format_from_caps caps | None \<Rightarrow> FmtUnspecified)"

definition apply_auto_activate_policy :: "common_settings \<Rightarrow> inner_config \<Rightarrow> bool \<Rightarrow> inner_config" where
  "apply_auto_activate_policy cfg inner eager_blocked =
     (if \<not> cfg_auto_activate cfg then
        (case inner of RealInner _ \<Rightarrow> FakeInner NotActive | FakeInner k \<Rightarrow> FakeInner k)
      else if \<not> eager_blocked then inner
      else
        (case inner of RealInner _ \<Rightarrow> FakeInner NotActive | FakeInner k \<Rightarrow> FakeInner k))"

section \<open>MXL\<close>

definition mxl_build_input :: "common_settings \<Rightarrow> domain_id \<Rightarrow> gst_caps \<Rightarrow> flow_def_build_input" where
  "mxl_build_input cfg domain caps =
     \<lparr>bi_flow_id = cfg_mxl_flow_id cfg, bi_name = cfg_name cfg, bi_mxl_domain_id = domain,
      bi_label = cfg_label cfg, bi_description = cfg_description cfg, bi_group_hint = cfg_group_hint cfg,
      bi_caps = caps\<rparr>"

definition synthesise_or_passthrough_mxl ::
  "host_env \<Rightarrow> common_settings \<Rightarrow> domain_id \<Rightarrow> string option \<Rightarrow> string option resolved" where
  "synthesise_or_passthrough_mxl env cfg domain resolved_file =
     (case (resolved_file, cfg_caps cfg) of
        (Some t, _) \<Rightarrow> give (Some t)
      | (None, Some caps) \<Rightarrow>
          bind_res (lift_flow (flow_def_from_caps (he_to_string env) (mxl_build_input cfg domain caps))) (\<lambda>t. give (Some t))
      | (None, None) \<Rightarrow> give None)"

definition opt_string :: "string \<Rightarrow> string option" where
  "opt_string s = (if s = [] then None else Some s)"

definition property_overrides_mxl :: "common_settings \<Rightarrow> domain_id \<Rightarrow> flow_def_overrides" where
  "property_overrides_mxl cfg domain =
     \<lparr>ov_flow_id = opt_string (cfg_mxl_flow_id cfg), ov_name = opt_string (cfg_name cfg),
      ov_label = opt_string (cfg_label cfg), ov_description = opt_string (cfg_description cfg),
      ov_group_hint = opt_string (cfg_group_hint cfg),
      ov_mxl_domain_id = (if cfg_mxl_domain_id cfg = [] then None else Some domain),
      ov_caps_mode = cfg_caps_mode cfg\<rparr>"

definition mxl_eager_blocked :: "flow_resolution \<Rightarrow> inner_config \<Rightarrow> bool" where
  "mxl_eager_blocked flow inner \<longleftrightarrow> \<not> is_real inner \<and> fr_id flow = []"

definition flow_id_override :: "string \<Rightarrow> flow_def_overrides" where
  "flow_id_override flow_id =
     \<lparr>ov_flow_id = Some flow_id, ov_name = None, ov_label = None, ov_description = None, ov_group_hint = None,
      ov_mxl_domain_id = None, ov_caps_mode = CapsAuto\<rparr>"

text \<open>The panic is that of splicing a generated flow id into a file that is no object.\<close>

definition decide_inner_config_mxl ::
  "host_env \<Rightarrow> common_settings \<Rightarrow> flow_resolution \<Rightarrow> string option \<Rightarrow> inner_config option" where
  "decide_inner_config_mxl env cfg flow transport_file =
     (if cfg_mxl_domain_path cfg = [] then Some (FakeInner Misconfigured)
      else
        (let finish = (\<lambda>flow_id tf.
               if cfg_side cfg = Receiver \<and> fr_format flow = FmtUnspecified then FakeInner Misconfigured
               else RealInner (MxlConfig (cfg_mxl_domain_path cfg) flow_id (fr_format flow) tf))
         in if fr_id flow = [] then
              (case transport_file of
                 None \<Rightarrow> Some (FakeInner Misconfigured)
               | Some tf \<Rightarrow>
                   if cfg_side cfg = Sender \<and> cfg_auto_activate cfg then
                     (case splice_overrides (he_to_string env) (he_from_str env) tf (flow_id_override (he_uuid env)) of
                        Inl _ \<Rightarrow> None
                      | Inr spliced \<Rightarrow> Some (finish (he_uuid env) (Some spliced)))
                   else Some (FakeInner NotActive))
            else Some (finish (fr_id flow) transport_file)))"

definition resolve_inner_config_mxl ::
  "host_env \<Rightarrow> common_settings \<Rightarrow> string option \<Rightarrow> (inner_config \<times> string option) resolved" where
  "resolve_inner_config_mxl env cfg resolved_file =
     bind_res (lift_domain (resolve_mxl_domain_id (he_from_str env) (he_read env) (cfg_mxl_domain_id cfg) (cfg_mxl_domain_path cfg))) (\<lambda>domain.
     bind_res (synthesise_or_passthrough_mxl env cfg domain resolved_file) (\<lambda>file1.
     bind_res
       (case file1 of
          None \<Rightarrow> give None
        | Some t \<Rightarrow>
            bind_res (lift_flow (splice_overrides (he_to_string env) (he_from_str env) t (property_overrides_mxl cfg domain)))
              (\<lambda>t. give (Some t))) (\<lambda>transport_file.
     bind_res (lift_flow (resolve_mxl_flow_meta (he_from_str env) (cfg_mxl_flow_id cfg) (caps_format cfg) transport_file)) (\<lambda>flow.
     case decide_inner_config_mxl env cfg flow transport_file of
       None \<Rightarrow> None
     | Some inner \<Rightarrow>
         (let inner1 = apply_auto_activate_policy cfg inner (mxl_eager_blocked flow inner);
              inner2 = (if transport_file = None \<and> cfg_side cfg = Sender \<and> is_real inner1 then FakeInner NotConfigured else inner1)
          in give (inner2, transport_file))))))"

definition synthesise_deferred_sender_mxl ::
  "host_env \<Rightarrow> common_settings \<Rightarrow> gst_caps \<Rightarrow> (string \<times> inner_config) resolved" where
  "synthesise_deferred_sender_mxl env cfg fixated =
     bind_res (lift_domain (resolve_mxl_domain_id (he_from_str env) (he_read env) (cfg_mxl_domain_id cfg) (cfg_mxl_domain_path cfg))) (\<lambda>domain.
     bind_res (lift_flow (flow_def_from_caps (he_to_string env) (mxl_build_input cfg domain fixated))) (\<lambda>t.
     bind_res (lift_flow (resolve_mxl_flow_meta (he_from_str env) (cfg_mxl_flow_id cfg) (format_from_caps fixated) (Some t))) (\<lambda>flow.
     case decide_inner_config_mxl env cfg flow (Some t) of
       None \<Rightarrow> None
     | Some inner \<Rightarrow> give (t, apply_auto_activate_policy cfg inner (mxl_eager_blocked flow inner)))))"

section \<open>RTP\<close>

definition receiver_connection_address :: "common_settings \<Rightarrow> string" where
  "receiver_connection_address cfg =
     (if cfg_multicast_ip cfg \<noteq> [] then cfg_multicast_ip cfg else cfg_interface_ip cfg)"

definition validate_rtp_configuring_minimum :: "common_settings \<Rightarrow> unit resolved" where
  "validate_rtp_configuring_minimum cfg =
     (if cfg_side cfg = Sender \<and> cfg_source_ip cfg = [] then fail SourceIpRequired
      else if cfg_side cfg = Receiver \<and> cfg_interface_ip cfg = [] then fail InterfaceIpRequired
      else give ())"

definition is_unspecified_destination :: "host_env \<Rightarrow> string \<Rightarrow> bool" where
  "is_unspecified_destination env addr \<longleftrightarrow> addr = [] \<or> he_is_unspecified env addr"

fun udp_eager_blocked :: "host_env \<Rightarrow> inner_config \<Rightarrow> bool" where
  "udp_eager_blocked env (RealInner (UdpConfig _ media _)) =
     is_unspecified_destination env (ul_destination_ip (um_primary media))"
| "udp_eager_blocked env (RealInner (NvDsUdpConfig media _)) =
     is_unspecified_destination env (ul_destination_ip (um_primary media))"
| "udp_eager_blocked env _ = False"

definition mk_sdp_build_input :: "common_settings \<Rightarrow> gst_caps \<Rightarrow> sdp_build_input" where
  "mk_sdp_build_input cfg caps =
     \<lparr>sb_caps = caps, sb_transport_caps = cfg_transport_caps cfg, sb_side = cfg_side cfg, sb_name = cfg_name cfg,
      sb_label = cfg_label cfg, sb_description = cfg_description cfg, sb_group_hint = cfg_group_hint cfg,
      sb_source_ip = cfg_source_ip cfg, sb_source_port = cfg_source_port cfg,
      sb_destination_ip = (case cfg_side cfg of Sender \<Rightarrow> cfg_destination_ip cfg | Receiver \<Rightarrow> receiver_connection_address cfg),
      sb_destination_port = cfg_destination_port cfg, sb_interface_ip = cfg_interface_ip cfg,
      sb_advertise_caps = (cfg_caps_mode cfg = CapsUnconstrained), sb_node_seed = nst_node_seed (cfg_node cfg),
      sb_type_n = (cfg_transport cfg = TrNvDsUdp), sb_format_bit_rate = cfg_format_bit_rate cfg,
      sb_transport_bit_rate = cfg_transport_bit_rate cfg\<rparr>"

definition synthesise_or_passthrough_udp ::
  "host_env \<Rightarrow> common_settings \<Rightarrow> string option \<Rightarrow> string option resolved" where
  "synthesise_or_passthrough_udp env cfg resolved_file =
     (case (resolved_file, cfg_caps cfg) of
        (Some t, _) \<Rightarrow> give (Some t)
      | (None, Some caps) \<Rightarrow>
          bind_res (validate_rtp_configuring_minimum cfg) (\<lambda>_.
          bind_res (need_sdp (sdp_from_caps (he_sdp env) (mk_sdp_build_input cfg caps))) (\<lambda>t. give (Some t)))
      | (None, None) \<Rightarrow> give None)"

definition gate_deferred_sender_udp :: "inner_config \<Rightarrow> common_settings \<Rightarrow> inner_config" where
  "gate_deferred_sender_udp inner cfg =
     (if cfg_side cfg = Sender \<and> inner = FakeInner Misconfigured then FakeInner NotConfigured else inner)"

definition opt_port :: "port \<Rightarrow> port option" where
  "opt_port p = (if p = 0 then None else Some p)"

text \<open>Conversions of \<^verbatim>\<open>i32\<close> that fail outside the range of the target.\<close>

definition u8_try_from_int :: "int \<Rightarrow> 8 word option" where
  "u8_try_from_int n = (if 0 \<le> n \<and> n < 2 ^ 8 then Some (of_int n) else None)"

definition u32_try_from_int :: "int \<Rightarrow> u32 option" where
  "u32_try_from_int n = (if 0 \<le> n \<and> n < 2 ^ 32 then Some (of_int n) else None)"

definition property_overrides_udp :: "common_settings \<Rightarrow> sdp_overrides" where
  "property_overrides_udp cfg =
     (let tc = Option.bind (cfg_transport_caps cfg) (\<lambda>caps. map_option snd (list_get caps 0))
      in \<lparr>so_name = opt_string (cfg_name cfg), so_label = opt_string (cfg_label cfg),
          so_description = opt_string (cfg_description cfg), so_group_hint = opt_string (cfg_group_hint cfg),
          so_interface_ip = (case cfg_side cfg of Sender \<Rightarrow> opt_string (cfg_source_ip cfg)
            | Receiver \<Rightarrow> opt_string (cfg_interface_ip cfg)),
          so_destination_ip = (case cfg_side cfg of Sender \<Rightarrow> opt_string (cfg_destination_ip cfg)
            | Receiver \<Rightarrow> opt_string (receiver_connection_address cfg)),
          so_destination_port = opt_port (cfg_destination_port cfg),
          so_source_ip = opt_string (cfg_source_ip cfg),
          so_source_port = (case cfg_side cfg of Sender \<Rightarrow> opt_port (cfg_source_port cfg) | Receiver \<Rightarrow> None),
          so_payload_type = Option.bind (Option.bind tc (\<lambda>st. field_int st ''payload'')) u8_try_from_int,
          so_audio_clock_rate = Option.bind (Option.bind tc (\<lambda>st. field_int st ''clock-rate'')) u32_try_from_int,
          so_a_ptime = Option.bind tc (\<lambda>st. field_string st ''a-ptime''),
          so_a_maxptime = Option.bind tc (\<lambda>st. field_string st ''a-maxptime''),
          so_caps_mode = cfg_caps_mode cfg, so_bit_rates = unset_bit_rates\<rparr>)"

definition bit_rates_from_properties :: "u64 \<Rightarrow> u64 \<Rightarrow> bit_rates" where
  "bit_rates_from_properties f t =
     (if f > 0 \<and> t > 0 then \<lparr>br_format = f, br_transport = t\<rparr>
      else if f > 0 then \<lparr>br_format = f, br_transport = transport_from_format_kbps f\<rparr>
      else if t > 0 then \<lparr>br_format = format_from_transport_kbps t, br_transport = t\<rparr>
      else unset_bit_rates)"

definition cross_check_bit_rates :: "bit_rates \<Rightarrow> bit_rates \<Rightarrow> bool" where
  "cross_check_bit_rates property fl \<longleftrightarrow>
     property = unset_bit_rates \<or> fl = unset_bit_rates \<or>
     br_format property = br_format fl \<and> br_transport property = br_transport fl"

definition finish_udp_inner_config ::
  "host_env \<Rightarrow> common_settings \<Rightarrow> gst_transport \<Rightarrow> string \<Rightarrow> cross_check_mode \<Rightarrow> (udp_media \<Rightarrow> inner_config)
    \<Rightarrow> inner_config resolved" where
  "finish_udp_inner_config env cfg transport t mode build_real =
     bind_res
       (if transport \<noteq> TrNvDsUdp then
          bind_res (need SdpFailed (sdp_media_block_count (he_sdp env) t)) (\<lambda>n.
            if n > 1 then fail DualLegNotSupported else give ())
        else give ()) (\<lambda>_.
     bind_res (need_sdp (sdp_parse (he_sdp env) t)) (\<lambda>media.
     if \<not> sdp_cross_check (he_sdp env) media (cfg_caps cfg) (cfg_transport_caps cfg) mode then fail SdpFailed
     else
       bind_res (need SdpFailed (sdp_count_active_legs (he_sdp env) t)) (\<lambda>n.
         if n = 0 then give (FakeInner NotActive)
         else give (build_real (media\<lparr>um_caps := he_overlay_features env (um_caps media) (cfg_caps cfg)\<rparr>)))))"

definition decide_inner_config_udp ::
  "host_env \<Rightarrow> common_settings \<Rightarrow> udp_variant \<Rightarrow> string option \<Rightarrow> cross_check_mode \<Rightarrow> inner_config resolved" where
  "decide_inner_config_udp env cfg variant transport_file mode =
     (case transport_file of
        None \<Rightarrow> give (FakeInner Misconfigured)
      | Some t \<Rightarrow>
          finish_udp_inner_config env cfg (cfg_transport cfg) t mode (\<lambda>media. RealInner (UdpConfig variant media (Some t))))"

definition decide_inner_config_nvdsudp ::
  "host_env \<Rightarrow> common_settings \<Rightarrow> string option \<Rightarrow> cross_check_mode \<Rightarrow> inner_config resolved" where
  "decide_inner_config_nvdsudp env cfg transport_file mode =
     (case transport_file of
        None \<Rightarrow> give (FakeInner Misconfigured)
      | Some t \<Rightarrow>
          finish_udp_inner_config env cfg TrNvDsUdp t mode (\<lambda>media. RealInner (NvDsUdpConfig media (Some t))))"

text \<open>The choice between the two by the transport, as each of their callers makes it.\<close>

definition decide_inner_config_rtp ::
  "host_env \<Rightarrow> common_settings \<Rightarrow> string option \<Rightarrow> cross_check_mode \<Rightarrow> inner_config resolved" where
  "decide_inner_config_rtp env cfg transport_file mode =
     (case cfg_transport cfg of
        TrUdp \<Rightarrow> decide_inner_config_udp env cfg UdpV1 transport_file mode
      | TrUdp2 \<Rightarrow> decide_inner_config_udp env cfg UdpV2 transport_file mode
      | TrNvDsUdp \<Rightarrow> decide_inner_config_nvdsudp env cfg transport_file mode
      | TrMxl \<Rightarrow> fail WrongTransport)"

definition passthrough_user_transport_file ::
  "host_env \<Rightarrow> common_settings \<Rightarrow> string \<Rightarrow> dual_leg_policy \<Rightarrow> string resolved" where
  "passthrough_user_transport_file env cfg t policy =
     bind_res (need SdpFailed (sdp_bit_rates (he_sdp env) t)) (\<lambda>fl.
       let property = bit_rates_from_properties (cfg_format_bit_rate cfg) (cfg_transport_bit_rate cfg);
           base = property_overrides_udp cfg;
           overrides = (if property \<noteq> unset_bit_rates \<and> fl = unset_bit_rates then base\<lparr>so_bit_rates := property\<rparr> else base)
       in if \<not> cross_check_bit_rates property fl then fail BitRateMismatch
          else need_sdp (sdp_passthrough (he_sdp env) t overrides policy))"

definition resolve_inner_config_rtp ::
  "host_env \<Rightarrow> common_settings \<Rightarrow> string option \<Rightarrow> (inner_config \<times> string option) resolved" where
  "resolve_inner_config_rtp env cfg resolved_file =
     bind_res (synthesise_or_passthrough_udp env cfg resolved_file) (\<lambda>file1.
     bind_res
       (case (file1, resolved_file) of
          (Some t, Some _) \<Rightarrow>
            bind_res (passthrough_user_transport_file env cfg t
                (if cfg_transport cfg = TrNvDsUdp then AllowDualLeg else RejectDualLeg)) (\<lambda>t. give (Some t))
        | _ \<Rightarrow> give file1) (\<lambda>transport_file.
     bind_res (decide_inner_config_rtp env cfg transport_file CheckFull) (\<lambda>decided.
       let inner = gate_deferred_sender_udp decided cfg
       in give (apply_auto_activate_policy cfg inner (udp_eager_blocked env inner), transport_file))))"

definition synthesise_deferred_sender_udp ::
  "host_env \<Rightarrow> common_settings \<Rightarrow> gst_caps \<Rightarrow> (string \<times> inner_config) resolved" where
  "synthesise_deferred_sender_udp env cfg caps =
     bind_res (validate_rtp_configuring_minimum cfg) (\<lambda>_.
     bind_res (need_sdp (sdp_from_caps (he_sdp env) (mk_sdp_build_input cfg caps))) (\<lambda>t.
     bind_res (decide_inner_config_rtp env cfg (Some t) CheckFull) (\<lambda>inner.
     give (t, apply_auto_activate_policy cfg inner (udp_eager_blocked env inner)))))"

definition udp_essence_cross_check_mode ::
  "host_env \<Rightarrow> common_settings \<Rightarrow> bool \<Rightarrow> string option \<Rightarrow> cross_check_mode" where
  "udp_essence_cross_check_mode env cfg activation transport_file =
     (if activation \<and> cfg_side cfg = Receiver \<and>
         (case transport_file of Some t \<Rightarrow> sdp_unconstrained (he_sdp env) t | None \<Rightarrow> False)
      then FormatFamilyOnly else CheckFull)"

section \<open>Opening\<close>

text \<open>The part of \<^verbatim>\<open>validate_and_open\<close> before the session is opened.\<close>

definition resolve_config :: "host_env \<Rightarrow> common_settings \<Rightarrow> (inner_config \<times> string option \<times> string) resolved" where
  "resolve_config env cfg =
     (if nst_node_seed (cfg_node cfg) = [] then fail NodeSeedRequired
      else
        bind_res (resolve_transport_file env cfg) (\<lambda>resolved_file.
        bind_res
          (if cfg_transport cfg = TrMxl then resolve_inner_config_mxl env cfg resolved_file
           else resolve_inner_config_rtp env cfg resolved_file) (\<lambda>(inner, transport_file).
        bind_res (resolve_resource_name env cfg transport_file) (\<lambda>name.
        give (inner, transport_file, name)))))"

datatype open_error = BadConfig config_error | OpenFailure open_failure

definition validate_and_open ::
  "daemon_env \<Rightarrow> (string \<Rightarrow> url option) \<Rightarrow> host_env \<Rightarrow> common_settings \<Rightarrow> session slot \<Rightarrow> client
    \<Rightarrow> ((open_error + inner_config) \<times> session slot \<times> client) option" where
  "validate_and_open denv parse env cfg slot c =
     (case resolve_config env cfg of
        None \<Rightarrow> None
      | Some (Inl e) \<Rightarrow> Some (Inl (BadConfig e), slot, c)
      | Some (Inr (inner, transport_file, name)) \<Rightarrow>
          (case open_slot
                  (session_open denv parse (cfg_daemon_uri cfg) (cfg_node cfg) (cfg_side cfg) name
                     (transport_to_proto (cfg_transport cfg)) transport_file)
                  (session_close denv) slot c of
             (Inl e, slot1, c1) \<Rightarrow> Some (Inl (OpenFailure e), slot1, c1)
           | (Inr _, slot1, c1) \<Rightarrow> Some (Inr inner, slot1, c1)))"

section \<open>Deferred senders and synchronising\<close>

datatype peer_caps = PeerEmpty | PeerAny | PeerCaps gst_caps

text \<open>\<open>fixate\<close> is that of GStreamer.\<close>

definition prepare_deferred_peer_caps :: "(gst_caps \<Rightarrow> gst_caps) \<Rightarrow> peer_caps \<Rightarrow> gst_caps resolved" where
  "prepare_deferred_peer_caps fixate peer =
     (case peer of PeerEmpty \<Rightarrow> fail PeerCapsEmpty | PeerAny \<Rightarrow> fail PeerCapsAny | PeerCaps caps \<Rightarrow> give (fixate caps))"

datatype deferred_error = DeferredConfig config_error | NoOpenSession | DeferredCall daemon_error

definition finish_deferred_add_sender ::
  "daemon_env \<Rightarrow> host_env \<Rightarrow> common_settings \<Rightarrow> inner_config \<Rightarrow> string \<Rightarrow> session slot \<Rightarrow> client
    \<Rightarrow> ((deferred_error + inner_config) \<times> session slot \<times> client) option" where
  "finish_deferred_add_sender denv env cfg inner t slot c =
     (case resolve_resource_name env cfg (Some t) of
        None \<Rightarrow> None
      | Some (Inl e) \<Rightarrow> Some (Inl (DeferredConfig e), slot, c)
      | Some (Inr name) \<Rightarrow>
          (case slot of
             Some (Open s) \<Rightarrow>
               (case session_add_resource denv (cfg_side cfg) name (transport_to_proto (cfg_transport cfg)) t s c of
                  (Inl e, s1, c1) \<Rightarrow> Some (Inl (DeferredCall e), Some (Open s1), c1)
                | (Inr _, s1, c1) \<Rightarrow> Some (Inr inner, Some (Open s1), c1))
           | _ \<Rightarrow> Some (Inl NoOpenSession, slot, c)))"

definition add_deferred_sender ::
  "daemon_env \<Rightarrow> host_env \<Rightarrow> (gst_caps \<Rightarrow> gst_caps) \<Rightarrow> common_settings \<Rightarrow> peer_caps \<Rightarrow> session slot \<Rightarrow> client
    \<Rightarrow> ((deferred_error + inner_config) \<times> session slot \<times> client) option" where
  "add_deferred_sender denv env fixate cfg peer slot c =
     (if cfg_side cfg \<noteq> Sender then Some (Inl (DeferredConfig NotASender), slot, c)
      else
        (case bind_res (prepare_deferred_peer_caps fixate peer)
                (if cfg_transport cfg = TrMxl then synthesise_deferred_sender_mxl env cfg
                 else synthesise_deferred_sender_udp env cfg) of
           None \<Rightarrow> None
         | Some (Inl e) \<Rightarrow> Some (Inl (DeferredConfig e), slot, c)
         | Some (Inr (t, inner)) \<Rightarrow> finish_deferred_add_sender denv env cfg inner t slot c))"

definition sync_active ::
  "daemon_env \<Rightarrow> string option \<Rightarrow> session slot \<Rightarrow> client \<Rightarrow> (deferred_error + unit) \<times> session slot \<times> client" where
  "sync_active denv transport_file slot c =
     (case slot of
        Some (Open s) \<Rightarrow>
          (case session_sync_resource_state denv transport_file s c of
             (Inr _, s1, c1) \<Rightarrow> (Inr (), Some (Open s1), c1)
           | (Inl e, s1, c1) \<Rightarrow> (if e = NoResource then Inr () else Inl (DeferredCall e), Some (Open s1), c1))
      | _ \<Rightarrow> (Inl NoOpenSession, slot, c))"

section \<open>Activations\<close>

datatype activation_ack = AckSuccess | AckFailure

record activation_plan =
  ap_inner :: inner_config
  ap_ack :: activation_ack

definition rejected :: activation_plan where
  "rejected = \<lparr>ap_inner = FakeInner Misconfigured, ap_ack = AckFailure\<rparr>"

text \<open>\<open>Inl\<close> is a plan that ends the decision. An error reading \<^verbatim>\<open>domain_def.json\<close> is ignored.\<close>

definition resolve_activation_inner_mxl ::
  "host_env \<Rightarrow> common_settings \<Rightarrow> string \<Rightarrow> (activation_plan + inner_config) option" where
  "resolve_activation_inner_mxl env cfg t =
     (if cfg_mxl_domain_path cfg = [] then Some (Inl rejected)
      else
        (case mxl_domain_id_from_transport (he_from_str env) t of
           Inl _ \<Rightarrow> Some (Inl rejected)
         | Inr file_domain \<Rightarrow>
             if (case (file_domain, read_domain_def_id (he_from_str env) (he_read env) (cfg_mxl_domain_path cfg)) of
                   (Concrete file_id, Inr (Some path_id)) \<Rightarrow> path_id \<noteq> file_id
                 | _ \<Rightarrow> False)
             then Some (Inl rejected)
             else
               (case resolve_mxl_flow_meta (he_from_str env) [] (caps_format cfg) (Some t) of
                  Inl _ \<Rightarrow> Some (Inl rejected)
                | Inr flow \<Rightarrow> map_option Inr (decide_inner_config_mxl env cfg flow (Some t)))))"

definition activation_inner ::
  "host_env \<Rightarrow> common_settings \<Rightarrow> string \<Rightarrow> (activation_plan + inner_config) option" where
  "activation_inner env cfg t =
     (if cfg_transport cfg = TrMxl then resolve_activation_inner_mxl env cfg t
      else
        (case decide_inner_config_rtp env cfg (Some t) (udp_essence_cross_check_mode env cfg True (Some t)) of
           None \<Rightarrow> None
         | Some (Inl _) \<Rightarrow> Some (Inl rejected)
         | Some (Inr inner) \<Rightarrow> Some (Inr inner)))"

definition make_activation_plan ::
  "host_env \<Rightarrow> common_settings \<Rightarrow> activation_request \<Rightarrow> activation_plan option" where
  "make_activation_plan env cfg req =
     (if arq_side req \<noteq> cfg_side cfg then Some rejected
      else
        (case arq_transport_file req of
           None \<Rightarrow> Some \<lparr>ap_inner = FakeInner NotActive, ap_ack = AckSuccess\<rparr>
         | Some t \<Rightarrow>
             (case activation_inner env cfg t of
                None \<Rightarrow> None
              | Some (Inl plan) \<Rightarrow> Some plan
              | Some (Inr inner) \<Rightarrow>
                  Some \<lparr>ap_inner = inner,
                    ap_ack = (case inner of
                       RealInner _ \<Rightarrow> AckSuccess
                     | FakeInner k \<Rightarrow> if activation_succeeds k then AckSuccess else AckFailure)\<rparr>)))"

section \<open>Sequences of checks\<close>

named_theorems res_iff

lemma bind_res_Inr [res_iff]: "bind_res m f = Some (Inr b) \<longleftrightarrow> (\<exists>a. m = Some (Inr a) \<and> f a = Some (Inr b))"
  by (auto simp: bind_res_def split: option.splits sum.splits)

lemma bind_res_None [res_iff]: "bind_res m f = None \<longleftrightarrow> m = None \<or> (\<exists>a. m = Some (Inr a) \<and> f a = None)"
  by (auto simp: bind_res_def split: option.splits sum.splits)

lemma give_Inr [res_iff]: "give a = Some (Inr b) \<longleftrightarrow> a = b" "give a \<noteq> None"
  by (auto simp: give_def)

lemma fail_Inr [res_iff]: "fail e \<noteq> Some (Inr b)" "fail e \<noteq> None"
  by (auto simp: fail_def)

lemma need_Inr [res_iff]: "need e x = Some (Inr a) \<longleftrightarrow> x = Some a" "need e x \<noteq> None"
  by (auto simp: need_def give_def fail_def split: option.splits)

lemma need_sdp_iff [res_iff]:
  "need_sdp x = Some (Inr a) \<longleftrightarrow> x = SdpGood a" "need_sdp x = None \<longleftrightarrow> x = SdpPanics"
  by (auto simp: need_sdp_def give_def fail_def split: sdp_outcome.splits)

lemma lift_Inr [res_iff]:
  "lift_flow r = Some (Inr a) \<longleftrightarrow> r = Inr a" "lift_flow r \<noteq> None"
  "lift_domain d = Some (Inr b) \<longleftrightarrow> d = Inr b" "lift_domain d \<noteq> None"
  by (auto simp: lift_flow_def lift_domain_def give_def fail_def split: sum.splits)

end
