(* ===== verification/Gst_PlanFacts.thy ===== *)
theory Gst_PlanFacts
  imports Gst_Plan "HOL-Library.Countable"
begin

text \<open>
  What the configuration of \<open>Gst_Plan\<close> guarantees: when an element comes up on a real chain, and what
  an activation becomes. Of \<^verbatim>\<open>serde_json\<close> it is assumed that a text it wrote is read back as the
  document it was written from, and that the empty text is no document.
\<close>

section \<open>Flow ids in MXL files\<close>

definition json_text :: "host_env \<Rightarrow> bool" where
  "json_text env \<longleftrightarrow> he_from_str env [] = None \<and> (\<forall>doc. he_from_str env (he_to_string env doc) = Some doc)"

text \<open>What splicing into a file gives, read back.\<close>

lemma spliced_file:
  assumes "json_text env" "splice_overrides (he_to_string env) (he_from_str env) t ov = Inr t'"
  shows "t' \<noteq> []" "\<exists>m. he_from_str env t' = Some (JObject m)"
    and "ov_flow_id ov = Some i \<Longrightarrow> read_flow_def_meta (he_from_str env) t' = Inr meta \<Longrightarrow> fm_id meta = i"
    and "read_flow_def_meta (he_from_str env) t = Inr meta0 \<Longrightarrow>
      read_flow_def_meta (he_from_str env) t' = Inr (case ov_flow_id ov of Some i \<Rightarrow> meta0\<lparr>fm_id := i\<rparr> | None \<Rightarrow> meta0)"
    and "resource_name_from_transport (he_from_str env) t' =
      (case ov_name ov of Some n \<Rightarrow> Inr (if n = [] then None else Some n)
        | None \<Rightarrow> resource_name_from_transport (he_from_str env) t)"
proof -
  have "\<exists>m m'. he_from_str env t = Some (JObject m) \<and> t' = he_to_string env (JObject m') \<and>
      (\<forall>k. k \<noteq> ''tags'' \<longrightarrow> map_of m' k = map_of (splice_fields ov m) k) \<and>
      (touches_tags ov \<longrightarrow> (\<exists>tags. map_of m' ''tags'' = Some (JObject (splice_tags ov tags)) \<and>
         (map_of m ''tags'' = Some (JObject tags) \<or> map_of m ''tags'' = None \<and> tags = []))) \<and>
      (\<not> touches_tags ov \<longrightarrow> map_of m' ''tags'' = map_of m ''tags'')"
    by (rule splice_overrides_cases [OF assms(2)]) blast
  then obtain m m' where m: "he_from_str env t = Some (JObject m)" "t' = he_to_string env (JObject m')"
      "\<And>k. k \<noteq> ''tags'' \<Longrightarrow> map_of m' k = map_of (splice_fields ov m) k"
      "touches_tags ov \<Longrightarrow> \<exists>tags. map_of m' ''tags'' = Some (JObject (splice_tags ov tags)) \<and>
         (map_of m ''tags'' = Some (JObject tags) \<or> map_of m ''tags'' = None \<and> tags = [])"
      "\<not> touches_tags ov \<Longrightarrow> map_of m' ''tags'' = map_of m ''tags''"
    by blast
  have read: "he_from_str env t' = Some (JObject m')" using assms(1) m(2) by (simp add: json_text_def)
  show "t' \<noteq> []" using assms(1) read by (auto simp: json_text_def)
  show "\<exists>m. he_from_str env t' = Some (JObject m)" using read by blast
  note essence = spliced_essence [of "he_from_str env" t m t' m' ov, OF m(1) read m(3)]
  show "ov_flow_id ov = Some i \<Longrightarrow> read_flow_def_meta (he_from_str env) t' = Inr meta \<Longrightarrow> fm_id meta = i"
    by (rule essence(3))
  show "read_flow_def_meta (he_from_str env) t = Inr meta0 \<Longrightarrow>
      read_flow_def_meta (he_from_str env) t' = Inr (case ov_flow_id ov of Some i \<Rightarrow> meta0\<lparr>fm_id := i\<rparr> | None \<Rightarrow> meta0)"
    by (rule essence(2))
  show "resource_name_from_transport (he_from_str env) t' =
      (case ov_name ov of Some n \<Rightarrow> Inr (if n = [] then None else Some n)
        | None \<Rightarrow> resource_name_from_transport (he_from_str env) t)"
    by (rule spliced_tags(1) [of "he_from_str env" t m t' m' ov, OF m(1) read m(4,5)])
qed

lemma resolve_meta_reads:
  assumes "resolve_mxl_flow_meta from_str pid fmt (Some t) = Inr flow" "t \<noteq> []"
  obtains meta where "read_flow_def_meta from_str t = Inr meta"
    "fr_id flow = (if fm_id meta = [] then pid else fm_id meta)"
    "fr_format flow = (if fm_format meta = FmtUnspecified then fmt else fm_format meta)"
proof (cases "read_flow_def_meta from_str t")
  case (Inl e)
  with assms show thesis by (simp add: resolve_mxl_flow_meta_def)
next
  case (Inr meta)
  with assms show thesis
    by (intro that [of meta])
      (auto simp: resolve_mxl_flow_meta_def resolve_id_def resolve_format_def Let_def split: sum.splits if_splits)
qed

lemma read_meta_object_or_array:
  "read_flow_def_meta from_str t = Inr meta \<Longrightarrow> \<exists>v. from_str t = Some v \<and> ((\<exists>m. v = JObject m) \<or> (\<exists>xs. v = JArray xs))"
  unfolding read_flow_def_meta_def struct_fields_def
  by (cases "from_str t"; cases "the (from_str t)") (simp_all split: option.splits if_splits)

lemma name_read_by_daemon:
  "resource_name_from_transport from_str t = Inr (Some n) \<Longrightarrow> transport_file_name from_str Mxl t = Some n"
  by (auto simp: resource_name_from_transport_def transport_file_name_def name_tag_def list_get_def
      split: option.splits if_splits bind_splits elim!: as_array.elims)

section \<open>Real chains are configured\<close>

fun chain_configured :: "host_env \<Rightarrow> common_settings \<Rightarrow> transport_config \<Rightarrow> bool" where
  "chain_configured env cfg (MxlConfig path flow_id fmt tf) \<longleftrightarrow>
     cfg_transport cfg = TrMxl \<and> path = cfg_mxl_domain_path cfg \<and> path \<noteq> [] \<and> flow_id \<noteq> [] \<and>
     (cfg_side cfg = Receiver \<longrightarrow> fmt \<noteq> FmtUnspecified) \<and>
     (\<exists>t meta. tf = Some t \<and> read_flow_def_meta (he_from_str env) t = Inr meta \<and> fm_id meta = flow_id)"
| "chain_configured env cfg (UdpConfig variant media tf) \<longleftrightarrow>
     cfg_transport cfg = (case variant of UdpV1 \<Rightarrow> TrUdp | UdpV2 \<Rightarrow> TrUdp2) \<and> tf \<noteq> None \<and>
     \<not> is_unspecified_destination env (ul_destination_ip (um_primary media))"
| "chain_configured env cfg (NvDsUdpConfig media tf) \<longleftrightarrow>
     cfg_transport cfg = TrNvDsUdp \<and> tf \<noteq> None \<and>
     \<not> is_unspecified_destination env (ul_destination_ip (um_primary media))"

lemma policy_real:
  "apply_auto_activate_policy cfg inner blocked = RealInner tc \<Longrightarrow>
    inner = RealInner tc \<and> cfg_auto_activate cfg \<and> \<not> blocked"
  by (auto simp: apply_auto_activate_policy_def split: if_splits inner_config.splits)

lemma decide_mxl_real:
  assumes decide: "decide_inner_config_mxl env cfg flow (Some t) = Some (RealInner tc)"
    and env: "json_text env" "he_uuid env \<noteq> []" and mxl: "cfg_transport cfg = TrMxl"
    and meta: "read_flow_def_meta (he_from_str env) t = Inr meta" "fr_id flow = fm_id meta"
  shows "chain_configured env cfg tc"
proof (cases "fr_id flow = []")
  case False
  with decide meta mxl show ?thesis
    by (auto simp: decide_inner_config_mxl_def Let_def split: if_splits)
next
  case True
  obtain spliced where sp: "splice_overrides (he_to_string env) (he_from_str env) t (flow_id_override (he_uuid env)) = Inr spliced"
      and tc: "tc = MxlConfig (cfg_mxl_domain_path cfg) (he_uuid env) (fr_format flow) (Some spliced)"
      and rest: "cfg_mxl_domain_path cfg \<noteq> []" "cfg_side cfg = Sender"
    using decide True by (auto simp: decide_inner_config_mxl_def Let_def split: if_splits sum.splits)
  have "read_flow_def_meta (he_from_str env) spliced = Inr (meta\<lparr>fm_id := he_uuid env\<rparr>)"
    using spliced_file(4) [OF env(1) sp meta(1)] by (simp add: flow_id_override_def)
  then show ?thesis using tc rest env(2) mxl by simp
qed

lemma decide_mxl_total:
  assumes "he_from_str env t = Some (JObject m)"
  shows "decide_inner_config_mxl env cfg flow (Some t) \<noteq> None"
proof -
  have "splice_overrides (he_to_string env) (he_from_str env) t (flow_id_override i) =
      Inr (he_to_string env (JObject (splice_fields (flow_id_override i) m)))" for i
    using assms by (simp add: splice_overrides_def flow_id_override_def)
  then show ?thesis by (simp add: decide_inner_config_mxl_def Let_def)
qed

lemma decide_mxl_no_file: "decide_inner_config_mxl env cfg flow None \<noteq> None"
  by (simp add: decide_inner_config_mxl_def Let_def)

lemma resolve_mxl_steps:
  assumes "resolve_inner_config_mxl env cfg resolved_file = Some (Inr (inner, tf))"
  obtains domain file1 flow decided where
    "synthesise_or_passthrough_mxl env cfg domain resolved_file = Some (Inr file1)"
    "case file1 of None \<Rightarrow> tf = None
       | Some t \<Rightarrow> \<exists>t'. splice_overrides (he_to_string env) (he_from_str env) t (property_overrides_mxl cfg domain) = Inr t' \<and> tf = Some t'"
    "resolve_mxl_flow_meta (he_from_str env) (cfg_mxl_flow_id cfg) (caps_format cfg) tf = Inr flow"
    "decide_inner_config_mxl env cfg flow tf = Some decided"
    "inner = (let i = apply_auto_activate_policy cfg decided (mxl_eager_blocked flow decided)
       in if tf = None \<and> cfg_side cfg = Sender \<and> is_real i then FakeInner NotConfigured else i)"
  using assms
  by (fastforce simp: resolve_inner_config_mxl_def res_iff Let_def split: option.splits)

lemma synthesised_nothing:
  "synthesise_or_passthrough_mxl env cfg domain resolved_file = Some (Inr None) \<Longrightarrow> cfg_caps cfg = None"
  by (auto simp: synthesise_or_passthrough_mxl_def res_iff split: option.splits)

lemma spliced_flow_id:
  assumes env: "json_text env"
    and sp: "splice_overrides (he_to_string env) (he_from_str env) t (property_overrides_mxl cfg domain) = Inr t'"
    and flow: "resolve_mxl_flow_meta (he_from_str env) (cfg_mxl_flow_id cfg) fmt (Some t') = Inr flow"
  obtains meta where "read_flow_def_meta (he_from_str env) t' = Inr meta" "fr_id flow = fm_id meta"
proof -
  obtain meta where meta: "read_flow_def_meta (he_from_str env) t' = Inr meta"
      "fr_id flow = (if fm_id meta = [] then cfg_mxl_flow_id cfg else fm_id meta)"
    using resolve_meta_reads [OF flow spliced_file(1) [OF env sp]] by metis
  have "fm_id meta = cfg_mxl_flow_id cfg" if "cfg_mxl_flow_id cfg \<noteq> []"
    using spliced_file(3) [OF env sp _ meta(1)] that by (simp add: property_overrides_mxl_def opt_string_def)
  then have "fr_id flow = fm_id meta" using meta(2) by (cases "cfg_mxl_flow_id cfg = []") simp_all
  with meta(1) show thesis by (rule that)
qed

lemma resolve_mxl_real:
  assumes ok: "resolve_inner_config_mxl env cfg resolved_file = Some (Inr (RealInner tc, tf))"
    and env: "json_text env" "he_uuid env \<noteq> []" and mxl: "cfg_transport cfg = TrMxl"
  shows "cfg_auto_activate cfg \<and> tf \<noteq> None \<and> chain_configured env cfg tc"
  using ok
proof (rule resolve_mxl_steps)
  fix domain file1 flow decided
  assume f1: "synthesise_or_passthrough_mxl env cfg domain resolved_file = Some (Inr file1)"
    and tf: "case file1 of None \<Rightarrow> tf = None
       | Some t \<Rightarrow> \<exists>t'. splice_overrides (he_to_string env) (he_from_str env) t (property_overrides_mxl cfg domain) = Inr t' \<and> tf = Some t'"
    and flow: "resolve_mxl_flow_meta (he_from_str env) (cfg_mxl_flow_id cfg) (caps_format cfg) tf = Inr flow"
    and decided: "decide_inner_config_mxl env cfg flow tf = Some decided"
    and inner: "RealInner tc = (let i = apply_auto_activate_policy cfg decided (mxl_eager_blocked flow decided)
       in if tf = None \<and> cfg_side cfg = Sender \<and> is_real i then FakeInner NotConfigured else i)"
  have i: "apply_auto_activate_policy cfg decided (mxl_eager_blocked flow decided) = RealInner tc"
    using inner by (auto simp: Let_def split: if_splits)
  then have real: "decided = RealInner tc" "cfg_auto_activate cfg" using policy_real by blast+
  have side: "cfg_side cfg = Receiver" if "tf = None"
    using inner that i by (cases "cfg_side cfg") (simp_all add: Let_def)
  show ?thesis
  proof (cases file1)
    case None
    with f1 have "caps_format cfg = FmtUnspecified" by (auto simp: caps_format_def dest: synthesised_nothing)
    moreover have "tf = None" using tf None by simp
    ultimately show ?thesis
      using flow decided real side
      by (auto simp: resolve_mxl_flow_meta_def resolve_id_def resolve_format_def decide_inner_config_mxl_def Let_def
          split: if_splits)
  next
    case (Some t)
    then obtain t' where sp: "splice_overrides (he_to_string env) (he_from_str env) t (property_overrides_mxl cfg domain) = Inr t'"
        and t': "tf = Some t'" using tf by auto
    obtain meta where "read_flow_def_meta (he_from_str env) t' = Inr meta" "fr_id flow = fm_id meta"
      using spliced_flow_id [OF env(1) sp] flow t' by auto
    then show ?thesis using decide_mxl_real [of env cfg flow t' tc] env mxl decided real t' by simp
  qed
qed

lemma resolve_mxl_total:
  assumes env: "json_text env"
  shows "resolve_inner_config_mxl env cfg resolved_file \<noteq> None"
proof
  assume "resolve_inner_config_mxl env cfg resolved_file = None"
  then obtain domain t t' flow where "splice_overrides (he_to_string env) (he_from_str env) t (property_overrides_mxl cfg domain) = Inr t'"
      and "decide_inner_config_mxl env cfg flow (Some t') = None"
    using decide_mxl_no_file
    by (auto simp: resolve_inner_config_mxl_def synthesise_or_passthrough_mxl_def res_iff Let_def split: option.splits)
  then show False using decide_mxl_total spliced_file(2) [OF env] by blast
qed

section \<open>RTP\<close>

lemma decide_rtp_real:
  assumes "decide_inner_config_rtp env cfg tf mode = Some (Inr (RealInner tc))"
  shows "tf \<noteq> None \<and> config_transport_file tc = tf \<and>
    (\<not> udp_eager_blocked env (RealInner tc) \<longrightarrow> chain_configured env cfg tc)"
  using assms
  by (auto simp: decide_inner_config_rtp_def decide_inner_config_udp_def decide_inner_config_nvdsudp_def
      finish_udp_inner_config_def res_iff split: gst_transport.splits option.splits if_splits)

lemma decide_rtp_panics:
  assumes "decide_inner_config_rtp env cfg tf mode = None"
  shows "cfg_transport cfg \<noteq> TrMxl \<and> (\<exists>t. tf = Some t \<and> sdp_parse (he_sdp env) t = SdpPanics)"
  using assms
  by (auto simp: decide_inner_config_rtp_def decide_inner_config_udp_def decide_inner_config_nvdsudp_def
      finish_udp_inner_config_def res_iff split: gst_transport.splits option.splits if_splits)

lemma resolve_rtp_real:
  assumes "resolve_inner_config_rtp env cfg resolved_file = Some (Inr (RealInner tc, tf))"
  shows "cfg_auto_activate cfg \<and> tf \<noteq> None \<and> chain_configured env cfg tc"
proof -
  obtain decided where decided: "decide_inner_config_rtp env cfg tf CheckFull = Some (Inr decided)"
      and inner: "apply_auto_activate_policy cfg (gate_deferred_sender_udp decided cfg)
        (udp_eager_blocked env (gate_deferred_sender_udp decided cfg)) = RealInner tc"
    using assms by (auto simp: resolve_inner_config_rtp_def res_iff Let_def)
  note policy = policy_real [OF inner]
  then have "decided = RealInner tc" by (auto simp: gate_deferred_sender_udp_def split: if_splits)
  with decided policy decide_rtp_real [of env cfg tf CheckFull tc] show ?thesis by auto
qed

text \<open>
  The SDP texts that resolving reads or builds, and what each of them comes from: the caps of the element,
  or the transport file that the user gives.
\<close>

fun panics_on_caps :: "sdp_ops \<Rightarrow> sdp_build_input \<Rightarrow> bool" where
  "panics_on_caps ops input \<longleftrightarrow>
     sdp_from_caps ops input = SdpPanics \<or> (\<exists>t. sdp_from_caps ops input = SdpGood t \<and> sdp_parse ops t = SdpPanics)"

fun panics_on_file :: "sdp_ops \<Rightarrow> string \<Rightarrow> bool" where
  "panics_on_file ops t \<longleftrightarrow>
     (\<exists>ov policy. sdp_passthrough ops t ov policy = SdpPanics \<or>
        (\<exists>t'. sdp_passthrough ops t ov policy = SdpGood t' \<and> sdp_parse ops t' = SdpPanics))"

lemma passthrough_file_steps:
  "passthrough_user_transport_file env cfg t policy = None \<Longrightarrow> \<exists>ov. sdp_passthrough (he_sdp env) t ov policy = SdpPanics"
  "passthrough_user_transport_file env cfg t policy = Some (Inr t') \<Longrightarrow>
    \<exists>ov. sdp_passthrough (he_sdp env) t ov policy = SdpGood t'"
  by (auto simp: passthrough_user_transport_file_def res_iff Let_def split: if_splits)

lemma resolve_rtp_panics:
  assumes none: "resolve_inner_config_rtp env cfg resolved_file = None"
  shows "case resolved_file of
        None \<Rightarrow> \<exists>caps. cfg_caps cfg = Some caps \<and> panics_on_caps (he_sdp env) (mk_sdp_build_input cfg caps)
      | Some t \<Rightarrow> panics_on_file (he_sdp env) t"
proof (cases resolved_file)
  case None
  with none show ?thesis
    by (fastforce simp: resolve_inner_config_rtp_def synthesise_or_passthrough_udp_def validate_rtp_configuring_minimum_def
        res_iff Let_def split: option.splits if_splits dest: decide_rtp_panics)
next
  case (Some t)
  with none show ?thesis
    by (fastforce simp: resolve_inner_config_rtp_def synthesise_or_passthrough_udp_def res_iff Let_def
        dest: decide_rtp_panics passthrough_file_steps)
qed

lemma resolve_config_steps:
  assumes "resolve_config env cfg = Some (Inr (inner, tf, name))"
  obtains (mxl) f where "cfg_transport cfg = TrMxl" "resolve_inner_config_mxl env cfg f = Some (Inr (inner, tf))"
      "resolve_resource_name env cfg tf = Some (Inr name)"
    | (rtp) f where "cfg_transport cfg \<noteq> TrMxl" "resolve_inner_config_rtp env cfg f = Some (Inr (inner, tf))"
      "resolve_resource_name env cfg tf = Some (Inr name)"
  using assms by (cases "cfg_transport cfg = TrMxl") (auto simp: resolve_config_def res_iff split: if_splits)

lemma resolve_config_panics:
  assumes env: "json_text env" and none: "resolve_config env cfg = None"
  shows "cfg_transport cfg \<noteq> TrMxl \<and>
    (\<exists>resolved_file. resolve_transport_file env cfg = Some (Inr resolved_file) \<and>
      (case resolved_file of
         None \<Rightarrow> \<exists>caps. cfg_caps cfg = Some caps \<and> panics_on_caps (he_sdp env) (mk_sdp_build_input cfg caps)
       | Some t \<Rightarrow> panics_on_file (he_sdp env) t))"
proof -
  have "resolve_transport_file env cfg \<noteq> None" "resolve_resource_name env cfg tf \<noteq> None" for tf
    by (intro notI; auto simp: resolve_transport_file_def resolve_resource_name_def res_iff
        split: if_splits file_read.splits option.splits)+
  with none resolve_mxl_total [OF env] obtain f where "cfg_transport cfg \<noteq> TrMxl"
      "resolve_transport_file env cfg = Some (Inr f)" "resolve_inner_config_rtp env cfg f = None"
    by (auto simp: resolve_config_def res_iff split: if_splits)
  with resolve_rtp_panics show ?thesis by blast
qed

lemma resolved_name:
  assumes env: "json_text env" and mxl: "cfg_transport cfg = TrMxl"
    and ok: "resolve_inner_config_mxl env cfg resolved_file = Some (Inr (inner, Some t))"
    and name: "resolve_resource_name env cfg (Some t) = Some (Inr name)"
  shows "transport_file_name (he_from_str env) Mxl t = Some name"
  using ok
proof (rule resolve_mxl_steps)
  fix domain file1
  assume "case file1 of None \<Rightarrow> Some t = None
       | Some t0 \<Rightarrow> \<exists>t'. splice_overrides (he_to_string env) (he_from_str env) t0 (property_overrides_mxl cfg domain) = Inr t' \<and> Some t = Some t'"
  then obtain t0 where sp: "splice_overrides (he_to_string env) (he_from_str env) t0 (property_overrides_mxl cfg domain) = Inr t"
    by (auto split: option.splits)
  have "resource_name_from_transport (he_from_str env) t = Inr (Some name)"
  proof (cases "cfg_name cfg = []")
    case True
    with name mxl show ?thesis by (auto simp: resolve_resource_name_def res_iff split: if_splits)
  next
    case False
    then have "resource_name_from_transport (he_from_str env) t = Inr (Some (cfg_name cfg))"
      using spliced_file(5) [OF env sp] by (simp add: property_overrides_mxl_def opt_string_def)
    with False name show ?thesis by (simp add: resolve_resource_name_def res_iff)
  qed
  then show ?thesis by (rule name_read_by_daemon)
qed

section \<open>An example of a host\<close>

instance json :: countable
  by countable_datatype

definition demo_leg :: udp_leg where
  "demo_leg = \<lparr>ul_destination_ip = ''239.0.0.1'', ul_destination_port = 5004, ul_interface_ip = None,
     ul_source_ip = None, ul_source_port = None\<rparr>"

definition demo_media :: udp_media where
  "demo_media = \<lparr>um_format = FmtVideo, um_primary = demo_leg, um_secondary = None, um_rtp_caps = [], um_caps = []\<rparr>"

definition demo_sdp :: sdp_ops where
  "demo_sdp = \<lparr>sdp_from_caps = (\<lambda>_. SdpGood ''sdp''), sdp_parse = (\<lambda>_. SdpGood demo_media), sdp_cross_check = (\<lambda>_ _ _ _. True),
     sdp_media_block_count = (\<lambda>_. Some 1), sdp_count_active_legs = (\<lambda>_. Some 1), sdp_unconstrained = (\<lambda>_. False),
     sdp_resource_name = (\<lambda>_. Some (Some ''cam'')), sdp_bit_rates = (\<lambda>_. Some unset_bit_rates),
     sdp_passthrough = (\<lambda>t _ _. SdpGood t),
     sdp_normalise = Some\<rparr>"

definition demo_host :: host_env where
  "demo_host = \<lparr>he_from_str = (\<lambda>t. if t = [] then None else Some (from_nat (length t - 1))),
     he_to_string = (\<lambda>doc. replicate (Suc (to_nat doc)) (CHR ''x'')), he_read = (\<lambda>_. FileNotFound), he_uuid = ''u1'',
     he_sdp = demo_sdp, he_overlay_features = (\<lambda>caps _. caps), he_is_unspecified = (\<lambda>ip. ip = ''0.0.0.0''),
     he_fraction = (\<lambda>n d. Some (n, d))\<rparr>"

definition demo_cfg :: common_settings where
  "demo_cfg = \<lparr>cfg_daemon_uri = [],
     cfg_node = \<lparr>nst_node_seed = ''seed'', nst_http_port = 0, nst_host_name = [], nst_node_properties = None,
       nst_domain = [], nst_registration_url = [], nst_system_url = []\<rparr>,
     cfg_transport = TrUdp, cfg_side = Sender, cfg_name = ''cam'', cfg_mxl_domain_id = [],
     cfg_mxl_domain_path = [], cfg_mxl_flow_id = [], cfg_transport_file = ''sdp'', cfg_transport_file_path = [],
     cfg_label = [], cfg_description = [], cfg_group_hint = [], cfg_caps = None, cfg_transport_caps = None,
     cfg_format_bit_rate = 0, cfg_transport_bit_rate = 0, cfg_caps_mode = CapsAuto, cfg_source_ip = [],
     cfg_source_port = 0, cfg_destination_ip = [], cfg_destination_port = 0, cfg_interface_ip = [],
     cfg_multicast_ip = [], cfg_auto_activate = True\<rparr>"

lemma demo_host_json: "json_text demo_host"
  by (simp add: json_text_def demo_host_def)

section \<open>Activations\<close>

text \<open>The real chain that an activation with the transport file \<open>t\<close> asks for.\<close>

fun activates :: "host_env \<Rightarrow> common_settings \<Rightarrow> string \<Rightarrow> transport_config \<Rightarrow> bool" where
  "activates env cfg t (MxlConfig path flow_id fmt tf) \<longleftrightarrow>
     cfg_transport cfg = TrMxl \<and> path = cfg_mxl_domain_path cfg \<and> path \<noteq> [] \<and> tf \<noteq> None \<and>
     (cfg_side cfg = Receiver \<longrightarrow> fmt \<noteq> FmtUnspecified) \<and>
     (\<exists>meta. read_flow_def_meta (he_from_str env) t = Inr meta \<and>
        (if fm_id meta = [] then flow_id = he_uuid env \<and> cfg_side cfg = Sender \<and> cfg_auto_activate cfg
         else flow_id = fm_id meta \<and> tf = Some t)) \<and>
     (\<forall>file_id path_id. mxl_domain_id_from_transport (he_from_str env) t = Inr (Concrete file_id) \<longrightarrow>
        read_domain_def_id (he_from_str env) (he_read env) path = Inr (Some path_id) \<longrightarrow> file_id = path_id)"
| "activates env cfg t (UdpConfig variant media tf) \<longleftrightarrow>
     cfg_transport cfg = (case variant of UdpV1 \<Rightarrow> TrUdp | UdpV2 \<Rightarrow> TrUdp2) \<and> tf = Some t \<and>
     (\<exists>parsed n legs. sdp_parse (he_sdp env) t = SdpGood parsed \<and>
        media = parsed\<lparr>um_caps := he_overlay_features env (um_caps parsed) (cfg_caps cfg)\<rparr> \<and>
        sdp_media_block_count (he_sdp env) t = Some n \<and> n \<le> 1 \<and>
        sdp_count_active_legs (he_sdp env) t = Some legs \<and> legs \<noteq> 0)"
| "activates env cfg t (NvDsUdpConfig media tf) \<longleftrightarrow>
     cfg_transport cfg = TrNvDsUdp \<and> tf = Some t \<and>
     (\<exists>parsed legs. sdp_parse (he_sdp env) t = SdpGood parsed \<and>
        media = parsed\<lparr>um_caps := he_overlay_features env (um_caps parsed) (cfg_caps cfg)\<rparr> \<and>
        sdp_count_active_legs (he_sdp env) t = Some legs \<and> legs \<noteq> 0)"

lemma rtp_activates:
  assumes "decide_inner_config_rtp env cfg (Some t) mode = Some (Inr (RealInner tc))"
  shows "activates env cfg t tc"
  using assms
  by (auto simp: decide_inner_config_rtp_def decide_inner_config_udp_def decide_inner_config_nvdsudp_def
      finish_udp_inner_config_def res_iff split: gst_transport.splits if_splits)

lemma mxl_activation_steps:
  assumes "resolve_activation_inner_mxl env cfg t = r" "r \<noteq> Some (Inl rejected)" "he_from_str env [] = None"
  obtains meta flow where "cfg_mxl_domain_path cfg \<noteq> []" "read_flow_def_meta (he_from_str env) t = Inr meta"
    "fr_id flow = fm_id meta" "map_option Inr (decide_inner_config_mxl env cfg flow (Some t)) = r"
    "\<And>file_id path_id. mxl_domain_id_from_transport (he_from_str env) t = Inr (Concrete file_id) \<Longrightarrow>
       read_domain_def_id (he_from_str env) (he_read env) (cfg_mxl_domain_path cfg) = Inr (Some path_id) \<Longrightarrow>
       file_id = path_id"
proof -
  have path: "cfg_mxl_domain_path cfg \<noteq> []" using assms by (auto simp: resolve_activation_inner_mxl_def)
  obtain file_domain where fd: "mxl_domain_id_from_transport (he_from_str env) t = Inr file_domain"
    using assms path by (auto simp: resolve_activation_inner_mxl_def split: sum.splits)
  then have "t \<noteq> []" using assms(3) by (auto simp: mxl_domain_id_from_transport_def)
  have agree: "\<not> (case (file_domain, read_domain_def_id (he_from_str env) (he_read env) (cfg_mxl_domain_path cfg)) of
       (Concrete file_id, Inr (Some path_id)) \<Rightarrow> path_id \<noteq> file_id | _ \<Rightarrow> False)"
    using assms(1,2) path fd unfolding resolve_activation_inner_mxl_def by auto
  obtain flow where flow: "resolve_mxl_flow_meta (he_from_str env) [] (caps_format cfg) (Some t) = Inr flow"
    using assms(1,2) path fd agree by (auto simp: resolve_activation_inner_mxl_def simp del: prod.case split: sum.splits)
  show thesis
    using flow \<open>t \<noteq> []\<close>
  proof (rule resolve_meta_reads)
    fix meta
    assume "read_flow_def_meta (he_from_str env) t = Inr meta" "fr_id flow = (if fm_id meta = [] then [] else fm_id meta)"
    moreover have "map_option Inr (decide_inner_config_mxl env cfg flow (Some t)) = r"
      using assms(1) path fd agree flow by (simp add: resolve_activation_inner_mxl_def del: prod.case)
    ultimately show thesis using path agree fd by (intro that [of meta flow]) (auto split: if_splits)
  qed
qed

lemma mxl_activates:
  assumes "resolve_activation_inner_mxl env cfg t = Some (Inr (RealInner tc))"
    and env: "json_text env" and mxl: "cfg_transport cfg = TrMxl"
  shows "activates env cfg t tc"
proof (rule mxl_activation_steps [OF assms(1)])
  show "he_from_str env [] = None" using env by (simp add: json_text_def)
next
  fix meta flow
  assume m: "cfg_mxl_domain_path cfg \<noteq> []" "read_flow_def_meta (he_from_str env) t = Inr meta" "fr_id flow = fm_id meta"
    "map_option Inr (decide_inner_config_mxl env cfg flow (Some t)) = Some (Inr (RealInner tc))"
    and agree: "\<And>file_id path_id. mxl_domain_id_from_transport (he_from_str env) t = Inr (Concrete file_id) \<Longrightarrow>
       read_domain_def_id (he_from_str env) (he_read env) (cfg_mxl_domain_path cfg) = Inr (Some path_id) \<Longrightarrow>
       file_id = path_id"
  from m have "decide_inner_config_mxl env cfg flow (Some t) = Some (RealInner tc)" by auto
  with m mxl agree show ?thesis
    by (cases "fm_id meta = []") (auto simp: decide_inner_config_mxl_def Let_def split: if_splits sum.splits)
qed simp

lemma mxl_activation_panics:
  assumes "resolve_activation_inner_mxl env cfg t = None" and env: "json_text env"
  shows "cfg_side cfg = Sender \<and> cfg_auto_activate cfg \<and> (\<exists>xs. he_from_str env t = Some (JArray xs))"
proof (rule mxl_activation_steps [OF assms(1)])
  show "he_from_str env [] = None" using env by (simp add: json_text_def)
next
  fix meta flow
  assume m: "read_flow_def_meta (he_from_str env) t = Inr meta"
    "map_option Inr (decide_inner_config_mxl env cfg flow (Some t)) = None"
  then have none: "decide_inner_config_mxl env cfg flow (Some t) = None" by simp
  then have "he_from_str env t \<noteq> Some (JObject ms)" for ms using decide_mxl_total by blast
  then have "\<exists>xs. he_from_str env t = Some (JArray xs)" using read_meta_object_or_array [OF m(1)] by auto
  then show ?thesis using none by (auto simp: decide_inner_config_mxl_def Let_def split: if_splits)
qed simp

text \<open>
  C25. What an activation from the daemon becomes. The plan acknowledges success exactly when the element
  goes to a real chain or to the chain of an inactive resource. Without a transport file it is
  deactivated, and a request for the other side is refused. A real chain is the one that the file
  asks for: the flow of the flow definition in a domain that is not known to be another one, or the
  media of an SDP message with an active leg. Deciding panics only for an MXL sender with
  \<^verbatim>\<open>auto-activate\<close> that is given a JSON array, or, with RTP, when reading the very message that was
  sent panics (\<open>panicking_sdp\<close> in \<open>Gst_ConfigFacts\<close> tells which messages those are).
\<close>

theorem activation_plan_truthful:
  assumes env: "json_text env"
  shows "(case make_activation_plan env cfg req of
      None \<Rightarrow> (\<exists>t. arq_transport_file req = Some t \<and>
        (if cfg_transport cfg = TrMxl
         then cfg_side cfg = Sender \<and> cfg_auto_activate cfg \<and> (\<exists>xs. he_from_str env t = Some (JArray xs))
         else sdp_parse (he_sdp env) t = SdpPanics))
    | Some plan \<Rightarrow>
        (ap_ack plan = AckSuccess \<longleftrightarrow> is_real (ap_inner plan) \<or> ap_inner plan = FakeInner NotActive) \<and>
        (arq_side req \<noteq> cfg_side cfg \<longrightarrow> ap_ack plan = AckFailure) \<and>
        (arq_side req = cfg_side cfg \<and> arq_transport_file req = None \<longrightarrow>
           ap_inner plan = FakeInner NotActive \<and> ap_ack plan = AckSuccess) \<and>
        (\<forall>tc. ap_inner plan = RealInner tc \<longrightarrow>
           arq_side req = cfg_side cfg \<and> (\<exists>t. arq_transport_file req = Some t \<and> activates env cfg t tc)))"
proof (cases "arq_side req = cfg_side cfg \<and> arq_transport_file req \<noteq> None")
  case False
  then show ?thesis by (auto simp: make_activation_plan_def rejected_def)
next
  case True
  then obtain t where t: "arq_side req = cfg_side cfg" "arq_transport_file req = Some t" by auto
  have "activates env cfg t tc" if "activation_inner env cfg t = Some (Inr (RealInner tc))" for tc
    using that mxl_activates [OF _ env] rtp_activates
    by (cases "cfg_transport cfg = TrMxl") (auto simp: activation_inner_def split: option.splits sum.splits)
  moreover have "plan = rejected" if "activation_inner env cfg t = Some (Inl plan)" for plan
    using that by (auto simp: activation_inner_def resolve_activation_inner_mxl_def
        split: if_splits option.splits sum.splits)
  moreover have "if cfg_transport cfg = TrMxl
      then cfg_side cfg = Sender \<and> cfg_auto_activate cfg \<and> (\<exists>xs. he_from_str env t = Some (JArray xs))
      else sdp_parse (he_sdp env) t = SdpPanics" if "activation_inner env cfg t = None"
    using that mxl_activation_panics [OF _ env]
    by (cases "cfg_transport cfg = TrMxl")
      (auto simp: activation_inner_def split: option.splits sum.splits dest!: decide_rtp_panics)
  ultimately show ?thesis
    using t by (auto simp: make_activation_plan_def rejected_def activation_succeeds_def
        split: option.splits sum.splits inner_config.splits)
qed

definition demo_activation :: activation_request where
  "demo_activation = \<lparr>arq_activation_handle = ''a1'', arq_resource_handle = ''r1'', arq_side = Sender,
     arq_transport_file = Some (he_to_string demo_host (JObject [(''id'', JString ''f2'')]))\<rparr>"

theorem activation_plan_truthful_witness:
  "\<exists>tc. map_option ap_ack (make_activation_plan demo_host (demo_cfg\<lparr>cfg_transport := TrMxl, cfg_mxl_domain_path := ''/d''\<rparr>) demo_activation)
      = Some AckSuccess \<and>
    activates demo_host (demo_cfg\<lparr>cfg_transport := TrMxl, cfg_mxl_domain_path := ''/d''\<rparr>)
      (the (arq_transport_file demo_activation)) tc"
proof -
  let ?cfg = "demo_cfg\<lparr>cfg_transport := TrMxl, cfg_mxl_domain_path := ''/d''\<rparr>" and ?t = "the (arq_transport_file demo_activation)"
  have doc: "he_from_str demo_host ?t = Some (JObject [(''id'', JString ''f2'')])" "?t \<noteq> []"
    using demo_host_json by (auto simp: demo_activation_def json_text_def demo_host_def)
  have inner: "activation_inner demo_host ?cfg ?t = Some (Inr (RealInner (MxlConfig ''/d'' ''f2'' FmtUnspecified (Some ?t))))"
    using doc
    by (simp add: activation_inner_def demo_cfg_def resolve_activation_inner_mxl_def mxl_domain_id_from_transport_def
        resolve_mxl_flow_meta_def read_flow_def_meta_def struct_fields_def opt_field_def resolve_id_def resolve_format_def
        caps_format_def decide_inner_config_mxl_def Let_def)
  have "make_activation_plan demo_host ?cfg demo_activation =
      Some \<lparr>ap_inner = RealInner (MxlConfig ''/d'' ''f2'' FmtUnspecified (Some ?t)), ap_ack = AckSuccess\<rparr>"
    using inner by (simp add: make_activation_plan_def demo_activation_def demo_cfg_def)
  then show ?thesis
    using activation_plan_truthful [OF demo_host_json, of demo_activation ?cfg] by (auto simp del: activates.simps)
qed

end
