(* ===== verification/Gst_Chains.thy ===== *)
theory Gst_Chains
  imports Gst_PlanFacts
begin

text \<open>
  The chains of elements behind the anchor (the builders of \<^verbatim>\<open>inner.rs\<close>) and what the elements
  \<^verbatim>\<open>nmossink\<close> and \<^verbatim>\<open>nmossrc\<close> put into them (\<^verbatim>\<open>imp.rs\<close>), with the essence caps of
  \<^verbatim>\<open>essence_caps.rs\<close> and the network interfaces of \<^verbatim>\<open>iface.rs\<close>.

  A chain is described by its elements in the order of the data, each with its factory and the
  properties that are set on it. What GStreamer has is \<open>gst_env\<close>: the factories, whether an element
  can be made, whether adding and linking the elements of a chain succeeds, which properties a
  factory has, and what becomes of a value given by the application.
\<close>

section \<open>Network interfaces\<close>

text \<open>An address is known by its text as it was parsed.\<close>

record if_addr =
  ia_name :: string
  ia_address :: "string option"
  ia_mac :: "8 word list option"

definition iface_name_for_ip :: "if_addr list option \<Rightarrow> string \<Rightarrow> string option" where
  "iface_name_for_ip addrs target =
     Option.bind addrs (\<lambda>addrs. map_option ia_name (find (\<lambda>ifa. ia_address ifa = Some target) addrs))"

definition hex_digit :: "nat \<Rightarrow> char" where
  "hex_digit n = ''0123456789abcdef'' ! n"

definition hex_byte :: "8 word \<Rightarrow> string" where
  "hex_byte b = [hex_digit (unat b div 16), hex_digit (unat b mod 16)]"

definition join_strings :: "string \<Rightarrow> string list \<Rightarrow> string" where
  "join_strings sep xs = (case xs of [] \<Rightarrow> [] | x # rest \<Rightarrow> x @ concat (map (\<lambda>y. sep @ y) rest))"

definition format_is04_mac :: "8 word list \<Rightarrow> string" where
  "format_is04_mac mac = join_strings ''-'' (map hex_byte mac)"

fun port_id_for_interface :: "if_addr list \<Rightarrow> string \<Rightarrow> string option" where
  "port_id_for_interface [] ifname = None"
| "port_id_for_interface (ifa # addrs) ifname =
     (if ia_name ifa \<noteq> ifname then port_id_for_interface addrs ifname
      else
        (case ia_mac ifa of
           None \<Rightarrow> port_id_for_interface addrs ifname
         | Some mac \<Rightarrow> if (\<forall>b \<in> set mac. b = 0) then port_id_for_interface addrs ifname else Some (format_is04_mac mac)))"

definition iface_identity_for_ip :: "if_addr list option \<Rightarrow> string \<Rightarrow> (string \<times> string) option" where
  "iface_identity_for_ip addrs target =
     Option.bind addrs (\<lambda>addrs.
       Option.bind (find (\<lambda>ifa. ia_address ifa = Some target) addrs) (\<lambda>ifa.
         map_option (\<lambda>port_id. (ia_name ifa, port_id)) (port_id_for_interface addrs (ia_name ifa))))"

definition x_nvnmos_iface_value_for_ip :: "if_addr list option \<Rightarrow> (string \<Rightarrow> string option) \<Rightarrow> string \<Rightarrow> string option" where
  "x_nvnmos_iface_value_for_ip addrs parse_ip ip =
     Option.bind (parse_ip ip) (\<lambda>addr.
       map_option (\<lambda>(name, port_id). name @ '' '' @ port_id) (iface_identity_for_ip addrs addr))"

section \<open>Essence caps\<close>

definition default_smpte2110_channel_order :: "int \<Rightarrow> string" where
  "default_smpte2110_channel_order channels =
     (if channels = 1 then ''SMPTE2110.(M)''
      else if channels = 2 then ''SMPTE2110.(ST)''
      else if 3 \<le> channels \<and> channels \<le> 64 then
        ''SMPTE2110.(U'' @ (if channels < 10 then ''0'' else []) @ show_int channels @ '')''
      else ''SMPTE2110.(U01)'')"

definition default_channel_mask :: "int \<Rightarrow> u64 option" where
  "default_channel_mask channels =
     (if channels < 1 \<or> channels > 64 then None
      else Some (if channels = 64 then - 1 else push_bit (nat channels) 1 - 1))"

definition is_bitmask :: "gvalue option \<Rightarrow> bool" where
  "is_bitmask v = (case v of Some (GBitmask _) \<Rightarrow> True | _ \<Rightarrow> False)"

definition audio_caps_from :: "gst_caps \<Rightarrow> string option \<Rightarrow> gst_caps" where
  "audio_caps_from caps channel_order =
     (case caps of
        [] \<Rightarrow> caps
      | (name, st) # rest \<Rightarrow>
          (let needs_mask = \<not> is_bitmask (map_of st ''channel-mask'');
               needs_order = (field_string st ''channel-order'' = None);
               channels = (case field_int st ''channels'' of Some n \<Rightarrow> n | None \<Rightarrow> 1);
               st1 = (case default_channel_mask channels of
                        Some m \<Rightarrow> if needs_mask then AList.update ''channel-mask'' (GBitmask m) st else st
                      | None \<Rightarrow> st);
               order = (case channel_order of Some s \<Rightarrow> s | None \<Rightarrow> default_smpte2110_channel_order channels);
               st2 = (if needs_order then AList.update ''channel-order'' (GString (Some order)) st1 else st1)
           in (name, st2) # rest))"

definition channel_order_from_rtp :: "gst_caps option \<Rightarrow> string option" where
  "channel_order_from_rtp rtp_caps =
     (case rtp_caps of Some ((_, st) # _) \<Rightarrow> field_string st ''channel-order'' | _ \<Rightarrow> None)"

definition essence_caps_from :: "gst_caps \<Rightarrow> gst_caps option \<Rightarrow> gst_caps" where
  "essence_caps_from caps rtp_caps =
     (case caps of
        (name, _) # _ \<Rightarrow> if name = ''audio/x-raw'' then audio_caps_from caps (channel_order_from_rtp rtp_caps) else caps
      | [] \<Rightarrow> caps)"

text \<open>Caps for the chains, from \<^verbatim>\<open>session/mod.rs\<close>.\<close>

definition caps_from_flow_def :: "host_env \<Rightarrow> string option \<Rightarrow> gst_caps option resolved" where
  "caps_from_flow_def env transport_file =
     (case transport_file of
        None \<Rightarrow> give None
      | Some t \<Rightarrow>
          if t = [] then give None
          else
            (case caps_from (he_from_str env) (he_fraction env) t of
               None \<Rightarrow> None
             | Some (Inl e) \<Rightarrow> fail (CapsUnavailable e)
             | Some (Inr parsed) \<Rightarrow> give (Some (essence_caps_from parsed None))))"

definition caps_from_transport_file :: "host_env \<Rightarrow> gst_transport \<Rightarrow> string \<Rightarrow> gst_caps option resolved" where
  "caps_from_transport_file env transport t =
     (if t = [] then give None
      else if transport = TrMxl then caps_from_flow_def env (Some t)
      else
        bind_res (need_sdp (sdp_parse (he_sdp env) t)) (\<lambda>media.
          give (Some (essence_caps_from (um_caps media) (Some (um_rtp_caps media))))))"

definition fake_caps_from_settings :: "host_env \<Rightarrow> common_settings \<Rightarrow> gst_caps option resolved" where
  "fake_caps_from_settings env cfg =
     (case cfg_caps cfg of
        Some caps \<Rightarrow> give (Some (essence_caps_from caps None))
      | None \<Rightarrow>
          if cfg_transport_file cfg \<noteq> [] then caps_from_transport_file env (cfg_transport cfg) (cfg_transport_file cfg)
          else if cfg_transport_file_path cfg \<noteq> [] then
            (case he_read env (cfg_transport_file_path cfg) of
               FileText t \<Rightarrow> caps_from_transport_file env (cfg_transport cfg) t
             | _ \<Rightarrow> fail TransportFileUnreadable)
          else give None)"

section \<open>Elements and chains\<close>

datatype pvalue = PStr string | PBool bool | PNum int | PCaps gst_caps | PSdpFile string

record element_desc =
  ed_factory :: string
  ed_name :: string
  ed_props :: "(string \<times> pvalue) list"

datatype element_role = CapsRole | TransportRole | PayRole

record inner_chain =
  ic_name :: string
  ic_elements :: "(element_role \<times> element_desc) list"

datatype ptype = TypeU32 | TypeI64 | TypeOther

record gst_env =
  g_find :: "string \<Rightarrow> bool"
  g_make :: "string \<Rightarrow> bool"
  g_wire :: "string \<Rightarrow> bool"
  g_property :: "string \<Rightarrow> string \<Rightarrow> ptype option"
  g_convert :: "string \<Rightarrow> string \<Rightarrow> gvalue \<Rightarrow> pvalue option"
  g_ifaddrs :: "if_addr list option"
  g_parse_ip :: "string \<Rightarrow> string option"
  g_multicast :: "string \<Rightarrow> bool"
  g_write_sdp :: "string \<Rightarrow> bool"

definition set_property :: "string \<Rightarrow> pvalue \<Rightarrow> element_desc \<Rightarrow> element_desc" where
  "set_property name v e = e\<lparr>ed_props := AList.update name v (ed_props e)\<rparr>"

definition set_property_opt :: "string \<Rightarrow> pvalue option \<Rightarrow> element_desc \<Rightarrow> element_desc" where
  "set_property_opt name v e = (case v of None \<Rightarrow> e | Some v \<Rightarrow> set_property name v e)"

definition get_property :: "element_desc \<Rightarrow> string \<Rightarrow> pvalue option" where
  "get_property e name = map_of (ed_props e) name"

definition make_element :: "gst_env \<Rightarrow> string \<Rightarrow> string \<Rightarrow> (string \<times> pvalue) list \<Rightarrow> element_desc resolved" where
  "make_element g factory name props =
     (if g_make g factory then give \<lparr>ed_factory = factory, ed_name = name, ed_props = props\<rparr>
      else fail (MissingPlugin factory))"

definition wire :: "gst_env \<Rightarrow> string \<Rightarrow> unit resolved" where
  "wire g name = (if g_wire g name then give () else fail (WiringFailed name))"

definition update_role :: "element_role \<Rightarrow> (element_desc \<Rightarrow> element_desc) \<Rightarrow> inner_chain \<Rightarrow> inner_chain" where
  "update_role r f c = c\<lparr>ic_elements := map (\<lambda>(q, e). (q, if q = r then f e else e)) (ic_elements c)\<rparr>"

definition element_of :: "element_role \<Rightarrow> inner_chain \<Rightarrow> element_desc option" where
  "element_of r c = map_of (ic_elements c) r"

section \<open>Fake chains\<close>

definition build_fake_sink :: "gst_env \<Rightarrow> gst_caps option \<Rightarrow> inner_chain resolved" where
  "build_fake_sink g caps =
     bind_res (make_element g ''valve'' ''nmossink-fake-valve'' [(''drop'', PBool False)]) (\<lambda>valve.
     bind_res (make_element g ''fakesink'' ''nmossink-fake-sink'' [(''sync'', PBool True), (''async'', PBool False)]) (\<lambda>fakesink.
     bind_res
       (case caps of
          Some caps \<Rightarrow> bind_res (make_element g ''capsfilter'' ''nmossink-fake-caps'' [(''caps'', PCaps caps)]) (\<lambda>e. give [(CapsRole, e)])
        | None \<Rightarrow> give []) (\<lambda>head.
     bind_res (wire g ''nmossink-fake'') (\<lambda>_.
     give \<lparr>ic_name = ''nmossink-fake'', ic_elements = head @ [(PayRole, valve), (TransportRole, fakesink)]\<rparr>))))"

definition build_fake_src :: "gst_env \<Rightarrow> gst_caps option \<Rightarrow> inner_chain resolved" where
  "build_fake_src g caps =
     bind_res (make_element g ''appsrc'' ''nmossrc-fake'' [(''is-live'', PBool True), (''format'', PStr ''time'')]) (\<lambda>e.
     give \<lparr>ic_name = ''nmossrc-fake'', ic_elements = [(TransportRole, set_property_opt ''caps'' (map_option PCaps caps) e)]\<rparr>)"

section \<open>MXL chains\<close>

definition prepend_sink_capsfilter :: "gst_env \<Rightarrow> gst_caps \<Rightarrow> inner_chain \<Rightarrow> inner_chain resolved" where
  "prepend_sink_capsfilter g caps c =
     bind_res (make_element g ''capsfilter'' ''nmossink-caps'' [(''caps'', PCaps caps)]) (\<lambda>capsfilter.
     bind_res (wire g ''nmossink-caps'') (\<lambda>_.
     give (c\<lparr>ic_elements := (CapsRole, capsfilter) # ic_elements c\<rparr>)))"

definition require_factory :: "gst_env \<Rightarrow> string \<Rightarrow> unit resolved" where
  "require_factory g factory = (if g_find g factory then give () else fail (MissingPlugin factory))"

definition build_mxlsink :: "gst_env \<Rightarrow> string \<Rightarrow> string \<Rightarrow> gst_caps \<Rightarrow> inner_chain resolved" where
  "build_mxlsink g domain_path flow_id advertise_caps =
     bind_res (require_factory g ''mxlsink'') (\<lambda>_.
     bind_res (make_element g ''mxlsink'' ''nmossink-mxl'' [(''domain'', PStr domain_path), (''flow-id'', PStr flow_id)]) (\<lambda>mxlsink.
     bind_res (wire g ''nmossink-mxl'') (\<lambda>_.
     prepend_sink_capsfilter g advertise_caps \<lparr>ic_name = ''nmossink-mxl'', ic_elements = [(TransportRole, mxlsink)]\<rparr>)))"

fun flow_id_property :: "flow_format \<Rightarrow> string option" where
  "flow_id_property FmtVideo = Some ''video-flow-id''"
| "flow_id_property FmtAudio = Some ''audio-flow-id''"
| "flow_id_property FmtData = Some ''data-flow-id''"
| "flow_id_property FmtUnspecified = None"

definition build_mxlsrc ::
  "gst_env \<Rightarrow> string \<Rightarrow> string \<Rightarrow> flow_format \<Rightarrow> gst_caps option \<Rightarrow> inner_chain resolved" where
  "build_mxlsrc g domain_path flow_id fmt advertise_caps =
     bind_res (require_factory g ''mxlsrc'') (\<lambda>_.
     bind_res (need InternalError (flow_id_property fmt)) (\<lambda>prop.
     bind_res (make_element g ''mxlsrc'' ''nmossrc-mxl'' [(''domain'', PStr domain_path), (prop, PStr flow_id)]) (\<lambda>mxlsrc.
     case advertise_caps of
       None \<Rightarrow> give \<lparr>ic_name = ''nmossrc-mxl'', ic_elements = [(TransportRole, mxlsrc)]\<rparr>
     | Some caps \<Rightarrow>
         bind_res (make_element g ''capssetter'' ''nmossrc-caps'' [(''caps'', PCaps caps)]) (\<lambda>capssetter.
         bind_res (wire g ''nmossrc-inner'') (\<lambda>_.
         give \<lparr>ic_name = ''nmossrc-inner'', ic_elements = [(TransportRole, mxlsrc), (CapsRole, capssetter)]\<rparr>)))))"

section \<open>RTP chains over UDP\<close>

definition rtp_stem :: "flow_format \<Rightarrow> string \<Rightarrow> string option" where
  "rtp_stem fmt encoding_name =
     (let upper = map to_ascii_uppercase encoding_name
      in if fmt = FmtVideo \<and> upper = ''RAW'' then Some ''rtpvraw''
         else if fmt = FmtVideo \<and> upper = ''JXSV'' then Some ''rtpjxsv''
         else if fmt = FmtAudio \<and> upper = ''L24'' then Some ''rtpL24''
         else if fmt = FmtAudio \<and> upper = ''L16'' then Some ''rtpL16''
         else if fmt = FmtData \<and> upper = ''SMPTE291'' then Some ''rtpsmpte291''
         else None)"

definition select_rtp_factory ::
  "gst_env \<Rightarrow> string \<Rightarrow> flow_format \<Rightarrow> string \<Rightarrow> udp_variant \<Rightarrow> string resolved" where
  "select_rtp_factory g suffix fmt encoding_name variant =
     bind_res (need BadSettings (rtp_stem fmt encoding_name)) (\<lambda>stem.
       let v1 = stem @ suffix
       in if \<not> g_find g v1 then fail (MissingPlugin v1)
          else
            (case variant of
               UdpV1 \<Rightarrow> give v1
             | UdpV2 \<Rightarrow> give (if g_find g (v1 @ ''2'') then v1 @ ''2'' else v1)))"

definition select_udp_src_capssetter_caps ::
  "flow_format \<Rightarrow> string \<Rightarrow> gst_caps option \<Rightarrow> gst_caps option" where
  "select_udp_src_capssetter_caps fmt encoding_name advertise_caps =
     (if fmt = FmtVideo \<and> map to_ascii_uppercase encoding_name = ''JXSV'' then None else advertise_caps)"

definition select_udpsrc_factory :: "gst_env \<Rightarrow> udp_variant \<Rightarrow> string" where
  "select_udpsrc_factory g variant =
     (case variant of UdpV1 \<Rightarrow> ''udpsrc'' | UdpV2 \<Rightarrow> if g_find g ''udpsrc2'' then ''udpsrc2'' else ''udpsrc'')"

definition select_udpsink_factory :: "gst_env \<Rightarrow> udp_variant \<Rightarrow> string" where
  "select_udpsink_factory g variant =
     (case variant of UdpV1 \<Rightarrow> ''udpsink'' | UdpV2 \<Rightarrow> if g_find g ''udpsink2'' then ''udpsink2'' else ''udpsink'')"

definition pay_ptime_ns :: "gst_structure \<Rightarrow> int option resolved" where
  "pay_ptime_ns st =
     (case field_string st ''a-ptime'' of
        None \<Rightarrow> give None
      | Some s \<Rightarrow> bind_res (need BadSettings (pay_ptime_ms_as_ns s)) (\<lambda>ns. give (Some ns)))"

definition multicast_iface_name :: "gst_env \<Rightarrow> string \<Rightarrow> string option \<Rightarrow> string option" where
  "multicast_iface_name g destination_ip interface_ip =
     Option.bind (g_parse_ip g destination_ip) (\<lambda>dest.
       if \<not> g_multicast g dest then None
       else Option.bind interface_ip (\<lambda>i. Option.bind (g_parse_ip g i) (iface_name_for_ip (g_ifaddrs g))))"

definition rtp_structure :: "udp_media \<Rightarrow> gst_structure resolved" where
  "rtp_structure media = (case um_rtp_caps media of [] \<Rightarrow> fail InternalError | (_, st) # _ \<Rightarrow> give st)"

text \<open>The properties of the payloader and of the sink, apart from those given when they are made.\<close>

definition configure_payloader :: "gst_env \<Rightarrow> int option \<Rightarrow> element_desc \<Rightarrow> element_desc" where
  "configure_payloader g ptime_ns e =
     (let e1 = set_property_opt ''max-ptime'' (map_option PNum ptime_ns) (set_property_opt ''min-ptime'' (map_option PNum ptime_ns) e)
      in case g_property g (ed_factory e) ''timestamp-offset'' of
           Some TypeU32 \<Rightarrow> set_property ''timestamp-offset'' (PNum 0) e1
         | Some TypeI64 \<Rightarrow> set_property ''timestamp-offset'' (PNum 0) e1
         | _ \<Rightarrow> e1)"

definition configure_udpsink :: "gst_env \<Rightarrow> udp_leg \<Rightarrow> element_desc \<Rightarrow> element_desc" where
  "configure_udpsink g leg e =
     set_property_opt ''multicast-iface'' (map_option PStr (multicast_iface_name g (ul_destination_ip leg) (sender_interface_ip leg)))
       (set_property_opt ''bind-address'' (map_option PStr (sender_interface_ip leg))
         (set_property_opt ''bind-port'' (map_option (\<lambda>p. PNum (uint p)) (ul_source_port leg))
           (set_property ''port'' (PNum (uint (ul_destination_port leg))) e)))"

definition build_udpsink :: "gst_env \<Rightarrow> udp_media \<Rightarrow> udp_variant \<Rightarrow> inner_chain resolved" where
  "build_udpsink g media variant =
     bind_res (rtp_structure media) (\<lambda>st.
     bind_res (need InternalError (field_string st ''encoding-name'')) (\<lambda>encoding_name.
     bind_res (need InternalError (field_int st ''payload'')) (\<lambda>pt.
     if \<not> (0 \<le> pt \<and> pt \<le> 127) then fail BadSettings
     else
       bind_res (if um_format media = FmtAudio then pay_ptime_ns st else give None) (\<lambda>ptime_ns.
       bind_res (select_rtp_factory g ''pay'' (um_format media) encoding_name variant) (\<lambda>payloader_factory.
       bind_res (make_element g payloader_factory ''nmossink-payloader'' [(''pt'', PNum pt)]) (\<lambda>payloader.
       bind_res (make_element g (select_udpsink_factory g variant) ''nmossink-udpsink''
           [(''host'', PStr (ul_destination_ip (um_primary media)))]) (\<lambda>udpsink.
       bind_res (wire g ''nmossink-udp'') (\<lambda>_.
       prepend_sink_capsfilter g (um_caps media)
         \<lparr>ic_name = ''nmossink-udp'',
          ic_elements = [(PayRole, configure_payloader g ptime_ns payloader),
            (TransportRole, configure_udpsink g (um_primary media) udpsink)]\<rparr>))))))))"

definition configure_udpsrc :: "gst_env \<Rightarrow> udp_leg \<Rightarrow> element_desc \<Rightarrow> element_desc" where
  "configure_udpsrc g leg e =
     (let e1 = set_property ''port'' (PNum (uint (ul_destination_port leg))) e;
          multicast = (case g_parse_ip g (ul_destination_ip leg) of Some ip \<Rightarrow> g_multicast g ip | None \<Rightarrow> False);
          e2 = set_property_opt ''multicast-iface''
            (map_option PStr (multicast_iface_name g (ul_destination_ip leg) (receiver_interface_ip leg))) e1
      in case ul_source_ip leg of
           None \<Rightarrow> e2
         | Some source_ip \<Rightarrow>
             if \<not> multicast then e2
             else if ed_factory e = ''udpsrc2'' then set_property ''source-filter'' (PStr source_ip) e2
             else set_property ''multicast-source'' (PStr (''+'' @ source_ip)) e2)"

definition build_udpsrc :: "gst_env \<Rightarrow> udp_media \<Rightarrow> udp_variant \<Rightarrow> gst_caps option \<Rightarrow> inner_chain resolved" where
  "build_udpsrc g media variant advertise_caps =
     bind_res (rtp_structure media) (\<lambda>st.
     bind_res (need InternalError (field_string st ''encoding-name'')) (\<lambda>encoding_name.
     bind_res (select_rtp_factory g ''depay'' (um_format media) encoding_name variant) (\<lambda>depayloader_factory.
     bind_res (make_element g depayloader_factory ''nmossrc-depayloader'' []) (\<lambda>depayloader.
     bind_res (make_element g (select_udpsrc_factory g variant) ''nmossrc-udpsrc''
         [(''address'', PStr (ul_destination_ip (um_primary media))), (''caps'', PCaps (um_rtp_caps media))]) (\<lambda>udpsrc.
     bind_res
       (case select_udp_src_capssetter_caps (um_format media) encoding_name advertise_caps of
          None \<Rightarrow> give []
        | Some caps \<Rightarrow> bind_res (make_element g ''capssetter'' ''nmossrc-caps'' [(''caps'', PCaps caps)]) (\<lambda>e. give [(CapsRole, e)])) (\<lambda>tail.
     bind_res (wire g ''nmossrc-udp'') (\<lambda>_.
     give \<lparr>ic_name = ''nmossrc-udp'',
       ic_elements = [(TransportRole, configure_udpsrc g (um_primary media) udpsrc), (PayRole, depayloader)] @ tail\<rparr>)))))))"

section \<open>Rivermax chains\<close>

definition show_port :: "port \<Rightarrow> string" where
  "show_port p = show_nat (unat p)"

definition host_port :: "udp_leg \<Rightarrow> string" where
  "host_port leg = ul_destination_ip leg @ '':'' @ show_port (ul_destination_port leg)"

definition media_legs :: "udp_media \<Rightarrow> udp_leg list" where
  "media_legs media = um_primary media # (case um_secondary media of Some leg \<Rightarrow> [leg] | None \<Rightarrow> [])"

definition comma_separated_sender_interface_ips :: "udp_leg list \<Rightarrow> string option" where
  "comma_separated_sender_interface_ips legs =
     (let ips = List.map_filter sender_interface_ip legs
      in if length ips \<noteq> length legs then None else Some (join_strings '','' ips))"

definition comma_separated_receiver_interface_ips :: "udp_leg list \<Rightarrow> string option" where
  "comma_separated_receiver_interface_ips legs =
     (let ips = List.map_filter receiver_interface_ip legs
      in if length ips \<noteq> length legs then None else Some (join_strings '','' ips))"

definition nvdsudp_source_any :: string where
  "nvdsudp_source_any = ''0.0.0.0''"

definition comma_separated_source_ips :: "udp_leg list \<Rightarrow> string option" where
  "comma_separated_source_ips legs =
     (let ips = map (\<lambda>leg. case ul_source_ip leg of Some ip \<Rightarrow> ip | None \<Rightarrow> nvdsudp_source_any) legs
      in if legs = [] \<or> (\<forall>ip \<in> set ips. ip = nvdsudp_source_any) then None else Some (join_strings '','' ips))"

definition set_nvdsudp_ptp_src_from_sdp :: "string \<Rightarrow> string option \<Rightarrow> element_desc \<Rightarrow> element_desc" where
  "set_nvdsudp_ptp_src_from_sdp sdp_text interface_ip e =
     (if ptp_src_from_sdp sdp_text = UseInterfaceIp then set_property_opt ''ptp-src'' (map_option PStr interface_ip) e else e)"

definition lift_packets :: "packet_error + 'a \<Rightarrow> 'a resolved" where
  "lift_packets r = (case r of Inl e \<Rightarrow> fail (PacketizationFailed e) | Inr a \<Rightarrow> give a)"

definition pnum32 :: "u32 \<Rightarrow> pvalue" where
  "pnum32 n = PNum (uint n)"

fun sink_packet_properties :: "packetization \<Rightarrow> element_desc \<Rightarrow> element_desc" where
  "sink_packet_properties (VideoPackets v) e =
     set_property ''packets-per-line'' (pnum32 (vp_packets_per_line v))
       (set_property ''payload-size'' (pnum32 (vp_sink_payload_size v)) e)"
| "sink_packet_properties (AudioPackets a) e = set_property ''payload-size'' (pnum32 (au_sink_payload_size a)) e"
| "sink_packet_properties AncPackets e = e"

fun src_packet_properties :: "packetization \<Rightarrow> element_desc \<Rightarrow> element_desc" where
  "src_packet_properties (VideoPackets v) e =
     set_property ''payload-size'' (pnum32 (vp_src_payload_size v)) (set_property ''header-size'' (pnum32 video_header_size) e)"
| "src_packet_properties (AudioPackets a) e =
     set_property ''payload-multiple'' (pnum32 (au_payload_multiple a))
       (set_property ''payload-size'' (pnum32 (au_src_payload_size a)) (set_property ''header-size'' (pnum32 audio_header_size) e))"
| "src_packet_properties AncPackets e = set_property ''header-size'' (pnum32 anc_header_size) e"

definition build_nvdsudpsink :: "gst_env \<Rightarrow> sdp_ops \<Rightarrow> udp_media \<Rightarrow> string \<Rightarrow> inner_chain resolved" where
  "build_nvdsudpsink g ops media sdp_text =
     bind_res (require_factory g ''nvdsudpsink'') (\<lambda>_.
     bind_res (lift_packets (packetization_from_media (um_format media) (um_caps media) (um_rtp_caps media))) (\<lambda>pkt.
     bind_res
       (if um_secondary media = None \<and> (case sdp_media_block_count ops sdp_text of Some n \<Rightarrow> n > 1 | None \<Rightarrow> False)
        then need BadSettings (sdp_normalise ops sdp_text) else give sdp_text) (\<lambda>sdp_for_sink.
     if \<not> g_write_sdp g sdp_for_sink then fail SdpFileUnwritable
     else
       bind_res (make_element g ''nvdsudpsink'' ''nmossink-nvdsudp''
           [(''host'', PStr (ul_destination_ip (um_primary media))),
            (''port'', PNum (uint (ul_destination_port (um_primary media)))), (''sdp-file'', PSdpFile sdp_for_sink)]) (\<lambda>sink.
       let iface_ips = (case um_secondary media of
             Some secondary \<Rightarrow> comma_separated_sender_interface_ips [um_primary media, secondary]
           | None \<Rightarrow> sender_interface_ip (um_primary media));
           sink1 = set_property_opt ''local-iface-ip'' (map_option PStr iface_ips) sink;
           sink2 = set_nvdsudp_ptp_src_from_sdp sdp_text (sender_interface_ip (um_primary media)) sink1;
           sink3 = sink_packet_properties pkt sink2
       in bind_res (wire g ''nmossink-nvdsudp'') (\<lambda>_.
          prepend_sink_capsfilter g (with_st2038_frame_alignment (um_caps media))
            \<lparr>ic_name = ''nmossink-nvdsudp'', ic_elements = [(TransportRole, sink3)]\<rparr>)))))"

definition build_nvdsudpsrc :: "gst_env \<Rightarrow> udp_media \<Rightarrow> string \<Rightarrow> inner_chain resolved" where
  "build_nvdsudpsrc g media sdp_text =
     bind_res (require_factory g ''nvdsudpsrc'') (\<lambda>_.
     let caps = with_st2038_frame_alignment (um_caps media)
     in bind_res (lift_packets (packetization_from_media (um_format media) caps (um_rtp_caps media))) (\<lambda>pkt.
        bind_res
          (make_element g ''nvdsudpsrc'' ''nmossrc-nvdsudp''
             ([(''caps'', PCaps caps), (''use-rtp-timestamp'', PBool True), (''adjust-leap-seconds'', PBool True)] @
              (case um_secondary media of
                 Some secondary \<Rightarrow> [(''st2022-7-streams'', PStr (host_port (um_primary media) @ '','' @ host_port secondary))]
               | None \<Rightarrow> [(''address'', PStr (ul_destination_ip (um_primary media))),
                   (''port'', PNum (uint (ul_destination_port (um_primary media))))]))) (\<lambda>src.
        let iface_ips = (case um_secondary media of
              Some secondary \<Rightarrow> comma_separated_receiver_interface_ips [um_primary media, secondary]
            | None \<Rightarrow> receiver_interface_ip (um_primary media));
            src1 = set_property_opt ''local-iface-ip'' (map_option PStr iface_ips) src;
            src2 = set_property_opt ''source-address'' (map_option PStr (comma_separated_source_ips (media_legs media))) src1;
            src3 = set_nvdsudp_ptp_src_from_sdp sdp_text (receiver_interface_ip (um_primary media)) src2
        in give \<lparr>ic_name = ''nmossrc-nvdsudp'', ic_elements = [(TransportRole, src_packet_properties pkt src3)]\<rparr>)))"

section \<open>Properties given by the application\<close>

definition apply_property :: "gst_env \<Rightarrow> string \<times> gvalue \<Rightarrow> element_desc \<Rightarrow> element_desc" where
  "apply_property g kv e =
     (case g_property g (ed_factory e) (fst kv) of
        None \<Rightarrow> e
      | Some _ \<Rightarrow>
          (case g_convert g (ed_factory e) (fst kv) (snd kv) of
             None \<Rightarrow> e
           | Some v \<Rightarrow> set_property (fst kv) v e))"

definition apply_properties_to_element :: "gst_env \<Rightarrow> gst_structure option \<Rightarrow> element_desc \<Rightarrow> element_desc" where
  "apply_properties_to_element g props e = (case props of None \<Rightarrow> e | Some st \<Rightarrow> fold (apply_property g) st e)"

definition apply_udp_inner_properties ::
  "gst_env \<Rightarrow> gst_structure option \<Rightarrow> gst_structure option \<Rightarrow> inner_chain \<Rightarrow> inner_chain" where
  "apply_udp_inner_properties g transport_properties pay_properties c =
     update_role PayRole (apply_properties_to_element g pay_properties)
       (update_role TransportRole (apply_properties_to_element g transport_properties) c)"

text \<open>The chains that have no payloader ignore the properties for one.\<close>

definition apply_transport_properties :: "gst_env \<Rightarrow> gst_structure option \<Rightarrow> inner_chain \<Rightarrow> inner_chain" where
  "apply_transport_properties g transport_properties c =
     update_role TransportRole (apply_properties_to_element g transport_properties) c"

definition property_u32 :: "element_desc \<Rightarrow> string \<Rightarrow> u32" where
  "property_u32 e name = (case get_property e name of Some (PNum n) \<Rightarrow> of_int n | _ \<Rightarrow> 0)"

definition reconcile_sink :: "gst_caps \<Rightarrow> element_desc \<Rightarrow> element_desc" where
  "reconcile_sink caps e =
     (case reconcile_sink_video_packetization caps (property_u32 e ''payload-size'') (property_u32 e ''packets-per-line'') of
        Inl _ \<Rightarrow> e
      | Inr (payload, ppl) \<Rightarrow>
          if payload = property_u32 e ''payload-size'' \<and> ppl = property_u32 e ''packets-per-line'' then e
          else set_property ''packets-per-line'' (pnum32 ppl) (set_property ''payload-size'' (pnum32 payload) e))"

definition apply_nvdsudp_sink_inner_properties ::
  "gst_env \<Rightarrow> udp_media \<Rightarrow> gst_structure option \<Rightarrow> inner_chain \<Rightarrow> inner_chain" where
  "apply_nvdsudp_sink_inner_properties g media transport_properties c =
     (let c1 = apply_transport_properties g transport_properties c
      in if um_format media = FmtVideo then update_role TransportRole (reconcile_sink (um_caps media)) c1 else c1)"

section \<open>The real chain of a sink\<close>

record app_properties =
  app_transport :: "gst_structure option"
  app_pay :: "gst_structure option"

definition set_if_present :: "gst_env \<Rightarrow> string \<Rightarrow> pvalue \<Rightarrow> element_desc \<Rightarrow> element_desc" where
  "set_if_present g name v e = (if g_property g (ed_factory e) name \<noteq> None then set_property name v e else e)"

definition put_flow_metadata :: "gst_env \<Rightarrow> flow_metadata \<Rightarrow> element_desc \<Rightarrow> element_desc" where
  "put_flow_metadata g m e =
     set_if_present g ''group-hint'' (PStr (md_group_hint m))
       (set_if_present g ''description'' (PStr (md_description m))
         (set_if_present g ''label'' (PStr (md_label m)) e))"

definition real_sink_chain ::
  "gst_env \<Rightarrow> host_env \<Rightarrow> app_properties \<Rightarrow> common_settings \<Rightarrow> transport_config \<Rightarrow> inner_chain resolved" where
  "real_sink_chain g env app cfg tc =
     (case tc of
        MxlConfig domain_path flow_id _ transport_file \<Rightarrow>
          bind_res (need InternalError transport_file) (\<lambda>t.
          bind_res (lift_flow (metadata_from_transport (he_from_str env) t)) (\<lambda>metadata.
          bind_res (caps_from_flow_def env (Some t)) (\<lambda>caps.
          bind_res (need InternalError caps) (\<lambda>caps.
          bind_res (build_mxlsink g domain_path flow_id (he_overlay_features env caps (cfg_caps cfg))) (\<lambda>c.
          give (apply_transport_properties g (app_transport app) (update_role TransportRole (put_flow_metadata g metadata) c)))))))
      | UdpConfig variant media _ \<Rightarrow>
          bind_res (build_udpsink g media variant) (\<lambda>c.
          give (apply_udp_inner_properties g (app_transport app) (app_pay app) c))
      | NvDsUdpConfig media transport_file \<Rightarrow>
          bind_res (build_nvdsudpsink g (he_sdp env) media (case transport_file of Some t \<Rightarrow> t | None \<Rightarrow> [])) (\<lambda>c.
          give (apply_nvdsudp_sink_inner_properties g media (app_transport app) c)))"

definition build_real_sink ::
  "gst_env \<Rightarrow> host_env \<Rightarrow> app_properties \<Rightarrow> common_settings \<Rightarrow> transport_config \<Rightarrow> inner_chain resolved" where
  "build_real_sink g env app cfg tc =
     bind_res (real_sink_chain g env app cfg tc) (\<lambda>c.
     give (update_role TransportRole (set_if_present g ''async'' (PBool False)) c))"

definition build_fake_sink_for_settings :: "gst_env \<Rightarrow> host_env \<Rightarrow> common_settings \<Rightarrow> inner_chain resolved" where
  "build_fake_sink_for_settings g env cfg =
     (case fake_caps_from_settings env cfg of
        None \<Rightarrow> None
      | Some (Inl _) \<Rightarrow> build_fake_sink g None
      | Some (Inr caps) \<Rightarrow> build_fake_sink g caps)"

definition intermediate_fake_sink_caps :: "host_env \<Rightarrow> common_settings \<Rightarrow> inner_config \<Rightarrow> gst_caps option resolved" where
  "intermediate_fake_sink_caps env cfg inner =
     (case inner of
        RealInner (UdpConfig _ media _) \<Rightarrow> give (Some (essence_caps_from (um_caps media) (Some (um_rtp_caps media))))
      | RealInner (NvDsUdpConfig media _) \<Rightarrow> give (Some (essence_caps_from (um_caps media) (Some (um_rtp_caps media))))
      | _ \<Rightarrow> fake_caps_from_settings env cfg)"

section \<open>The real chain of a source\<close>

definition mxl_indicates_unconstrained_receiver_caps :: "host_env \<Rightarrow> string \<Rightarrow> bool" where
  "mxl_indicates_unconstrained_receiver_caps env t =
     (case indicates_unconstrained_receiver_caps (he_from_str env) t of Inr b \<Rightarrow> b | Inl _ \<Rightarrow> False)"

definition mxl_capssetter_caps :: "host_env \<Rightarrow> string option \<Rightarrow> gst_caps option resolved" where
  "mxl_capssetter_caps env transport_file =
     (if (case transport_file of Some t \<Rightarrow> t \<noteq> [] \<and> mxl_indicates_unconstrained_receiver_caps env t | None \<Rightarrow> False)
      then give None else caps_from_flow_def env transport_file)"

definition udp_capssetter_caps :: "host_env \<Rightarrow> string option \<Rightarrow> udp_media \<Rightarrow> gst_caps option" where
  "udp_capssetter_caps env transport_file media =
     (if (case transport_file of Some t \<Rightarrow> t \<noteq> [] \<and> sdp_unconstrained (he_sdp env) t | None \<Rightarrow> False)
      then None else Some (um_caps media))"

definition build_real_src ::
  "gst_env \<Rightarrow> host_env \<Rightarrow> app_properties \<Rightarrow> transport_config \<Rightarrow> inner_chain resolved" where
  "build_real_src g env app tc =
     (case tc of
        MxlConfig domain_path flow_id fmt transport_file \<Rightarrow>
          bind_res (mxl_capssetter_caps env transport_file) (\<lambda>caps.
          bind_res (build_mxlsrc g domain_path flow_id fmt caps) (\<lambda>c.
          give (apply_transport_properties g (app_transport app) c)))
      | UdpConfig variant media transport_file \<Rightarrow>
          bind_res (build_udpsrc g media variant (udp_capssetter_caps env transport_file media)) (\<lambda>c.
          give (apply_udp_inner_properties g (app_transport app) (app_pay app) c))
      | NvDsUdpConfig media transport_file \<Rightarrow>
          bind_res (build_nvdsudpsrc g media (case transport_file of Some t \<Rightarrow> t | None \<Rightarrow> [])) (\<lambda>c.
          give (apply_transport_properties g (app_transport app) c)))"

definition build_fake_src_for_settings :: "gst_env \<Rightarrow> host_env \<Rightarrow> common_settings \<Rightarrow> inner_chain resolved" where
  "build_fake_src_for_settings g env cfg =
     (case fake_caps_from_settings env cfg of
        None \<Rightarrow> None
      | Some (Inl _) \<Rightarrow> build_fake_src g None
      | Some (Inr caps) \<Rightarrow> build_fake_src g caps)"

definition intermediate_fake_src_caps :: "host_env \<Rightarrow> common_settings \<Rightarrow> inner_config \<Rightarrow> gst_caps option resolved" where
  "intermediate_fake_src_caps env cfg inner =
     (case inner of
        RealInner (MxlConfig _ _ _ transport_file) \<Rightarrow> mxl_capssetter_caps env transport_file
      | RealInner (UdpConfig _ media transport_file) \<Rightarrow> give (udp_capssetter_caps env transport_file media)
      | RealInner (NvDsUdpConfig media _) \<Rightarrow> give (Some (um_caps media))
      | FakeInner _ \<Rightarrow> fake_caps_from_settings env cfg)"

section \<open>Names\<close>

lemma make_element_Inr [res_iff]:
  "make_element g f n ps = Some (Inr e) \<longleftrightarrow> g_make g f \<and> e = \<lparr>ed_factory = f, ed_name = n, ed_props = ps\<rparr>"
  "make_element g f n ps \<noteq> None"
  by (auto simp: make_element_def give_def fail_def)

lemma wire_Inr [res_iff]: "wire g n = Some (Inr u) \<longleftrightarrow> g_wire g n" "wire g n \<noteq> None"
  by (auto simp: wire_def give_def fail_def)

lemma require_factory_Inr [res_iff]: "require_factory g f = Some (Inr u) \<longleftrightarrow> g_find g f" "require_factory g f \<noteq> None"
  by (auto simp: require_factory_def give_def fail_def)

lemma lift_packets_Inr [res_iff]: "lift_packets r = Some (Inr a) \<longleftrightarrow> r = Inr a" "lift_packets r \<noteq> None"
  by (auto simp: lift_packets_def give_def fail_def split: sum.splits)

lemma prepend_Inr [res_iff]:
  "prepend_sink_capsfilter g caps c = Some (Inr c') \<longleftrightarrow> g_make g ''capsfilter'' \<and> g_wire g ''nmossink-caps'' \<and>
     c' = c\<lparr>ic_elements := (CapsRole, \<lparr>ed_factory = ''capsfilter'', ed_name = ''nmossink-caps'', ed_props = [(''caps'', PCaps caps)]\<rparr>)
       # ic_elements c\<rparr>"
  "prepend_sink_capsfilter g caps c \<noteq> None"
  by (auto simp: prepend_sink_capsfilter_def res_iff)

lemma ic_name_update_role [simp]: "ic_name (update_role r f c) = ic_name c"
  by (simp add: update_role_def)

lemma roles_update_role [simp]: "map fst (ic_elements (update_role r f c)) = map fst (ic_elements c)"
  by (simp add: update_role_def split_def comp_def)

lemma element_of_update_role [simp]:
  "element_of r (update_role q f c) = (if r = q then map_option f (element_of r c) else element_of r c)"
proof -
  have "map_of (map (\<lambda>(p, e). (p, if p = q then f e else e)) es) r =
      (if r = q then map_option f (map_of es r) else map_of es r)" for es
    by (induction es) auto
  then show ?thesis by (simp add: element_of_def update_role_def)
qed

lemmas appliers = apply_udp_inner_properties_def apply_transport_properties_def apply_nvdsudp_sink_inner_properties_def

text \<open>What a sequence of steps gives when it succeeds, by its last step.\<close>

definition yields :: "'a resolved \<Rightarrow> ('a \<Rightarrow> bool) \<Rightarrow> bool" where
  "yields m P \<longleftrightarrow> (\<forall>a. m = Some (Inr a) \<longrightarrow> P a)"

lemma yields_intros:
  "(\<And>b. step = Some (Inr b) \<Longrightarrow> yields (f b) P) \<Longrightarrow> yields (bind_res step f) P"
  "P a \<Longrightarrow> yields (give a) P"
  "yields (fail e) P"
  "(t \<Longrightarrow> yields m P) \<Longrightarrow> (\<not> t \<Longrightarrow> yields n P) \<Longrightarrow> yields (if t then m else n) P"
  "(x = None \<Longrightarrow> yields m P) \<Longrightarrow> (\<And>y. x = Some y \<Longrightarrow> yields (h y) P) \<Longrightarrow> yields (case x of None \<Rightarrow> m | Some y \<Rightarrow> h y) P"
  "(\<And>e. Q (c\<lparr>ic_elements := (CapsRole, e) # ic_elements c\<rparr>)) \<Longrightarrow> yields (prepend_sink_capsfilter g caps c) Q"
  by (auto simp: yields_def res_iff split: option.splits)

lemma yields_D: "yields m P \<Longrightarrow> m = Some (Inr a) \<Longrightarrow> P a"
  by (simp add: yields_def)

lemma build_mxlsink_yields: "yields (build_mxlsink g d i caps) (\<lambda>c. ic_name c = ''nmossink-mxl'')"
  unfolding build_mxlsink_def Let_def by (intro yields_intros) simp_all

lemma build_udpsink_yields: "yields (build_udpsink g media v) (\<lambda>c. ic_name c = ''nmossink-udp'')"
  unfolding build_udpsink_def Let_def by (intro yields_intros) simp_all

lemma build_udpsrc_yields: "yields (build_udpsrc g media v caps) (\<lambda>c. ic_name c = ''nmossrc-udp'')"
  unfolding build_udpsrc_def Let_def by (intro yields_intros) simp_all

lemma build_nvdsudpsink_yields: "yields (build_nvdsudpsink g ops media t) (\<lambda>c. ic_name c = ''nmossink-nvdsudp'')"
  unfolding build_nvdsudpsink_def Let_def by (intro yields_intros) simp_all

lemma build_nvdsudpsrc_yields: "yields (build_nvdsudpsrc g media t) (\<lambda>c. ic_name c = ''nmossrc-nvdsudp'')"
  unfolding build_nvdsudpsrc_def Let_def by (intro yields_intros) simp_all

lemma build_mxlsrc_yields: "yields (build_mxlsrc g d i fmt caps) (\<lambda>c. ic_name c \<in> {''nmossrc-mxl'', ''nmossrc-inner''})"
  unfolding build_mxlsrc_def Let_def by (intro yields_intros) simp_all

lemmas built_name = build_mxlsink_yields [THEN yields_D]
  build_udpsink_yields [THEN yields_D]
  build_udpsrc_yields [THEN yields_D]
  build_nvdsudpsink_yields [THEN yields_D]
  build_nvdsudpsrc_yields [THEN yields_D]
  build_mxlsrc_yields [THEN yields_D]

lemma fake_sink_name: "build_fake_sink g caps = Some (Inr c) \<Longrightarrow> ic_name c = ''nmossink-fake''"
  by (auto simp: build_fake_sink_def res_iff)

lemma fake_src_name: "build_fake_src g caps = Some (Inr c) \<Longrightarrow> ic_name c = ''nmossrc-fake''"
  by (auto simp: build_fake_src_def res_iff)

lemma fake_builders_total: "build_fake_sink g caps \<noteq> None" "build_fake_src g caps \<noteq> None"
  by (rule notI, auto simp: build_fake_sink_def build_fake_src_def res_iff split: option.splits)

lemma real_sink_name:
  assumes "build_real_sink g env app cfg tc = Some (Inr c)"
  shows "ic_name c \<in> {''nmossink-mxl'', ''nmossink-udp'', ''nmossink-nvdsudp''}"
  using assms
  by (cases tc)
    (auto simp: build_real_sink_def real_sink_chain_def appliers res_iff Let_def split: if_splits
      dest: built_name)

lemma real_src_name:
  assumes "build_real_src g env app tc = Some (Inr c)"
  shows "ic_name c \<in> {''nmossrc-mxl'', ''nmossrc-inner'', ''nmossrc-udp'', ''nmossrc-nvdsudp''}"
  using assms
  by (cases tc)
    (auto simp: build_real_src_def appliers res_iff dest: built_name)

section \<open>Properties of elements\<close>

lemma get_set_property [simp]:
  "get_property (set_property k v e) k' = (if k' = k then Some v else get_property e k')"
  "get_property (set_property_opt k w e) k' = (if k' = k \<and> w \<noteq> None then w else get_property e k')"
  "ed_factory (set_property k v e) = ed_factory e" "ed_factory (set_property_opt k w e) = ed_factory e"
  by (auto simp: get_property_def set_property_def set_property_opt_def update_conv' split: option.splits)

lemma get_property_made [simp]: "get_property \<lparr>ed_factory = f, ed_name = n, ed_props = ps\<rparr> k = map_of ps k"
  by (simp add: get_property_def)

lemma get_set_if_present [simp]:
  "get_property (set_if_present g k v e) k' =
     (if k' = k \<and> g_property g (ed_factory e) k \<noteq> None then Some v else get_property e k')"
  "ed_factory (set_if_present g k v e) = ed_factory e"
  by (auto simp: set_if_present_def)

lemma has_transport:
  "yields (build_mxlsink g d i caps) (\<lambda>c. element_of TransportRole c \<noteq> None)"
  unfolding build_mxlsink_def by (intro yields_intros) (simp add: element_of_def)

lemma udpsink_has_transport: "yields (build_udpsink g media v) (\<lambda>c. element_of TransportRole c \<noteq> None)"
  unfolding build_udpsink_def by (intro yields_intros) (simp_all add: element_of_def)

lemma nvdsudpsink_has_transport: "yields (build_nvdsudpsink g ops media t) (\<lambda>c. element_of TransportRole c \<noteq> None)"
  unfolding build_nvdsudpsink_def Let_def by (intro yields_intros) (simp_all add: element_of_def)

lemma real_sink_has_transport:
  "real_sink_chain g env app cfg tc = Some (Inr c) \<Longrightarrow> element_of TransportRole c \<noteq> None"
  by (cases tc)
    (auto simp: real_sink_chain_def appliers res_iff Let_def split: if_splits
      dest: has_transport [THEN yields_D] udpsink_has_transport [THEN yields_D] nvdsudpsink_has_transport [THEN yields_D])

text \<open>
  C28. The sink at the end of a chain never waits for its first buffer: it would do so while the
  anchor is blocked, for ever. Whatever properties the application gives, a sink that has the
  property \<^verbatim>\<open>async\<close> has it off, on a real chain as on a fake one.
\<close>

theorem sink_chains_never_async:
  assumes "build_real_sink g env app cfg tc = Some (Inr live)" "build_fake_sink g caps = Some (Inr fake)"
    and "c \<in> {live, fake}"
  shows "\<exists>e. element_of TransportRole c = Some e \<and>
    (g_property g (ed_factory e) ''async'' \<noteq> None \<longrightarrow> get_property e ''async'' = Some (PBool False))"
proof -
  obtain c0 where c0: "real_sink_chain g env app cfg tc = Some (Inr c0)"
      "live = update_role TransportRole (set_if_present g ''async'' (PBool False)) c0"
    using assms(1) by (auto simp: build_real_sink_def res_iff)
  obtain e where "element_of TransportRole c0 = Some e" using real_sink_has_transport [OF c0(1)] by auto
  then have "element_of TransportRole live = Some (set_if_present g ''async'' (PBool False) e)" using c0(2) by simp
  moreover have "\<exists>e. element_of TransportRole fake = Some e \<and> get_property e ''async'' = Some (PBool False)"
    using assms(2) by (auto simp: build_fake_sink_def res_iff element_of_def get_property_def split: option.splits)
  ultimately show ?thesis using assms(3) by auto
qed

text \<open>What a sender and a receiver of the same media do with it.\<close>

definition sends_media :: "udp_media \<Rightarrow> inner_chain \<Rightarrow> bool" where
  "sends_media media c \<longleftrightarrow>
     (\<exists>name st rest encoding stem pt pay sink.
        um_rtp_caps media = (name, st) # rest \<and> field_string st ''encoding-name'' = Some encoding \<and>
        rtp_stem (um_format media) encoding = Some stem \<and> field_int st ''payload'' = Some pt \<and> 0 \<le> pt \<and> pt \<le> 127 \<and>
        element_of PayRole c = Some pay \<and> ed_factory pay \<in> {stem @ ''pay'', stem @ ''pay2''} \<and>
        get_property pay ''pt'' = Some (PNum pt) \<and>
        element_of TransportRole c = Some sink \<and>
        get_property sink ''host'' = Some (PStr (ul_destination_ip (um_primary media))) \<and>
        get_property sink ''port'' = Some (PNum (uint (ul_destination_port (um_primary media)))))"

definition receives_media :: "udp_media \<Rightarrow> inner_chain \<Rightarrow> bool" where
  "receives_media media c \<longleftrightarrow>
     (\<exists>name st rest encoding stem depay src.
        um_rtp_caps media = (name, st) # rest \<and> field_string st ''encoding-name'' = Some encoding \<and>
        rtp_stem (um_format media) encoding = Some stem \<and>
        element_of PayRole c = Some depay \<and> ed_factory depay \<in> {stem @ ''depay'', stem @ ''depay2''} \<and>
        element_of TransportRole c = Some src \<and> get_property src ''caps'' = Some (PCaps (um_rtp_caps media)) \<and>
        get_property src ''address'' = Some (PStr (ul_destination_ip (um_primary media))) \<and>
        get_property src ''port'' = Some (PNum (uint (ul_destination_port (um_primary media)))))"

lemma select_rtp_factory_Inr:
  "select_rtp_factory g suffix fmt encoding v = Some (Inr f) \<Longrightarrow>
     \<exists>stem. rtp_stem fmt encoding = Some stem \<and> f \<in> {stem @ suffix, stem @ suffix @ ''2''} \<and> g_find g f"
  by (auto simp: select_rtp_factory_def res_iff Let_def split: if_splits udp_variant.splits)

lemma configured_properties:
  "ed_factory (configure_payloader g ptime e) = ed_factory e"
  "get_property (configure_payloader g ptime e) ''pt'' = get_property e ''pt''"
  "get_property (configure_udpsink g leg e) ''host'' = get_property e ''host''"
  "get_property (configure_udpsink g leg e) ''port'' = Some (PNum (uint (ul_destination_port leg)))"
  "get_property (configure_udpsrc g leg e) ''caps'' = get_property e ''caps''"
  "get_property (configure_udpsrc g leg e) ''address'' = get_property e ''address''"
  "get_property (configure_udpsrc g leg e) ''port'' = Some (PNum (uint (ul_destination_port leg)))"
  by (simp_all add: configure_payloader_def configure_udpsink_def configure_udpsrc_def Let_def
      split: option.splits ptype.splits)

lemma rtp_structure_Inr: "rtp_structure media = Some (Inr st) \<longleftrightarrow> (\<exists>name rest. um_rtp_caps media = (name, st) # rest)"
  by (auto simp: rtp_structure_def res_iff split: list.splits)

lemma build_udpsink_sends: "yields (build_udpsink g media v) (sends_media media)"
  unfolding build_udpsink_def
proof (intro yields_intros)
  fix st encoding pt ptime pf pay snk u e
  assume "rtp_structure media = Some (Inr st)" "need InternalError (field_string st ''encoding-name'') = Some (Inr encoding)"
    "need InternalError (field_int st ''payload'') = Some (Inr pt)" "\<not> \<not> (0 \<le> pt \<and> pt \<le> 127)"
    "select_rtp_factory g ''pay'' (um_format media) encoding v = Some (Inr pf)"
    "make_element g pf ''nmossink-payloader'' [(''pt'', PNum pt)] = Some (Inr pay)"
    "make_element g (select_udpsink_factory g v) ''nmossink-udpsink'' [(''host'', PStr (ul_destination_ip (um_primary media)))] = Some (Inr snk)"
  then show "sends_media media
      (\<lparr>ic_name = ''nmossink-udp'', ic_elements = [(PayRole, configure_payloader g ptime pay), (TransportRole, configure_udpsink g (um_primary media) snk)]\<rparr>
        \<lparr>ic_elements := (CapsRole, e) # ic_elements \<lparr>ic_name = ''nmossink-udp'',
           ic_elements = [(PayRole, configure_payloader g ptime pay), (TransportRole, configure_udpsink g (um_primary media) snk)]\<rparr>\<rparr>)"
    by (auto simp: sends_media_def res_iff rtp_structure_Inr element_of_def configured_properties
        dest!: select_rtp_factory_Inr)
qed

lemma build_udpsrc_receives: "yields (build_udpsrc g media v caps) (receives_media media)"
  unfolding build_udpsrc_def
proof (intro yields_intros)
  fix st encoding df depay src tail u
  assume "rtp_structure media = Some (Inr st)" "need InternalError (field_string st ''encoding-name'') = Some (Inr encoding)"
    "select_rtp_factory g ''depay'' (um_format media) encoding v = Some (Inr df)"
    "make_element g df ''nmossrc-depayloader'' [] = Some (Inr depay)"
    "make_element g (select_udpsrc_factory g v) ''nmossrc-udpsrc''
       [(''address'', PStr (ul_destination_ip (um_primary media))), (''caps'', PCaps (um_rtp_caps media))] = Some (Inr src)"
  then show "receives_media media \<lparr>ic_name = ''nmossrc-udp'',
      ic_elements = [(TransportRole, configure_udpsrc g (um_primary media) src), (PayRole, depay)] @ tail\<rparr>"
    by (auto simp: receives_media_def res_iff rtp_structure_Inr element_of_def configured_properties
        dest!: select_rtp_factory_Inr)
qed

text \<open>
  A sender and a receiver that are built from the same media, on hosts that may have different
  plugins, fit together: they send to and listen on the same address and port, the payloader and the
  depayloader are of the same encoding, and the payload type that is sent, within 0 to 127, is the
  one in the caps by which the receiver reads.
\<close>

theorem udp_chains_agree:
  assumes "build_udpsink g media v = Some (Inr sender)" "build_udpsrc g' media v' caps = Some (Inr receiver)"
  shows "\<exists>stem pay depay sink src name st rest pt.
    element_of PayRole sender = Some pay \<and> element_of PayRole receiver = Some depay \<and>
    ed_factory pay \<in> {stem @ ''pay'', stem @ ''pay2''} \<and> ed_factory depay \<in> {stem @ ''depay'', stem @ ''depay2''} \<and>
    element_of TransportRole sender = Some sink \<and> element_of TransportRole receiver = Some src \<and>
    get_property sink ''host'' = get_property src ''address'' \<and> get_property sink ''port'' = get_property src ''port'' \<and>
    get_property sink ''port'' = Some (PNum (uint (ul_destination_port (um_primary media)))) \<and>
    get_property src ''caps'' = Some (PCaps (um_rtp_caps media)) \<and> um_rtp_caps media = (name, st) # rest \<and> field_int st ''payload'' = Some pt \<and>
    get_property pay ''pt'' = Some (PNum pt) \<and> 0 \<le> pt \<and> pt \<le> 127"
proof -
  have "sends_media media sender" "receives_media media receiver"
    using assms build_udpsink_sends [THEN yields_D] build_udpsrc_receives [THEN yields_D] by blast+
  then show ?thesis unfolding sends_media_def receives_media_def by fastforce
qed

definition demo_rtp_media :: udp_media where
  "demo_rtp_media = \<lparr>um_format = FmtAudio,
     um_primary = \<lparr>ul_destination_ip = ''239.0.0.1'', ul_destination_port = 5004, ul_interface_ip = None,
       ul_source_ip = Some ''192.0.2.1'', ul_source_port = None\<rparr>,
     um_secondary = None,
     um_rtp_caps = [(''application/x-rtp'', [(''encoding-name'', GString (Some ''L24'')), (''payload'', GInt 97)])],
     um_caps = [(''audio/x-raw'', [])]\<rparr>"

definition demo_gst :: gst_env where
  "demo_gst = \<lparr>g_find = (\<lambda>f. f \<noteq> ''rtpL24depay2''), g_make = (\<lambda>_. True), g_wire = (\<lambda>_. True),
     g_property = (\<lambda>_ p. if p = ''async'' then Some TypeOther else if p = ''timestamp-offset'' then Some TypeU32 else None),
     g_convert = (\<lambda>_ _ _. Some (PBool True)), g_ifaddrs = None, g_parse_ip = Some, g_multicast = (\<lambda>_. True),
     g_write_sdp = (\<lambda>_. True)\<rparr>"

theorem udp_chains_agree_witness:
  "\<exists>sender receiver pay depay. build_udpsink demo_gst demo_rtp_media UdpV2 = Some (Inr sender) \<and>
    build_udpsrc demo_gst demo_rtp_media UdpV2 None = Some (Inr receiver) \<and>
    element_of PayRole sender = Some pay \<and> element_of PayRole receiver = Some depay \<and>
    ed_factory pay = ''rtpL24pay2'' \<and> ed_factory depay = ''rtpL24depay'' \<and> get_property pay ''pt'' = Some (PNum 97)"
proof -
  have stem: "rtp_stem FmtAudio ''L24'' = Some ''rtpL24''" by code_simp
  have "build_udpsink demo_gst demo_rtp_media UdpV2 \<noteq> None"
      "\<exists>c. build_udpsink demo_gst demo_rtp_media UdpV2 = Some (Inr c) \<and> map_option ed_factory (element_of PayRole c) = Some ''rtpL24pay2''"
    using stem
    by (simp_all add: build_udpsink_def demo_rtp_media_def demo_gst_def rtp_structure_def field_string_def field_int_def
        i32_range_def need_def give_def bind_res_def pay_ptime_ns_def select_rtp_factory_def make_element_def wire_def
        prepend_sink_capsfilter_def element_of_def configured_properties)
  then obtain sender where s: "build_udpsink demo_gst demo_rtp_media UdpV2 = Some (Inr sender)"
      "map_option ed_factory (element_of PayRole sender) = Some ''rtpL24pay2''" by blast
  have "\<exists>c. build_udpsrc demo_gst demo_rtp_media UdpV2 None = Some (Inr c) \<and> map_option ed_factory (element_of PayRole c) = Some ''rtpL24depay''"
    using stem
    by (simp add: build_udpsrc_def demo_rtp_media_def demo_gst_def rtp_structure_def field_string_def
        need_def give_def bind_res_def select_rtp_factory_def make_element_def wire_def
        select_udp_src_capssetter_caps_def element_of_def)
  then obtain receiver where r: "build_udpsrc demo_gst demo_rtp_media UdpV2 None = Some (Inr receiver)"
      "map_option ed_factory (element_of PayRole receiver) = Some ''rtpL24depay''" by blast
  obtain pay depay name st rest pt where "element_of PayRole sender = Some pay" "element_of PayRole receiver = Some depay"
      "um_rtp_caps demo_rtp_media = (name, st) # rest" "field_int st ''payload'' = Some pt" "get_property pay ''pt'' = Some (PNum pt)"
    using udp_chains_agree [OF s(1) r(1)] by blast
  with s r show ?thesis by (auto simp: demo_rtp_media_def field_int_def i32_range_def)
qed

theorem sink_chains_never_async_witness:
  "\<exists>live fake e. build_real_sink demo_gst demo_host \<lparr>app_transport = Some [(''async'', GOther)], app_pay = None\<rparr> demo_cfg
      (UdpConfig UdpV1 demo_rtp_media None) = Some (Inr live) \<and>
    build_fake_sink demo_gst None = Some (Inr fake) \<and> element_of TransportRole live = Some e \<and>
    get_property e ''async'' = Some (PBool False)"
proof -
  let ?app = "\<lparr>app_transport = Some [(''async'', GOther)], app_pay = None\<rparr>" and ?tc = "UdpConfig UdpV1 demo_rtp_media None"
  have stem: "rtp_stem FmtAudio ''L24'' = Some ''rtpL24''" by code_simp
  have "\<exists>c. build_udpsink demo_gst demo_rtp_media UdpV1 = Some (Inr c)"
    using stem
    by (simp add: build_udpsink_def demo_rtp_media_def demo_gst_def rtp_structure_def field_string_def field_int_def
        i32_range_def need_def give_def bind_res_def pay_ptime_ns_def select_rtp_factory_def make_element_def wire_def
        prepend_sink_capsfilter_def)
  then obtain live where live: "build_real_sink demo_gst demo_host ?app demo_cfg ?tc = Some (Inr live)"
    by (auto simp: build_real_sink_def real_sink_chain_def bind_res_def give_def)
  obtain fake where fake: "build_fake_sink demo_gst None = Some (Inr fake)"
    by (auto simp: build_fake_sink_def demo_gst_def make_element_def wire_def bind_res_def give_def)
  have "\<exists>e. element_of TransportRole live = Some e \<and> get_property e ''async'' = Some (PBool False)"
    using sink_chains_never_async [OF live fake, of live] by (auto simp: demo_gst_def)
  then show ?thesis using live fake by blast
qed

end
