(* ===== verification/Gst_Inner.thy ===== *)
theory Gst_Inner
  imports Gst_Prelude
begin

text \<open>
  The chain behind the anchor of an element (\<^verbatim>\<open>inner.rs\<close>): swapping it while data may flow.

  A bin has a permanent anchor, the chains that are its children, and at most one chain linked to
  the anchor. Calls of GStreamer that can fail are the operations below; \<open>gst\<close> says from what was
  done before whether one succeeds, so every pattern of failures is covered. What is assumed of
  GStreamer: a call that fails changes neither the children nor the link, removing a chain from its
  bin unlinks it, and the probe that blocks the anchor is removed when asked. The checks that the
  ghost pad has the anchor as its target are left out: it is set once, by \<^verbatim>\<open>build_initial\<close>, and
  never changed. Waiting is part of an operation: one that takes too long fails.
\<close>

section \<open>The bin\<close>

datatype direction = SinkDir | SrcDir

record chain =
  ch_id :: nat
  ch_name :: string

datatype gst_op =
    Unlink chain
  | Stop chain
  | Remove chain
  | Add chain
  | Link chain
  | ReadyUp chain
  | Advance chain
  | Block
  | Unblock
  | FlushDownstream
  | ReleaseWait chain

record gst_bin =
  gb_children :: "chain list"
  gb_peer :: "chain option"
  gb_blocked :: bool
  gb_log :: "(gst_op \<times> bool) list"

type_synonym gst_fate = "(gst_op \<times> bool) list \<Rightarrow> gst_op \<Rightarrow> bool"

fun op_effect :: "gst_op \<Rightarrow> gst_bin \<Rightarrow> gst_bin" where
  "op_effect (Unlink c) b = (if gb_peer b = Some c then b\<lparr>gb_peer := None\<rparr> else b)"
| "op_effect (Remove c) b =
     b\<lparr>gb_children := removeAll c (gb_children b), gb_peer := (if gb_peer b = Some c then None else gb_peer b)\<rparr>"
| "op_effect (Add c) b = b\<lparr>gb_children := gb_children b @ [c]\<rparr>"
| "op_effect (Link c) b = b\<lparr>gb_peer := Some c\<rparr>"
| "op_effect Block b = b\<lparr>gb_blocked := True\<rparr>"
| "op_effect Unblock b = b\<lparr>gb_blocked := False\<rparr>"
| "op_effect _ b = b"

definition attempt :: "gst_fate \<Rightarrow> gst_op \<Rightarrow> gst_bin \<Rightarrow> bool \<times> gst_bin" where
  "attempt gst x b =
     (let ok = gst (gb_log b) x;
          b1 = b\<lparr>gb_log := gb_log b @ [(x, ok)]\<rparr>
      in (ok, if ok then op_effect x b1 else b1))"

text \<open>An operation whose result is ignored, and one that cannot fail.\<close>

definition try_op :: "gst_fate \<Rightarrow> gst_op \<Rightarrow> gst_bin \<Rightarrow> gst_bin" where
  "try_op gst x b = snd (attempt gst x b)"

definition do_op :: "gst_op \<Rightarrow> gst_bin \<Rightarrow> gst_bin" where
  "do_op x b = op_effect x (b\<lparr>gb_log := gb_log b @ [(x, True)]\<rparr>)"

definition ends_with :: "string \<Rightarrow> string \<Rightarrow> bool" where
  "ends_with s suf \<longleftrightarrow> length suf \<le> length s \<and> drop (length s - length suf) s = suf"

definition chain_is_fake :: "chain \<Rightarrow> bool" where
  "chain_is_fake c \<longleftrightarrow> ends_with (ch_name c) ''-fake''"

definition current_chain_is_real :: "gst_bin \<Rightarrow> bool" where
  "current_chain_is_real b \<longleftrightarrow> (case gb_peer b of Some c \<Rightarrow> \<not> chain_is_fake c | None \<Rightarrow> False)"

section \<open>Installing and replacing a chain\<close>

datatype state_sync = SyncDone | AfterUnblock

text \<open>\<open>has_pad\<close> says whether a chain has the pad that the anchor links to.\<close>

definition install_new_chain ::
  "gst_fate \<Rightarrow> (chain \<Rightarrow> bool) \<Rightarrow> direction \<Rightarrow> chain \<Rightarrow> gst_bin \<Rightarrow> state_sync option \<times> gst_bin" where
  "install_new_chain gst has_pad dir c b =
     (case attempt gst (Add c) b of
        (False, b1) \<Rightarrow> (None, b1)
      | (True, b1) \<Rightarrow>
          if \<not> has_pad c then (None, b1)
          else
            (case attempt gst (Link c) b1 of
               (False, b2) \<Rightarrow> (None, try_op gst (Remove c) (try_op gst (Stop c) b2))
             | (True, b2) \<Rightarrow>
                 (case dir of
                    SrcDir \<Rightarrow>
                      (case attempt gst (ReadyUp c) b2 of
                         (False, b3) \<Rightarrow> (None, b3)
                       | (True, b3) \<Rightarrow> (Some AfterUnblock, b3))
                  | SinkDir \<Rightarrow>
                      (case attempt gst (Advance c) b2 of
                         (False, b3) \<Rightarrow> (None, b3)
                       | (True, b3) \<Rightarrow> (Some SyncDone, b3)))))"

definition link_fallback_sink ::
  "gst_fate \<Rightarrow> (chain \<Rightarrow> bool) \<Rightarrow> chain \<Rightarrow> chain \<Rightarrow> gst_bin \<Rightarrow> gst_bin" where
  "link_fallback_sink gst has_pad failed fallback b =
     (let b1 = (if has_pad failed then try_op gst (Unlink failed) b else b);
          b2 = try_op gst (Stop failed) b1;
          (removed, b3) = (if failed \<in> set (gb_children b2) then attempt gst (Remove failed) b2 else (True, b2))
      in if \<not> removed then b3
         else
           (case attempt gst (Add fallback) b3 of
              (False, b4) \<Rightarrow> b4
            | (True, b4) \<Rightarrow>
                if \<not> has_pad fallback then try_op gst (Remove fallback) b4
                else
                  (case attempt gst (Link fallback) b4 of
                     (False, b5) \<Rightarrow> try_op gst (Remove fallback) (try_op gst (Stop fallback) b5)
                   | (True, b5) \<Rightarrow>
                       (case attempt gst (Advance fallback) b5 of
                          (False, b6) \<Rightarrow> try_op gst (Remove fallback) (try_op gst (Stop fallback) b6)
                        | (True, b6) \<Rightarrow> b6))))"

text \<open>The old chain is unlinked, stopped and removed; a failure leaves it at that.\<close>

definition remove_old_chain :: "gst_fate \<Rightarrow> gst_bin \<Rightarrow> bool \<times> gst_bin" where
  "remove_old_chain gst b =
     (case gb_peer b of
        None \<Rightarrow> (True, b)
      | Some old \<Rightarrow>
          (case attempt gst (Unlink old) b of
             (False, b1) \<Rightarrow> (False, b1)
           | (True, b1) \<Rightarrow>
               (case attempt gst (Stop old) b1 of
                  (False, b2) \<Rightarrow> (False, b2)
                | (True, b2) \<Rightarrow> attempt gst (Remove old) b2)))"

text \<open>
  \<open>fallback\<close> is \<open>None\<close> when there is none, and \<open>Some None\<close> when building it fails.
\<close>

definition swap_chain_inner ::
  "gst_fate \<Rightarrow> (chain \<Rightarrow> bool) \<Rightarrow> direction \<Rightarrow> chain \<Rightarrow> chain option option \<Rightarrow> gst_bin
    \<Rightarrow> state_sync option \<times> gst_bin" where
  "swap_chain_inner gst has_pad dir c fallback b =
     (case remove_old_chain gst b of
        (False, b1) \<Rightarrow> (None, b1)
      | (True, b1) \<Rightarrow>
          (case install_new_chain gst has_pad dir c b1 of
             (Some sync, b2) \<Rightarrow> (Some sync, b2)
           | (None, b2) \<Rightarrow>
               (None,
                case (dir, fallback) of
                  (SinkDir, Some (Some f)) \<Rightarrow> link_fallback_sink gst has_pad c f b2
                | _ \<Rightarrow> b2)))"

definition release_fake_wait :: "gst_bin \<Rightarrow> gst_bin" where
  "release_fake_wait b =
     (case gb_peer b of
        Some old \<Rightarrow> if chain_is_fake old then do_op (ReleaseWait old) b else b
      | None \<Rightarrow> b)"

text \<open>A source is stopped before the anchor is blocked.\<close>

definition stop_source_first :: "gst_fate \<Rightarrow> direction \<Rightarrow> gst_bin \<Rightarrow> bool \<times> gst_bin" where
  "stop_source_first gst dir b =
     (case (dir, gb_peer b) of
        (SrcDir, Some old) \<Rightarrow> attempt gst (Stop old) b
      | _ \<Rightarrow> (True, b))"

definition rebuild_chain_with_opts ::
  "gst_fate \<Rightarrow> (chain \<Rightarrow> bool) \<Rightarrow> direction \<Rightarrow> chain \<Rightarrow> bool \<Rightarrow> chain option option \<Rightarrow> gst_bin \<Rightarrow> bool \<times> gst_bin" where
  "rebuild_chain_with_opts gst has_pad dir c drain_downstream fallback b =
     (let b0 = release_fake_wait (if drain_downstream \<and> dir = SrcDir then do_op FlushDownstream b else b)
      in case stop_source_first gst dir b0 of
           (False, b1) \<Rightarrow> (False, b1)
         | (True, b1) \<Rightarrow>
             (case attempt gst Block b1 of
                (False, b2) \<Rightarrow> (False, b2)
              | (True, b2) \<Rightarrow>
                  (case swap_chain_inner gst has_pad dir c fallback b2 of (result, b3) \<Rightarrow>
                     let b4 = do_op Unblock b3
                     in case result of
                          None \<Rightarrow> (False, b4)
                        | Some SyncDone \<Rightarrow> (True, b4)
                        | Some AfterUnblock \<Rightarrow> attempt gst (Advance c) b4)))"

definition build_initial :: "chain \<Rightarrow> gst_bin" where
  "build_initial fake = \<lparr>gb_children = [fake], gb_peer = Some fake, gb_blocked = False, gb_log = []\<rparr>"

section \<open>What a rebuild does\<close>

text \<open>The operations that a piece of code did, and that it leaves the probe alone.\<close>

definition did :: "gst_bin \<Rightarrow> gst_bin \<Rightarrow> (gst_op \<times> bool) list \<Rightarrow> bool" where
  "did b b' l \<longleftrightarrow> gb_log b' = gb_log b @ l \<and> gb_blocked b' = gb_blocked b"

definition all_ok :: "(gst_op \<times> bool) list \<Rightarrow> bool" where
  "all_ok l \<longleftrightarrow> (\<forall>e \<in> set l. snd e)"

lemma did_refl [simp]: "did b b []"
  by (simp add: did_def)

lemma did_trans: "did b b1 l \<Longrightarrow> did b1 b2 m \<Longrightarrow> did b b2 (l @ m)"
  by (simp add: did_def)

lemma all_ok_simps [simp]: "all_ok []" "all_ok (e # l) \<longleftrightarrow> snd e \<and> all_ok l" "all_ok (l @ m) \<longleftrightarrow> all_ok l \<and> all_ok m"
  by (auto simp: all_ok_def)

definition topology_op :: "gst_op \<Rightarrow> bool" where
  "topology_op x \<longleftrightarrow> (case x of Unlink _ \<Rightarrow> True | Stop _ \<Rightarrow> True | Remove _ \<Rightarrow> True | Add _ \<Rightarrow> True
     | Link _ \<Rightarrow> True | ReadyUp _ \<Rightarrow> True | Advance _ \<Rightarrow> True | _ \<Rightarrow> False)"

definition bin_ok :: "gst_bin \<Rightarrow> bool" where
  "bin_ok b \<longleftrightarrow> distinct (gb_children b) \<and> (\<forall>c. gb_peer b = Some c \<longrightarrow> c \<in> set (gb_children b))"

lemma install_new_chain_spec:
  assumes "install_new_chain gst has_pad dir c b = (r, b')" "bin_ok b" "gb_peer b = None" "c \<notin> set (gb_children b)"
  shows "bin_ok b' \<and> set (gb_children b') \<subseteq> insert c (set (gb_children b)) \<and>
    set (gb_children b) \<subseteq> set (gb_children b') \<and>
    (gb_peer b' = None \<or> gb_peer b' = Some c) \<and>
    (r \<noteq> None \<longrightarrow> gb_peer b' = Some c \<and> gb_children b' = gb_children b @ [c] \<and>
      r = Some (case dir of SrcDir \<Rightarrow> AfterUnblock | SinkDir \<Rightarrow> SyncDone)) \<and>
    (\<exists>l. did b b' l \<and> (r \<noteq> None \<longleftrightarrow> has_pad c \<and> all_ok l) \<and>
      (\<forall>e \<in> set l. fst e \<in> {Add c, Link c, Stop c, Remove c} \<union> (case dir of SrcDir \<Rightarrow> {ReadyUp c} | SinkDir \<Rightarrow> {Advance c})))"
  using assms
  by (auto simp: install_new_chain_def attempt_def try_op_def Let_def did_def bin_ok_def
      split: if_splits direction.splits)

lemma remove_old_chain_spec:
  assumes "remove_old_chain gst b = (ok, b')" "bin_ok b"
  shows "bin_ok b' \<and> set (gb_children b') \<subseteq> set (gb_children b) \<and>
    (gb_peer b' = None \<or> gb_peer b' = gb_peer b \<and> gb_children b' = gb_children b) \<and>
    (ok \<longrightarrow> gb_peer b' = None \<and> set (gb_children b') = set (gb_children b) - set_option (gb_peer b)) \<and>
    (\<exists>l. did b b' l \<and> (ok \<longleftrightarrow> all_ok l) \<and>
      (\<forall>e \<in> set l. \<exists>old. gb_peer b = Some old \<and> fst e \<in> {Unlink old, Stop old, Remove old}))"
  using assms
  by (auto simp: remove_old_chain_def attempt_def Let_def did_def bin_ok_def distinct_removeAll split: option.splits if_splits)

text \<open>One step of \<open>link_fallback_sink\<close>: making sure that the failed chain is gone.\<close>

lemma drop_failed_spec:
  assumes "b2 = try_op gst (Stop failed) (if has_pad failed then try_op gst (Unlink failed) b else b)"
    and "(removed, b3) = (if failed \<in> set (gb_children b2) then attempt gst (Remove failed) b2 else (True, b2))"
    and "bin_ok b" "gb_peer b = None \<or> gb_peer b = Some failed"
  shows "bin_ok b3 \<and> (if removed then gb_peer b3 = None \<and> set (gb_children b3) = set (gb_children b) - {failed}
      else (gb_peer b3 = None \<or> gb_peer b3 = Some failed) \<and> gb_children b3 = gb_children b) \<and>
    (\<exists>l. did b b3 l \<and> (\<not> removed \<longrightarrow> (Remove failed, False) \<in> set l) \<and>
      (\<forall>e \<in> set l. fst e \<in> {Unlink failed, Stop failed, Remove failed}))"
  using assms by (auto simp: attempt_def try_op_def Let_def did_def bin_ok_def distinct_removeAll split: if_splits)

lemma add_fallback_spec:
  assumes "b' = (case attempt gst (Add f) b of
      (False, b4) \<Rightarrow> b4
    | (True, b4) \<Rightarrow>
        if \<not> has_pad f then try_op gst (Remove f) b4
        else
          (case attempt gst (Link f) b4 of
             (False, b5) \<Rightarrow> try_op gst (Remove f) (try_op gst (Stop f) b5)
           | (True, b5) \<Rightarrow>
               (case attempt gst (Advance f) b5 of
                  (False, b6) \<Rightarrow> try_op gst (Remove f) (try_op gst (Stop f) b6)
                | (True, b6) \<Rightarrow> b6)))"
    and "bin_ok b" "gb_peer b = None" "f \<notin> set (gb_children b)"
  shows "bin_ok b' \<and> (gb_peer b' = None \<or> gb_peer b' = Some f) \<and>
    set (gb_children b') \<subseteq> insert f (set (gb_children b)) \<and> set (gb_children b) \<subseteq> set (gb_children b') \<and>
    (\<exists>l. did b b' l \<and> (has_pad f \<and> all_ok l \<longrightarrow> gb_peer b' = Some f) \<and>
      (\<forall>e \<in> set l. fst e \<in> {Add f, Link f, Advance f, Stop f, Remove f}))"
  using assms by (auto simp: attempt_def try_op_def Let_def did_def bin_ok_def split: if_splits)

lemma link_fallback_sink_spec:
  assumes "bin_ok b" "gb_peer b = None \<or> gb_peer b = Some c" "f \<notin> set (gb_children b)"
    and b'_def: "b' = link_fallback_sink gst has_pad c f b"
  shows "bin_ok b' \<and> set (gb_children b') \<subseteq> insert f (set (gb_children b)) \<and>
    gb_peer b' \<in> {None, Some c, Some f} \<and>
    (\<exists>l. did b b' l \<and> (gb_peer b' = Some c \<and> c \<noteq> f \<longrightarrow> (Remove c, False) \<in> set l) \<and>
      (\<forall>e \<in> set l. fst e \<in> {Unlink c, Stop c, Remove c, Add f, Link f, Advance f, Stop f, Remove f}))"
proof -
  define b2 where "b2 = try_op gst (Stop c) (if has_pad c then try_op gst (Unlink c) b else b)"
  obtain removed b3 where b3: "(removed, b3) = (if c \<in> set (gb_children b2) then attempt gst (Remove c) b2 else (True, b2))"
    by (metis surj_pair)
  note dropped = drop_failed_spec [where has_pad = has_pad and gst = gst, OF b2_def b3 assms(1,2)]
  then obtain l where l: "did b b3 l" "\<not> removed \<longrightarrow> (Remove c, False) \<in> set l"
      "\<forall>e \<in> set l. fst e \<in> {Unlink c, Stop c, Remove c}" by blast
  show ?thesis
  proof (cases removed)
    case False
    then have "b' = b3" unfolding b'_def link_fallback_sink_def Let_def b2_def [symmetric] b3 [symmetric] by simp
    with dropped l False show ?thesis by auto
  next
    case True
    define b4 where "b4 = (case attempt gst (Add f) b3 of
        (False, b4) \<Rightarrow> b4
      | (True, b4) \<Rightarrow>
          if \<not> has_pad f then try_op gst (Remove f) b4
          else
            (case attempt gst (Link f) b4 of
               (False, b5) \<Rightarrow> try_op gst (Remove f) (try_op gst (Stop f) b5)
             | (True, b5) \<Rightarrow>
                 (case attempt gst (Advance f) b5 of
                    (False, b6) \<Rightarrow> try_op gst (Remove f) (try_op gst (Stop f) b6)
                  | (True, b6) \<Rightarrow> b6)))"
    have b': "b' = b4"
      using True unfolding b'_def link_fallback_sink_def Let_def b2_def [symmetric] b3 [symmetric] b4_def by simp
    have "bin_ok b3" "gb_peer b3 = None" "f \<notin> set (gb_children b3)" using dropped True assms(3) by auto
    note added = add_fallback_spec [where has_pad = has_pad and gst = gst, OF b4_def this]
    then obtain m where m: "did b3 b4 m" "\<forall>e \<in> set m. fst e \<in> {Add f, Link f, Advance f, Stop f, Remove f}" by blast
    have "\<forall>e \<in> set (l @ m). fst e \<in> {Unlink c, Stop c, Remove c, Add f, Link f, Advance f, Stop f, Remove f}"
      using l(3) m(2) by auto
    moreover have "gb_peer b' = None \<or> gb_peer b' = Some f" "bin_ok b'" using added b' by auto
    moreover have "set (gb_children b') \<subseteq> insert f (set (gb_children b))" using added b' dropped True by auto
    ultimately show ?thesis using did_trans [OF l(1) m(1)] b' by (intro conjI exI [of _ "l @ m"]) auto
  qed
qed

definition fallback_chain :: "chain option option \<Rightarrow> chain option" where
  "fallback_chain fallback = (case fallback of Some f \<Rightarrow> f | None \<Rightarrow> None)"

definition fresh_chains :: "chain \<Rightarrow> chain option option \<Rightarrow> gst_bin \<Rightarrow> bool" where
  "fresh_chains c fallback b \<longleftrightarrow> c \<notin> set (gb_children b) \<and>
     (\<forall>f. fallback_chain fallback = Some f \<longrightarrow> f \<notin> set (gb_children b) \<and> f \<noteq> c)"

lemma swap_chain_inner_spec:
  assumes swap: "swap_chain_inner gst has_pad dir c fallback b = (r, b')"
    and b: "bin_ok b" and fresh: "fresh_chains c fallback b"
  shows "bin_ok b' \<and> set (gb_children b') \<subseteq> set (gb_children b) \<union> {c} \<union> set_option (fallback_chain fallback) \<and>
    (r \<noteq> None \<longrightarrow> gb_peer b' = Some c \<and> set (gb_children b') = insert c (set (gb_children b) - set_option (gb_peer b)) \<and>
      r = Some (case dir of SrcDir \<Rightarrow> AfterUnblock | SinkDir \<Rightarrow> SyncDone)) \<and>
    (r = None \<longrightarrow> gb_peer b' = None \<or> gb_peer b' = Some c \<or> gb_peer b' = fallback_chain fallback \<or>
      gb_peer b' = gb_peer b \<and> gb_children b' = gb_children b) \<and>
    (\<exists>l. did b b' l \<and> (r \<noteq> None \<longleftrightarrow> has_pad c \<and> all_ok l) \<and>
      (\<forall>e \<in> set l. topology_op (fst e) \<and> (dir = SrcDir \<longrightarrow> (\<forall>x. fst e \<noteq> Advance x))) \<and>
      (r = None \<and> dir = SinkDir \<and> fallback_chain fallback \<noteq> None \<and> gb_peer b' = Some c \<longrightarrow> (Remove c, False) \<in> set l))"
proof -
  obtain ok b1 where old: "remove_old_chain gst b = (ok, b1)" by fastforce
  note removed = remove_old_chain_spec [OF old b]
  then obtain l where l: "did b b1 l" "ok \<longleftrightarrow> all_ok l"
      "\<forall>e \<in> set l. \<exists>old. gb_peer b = Some old \<and> fst e \<in> {Unlink old, Stop old, Remove old}" by blast
  have l_ops: "\<forall>e \<in> set l. topology_op (fst e) \<and> (\<forall>x. fst e \<noteq> Advance x)" using l(3) by (auto simp: topology_op_def)
  show ?thesis
  proof (cases ok)
    case False
    then have "r = None" "b' = b1" using swap old by (simp_all add: swap_chain_inner_def)
    moreover have "gb_peer b1 \<noteq> Some c" using removed b fresh by (auto simp: bin_ok_def fresh_chains_def)
    ultimately show ?thesis using removed l l_ops False by (intro conjI exI [of _ l]) auto
  next
    case True
    obtain s b2 where install: "install_new_chain gst has_pad dir c b1 = (s, b2)" by fastforce
    have pre: "bin_ok b1" "gb_peer b1 = None" "c \<notin> set (gb_children b1)"
      using removed True fresh by (auto simp: fresh_chains_def)
    note installed = install_new_chain_spec [OF install pre]
    then obtain m where m: "did b1 b2 m" "s \<noteq> None \<longleftrightarrow> has_pad c \<and> all_ok m"
        "\<forall>e \<in> set m. fst e \<in> {Add c, Link c, Stop c, Remove c} \<union> (case dir of SrcDir \<Rightarrow> {ReadyUp c} | SinkDir \<Rightarrow> {Advance c})"
      by blast
    have m_ops: "\<forall>e \<in> set m. topology_op (fst e) \<and> (dir = SrcDir \<longrightarrow> (\<forall>x. fst e \<noteq> Advance x))"
      using m(3) by (cases dir) (auto simp: topology_op_def)
    have lm: "did b b2 (l @ m)" using did_trans [OF l(1) m(1)] .
    show ?thesis
    proof (cases "s = None \<and> dir = SinkDir \<and> fallback_chain fallback \<noteq> None")
      case False
      then have "r = s" "b' = b2"
        using swap old True install
        by (auto simp: swap_chain_inner_def fallback_chain_def split: option.splits direction.splits)
      moreover have "gb_peer b2 = None \<or> gb_peer b2 = Some c" "bin_ok b2"
          "set (gb_children b2) \<subseteq> set (gb_children b) \<union> {c} \<union> set_option (fallback_chain fallback)"
        using installed removed by auto
      moreover have "gb_peer b2 = Some c \<and> set (gb_children b2) = insert c (set (gb_children b) - set_option (gb_peer b)) \<and>
          s = Some (case dir of SrcDir \<Rightarrow> AfterUnblock | SinkDir \<Rightarrow> SyncDone)" if "s \<noteq> None"
        using that installed removed True by auto
      moreover have "s \<noteq> None \<longleftrightarrow> has_pad c \<and> all_ok (l @ m)" using l(2) m(2) True by simp
      moreover have "\<forall>e \<in> set (l @ m). topology_op (fst e) \<and> (dir = SrcDir \<longrightarrow> (\<forall>x. fst e \<noteq> Advance x))"
        using l_ops m_ops by auto
      ultimately show ?thesis using lm False by (intro conjI exI [of _ "l @ m"]) (simp_all, blast, auto)
    next
      case fb: True
      then obtain f where f: "fallback = Some (Some f)" by (auto simp: fallback_chain_def split: option.splits)
      have r: "r = None" and b': "b' = link_fallback_sink gst has_pad c f b2"
        using swap old True install fb f by (auto simp: swap_chain_inner_def)
      have "f \<notin> set (gb_children b2)" "f \<noteq> c"
        using installed removed fresh f by (auto simp: fresh_chains_def fallback_chain_def)
      then have linked: "bin_ok b' \<and> set (gb_children b') \<subseteq> insert f (set (gb_children b2)) \<and>
          gb_peer b' \<in> {None, Some c, Some f}"
        and "\<exists>k. did b2 b' k \<and> (gb_peer b' = Some c \<longrightarrow> (Remove c, False) \<in> set k) \<and>
          (\<forall>e \<in> set k. fst e \<in> {Unlink c, Stop c, Remove c, Add f, Link f, Advance f, Stop f, Remove f})"
        using link_fallback_sink_spec [OF _ _ _ b'] installed by auto
      then obtain k where k: "did b2 b' k" "gb_peer b' = Some c \<longrightarrow> (Remove c, False) \<in> set k"
          "\<forall>e \<in> set k. fst e \<in> {Unlink c, Stop c, Remove c, Add f, Link f, Advance f, Stop f, Remove f}" by blast
      have "\<forall>e \<in> set k. topology_op (fst e)" using k(3) by (auto simp: topology_op_def)
      then have "\<forall>e \<in> set (l @ m @ k). topology_op (fst e) \<and> (dir = SrcDir \<longrightarrow> (\<forall>x. fst e \<noteq> Advance x))"
        using l_ops m_ops fb by auto
      moreover have "did b b' (l @ m @ k)" using did_trans [OF lm k(1)] by simp
      moreover have "set (gb_children b') \<subseteq> set (gb_children b) \<union> {c} \<union> {f}"
        using linked installed removed by auto
      moreover have "\<not> (has_pad c \<and> all_ok (l @ m @ k))" using m(2) fb by auto
      moreover have "gb_peer b' = Some c \<longrightarrow> (Remove c, False) \<in> set (l @ m @ k)" using k(2) by simp
      ultimately show ?thesis
        using r linked f by (intro conjI exI [of _ "l @ m @ k"]) (simp_all add: fallback_chain_def, auto)
    qed
  qed
qed

lemma quiet_ops:
  "gb_peer (do_op FlushDownstream b) = gb_peer b" "gb_children (do_op FlushDownstream b) = gb_children b"
  "gb_peer (release_fake_wait b) = gb_peer b" "gb_children (release_fake_wait b) = gb_children b"
  "gb_blocked (release_fake_wait b) = gb_blocked b" "gb_blocked (do_op FlushDownstream b) = gb_blocked b"
  by (auto simp: do_op_def release_fake_wait_def split: option.splits)

text \<open>What happens before the anchor is blocked: nothing but flushing, waking a fake chain and stopping a source.\<close>

definition before_block :: "direction \<Rightarrow> gst_bin \<Rightarrow> gst_op \<Rightarrow> bool" where
  "before_block dir b x \<longleftrightarrow> (x = FlushDownstream \<and> dir = SrcDir) \<or>
     (\<exists>old. gb_peer b = Some old \<and> (x = ReleaseWait old \<and> chain_is_fake old \<or> x = Stop old \<and> dir = SrcDir))"

lemma before_block_spec:
  assumes "stop_source_first gst dir (release_fake_wait (if drain \<and> dir = SrcDir then do_op FlushDownstream b else b)) = (ok, b1)"
  shows "gb_peer b1 = gb_peer b \<and> gb_children b1 = gb_children b \<and>
    (\<exists>l. did b b1 l \<and> (ok \<longleftrightarrow> all_ok l) \<and> (\<forall>e \<in> set l. before_block dir b (fst e)) \<and>
      (\<forall>old. ok \<and> dir = SrcDir \<and> gb_peer b = Some old \<longrightarrow> (Stop old, True) \<in> set l))"
  using assms
  by (auto simp: stop_source_first_def attempt_def release_fake_wait_def do_op_def Let_def did_def before_block_def
      split: direction.splits option.splits if_splits)

text \<open>
  The log of a rebuild: what comes before the probe, the probe with the work under it, and what
  comes after it.
\<close>

definition swap_log :: "direction \<Rightarrow> gst_bin \<Rightarrow> chain \<Rightarrow> (gst_op \<times> bool) list \<Rightarrow> bool" where
  "swap_log dir b c l \<longleftrightarrow>
     (\<exists>pre mid post. l = pre @ mid @ post \<and> (\<forall>e \<in> set pre. before_block dir b (fst e)) \<and>
        (mid = [] \<and> post = [] \<or> mid = [(Block, False)] \<and> post = [] \<or>
         (\<exists>work. mid = (Block, True) # work @ [(Unblock, True)] \<and>
            (\<forall>e \<in> set work. topology_op (fst e) \<and> (dir = SrcDir \<longrightarrow> (\<forall>x. fst e \<noteq> Advance x))) \<and>
            (post = [] \<or> dir = SrcDir \<and> (\<exists>r. post = [(Advance c, r)])))) \<and>
        (\<forall>old. dir = SrcDir \<and> gb_peer b = Some old \<and> mid \<noteq> [] \<longrightarrow> (Stop old, True) \<in> set pre))"

lemma attempt_advance: "attempt gst (Advance c) b = (ok, b') \<Longrightarrow>
    gb_peer b' = gb_peer b \<and> gb_children b' = gb_children b \<and> did b b' [(Advance c, ok)]"
  by (auto simp: attempt_def Let_def did_def)

definition swap_result ::
  "(chain \<Rightarrow> bool) \<Rightarrow> direction \<Rightarrow> chain \<Rightarrow> chain option option \<Rightarrow> gst_bin \<Rightarrow> bool \<Rightarrow> gst_bin
    \<Rightarrow> (gst_op \<times> bool) list \<Rightarrow> bool" where
  "swap_result has_pad dir c fallback b ok b' l \<longleftrightarrow>
     bin_ok b' \<and> set (gb_children b') \<subseteq> set (gb_children b) \<union> {c} \<union> set_option (fallback_chain fallback) \<and>
     (ok \<longleftrightarrow> has_pad c \<and> all_ok l) \<and>
     (ok \<longrightarrow> gb_peer b' = Some c \<and> set (gb_children b') = insert c (set (gb_children b) - set_option (gb_peer b))) \<and>
     (\<not> ok \<longrightarrow> gb_peer b' = None \<or> gb_peer b' = Some c \<or> gb_peer b' = fallback_chain fallback \<or>
        gb_peer b' = gb_peer b \<and> gb_children b' = gb_children b) \<and>
     (\<not> ok \<and> dir = SinkDir \<and> fallback_chain fallback \<noteq> None \<and> gb_peer b' = Some c \<longrightarrow> (Remove c, False) \<in> set l)"

lemma peer_not_fresh: "bin_ok b \<Longrightarrow> fresh_chains c fallback b \<Longrightarrow> gb_peer b \<noteq> Some c"
  by (auto simp: bin_ok_def fresh_chains_def)

lemma untouched_result:
  assumes "bin_ok b" "fresh_chains c fallback b" "gb_peer b' = gb_peer b" "gb_children b' = gb_children b" "\<not> all_ok l"
  shows "swap_result has_pad dir c fallback b False b' l"
  using assms peer_not_fresh [OF assms(1,2)] by (auto simp: swap_result_def bin_ok_def)

lemma rebuild_spec:
  assumes rebuild: "rebuild_chain_with_opts gst has_pad dir c drain fallback b = (ok, b')"
    and b: "bin_ok b" and fresh: "fresh_chains c fallback b" and free: "\<not> gb_blocked b"
  shows "\<exists>l. gb_log b' = gb_log b @ l \<and> \<not> gb_blocked b' \<and> swap_log dir b c l \<and>
    swap_result has_pad dir c fallback b ok b' l"
proof -
  obtain ok1 b1 where first:
      "stop_source_first gst dir (release_fake_wait (if drain \<and> dir = SrcDir then do_op FlushDownstream b else b)) = (ok1, b1)"
    by fastforce
  obtain pre where pre: "did b b1 pre" "ok1 \<longleftrightarrow> all_ok pre" "\<forall>e \<in> set pre. before_block dir b (fst e)"
      "\<forall>old. ok1 \<and> dir = SrcDir \<and> gb_peer b = Some old \<longrightarrow> (Stop old, True) \<in> set pre"
    and same: "gb_peer b1 = gb_peer b" "gb_children b1 = gb_children b"
    using before_block_spec [OF first] by blast
  show ?thesis
  proof (cases "ok1 \<and> gst (gb_log b1) Block")
    case False
    let ?l = "if ok1 then pre @ [(Block, False)] else pre"
    have result: "ok = False" "gb_log b' = gb_log b @ ?l" "\<not> gb_blocked b'" "gb_peer b' = gb_peer b" "gb_children b' = gb_children b"
      using rebuild first False pre(1) same free
      by (auto simp: rebuild_chain_with_opts_def attempt_def Let_def did_def split: if_splits bool.splits)
    have "swap_log dir b c ?l"
      unfolding swap_log_def using pre(3,4)
      by (intro exI [of _ pre] exI [of _ "if ok1 then [(Block, False)] else []"] exI [of _ "[]"]) auto
    moreover have "\<not> all_ok ?l" using pre(2) by simp
    ultimately show ?thesis using result untouched_result [OF b fresh, of b' ?l] by blast
  next
    case True
    define b2 where "b2 = b1\<lparr>gb_log := gb_log b1 @ [(Block, True)], gb_blocked := True\<rparr>"
    have block: "attempt gst Block b1 = (True, b2)" using True by (simp add: attempt_def b2_def)
    obtain r b3 where swap: "swap_chain_inner gst has_pad dir c fallback b2 = (r, b3)" by fastforce
    have ok2: "bin_ok b2" "fresh_chains c fallback b2" using b fresh same by (simp_all add: b2_def bin_ok_def fresh_chains_def)
    note spec = swap_chain_inner_spec [OF swap ok2]
    then obtain work where work: "did b2 b3 work" "r \<noteq> None \<longleftrightarrow> has_pad c \<and> all_ok work"
        "\<forall>e \<in> set work. topology_op (fst e) \<and> (dir = SrcDir \<longrightarrow> (\<forall>x. fst e \<noteq> Advance x))"
        "r = None \<and> dir = SinkDir \<and> fallback_chain fallback \<noteq> None \<and> gb_peer b3 = Some c \<longrightarrow> (Remove c, False) \<in> set work"
      by blast
    have bin: "bin_ok b3" "set (gb_children b3) \<subseteq> set (gb_children b) \<union> {c} \<union> set_option (fallback_chain fallback)"
      using spec same by (simp_all add: b2_def)
    have finished: "gb_peer b3 = Some c" "set (gb_children b3) = insert c (set (gb_children b) - set_option (gb_peer b))"
        "r = Some (case dir of SrcDir \<Rightarrow> AfterUnblock | SinkDir \<Rightarrow> SyncDone)" if "r \<noteq> None"
      using spec that same by (simp_all add: b2_def)
    have undone: "gb_peer b3 = None \<or> gb_peer b3 = Some c \<or> gb_peer b3 = fallback_chain fallback \<or>
        gb_peer b3 = gb_peer b \<and> gb_children b3 = gb_children b" if "r = None"
      using spec that same by (simp add: b2_def)
    define b4 where "b4 = do_op Unblock b3"
    let ?l = "pre @ (Block, True) # work @ [(Unblock, True)]"
    have b4: "gb_log b4 = gb_log b @ ?l" "\<not> gb_blocked b4" "gb_peer b4 = gb_peer b3" "gb_children b4 = gb_children b3"
      using pre(1) work(1) by (simp_all add: b4_def do_op_def did_def b2_def)
    have log: "swap_log dir b c (?l @ post)" if "post = [] \<or> dir = SrcDir \<and> (\<exists>r. post = [(Advance c, r)])" for post
      unfolding swap_log_def using that pre(3,4) work(3) True
      by (intro exI [of _ pre] exI [of _ "(Block, True) # work @ [(Unblock, True)]"] exI [of _ post]) auto
    have final: "(case r of None \<Rightarrow> (False, b4) | Some SyncDone \<Rightarrow> (True, b4) | Some AfterUnblock \<Rightarrow> attempt gst (Advance c) b4) = (ok, b')"
      using rebuild first True block swap unfolding b4_def by (simp add: rebuild_chain_with_opts_def Let_def)
    show ?thesis
    proof (cases "r = Some AfterUnblock")
      case False
      then have ok: "ok \<longleftrightarrow> r \<noteq> None" and b': "b' = b4" using final by (auto split: option.splits state_sync.splits)
      have "bin_ok b4" using bin(1) b4 by (simp add: bin_ok_def)
      moreover have "ok \<longleftrightarrow> has_pad c \<and> all_ok ?l" using ok work(2) pre(2) True by auto
      ultimately have "swap_result has_pad dir c fallback b ok b' ?l"
        using bin(2) finished undone work(4) b4(3,4) unfolding swap_result_def ok b' by (cases "r = None") simp_all
      then show ?thesis using log [of "[]"] b4 b' by auto
    next
      case advance: True
      then have adv: "attempt gst (Advance c) b4 = (ok, b')" using final by simp
      note a = attempt_advance [OF adv]
      have src: "dir = SrcDir" using finished(3) advance by (cases dir) auto
      have "bin_ok b'" using bin(1) b4 a by (simp add: bin_ok_def)
      moreover have "ok \<longleftrightarrow> has_pad c \<and> all_ok (?l @ [(Advance c, ok)])" using work(2) pre(2) True advance by auto
      ultimately have "swap_result has_pad dir c fallback b ok b' (?l @ [(Advance c, ok)])"
        using bin(2) finished(1,2) advance src a b4(3,4) unfolding swap_result_def by (intro conjI impI) simp_all
      moreover have "gb_log b' = gb_log b @ ?l @ [(Advance c, ok)]" "\<not> gb_blocked b'"
        using a b4 by (simp_all add: did_def)
      ultimately show ?thesis using log [of "[(Advance c, ok)]"] src by (intro exI [of _ "?l @ [(Advance c, ok)]"]) auto
    qed
  qed
qed

section \<open>Properties\<close>

text \<open>
  C23. Swapping a chain, whatever GStreamer refuses on the way. Afterwards the anchor is not blocked
  and is linked to a chain of the bin or to none. It succeeds exactly when the new chain has its pad
  and no operation failed, even when an earlier failure had left the anchor without a chain; then
  the new chain has taken the place of the old one and nothing else has changed. When it fails, the
  anchor has the old chain in an unchanged bin, the fallback, the new chain, or none; and a sink
  with a fallback keeps the chain that failed only when GStreamer refused to remove it.
\<close>

theorem chain_swap_safe:
  assumes "rebuild_chain_with_opts gst has_pad dir c drain fallback b = (ok, b')"
    and "bin_ok b" "fresh_chains c fallback b" "\<not> gb_blocked b"
  shows "\<exists>l. gb_log b' = gb_log b @ l \<and> \<not> gb_blocked b' \<and> swap_result has_pad dir c fallback b ok b' l"
  using rebuild_spec [OF assms] by blast

definition demo_chain :: "nat \<Rightarrow> string \<Rightarrow> chain" where
  "demo_chain i n = \<lparr>ch_id = i, ch_name = n\<rparr>"

theorem chain_swap_safe_witness:
  "let fake = demo_chain 0 ''a-fake''; real = demo_chain 1 ''udpsink''; spare = demo_chain 2 ''b-fake'';
       (ok, b) = rebuild_chain_with_opts (\<lambda>_ x. x \<noteq> Advance real) (\<lambda>_. True) SinkDir real False (Some (Some spare)) (build_initial fake)
   in \<not> ok \<and> gb_peer b = Some spare \<and> gb_children b = [spare] \<and> \<not> gb_blocked b"
proof -
  let ?fake = "demo_chain 0 ''a-fake''" and ?real = "demo_chain 1 ''udpsink''" and ?spare = "demo_chain 2 ''b-fake''"
  obtain b where run: "rebuild_chain_with_opts (\<lambda>_ x. x \<noteq> Advance ?real) (\<lambda>_. True) SinkDir ?real False
      (Some (Some ?spare)) (build_initial ?fake) = (False, b)" "gb_peer b = Some ?spare" "gb_children b = [?spare]"
    by (simp add: rebuild_chain_with_opts_def release_fake_wait_def build_initial_def stop_source_first_def attempt_def
        swap_chain_inner_def remove_old_chain_def install_new_chain_def link_fallback_sink_def try_op_def do_op_def
        Let_def demo_chain_def chain_is_fake_def ends_with_def)
  have "bin_ok (build_initial ?fake)" "fresh_chains ?real (Some (Some ?spare)) (build_initial ?fake)"
      "\<not> gb_blocked (build_initial ?fake)"
    by (simp_all add: bin_ok_def build_initial_def fresh_chains_def fallback_chain_def demo_chain_def)
  with chain_swap_safe [OF run(1)] have "\<not> gb_blocked b" by blast
  with run show ?thesis by simp
qed

text \<open>
  The order of a swap, which keeps it from waiting for itself. Children and links change only
  while the anchor is blocked, and it is blocked and unblocked once. A source is stopped before the
  anchor is blocked, and the new source is taken past \<^verbatim>\<open>Ready\<close> only after it is unblocked; a new
  sink is brought up while the anchor is blocked, before the first buffer can reach it.
\<close>

theorem chain_swap_order:
  assumes "rebuild_chain_with_opts gst has_pad dir c drain fallback b = (ok, b')"
    and "bin_ok b" "fresh_chains c fallback b" "\<not> gb_blocked b"
  shows "\<exists>l. gb_log b' = gb_log b @ l \<and> swap_log dir b c l"
  using rebuild_spec [OF assms] by blast

theorem chain_swap_order_witness:
  "let old = demo_chain 0 ''a-fake''; new = demo_chain 1 ''udpsrc'';
       b = snd (rebuild_chain_with_opts (\<lambda>_ _. True) (\<lambda>_. True) SrcDir new False None (build_initial old))
   in gb_log b = [(ReleaseWait old, True), (Stop old, True), (Block, True), (Unlink old, True), (Stop old, True),
        (Remove old, True), (Add new, True), (Link new, True), (ReadyUp new, True), (Unblock, True), (Advance new, True)] \<and>
      swap_log SrcDir (build_initial old) new (gb_log b)"
proof -
  let ?old = "demo_chain 0 ''a-fake''" and ?new = "demo_chain 1 ''udpsrc''"
  let ?l = "[(ReleaseWait ?old, True), (Stop ?old, True), (Block, True), (Unlink ?old, True), (Stop ?old, True),
        (Remove ?old, True), (Add ?new, True), (Link ?new, True), (ReadyUp ?new, True), (Unblock, True), (Advance ?new, True)]"
  obtain b where run: "rebuild_chain_with_opts (\<lambda>_ _. True) (\<lambda>_. True) SrcDir ?new False None (build_initial ?old) = (True, b)"
      "gb_log b = ?l"
    by (simp add: rebuild_chain_with_opts_def release_fake_wait_def build_initial_def stop_source_first_def attempt_def
        swap_chain_inner_def remove_old_chain_def install_new_chain_def do_op_def Let_def demo_chain_def chain_is_fake_def
        ends_with_def)
  have "bin_ok (build_initial ?old)" "fresh_chains ?new None (build_initial ?old)" "\<not> gb_blocked (build_initial ?old)"
      "gb_log (build_initial ?old) = []"
    by (simp_all add: bin_ok_def build_initial_def fresh_chains_def fallback_chain_def demo_chain_def)
  with chain_swap_order [OF run(1)] have "swap_log SrcDir (build_initial ?old) ?new (gb_log b)" by auto
  with run show ?thesis by simp
qed

end
