(* ===== verification/Gst_Element.thy ===== *)
theory Gst_Element
  imports Gst_Chains Gst_Inner
begin

text \<open>
  The elements \<^verbatim>\<open>nmossink\<close> and \<^verbatim>\<open>nmossrc\<close> (\<^verbatim>\<open>imp.rs\<close>): what a state change, an
  activation and an error of the inner chain do to the chain, the session and the read-only
  properties (\<^verbatim>\<open>session/connection_active.rs\<close>, \<^verbatim>\<open>session/resource_ids.rs\<close>).

  The world an operation meets is \<open>el_env\<close>, a parameter of each one: the daemon, the host, the
  plugins, what GStreamer refuses, what upstream answers to a query of its caps, whether the
  element plays and whether the state change of the parent class succeeds. Operations of an element
  do not overlap here. Chains are told apart by the order in which they are built; \<open>el_built\<close> keeps
  what each of them, as a bin with elements and their properties, was built as. Settings are
  given to each operation: they are read at its start. Texts of errors are left out.
\<close>

section \<open>State\<close>

datatype element_event =
    Notify string
  | NmosActivation bool string
  | BusWarning

record element =
  el_ghost :: bool
  el_bin :: gst_bin
  el_next :: nat
  el_active :: bool
  el_ids :: resource_ids
  el_slot :: "session slot"
  el_events :: "element_event list"
  el_built :: "nat \<Rightarrow> inner_chain option"

record el_env =
  en_daemon :: daemon_env
  en_url :: "string \<Rightarrow> url option"
  en_host :: host_env
  en_gst :: gst_env
  en_app :: app_properties
  en_fate :: gst_fate
  en_pad :: "chain \<Rightarrow> bool"
  en_fixate :: "gst_caps \<Rightarrow> gst_caps"
  en_peer :: peer_caps
  en_playing :: bool
  en_parent :: bool

datatype el_error =
    ElConfig config_error
  | ElOpen open_error
  | ElDeferred deferred_error
  | SwapRefused
  | ActivationIncomplete
  | PlanRejected
  | ParentRefused

text \<open>Operations that end with \<^verbatim>\<open>?\<close> at the first error; a panic is \<open>None\<close>.\<close>

type_synonym 'a run = "element \<Rightarrow> client \<Rightarrow> ((el_error + 'a) \<times> element \<times> client) option"

definition run_ret :: "'a \<Rightarrow> 'a run" where
  "run_ret a el c = Some (Inr a, el, c)"

definition run_fail :: "el_error \<Rightarrow> 'a run" where
  "run_fail e el c = Some (Inl e, el, c)"

definition run_bind :: "'a run \<Rightarrow> ('a \<Rightarrow> 'b run) \<Rightarrow> 'b run" where
  "run_bind m f el c =
     (case m el c of
        None \<Rightarrow> None
      | Some (Inl e, el1, c1) \<Rightarrow> Some (Inl e, el1, c1)
      | Some (Inr a, el1, c1) \<Rightarrow> f a el1 c1)"

definition run_res :: "'a resolved \<Rightarrow> 'a run" where
  "run_res r el c =
     (case r of None \<Rightarrow> None | Some (Inl e) \<Rightarrow> Some (Inl (ElConfig e), el, c) | Some (Inr a) \<Rightarrow> Some (Inr a, el, c))"

definition run_update :: "(element \<Rightarrow> element) \<Rightarrow> unit run" where
  "run_update f el c = Some (Inr (), f el, c)"

text \<open>The result of \<open>m\<close> as a value: its error does not end the operation.\<close>

definition run_try :: "'a run \<Rightarrow> (el_error + 'a) run" where
  "run_try m el c = (case m el c of None \<Rightarrow> None | Some (r, el1, c1) \<Rightarrow> Some (Inr r, el1, c1))"

definition run_get :: "(element \<Rightarrow> 'a run) \<Rightarrow> 'a run" where
  "run_get f el c = f el el c"

section \<open>Read-only properties\<close>

definition set_connection_active :: "bool \<Rightarrow> string \<Rightarrow> element \<Rightarrow> element" where
  "set_connection_active new_active reason el =
     el\<lparr>el_active := new_active,
       el_events := el_events el @ (if el_active el \<noteq> new_active then [Notify ''active''] else [])
         @ [NmosActivation new_active reason]\<rparr>"

definition id_properties :: "side \<Rightarrow> (string \<times> (resource_ids \<Rightarrow> string)) list" where
  "id_properties sd =
     [(''node-id'', ri_node_id), (''device-id'', ri_device_id)] @
     (case sd of
        Sender \<Rightarrow> [(''sender-id'', ri_sender_id), (''source-id'', ri_source_id), (''flow-id'', ri_flow_id)]
      | Receiver \<Rightarrow> [(''receiver-id'', ri_receiver_id)])"

definition publish :: "side \<Rightarrow> resource_ids \<Rightarrow> element \<Rightarrow> element" where
  "publish sd next el =
     el\<lparr>el_ids := next,
       el_events := el_events el @
         map (\<lambda>(name, _). Notify name) (filter (\<lambda>(_, get). get (el_ids el) \<noteq> get next) (id_properties sd))\<rparr>"

definition open_session_of :: "session slot \<Rightarrow> session option" where
  "open_session_of slot = (case slot of Some (Open s) \<Rightarrow> Some s | _ \<Rightarrow> None)"

definition slot_ids :: "session slot \<Rightarrow> resource_ids" where
  "slot_ids slot = (case open_session_of slot of Some s \<Rightarrow> session_resource_ids s | None \<Rightarrow> default_resource_ids)"

definition publish_resource_ids :: "side \<Rightarrow> element \<Rightarrow> element" where
  "publish_resource_ids sd el = publish sd (slot_ids (el_slot el)) el"

section \<open>Chains\<close>

definition side_dir :: "side \<Rightarrow> direction" where
  "side_dir sd = (case sd of Sender \<Rightarrow> SinkDir | Receiver \<Rightarrow> SrcDir)"

definition chain_of :: "nat \<Rightarrow> inner_chain \<Rightarrow> chain" where
  "chain_of i ic = \<lparr>ch_id = i, ch_name = ic_name ic\<rparr>"

text \<open>\<open>fallback\<close> is what its builder gives.\<close>

definition fallback_of :: "nat \<Rightarrow> inner_chain resolved option \<Rightarrow> chain option option" where
  "fallback_of i fallback =
     (case fallback of None \<Rightarrow> None | Some (Some (Inr ic)) \<Rightarrow> Some (Some (chain_of i ic)) | Some _ \<Rightarrow> Some None)"

fun fallback_built :: "inner_chain resolved option \<Rightarrow> inner_chain option" where
  "fallback_built (Some (Some (Inr ic))) = Some ic"
| "fallback_built _ = None"

definition swap_inner :: "el_env \<Rightarrow> side \<Rightarrow> bool \<Rightarrow> inner_chain resolved option \<Rightarrow> inner_chain \<Rightarrow> unit run" where
  "swap_inner env sd drain fallback ic el c =
     (if \<not> el_ghost el then Some (Inl SwapRefused, el, c)
      else
        (case rebuild_chain_with_opts (en_fate env) (en_pad env) (side_dir sd) (chain_of (el_next el) ic) drain
                (fallback_of (Suc (el_next el)) fallback) (el_bin el) of
           (ok, b) \<Rightarrow>
             Some (if ok then Inr () else Inl SwapRefused, el\<lparr>el_bin := b, el_next := el_next el + 2,
               el_built := (el_built el)(el_next el := Some ic, Suc (el_next el) := fallback_built fallback)\<rparr>, c)))"

definition chain_is_real :: "element \<Rightarrow> bool" where
  "chain_is_real el \<longleftrightarrow> el_ghost el \<and> current_chain_is_real (el_bin el)"

definition build_fake :: "el_env \<Rightarrow> side \<Rightarrow> gst_caps option \<Rightarrow> inner_chain resolved" where
  "build_fake env sd caps = (case sd of Sender \<Rightarrow> build_fake_sink (en_gst env) caps | Receiver \<Rightarrow> build_fake_src (en_gst env) caps)"

definition build_fake_for_settings :: "el_env \<Rightarrow> common_settings \<Rightarrow> inner_chain resolved" where
  "build_fake_for_settings env cfg =
     (case cfg_side cfg of
        Sender \<Rightarrow> build_fake_sink_for_settings (en_gst env) (en_host env) cfg
      | Receiver \<Rightarrow> build_fake_src_for_settings (en_gst env) (en_host env) cfg)"

definition build_real :: "el_env \<Rightarrow> common_settings \<Rightarrow> transport_config \<Rightarrow> inner_chain resolved" where
  "build_real env cfg tc =
     (case cfg_side cfg of
        Sender \<Rightarrow> build_real_sink (en_gst env) (en_host env) (en_app env) cfg tc
      | Receiver \<Rightarrow> build_real_src (en_gst env) (en_host env) (en_app env) tc)"

definition intermediate_fake_caps :: "el_env \<Rightarrow> common_settings \<Rightarrow> inner_config \<Rightarrow> gst_caps option resolved" where
  "intermediate_fake_caps env cfg inner =
     (case cfg_side cfg of
        Sender \<Rightarrow> intermediate_fake_sink_caps (en_host env) cfg inner
      | Receiver \<Rightarrow> intermediate_fake_src_caps (en_host env) cfg inner)"

definition upgrade_fake_chain_from_settings :: "el_env \<Rightarrow> common_settings \<Rightarrow> unit run" where
  "upgrade_fake_chain_from_settings env cfg =
     run_bind (run_res (fake_caps_from_settings (en_host env) cfg)) (\<lambda>caps.
       case caps of
         None \<Rightarrow> run_ret ()
       | Some _ \<Rightarrow>
           run_bind (run_res (build_fake env (cfg_side cfg) caps)) (\<lambda>fake.
           swap_inner env (cfg_side cfg) False None fake))"

definition restore_fake_chain :: "el_env \<Rightarrow> common_settings \<Rightarrow> unit run" where
  "restore_fake_chain env cfg =
     run_bind (run_update (set_connection_active False ''deactivate'')) (\<lambda>_.
     run_bind (run_try (run_res (build_fake_for_settings env cfg))) (\<lambda>fake.
       case fake of
         Inl _ \<Rightarrow> run_ret ()
       | Inr fake \<Rightarrow> run_bind (run_try (swap_inner env (cfg_side cfg) False None fake)) (\<lambda>_. run_ret ())))"

section \<open>Sessions\<close>

definition run_close :: "el_env \<Rightarrow> unit run" where
  "run_close env el c =
     (case close_slot (session_close (en_daemon env)) (el_slot el) c of (slot, c1) \<Rightarrow> Some (Inr (), el\<lparr>el_slot := slot\<rparr>, c1))"

definition element_close_session :: "el_env \<Rightarrow> common_settings \<Rightarrow> unit run" where
  "element_close_session env cfg =
     run_bind (run_close env) (\<lambda>_.
     run_bind (run_update (publish_resource_ids (cfg_side cfg))) (\<lambda>_.
     restore_fake_chain env cfg))"

definition run_sync_active :: "el_env \<Rightarrow> string option \<Rightarrow> unit run" where
  "run_sync_active env transport_file el c =
     (case sync_active (en_daemon env) transport_file (el_slot el) c of
        (Inl e, slot, c1) \<Rightarrow> Some (Inl (ElDeferred e), el\<lparr>el_slot := slot\<rparr>, c1)
      | (Inr _, slot, c1) \<Rightarrow> Some (Inr (), el\<lparr>el_slot := slot\<rparr>, c1))"

definition activate_inner :: "el_env \<Rightarrow> common_settings \<Rightarrow> inner_config \<Rightarrow> unit run" where
  "activate_inner env cfg outcome =
     (case outcome of
        RealInner tc \<Rightarrow>
          run_bind (run_res (build_real env cfg tc)) (\<lambda>real.
          run_bind (swap_inner env (cfg_side cfg) False None real) (\<lambda>_.
          run_bind (run_sync_active env (config_transport_file tc)) (\<lambda>_.
          run_update (set_connection_active True ''auto-activate''))))
      | FakeInner _ \<Rightarrow> upgrade_fake_chain_from_settings env cfg)"

definition run_validate_and_open :: "el_env \<Rightarrow> common_settings \<Rightarrow> inner_config run" where
  "run_validate_and_open env cfg el c =
     (case validate_and_open (en_daemon env) (en_url env) (en_host env) cfg (el_slot el) c of
        None \<Rightarrow> None
      | Some (Inl e, slot, c1) \<Rightarrow> Some (Inl (ElOpen e), el\<lparr>el_slot := slot\<rparr>, c1)
      | Some (Inr inner, slot, c1) \<Rightarrow> Some (Inr inner, el\<lparr>el_slot := slot\<rparr>, c1))"

definition element_open_session :: "el_env \<Rightarrow> common_settings \<Rightarrow> unit run" where
  "element_open_session env cfg =
     run_bind (run_validate_and_open env cfg) (\<lambda>outcome.
     run_bind (run_try (activate_inner env cfg outcome)) (\<lambda>activated.
       case activated of
         Inl e \<Rightarrow> run_bind (element_close_session env cfg) (\<lambda>_. run_fail e)
       | Inr _ \<Rightarrow> run_update (publish_resource_ids (cfg_side cfg))))"

section \<open>Deferred senders\<close>

definition deferred_activation_incomplete :: "element \<Rightarrow> bool" where
  "deferred_activation_incomplete el \<longleftrightarrow>
     (case open_session_of (el_slot el) of Some s \<Rightarrow> sn_activation_incomplete s | None \<Rightarrow> False)"

definition static_inputs_set :: "common_settings \<Rightarrow> bool" where
  "static_inputs_set cfg \<longleftrightarrow> cfg_transport_file cfg \<noteq> [] \<or> cfg_transport_file_path cfg \<noteq> [] \<or> cfg_caps cfg \<noteq> None"

definition awaits_sender :: "element \<Rightarrow> bool" where
  "awaits_sender el \<longleftrightarrow> (case open_session_of (el_slot el) of Some s \<Rightarrow> sn_resource s = None | None \<Rightarrow> False)"

definition prepare_deferred_fake_chain :: "el_env \<Rightarrow> common_settings \<Rightarrow> unit run" where
  "prepare_deferred_fake_chain env cfg =
     run_get (\<lambda>el.
       if static_inputs_set cfg \<or> \<not> awaits_sender el then run_ret ()
       else if \<not> el_ghost el then run_fail SwapRefused
       else
         run_bind (run_res (prepare_deferred_peer_caps (en_fixate env) (en_peer env))) (\<lambda>fixated.
         run_bind (run_res (build_fake_sink (en_gst env) (Some fixated))) (\<lambda>fake.
         swap_inner env Sender False None fake)))"

definition run_add_deferred_sender :: "el_env \<Rightarrow> common_settings \<Rightarrow> inner_config run" where
  "run_add_deferred_sender env cfg el c =
     (case add_deferred_sender (en_daemon env) (en_host env) (en_fixate env) cfg (en_peer env) (el_slot el) c of
        None \<Rightarrow> None
      | Some (Inl e, slot, c1) \<Rightarrow> Some (Inl (ElDeferred e), el\<lparr>el_slot := slot\<rparr>, c1)
      | Some (Inr inner, slot, c1) \<Rightarrow> Some (Inr inner, el\<lparr>el_slot := slot\<rparr>, c1))"

definition mark_incomplete :: "element \<Rightarrow> element" where
  "mark_incomplete el =
     el\<lparr>el_slot := (case el_slot el of Some (Open s) \<Rightarrow> Some (Open (mark_activation_incomplete s)) | slot \<Rightarrow> slot)\<rparr>"

definition maybe_add_deferred_sender :: "el_env \<Rightarrow> common_settings \<Rightarrow> unit run" where
  "maybe_add_deferred_sender env cfg =
     run_get (\<lambda>el.
       if deferred_activation_incomplete el then run_fail ActivationIncomplete
       else if static_inputs_set cfg \<or> \<not> awaits_sender el then run_ret ()
       else if \<not> el_ghost el then run_fail SwapRefused
       else
         run_bind (run_add_deferred_sender env cfg) (\<lambda>outcome.
         run_bind (run_update (publish_resource_ids (cfg_side cfg))) (\<lambda>_.
         run_bind (run_try (activate_inner env cfg outcome)) (\<lambda>activated.
           case activated of
             Inl e \<Rightarrow>
               run_bind (run_update mark_incomplete) (\<lambda>_.
               run_bind (restore_fake_chain env cfg) (\<lambda>_. run_fail e))
           | Inr _ \<Rightarrow> run_ret ()))))"

section \<open>State changes\<close>

datatype transition = NullToReady | ReadyToPaused | PausedToPlaying | PlayingToPaused | PausedToReady | ReadyToNull

definition parent_change_state :: "el_env \<Rightarrow> unit run" where
  "parent_change_state env = (if en_parent env then run_ret () else run_fail ParentRefused)"

definition sink_change_state :: "el_env \<Rightarrow> common_settings \<Rightarrow> transition \<Rightarrow> unit run" where
  "sink_change_state env cfg transition =
     (case transition of
        NullToReady \<Rightarrow> run_bind (element_open_session env cfg) (\<lambda>_. parent_change_state env)
      | ReadyToNull \<Rightarrow> run_bind (element_close_session env cfg) (\<lambda>_. parent_change_state env)
      | ReadyToPaused \<Rightarrow>
          run_get (\<lambda>el.
            if deferred_activation_incomplete el then run_fail ActivationIncomplete
            else
              run_bind (prepare_deferred_fake_chain env cfg) (\<lambda>_.
              run_bind (parent_change_state env) (\<lambda>_.
              maybe_add_deferred_sender env cfg)))
      | _ \<Rightarrow> parent_change_state env)"

definition src_change_state :: "el_env \<Rightarrow> common_settings \<Rightarrow> transition \<Rightarrow> unit run" where
  "src_change_state env cfg transition =
     (case transition of
        NullToReady \<Rightarrow> run_bind (element_open_session env cfg) (\<lambda>_. parent_change_state env)
      | ReadyToNull \<Rightarrow> run_bind (element_close_session env cfg) (\<lambda>_. parent_change_state env)
      | _ \<Rightarrow> parent_change_state env)"

definition change_state :: "el_env \<Rightarrow> common_settings \<Rightarrow> transition \<Rightarrow> unit run" where
  "change_state env cfg transition =
     (case cfg_side cfg of
        Sender \<Rightarrow> sink_change_state env cfg transition
      | Receiver \<Rightarrow> src_change_state env cfg transition)"

section \<open>Activations\<close>

definition post_warning :: "element \<Rightarrow> element" where
  "post_warning el = el\<lparr>el_events := el_events el @ [BusWarning]\<rparr>"

text \<open>A swap whose failure is reported on the bus.\<close>

definition swap_or_warn :: "el_env \<Rightarrow> side \<Rightarrow> bool \<Rightarrow> inner_chain resolved option \<Rightarrow> inner_chain \<Rightarrow> unit run \<Rightarrow> unit run" where
  "swap_or_warn env sd drain fallback ic on_failure =
     run_bind (run_try (swap_inner env sd drain fallback ic)) (\<lambda>swapped.
       case swapped of
         Inr _ \<Rightarrow> run_ret ()
       | Inl e \<Rightarrow>
           run_bind (run_update post_warning) (\<lambda>_.
           run_bind on_failure (\<lambda>_. run_fail e)))"

definition fake_hop :: "el_env \<Rightarrow> common_settings \<Rightarrow> bool \<Rightarrow> activation_plan \<Rightarrow> unit run" where
  "fake_hop env cfg drain plan =
     run_get (\<lambda>el.
       if is_real (ap_inner plan) \<and> chain_is_real el then
         run_bind (run_res (intermediate_fake_caps env cfg (ap_inner plan))) (\<lambda>caps.
         run_bind (run_res (build_fake env (cfg_side cfg) caps)) (\<lambda>fake.
         swap_or_warn env (cfg_side cfg) drain None fake (run_ret ())))
       else run_ret ())"

definition build_planned :: "el_env \<Rightarrow> common_settings \<Rightarrow> inner_config \<Rightarrow> inner_chain run" where
  "build_planned env cfg inner =
     (case inner of
        RealInner tc \<Rightarrow> run_res (build_real env cfg tc)
      | FakeInner _ \<Rightarrow>
          run_bind (run_res (fake_caps_from_settings (en_host env) cfg)) (\<lambda>caps.
          run_res (build_fake env (cfg_side cfg) caps)))"

definition acknowledge :: "activation_plan \<Rightarrow> unit run" where
  "acknowledge plan =
     (case ap_ack plan of
        AckSuccess \<Rightarrow>
          run_update (set_connection_active (is_real (ap_inner plan)) (if is_real (ap_inner plan) then ''activate'' else ''deactivate''))
      | AckFailure \<Rightarrow> run_fail PlanRejected)"

definition sink_execute_activation_plan :: "el_env \<Rightarrow> common_settings \<Rightarrow> activation_plan \<Rightarrow> unit run" where
  "sink_execute_activation_plan env cfg plan =
     run_bind (fake_hop env cfg False plan) (\<lambda>_.
     run_bind (build_planned env cfg (ap_inner plan)) (\<lambda>new_inner.
     run_bind (run_res (fake_caps_from_settings (en_host env) cfg)) (\<lambda>fallback_caps.
     run_bind (swap_or_warn env Sender False (Some (build_fake_sink (en_gst env) fallback_caps)) new_inner (run_ret ())) (\<lambda>_.
     acknowledge plan))))"

definition restore_after_failed_swap :: "el_env \<Rightarrow> common_settings \<Rightarrow> unit run" where
  "restore_after_failed_swap env cfg =
     run_bind (run_try (run_res (build_fake_src_for_settings (en_gst env) (en_host env) cfg))) (\<lambda>fake.
       case fake of
         Inl _ \<Rightarrow> run_ret ()
       | Inr fake \<Rightarrow> run_bind (run_try (swap_inner env Receiver False None fake)) (\<lambda>_. run_ret ()))"

definition src_execute_activation_plan :: "el_env \<Rightarrow> common_settings \<Rightarrow> activation_plan \<Rightarrow> unit run" where
  "src_execute_activation_plan env cfg plan =
     run_get (\<lambda>el.
       let drain = (chain_is_real el \<or> is_real (ap_inner plan)) \<and> en_playing env
       in run_bind (fake_hop env cfg drain plan) (\<lambda>_.
          run_bind (build_planned env cfg (ap_inner plan)) (\<lambda>new_inner.
          run_bind (swap_or_warn env Receiver drain None new_inner (restore_after_failed_swap env cfg)) (\<lambda>_.
          acknowledge plan))))"

definition execute_activation_plan :: "el_env \<Rightarrow> common_settings \<Rightarrow> activation_plan \<Rightarrow> unit run" where
  "execute_activation_plan env cfg plan =
     (case cfg_side cfg of
        Sender \<Rightarrow> sink_execute_activation_plan env cfg plan
      | Receiver \<Rightarrow> src_execute_activation_plan env cfg plan)"

text \<open>The handler of an activation: the outcome that is sent back to the task that asked.\<close>

definition apply_activation ::
  "el_env \<Rightarrow> common_settings \<Rightarrow> activation_request \<Rightarrow> element \<Rightarrow> client \<Rightarrow> (activation_outcome \<times> element \<times> client) option" where
  "apply_activation env cfg req el c =
     (case make_activation_plan (en_host env) cfg req of
        None \<Rightarrow> None
      | Some plan \<Rightarrow>
          (case execute_activation_plan env cfg plan el c of
             None \<Rightarrow> None
           | Some (Inl _, el1, c1) \<Rightarrow> Some (ApplyFailed [], el1, c1)
           | Some (Inr _, el1, c1) \<Rightarrow> Some (Applied, el1, c1)))"

section \<open>Errors of the inner chain\<close>

text \<open>
  An error posted from inside the chain \<open>source\<close>. It is handled later, when that chain may be gone.
\<close>

definition handle_inner_error :: "el_env \<Rightarrow> common_settings \<Rightarrow> chain \<Rightarrow> unit run" where
  "handle_inner_error env cfg source =
     run_get (\<lambda>el.
       run_bind
         (if el_ghost el \<and> gb_peer (el_bin el) = Some source then
            run_bind (run_try (run_bind (run_res (build_fake_for_settings env cfg)) (swap_inner env (cfg_side cfg) False None)))
              (\<lambda>_. run_ret ())
          else run_ret ()) (\<lambda>_.
       run_update post_warning))"

section \<open>Construction\<close>

definition constructed :: "el_env \<Rightarrow> side \<Rightarrow> element" where
  "constructed env sd =
     (let el = \<lparr>el_ghost = False, el_bin = \<lparr>gb_children = [], gb_peer = None, gb_blocked = False, gb_log = []\<rparr>,
                el_next = 1, el_active = False, el_ids = default_resource_ids, el_slot = None, el_events = [],
                el_built = (\<lambda>_. None)\<rparr>
      in case build_fake env sd None of
           Some (Inr ic) \<Rightarrow> el\<lparr>el_ghost := True, el_bin := build_initial (chain_of 0 ic), el_built := (\<lambda>_. None)(0 := Some ic)\<rparr>
         | _ \<Rightarrow> el)"

end
