(* ===== verification/Gst_ElementFacts.thy ===== *)
theory Gst_ElementFacts
  imports Gst_Element
begin

text \<open>
  What holds of the elements in every state they reach, and what their operations leave behind. The
  locale \<open>element_property\<close> is the interface between the pieces of \<open>Gst_Element\<close> and its operations:
  a property that the pieces keep is kept by every operation.
\<close>

section \<open>Names of chains\<close>

lemma fake_is_fake:
  "build_fake env sd caps = Some (Inr ic) \<Longrightarrow> chain_is_fake (chain_of i ic)"
  "build_fake_for_settings env cfg = Some (Inr ic) \<Longrightarrow> chain_is_fake (chain_of i ic)"
  by (auto simp: build_fake_def build_fake_for_settings_def build_fake_sink_for_settings_def build_fake_src_for_settings_def
      chain_of_def chain_is_fake_def ends_with_def dest!: fake_sink_name fake_src_name
      split: side.splits option.splits sum.splits)

lemma real_is_real:
  "build_real env cfg tc = Some (Inr ic) \<Longrightarrow> \<not> chain_is_fake (chain_of i ic)"
  by (auto simp: build_real_def chain_of_def chain_is_fake_def ends_with_def dest!: real_sink_name real_src_name
      split: side.splits)

section \<open>Properties that operations keep\<close>

definition keeps :: "(element \<Rightarrow> bool) \<Rightarrow> 'a run \<Rightarrow> bool" where
  "keeps P m \<longleftrightarrow> (\<forall>el c r el' c'. P el \<longrightarrow> m el c = Some (r, el', c') \<longrightarrow> P el')"

lemma keepsD: "keeps P m \<Longrightarrow> m el c = Some (r, el', c') \<Longrightarrow> P el \<Longrightarrow> P el'"
  unfolding keeps_def by blast

named_theorems keeps_rules

lemma keeps_bind [keeps_rules]: "keeps P m \<Longrightarrow> (\<And>a. keeps P (f a)) \<Longrightarrow> keeps P (run_bind m f)"
  unfolding run_bind_def by (subst keeps_def) (auto split: option.splits sum.splits dest: keepsD)

lemma keeps_try [keeps_rules]: "keeps P m \<Longrightarrow> keeps P (run_try m)"
  unfolding run_try_def by (subst keeps_def) (auto split: option.splits dest: keepsD)

lemma keeps_get [keeps_rules]: "(\<And>el. keeps P (f el)) \<Longrightarrow> keeps P (run_get f)"
  by (auto simp: keeps_def run_get_def)

lemma keeps_basic [keeps_rules]: "keeps P (run_ret a)" "keeps P (run_fail e)" "keeps P (run_res r)"
  by (auto simp: keeps_def run_ret_def run_fail_def run_res_def split: option.splits sum.splits)

lemma keeps_update: "(\<And>el. P el \<Longrightarrow> P (f el)) \<Longrightarrow> keeps P (run_update f)"
  by (auto simp: keeps_def run_update_def)

lemma keeps_cases [keeps_rules]:
  "(b \<Longrightarrow> keeps P m) \<Longrightarrow> (\<not> b \<Longrightarrow> keeps P n) \<Longrightarrow> keeps P (if b then m else n)"
  "keeps P m \<Longrightarrow> (\<And>a. keeps P (f a)) \<Longrightarrow> keeps P (case x of None \<Rightarrow> m | Some a \<Rightarrow> f a)"
  "(\<And>e. keeps P (g e)) \<Longrightarrow> (\<And>a. keeps P (h a)) \<Longrightarrow> keeps P (case y of Inl e \<Rightarrow> g e | Inr a \<Rightarrow> h a)"
  "(\<And>tc. keeps P (k tc)) \<Longrightarrow> (\<And>q. keeps P (l q)) \<Longrightarrow> keeps P (case inner of RealInner tc \<Rightarrow> k tc | FakeInner q \<Rightarrow> l q)"
  "keeps P m \<Longrightarrow> keeps P n \<Longrightarrow> keeps P (case ack of AckSuccess \<Rightarrow> m | AckFailure \<Rightarrow> n)"
  "keeps P m \<Longrightarrow> keeps P n \<Longrightarrow> keeps P (case sd of Sender \<Rightarrow> m | Receiver \<Rightarrow> n)"
  by (auto split: option.splits sum.splits inner_config.splits activation_ack.splits side.splits)

locale chain_property =
  fixes P :: "element \<Rightarrow> bool"
  assumes swap_keeps: "keeps P (swap_inner env sd drain fallback ic)"
    and active_keeps: "P el \<Longrightarrow> P (set_connection_active b reason el)"
    and warning_keeps: "P el \<Longrightarrow> P (post_warning el)"
begin

lemma event_steps:
  "keeps P (run_update (set_connection_active b reason))" "keeps P (run_update post_warning)"
  by (auto intro!: keeps_update simp: active_keeps warning_keeps)

lemmas chain_steps = keeps_rules swap_keeps event_steps

lemma upgrade_keeps: "keeps P (upgrade_fake_chain_from_settings env cfg)"
  unfolding upgrade_fake_chain_from_settings_def by (intro chain_steps)

lemma restore_keeps: "keeps P (restore_fake_chain env cfg)"
  unfolding restore_fake_chain_def by (intro chain_steps)

lemma prepare_keeps: "keeps P (prepare_deferred_fake_chain env cfg)"
  unfolding prepare_deferred_fake_chain_def by (intro chain_steps)

lemma plan_keeps: "keeps P (execute_activation_plan env cfg plan)"
  unfolding execute_activation_plan_def sink_execute_activation_plan_def src_execute_activation_plan_def fake_hop_def
    swap_or_warn_def build_planned_def acknowledge_def restore_after_failed_swap_def Let_def
  by (intro chain_steps)

lemma error_keeps: "keeps P (handle_inner_error env cfg source)"
  unfolding handle_inner_error_def by (intro chain_steps)

lemma activation_keeps: "apply_activation env cfg req el c = Some (r, el', c') \<Longrightarrow> P el \<Longrightarrow> P el'"
  using keepsD [OF plan_keeps] by (fastforce simp: apply_activation_def split: option.splits sum.splits prod.splits)

lemma activate_keeps: "(\<And>tf. keeps P (run_sync_active env tf)) \<Longrightarrow> keeps P (activate_inner env cfg inner)"
  unfolding activate_inner_def by (intro chain_steps upgrade_keeps)

end

locale element_property = chain_property +
  assumes slot_keeps: "P el \<Longrightarrow> P (el\<lparr>el_slot := s\<rparr>)"
    and publish_keeps: "P el \<Longrightarrow> P (publish sd ids el)"
begin

lemma slot_steps:
  "keeps P (run_close env)" "keeps P (run_sync_active env tf)" "keeps P (run_validate_and_open env cfg)"
  "keeps P (run_add_deferred_sender env cfg)" "keeps P (run_update mark_incomplete)"
  by (auto simp: keeps_def run_close_def run_sync_active_def run_validate_and_open_def run_add_deferred_sender_def
      run_update_def mark_incomplete_def slot_keeps split: prod.splits option.splits sum.splits)

lemma publish_step: "keeps P (run_update (publish_resource_ids sd))"
  by (auto intro!: keeps_update simp: publish_keeps publish_resource_ids_def)

lemmas steps = chain_steps slot_steps publish_step restore_keeps prepare_keeps activate_keeps

lemma sessions_keep: "keeps P (element_open_session env cfg)" "keeps P (element_close_session env cfg)"
  unfolding element_open_session_def element_close_session_def by (intro steps)+

lemma deferred_keep: "keeps P (maybe_add_deferred_sender env cfg)"
  unfolding maybe_add_deferred_sender_def by (intro steps)

lemma change_state_keeps: "keeps P (change_state env cfg t)"
  unfolding change_state_def sink_change_state_def src_change_state_def parent_change_state_def
  by (cases "cfg_side cfg"; cases t) (simp_all add: steps sessions_keep deferred_keep)

end

section \<open>The bin\<close>

definition el_ok :: "element \<Rightarrow> bool" where
  "el_ok el \<longleftrightarrow> bin_ok (el_bin el) \<and> \<not> gb_blocked (el_bin el) \<and> (\<forall>ch \<in> set (gb_children (el_bin el)). ch_id ch < el_next el)"

lemma fresh_new_chains:
  assumes "el_ok el"
  shows "fresh_chains (chain_of (el_next el) ic) (fallback_of (Suc (el_next el)) fallback) (el_bin el)"
proof -
  have old: "ch \<notin> set (gb_children (el_bin el))" if "el_next el \<le> ch_id ch" for ch
    using assms that by (auto simp: el_ok_def)
  then have "chain_of (el_next el) ic \<notin> set (gb_children (el_bin el))" by (simp add: chain_of_def)
  moreover have "ch_id f = Suc (el_next el)" if "fallback_chain (fallback_of (Suc (el_next el)) fallback) = Some f" for f
    using that by (auto simp: fallback_of_def fallback_chain_def chain_of_def split: option.splits sum.splits)
  ultimately show ?thesis using old by (fastforce simp: fresh_chains_def chain_of_def)
qed

lemma swap_inner_spec:
  assumes swap: "swap_inner env sd drain fallback ic el c = Some (r, el', c')" and ok: "el_ok el"
  shows "el_ok el' \<and> c' = c \<and> el' = el\<lparr>el_bin := el_bin el', el_next := el_next el', el_built := el_built el'\<rparr> \<and>
    (r = Inr () \<longrightarrow> el_ghost el \<and> gb_peer (el_bin el') = Some (chain_of (el_next el) ic) \<and>
       el_built el' (el_next el) = Some ic)"
proof (cases "el_ghost el")
  case False
  then show ?thesis using swap ok by (auto simp: swap_inner_def)
next
  case True
  let ?ch = "chain_of (el_next el) ic" and ?fb = "fallback_of (Suc (el_next el)) fallback"
  obtain good b where run: "rebuild_chain_with_opts (en_fate env) (en_pad env) (side_dir sd) ?ch drain ?fb (el_bin el) = (good, b)"
    by fastforce
  have el': "el' = el\<lparr>el_bin := b, el_next := el_next el + 2,
      el_built := (el_built el)(el_next el := Some ic, Suc (el_next el) := fallback_built fallback)\<rparr>" "c' = c" "r = Inr () \<longleftrightarrow> good"
    using swap True run by (auto simp: swap_inner_def split: if_splits)
  obtain l where l: "\<not> gb_blocked b" "swap_result (en_pad env) (side_dir sd) ?ch ?fb (el_bin el) good b l"
    using rebuild_spec [OF run _ fresh_new_chains [OF ok]] ok by (auto simp: el_ok_def)
  have "ch_id ch < el_next el + 2" if "ch \<in> set (gb_children b)" for ch
  proof -
    have "ch \<in> set (gb_children (el_bin el)) \<union> {?ch} \<union> set_option (fallback_chain ?fb)"
      using l(2) that unfolding swap_result_def by blast
    moreover have "ch_id f = Suc (el_next el)" if "fallback_chain ?fb = Some f" for f
      using that by (auto simp: fallback_of_def fallback_chain_def chain_of_def split: option.splits sum.splits)
    ultimately show ?thesis using ok by (fastforce simp: el_ok_def chain_of_def)
  qed
  then have "el_ok el'" using l el'(1) by (simp add: el_ok_def swap_result_def)
  then show ?thesis using el' True l(2) by (simp add: swap_result_def)
qed

interpretation bin: element_property el_ok
proof
  show "keeps el_ok (swap_inner env sd drain fallback ic)" for env sd drain fallback ic
    unfolding keeps_def using swap_inner_spec by blast
qed (simp_all add: el_ok_def set_connection_active_def publish_def post_warning_def)

section \<open>Activations\<close>

lemma run_bind_Inr:
  "run_bind m f el c = Some (Inr b, el', c') \<longleftrightarrow>
     (\<exists>a el1 c1. m el c = Some (Inr a, el1, c1) \<and> f a el1 c1 = Some (Inr b, el', c'))"
  by (auto simp: run_bind_def split: option.splits sum.splits)

lemma run_res_Inr: "run_res r el c = Some (Inr a, el', c') \<longleftrightarrow> r = Some (Inr a) \<and> el' = el \<and> c' = c"
  by (auto simp: run_res_def split: option.splits sum.splits)

lemma swap_or_warn_Inr:
  "swap_or_warn env sd drain fallback ic h el c = Some (Inr u, el', c') \<longleftrightarrow>
     swap_inner env sd drain fallback ic el c = Some (Inr u, el', c')"
  by (auto simp: swap_or_warn_def run_bind_def run_try_def run_ret_def run_fail_def run_update_def
      split: option.splits sum.splits)

text \<open>
  What a chain has to be for its configuration: the element that sends or receives has the domain and
  the flow, or the address and the port, and payloads are those of the essence.
\<close>

definition has_properties :: "inner_chain \<Rightarrow> (string \<times> pvalue) list \<Rightarrow> bool" where
  "has_properties ic ps \<longleftrightarrow> (\<exists>e. element_of TransportRole ic = Some e \<and> (\<forall>(k, v) \<in> set ps. get_property e k = Some v))"

fun carries :: "side \<Rightarrow> transport_config \<Rightarrow> inner_chain \<Rightarrow> bool" where
  "carries Sender (MxlConfig domain flow_id _ _) ic \<longleftrightarrow>
     has_properties ic [(''domain'', PStr domain), (''flow-id'', PStr flow_id)]"
| "carries Receiver (MxlConfig domain flow_id fmt _) ic \<longleftrightarrow>
     (\<exists>k. flow_id_property fmt = Some k \<and> has_properties ic [(''domain'', PStr domain), (k, PStr flow_id)])"
| "carries Sender (UdpConfig _ media _) ic \<longleftrightarrow> sends_media media ic"
| "carries Receiver (UdpConfig _ media _) ic \<longleftrightarrow> receives_media media ic"
| "carries Sender (NvDsUdpConfig media _) ic \<longleftrightarrow>
     has_properties ic [(''host'', PStr (ul_destination_ip (um_primary media))),
       (''port'', PNum (uint (ul_destination_port (um_primary media))))]"
| "carries Receiver (NvDsUdpConfig media _) ic \<longleftrightarrow>
     has_properties ic
       (case um_secondary media of
          Some leg \<Rightarrow> [(''st2022-7-streams'', PStr (host_port (um_primary media) @ '','' @ host_port leg))]
        | None \<Rightarrow> [(''address'', PStr (ul_destination_ip (um_primary media))),
            (''port'', PNum (uint (ul_destination_port (um_primary media))))])"

lemma packet_properties_kept:
  "k \<notin> {''packets-per-line'', ''payload-size''} \<Longrightarrow> get_property (sink_packet_properties pkt e) k = get_property e k"
  "k \<notin> {''payload-multiple'', ''payload-size'', ''header-size''} \<Longrightarrow> get_property (src_packet_properties pkt e) k = get_property e k"
  "k \<notin> {''packets-per-line'', ''payload-size''} \<Longrightarrow> get_property (reconcile_sink caps e) k = get_property e k"
  "k \<noteq> ''ptp-src'' \<Longrightarrow> get_property (set_nvdsudp_ptp_src_from_sdp t ip e) k = get_property e k"
  by (cases pkt; auto simp: reconcile_sink_def set_nvdsudp_ptp_src_from_sdp_def split: sum.splits)+

lemma mxl_chains_carry:
  "yields (build_mxlsink g d i caps) (\<lambda>ic. has_properties ic [(''domain'', PStr d), (''flow-id'', PStr i)])"
  "yields (build_mxlsrc g d i fmt caps') (\<lambda>ic. \<exists>k. flow_id_property fmt = Some k \<and>
     has_properties ic [(''domain'', PStr d), (k, PStr i)])"
proof -
  show "yields (build_mxlsink g d i caps) (\<lambda>ic. has_properties ic [(''domain'', PStr d), (''flow-id'', PStr i)])"
    unfolding build_mxlsink_def by (intro yields_intros) (auto simp: has_properties_def element_of_def res_iff)
  have "k \<noteq> ''domain''" if "flow_id_property fmt = Some k" for k using that by (cases fmt) auto
  then show "yields (build_mxlsrc g d i fmt caps') (\<lambda>ic. \<exists>k. flow_id_property fmt = Some k \<and>
      has_properties ic [(''domain'', PStr d), (k, PStr i)])"
    unfolding build_mxlsrc_def by (intro yields_intros) (auto simp: has_properties_def element_of_def res_iff)
qed

lemma nvdsudp_chains_carry:
  "yields (build_nvdsudpsink g ops media t) (\<lambda>ic. carries Sender (NvDsUdpConfig media t') ic)"
  "yields (build_nvdsudpsrc g media t) (\<lambda>ic. carries Receiver (NvDsUdpConfig media t') ic)"
  unfolding build_nvdsudpsink_def build_nvdsudpsrc_def Let_def
  by (intro yields_intros; auto simp: has_properties_def element_of_def res_iff packet_properties_kept split: option.splits)+

lemmas chains_carry = mxl_chains_carry [THEN yields_D] nvdsudp_chains_carry [THEN yields_D]
  build_udpsink_sends [THEN yields_D] build_udpsrc_receives [THEN yields_D]

lemma no_properties [simp]: "apply_properties_to_element g None = (\<lambda>e. e)"
  by (simp add: fun_eq_iff apply_properties_to_element_def)

lemma update_role_same [simp]: "update_role q (\<lambda>e. e) ic = ic"
  by (simp add: update_role_def)

text \<open>What the code adds to the transport element of a sender afterwards leaves its address alone.\<close>

lemma has_properties_update:
  assumes "has_properties ic ps" "\<And>e k v. (k, v) \<in> set ps \<Longrightarrow> get_property (f e) k = get_property e k"
  shows "has_properties (update_role TransportRole f ic) ps"
  using assms by (fastforce simp: has_properties_def)

lemma sends_media_async:
  "sends_media media ic \<Longrightarrow> sends_media media (update_role TransportRole (set_if_present g ''async'' v) ic)"
  unfolding sends_media_def by fastforce

lemma real_sink_carries:
  assumes "build_real_sink g env app cfg tc = Some (Inr ic)" "app_transport app = None" "app_pay app = None"
  shows "carries Sender tc ic"
proof (cases tc)
  case (MxlConfig domain flow_id fmt t)
  then show ?thesis using assms
    by (auto simp: build_real_sink_def real_sink_chain_def appliers res_iff put_flow_metadata_def
        intro!: has_properties_update dest!: chains_carry(1))
next
  case (UdpConfig v media t)
  then show ?thesis using assms
    by (auto simp: build_real_sink_def real_sink_chain_def appliers res_iff intro!: sends_media_async dest!: chains_carry(5))
next
  case (NvDsUdpConfig media t)
  then show ?thesis using assms
    by (auto simp: build_real_sink_def real_sink_chain_def appliers res_iff Let_def packet_properties_kept
        intro!: has_properties_update dest!: chains_carry(3) split: if_splits)
qed

lemma real_src_carries:
  assumes "build_real_src g env app tc = Some (Inr ic)" "app_transport app = None" "app_pay app = None"
  shows "carries Receiver tc ic"
  using assms by (cases tc) (auto simp: build_real_src_def appliers res_iff dest!: chains_carry(2,4,6))

text \<open>
  The chain that a plan calls for, and the chain behind the anchor with its elements. Properties that the
  application gives for the elements of a real chain come last.
\<close>

fun planned_chain :: "el_env \<Rightarrow> common_settings \<Rightarrow> inner_config \<Rightarrow> inner_chain \<Rightarrow> bool" where
  "planned_chain env cfg (RealInner tc) ic \<longleftrightarrow> build_real env cfg tc = Some (Inr ic) \<and>
     (app_transport (en_app env) = None \<and> app_pay (en_app env) = None \<longrightarrow> carries (cfg_side cfg) tc ic)"
| "planned_chain env cfg (FakeInner _) ic \<longleftrightarrow>
     (\<exists>caps. fake_caps_from_settings (en_host env) cfg = Some (Inr caps) \<and> build_fake env (cfg_side cfg) caps = Some (Inr ic))"

definition has_chain :: "element \<Rightarrow> inner_chain \<Rightarrow> bool" where
  "has_chain el ic \<longleftrightarrow> el_ghost el \<and>
     (\<exists>ch. gb_peer (el_bin el) = Some ch \<and> ch_name ch = ic_name ic \<and> el_built el (ch_id ch) = Some ic)"

lemma swapped_chain:
  assumes "swap_inner env sd drain fallback ic el c = Some (Inr u, el', c')" "el_ok el"
  shows "has_chain el' ic"
  using swap_inner_spec [OF assms] assms(1)
  by (auto simp: has_chain_def chain_of_def swap_inner_def split: if_splits prod.splits)

lemma build_real_carries:
  "build_real env cfg tc = Some (Inr ic) \<Longrightarrow> app_transport (en_app env) = None \<Longrightarrow> app_pay (en_app env) = None \<Longrightarrow>
     carries (cfg_side cfg) tc ic"
  by (auto simp: build_real_def real_sink_carries real_src_carries split: side.splits)

lemma build_planned_Inr:
  "build_planned env cfg inner el c = Some (Inr ic, el', c') \<Longrightarrow>
     el' = el \<and> c' = c \<and> (chain_is_fake (chain_of i ic) \<longleftrightarrow> \<not> is_real inner) \<and> planned_chain env cfg inner ic"
  by (auto simp: build_planned_def run_bind_Inr run_res_Inr fake_is_fake build_real_carries dest: real_is_real split: inner_config.splits)

lemma acknowledge_Inr:
  "acknowledge plan el c = Some (Inr u, el', c') \<longleftrightarrow>
     ap_ack plan = AckSuccess \<and> c' = c \<and>
     el' = set_connection_active (is_real (ap_inner plan)) (if is_real (ap_inner plan) then ''activate'' else ''deactivate'') el"
  by (auto simp: acknowledge_def run_update_def run_fail_def split: activation_ack.splits)

text \<open>The end of both versions: the planned chain is built, swapped in and acknowledged.\<close>

lemma planned_swap:
  assumes built: "build_planned env cfg (ap_inner plan) el c = Some (Inr ic, el, c)" and ok: "el_ok el"
    and swap: "swap_inner env sd drain fallback ic el c = Some (Inr u, el1, c1)"
    and ack: "acknowledge plan el1 c1 = Some (Inr u', el', c')"
  shows "el_active el' = is_real (ap_inner plan) \<and> chain_is_real el' = is_real (ap_inner plan) \<and>
    has_chain el' ic \<and> planned_chain env cfg (ap_inner plan) ic \<and>
    last (el_events el') = NmosActivation (is_real (ap_inner plan)) (if is_real (ap_inner plan) then ''activate'' else ''deactivate'')"
proof -
  have "el_ghost el" "gb_peer (el_bin el1) = Some (chain_of (el_next el) ic)"
      "el1 = el\<lparr>el_bin := el_bin el1, el_next := el_next el1, el_built := el_built el1\<rparr>"
    using swap_inner_spec [OF swap ok] by simp_all
  moreover from this(3) have "el_ghost el1 = el_ghost el" by (metis element.ext_inject element.surjective element.update_convs)
  ultimately show ?thesis
    using ack build_planned_Inr [OF built, of "el_next el"]
    using swapped_chain [OF swap ok]
    by (simp add: acknowledge_Inr chain_is_real_def current_chain_is_real_def set_connection_active_def has_chain_def)
qed

section \<open>The session\<close>

text \<open>Chains, activity and warnings leave the session and its ids alone.\<close>

interpretation session_alone: chain_property "\<lambda>el. el_slot el = s \<and> el_ids el = i" for s i
  by unfold_locales
    (auto simp: keeps_def swap_inner_def set_connection_active_def post_warning_def split: if_splits prod.splits)

section \<open>Published ids\<close>

definition ids_published :: "element \<Rightarrow> bool" where
  "ids_published el \<longleftrightarrow> el_ids el = slot_ids (el_slot el)"

interpretation ids: chain_property ids_published
  by unfold_locales
    (auto simp: keeps_def ids_published_def swap_inner_def set_connection_active_def post_warning_def split: if_splits prod.splits)

lemma ids_of_session: "session_resource_ids (s\<lparr>sn_inflight_sync := i\<rparr>) = session_resource_ids s"
  "session_resource_ids (s\<lparr>sn_inflight_add := j\<rparr>) = session_resource_ids s"
  "session_resource_ids (mark_activation_incomplete s) = session_resource_ids s"
  by (simp_all add: session_resource_ids_def mark_activation_incomplete_def)

lemma sync_keeps_ids: "keeps ids_published (run_sync_active env tf)"
  by (auto simp: keeps_def ids_published_def run_sync_active_def sync_active_def session_sync_resource_state_def slot_ids_def
      open_session_of_def ids_of_session split: prod.splits option.splits session_phase.splits sum.splits if_splits)

lemma mark_keeps_ids: "keeps ids_published (run_update mark_incomplete)"
  by (auto intro!: keeps_update simp: ids_published_def mark_incomplete_def slot_ids_def open_session_of_def ids_of_session
      split: option.splits session_phase.splits)

lemma published: "ids_published (publish_resource_ids sd el)"
  by (simp add: ids_published_def publish_resource_ids_def publish_def)

text \<open>A slot that fails to open holds no session, unless it already did.\<close>

lemma open_slot_Inl:
  "open_slot opener closer slot c = (Inl e, slot', c') \<Longrightarrow> slot' = slot \<or> open_session_of slot' = None \<and> open_session_of slot = None"
  by (auto simp: open_slot_def start_open_def open_session_of_def split: option.splits session_phase.splits open_join.splits prod.splits sum.splits)

lemma open_slot_Inr:
  "open_slot opener closer slot c = (Inr u, slot', c') \<Longrightarrow> \<exists>s. slot' = Some (Open s)"
  by (auto simp: open_slot_def start_open_def split: option.splits session_phase.splits open_join.splits prod.splits sum.splits)

lemma validate_Inl:
  assumes "run_validate_and_open env cfg el c = Some (Inl e, el', c')"
  shows "(el' = el\<lparr>el_slot := el_slot el'\<rparr>) \<and>
    (el_slot el' = el_slot el \<or> open_session_of (el_slot el') = None \<and> open_session_of (el_slot el) = None)"
  using assms
  by (auto simp: run_validate_and_open_def validate_and_open_def split: option.splits sum.splits prod.splits dest!: open_slot_Inl)

lemma add_deferred_ids:
  assumes "run_add_deferred_sender env cfg el c = Some (Inl e, el', c')" "ids_published el"
  shows "ids_published el'"
  using assms
  by (auto simp: ids_published_def run_add_deferred_sender_def add_deferred_sender_def finish_deferred_add_sender_def
      session_add_resource_def slot_ids_def open_session_of_def ids_of_session
      split: option.splits sum.splits prod.splits session_phase.splits if_splits)

section \<open>Sessions\<close>

lemma run_close_Some: "\<exists>slot c1. run_close env el c = Some (Inr (), el\<lparr>el_slot := slot\<rparr>, c1) \<and> open_session_of slot = None"
  by (auto simp: run_close_def close_slot_def take_for_close_def open_session_of_def Let_def
      split: prod.splits option.splits session_phase.splits open_join.splits)

lemma restore_frame:
  assumes "restore_fake_chain env cfg el c = Some (r, el', c')"
  shows "r = Inr () \<and> \<not> el_active el' \<and> el_slot el' = el_slot el \<and> el_ids el' = el_ids el \<and> c' = c"
  using assms
  by (auto simp: restore_fake_chain_def run_bind_def run_update_def run_try_def run_res_def run_ret_def swap_inner_def
      set_connection_active_def split: option.splits sum.splits prod.splits if_splits)

lemma close_spec:
  assumes "element_close_session env cfg el c = Some (r, el', c')"
  shows "r = Inr () \<and> \<not> el_active el' \<and> open_session_of (el_slot el') = None \<and> el_ids el' = default_resource_ids \<and>
    ids_published el'"
proof -
  obtain slot c1 where close: "run_close env el c = Some (Inr (), el\<lparr>el_slot := slot\<rparr>, c1)" "open_session_of slot = None"
    using run_close_Some by blast
  have "restore_fake_chain env cfg (publish_resource_ids (cfg_side cfg) (el\<lparr>el_slot := slot\<rparr>)) c1 = Some (r, el', c')"
    using assms close(1) by (simp add: element_close_session_def run_bind_def run_update_def)
  from restore_frame [OF this] show ?thesis
    using close(2) by (auto simp: publish_resource_ids_def publish_def slot_ids_def ids_published_def)
qed

lemma open_cases:
  assumes "element_open_session env cfg el c = Some (r, el', c')"
  obtains (invalid) e where "run_validate_and_open env cfg el c = Some (Inl e, el', c')" "r = Inl e"
    | (refused) inner el1 c1 e el2 c2 where "run_validate_and_open env cfg el c = Some (Inr inner, el1, c1)"
        "activate_inner env cfg inner el1 c1 = Some (Inl e, el2, c2)" "r = Inl e"
        "element_close_session env cfg el2 c2 = Some (Inr (), el', c')"
    | (opened) inner el1 c1 el2 where "run_validate_and_open env cfg el c = Some (Inr inner, el1, c1)"
        "activate_inner env cfg inner el1 c1 = Some (Inr (), el2, c')" "r = Inr ()"
        "el' = publish_resource_ids (cfg_side cfg) el2"
proof -
  obtain r0 el1 c1 where v: "run_validate_and_open env cfg el c = Some (r0, el1, c1)"
    using assms by (cases "run_validate_and_open env cfg el c") (auto simp: element_open_session_def run_bind_def)
  show thesis
  proof (cases r0)
    case (Inl e)
    then have "r = Inl e \<and> el' = el1 \<and> c' = c1" using v assms by (simp add: element_open_session_def run_bind_def)
    then show thesis using invalid [of e] v Inl by simp
  next
    case (Inr inner)
    then obtain r1 el2 c2 where a: "activate_inner env cfg inner el1 c1 = Some (r1, el2, c2)"
      using assms v
      by (cases "activate_inner env cfg inner el1 c1") (auto simp: element_open_session_def run_bind_def run_try_def)
    show thesis
    proof (cases r1)
      case e: (Inl e)
      then obtain r2 el3 c3 where k: "element_close_session env cfg el2 c2 = Some (r2, el3, c3)"
        using assms v Inr a
        by (cases "element_close_session env cfg el2 c2") (auto simp: element_open_session_def run_bind_def run_try_def)
      then have "r = Inl e \<and> element_close_session env cfg el2 c2 = Some (Inr (), el', c')"
        using assms v Inr a e close_spec [OF k] by (simp add: element_open_session_def run_bind_def run_try_def run_fail_def)
      then show thesis using refused v Inr a e by blast
    next
      case u: (Inr u)
      then have "r = Inr () \<and> el' = publish_resource_ids (cfg_side cfg) el2 \<and> c' = c2"
        using v Inr a assms by (simp add: element_open_session_def run_bind_def run_try_def run_update_def)
      then show thesis using opened [of inner el1 c1 el2] v Inr a u by simp
    qed
  qed
qed

section \<open>Reachable states\<close>

lemma open_ids:
  assumes "element_open_session env cfg el c = Some (r, el', c')" "ids_published el"
  shows "ids_published el'"
  using assms(1)
proof (cases rule: open_cases)
  case (invalid e)
  then show ?thesis using validate_Inl [OF invalid(1)] assms(2)
    by (metis (no_types, lifting) element.ext_inject element.surjective element.update_convs(6) ids_published_def slot_ids_def)
next
  case (refused inner el1 c1 e el2 c2)
  then show ?thesis using close_spec by blast
next
  case (opened inner el1 c1 el2)
  then show ?thesis by (simp add: published)
qed

lemma deferred_ids:
  assumes run: "maybe_add_deferred_sender env cfg el c = Some (r, el', c')" and ids: "ids_published el"
  shows "ids_published el'"
proof (cases "deferred_activation_incomplete el \<or> static_inputs_set cfg \<or> \<not> awaits_sender el \<or> \<not> el_ghost el")
  case True
  then show ?thesis using run ids
    by (auto simp: maybe_add_deferred_sender_def run_get_def run_ret_def run_fail_def split: if_splits)
next
  case False
  obtain r0 el1 c1 where add: "run_add_deferred_sender env cfg el c = Some (r0, el1, c1)"
    using run False
    by (cases "run_add_deferred_sender env cfg el c") (auto simp: maybe_add_deferred_sender_def run_get_def run_bind_def)
  show ?thesis
  proof (cases r0)
    case (Inl e)
    then show ?thesis using run False add add_deferred_ids [of env cfg el c e el1 c1] ids
      by (simp add: maybe_add_deferred_sender_def run_get_def run_bind_def)
  next
    case (Inr inner)
    have rest: "keeps ids_published (run_bind (run_try (activate_inner env cfg inner)) (\<lambda>activated.
        case activated of
          Inl e \<Rightarrow> run_bind (run_update mark_incomplete) (\<lambda>_. run_bind (restore_fake_chain env cfg) (\<lambda>_. run_fail e))
        | Inr u \<Rightarrow> run_ret u))"
      by (intro keeps_rules mark_keeps_ids ids.restore_keeps ids.activate_keeps sync_keeps_ids)
    have "run_bind (run_try (activate_inner env cfg inner)) (\<lambda>activated.
        case activated of
          Inl e \<Rightarrow> run_bind (run_update mark_incomplete) (\<lambda>_. run_bind (restore_fake_chain env cfg) (\<lambda>_. run_fail e))
        | Inr u \<Rightarrow> run_ret u) (publish_resource_ids (cfg_side cfg) el1) c1 = Some (r, el', c')"
      using run False add Inr
      by (simp add: maybe_add_deferred_sender_def run_get_def run_bind_def [of "run_add_deferred_sender env cfg"]
          run_bind_def [of "run_update (publish_resource_ids (cfg_side cfg))"] run_update_def [of "publish_resource_ids (cfg_side cfg)"])
    then show ?thesis by (rule keepsD [OF rest _ published])
  qed
qed

inductive element_reach :: "side \<Rightarrow> element \<Rightarrow> bool" for sd where
  built: "element_reach sd (constructed env sd)"
| state_change: "element_reach sd el \<Longrightarrow> cfg_side cfg = sd \<Longrightarrow> change_state env cfg t el c = Some (r, el', c') \<Longrightarrow>
    element_reach sd el'"
| activation: "element_reach sd el \<Longrightarrow> cfg_side cfg = sd \<Longrightarrow> apply_activation env cfg req el c = Some (outcome, el', c') \<Longrightarrow>
    element_reach sd el'"
| inner_error: "element_reach sd el \<Longrightarrow> cfg_side cfg = sd \<Longrightarrow> handle_inner_error env cfg source el c = Some (r, el', c') \<Longrightarrow>
    element_reach sd el'"

lemma constructed_ok: "el_ok (constructed env sd)" "ids_published (constructed env sd)"
  by (auto simp: constructed_def el_ok_def bin_ok_def build_initial_def chain_of_def ids_published_def slot_ids_def
      open_session_of_def Let_def split: option.splits sum.splits)

lemma change_state_ids:
  assumes run: "change_state env cfg t el c = Some (r, el', c')" and ids: "ids_published el"
  shows "ids_published el'"
proof -
  have "keeps ids_published (element_open_session env cfg)" "keeps ids_published (maybe_add_deferred_sender env cfg)"
      "keeps ids_published (element_close_session env cfg)"
    unfolding keeps_def by (auto dest: open_ids deferred_ids close_spec)
  then have "keeps ids_published (change_state env cfg t)"
    unfolding change_state_def sink_change_state_def src_change_state_def parent_change_state_def
    by (cases "cfg_side cfg"; cases t) (simp_all add: keeps_rules ids.prepare_keeps)
  then show ?thesis using keepsD run ids by blast
qed

lemma reach_ok: "element_reach sd el \<Longrightarrow> el_ok el \<and> ids_published el"
proof (induction rule: element_reach.induct)
  case (built env)
  then show ?case using constructed_ok by blast
next
  case (state_change el cfg env t c r el' c')
  then show ?case using keepsD [OF bin.change_state_keeps] change_state_ids by blast
next
  case (activation el cfg env req c outcome el' c')
  then show ?case using bin.activation_keeps ids.activation_keeps by blast
next
  case (inner_error el cfg env source c r el' c')
  then show ?case using keepsD [OF bin.error_keeps] keepsD [OF ids.error_keeps] by blast
qed

text \<open>
  C26. In every state an element reaches, whatever the daemon answers and GStreamer refuses: the anchor
  is not blocked and is linked to one of the chains in the bin or to none, no chain is in the bin
  twice, and the read-only ids are those of the open session, or empty without one.
\<close>

theorem element_invariant:
  assumes "element_reach sd el"
  shows "\<not> gb_blocked (el_bin el) \<and> distinct (gb_children (el_bin el)) \<and>
    (\<forall>ch. gb_peer (el_bin el) = Some ch \<longrightarrow> ch \<in> set (gb_children (el_bin el))) \<and>
    el_ids el = (case el_slot el of Some (Open s) \<Rightarrow> session_resource_ids s | _ \<Rightarrow> default_resource_ids)"
  using reach_ok [OF assms]
  by (auto simp: el_ok_def bin_ok_def ids_published_def slot_ids_def open_session_of_def split: option.splits session_phase.splits)

section \<open>Outcomes\<close>

text \<open>What an operation leaves alone: the session, its ids, and what was reported about activity.\<close>

definition reports :: "element \<Rightarrow> element_event list" where
  "reports el = filter (\<lambda>ev. case ev of NmosActivation _ _ \<Rightarrow> True | _ \<Rightarrow> False) (el_events el)"

definition same_reports :: "element \<Rightarrow> element \<Rightarrow> bool" where
  "same_reports el0 el \<longleftrightarrow> el_active el = el_active el0 \<and> reports el = reports el0"

lemma swap_same: "keeps (same_reports el0) (swap_inner env sd drain fallback ic)"
  by (auto simp: keeps_def same_reports_def reports_def swap_inner_def split: prod.splits if_splits)

lemma warning_same: "keeps (same_reports el0) (run_update post_warning)"
  by (auto intro!: keeps_update simp: same_reports_def reports_def post_warning_def)

lemma before_ack_same:
  "keeps (same_reports el0) (fake_hop env cfg drain plan)" "keeps (same_reports el0) (build_planned env cfg inner)"
  "keeps (same_reports el0) (restore_after_failed_swap env cfg)"
  "keeps (same_reports el0) h \<Longrightarrow> keeps (same_reports el0) (swap_or_warn env sd drain fallback ic h)"
  unfolding fake_hop_def swap_or_warn_def build_planned_def restore_after_failed_swap_def
  by (intro keeps_rules swap_same warning_same; assumption?)+

text \<open>A failure of the last step of a sequence, or before it.\<close>

lemma keeps_failure:
  assumes "keeps P m" "\<And>a el c e el' c'. P el \<Longrightarrow> f a el c = Some (Inl e, el', c') \<Longrightarrow> P el'"
    and "run_bind m f el c = Some (Inl e, el', c')" "P el"
  shows "P el'"
proof -
  obtain r el1 c1 where m: "m el c = Some (r, el1, c1)" using assms(3) by (cases "m el c") (auto simp: run_bind_def)
  then have "P el1" using keepsD [OF assms(1)] assms(4) by blast
  then show ?thesis using assms(2,3) m by (cases r) (auto simp: run_bind_def)
qed

lemma acknowledge_Inl: "acknowledge plan el c = Some (Inl e, el', c') \<Longrightarrow> el' = el"
  by (auto simp: acknowledge_def run_update_def run_fail_def split: activation_ack.splits)

lemma sink_failure:
  assumes "sink_execute_activation_plan env cfg plan el c = Some (Inl e, el', c')"
  shows "same_reports el el'"
proof -
  have "same_reports el el" by (simp add: same_reports_def)
  then show ?thesis using assms unfolding sink_execute_activation_plan_def
    by (elim keeps_failure [rotated 2]) (auto intro: before_ack_same keeps_rules dest!: acknowledge_Inl elim!: keeps_failure [rotated 2])
qed

lemma src_failure:
  assumes "src_execute_activation_plan env cfg plan el c = Some (Inl e, el', c')"
  shows "same_reports el el'"
proof -
  have "same_reports el el" by (simp add: same_reports_def)
  then show ?thesis using assms unfolding src_execute_activation_plan_def run_get_def Let_def
    by (elim keeps_failure [rotated 2]) (auto intro: before_ack_same keeps_rules dest!: acknowledge_Inl elim!: keeps_failure [rotated 2])
qed

lemma hop_ok: "keeps el_ok (fake_hop env cfg drain plan)"
  unfolding fake_hop_def swap_or_warn_def by (intro bin.chain_steps)

lemma execute_success:
  assumes run: "execute_activation_plan env cfg plan el c = Some (Inr u, el', c')" and ok: "el_ok el"
  shows "ap_ack plan = AckSuccess \<and> el_active el' = is_real (ap_inner plan) \<and> chain_is_real el' = is_real (ap_inner plan) \<and>
    (\<exists>ic. has_chain el' ic \<and> planned_chain env cfg (ap_inner plan) ic) \<and>
    last (el_events el') = NmosActivation (is_real (ap_inner plan)) (if is_real (ap_inner plan) then ''activate'' else ''deactivate'')"
proof -
  obtain drain fallback sd el1 c1 ic el2 c2 u2 where steps: "fake_hop env cfg drain plan el c = Some (Inr (), el1, c1)"
      "build_planned env cfg (ap_inner plan) el1 c1 = Some (Inr ic, el1, c1)"
      "swap_inner env sd drain fallback ic el1 c1 = Some (Inr u2, el2, c2)" "acknowledge plan el2 c2 = Some (Inr u, el', c')"
    using run
    by (cases "cfg_side cfg")
      (fastforce simp: execute_activation_plan_def sink_execute_activation_plan_def src_execute_activation_plan_def run_get_def
        Let_def run_bind_Inr run_res_Inr swap_or_warn_Inr dest: build_planned_Inr)+
  have "el_ok el1" using keepsD [OF hop_ok steps(1) ok] .
  from planned_swap [OF steps(2) this steps(3,4)] show ?thesis using steps(4) by (auto simp: acknowledge_Inr)
qed

section \<open>Opening and closing\<close>

definition holds_session :: "element \<Rightarrow> bool" where
  "holds_session el \<longleftrightarrow> open_session_of (el_slot el) \<noteq> None"

interpretation held: chain_property holds_session
  by unfold_locales
    (auto simp: holds_session_def keeps_def swap_inner_def set_connection_active_def post_warning_def split: prod.splits if_splits)

lemma sync_keeps_open: "keeps holds_session (run_sync_active env tf)"
  by (auto simp: keeps_def holds_session_def run_sync_active_def sync_active_def open_session_of_def
      split: prod.splits option.splits session_phase.splits sum.splits if_splits)

lemma validate_Inr:
  "run_validate_and_open env cfg el c = Some (Inr inner, el', c') \<Longrightarrow> holds_session el'"
  by (auto simp: run_validate_and_open_def validate_and_open_def holds_session_def open_session_of_def
      split: option.splits sum.splits prod.splits dest!: open_slot_Inr)

text \<open>
  Going to \<^verbatim>\<open>READY\<close> is all or nothing. When it succeeds there is an open session and the read-only
  ids are its ids. When it fails, whatever step failed, no session stays behind, unless one was
  open before, which is then untouched.
\<close>

theorem open_all_or_nothing:
  assumes "element_open_session env cfg el c = Some (r, el', c')"
  shows "case r of
      Inr _ \<Rightarrow> \<exists>s. el_slot el' = Some (Open s) \<and> el_ids el' = session_resource_ids s
    | Inl _ \<Rightarrow> open_session_of (el_slot el') = None \<or> el_slot el' = el_slot el"
  using assms
proof (cases rule: open_cases)
  case (invalid e)
  then show ?thesis using validate_Inl by fastforce
next
  case (refused inner el1 c1 e el2 c2)
  then show ?thesis using close_spec by fastforce
next
  case (opened inner el1 c1 el2)
  have "holds_session el2"
    using keepsD [OF held.activate_keeps [OF sync_keeps_open] opened(2)] validate_Inr [OF opened(1)] by blast
  then show ?thesis using opened(3,4)
    by (auto simp: holds_session_def open_session_of_def publish_resource_ids_def publish_def slot_ids_def
        split: option.splits session_phase.splits)
qed

section \<open>Rejected activations\<close>

definition never_rejects :: "'a run \<Rightarrow> bool" where
  "never_rejects m \<longleftrightarrow> (\<forall>el c el' c'. m el c \<noteq> Some (Inl PlanRejected, el', c'))"

named_theorems never_rules

lemma never_basic [never_rules]:
  "never_rejects (run_ret a)" "never_rejects (run_res r)" "never_rejects (run_try m)" "never_rejects (run_update g)"
  "never_rejects (swap_inner env sd drain fallback ic)" "e \<noteq> PlanRejected \<Longrightarrow> never_rejects (run_fail e)"
  by (auto simp: never_rejects_def run_ret_def run_fail_def run_res_def run_try_def run_update_def swap_inner_def
      split: option.splits sum.splits prod.splits)

lemma never_bind [never_rules]:
  "never_rejects m \<Longrightarrow> (\<And>a. never_rejects (f a)) \<Longrightarrow> never_rejects (run_bind m f)"
  by (fastforce simp: never_rejects_def run_bind_def split: option.splits sum.splits)

lemma never_cases [never_rules]:
  "(\<And>el. never_rejects (f el)) \<Longrightarrow> never_rejects (run_get f)"
  "never_rejects m \<Longrightarrow> never_rejects n \<Longrightarrow> never_rejects (if b then m else n)"
  "(\<And>tc. never_rejects (k tc)) \<Longrightarrow> (\<And>q. never_rejects (l q)) \<Longrightarrow>
    never_rejects (case inner of RealInner tc \<Rightarrow> k tc | FakeInner q \<Rightarrow> l q)"
  by (auto simp: never_rejects_def run_get_def split: inner_config.splits)

lemma swap_or_warn_never [never_rules]:
  assumes "never_rejects h"
  shows "never_rejects (swap_or_warn env sd drain fallback ic h)"
  unfolding never_rejects_def
proof (intro allI notI)
  fix el c el' c'
  assume run: "swap_or_warn env sd drain fallback ic h el c = Some (Inl PlanRejected, el', c')"
  then obtain e el1 c1 where "swap_inner env sd drain fallback ic el c = Some (Inl e, el1, c1)"
    by (auto simp: swap_or_warn_def run_bind_def run_try_def run_ret_def split: option.splits sum.splits)
  moreover have "e = SwapRefused"
    using calculation by (auto simp: swap_inner_def split: if_splits prod.splits)
  ultimately show False
    using run assms by (auto simp: swap_or_warn_def run_bind_def run_try_def run_update_def run_fail_def never_rejects_def
        split: option.splits sum.splits)
qed

lemma before_ack_never [never_rules]:
  "never_rejects (fake_hop env cfg drain plan)" "never_rejects (build_planned env cfg inner)"
  unfolding fake_hop_def build_planned_def by (intro never_rules)+

lemma restore_never: "never_rejects (restore_after_failed_swap env cfg)"
  by (auto simp: never_rejects_def restore_after_failed_swap_def run_bind_def run_try_def run_res_def run_ret_def
      split: option.splits sum.splits)

lemma rejection_passes:
  assumes "never_rejects m" "run_bind m f el c = Some (Inl PlanRejected, el', c')"
  shows "\<exists>a el1 c1. m el c = Some (Inr a, el1, c1) \<and> f a el1 c1 = Some (Inl PlanRejected, el', c')"
  using assms by (auto simp: run_bind_def never_rejects_def split: option.splits sum.splits)

lemma execute_rejected:
  assumes "execute_activation_plan env cfg plan el c = Some (Inl PlanRejected, el', c')"
  obtains drain fallback sd el1 c1 ic u where "fake_hop env cfg drain plan el c = Some (Inr (), el1, c1)"
      "build_planned env cfg (ap_inner plan) el1 c1 = Some (Inr ic, el1, c1)"
      "swap_inner env sd drain fallback ic el1 c1 = Some (Inr u, el', c')" "ap_ack plan = AckFailure"
  using assms
  by (cases "cfg_side cfg")
    (force simp: execute_activation_plan_def sink_execute_activation_plan_def src_execute_activation_plan_def run_get_def Let_def
      acknowledge_def run_fail_def run_update_def run_res_Inr swap_or_warn_Inr
      dest!: rejection_passes [rotated] dest: build_planned_Inr
      intro!: never_rules restore_never split: activation_ack.splits)+

lemma failure_is_fake: "make_activation_plan h cfg req = Some plan \<Longrightarrow> ap_ack plan = AckFailure \<Longrightarrow> \<not> is_real (ap_inner plan)"
  by (auto simp: make_activation_plan_def activation_inner_def resolve_activation_inner_mxl_def rejected_def
      split: if_splits option.splits sum.splits inner_config.splits prod.splits)

lemma rejected_chain:
  assumes "el_ok el" "make_activation_plan h cfg req = Some plan"
    and "execute_activation_plan env cfg plan el c = Some (Inl PlanRejected, el', c')"
  shows "(\<exists>ic. has_chain el' ic \<and> planned_chain env cfg (ap_inner plan) ic) \<and> chain_is_real el' = is_real (ap_inner plan) \<and>
    ap_ack plan = AckFailure \<and> \<not> is_real (ap_inner plan)"
proof -
  obtain drain fallback sd el1 c1 ic u where steps: "fake_hop env cfg drain plan el c = Some (Inr (), el1, c1)"
      "build_planned env cfg (ap_inner plan) el1 c1 = Some (Inr ic, el1, c1)"
      "swap_inner env sd drain fallback ic el1 c1 = Some (Inr u, el', c')" "ap_ack plan = AckFailure"
    using execute_rejected [OF assms(3)] .
  have ok: "el_ok el1" using keepsD [OF hop_ok steps(1) assms(1)] .
  then have "gb_peer (el_bin el') = Some (chain_of (el_next el1) ic)" using swap_inner_spec [OF steps(3)] by simp
  moreover have "\<not> is_real (ap_inner plan)" using failure_is_fake [OF assms(2) steps(4)] .
  ultimately show ?thesis
    using build_planned_Inr [OF steps(2)] swapped_chain [OF steps(3) ok] steps(4)
    by (auto simp: chain_is_real_def current_chain_is_real_def)
qed

text \<open>
  An activation that the plan rejects is answered as failed only after the chain was replaced by
  a fake one; \<^verbatim>\<open>active\<close> is not changed, so that an element that was active stays \<^verbatim>\<open>active\<close> without a
  real chain.
\<close>

theorem rejected_activation_stays_active:
  assumes "el_ok el" "make_activation_plan (en_host env) cfg req = Some plan"
    and "execute_activation_plan env cfg plan el c = Some (Inl PlanRejected, el', c')"
  shows "apply_activation env cfg req el c = Some (ApplyFailed [], el', c') \<and> \<not> chain_is_real el' \<and>
    el_active el' = el_active el"
proof -
  have "same_reports el el'"
    using assms(3) sink_failure src_failure by (auto simp: execute_activation_plan_def split: side.splits)
  then show ?thesis using assms(2,3) rejected_chain [OF assms] by (simp add: apply_activation_def same_reports_def)
qed

text \<open>
  C27. What the daemon is told about an activation is what the element did. When it is applied, the
  plan called for it, the chain behind the anchor is the planned one, element by element with all
  properties (with the address and port, or the domain and flow, of the plan, unless the application
  gives properties of its own), and the property \<^verbatim>\<open>active\<close> and the message on the bus say whether it is a real one.
  When it failed, \<^verbatim>\<open>active\<close> and what was reported of it are as before; and when it failed because the
  plan is one to reject, the planned chain is there all the same, and it is a fake one: an element that
  was active then has \<^verbatim>\<open>active\<close> set without a real chain, at odds with the documentation of that
  property. The session is left alone in all cases.
\<close>

theorem activation_outcome_truthful:
  assumes "element_reach sd el" "apply_activation env cfg req el c = Some (outcome, el', c')"
  shows "el_slot el' = el_slot el \<and> el_ids el' = el_ids el \<and>
    (\<exists>plan r. make_activation_plan (en_host env) cfg req = Some plan \<and>
      execute_activation_plan env cfg plan el c = Some (r, el', c') \<and> outcome = (if r = Inr () then Applied else ApplyFailed []) \<and>
      (r = Inr () \<or> r = Inl PlanRejected \<longrightarrow>
        (\<exists>ic. has_chain el' ic \<and> planned_chain env cfg (ap_inner plan) ic) \<and> chain_is_real el' = is_real (ap_inner plan)) \<and>
      (r = Inr () \<longrightarrow> ap_ack plan = AckSuccess \<and> el_active el' = is_real (ap_inner plan) \<and>
        last (el_events el') = NmosActivation (is_real (ap_inner plan)) (if is_real (ap_inner plan) then ''activate'' else ''deactivate'')) \<and>
      (r \<noteq> Inr () \<longrightarrow> el_active el' = el_active el \<and> reports el' = reports el) \<and>
      (r = Inl PlanRejected \<longrightarrow> ap_ack plan = AckFailure \<and> \<not> is_real (ap_inner plan)))"
proof -
  have ok: "el_ok el" using reach_ok [OF assms(1)] by blast
  obtain plan r where plan: "make_activation_plan (en_host env) cfg req = Some plan"
      "execute_activation_plan env cfg plan el c = Some (r, el', c')" "outcome = (if r = Inr () then Applied else ApplyFailed [])"
    using assms(2) by (fastforce simp: apply_activation_def split: option.splits sum.splits prod.splits)
  have "same_reports el el'" if "r = Inl e" for e
    using plan(2) that sink_failure src_failure by (auto simp: execute_activation_plan_def split: side.splits)
  moreover have "el_slot el' = el_slot el \<and> el_ids el' = el_ids el" using session_alone.activation_keeps [OF assms(2)] by simp
  moreover have "(\<exists>ic. has_chain el' ic \<and> planned_chain env cfg (ap_inner plan) ic) \<and> chain_is_real el' = is_real (ap_inner plan) \<and>
      ap_ack plan = AckFailure \<and> \<not> is_real (ap_inner plan)" if "r = Inl PlanRejected"
    using rejected_chain [OF ok plan(1), of env c el' c'] plan(2) that by simp
  ultimately show ?thesis using plan execute_success [OF _ ok, of env cfg plan c _ el' c']
    by (intro conjI exI [of _ plan] exI [of _ r]) (cases r; auto simp: same_reports_def)+
qed

section \<open>Examples\<close>

definition demo_world :: el_env where
  "demo_world = \<lparr>en_daemon = demo_env, en_url = (\<lambda>_. None), en_host = demo_host, en_gst = demo_gst,
     en_app = \<lparr>app_transport = None, app_pay = None\<rparr>, en_fate = (\<lambda>_ _. True), en_pad = (\<lambda>_. True), en_fixate = id,
     en_peer = PeerAny, en_playing = True, en_parent = True\<rparr>"

text \<open>Settings without a static description, on the side of a receiver.\<close>

definition demo_receiver :: common_settings where
  "demo_receiver = demo_cfg\<lparr>cfg_side := Receiver, cfg_transport_file := []\<rparr>"

definition demo_client :: client where
  "demo_client = \<lparr>clock = 0, calls = []\<rparr>"

theorem element_invariant_witness:
  "gb_peer (el_bin (constructed demo_world Receiver)) = Some \<lparr>ch_id = 0, ch_name = ''nmossrc-fake''\<rparr> \<and>
   distinct (gb_children (el_bin (constructed demo_world Receiver))) \<and>
   el_ids (constructed demo_world Receiver) = default_resource_ids"
  using element_invariant [OF element_reach.built [of Receiver demo_world]]
  by (simp add: constructed_def build_fake_def build_fake_src_def make_element_def bind_res_def give_def demo_world_def demo_gst_def
      build_initial_def chain_of_def Let_def)

text \<open>A sender that the daemon activates with a description of audio, and that is deactivated.\<close>

definition demo_sender_world :: el_env where
  "demo_sender_world = demo_world\<lparr>en_host := demo_host\<lparr>he_sdp := demo_sdp\<lparr>sdp_parse := \<lambda>_. SdpGood demo_rtp_media\<rparr>\<rparr>\<rparr>"

definition demo_real :: transport_config where
  "demo_real = UdpConfig UdpV2 demo_rtp_media (Some ''sdp'')"

lemma demo_sender_chain:
  "\<exists>live e. build_real demo_sender_world (demo_cfg\<lparr>cfg_transport := TrUdp2\<rparr>) demo_real = Some (Inr live) \<and>
    element_of TransportRole live = Some e \<and> get_property e ''port'' = Some (PNum 5004)"
proof -
  have stem: "rtp_stem FmtAudio ''L24'' = Some ''rtpL24''" by code_simp
  then show ?thesis
    by (simp add: build_real_def build_real_sink_def real_sink_chain_def build_udpsink_def demo_rtp_media_def demo_gst_def demo_world_def
        demo_sender_world_def demo_real_def demo_cfg_def rtp_structure_def field_string_def field_int_def i32_range_def need_def give_def
        bind_res_def pay_ptime_ns_def select_rtp_factory_def make_element_def wire_def prepend_sink_capsfilter_def element_of_def
        configured_properties update_role_def set_if_present_def set_property_def get_property_def apply_udp_inner_properties_def
        apply_properties_to_element_def update_conv' configure_udpsink_def set_property_opt_def split: option.split)
qed

theorem activation_outcome_truthful_witness:
  "(\<exists>el c. apply_activation demo_world demo_receiver (demo_activation\<lparr>arq_side := Receiver, arq_transport_file := None\<rparr>)
      (constructed demo_world Receiver) demo_client = Some (Applied, el, c) \<and>
    \<not> el_active el \<and> \<not> chain_is_real el \<and> last (el_events el) = NmosActivation False ''deactivate'') \<and>
   (\<exists>el c ic e. apply_activation demo_sender_world (demo_cfg\<lparr>cfg_transport := TrUdp2\<rparr>)
        (demo_activation\<lparr>arq_transport_file := Some ''sdp''\<rparr>) (constructed demo_sender_world Sender) demo_client = Some (Applied, el, c) \<and>
    el_active el \<and> has_chain el ic \<and> element_of TransportRole ic = Some e \<and> get_property e ''port'' = Some (PNum 5004))"
proof -
  let ?req = "demo_activation\<lparr>arq_side := Receiver, arq_transport_file := None\<rparr>" and ?el = "constructed demo_world Receiver"
  note evaluate = apply_activation_def make_activation_plan_def execute_activation_plan_def src_execute_activation_plan_def
    sink_execute_activation_plan_def run_get_def run_bind_def run_res_def fake_hop_def run_ret_def build_planned_def
    fake_caps_from_settings_def swap_or_warn_def run_try_def swap_inner_def rebuild_chain_with_opts_def release_fake_wait_def
    stop_source_first_def swap_chain_inner_def remove_old_chain_def install_new_chain_def attempt_def do_op_def acknowledge_def
    run_update_def constructed_def build_fake_def build_fake_src_def build_fake_sink_def make_element_def bind_res_def give_def
    wire_def demo_world_def demo_gst_def build_initial_def chain_of_def fallback_of_def demo_receiver_def demo_cfg_def side_dir_def Let_def
    chain_is_real_def current_chain_is_real_def chain_is_fake_def ends_with_def
  have "\<exists>el c. apply_activation demo_world demo_receiver ?req ?el demo_client = Some (Applied, el, c)"
    by (simp add: evaluate)
  then obtain el c where run: "apply_activation demo_world demo_receiver ?req ?el demo_client = Some (Applied, el, c)" by blast
  have "make_activation_plan (en_host demo_world) demo_receiver ?req = Some \<lparr>ap_inner = FakeInner NotActive, ap_ack = AckSuccess\<rparr>"
    by (simp add: make_activation_plan_def demo_receiver_def)
  with activation_outcome_truthful [OF element_reach.built run] run
  have inactive: "\<not> el_active el \<and> \<not> chain_is_real el \<and> last (el_events el) = NmosActivation False ''deactivate''"
    by (auto split: if_splits)
  let ?cfg = "demo_cfg\<lparr>cfg_transport := TrUdp2\<rparr>" and ?req' = "demo_activation\<lparr>arq_transport_file := Some ''sdp''\<rparr>"
    and ?el' = "constructed demo_sender_world Sender"
  obtain live e where live: "build_real demo_sender_world ?cfg demo_real = Some (Inr live)"
      "element_of TransportRole live = Some e" "get_property e ''port'' = Some (PNum 5004)"
    using demo_sender_chain by blast
  have plan: "make_activation_plan (en_host demo_sender_world) ?cfg ?req' = Some \<lparr>ap_inner = RealInner demo_real, ap_ack = AckSuccess\<rparr>"
    by (simp add: make_activation_plan_def activation_inner_def decide_inner_config_rtp_def decide_inner_config_udp_def
        finish_udp_inner_config_def demo_sender_world_def demo_world_def demo_host_def demo_sdp_def demo_cfg_def demo_activation_def
        demo_real_def bind_res_def need_def need_sdp_def give_def)
  have caps: "fake_caps_from_settings (en_host demo_sender_world) ?cfg =
      Some (Inr (Some (essence_caps_from (um_caps demo_rtp_media) (Some (um_rtp_caps demo_rtp_media)))))"
    by (simp add: fake_caps_from_settings_def caps_from_transport_file_def demo_cfg_def demo_sender_world_def demo_world_def demo_sdp_def
        demo_host_def need_sdp_def bind_res_def give_def)
  have "\<exists>el c. execute_activation_plan demo_sender_world ?cfg \<lparr>ap_inner = RealInner demo_real, ap_ack = AckSuccess\<rparr> ?el' demo_client =
      Some (Inr (), el, c)"
    using live(1) caps by (simp add: evaluate demo_sender_world_def)
  then obtain el' c' where run': "apply_activation demo_sender_world ?cfg ?req' ?el' demo_client = Some (Applied, el', c')"
    by (auto simp: apply_activation_def plan)
  from activation_outcome_truthful [OF element_reach.built run'] plan live
  have "el_active el' \<and> has_chain el' live" by (auto split: if_splits)
  then show ?thesis using inactive run run' live by blast
qed

text \<open>A receiver that is active on an MXL chain.\<close>

definition demo_live :: element where
  "demo_live = (constructed demo_world Receiver)
     \<lparr>el_bin := build_initial \<lparr>ch_id = 0, ch_name = ''nmossrc-mxl''\<rparr>, el_active := True\<rparr>"

theorem rejected_activation_stays_active_witness:
  "chain_is_real demo_live \<and>
   (\<exists>el c. apply_activation demo_world demo_receiver demo_activation demo_live demo_client = Some (ApplyFailed [], el, c) \<and>
     \<not> chain_is_real el \<and> el_active el)"
proof -
  have start: "el_ok demo_live" "chain_is_real demo_live" "el_active demo_live"
    by (auto simp: demo_live_def el_ok_def bin_ok_def build_initial_def chain_is_real_def current_chain_is_real_def chain_is_fake_def
        ends_with_def constructed_def build_fake_def build_fake_src_def make_element_def bind_res_def give_def demo_world_def
        demo_gst_def Let_def)
  have plan: "make_activation_plan (en_host demo_world) demo_receiver demo_activation = Some rejected"
    by (simp add: make_activation_plan_def demo_receiver_def demo_activation_def)
  have "\<exists>el c. execute_activation_plan demo_world demo_receiver rejected demo_live demo_client = Some (Inl PlanRejected, el, c)"
    by (simp add: execute_activation_plan_def src_execute_activation_plan_def rejected_def demo_live_def
        run_get_def run_bind_def run_res_def fake_hop_def run_ret_def build_planned_def fake_caps_from_settings_def
        swap_or_warn_def run_try_def swap_inner_def rebuild_chain_with_opts_def release_fake_wait_def stop_source_first_def
        swap_chain_inner_def remove_old_chain_def install_new_chain_def attempt_def do_op_def acknowledge_def run_fail_def
        constructed_def build_fake_def build_fake_src_def make_element_def bind_res_def give_def demo_world_def demo_gst_def
        build_initial_def chain_of_def fallback_of_def demo_receiver_def demo_cfg_def side_dir_def Let_def
        chain_is_real_def current_chain_is_real_def chain_is_fake_def ends_with_def)
  then obtain el c where "execute_activation_plan demo_world demo_receiver rejected demo_live demo_client = Some (Inl PlanRejected, el, c)"
    by blast
  from rejected_activation_stays_active [OF start(1) plan this] show ?thesis using start by auto
qed

lemma demo_resolves:
  "resolve_config demo_host demo_cfg = Some (Inr (RealInner (UdpConfig UdpV1 demo_media (Some ''sdp'')), Some ''sdp'', ''cam''))"
proof -
  have "decide_inner_config_rtp demo_host demo_cfg (Some ''sdp'') CheckFull =
      Some (Inr (RealInner (UdpConfig UdpV1 demo_media (Some ''sdp''))))"
    by (simp add: decide_inner_config_rtp_def decide_inner_config_udp_def finish_udp_inner_config_def demo_cfg_def
        demo_host_def demo_sdp_def bind_res_def need_def need_sdp_def give_def)
  then show ?thesis
    by (simp add: resolve_config_def resolve_transport_file_def resolve_inner_config_rtp_def synthesise_or_passthrough_udp_def
        passthrough_user_transport_file_def bit_rates_from_properties_def cross_check_bit_rates_def
        gate_deferred_sender_udp_def apply_auto_activate_policy_def is_unspecified_destination_def resolve_resource_name_def
        demo_cfg_def demo_host_def demo_sdp_def demo_media_def demo_leg_def bind_res_def need_def need_sdp_def give_def Let_def)
qed

text \<open>The URI of the daemon in \<open>demo_cfg\<close> is empty.\<close>

theorem open_all_or_nothing_witness:
  "\<exists>e el c. element_open_session demo_world demo_cfg (constructed demo_world Sender) demo_client = Some (Inl e, el, c) \<and>
    open_session_of (el_slot el) = None"
proof -
  have slot: "el_slot (constructed demo_world Sender) = None"
    by (auto simp: constructed_def Let_def split: option.splits sum.splits)
  have "\<exists>e c. validate_and_open demo_env (en_url demo_world) demo_host demo_cfg None demo_client = Some (Inl e, None, c)"
    unfolding validate_and_open_def demo_resolves
    by (simp add: open_slot_def start_open_def session_open_def request_session_def
        parse_unix_uri_def strip_prefix_def spawn_task_def wait_for_task_def ret_def demo_client_def demo_cfg_def starts_with_def
        split: sum.split)
  then have "\<exists>e el c. element_open_session demo_world demo_cfg (constructed demo_world Sender) demo_client = Some (Inl e, el, c)"
    using slot by (auto simp: element_open_session_def run_bind_def run_validate_and_open_def demo_world_def)
  then show ?thesis using open_all_or_nothing slot by (fastforce simp: open_session_of_def)
qed

end
