(* ===== verification/Gst_Sdp.thy ===== *)
theory Gst_Sdp
  imports Gst_Chains
begin

text \<open>
  Session descriptions of RTP streams (\<^verbatim>\<open>sdp.rs\<close>), first part: reading them.

  An SDP message is a tree of attributes and media blocks, as the SDP library of GStreamer gives it;
  lines that the code neither reads nor writes are kept aside (\<open>msg_other\<close>, \<open>sm_other\<close>). The library
  is \<open>sdp_lib\<close>, a parameter: reading and printing a message, the caps of a media block, and what
  \<^verbatim>\<open>sdp.rs\<close> uses of caps, of network interfaces, of hashing, and the text of a number of
  milliseconds. An attribute without value has the value \<open>None\<close>. Texts of errors are left out; a
  panic is an error of its own.
\<close>

section \<open>Text\<close>

text \<open>\<^verbatim>\<open>str::split\<close>, \<^verbatim>\<open>str::split_whitespace\<close>, \<^verbatim>\<open>str::trim_start\<close>.\<close>

fun split_on :: "char \<Rightarrow> string \<Rightarrow> string list" where
  "split_on d [] = [[]]"
| "split_on d (c # cs) =
     (if c = d then [] # split_on d cs
      else (case split_on d cs of [] \<Rightarrow> [[c]] | piece # rest \<Rightarrow> (c # piece) # rest))"

fun words_from :: "string \<Rightarrow> string \<Rightarrow> string list" where
  "words_from acc [] = (if acc = [] then [] else [rev acc])"
| "words_from acc (c # cs) =
     (if is_ws c then (if acc = [] then words_from [] cs else rev acc # words_from [] cs)
      else words_from (c # acc) cs)"

definition split_whitespace :: "string \<Rightarrow> string list" where
  "split_whitespace s = words_from [] s"

definition trim_start :: "string \<Rightarrow> string" where
  "trim_start s = dropWhile is_ws s"

definition trim_end_cr :: "string \<Rightarrow> string" where
  "trim_end_cr s = rev (dropWhile (\<lambda>c. c = CHR 0x0D) (rev s))"

text \<open>\<^verbatim>\<open>i32::from_str\<close>.\<close>

definition parse_i32 :: "string \<Rightarrow> int option" where
  "parse_i32 s =
     (case s of
        c # cs \<Rightarrow>
          if c = CHR ''-''
          then (if cs = [] then None
                else case parse_digits 0 cs of Some n \<Rightarrow> if n \<le> 2 ^ 31 then Some (- int n) else None | None \<Rightarrow> None)
          else map_option int (parse_unsigned (2 ^ 31 - 1) s)
      | [] \<Rightarrow> None)"

definition parse_u16 :: "string \<Rightarrow> port option" where
  "parse_u16 s = map_option of_nat (parse_unsigned 65535 s)"

definition parse_u64 :: "string \<Rightarrow> u64 option" where
  "parse_u64 s = map_option of_nat (parse_unsigned (2 ^ 64 - 1) s)"

definition show_u64 :: "u64 \<Rightarrow> string" where
  "show_u64 n = show_nat (unat n)"

section \<open>Messages\<close>

type_synonym sdp_attributes = "(string \<times> string option) list"

record sdp_connection =
  sc_nettype :: "string option"
  sc_addrtype :: "string option"
  sc_address :: "string option"
  sc_ttl :: u32
  sc_addr_number :: u32

record sdp_media =
  sm_media :: "string option"
  sm_port :: u32
  sm_num_ports :: u32
  sm_proto :: string
  sm_formats :: "string list"
  sm_connections :: "sdp_connection list"
  sm_bandwidths :: "(string option \<times> u32) list"
  sm_attributes :: sdp_attributes
  sm_other :: "string list"

record sdp_message =
  msg_version :: string
  msg_origin :: "string list"
  msg_session_name :: string
  msg_information :: "string option"
  msg_connection :: "sdp_connection option"
  msg_attributes :: sdp_attributes
  msg_medias :: "sdp_media list"
  msg_other :: "string list"

text \<open>The value of the first attribute of this key.\<close>

definition attribute_val :: "string \<Rightarrow> sdp_attributes \<Rightarrow> string option" where
  "attribute_val key attrs = Option.bind (map_of attrs key) id"

record sdp_lib =
  sl_parse :: "string \<Rightarrow> sdp_message option"
  sl_text :: "sdp_message \<Rightarrow> string option"
  sl_caps_from_media :: "sdp_media \<Rightarrow> int \<Rightarrow> gst_caps option"
  sl_attributes_to_caps :: "sdp_message \<Rightarrow> gst_caps \<Rightarrow> gst_caps option"
  sl_media_from_caps :: "gst_caps \<Rightarrow> sdp_media \<Rightarrow> sdp_media option"
  sl_caps_from_str :: "string \<Rightarrow> gst_caps option"
  sl_intersects :: "gst_caps \<Rightarrow> gst_caps \<Rightarrow> bool"
  sl_without_features :: "gst_caps \<Rightarrow> gst_caps"
  sl_fraction :: "int \<Rightarrow> int \<Rightarrow> (int \<times> int) option"
  sl_show_ms :: "u64 \<Rightarrow> string"
  sl_hash :: "string \<Rightarrow> side \<Rightarrow> string \<Rightarrow> u64"
  sl_ifaddrs :: "if_addr list option"
  sl_parse_ip :: "string \<Rightarrow> string option"

datatype sdp_error =
    SdpParseFailed
  | NoMedia
  | DualLegUnsupported
  | NotExactlyOneActiveLeg
  | DualLegEssenceMismatch
  | TooManyMediaBlocks nat
  | MultiMediaMixedEssence
  | MissingPt
  | MissingConnection
  | CapsFromMedia
  | MissingMediaField
  | UnsupportedEssence
  | BuildMediaFromCaps
  | Serialise
  | InvalidPayloadType u32
  | EssenceFormatMismatch flow_format flow_format
  | EssenceShapeMismatch
  | TransportCapsMismatch
  | SdpPanic

definition and_ok :: "'e + 'a \<Rightarrow> ('a \<Rightarrow> 'e + 'b) \<Rightarrow> 'e + 'b" where
  "and_ok r f = (case r of Inl e \<Rightarrow> Inl e | Inr a \<Rightarrow> f a)"

definition parse_message :: "sdp_lib \<Rightarrow> string \<Rightarrow> sdp_error + sdp_message" where
  "parse_message lib t = ok_or SdpParseFailed (sl_parse lib t)"

section \<open>Format parameters\<close>

record fmtp_param =
  fp_key :: string
  fp_value :: "string option"

definition fmtp_separator :: string where
  "fmtp_separator = ''; ''"

definition media_fmtp_params :: "sdp_media \<Rightarrow> string" where
  "media_fmtp_params m =
     (case Option.bind (attribute_val ''fmtp'' (sm_attributes m)) (split_once CHR '' '') of
        Some (_, params) \<Rightarrow> params
      | None \<Rightarrow> [])"

definition parse_fmtp_param :: "string \<Rightarrow> fmtp_param option" where
  "parse_fmtp_param raw =
     (let token = trim raw
      in if token = [] then None
         else
           (case split_once CHR ''='' token of
              Some (key, value) \<Rightarrow>
                if trim key = [] then None else Some \<lparr>fp_key = trim key, fp_value = Some (trim value)\<rparr>
            | None \<Rightarrow> Some \<lparr>fp_key = token, fp_value = None\<rparr>))"

definition parse_fmtp_params :: "string \<Rightarrow> fmtp_param list" where
  "parse_fmtp_params params = List.map_filter parse_fmtp_param (split_on CHR '';'' params)"

definition append_fmtp_param :: "string \<Rightarrow> fmtp_param \<Rightarrow> string" where
  "append_fmtp_param buf p =
     buf @ (if buf = [] then [] else fmtp_separator) @ fp_key p @
     (case fp_value p of Some v \<Rightarrow> CHR ''='' # v | None \<Rightarrow> [])"

definition print_fmtp_params :: "fmtp_param list \<Rightarrow> string" where
  "print_fmtp_params ps = foldl append_fmtp_param [] ps"

text \<open>The case of names in the standards.\<close>

definition st2110_uppercase_fmtp_keys :: "string list" where
  "st2110_uppercase_fmtp_keys =
     [''PM'', ''SSN'', ''TCS'', ''RANGE'', ''PAR'', ''TP'', ''TROFF'', ''CMAX'', ''MAXUDP'', ''TSMODE'', ''TSDELAY'',
      ''DID_SDID'', ''VPID_Code'', ''TM'']"

definition st2110_lowercase_rtpmap_names :: "string list" where
  "st2110_lowercase_rtpmap_names = [''raw'', ''jxsv'', ''smpte291'']"

definition canonicalise_rtpmap_value :: "string \<Rightarrow> string option" where
  "canonicalise_rtpmap_value value =
     Option.bind (split_once CHR '' '' value) (\<lambda>(pt, rest).
     Option.bind (split_once CHR ''/'' rest) (\<lambda>(encoding, after_slash).
     Option.bind (find (eq_ignore_ascii_case encoding) st2110_lowercase_rtpmap_names) (\<lambda>canonical.
       if canonical \<noteq> encoding then Some (pt @ '' '' @ canonical @ ''/'' @ after_slash) else None)))"

definition canonical_key :: "string \<Rightarrow> string" where
  "canonical_key key =
     (case find (eq_ignore_ascii_case key) st2110_uppercase_fmtp_keys of Some canonical \<Rightarrow> canonical | None \<Rightarrow> key)"

definition canonicalise_fmtp_value :: "string \<Rightarrow> string option" where
  "canonicalise_fmtp_value value =
     Option.bind (split_once CHR '' '' value) (\<lambda>(pt, rest).
       let ps = parse_fmtp_params rest
       in if \<exists>p \<in> set ps. canonical_key (fp_key p) \<noteq> fp_key p
          then Some (pt @ '' '' @ print_fmtp_params (map (\<lambda>p. p\<lparr>fp_key := canonical_key (fp_key p)\<rparr>) ps))
          else None)"

definition canonicalise_attribute :: "string \<times> string option \<Rightarrow> string \<times> string option" where
  "canonicalise_attribute attr =
     (case attr of
        (key, Some value) \<Rightarrow>
          (case (if key = ''rtpmap'' then canonicalise_rtpmap_value value
                 else if key = ''fmtp'' then canonicalise_fmtp_value value else None) of
             Some v \<Rightarrow> (key, Some v)
           | None \<Rightarrow> attr)
      | _ \<Rightarrow> attr)"

definition canonicalise_st2110_sdp_case :: "sdp_media \<Rightarrow> sdp_media" where
  "canonicalise_st2110_sdp_case m = m\<lparr>sm_attributes := map canonicalise_attribute (sm_attributes m)\<rparr>"

section \<open>Bit rates\<close>

definition fmtp_format_bit_rate :: string where "fmtp_format_bit_rate = ''x-nvnmos-format-bit-rate''"
definition fmtp_transport_bit_rate :: string where "fmtp_transport_bit_rate = ''x-nvnmos-transport-bit-rate''"

definition is_as :: "string option \<times> u32 \<Rightarrow> bool" where
  "is_as bw \<longleftrightarrow> (case fst bw of Some t \<Rightarrow> eq_ignore_ascii_case t ''AS'' | None \<Rightarrow> False)"

definition as_bandwidth_from_media :: "sdp_media \<Rightarrow> u64 option" where
  "as_bandwidth_from_media m = map_option (\<lambda>bw. ucast (snd bw)) (find is_as (sm_bandwidths m))"

definition fmtp_u64 :: "fmtp_param list \<Rightarrow> string \<Rightarrow> u64 option" where
  "fmtp_u64 parsed key =
     Option.bind (find (\<lambda>p. eq_ignore_ascii_case (fp_key p) key) parsed) (\<lambda>p. Option.bind (fp_value p) parse_u64)"

fun first_some :: "'a option list \<Rightarrow> 'a option" where
  "first_some [] = None"
| "first_some (Some a # _) = Some a"
| "first_some (None # rest) = first_some rest"

definition bit_rates_from_media :: "sdp_media \<Rightarrow> bit_rates" where
  "bit_rates_from_media m =
     (let parsed = parse_fmtp_params (media_fmtp_params m);
          fmtp_format = fmtp_u64 parsed fmtp_format_bit_rate;
          fmtp_transport = fmtp_u64 parsed fmtp_transport_bit_rate;
          b_as = as_bandwidth_from_media m;
          format_bit_rate =
            (case first_some [fmtp_format, map_option format_from_transport_kbps fmtp_transport,
                              map_option format_from_transport_kbps b_as] of Some n \<Rightarrow> n | None \<Rightarrow> 0);
          transport_bit_rate =
            (case first_some [fmtp_transport, map_option transport_from_format_kbps fmtp_format, b_as] of Some n \<Rightarrow> n | None \<Rightarrow> 0)
      in if format_bit_rate = 0 \<and> transport_bit_rate = 0 then unset_bit_rates
         else \<lparr>br_format = format_bit_rate, br_transport = transport_bit_rate\<rparr>)"

definition bit_rates_from_sdp_text :: "sdp_lib \<Rightarrow> string \<Rightarrow> sdp_error + bit_rates" where
  "bit_rates_from_sdp_text lib t =
     and_ok (parse_message lib t) (\<lambda>msg.
       case msg_medias msg of [] \<Rightarrow> Inl NoMedia | m # _ \<Rightarrow> Inr (bit_rates_from_media m))"

text \<open>The first format parameters are rewritten, those of the code at the end.\<close>

definition with_bit_rates :: "bit_rates \<Rightarrow> fmtp_param list \<Rightarrow> fmtp_param list" where
  "with_bit_rates br ps =
     filter (\<lambda>p. \<not> eq_ignore_ascii_case (fp_key p) fmtp_format_bit_rate \<and> \<not> eq_ignore_ascii_case (fp_key p) fmtp_transport_bit_rate) ps @
     (if br_format br > 0 then [\<lparr>fp_key = fmtp_format_bit_rate, fp_value = Some (show_u64 (br_format br))\<rparr>] else []) @
     (if br_transport br > 0 then [\<lparr>fp_key = fmtp_transport_bit_rate, fp_value = Some (show_u64 (br_transport br))\<rparr>] else [])"

fun upsert_in_attributes :: "bit_rates \<Rightarrow> sdp_attributes \<Rightarrow> sdp_attributes" where
  "upsert_in_attributes br [] = []"
| "upsert_in_attributes br ((key, value) # rest) =
     (case (if key = ''fmtp'' then Option.bind value (split_once CHR '' '') else None) of
        None \<Rightarrow> (key, value) # upsert_in_attributes br rest
      | Some (pt, params) \<Rightarrow>
          (''fmtp'', Some (pt @ '' '' @ print_fmtp_params (with_bit_rates br (parse_fmtp_params params)))) # rest)"

definition upsert_nvnmos_bit_rates_in_fmtp :: "bit_rates \<Rightarrow> sdp_media \<Rightarrow> sdp_media" where
  "upsert_nvnmos_bit_rates_in_fmtp br m =
     (if br = unset_bit_rates then m else m\<lparr>sm_attributes := upsert_in_attributes br (sm_attributes m)\<rparr>)"

fun upsert_as_bandwidth :: "u32 \<Rightarrow> (string option \<times> u32) list \<Rightarrow> (string option \<times> u32) list" where
  "upsert_as_bandwidth kbps [] = [(Some ''AS'', kbps)]"
| "upsert_as_bandwidth kbps (bw # rest) =
     (if is_as bw then (Some ''AS'', kbps) # rest else bw # upsert_as_bandwidth kbps rest)"

definition u32_of_u64 :: "u64 \<Rightarrow> u32 option" where
  "u32_of_u64 n = (if unat n < 2 ^ 32 then Some (ucast n) else None)"

definition apply_bit_rates_to_media :: "bit_rates \<Rightarrow> sdp_media \<Rightarrow> sdp_media" where
  "apply_bit_rates_to_media br m =
     (if br = unset_bit_rates then m
      else
        upsert_nvnmos_bit_rates_in_fmtp br
          (case (if br_transport br > 0 then u32_of_u64 (br_transport br) else None) of
             Some kbps \<Rightarrow> m\<lparr>sm_bandwidths := upsert_as_bandwidth kbps (sm_bandwidths m)\<rparr>
           | None \<Rightarrow> m))"

section \<open>Essence caps of RTP caps\<close>

definition parse_exact_framerate :: "string \<Rightarrow> (u32 \<times> u32) option" where
  "parse_exact_framerate value =
     (let v = trim value
      in if v = [] then None
         else
           (case split_once CHR ''/'' v of
              Some (num_s, den_s) \<Rightarrow>
                Option.bind (parse_u32 (trim num_s)) (\<lambda>num.
                Option.bind (parse_u32 (trim den_s)) (\<lambda>den. if den = 0 then None else Some (num, den)))
            | None \<Rightarrow> map_option (\<lambda>num. (num, 1)) (parse_u32 v)))"

definition caps_colorimetry_from_sdp :: "string \<Rightarrow> u32 \<Rightarrow> string option \<Rightarrow> string option" where
  "caps_colorimetry_from_sdp sdp depth tcs =
     (let name = map to_ascii_uppercase sdp
      in if name = ''BT601-5'' \<or> name = ''BT601'' then Some ''bt601''
         else if name = ''BT709-2'' \<or> name = ''BT709'' then Some ''bt709''
         else if name = ''SMPTE240M'' then Some ''smpte240m''
         else if name = ''BT2020'' then Some (if depth \<ge> 10 then ''bt2020-10'' else ''bt2020'')
         else if name = ''BT2100'' then
           Some (if (case tcs of Some t \<Rightarrow> eq_ignore_ascii_case t ''HLG'' | None \<Rightarrow> False) then ''bt2100-hlg'' else ''bt2100-pq'')
         else None)"

definition or_empty :: "string option \<Rightarrow> string" where
  "or_empty x = (case x of Some s \<Rightarrow> s | None \<Rightarrow> [])"

text \<open>The text of caps with one structure, that GStreamer reads.\<close>

definition caps_text :: "string \<Rightarrow> (string \<times> string) list \<Rightarrow> string" where
  "caps_text name fs = name @ concat (map (\<lambda>(k, v). '','' @ k @ ''='' @ v) fs)"

definition caps_from_text :: "sdp_lib \<Rightarrow> string \<Rightarrow> (string \<times> string) list \<Rightarrow> sdp_error + gst_caps" where
  "caps_from_text lib name fs = ok_or UnsupportedEssence (sl_caps_from_str lib (caps_text name fs))"

definition show_u32 :: "u32 \<Rightarrow> string" where
  "show_u32 n = show_nat (unat n)"

definition video_format_of :: "string \<Rightarrow> u32 \<Rightarrow> string option" where
  "video_format_of sampling depth =
     (if sampling = ''YCbCr-4:2:2'' \<and> depth = 8 then Some ''UYVY''
      else if sampling = ''YCbCr-4:2:2'' \<and> depth = 10 then Some ''UYVP''
      else None)"

definition caps_from_rtp_video :: "sdp_lib \<Rightarrow> gst_caps \<Rightarrow> sdp_error + gst_caps" where
  "caps_from_rtp_video lib rtp_caps =
     (case rtp_caps of
        [] \<Rightarrow> Inl CapsFromMedia
      | (_, s) # _ \<Rightarrow>
          if \<not> eq_ignore_ascii_case (or_empty (field_string s ''encoding-name'')) ''RAW'' then Inl UnsupportedEssence
          else
            (let depth = (case parse_u32 (or_empty (field_string s ''depth'')) of Some d \<Rightarrow> d | None \<Rightarrow> 0)
             in and_ok (ok_or UnsupportedEssence (video_format_of (or_empty (field_string s ''sampling'')) depth)) (\<lambda>format_str.
                and_ok (ok_or UnsupportedEssence (parse_i32 (or_empty (field_string s ''width'')))) (\<lambda>width.
                and_ok (ok_or UnsupportedEssence (parse_i32 (or_empty (field_string s ''height'')))) (\<lambda>height.
                and_ok (ok_or UnsupportedEssence (parse_exact_framerate (or_empty (field_string s ''exactframerate'')))) (\<lambda>(fr_num, fr_den).
                  let interlaced = (case Option.bind (field_string s ''interlace'') parse_u32 of Some v \<Rightarrow> v \<noteq> 0 | None \<Rightarrow> False);
                      colorimetry = caps_colorimetry_from_sdp (or_empty (field_string s ''colorimetry'')) depth (field_string s ''tcs'')
                  in caps_from_text lib ''video/x-raw''
                       ([(''format'', format_str), (''width'', show_int width), (''height'', show_int height),
                         (''framerate'', show_u32 fr_num @ ''/'' @ show_u32 fr_den),
                         (''interlace-mode'', if interlaced then ''interleaved'' else ''progressive'')] @
                        (case colorimetry of Some c \<Rightarrow> [(''colorimetry'', c)] | None \<Rightarrow> []))))))))"

definition caps_from_rtp_audio :: "sdp_lib \<Rightarrow> gst_caps \<Rightarrow> sdp_error + gst_caps" where
  "caps_from_rtp_audio lib rtp_caps =
     (case rtp_caps of
        [] \<Rightarrow> Inl CapsFromMedia
      | (_, s) # _ \<Rightarrow>
          (let encoding = or_empty (field_string s ''encoding-name'')
           in and_ok (if encoding = ''L16'' then Inr ''S16BE'' else if encoding = ''L24'' then Inr ''S24BE'' else Inl UnsupportedEssence)
                (\<lambda>format_str.
              and_ok (ok_or UnsupportedEssence (field_int s ''clock-rate'')) (\<lambda>rate.
                let channels = (case Option.bind (field_string s ''encoding-params'') parse_i32 of Some n \<Rightarrow> n | None \<Rightarrow> 1)
                in caps_from_text lib ''audio/x-raw''
                     [(''format'', format_str), (''rate'', show_int rate), (''channels'', show_int channels),
                      (''layout'', ''interleaved'')]))))"

definition caps_from_rtp_data :: "sdp_lib \<Rightarrow> gst_caps \<Rightarrow> sdp_error + gst_caps" where
  "caps_from_rtp_data lib rtp_caps =
     (case rtp_caps of
        [] \<Rightarrow> Inl CapsFromMedia
      | (_, s) # _ \<Rightarrow>
          if \<not> eq_ignore_ascii_case (or_empty (field_string s ''encoding-name'')) ''SMPTE291'' then Inl UnsupportedEssence
          else
            caps_from_text lib ''meta/x-st-2038''
              (case Option.bind (field_string s ''exactframerate'') parse_exact_framerate of
                 Some (num, den) \<Rightarrow> [(''framerate'', show_u32 num @ ''/'' @ show_u32 den)]
               | None \<Rightarrow> []))"

text \<open>\<^verbatim>\<open>as i32\<close> wraps; the constructor of fractions may panic.\<close>

definition jxsv_structure_caps ::
  "sdp_lib \<Rightarrow> int option \<Rightarrow> int option \<Rightarrow> int option \<Rightarrow> string option \<Rightarrow> (u32 \<times> u32) option \<Rightarrow> string option \<Rightarrow> string option
    \<Rightarrow> string option \<Rightarrow> sdp_error + gst_caps" where
  "jxsv_structure_caps lib width height depth sampling framerate profile level sublevel =
     (let num = (\<lambda>k v. case v of Some n \<Rightarrow> [(k, GInt n)] | None \<Rightarrow> []);
          str = (\<lambda>k v. case v of Some t \<Rightarrow> [(k, GString (Some t))] | None \<Rightarrow> []);
          fields = [(''alignment'', GString (Some ''frame'')), (''interlace-mode'', GString (Some ''progressive''))] @
            num ''width'' width @ num ''height'' height @ num ''depth'' depth @ str ''sampling'' sampling @
            str ''profile'' profile @ str ''level'' level @ str ''sublevel'' sublevel
      in case framerate of
           None \<Rightarrow> Inr [(''image/x-jxsc'', fields)]
         | Some (n, d) \<Rightarrow>
             (case sl_fraction lib (sint n) (sint d) of
                None \<Rightarrow> Inl SdpPanic
              | Some (n', d') \<Rightarrow> Inr [(''image/x-jxsc'', fields @ [(''framerate'', GFraction n' d')])]))"

definition caps_from_rtp_video_jxsv :: "sdp_lib \<Rightarrow> gst_caps \<Rightarrow> sdp_error + gst_caps" where
  "caps_from_rtp_video_jxsv lib rtp_caps =
     (case rtp_caps of
        [] \<Rightarrow> Inl CapsFromMedia
      | (_, s) # _ \<Rightarrow>
          if \<not> eq_ignore_ascii_case (or_empty (field_string s ''encoding-name'')) ''jxsv'' then Inl UnsupportedEssence
          else
            (let parse = (\<lambda>field. Option.bind (field_string s field) parse_i32)
             in jxsv_structure_caps lib (parse ''width'') (parse ''height'') (parse ''depth'') (field_string s ''sampling'')
                  (parse_exact_framerate (or_empty (field_string s ''exactframerate''))) (field_string s ''profile'')
                  (field_string s ''level'') (field_string s ''sublevel'')))"

section \<open>Media blocks\<close>

record media_essence =
  me_format :: flow_format
  me_rtp_caps :: gst_caps
  me_caps :: gst_caps

definition set_field_opt :: "string \<Rightarrow> string option \<Rightarrow> gst_structure \<Rightarrow> gst_structure" where
  "set_field_opt k v st = (case v of Some s \<Rightarrow> AList.update k (GString (Some s)) st | None \<Rightarrow> st)"

definition name_rtp_caps :: "sdp_media \<Rightarrow> gst_caps \<Rightarrow> gst_caps" where
  "name_rtp_caps media caps =
     (case caps of
        [] \<Rightarrow> []
      | (_, st) # rest \<Rightarrow>
          (''application/x-rtp'',
           set_field_opt ''a-maxptime'' (attribute_val ''maxptime'' (sm_attributes media))
             (set_field_opt ''a-ptime'' (attribute_val ''ptime'' (sm_attributes media)) st)) # rest)"

definition rtp_caps_of_media :: "sdp_lib \<Rightarrow> sdp_message \<Rightarrow> sdp_media \<Rightarrow> sdp_error + gst_caps" where
  "rtp_caps_of_media lib msg media =
     (case sm_formats media of
        [] \<Rightarrow> Inl MissingPt
      | pt_str # _ \<Rightarrow>
          and_ok (ok_or MissingPt (parse_i32 pt_str)) (\<lambda>pt.
          and_ok (ok_or CapsFromMedia (sl_caps_from_media lib media pt)) (\<lambda>caps.
          and_ok (ok_or CapsFromMedia (sl_attributes_to_caps lib msg caps)) (\<lambda>caps.
            Inr (name_rtp_caps media caps)))))"

definition essence_format :: "string \<Rightarrow> string \<Rightarrow> flow_format option" where
  "essence_format media_kind encoding_name =
     (if media_kind = ''video'' \<and> eq_ignore_ascii_case encoding_name ''SMPTE291'' then Some FmtData
      else if media_kind = ''video'' then Some FmtVideo
      else if media_kind = ''audio'' then Some FmtAudio
      else None)"

definition parse_media_essence :: "sdp_lib \<Rightarrow> sdp_message \<Rightarrow> sdp_media \<Rightarrow> sdp_error + media_essence" where
  "parse_media_essence lib msg media =
     and_ok (rtp_caps_of_media lib msg media) (\<lambda>rtp_caps.
       case rtp_caps of
         [] \<Rightarrow> Inl CapsFromMedia
       | (_, st) # _ \<Rightarrow>
           and_ok (ok_or MissingMediaField (field_string st ''media'')) (\<lambda>media_kind.
             let encoding_name = or_empty (field_string st ''encoding-name'')
             in and_ok (ok_or UnsupportedEssence (essence_format media_kind encoding_name)) (\<lambda>format.
                and_ok
                  (case format of
                     FmtAudio \<Rightarrow> caps_from_rtp_audio lib rtp_caps
                   | FmtData \<Rightarrow> caps_from_rtp_data lib rtp_caps
                   | FmtVideo \<Rightarrow>
                       if eq_ignore_ascii_case encoding_name ''jxsv'' then caps_from_rtp_video_jxsv lib rtp_caps
                       else caps_from_rtp_video lib rtp_caps
                   | FmtUnspecified \<Rightarrow> Inl SdpPanic) (\<lambda>parsed_caps.
                Inr \<lparr>me_format = format, me_rtp_caps = rtp_caps, me_caps = essence_caps_from parsed_caps (Some rtp_caps)\<rparr>))))"

definition extract_source_ip_from_filter :: "string \<Rightarrow> string option" where
  "extract_source_ip_from_filter value =
     (case split_whitespace value of
        [mode, _, _, _, src] \<Rightarrow> if mode = ''incl'' then Some src else None
      | _ \<Rightarrow> None)"

definition udp_leg_from_media :: "sdp_message \<Rightarrow> sdp_media \<Rightarrow> sdp_error + udp_leg" where
  "udp_leg_from_media msg media =
     and_ok (ok_or MissingConnection (case sm_connections media of c # _ \<Rightarrow> Some c | [] \<Rightarrow> msg_connection msg)) (\<lambda>connection.
     and_ok (ok_or MissingConnection (sc_address connection)) (\<lambda>destination_ip.
       let attr = (\<lambda>key. attribute_val key (sm_attributes media))
       in Inr \<lparr>ul_destination_ip = destination_ip, ul_destination_port = ucast (sm_port media),
            ul_interface_ip = attr ''x-nvnmos-iface-ip'',
            ul_source_ip = Option.bind (attr ''source-filter'') extract_source_ip_from_filter,
            ul_source_port = Option.bind (attr ''x-nvnmos-src-port'') parse_u16\<rparr>))"

definition is_media_inactive :: "sdp_media \<Rightarrow> bool" where
  "is_media_inactive media \<longleftrightarrow> attribute_val ''inactive'' (sm_attributes media) \<noteq> None"

definition sdp_media_block_count_of :: "sdp_lib \<Rightarrow> string \<Rightarrow> sdp_error + nat" where
  "sdp_media_block_count_of lib t = and_ok (parse_message lib t) (\<lambda>msg. Inr (length (msg_medias msg)))"

definition count_active_sdp_legs :: "sdp_lib \<Rightarrow> string \<Rightarrow> sdp_error + nat" where
  "count_active_sdp_legs lib t =
     and_ok (parse_message lib t) (\<lambda>msg.
       if msg_medias msg = [] then Inl NoMedia
       else Inr (min 255 (length (filter (\<lambda>m. \<not> is_media_inactive m) (msg_medias msg)))))"

definition indicates_unconstrained_sdp :: "sdp_lib \<Rightarrow> string \<Rightarrow> bool" where
  "indicates_unconstrained_sdp lib t =
     (case sl_parse lib t of
        Some msg \<Rightarrow> (case msg_medias msg of m # _ \<Rightarrow> attribute_val ''x-nvnmos-caps'' (sm_attributes m) \<noteq> None | [] \<Rightarrow> False)
      | None \<Rightarrow> False)"

definition sdp_resource_name_from_transport :: "sdp_lib \<Rightarrow> string \<Rightarrow> sdp_error + string option" where
  "sdp_resource_name_from_transport lib t =
     and_ok (parse_message lib t) (\<lambda>msg.
       Inr (case attribute_val ''x-nvnmos-name'' (msg_attributes msg) of
              Some name \<Rightarrow> if name = [] then None else Some name
            | None \<Rightarrow> None))"

definition dual_leg_essence_equivalent :: "sdp_lib \<Rightarrow> media_essence \<Rightarrow> media_essence \<Rightarrow> bool" where
  "dual_leg_essence_equivalent lib a b \<longleftrightarrow>
     me_format a = me_format b \<and>
     (case (me_rtp_caps a, me_rtp_caps b) of
        ((_, sa) # _, (_, sb) # _) \<Rightarrow>
          field_int sa ''payload'' = field_int sb ''payload'' \<and>
          field_int sa ''clock-rate'' = field_int sb ''clock-rate'' \<and>
          (case (field_string sa ''encoding-name'', field_string sb ''encoding-name'') of
             (Some x, Some y) \<Rightarrow> eq_ignore_ascii_case x y
           | _ \<Rightarrow> False)
      | _ \<Rightarrow> False) \<and>
     sl_intersects lib (me_caps a) (me_caps b)"

text \<open>What two media blocks have in common, in the order in which it is checked.\<close>

definition dual_leg_essences :: "sdp_lib \<Rightarrow> sdp_message \<Rightarrow> sdp_media \<Rightarrow> sdp_media \<Rightarrow> sdp_error + media_essence" where
  "dual_leg_essences lib msg m0 m1 =
     (if \<not> eq_ignore_ascii_case (or_empty (sm_media m0)) (or_empty (sm_media m1)) then Inl MultiMediaMixedEssence
      else
        and_ok (parse_media_essence lib msg m0) (\<lambda>essence0.
        and_ok (parse_media_essence lib msg m1) (\<lambda>essence1.
          if \<not> dual_leg_essence_equivalent lib essence0 essence1 then Inl DualLegEssenceMismatch else Inr essence0)))"

definition validate_dual_leg_sdp :: "sdp_lib \<Rightarrow> sdp_message \<Rightarrow> sdp_error + unit" where
  "validate_dual_leg_sdp lib msg =
     (case msg_medias msg of
        m0 # m1 # _ \<Rightarrow> and_ok (dual_leg_essences lib msg m0 m1) (\<lambda>_. Inr ())
      | _ \<Rightarrow> Inl NoMedia)"

definition active_legs_to_udp_media :: "media_essence \<Rightarrow> udp_leg \<times> bool \<Rightarrow> udp_leg \<times> bool \<Rightarrow> udp_media" where
  "active_legs_to_udp_media essence leg0 leg1 =
     (case (case map fst (filter snd [leg0, leg1]) of
              [] \<Rightarrow> (fst leg0, None)
            | [one] \<Rightarrow> (one, None)
            | first # second # _ \<Rightarrow> (first, Some second)) of
        (primary, secondary) \<Rightarrow>
          \<lparr>um_format = me_format essence, um_primary = primary, um_secondary = secondary, um_rtp_caps = me_rtp_caps essence,
           um_caps = me_caps essence\<rparr>)"

definition parse_sdp_message :: "sdp_lib \<Rightarrow> sdp_message \<Rightarrow> sdp_error + udp_media" where
  "parse_sdp_message lib msg =
     (case msg_medias msg of
        [] \<Rightarrow> Inl NoMedia
      | [media] \<Rightarrow>
          and_ok (parse_media_essence lib msg media) (\<lambda>essence.
          and_ok (udp_leg_from_media msg media) (\<lambda>leg.
            Inr \<lparr>um_format = me_format essence, um_primary = leg, um_secondary = None, um_rtp_caps = me_rtp_caps essence,
                 um_caps = me_caps essence\<rparr>))
      | [m0, m1] \<Rightarrow>
          and_ok (dual_leg_essences lib msg m0 m1) (\<lambda>essence0.
          and_ok (udp_leg_from_media msg m0) (\<lambda>leg0.
          and_ok (udp_leg_from_media msg m1) (\<lambda>leg1.
            Inr (active_legs_to_udp_media essence0 (leg0, \<not> is_media_inactive m0) (leg1, \<not> is_media_inactive m1)))))
      | medias \<Rightarrow> Inl (TooManyMediaBlocks (length medias)))"

definition parse_sdp :: "sdp_lib \<Rightarrow> string \<Rightarrow> sdp_error + udp_media" where
  "parse_sdp lib t = and_ok (parse_message lib t) (parse_sdp_message lib)"

section \<open>A single leg\<close>

fun has_crlf :: "string \<Rightarrow> bool" where
  "has_crlf (c # d # cs) = (c = CHR 0x0D \<and> d = CHR 0x0A \<or> has_crlf (d # cs))"
| "has_crlf _ = False"

definition sdp_lines :: "string \<Rightarrow> string list" where
  "sdp_lines t =
     (let lines = map trim_end_cr (split_on CHR 0x0A t) in if lines \<noteq> [] \<and> last lines = [] then butlast lines else lines)"

definition add_sdp_line :: "string list \<times> string list list \<Rightarrow> string \<Rightarrow> string list \<times> string list list" where
  "add_sdp_line sb line =
     (case sb of (session, blocks) \<Rightarrow>
        if starts_with line ''m='' then (session, blocks @ [[line]])
        else if blocks \<noteq> [] then (session, butlast blocks @ [last blocks @ [line]])
        else if \<not> starts_with (trim_start line) ''a=group:'' then (session @ [line], blocks)
        else (session, blocks))"

definition splice_active_media_section :: "string \<Rightarrow> nat \<Rightarrow> sdp_error + string" where
  "splice_active_media_section t active_idx =
     (let newline = (if has_crlf t then [CHR 0x0D, CHR 0x0A] else [CHR 0x0A])
      in case foldl add_sdp_line ([], []) (sdp_lines t) of
           (session, blocks) \<Rightarrow>
             (case list_get blocks active_idx of
                None \<Rightarrow> Inl NotExactlyOneActiveLeg
              | Some media \<Rightarrow>
                  Inr (join_strings newline
                    (session @ filter (\<lambda>line. \<not> starts_with (trim_start line) ''a=mid:'') media @ [[]]))))"

definition normalise_to_single_active_leg :: "sdp_lib \<Rightarrow> string \<Rightarrow> sdp_error + string" where
  "normalise_to_single_active_leg lib t =
     and_ok (sdp_media_block_count_of lib t) (\<lambda>count.
       if count = 1 then Inr t
       else if count \<noteq> 2 then Inl (TooManyMediaBlocks count)
       else
         and_ok (count_active_sdp_legs lib t) (\<lambda>active.
           if active \<noteq> 1 then Inl NotExactlyOneActiveLeg
           else
             and_ok (parse_message lib t) (\<lambda>msg.
               case position (\<lambda>m. \<not> is_media_inactive m) (msg_medias msg) of
                 None \<Rightarrow> Inl NotExactlyOneActiveLeg
               | Some idx \<Rightarrow> splice_active_media_section t idx)))"

end
