(* ===== verification/Gst_SdpBuild.thy ===== *)
theory Gst_SdpBuild
  imports Gst_Sdp
begin

text \<open>
  Session descriptions of RTP streams, second part: writing them from caps (\<^verbatim>\<open>from_caps\<close> and
  \<^verbatim>\<open>build_sdp\<close> of \<^verbatim>\<open>sdp.rs\<close>), checking them against the properties of an element, changing those
  that a user gives (\<^verbatim>\<open>sdp_passthrough.rs\<close>), and \<open>nmos_sdp\<close>, the functions that the configuration of
  an element calls.
\<close>

section \<open>RTP caps of essence caps\<close>

definition format_exact_framerate :: "u32 \<Rightarrow> u32 \<Rightarrow> string" where
  "format_exact_framerate num den = (if den = 1 then show_u32 num else show_u32 num @ ''/'' @ show_u32 den)"

definition sdp_colorimetry_from_caps :: "string \<Rightarrow> (string \<times> string option) option" where
  "sdp_colorimetry_from_caps c =
     (if c = ''bt601'' then Some (''BT601'', None)
      else if c = ''bt709'' then Some (''BT709'', None)
      else if c = ''smpte240m'' then Some (''SMPTE240M'', None)
      else if c = ''bt2020'' \<or> c = ''bt2020-10'' then Some (''BT2020'', None)
      else if c = ''bt2100-pq'' then Some (''BT2100'', Some ''PQ'')
      else if c = ''bt2100-hlg'' then Some (''BT2100'', Some ''HLG'')
      else None)"

definition format_ptime_ns_as_ms :: "sdp_lib \<Rightarrow> u64 \<Rightarrow> string" where
  "format_ptime_ns_as_ms lib ns =
     (if ns mod 1000000 = 0 then show_u64 (ns div 1000000) else sl_show_ms lib ns)"

text \<open>Typed fields in the text of caps.\<close>

definition str_field :: "string \<Rightarrow> string \<Rightarrow> string \<times> string" where
  "str_field k v = (k, ''(string)'' @ v)"

definition int_field :: "string \<Rightarrow> int \<Rightarrow> string \<times> string" where
  "int_field k n = (k, ''(int)'' @ show_int n)"

definition colorimetry_fields :: "string \<times> string option \<Rightarrow> (string \<times> string) list" where
  "colorimetry_fields c =
     (case c of (colorimetry, tcs) \<Rightarrow>
        str_field ''colorimetry'' colorimetry # (case tcs of Some v \<Rightarrow> [str_field ''tcs'' v] | None \<Rightarrow> []))"

definition video_sampling_of :: "string \<Rightarrow> (string \<times> u32) option" where
  "video_sampling_of format =
     (if format = ''UYVY'' then Some (''YCbCr-4:2:2'', 8)
      else if format = ''UYVP'' then Some (''YCbCr-4:2:2'', 10)
      else None)"

definition framerate_of :: "gst_structure \<Rightarrow> (u32 \<times> u32) option" where
  "framerate_of s = map_option (\<lambda>(n, d). (of_int n, of_int d)) (field_fraction s ''framerate'')"

definition rtp_caps_from_video :: "sdp_lib \<Rightarrow> gst_caps \<Rightarrow> 8 word \<Rightarrow> bool \<Rightarrow> sdp_error + gst_caps" where
  "rtp_caps_from_video lib caps payload_type type_n =
     (case caps of
        [] \<Rightarrow> Inl UnsupportedEssence
      | (_, s) # _ \<Rightarrow>
          and_ok (ok_or UnsupportedEssence (field_string s ''format'')) (\<lambda>format.
          and_ok (ok_or UnsupportedEssence (video_sampling_of format)) (\<lambda>(sampling, depth).
          and_ok (ok_or UnsupportedEssence (field_int s ''width'')) (\<lambda>width.
          and_ok (ok_or UnsupportedEssence (field_int s ''height'')) (\<lambda>height.
          and_ok (ok_or UnsupportedEssence (framerate_of s)) (\<lambda>(fr_num, fr_den).
            let interlace_mode = (case field_string s ''interlace-mode'' of Some m \<Rightarrow> m | None \<Rightarrow> ''progressive'');
                colorimetry = (case Option.bind (field_string s ''colorimetry'') sdp_colorimetry_from_caps of
                                 Some c \<Rightarrow> c | None \<Rightarrow> (''BT709'', None))
            in caps_from_text lib ''application/x-rtp''
                 ([str_field ''media'' ''video'', int_field ''clock-rate'' 90000, str_field ''encoding-name'' ''RAW'',
                   int_field ''payload'' (uint payload_type), str_field ''sampling'' sampling, str_field ''depth'' (show_u32 depth),
                   str_field ''width'' (show_int width), str_field ''height'' (show_int height),
                   str_field ''exactframerate'' (format_exact_framerate fr_num fr_den),
                   str_field ''pm'' ''2110GPM'', str_field ''ssn'' ''ST2110-20:2017''] @
                  (if interlace_mode = ''interleaved'' then [str_field ''interlace'' ''1''] else []) @
                  colorimetry_fields colorimetry @
                  (if type_n then [str_field ''tp'' ''2110TPN''] else []))))))))"

definition rtp_caps_from_video_jxsv :: "sdp_lib \<Rightarrow> gst_caps \<Rightarrow> 8 word \<Rightarrow> bool \<Rightarrow> sdp_error + gst_caps" where
  "rtp_caps_from_video_jxsv lib caps payload_type type_n =
     (case caps of
        [] \<Rightarrow> Inl UnsupportedEssence
      | (_, s) # _ \<Rightarrow>
          and_ok (ok_or UnsupportedEssence (field_int s ''width'')) (\<lambda>width.
          and_ok (ok_or UnsupportedEssence (field_int s ''height'')) (\<lambda>height.
          and_ok (ok_or UnsupportedEssence (framerate_of s)) (\<lambda>(fr_num, fr_den).
            let str = (\<lambda>k. case field_string s k of Some v \<Rightarrow> [str_field k v] | None \<Rightarrow> [])
            in caps_from_text lib ''application/x-rtp''
                 ([str_field ''media'' ''video'', int_field ''clock-rate'' 90000, str_field ''encoding-name'' ''JXSV'',
                   int_field ''payload'' (uint payload_type), str_field ''packetmode'' ''0'',
                   str_field ''width'' (show_int width), str_field ''height'' (show_int height),
                   str_field ''exactframerate'' (format_exact_framerate fr_num fr_den), str_field ''ssn'' ''ST2110-22:2022''] @
                  str ''sampling'' @
                  (case field_int s ''depth'' of Some d \<Rightarrow> [str_field ''depth'' (show_int d)] | None \<Rightarrow> []) @
                  str ''profile'' @ str ''level'' @ str ''sublevel'' @
                  (case Option.bind (field_string s ''colorimetry'') sdp_colorimetry_from_caps of
                     Some c \<Rightarrow> colorimetry_fields c | None \<Rightarrow> []) @
                  (if type_n then [str_field ''tp'' ''2110TPN''] else []))))))"

definition rtp_caps_from_audio ::
  "sdp_lib \<Rightarrow> gst_caps \<Rightarrow> 8 word \<Rightarrow> u64 \<Rightarrow> u64 option \<Rightarrow> string option \<Rightarrow> sdp_error + gst_caps" where
  "rtp_caps_from_audio lib caps payload_type ptime_ns maxptime_ns channel_order =
     (case caps of
        [] \<Rightarrow> Inl UnsupportedEssence
      | (_, s) # _ \<Rightarrow>
          and_ok (ok_or UnsupportedEssence (field_string s ''format'')) (\<lambda>format.
          and_ok (if format = ''S16BE'' then Inr ''L16'' else if format = ''S24BE'' then Inr ''L24'' else Inl UnsupportedEssence) (\<lambda>encoding.
          and_ok (ok_or UnsupportedEssence (field_int s ''rate'')) (\<lambda>rate.
          and_ok (ok_or UnsupportedEssence (field_int s ''channels'')) (\<lambda>channels.
          and_ok
            (caps_from_text lib ''application/x-rtp''
               ([str_field ''media'' ''audio'', int_field ''clock-rate'' rate, str_field ''encoding-name'' encoding,
                 int_field ''payload'' (uint payload_type), str_field ''encoding-params'' (show_int channels),
                 str_field ''a-ptime'' (format_ptime_ns_as_ms lib ptime_ns)] @
                (case maxptime_ns of Some m \<Rightarrow> [str_field ''a-maxptime'' (format_ptime_ns_as_ms lib m)] | None \<Rightarrow> []))) (\<lambda>rtp_caps.
            let order = (case channel_order of Some c \<Rightarrow> c | None \<Rightarrow> default_smpte2110_channel_order channels)
            in Inr (case rtp_caps of
                      [] \<Rightarrow> []
                    | (name, st) # rest \<Rightarrow> (name, AList.update ''channel-order'' (GString (Some order)) st) # rest)))))))"

definition rtp_caps_from_data :: "sdp_lib \<Rightarrow> gst_caps \<Rightarrow> 8 word \<Rightarrow> sdp_error + gst_caps" where
  "rtp_caps_from_data lib caps payload_type =
     (case caps of
        [] \<Rightarrow> Inl UnsupportedEssence
      | (name, s) # _ \<Rightarrow>
          if name \<noteq> ''meta/x-st-2038'' then Inl UnsupportedEssence
          else
            caps_from_text lib ''application/x-rtp''
              ([str_field ''media'' ''video'', int_field ''clock-rate'' 90000, str_field ''encoding-name'' ''SMPTE291'',
                int_field ''payload'' (uint payload_type), str_field ''ssn'' ''ST2110-40:2018''] @
               (case framerate_of s of
                  Some (n, d) \<Rightarrow> [str_field ''exactframerate'' (format_exact_framerate n d)] | None \<Rightarrow> [])))"

section \<open>Building\<close>

record sdp_session =
  ss_origin_address :: string
  ss_origin_session_id :: string
  ss_session_name :: string
  ss_description :: "string option"
  ss_name :: "string option"
  ss_group_hint :: "string option"
  ss_advertise_caps :: bool
  ss_emit_ptp_ts_refclk :: bool
  ss_bit_rates :: bit_rates

definition new_media :: sdp_media where
  "new_media = \<lparr>sm_media = None, sm_port = 0, sm_num_ports = 0, sm_proto = [], sm_formats = [], sm_connections = [],
     sm_bandwidths = [], sm_attributes = [], sm_other = []\<rparr>"

definition opt_attribute :: "string \<Rightarrow> string option \<Rightarrow> sdp_attributes" where
  "opt_attribute key v = (case v of Some s \<Rightarrow> [(key, Some s)] | None \<Rightarrow> [])"

definition source_filter :: "string \<Rightarrow> string \<Rightarrow> string" where
  "source_filter dest src = '' incl IN IP4 '' @ dest @ '' '' @ src"

definition iface_value :: "sdp_lib \<Rightarrow> string \<Rightarrow> string option" where
  "iface_value lib ip = x_nvnmos_iface_value_for_ip (sl_ifaddrs lib) (sl_parse_ip lib) ip"

definition leg_attributes :: "sdp_lib \<Rightarrow> udp_leg \<Rightarrow> sdp_attributes" where
  "leg_attributes lib leg =
     opt_attribute ''source-filter'' (map_option (source_filter (ul_destination_ip leg)) (ul_source_ip leg)) @
     (case ul_interface_ip leg of
        Some ip \<Rightarrow> (''x-nvnmos-iface-ip'', Some ip) # opt_attribute ''x-nvnmos-iface'' (iface_value lib ip)
      | None \<Rightarrow> []) @
     opt_attribute ''x-nvnmos-src-port'' (map_option show_port (ul_source_port leg))"

definition media_frame :: "udp_media \<Rightarrow> sdp_session \<Rightarrow> sdp_media" where
  "media_frame media session =
     (let leg = um_primary media
      in new_media\<lparr>sm_proto := ''RTP/AVP'', sm_port := ucast (ul_destination_port leg), sm_num_ports := 1,
           sm_connections := [\<lparr>sc_nettype = Some ''IN'', sc_addrtype = Some ''IP4'',
             sc_address = Some (ul_destination_ip leg), sc_ttl = 32, sc_addr_number = 0\<rparr>],
           sm_bandwidths :=
             (case (if br_transport (ss_bit_rates session) > 0 then u32_of_u64 (br_transport (ss_bit_rates session)) else None) of
                Some kbps \<Rightarrow> [(Some ''AS'', kbps)] | None \<Rightarrow> [])\<rparr>)"

definition advertised_caps :: "udp_media \<Rightarrow> sdp_session \<Rightarrow> sdp_attributes" where
  "advertised_caps media session =
     (if ss_advertise_caps session
      then
        [(''x-nvnmos-caps'',
          Some (case (case um_rtp_caps media of (_, s) # _ \<Rightarrow> field_int s ''payload'' | [] \<Rightarrow> None) of
                  Some pt \<Rightarrow> show_int pt | None \<Rightarrow> []))]
      else [])"

definition media_attributes :: "sdp_lib \<Rightarrow> udp_media \<Rightarrow> sdp_session \<Rightarrow> sdp_attributes" where
  "media_attributes lib media session =
     (if ss_emit_ptp_ts_refclk session then [(''ts-refclk'', Some ''ptp=IEEE1588-2008:traceable'')] else []) @
     [(''mediaclk'', Some ''direct=0'')] @
     leg_attributes lib (um_primary media) @ advertised_caps media session"

definition build_media :: "sdp_lib \<Rightarrow> udp_media \<Rightarrow> sdp_session \<Rightarrow> sdp_error + sdp_media" where
  "build_media lib media session =
     and_ok (ok_or BuildMediaFromCaps (sl_media_from_caps lib (um_rtp_caps media) (media_frame media session))) (\<lambda>m1.
       let m2 = upsert_nvnmos_bit_rates_in_fmtp (ss_bit_rates session) (canonicalise_st2110_sdp_case m1)
       in Inr (m2\<lparr>sm_attributes := sm_attributes m2 @ media_attributes lib media session\<rparr>))"

definition build_message :: "sdp_lib \<Rightarrow> udp_media \<Rightarrow> sdp_session \<Rightarrow> sdp_error + sdp_message" where
  "build_message lib media session =
     and_ok (build_media lib media session) (\<lambda>m.
       Inr \<lparr>msg_version = ''0'',
            msg_origin = [''nvnmos'', ss_origin_session_id session, ''0'', ''IN'', ''IP4'', ss_origin_address session],
            msg_session_name = ss_session_name session, msg_information = ss_description session, msg_connection = None,
            msg_attributes = opt_attribute ''x-nvnmos-name'' (ss_name session) @
              opt_attribute ''x-nvnmos-group-hint'' (ss_group_hint session),
            msg_medias = [m], msg_other = []\<rparr>)"

definition build_sdp :: "sdp_lib \<Rightarrow> udp_media \<Rightarrow> sdp_session \<Rightarrow> sdp_error + string" where
  "build_sdp lib media session = and_ok (build_message lib media session) (\<lambda>msg. ok_or Serialise (sl_text lib msg))"

definition essence_caps_format :: "gst_caps \<Rightarrow> flow_format option" where
  "essence_caps_format caps =
     (case caps of
        [] \<Rightarrow> None
      | (name, _) # _ \<Rightarrow>
          if name = ''video/x-raw'' \<or> name = ''image/x-jxsc'' then Some FmtVideo
          else if name = ''audio/x-raw'' then Some FmtAudio
          else if name = ''meta/x-st-2038'' then Some FmtData
          else None)"

definition first_structure :: "gst_caps option \<Rightarrow> gst_structure option" where
  "first_structure caps = (case caps of Some ((_, s) # _) \<Rightarrow> Some s | _ \<Rightarrow> None)"

fun default_payload_type :: "flow_format \<Rightarrow> 8 word option" where
  "default_payload_type FmtVideo = Some 96"
| "default_payload_type FmtAudio = Some 97"
| "default_payload_type FmtData = Some 100"
| "default_payload_type FmtUnspecified = None"

definition resolve_payload_type :: "flow_format \<Rightarrow> gst_caps option \<Rightarrow> sdp_error + 8 word" where
  "resolve_payload_type format transport_caps =
     (case Option.bind (first_structure transport_caps) (\<lambda>s. field_int s ''payload'') of
        Some pt \<Rightarrow>
          if pt < 0 then Inl (InvalidPayloadType 0)
          else if \<not> (96 \<le> pt \<and> pt \<le> 127) then Inl (InvalidPayloadType (of_int pt))
          else Inr (of_int pt)
      | None \<Rightarrow> ok_or SdpPanic (default_payload_type format))"

definition resolve_audio_ptime :: "gst_caps option \<Rightarrow> u64 \<times> u64 option" where
  "resolve_audio_ptime transport_caps =
     (let field = (\<lambda>k. Option.bind (Option.bind (first_structure transport_caps) (\<lambda>s. field_string s k)) sdp_ptime_ms_as_ns)
      in (case field ''a-ptime'' of Some ns \<Rightarrow> ns | None \<Rightarrow> 1000000, field ''a-maxptime''))"

definition resolved_audio_caps :: "gst_caps \<Rightarrow> gst_caps option \<Rightarrow> gst_caps" where
  "resolved_audio_caps essence_caps transport_caps =
     (case Option.bind (first_structure transport_caps) (\<lambda>s. field_int s ''clock-rate'') of
        None \<Rightarrow> essence_caps
      | Some rate \<Rightarrow>
          (case essence_caps of [] \<Rightarrow> [] | (name, s) # rest \<Rightarrow> (name, AList.update ''rate'' (GInt rate) s) # rest))"

definition unspecified_address :: string where "unspecified_address = ''0.0.0.0''"

definition udp_leg_from_input :: "sdp_build_input \<Rightarrow> udp_leg" where
  "udp_leg_from_input input =
     (let source_ip = opt_string (sb_source_ip input)
      in \<lparr>ul_destination_ip = (if sb_destination_ip input \<noteq> [] then sb_destination_ip input else unspecified_address),
          ul_destination_port = (if sb_destination_port input = 0 then 5004 else sb_destination_port input),
          ul_interface_ip = (case sb_side input of Sender \<Rightarrow> source_ip | Receiver \<Rightarrow> opt_string (sb_interface_ip input)),
          ul_source_ip = source_ip,
          ul_source_port = (if sb_side input = Sender \<and> sb_source_port input \<noteq> 0 then Some (sb_source_port input) else None)\<rparr>)"

definition stable_origin_session_id :: "sdp_lib \<Rightarrow> string \<Rightarrow> side \<Rightarrow> string \<Rightarrow> string" where
  "stable_origin_session_id lib node_seed sd name = show_u32 (max (ucast (sl_hash lib node_seed sd name)) 1)"

definition session_of_input :: "sdp_lib \<Rightarrow> sdp_build_input \<Rightarrow> sdp_session" where
  "session_of_input lib input =
     \<lparr>ss_origin_address =
        (if sb_interface_ip input \<noteq> [] then sb_interface_ip input
         else if sb_source_ip input \<noteq> [] then sb_source_ip input else unspecified_address),
      ss_origin_session_id = stable_origin_session_id lib (sb_node_seed input) (sb_side input) (sb_name input),
      ss_session_name =
        (if sb_label input \<noteq> [] then sb_label input else if sb_name input \<noteq> [] then sb_name input else ''nvnmos''),
      ss_description = opt_string (sb_description input), ss_name = opt_string (sb_name input),
      ss_group_hint = opt_string (sb_group_hint input), ss_advertise_caps = sb_advertise_caps input,
      ss_emit_ptp_ts_refclk = (sb_type_n input \<and> sb_side input = Sender),
      ss_bit_rates = bit_rates_from_properties (sb_format_bit_rate input) (sb_transport_bit_rate input)\<rparr>"

definition rtp_caps_of_input :: "sdp_lib \<Rightarrow> sdp_build_input \<Rightarrow> flow_format \<Rightarrow> 8 word \<Rightarrow> sdp_error + gst_caps" where
  "rtp_caps_of_input lib input format payload_type =
     (case format of
        FmtVideo \<Rightarrow>
          (case sb_caps input of
             (name, _) # _ \<Rightarrow>
               if name = ''image/x-jxsc'' then rtp_caps_from_video_jxsv lib (sb_caps input) payload_type (sb_type_n input)
               else rtp_caps_from_video lib (sb_caps input) payload_type (sb_type_n input)
           | [] \<Rightarrow> rtp_caps_from_video lib (sb_caps input) payload_type (sb_type_n input))
      | FmtAudio \<Rightarrow>
          (case resolve_audio_ptime (sb_transport_caps input) of (ptime_ns, maxptime_ns) \<Rightarrow>
             rtp_caps_from_audio lib (resolved_audio_caps (sb_caps input) (sb_transport_caps input)) payload_type ptime_ns maxptime_ns
               (channel_order_from_rtp (sb_transport_caps input)))
      | FmtData \<Rightarrow> rtp_caps_from_data lib (sb_caps input) payload_type
      | FmtUnspecified \<Rightarrow> Inl SdpPanic)"

definition media_of_input :: "sdp_lib \<Rightarrow> sdp_build_input \<Rightarrow> sdp_error + udp_media" where
  "media_of_input lib input =
     and_ok (ok_or UnsupportedEssence (essence_caps_format (sb_caps input))) (\<lambda>format.
     and_ok (resolve_payload_type format (sb_transport_caps input)) (\<lambda>payload_type.
     and_ok (rtp_caps_of_input lib input format payload_type) (\<lambda>rtp_caps.
       Inr \<lparr>um_format = format, um_primary = udp_leg_from_input input, um_secondary = None, um_rtp_caps = rtp_caps,
            um_caps = essence_caps_from (sb_caps input) (Some rtp_caps)\<rparr>)))"

definition from_caps :: "sdp_lib \<Rightarrow> sdp_build_input \<Rightarrow> sdp_error + string" where
  "from_caps lib input = and_ok (media_of_input lib input) (\<lambda>media. build_sdp lib media (session_of_input lib input))"

section \<open>Checks\<close>

definition cross_check_essence_format_family :: "udp_media \<Rightarrow> gst_caps \<Rightarrow> sdp_error + unit" where
  "cross_check_essence_format_family media caps =
     (case essence_caps_format caps of
        Some f \<Rightarrow> if f \<noteq> um_format media then Inl (EssenceFormatMismatch f (um_format media)) else Inr ()
      | None \<Rightarrow> Inr ())"

definition cross_check_essence_caps :: "sdp_lib \<Rightarrow> udp_media \<Rightarrow> gst_caps \<Rightarrow> sdp_error + unit" where
  "cross_check_essence_caps lib media caps =
     and_ok (cross_check_essence_format_family media caps) (\<lambda>_.
       if sl_intersects lib (sl_without_features lib caps) (um_caps media) then Inr () else Inl EssenceShapeMismatch)"

definition without_override_fields :: "gst_caps \<Rightarrow> gst_caps" where
  "without_override_fields caps =
     (case caps of
        [] \<Rightarrow> []
      | (name, s) # rest \<Rightarrow> (name, filter (\<lambda>(k, _). k \<notin> {''payload'', ''a-ptime'', ''a-maxptime''}) s) # rest)"

definition cross_check_transport_caps :: "sdp_lib \<Rightarrow> udp_media \<Rightarrow> gst_caps \<Rightarrow> sdp_error + unit" where
  "cross_check_transport_caps lib media transport_caps =
     (if sl_intersects lib (without_override_fields transport_caps) (without_override_fields (um_rtp_caps media)) then Inr ()
      else Inl TransportCapsMismatch)"

definition cross_check_essence ::
  "sdp_lib \<Rightarrow> udp_media \<Rightarrow> gst_caps option \<Rightarrow> gst_caps option \<Rightarrow> cross_check_mode \<Rightarrow> sdp_error + unit" where
  "cross_check_essence lib media essence_caps transport_caps mode =
     and_ok
       (case essence_caps of
          None \<Rightarrow> Inr ()
        | Some caps \<Rightarrow>
            (case mode of
               CheckFull \<Rightarrow> cross_check_essence_caps lib media caps
             | FormatFamilyOnly \<Rightarrow> cross_check_essence_format_family media caps)) (\<lambda>_.
       case (mode, transport_caps) of
         (CheckFull, Some caps) \<Rightarrow> cross_check_transport_caps lib media caps
       | _ \<Rightarrow> Inr ())"

end
