(* ===== verification/Gst_SdpPassthrough.thy ===== *)
theory Gst_SdpPassthrough
  imports Gst_SdpBuild
begin

text \<open>
  Changing a session description that the user gives (\<^verbatim>\<open>sdp_passthrough.rs\<close>): the properties of the
  element replace single lines of the message, the rest is passed on as it was read. \<open>nmos_sdp\<close> at the
  end gathers what the configuration of an element (\<open>Gst_Plan\<close>) calls.
\<close>

section \<open>Attributes\<close>

fun upsert_attribute :: "string \<Rightarrow> string option \<Rightarrow> sdp_attributes \<Rightarrow> sdp_attributes" where
  "upsert_attribute key value [] = [(key, value)]"
| "upsert_attribute key value ((k, v) # rest) =
     (if k = key then (key, value) # rest else (k, v) # upsert_attribute key value rest)"

definition upsert_session_attribute :: "string \<Rightarrow> string option \<Rightarrow> sdp_message \<Rightarrow> sdp_message" where
  "upsert_session_attribute key value msg = msg\<lparr>msg_attributes := upsert_attribute key value (msg_attributes msg)\<rparr>"

definition upsert_media_attribute :: "string \<Rightarrow> string option \<Rightarrow> sdp_media \<Rightarrow> sdp_media" where
  "upsert_media_attribute key value m = m\<lparr>sm_attributes := upsert_attribute key value (sm_attributes m)\<rparr>"

definition remove_media_attributes_by_key :: "string \<Rightarrow> sdp_media \<Rightarrow> sdp_media" where
  "remove_media_attributes_by_key key m = m\<lparr>sm_attributes := filter (\<lambda>(k, _). k \<noteq> key) (sm_attributes m)\<rparr>"

definition sync_x_nvnmos_iface_for_local_ip :: "sdp_lib \<Rightarrow> string \<Rightarrow> sdp_media \<Rightarrow> sdp_media" where
  "sync_x_nvnmos_iface_for_local_ip lib ip m =
     (case iface_value lib ip of
        Some value \<Rightarrow> upsert_media_attribute ''x-nvnmos-iface'' (Some value) m
      | None \<Rightarrow> remove_media_attributes_by_key ''x-nvnmos-iface'' m)"

section \<open>Addresses\<close>

definition strip_address_ttl_suffix :: "string \<Rightarrow> string" where
  "strip_address_ttl_suffix address = hd (split_on CHR ''/'' address)"

definition connection_address :: "sdp_media \<Rightarrow> string option" where
  "connection_address m =
     (case sm_connections m of c # _ \<Rightarrow> map_option strip_address_ttl_suffix (sc_address c) | [] \<Rightarrow> None)"

definition is_multicast_address :: "string \<Rightarrow> bool" where
  "is_multicast_address address \<longleftrightarrow>
     (case parse_unsigned 255 (hd (split_on CHR ''.'' address)) of Some n \<Rightarrow> 224 \<le> n \<and> n \<le> 239 | None \<Rightarrow> False)"

definition replace_connection_address :: "string \<Rightarrow> sdp_media \<Rightarrow> sdp_error + sdp_media" where
  "replace_connection_address address m =
     (case sm_connections m of
        [] \<Rightarrow> Inl MissingConnection
      | conn # rest \<Rightarrow>
          Inr (m\<lparr>sm_connections :=
            \<lparr>sc_nettype = Some (case sc_nettype conn of Some n \<Rightarrow> n | None \<Rightarrow> ''IN''),
             sc_addrtype = Some (case sc_addrtype conn of Some a \<Rightarrow> a | None \<Rightarrow> ''IP4''),
             sc_address = Some address,
             sc_ttl = (if is_multicast_address address then (if sc_ttl conn = 0 then 32 else sc_ttl conn) else 0),
             sc_addr_number = sc_addr_number conn\<rparr> # rest\<rparr>))"

definition rewrite_source_filter_destination :: "string \<Rightarrow> string \<Rightarrow> string option" where
  "rewrite_source_filter_destination value dest =
     (case split_whitespace value of
        mode # nettype # addrtype # _ # sources \<Rightarrow>
          (let source = join_strings '' '' sources
           in if source = [] then None
              else Some ('' '' @ mode @ '' '' @ nettype @ '' '' @ addrtype @ '' '' @ dest @ '' '' @ source))
      | _ \<Rightarrow> None)"

text \<open>The first attribute of the key whose value can be rewritten.\<close>

fun rewrite_first :: "string \<Rightarrow> (string \<Rightarrow> string option) \<Rightarrow> sdp_attributes \<Rightarrow> sdp_attributes" where
  "rewrite_first key f [] = []"
| "rewrite_first key f ((k, v) # rest) =
     (case (if k = key then Option.bind v f else None) of
        Some new \<Rightarrow> (key, Some new) # rest
      | None \<Rightarrow> (k, v) # rewrite_first key f rest)"

definition update_source_filter_destination :: "string \<Rightarrow> sdp_media \<Rightarrow> sdp_media" where
  "update_source_filter_destination dest m =
     m\<lparr>sm_attributes := rewrite_first ''source-filter'' (\<lambda>v. rewrite_source_filter_destination v dest) (sm_attributes m)\<rparr>"

section \<open>Payload type and clock rate\<close>

definition rewrite_pt_attribute :: "string \<Rightarrow> string \<Rightarrow> string \<times> string option \<Rightarrow> string \<times> string option" where
  "rewrite_pt_attribute old_pt new_pt attr =
     (case attr of
        (key, Some value) \<Rightarrow>
          if (key = ''rtpmap'' \<or> key = ''fmtp'') \<and> starts_with value (old_pt @ '' '')
          then canonicalise_attribute (key, Some (new_pt @ '' '' @ drop (length (old_pt @ '' '')) value))
          else if key = ''x-nvnmos-caps'' \<and> value = old_pt then (key, Some new_pt)
          else attr
      | _ \<Rightarrow> attr)"

definition rewrite_payload_type :: "8 word \<Rightarrow> sdp_media \<Rightarrow> sdp_error + sdp_media" where
  "rewrite_payload_type new_pt m =
     (case sm_formats m of
        [] \<Rightarrow> Inl MissingPt
      | old_pt # rest \<Rightarrow>
          (let new = show_nat (unat new_pt)
           in if old_pt = new then Inr m
              else Inr (m\<lparr>sm_formats := new # rest, sm_attributes := map (rewrite_pt_attribute old_pt new) (sm_attributes m)\<rparr>)))"

definition rewrite_rtpmap_clock_rate :: "u32 \<Rightarrow> string \<Rightarrow> string option" where
  "rewrite_rtpmap_clock_rate new_rate value =
     Option.bind (split_once CHR '' '' value) (\<lambda>(pt, rest).
     Option.bind (split_once CHR ''/'' rest) (\<lambda>(encoding, after_slash).
     Option.bind (split_once CHR ''/'' after_slash) (\<lambda>(old_rate, channels).
     Option.bind (parse_u32 old_rate) (\<lambda>old.
       if old = new_rate then None
       else Some (pt @ '' '' @ encoding @ ''/'' @ show_u32 new_rate @ ''/'' @ channels)))))"

definition canonical_rtpmap :: "string \<Rightarrow> string" where
  "canonical_rtpmap value = (case canonicalise_rtpmap_value value of Some v \<Rightarrow> v | None \<Rightarrow> value)"

definition rewrite_audio_clock_rate :: "u32 \<Rightarrow> sdp_media \<Rightarrow> sdp_media" where
  "rewrite_audio_clock_rate new_rate m =
     m\<lparr>sm_attributes :=
       rewrite_first ''rtpmap'' (\<lambda>v. map_option canonical_rtpmap (rewrite_rtpmap_clock_rate new_rate v)) (sm_attributes m)\<rparr>"

section \<open>Overrides\<close>

definition transport_scalar_override_set :: "sdp_overrides \<Rightarrow> bool" where
  "transport_scalar_override_set ov \<longleftrightarrow>
     so_destination_ip ov \<noteq> None \<or> so_interface_ip ov \<noteq> None \<or> so_destination_port ov \<noteq> None \<or>
     so_source_ip ov \<noteq> None \<or> so_source_port ov \<noteq> None"

definition apply_destination_port :: "sdp_overrides \<Rightarrow> sdp_media \<Rightarrow> sdp_media" where
  "apply_destination_port ov m =
     (case so_destination_port ov of Some port \<Rightarrow> m\<lparr>sm_port := ucast port\<rparr> | None \<Rightarrow> m)"

definition apply_destination_ip :: "sdp_overrides \<Rightarrow> sdp_media \<Rightarrow> sdp_error + sdp_media" where
  "apply_destination_ip ov m =
     (case so_destination_ip ov of
        Some dest \<Rightarrow>
          if connection_address m = Some dest then Inr m
          else and_ok (replace_connection_address dest m) (\<lambda>m. Inr (update_source_filter_destination dest m))
      | None \<Rightarrow> Inr m)"

definition apply_interface_ip :: "sdp_lib \<Rightarrow> sdp_overrides \<Rightarrow> sdp_media \<Rightarrow> sdp_media" where
  "apply_interface_ip lib ov m =
     (case so_interface_ip ov of
        Some ip \<Rightarrow> sync_x_nvnmos_iface_for_local_ip lib ip (upsert_media_attribute ''x-nvnmos-iface-ip'' (Some ip) m)
      | None \<Rightarrow> m)"

definition apply_source :: "sdp_overrides \<Rightarrow> sdp_media \<Rightarrow> sdp_media" where
  "apply_source ov m =
     (let m1 = (case so_source_port ov of
                  Some port \<Rightarrow> upsert_media_attribute ''x-nvnmos-src-port'' (Some (show_port port)) m | None \<Rightarrow> m)
      in case so_source_ip ov of
           Some src \<Rightarrow>
             (let dest = (case so_destination_ip ov of Some d \<Rightarrow> d | None \<Rightarrow> or_empty (connection_address m1))
              in upsert_media_attribute ''source-filter'' (Some (source_filter dest src)) m1)
         | None \<Rightarrow> m1)"

definition apply_payload_type :: "sdp_overrides \<Rightarrow> sdp_media \<Rightarrow> sdp_error + sdp_media" where
  "apply_payload_type ov m =
     (case so_payload_type ov of
        Some pt \<Rightarrow>
          if \<not> (96 \<le> pt \<and> pt \<le> 127) then Inl (InvalidPayloadType (ucast pt)) else rewrite_payload_type pt m
      | None \<Rightarrow> Inr m)"

definition apply_audio :: "sdp_overrides \<Rightarrow> sdp_media \<Rightarrow> sdp_media" where
  "apply_audio ov m =
     (let m1 = (case so_audio_clock_rate ov of Some rate \<Rightarrow> rewrite_audio_clock_rate rate m | None \<Rightarrow> m);
          m2 = (case so_a_ptime ov of Some t \<Rightarrow> upsert_media_attribute ''ptime'' (Some t) m1 | None \<Rightarrow> m1)
      in case so_a_maxptime ov of Some t \<Rightarrow> upsert_media_attribute ''maxptime'' (Some t) m2 | None \<Rightarrow> m2)"

definition apply_primary_leg_transport_overrides :: "sdp_lib \<Rightarrow> sdp_overrides \<Rightarrow> sdp_media \<Rightarrow> sdp_error + sdp_media" where
  "apply_primary_leg_transport_overrides lib ov m =
     (let is_audio = (case sm_media m of Some kind \<Rightarrow> eq_ignore_ascii_case kind ''audio'' | None \<Rightarrow> False)
      in and_ok (apply_destination_ip ov (apply_destination_port ov m)) (\<lambda>m1.
         and_ok (apply_payload_type ov (apply_source ov (apply_interface_ip lib ov m1))) (\<lambda>m2.
           let m3 = (if is_audio then apply_audio ov m2 else m2)
           in Inr (if transport_scalar_override_set ov then remove_media_attributes_by_key ''inactive'' m3 else m3))))"

fun apply_caps_mode_override :: "caps_mode \<Rightarrow> sdp_media \<Rightarrow> sdp_media" where
  "apply_caps_mode_override CapsAuto m = m"
| "apply_caps_mode_override CapsConstrained m = remove_media_attributes_by_key ''x-nvnmos-caps'' m"
| "apply_caps_mode_override CapsUnconstrained m =
     (if attribute_val ''x-nvnmos-caps'' (sm_attributes m) = None
      then upsert_media_attribute ''x-nvnmos-caps'' (Some (case sm_formats m of pt # _ \<Rightarrow> pt | [] \<Rightarrow> ''96'')) m
      else m)"

definition apply_session_overrides_in_place :: "sdp_overrides \<Rightarrow> sdp_message \<Rightarrow> sdp_message" where
  "apply_session_overrides_in_place ov msg =
     (let m1 = (case so_label ov of Some label \<Rightarrow> msg\<lparr>msg_session_name := label\<rparr> | None \<Rightarrow> msg);
          m2 = (case so_description ov of Some d \<Rightarrow> m1\<lparr>msg_information := Some d\<rparr> | None \<Rightarrow> m1);
          m3 = (case so_name ov of Some name \<Rightarrow> upsert_session_attribute ''x-nvnmos-name'' (Some name) m2 | None \<Rightarrow> m2)
      in case so_group_hint ov of Some g \<Rightarrow> upsert_session_attribute ''x-nvnmos-group-hint'' (Some g) m3 | None \<Rightarrow> m3)"

definition apply_media_overrides_in_place :: "sdp_lib \<Rightarrow> sdp_overrides \<Rightarrow> sdp_message \<Rightarrow> sdp_error + sdp_message" where
  "apply_media_overrides_in_place lib ov msg =
     (case map (apply_caps_mode_override (so_caps_mode ov)) (msg_medias msg) of
        [] \<Rightarrow> Inr msg
      | m # rest \<Rightarrow>
          and_ok (apply_primary_leg_transport_overrides lib ov m) (\<lambda>m1.
            Inr (msg\<lparr>msg_medias :=
              (if so_bit_rates ov \<noteq> unset_bit_rates then apply_bit_rates_to_media (so_bit_rates ov) m1 else m1) # rest\<rparr>)))"

definition reject_unsupported_multi_media :: "sdp_lib \<Rightarrow> dual_leg_policy \<Rightarrow> sdp_message \<Rightarrow> sdp_error + unit" where
  "reject_unsupported_multi_media lib policy msg =
     (let n = length (msg_medias msg)
      in if n = 0 then Inl NoMedia
         else if n > 2 then Inl (TooManyMediaBlocks n)
         else if n = 2 then
           (case policy of RejectDualLeg \<Rightarrow> Inl DualLegUnsupported | AllowDualLeg \<Rightarrow> validate_dual_leg_sdp lib msg)
         else Inr ())"

definition passthrough_message :: "sdp_lib \<Rightarrow> sdp_overrides \<Rightarrow> dual_leg_policy \<Rightarrow> sdp_message \<Rightarrow> sdp_error + sdp_message" where
  "passthrough_message lib ov policy msg =
     and_ok (reject_unsupported_multi_media lib policy msg) (\<lambda>_.
       apply_media_overrides_in_place lib ov (apply_session_overrides_in_place ov msg))"

definition passthrough_with_overrides :: "sdp_lib \<Rightarrow> string \<Rightarrow> sdp_overrides \<Rightarrow> dual_leg_policy \<Rightarrow> sdp_error + string" where
  "passthrough_with_overrides lib t ov policy =
     and_ok (parse_message lib t) (\<lambda>msg.
     and_ok (passthrough_message lib ov policy msg) (\<lambda>msg.
       ok_or Serialise (sl_text lib msg)))"

section \<open>The functions of an element\<close>

definition ok_value :: "'e + 'a \<Rightarrow> 'a option" where
  "ok_value r = (case r of Inl _ \<Rightarrow> None | Inr a \<Rightarrow> Some a)"

definition sdp_outcome_of :: "sdp_error + 'a \<Rightarrow> 'a sdp_outcome" where
  "sdp_outcome_of r = (case r of Inr a \<Rightarrow> SdpGood a | Inl e \<Rightarrow> if e = SdpPanic then SdpPanics else SdpBad)"

definition nmos_sdp :: "sdp_lib \<Rightarrow> sdp_ops" where
  "nmos_sdp lib =
     \<lparr>sdp_from_caps = (\<lambda>input. sdp_outcome_of (from_caps lib input)),
      sdp_parse = (\<lambda>t. sdp_outcome_of (parse_sdp lib t)),
      sdp_cross_check = (\<lambda>media caps transport_caps mode. is_ok (cross_check_essence lib media caps transport_caps mode)),
      sdp_media_block_count = (\<lambda>t. ok_value (sdp_media_block_count_of lib t)),
      sdp_count_active_legs = (\<lambda>t. ok_value (count_active_sdp_legs lib t)),
      sdp_unconstrained = indicates_unconstrained_sdp lib,
      sdp_resource_name = (\<lambda>t. ok_value (sdp_resource_name_from_transport lib t)),
      sdp_bit_rates = (\<lambda>t. ok_value (bit_rates_from_sdp_text lib t)),
      sdp_passthrough = (\<lambda>t ov policy. sdp_outcome_of (passthrough_with_overrides lib t ov policy)),
      sdp_normalise = (\<lambda>t. ok_value (normalise_to_single_active_leg lib t))\<rparr>"

end
