(* ===== verification/Gst_SdpFacts.thy ===== *)
theory Gst_SdpFacts
  imports Gst_SdpPassthrough
begin

text \<open>
  What the functions on session descriptions promise: format parameters are read back as they were
  printed, bit rates as they were written, the addresses of a leg as they were built or overridden.
\<close>

section \<open>Text\<close>

lemma trim_Nil [simp]: "trim [] = []"
  by (simp add: trim_def)

lemma dropWhile_id: "dropWhile P s = s \<longleftrightarrow> s = [] \<or> \<not> P (hd s)"
  by (metis dropWhile.simps(1) dropWhile_eq_self_iff)

lemma trim_id_iff: "trim s = s \<longleftrightarrow> s = [] \<or> \<not> is_ws (hd s) \<and> \<not> is_ws (last s)"
proof (cases "s = []")
  case False
  show ?thesis
  proof
    assume t: "trim s = s"
    have "length (dropWhile is_ws (rev (dropWhile is_ws s))) = length s"
      using t unfolding trim_def by (metis length_rev)
    then have "length (dropWhile is_ws s) = length s"
      by (metis length_dropWhile_le length_rev le_antisym)
    then have a: "dropWhile is_ws s = s"
      by (metis append_eq_conv_conj append_same_eq drop_0 dropWhile_eq_drop takeWhile_dropWhile_id length_0_conv length_append add_cancel_left_left self_append_conv2)
    then have "dropWhile is_ws (rev s) = rev s" using t unfolding trim_def by (metis rev_rev_ident)
    with a False show "s = [] \<or> \<not> is_ws (hd s) \<and> \<not> is_ws (last s)"
      by (simp add: dropWhile_id hd_rev)
  qed (use False in \<open>simp add: trim_def dropWhile_id [THEN iffD2] hd_rev\<close>)
qed simp

lemma set_trim: "set (trim s) \<subseteq> set s"
  by (auto simp: trim_def dest!: set_dropWhileD)

lemma trim_trim [simp]: "trim (trim s) = trim s"
proof -
  define u where "u = dropWhile is_ws s"
  have t: "trim s = rev (dropWhile is_ws (rev u))" by (simp add: trim_def u_def)
  have "trim s = [] \<or> \<not> is_ws (last (trim s))"
    unfolding t using hd_dropWhile [of is_ws "rev u"] by (auto simp: last_rev)
  moreover have "trim s = [] \<or> \<not> is_ws (hd (trim s))"
  proof (cases "trim s = []")
    case False
    obtain w where w: "u = trim s @ w"
      unfolding t by (metis rev_append rev_rev_ident takeWhile_dropWhile_id)
    then have "hd (trim s) = hd u" using False by simp
    moreover have "\<not> is_ws (hd u)" using False w hd_dropWhile [of is_ws s] unfolding u_def by force
    ultimately show ?thesis by simp
  qed simp
  ultimately show ?thesis by (auto simp: trim_id_iff)
qed

lemma trim_space: "\<not> is_ws (hd s) \<Longrightarrow> \<not> is_ws (last s) \<Longrightarrow> s \<noteq> [] \<Longrightarrow> trim (CHR '' '' # s) = s"
  using trim_id_iff [of s] by (simp add: trim_def is_ws_def)

lemma split_on_pieces: "x \<in> set (split_on d s) \<Longrightarrow> d \<notin> set x"
  by (induction s arbitrary: x) (auto split: list.splits if_splits)

lemma split_on_nonempty [simp]: "split_on d s \<noteq> []"
  by (cases s) (auto split: list.splits)

lemma split_on_plain: "d \<notin> set s \<Longrightarrow> split_on d s = [s]"
  by (induction s) auto

lemma split_on_append: "d \<notin> set s \<Longrightarrow> split_on d (s @ d # t) = s # split_on d t"
  by (induction s) auto

lemma split_once_None_iff: "split_once d s = None \<longleftrightarrow> d \<notin> set s"
  by (induction s) auto

section \<open>Format parameters\<close>

definition fmtp_ok :: "fmtp_param \<Rightarrow> bool" where
  "fmtp_ok p \<longleftrightarrow>
     fp_key p \<noteq> [] \<and> trim (fp_key p) = fp_key p \<and> CHR ''='' \<notin> set (fp_key p) \<and> CHR '';'' \<notin> set (fp_key p) \<and>
     (case fp_value p of Some v \<Rightarrow> trim v = v \<and> CHR '';'' \<notin> set v | None \<Rightarrow> True)"

definition fmtp_text :: "fmtp_param \<Rightarrow> string" where
  "fmtp_text p = append_fmtp_param [] p"

lemma not_in_trim: "c \<notin> set s \<Longrightarrow> c \<notin> set (trim s)"
  using set_trim by blast

lemma parse_fmtp_param_ok:
  assumes p: "parse_fmtp_param raw = Some p" and raw: "CHR '';'' \<notin> set raw"
  shows "fmtp_ok p"
proof (cases "split_once CHR ''='' (trim raw)")
  case None
  then show ?thesis
    using p not_in_trim [OF raw] None [unfolded split_once_None_iff]
    by (auto simp: parse_fmtp_param_def fmtp_ok_def Let_def split: if_splits)
next
  case (Some kv)
  obtain key v where kv: "kv = (key, v)" by fastforce
  have t: "trim raw = key @ CHR ''='' # v" "CHR ''='' \<notin> set key" using split_once_SomeD [of _ _ key v] Some kv by auto
  then have no: "CHR '';'' \<notin> set key" "CHR '';'' \<notin> set v" using not_in_trim [OF raw] by auto
  show ?thesis
    using p Some kv not_in_trim [OF no(1)] not_in_trim [OF no(2)] not_in_trim [OF t(2)]
    by (auto simp: parse_fmtp_param_def fmtp_ok_def Let_def split: if_splits)
qed

lemma parse_fmtp_params_ok: "p \<in> set (parse_fmtp_params s) \<Longrightarrow> fmtp_ok p"
  unfolding parse_fmtp_params_def List.map_filter_def using parse_fmtp_param_ok split_on_pieces by fastforce

lemma fmtp_text_ends:
  assumes "fmtp_ok p"
  shows "fmtp_text p \<noteq> []" "\<not> is_ws (hd (fmtp_text p))" "\<not> is_ws (last (fmtp_text p))" "CHR '';'' \<notin> set (fmtp_text p)"
  using assms
  by (auto simp: fmtp_ok_def fmtp_text_def append_fmtp_param_def trim_id_iff is_ws_def [of "CHR ''=''"] split: option.splits)

lemma parse_fmtp_text:
  assumes "fmtp_ok p"
  shows "parse_fmtp_param (fmtp_text p) = Some p" "parse_fmtp_param (CHR '' '' # fmtp_text p) = Some p"
proof -
  note ends = fmtp_text_ends [OF assms]
  have t: "trim (fmtp_text p) = fmtp_text p" "trim (CHR '' '' # fmtp_text p) = fmtp_text p"
    using ends by (simp_all add: trim_id_iff trim_space)
  have "split_once CHR ''='' (fmtp_text p) = map_option (Pair (fp_key p)) (fp_value p)"
    using assms by (auto simp: fmtp_ok_def fmtp_text_def append_fmtp_param_def split_once_None_iff split: option.splits)
  then show "parse_fmtp_param (fmtp_text p) = Some p" "parse_fmtp_param (CHR '' '' # fmtp_text p) = Some p"
    using assms ends(1) t
    by (auto simp: parse_fmtp_param_def fmtp_ok_def fmtp_text_def append_fmtp_param_def Let_def split: option.splits)
qed

lemma print_fmtp_params_Cons:
  assumes "buf \<noteq> []"
  shows "foldl append_fmtp_param buf ps = buf @ concat (map (\<lambda>p. CHR '';'' # CHR '' '' # fmtp_text p) ps)"
  using assms
  by (induction ps arbitrary: buf) (simp_all add: append_fmtp_param_def fmtp_text_def fmtp_separator_def)

lemma split_printed:
  assumes "CHR '';'' \<notin> set s" "\<And>p. p \<in> set ps \<Longrightarrow> fmtp_ok p"
  shows "split_on CHR '';'' (s @ concat (map (\<lambda>p. CHR '';'' # CHR '' '' # fmtp_text p) ps)) = s # map (\<lambda>p. CHR '' '' # fmtp_text p) ps"
  using assms
proof (induction ps arbitrary: s)
  case (Cons p ps)
  then show ?case
    using Cons.IH [of "CHR '' '' # fmtp_text p"] fmtp_text_ends [of p] by (simp add: split_on_append)
qed (simp add: split_on_plain)

lemma map_filter_Some: "(\<And>x. x \<in> set xs \<Longrightarrow> f (g x) = Some x) \<Longrightarrow> List.map_filter f (map g xs) = xs"
  by (induction xs) (simp_all add: List.map_filter_def)

lemma parse_print_fmtp_params:
  assumes "\<And>p. p \<in> set ps \<Longrightarrow> fmtp_ok p"
  shows "parse_fmtp_params (print_fmtp_params ps) = ps"
proof (cases ps)
  case Nil
  then show ?thesis by (simp add: print_fmtp_params_def parse_fmtp_params_def parse_fmtp_param_def List.map_filter_def)
next
  case (Cons p rest)
  have p: "fmtp_ok p" and rest: "\<And>q. q \<in> set rest \<Longrightarrow> fmtp_ok q" using assms Cons by simp_all
  have "print_fmtp_params ps = fmtp_text p @ concat (map (\<lambda>p. CHR '';'' # CHR '' '' # fmtp_text p) rest)"
    using print_fmtp_params_Cons [OF fmtp_text_ends(1) [OF p]] Cons by (simp add: print_fmtp_params_def fmtp_text_def)
  then show ?thesis
    using split_printed [OF fmtp_text_ends(4) [OF p] rest] parse_fmtp_text(1) [OF p]
      map_filter_Some [of rest parse_fmtp_param "\<lambda>p. CHR '' '' # fmtp_text p"] parse_fmtp_text(2) [OF rest] Cons
    by (simp add: parse_fmtp_params_def List.map_filter_simps)
qed

section \<open>Bit rates\<close>

lemma show_u64_chars: "c \<in> set (show_u64 n) \<Longrightarrow> is_ascii_alphanumeric c"
  using show_nat_id [of "unat n"] by (auto simp: show_u64_def list_all_iff)

lemma alphanumeric_plain:
  assumes "is_ascii_alphanumeric c"
  shows "\<not> is_ws c" "c \<noteq> CHR '';''"
  using assms by (auto simp: is_ascii_alphanumeric_def is_ws_def Let_def)

lemma show_u64_plain: "show_u64 n \<noteq> []" "trim (show_u64 n) = show_u64 n" "CHR '';'' \<notin> set (show_u64 n)"
proof -
  show "show_u64 n \<noteq> []" by (simp add: show_u64_def)
  then have "\<not> is_ws (hd (show_u64 n))" "\<not> is_ws (last (show_u64 n))"
    using show_u64_chars alphanumeric_plain(1) by (meson hd_in_set last_in_set)+
  then show "trim (show_u64 n) = show_u64 n" by (simp add: trim_id_iff)
  show "CHR '';'' \<notin> set (show_u64 n)" using show_u64_chars alphanumeric_plain(2) by blast
qed

lemma parse_show_u64: "parse_u64 (show_u64 n) = Some n"
proof -
  have "unat n < 2 ^ 64" using unsigned_less [of n, where ?'a = nat] by simp
  then show ?thesis by (simp add: parse_u64_def show_u64_def parse_unsigned_show_nat)
qed

lemma bit_rate_keys_ok:
  "fmtp_ok \<lparr>fp_key = fmtp_format_bit_rate, fp_value = Some (show_u64 n)\<rparr>"
  "fmtp_ok \<lparr>fp_key = fmtp_transport_bit_rate, fp_value = Some (show_u64 n)\<rparr>"
  by (simp_all add: fmtp_ok_def show_u64_plain fmtp_format_bit_rate_def fmtp_transport_bit_rate_def trim_id_iff is_ws_def)

lemma with_bit_rates_ok: "(\<And>p. p \<in> set ps \<Longrightarrow> fmtp_ok p) \<Longrightarrow> p \<in> set (with_bit_rates br ps) \<Longrightarrow> fmtp_ok p"
  by (auto simp: with_bit_rates_def bit_rate_keys_ok split: if_splits)

lemma bit_rate_keys_differ:
  "\<not> eq_ignore_ascii_case fmtp_format_bit_rate fmtp_transport_bit_rate"
  "\<not> eq_ignore_ascii_case fmtp_transport_bit_rate fmtp_format_bit_rate"
  "eq_ignore_ascii_case s s"
  by (simp_all add: eq_ignore_ascii_case_def fmtp_format_bit_rate_def fmtp_transport_bit_rate_def to_ascii_lowercase_def)

lemma find_after_filter: "(\<And>x. Q x \<Longrightarrow> \<not> P x) \<Longrightarrow> List.find P (filter Q xs @ ys) = List.find P ys"
  by (induction xs) auto

lemma fmtp_u64_written:
  "fmtp_u64 (with_bit_rates br ps) fmtp_format_bit_rate = (if br_format br > 0 then Some (br_format br) else None)"
  "fmtp_u64 (with_bit_rates br ps) fmtp_transport_bit_rate = (if br_transport br > 0 then Some (br_transport br) else None)"
proof -
  let ?kept = "filter (\<lambda>p. \<not> eq_ignore_ascii_case (fp_key p) fmtp_format_bit_rate \<and> \<not> eq_ignore_ascii_case (fp_key p) fmtp_transport_bit_rate) ps"
  have skip: "List.find (\<lambda>p. eq_ignore_ascii_case (fp_key p) fmtp_format_bit_rate) (?kept @ ys) =
      List.find (\<lambda>p. eq_ignore_ascii_case (fp_key p) fmtp_format_bit_rate) ys"
    "List.find (\<lambda>p. eq_ignore_ascii_case (fp_key p) fmtp_transport_bit_rate) (?kept @ ys) =
      List.find (\<lambda>p. eq_ignore_ascii_case (fp_key p) fmtp_transport_bit_rate) ys" for ys
    by (rule find_after_filter, simp)+
  show "fmtp_u64 (with_bit_rates br ps) fmtp_format_bit_rate = (if br_format br > 0 then Some (br_format br) else None)"
    unfolding fmtp_u64_def with_bit_rates_def skip by (simp add: bit_rate_keys_differ parse_show_u64)
  show "fmtp_u64 (with_bit_rates br ps) fmtp_transport_bit_rate = (if br_transport br > 0 then Some (br_transport br) else None)"
    unfolding fmtp_u64_def with_bit_rates_def skip by (simp add: bit_rate_keys_differ parse_show_u64)
qed

lemma attribute_val_Cons: "attribute_val k ((k', v) # rest) = (if k' = k then v else attribute_val k rest)"
  by (simp add: attribute_val_def)

lemma upsert_in_attributes_val:
  assumes "attribute_val ''fmtp'' attrs = Some v" "split_once CHR '' '' v = Some (pt, params)"
  shows "attribute_val ''fmtp'' (upsert_in_attributes br attrs) =
    Some (pt @ '' '' @ print_fmtp_params (with_bit_rates br (parse_fmtp_params params)))"
  using assms
  by (induction attrs) (auto simp: attribute_val_Cons split: option.splits, simp_all add: attribute_val_def)

lemma upsert_in_attributes_other:
  "k \<noteq> ''fmtp'' \<Longrightarrow> filter (\<lambda>(k', _). k' = k) (upsert_in_attributes br attrs) = filter (\<lambda>(k', _). k' = k) attrs"
  by (induction attrs) (auto split: option.splits)

lemma fmtp_params_upserted:
  assumes "attribute_val ''fmtp'' (sm_attributes m) = Some v" "CHR '' '' \<in> set v" "br \<noteq> unset_bit_rates"
  shows "parse_fmtp_params (media_fmtp_params (upsert_nvnmos_bit_rates_in_fmtp br m)) = with_bit_rates br (parse_fmtp_params (media_fmtp_params m))"
proof -
  obtain pt params where v: "split_once CHR '' '' v = Some (pt, params)"
    using assms(2) split_once_None_iff [of "CHR '' ''" v] by (cases "split_once CHR '' '' v") auto
  then have pt: "CHR '' '' \<notin> set pt" using split_once_SomeD by blast
  have "media_fmtp_params (upsert_nvnmos_bit_rates_in_fmtp br m) = print_fmtp_params (with_bit_rates br (parse_fmtp_params params))"
    using upsert_in_attributes_val [OF assms(1) v, of br] pt assms(3) by (simp add: media_fmtp_params_def upsert_nvnmos_bit_rates_in_fmtp_def)
  moreover have "media_fmtp_params m = params" using assms(1) v by (simp add: media_fmtp_params_def)
  ultimately show ?thesis
    using parse_print_fmtp_params [of "with_bit_rates br (parse_fmtp_params params)"] with_bit_rates_ok parse_fmtp_params_ok by metis
qed

lemma media_fmtp_params_written:
  assumes "attribute_val ''fmtp'' (sm_attributes m) = Some v" "CHR '' '' \<in> set v" "br \<noteq> unset_bit_rates"
  shows "parse_fmtp_params (media_fmtp_params (apply_bit_rates_to_media br m)) = with_bit_rates br (parse_fmtp_params (media_fmtp_params m))"
proof -
  have "parse_fmtp_params (media_fmtp_params (upsert_nvnmos_bit_rates_in_fmtp br (m\<lparr>sm_bandwidths := b\<rparr>))) =
      with_bit_rates br (parse_fmtp_params (media_fmtp_params m))" for b
    using fmtp_params_upserted [of "m\<lparr>sm_bandwidths := b\<rparr>" v br] assms by (simp add: media_fmtp_params_def)
  then show ?thesis
    using fmtp_params_upserted [OF assms] assms(3) by (auto simp: apply_bit_rates_to_media_def split: option.splits)
qed

lemma bit_rates_of_params:
  assumes "parse_fmtp_params (media_fmtp_params m) = with_bit_rates (bit_rates_from_properties f t) ps" "f > 0 \<or> t > 0"
  shows "bit_rates_from_media m = bit_rates_from_properties f t"
proof -
  consider (both) "f > 0" "t > 0" | (format) "f > 0" "t = 0" | (transport) "f = 0" "t > 0"
    using assms(2) by (auto simp: word_gt_0)
  then show ?thesis
    unfolding bit_rates_from_media_def assms(1)
    by cases (simp_all add: fmtp_u64_written bit_rates_from_properties_def unset_bit_rates_def Let_def word_gt_0)
qed

lemma bit_rates_set: "f > 0 \<or> t > 0 \<Longrightarrow> bit_rates_from_properties f t \<noteq> unset_bit_rates"
  by (auto simp: bit_rates_from_properties_def unset_bit_rates_def)

definition is_bit_rate_param :: "fmtp_param \<Rightarrow> bool" where
  "is_bit_rate_param p \<longleftrightarrow> eq_ignore_ascii_case (fp_key p) fmtp_format_bit_rate \<or> eq_ignore_ascii_case (fp_key p) fmtp_transport_bit_rate"

text \<open>
  Bit rates are read back. When the bit rates of an element's properties are written into a media
  block that has format parameters, reading the block gives the same bit rates, also where one of them
  was derived from the other in floating point and came out as 0; the other format parameters are read
  as before and in the same order.
\<close>

theorem bit_rates_read_back:
  assumes "attribute_val ''fmtp'' (sm_attributes m) = Some v" "CHR '' '' \<in> set v" "f > 0 \<or> t > 0"
  shows "bit_rates_from_media (apply_bit_rates_to_media (bit_rates_from_properties f t) m) = bit_rates_from_properties f t \<and>
    filter (\<lambda>p. \<not> is_bit_rate_param p) (parse_fmtp_params (media_fmtp_params (apply_bit_rates_to_media (bit_rates_from_properties f t) m))) =
    filter (\<lambda>p. \<not> is_bit_rate_param p) (parse_fmtp_params (media_fmtp_params m))"
proof -
  define br where "br = bit_rates_from_properties f t"
  note params = media_fmtp_params_written [OF assms(1,2) bit_rates_set [OF assms(3)], folded br_def]
  have "filter (\<lambda>p. \<not> is_bit_rate_param p) (with_bit_rates br ps) = filter (\<lambda>p. \<not> is_bit_rate_param p) ps" for ps
    by (simp add: with_bit_rates_def is_bit_rate_param_def bit_rate_keys_differ)
  then show ?thesis using params bit_rates_of_params [OF params [unfolded br_def] assms(3)] by (simp add: br_def)
qed

definition example_media :: sdp_media where
  "example_media = new_media\<lparr>sm_media := Some ''video'', sm_port := 5004, sm_formats := [''96''],
     sm_connections := [\<lparr>sc_nettype = Some ''IN'', sc_addrtype = Some ''IP4'', sc_address = Some ''239.1.1.1'', sc_ttl = 32,
       sc_addr_number = 0\<rparr>],
     sm_attributes := [(''rtpmap'', Some ''96 jxsv/90000''), (''fmtp'', Some ''96 width=1920;height=1080''),
       (''source-filter'', Some '' incl IN IP4 239.1.1.1 10.0.0.1''), (''inactive'', Some [])]\<rparr>"

theorem bit_rates_read_back_witness:
  "bit_rates_from_media (apply_bit_rates_to_media (bit_rates_from_properties 500 700) example_media) = bit_rates_from_properties 500 700"
  using bit_rates_read_back [of example_media "''96 width=1920;height=1080''" 500 700]
  by (simp add: example_media_def attribute_val_def)

section \<open>Words\<close>

definition plain_word :: "string \<Rightarrow> bool" where
  "plain_word s \<longleftrightarrow> s \<noteq> [] \<and> list_all (\<lambda>c. \<not> is_ws c) s"

lemma words_from_plain: "list_all (\<lambda>c. \<not> is_ws c) s \<Longrightarrow> words_from acc (s @ t) = words_from (rev s @ acc) t"
  by (induction s arbitrary: acc) simp_all

lemma split_whitespace_simps:
  "split_whitespace (CHR '' '' # s) = split_whitespace s"
  "plain_word w \<Longrightarrow> split_whitespace (w @ CHR '' '' # s) = w # split_whitespace s"
  "plain_word w \<Longrightarrow> split_whitespace w = [w]"
  using words_from_plain [of w "[]" "CHR '' '' # s"] words_from_plain [of w "[]" "[]"]
  by (auto simp: split_whitespace_def plain_word_def is_ws_def)

lemma words_from_words: "list_all (\<lambda>c. \<not> is_ws c) acc \<Longrightarrow> w \<in> set (words_from acc s) \<Longrightarrow> plain_word w"
proof (induction s arbitrary: acc)
  case Nil
  then show ?case by (simp add: plain_word_def split: if_splits)
next
  case (Cons c s)
  have "plain_word (rev acc)" if "acc \<noteq> []" using that Cons.prems(1) by (simp add: plain_word_def)
  then show ?case
    using Cons.IH [of "[]"] Cons.IH [of "c # acc"] Cons.prems by (cases "is_ws c"; cases "acc = []") auto
qed

lemma split_whitespace_words: "w \<in> set (split_whitespace s) \<Longrightarrow> plain_word w"
  unfolding split_whitespace_def by (rule words_from_words) simp_all

lemma split_whitespace_join: "(\<And>w. w \<in> set ws \<Longrightarrow> plain_word w) \<Longrightarrow> split_whitespace (join_strings '' '' ws) = ws"
proof (induction ws)
  case (Cons w ws)
  then show ?case by (cases ws) (simp_all add: join_strings_def split_whitespace_simps)
qed (simp add: join_strings_def split_whitespace_def)

lemma plain_words [simp]: "plain_word ''incl''" "plain_word ''IN''" "plain_word ''IP4''"
  by (simp_all add: plain_word_def is_ws_def)

lemma source_filter_words:
  assumes "plain_word dest" "plain_word src"
  shows "split_whitespace (source_filter dest src) = [''incl'', ''IN'', ''IP4'', dest, src]"
  using split_whitespace_simps(2) [of "''incl''"] split_whitespace_simps(2) [of "''IN''"] split_whitespace_simps(2) [of "''IP4''"] assms
  by (simp add: source_filter_def split_whitespace_simps)

lemma extract_source_filter: "plain_word dest \<Longrightarrow> plain_word src \<Longrightarrow> extract_source_ip_from_filter (source_filter dest src) = Some src"
  by (simp add: extract_source_ip_from_filter_def source_filter_words)

text \<open>Another destination leaves the source of a filter as it is.\<close>

lemma extract_rewritten:
  assumes "rewrite_source_filter_destination v dest = Some v'" "plain_word dest"
  shows "extract_source_ip_from_filter v' = extract_source_ip_from_filter v"
proof -
  obtain mode nettype addrtype d sources where w: "split_whitespace v = mode # nettype # addrtype # d # sources"
    and v': "v' = '' '' @ mode @ '' '' @ nettype @ '' '' @ addrtype @ '' '' @ dest @ '' '' @ join_strings '' '' sources"
    using assms(1) by (auto simp: rewrite_source_filter_destination_def Let_def split: list.splits if_splits)
  have plain: "plain_word x" if "x \<in> set (mode # nettype # addrtype # d # sources)" for x
    using split_whitespace_words [of x v] that unfolding w by blast
  have "split_whitespace v' = mode # nettype # addrtype # dest # sources"
    using plain assms(2) by (simp add: v' split_whitespace_simps split_whitespace_join)
  then show ?thesis by (simp add: extract_source_ip_from_filter_def w split: list.splits)
qed

section \<open>Attributes\<close>

lemma attribute_val_upsert [simp]:
  "attribute_val k (upsert_attribute k' v attrs) = (if k = k' then v else attribute_val k attrs)"
  by (induction attrs) (auto simp: attribute_val_Cons attribute_val_def)

lemma attribute_val_remove [simp]:
  "attribute_val k (filter (\<lambda>(k', _). k' \<noteq> key) attrs) = (if k = key then None else attribute_val k attrs)"
  by (induction attrs) (auto simp: attribute_val_Cons attribute_val_def)

lemma attribute_val_rewrite_first:
  "attribute_val k (rewrite_first key f attrs) =
    (case attribute_val k attrs of Some v \<Rightarrow> if k = key \<and> f v \<noteq> None then f v else Some v | None \<Rightarrow> None)"
proof (induction attrs)
  case (Cons a attrs)
  obtain k' v where a: "a = (k', v)" by fastforce
  show ?case
    by (cases v; cases "k' = key"; cases "f (the v)") (simp_all add: a attribute_val_Cons Cons split: option.split)
qed (simp add: attribute_val_def)

lemma attribute_val_map:
  assumes "\<And>k' v. fst (g (k', v)) = k'" "\<And>v. g (k, v) = (k, v)"
  shows "attribute_val k (map g attrs) = attribute_val k attrs"
proof (induction attrs)
  case (Cons a attrs)
  obtain k' v where a: "a = (k', v)" by fastforce
  obtain v' where g: "g (k', v) = (k', v')" using assms(1) [of k' v] by (cases "g (k', v)") simp
  then show ?case using Cons assms(2) [of v] by (auto simp: a attribute_val_Cons)
qed (simp add: attribute_val_def)

section \<open>Overrides\<close>

text \<open>Two media blocks with the same leg: they differ at most in attributes of the essence and in other lines.\<close>

definition essence_keys :: "string set" where
  "essence_keys = {''rtpmap'', ''fmtp'', ''x-nvnmos-caps'', ''ptime'', ''maxptime''}"

definition same_leg :: "sdp_media \<Rightarrow> sdp_media \<Rightarrow> bool" where
  "same_leg m m' \<longleftrightarrow>
     sm_port m' = sm_port m \<and> sm_connections m' = sm_connections m \<and>
     (\<forall>k. k \<notin> essence_keys \<longrightarrow> attribute_val k (sm_attributes m') = attribute_val k (sm_attributes m))"

lemma same_leg_refl [simp]: "same_leg m m"
  by (simp add: same_leg_def)

lemma same_leg_trans [trans]: "same_leg a b \<Longrightarrow> same_leg b c \<Longrightarrow> same_leg a c"
  by (simp add: same_leg_def)

lemma same_leg_upsert: "key \<in> essence_keys \<Longrightarrow> same_leg m (upsert_media_attribute key v m)"
  by (auto simp: same_leg_def upsert_media_attribute_def)

lemma same_leg_caps_mode: "same_leg m (apply_caps_mode_override mode m)"
  by (cases mode) (auto simp: same_leg_def upsert_media_attribute_def remove_media_attributes_by_key_def essence_keys_def)

lemma canonicalise_attribute_key: "fst (canonicalise_attribute (k, v)) = k"
  by (simp add: canonicalise_attribute_def split: option.splits)

lemma rewrite_pt_attribute_key: "fst (rewrite_pt_attribute old new (k, v)) = k"
  by (simp add: rewrite_pt_attribute_def canonicalise_attribute_key split: option.splits)

lemma same_leg_payload_type:
  assumes "apply_payload_type ov m = Inr m'"
  shows "same_leg m m'"
proof -
  have "attribute_val k (map (rewrite_pt_attribute old new) attrs) = attribute_val k attrs" if "k \<notin> essence_keys" for k old new attrs
    using that by (intro attribute_val_map rewrite_pt_attribute_key) (auto simp: essence_keys_def rewrite_pt_attribute_def split: option.splits)
  then show ?thesis
    using assms
    by (auto simp: apply_payload_type_def rewrite_payload_type_def same_leg_def Let_def split: option.splits if_splits list.splits)
qed

lemma same_leg_audio: "same_leg m (apply_audio ov m)"
proof -
  have rate: "same_leg m (rewrite_audio_clock_rate rate m)" for rate
    by (auto simp: same_leg_def rewrite_audio_clock_rate_def attribute_val_rewrite_first essence_keys_def split: option.splits)
  have "same_leg m (upsert_media_attribute key v m')" if "same_leg m m'" "key = ''ptime'' \<or> key = ''maxptime''" for key v m'
    using same_leg_trans [OF that(1) same_leg_upsert] that(2) by (auto simp: essence_keys_def)
  then show ?thesis
    unfolding apply_audio_def Let_def using rate by (auto split: option.split)
qed

lemma upsert_in_attributes_val_other: "k \<noteq> ''fmtp'' \<Longrightarrow> attribute_val k (upsert_in_attributes br attrs) = attribute_val k attrs"
  by (induction attrs) (auto simp: attribute_val_Cons split: option.splits)

lemma same_leg_bit_rates: "same_leg m (apply_bit_rates_to_media br m)"
  by (auto simp: same_leg_def apply_bit_rates_to_media_def upsert_nvnmos_bit_rates_in_fmtp_def upsert_in_attributes_val_other
      essence_keys_def split: option.splits)

definition overridden :: "'a option \<Rightarrow> 'a \<Rightarrow> 'a" where
  "overridden v old = (case v of Some new \<Rightarrow> new | None \<Rightarrow> old)"

definition plain_address :: "string \<Rightarrow> bool" where
  "plain_address s \<longleftrightarrow> plain_word s \<and> CHR ''/'' \<notin> set s"

lemma strip_plain_address: "plain_address s \<Longrightarrow> strip_address_ttl_suffix s = s"
  by (simp add: plain_address_def strip_address_ttl_suffix_def split_on_plain)

definition filtered_source :: "sdp_media \<Rightarrow> string option" where
  "filtered_source m = Option.bind (attribute_val ''source-filter'' (sm_attributes m)) extract_source_ip_from_filter"

lemma destination_port_override:
  "sm_port (apply_destination_port ov m) = overridden (map_option ucast (so_destination_port ov)) (sm_port m)"
  "sm_connections (apply_destination_port ov m) = sm_connections m" "sm_attributes (apply_destination_port ov m) = sm_attributes m"
  by (simp_all add: apply_destination_port_def overridden_def split: option.splits)

lemma destination_ip_override:
  assumes "apply_destination_ip ov m = Inr m'" "connection_address m = Some old"
    "\<And>d. so_destination_ip ov = Some d \<Longrightarrow> plain_address d"
  shows "connection_address m' = Some (overridden (so_destination_ip ov) old)" "sm_port m' = sm_port m"
    "\<And>k. k \<noteq> ''source-filter'' \<Longrightarrow> attribute_val k (sm_attributes m') = attribute_val k (sm_attributes m)"
    "filtered_source m' = filtered_source m"
proof -
  have "connection_address m' = Some (overridden (so_destination_ip ov) old) \<and> sm_port m' = sm_port m \<and>
    (\<forall>k. k \<noteq> ''source-filter'' \<longrightarrow> attribute_val k (sm_attributes m') = attribute_val k (sm_attributes m)) \<and>
    filtered_source m' = filtered_source m"
  proof (cases "so_destination_ip ov")
    case (Some d)
    note d = assms(3) [OF Some]
    show ?thesis
    proof (cases "connection_address m = Some d")
      case False
      then obtain c cs where c: "sm_connections m = c # cs" using assms(2) by (auto simp: connection_address_def split: list.splits)
      have "extract_source_ip_from_filter v' = extract_source_ip_from_filter v"
        if "rewrite_source_filter_destination v d = Some v'" for v v'
        using extract_rewritten [OF that] d by (simp add: plain_address_def)
      then show ?thesis
        using assms(1,2) Some False c strip_plain_address [OF d]
        by (auto simp: apply_destination_ip_def replace_connection_address_def update_source_filter_destination_def and_ok_def
            connection_address_def filtered_source_def overridden_def attribute_val_rewrite_first split: option.splits)
    qed (use assms(1,2) Some in \<open>simp add: apply_destination_ip_def overridden_def\<close>)
  qed (use assms(1,2) in \<open>simp add: apply_destination_ip_def overridden_def\<close>)
  then show "connection_address m' = Some (overridden (so_destination_ip ov) old)" "sm_port m' = sm_port m"
    "\<And>k. k \<noteq> ''source-filter'' \<Longrightarrow> attribute_val k (sm_attributes m') = attribute_val k (sm_attributes m)"
    "filtered_source m' = filtered_source m" by blast+
qed

lemma interface_override:
  "sm_port (apply_interface_ip lib ov m) = sm_port m" "sm_connections (apply_interface_ip lib ov m) = sm_connections m"
  "k \<noteq> ''x-nvnmos-iface'' \<Longrightarrow> attribute_val k (sm_attributes (apply_interface_ip lib ov m)) =
    (if k = ''x-nvnmos-iface-ip'' then overridden (map_option Some (so_interface_ip ov)) (attribute_val k (sm_attributes m))
     else attribute_val k (sm_attributes m))"
  by (auto simp: apply_interface_ip_def sync_x_nvnmos_iface_for_local_ip_def upsert_media_attribute_def
      remove_media_attributes_by_key_def overridden_def split: option.splits)

lemma source_override:
  assumes "connection_address m = Some dest" "plain_word (overridden (so_destination_ip ov) dest)"
    "\<And>s. so_source_ip ov = Some s \<Longrightarrow> plain_word s"
  shows "sm_port (apply_source ov m) = sm_port m" "sm_connections (apply_source ov m) = sm_connections m"
    "k \<noteq> ''source-filter'' \<Longrightarrow> attribute_val k (sm_attributes (apply_source ov m)) =
      (if k = ''x-nvnmos-src-port'' then overridden (map_option (Some \<circ> show_port) (so_source_port ov)) (attribute_val k (sm_attributes m))
       else attribute_val k (sm_attributes m))"
    "filtered_source (apply_source ov m) = overridden (map_option Some (so_source_ip ov)) (filtered_source m)"
proof -
  show "sm_port (apply_source ov m) = sm_port m" "sm_connections (apply_source ov m) = sm_connections m"
    "k \<noteq> ''source-filter'' \<Longrightarrow> attribute_val k (sm_attributes (apply_source ov m)) =
      (if k = ''x-nvnmos-src-port'' then overridden (map_option (Some \<circ> show_port) (so_source_port ov)) (attribute_val k (sm_attributes m))
       else attribute_val k (sm_attributes m))"
    by (auto simp: apply_source_def upsert_media_attribute_def overridden_def Let_def split: option.splits)
  have "connection_address (upsert_media_attribute k v m) = connection_address m" for k v
    by (simp add: connection_address_def upsert_media_attribute_def)
  then show "filtered_source (apply_source ov m) = overridden (map_option Some (so_source_ip ov)) (filtered_source m)"
    using assms extract_source_filter
    by (auto simp: apply_source_def filtered_source_def upsert_media_attribute_def overridden_def Let_def or_empty_def split: option.splits)
qed

lemma parse_show_port: "parse_u16 (show_port p) = Some p"
proof -
  have "unat p < 2 ^ 16" using unsigned_less [of p, where ?'a = nat] by simp
  then show ?thesis by (simp add: parse_u16_def show_port_def parse_unsigned_show_nat)
qed

lemma ucast_port: "ucast (ucast (p :: port) :: u32) = p"
  by transfer simp

lemma primary_leg_override:
  assumes ok: "apply_primary_leg_transport_overrides lib ov m = Inr m'" and old: "connection_address m = Some old" "plain_word old"
    and plain: "\<And>d. so_destination_ip ov = Some d \<Longrightarrow> plain_address d" "\<And>s. so_source_ip ov = Some s \<Longrightarrow> plain_word s"
  defines "val \<equiv> \<lambda>k m. attribute_val k (sm_attributes m)"
  shows "connection_address m' = Some (overridden (so_destination_ip ov) old)"
    "sm_port m' = overridden (map_option ucast (so_destination_port ov)) (sm_port m)"
    "val ''x-nvnmos-iface-ip'' m' = overridden (map_option Some (so_interface_ip ov)) (val ''x-nvnmos-iface-ip'' m)"
    "filtered_source m' = overridden (map_option Some (so_source_ip ov)) (filtered_source m)"
    "val ''x-nvnmos-src-port'' m' = overridden (map_option (Some \<circ> show_port) (so_source_port ov)) (val ''x-nvnmos-src-port'' m)"
    "val ''inactive'' m' = (if transport_scalar_override_set ov then None else val ''inactive'' m)"
proof -
  define m0 where "m0 = apply_destination_port ov m"
  obtain m1 where m1: "apply_destination_ip ov m0 = Inr m1"
    using ok by (auto simp: apply_primary_leg_transport_overrides_def and_ok_def m0_def Let_def split: sum.splits)
  define m2 where "m2 = apply_source ov (apply_interface_ip lib ov m1)"
  obtain m3 where m3: "apply_payload_type ov m2 = Inr m3"
    using ok m1 by (auto simp: apply_primary_leg_transport_overrides_def and_ok_def m0_def m2_def Let_def split: sum.splits)
  obtain m4 where m4: "same_leg m2 m4"
    and m': "m' = (if transport_scalar_override_set ov then remove_media_attributes_by_key ''inactive'' m4 else m4)"
    using ok m1 m3 same_leg_payload_type [OF m3] same_leg_trans [OF _ same_leg_audio]
    by (auto simp: apply_primary_leg_transport_overrides_def and_ok_def m0_def m2_def Let_def split: if_splits)
  have "connection_address m0 = Some old" using old(1) by (simp add: m0_def connection_address_def destination_port_override)
  note dest = destination_ip_override [OF m1 this plain(1)]
  have c: "connection_address (apply_interface_ip lib ov m1) = Some (overridden (so_destination_ip ov) old)"
    using dest(1) by (simp add: connection_address_def interface_override)
  have w: "plain_word (overridden (so_destination_ip ov) (overridden (so_destination_ip ov) old))"
    using plain(1) old(2) by (auto simp: overridden_def plain_address_def split: option.splits)
  note src = source_override [OF c w plain(2), folded m2_def]
  have m4': "sm_port m4 = sm_port m2" "sm_connections m4 = sm_connections m2"
    "\<And>k. k \<notin> essence_keys \<Longrightarrow> val k m4 = val k m2" using m4 by (simp_all add: same_leg_def val_def)
  have keys: "''x-nvnmos-iface-ip'' \<notin> essence_keys" "''source-filter'' \<notin> essence_keys" "''x-nvnmos-src-port'' \<notin> essence_keys"
    "''inactive'' \<notin> essence_keys" by (simp_all add: essence_keys_def)
  have val': "val k m' = val k m4" if "k \<noteq> ''inactive''" for k
    using that by (simp add: m' val_def remove_media_attributes_by_key_def)
  have m0: "val k m0 = val k m" "filtered_source m0 = filtered_source m" for k
    by (simp_all add: m0_def val_def filtered_source_def destination_port_override)
  have f: "filtered_source m' = filtered_source m2" "filtered_source (apply_interface_ip lib ov m1) = filtered_source m1"
    using val' [of "''source-filter''"] m4'(3) [OF keys(2)] by (simp_all add: filtered_source_def val_def interface_override)
  show "connection_address m' = Some (overridden (so_destination_ip ov) old)"
    using c src(2) m4'(2) by (simp add: m' connection_address_def remove_media_attributes_by_key_def)
  show "sm_port m' = overridden (map_option ucast (so_destination_port ov)) (sm_port m)"
    using src(1) m4'(1) dest(2) by (simp add: m' m0_def destination_port_override interface_override remove_media_attributes_by_key_def)
  show "filtered_source m' = overridden (map_option Some (so_source_ip ov)) (filtered_source m)"
    using src(4) dest(4) f m0(2) by simp
  show "val ''x-nvnmos-iface-ip'' m' = overridden (map_option Some (so_interface_ip ov)) (val ''x-nvnmos-iface-ip'' m)"
    using val' m4'(3) [OF keys(1)] src(3) dest(3) m0(1) by (simp add: val_def interface_override)
  show "val ''x-nvnmos-src-port'' m' = overridden (map_option (Some \<circ> show_port) (so_source_port ov)) (val ''x-nvnmos-src-port'' m)"
    using val' m4'(3) [OF keys(3)] src(3) dest(3) m0(1) by (simp add: val_def interface_override)
  show "val ''inactive'' m' = (if transport_scalar_override_set ov then None else val ''inactive'' m)"
    using m4'(3) [OF keys(4)] src(3) dest(3) m0(1) by (simp add: m' val_def interface_override remove_media_attributes_by_key_def)
qed

lemma session_override:
  "msg_medias (apply_session_overrides_in_place ov msg) = msg_medias msg"
  "msg_connection (apply_session_overrides_in_place ov msg) = msg_connection msg"
  "attribute_val ''x-nvnmos-name'' (msg_attributes (apply_session_overrides_in_place ov msg)) =
    overridden (map_option Some (so_name ov)) (attribute_val ''x-nvnmos-name'' (msg_attributes msg))"
  by (auto simp: apply_session_overrides_in_place_def upsert_session_attribute_def overridden_def Let_def split: option.splits)

lemma leg_of_connected:
  assumes "connection_address m = Some a"
  obtains ip where "strip_address_ttl_suffix ip = a"
    "udp_leg_from_media msg m = Inr \<lparr>ul_destination_ip = ip, ul_destination_port = ucast (sm_port m),
       ul_interface_ip = attribute_val ''x-nvnmos-iface-ip'' (sm_attributes m), ul_source_ip = filtered_source m,
       ul_source_port = Option.bind (attribute_val ''x-nvnmos-src-port'' (sm_attributes m)) parse_u16\<rparr>"
  using assms by (auto simp: connection_address_def udp_leg_from_media_def and_ok_def ok_or_def filtered_source_def Let_def split: list.splits)

lemma passthrough_media:
  assumes "passthrough_message lib ov policy msg = Inr msg'" "msg_medias msg = m # rest"
    "connection_address m = Some old" "plain_word old"
    "\<forall>d. so_destination_ip ov = Some d \<longrightarrow> plain_address d" "\<forall>s. so_source_ip ov = Some s \<longrightarrow> plain_word s"
  defines "val \<equiv> \<lambda>k m. attribute_val k (sm_attributes m)"
  obtains m' where "msg_medias msg' = m' # map (apply_caps_mode_override (so_caps_mode ov)) rest"
    "msg_attributes msg' = msg_attributes (apply_session_overrides_in_place ov msg)"
    "connection_address m' = Some (overridden (so_destination_ip ov) old)"
    "sm_port m' = overridden (map_option ucast (so_destination_port ov)) (sm_port m)"
    "val ''x-nvnmos-iface-ip'' m' = overridden (map_option Some (so_interface_ip ov)) (val ''x-nvnmos-iface-ip'' m)"
    "filtered_source m' = overridden (map_option Some (so_source_ip ov)) (filtered_source m)"
    "val ''x-nvnmos-src-port'' m' = overridden (map_option (Some \<circ> show_port) (so_source_port ov)) (val ''x-nvnmos-src-port'' m)"
    "val ''inactive'' m' = (if transport_scalar_override_set ov then None else val ''inactive'' m)"
proof -
  define mc where "mc = apply_caps_mode_override (so_caps_mode ov) m"
  obtain m1 where m1: "apply_primary_leg_transport_overrides lib ov mc = Inr m1"
    and msg': "msg' = (apply_session_overrides_in_place ov msg)\<lparr>msg_medias :=
      (if so_bit_rates ov \<noteq> unset_bit_rates then apply_bit_rates_to_media (so_bit_rates ov) m1 else m1) #
      map (apply_caps_mode_override (so_caps_mode ov)) rest\<rparr>"
    using assms(1,2)
    by (auto simp: passthrough_message_def apply_media_overrides_in_place_def and_ok_def session_override mc_def split: sum.splits)
  define m' where "m' = (if so_bit_rates ov \<noteq> unset_bit_rates then apply_bit_rates_to_media (so_bit_rates ov) m1 else m1)"
  have m': "same_leg m1 m'" unfolding m'_def by (simp add: same_leg_bit_rates)
  have mc: "same_leg m mc" unfolding mc_def by (rule same_leg_caps_mode)
  then have old: "connection_address mc = Some old" using assms(3) by (simp add: same_leg_def connection_address_def)
  note ov = primary_leg_override [OF m1 old assms(4) assms(5,6) [rule_format]]
  have same: "val k m' = val k m1" "val k mc = val k m" if "k \<notin> essence_keys" for k
    using m' mc that by (simp_all add: same_leg_def val_def)
  have keys: "''x-nvnmos-iface-ip'' \<notin> essence_keys" "''source-filter'' \<notin> essence_keys" "''x-nvnmos-src-port'' \<notin> essence_keys"
    "''inactive'' \<notin> essence_keys" by (simp_all add: essence_keys_def)
  have f: "filtered_source m' = filtered_source m1" "filtered_source mc = filtered_source m"
    using same [OF keys(2)] by (simp_all add: filtered_source_def val_def)
  show thesis
  proof (rule that)
    show "msg_medias msg' = m' # map (apply_caps_mode_override (so_caps_mode ov)) rest" by (simp add: msg' m'_def)
    show "msg_attributes msg' = msg_attributes (apply_session_overrides_in_place ov msg)" by (simp add: msg')
    show "connection_address m' = Some (overridden (so_destination_ip ov) old)"
      using ov(1) m' by (simp add: same_leg_def connection_address_def)
    show "sm_port m' = overridden (map_option ucast (so_destination_port ov)) (sm_port m)"
      using ov(2) m' mc by (simp add: same_leg_def)
  qed (use ov(3-6) same [OF keys(1)] same [OF keys(3)] same [OF keys(4)] f in \<open>simp_all add: val_def\<close>)
qed

text \<open>An override of the source of a leg whose address is that of the session is written without destination, and lost.\<close>

lemma source_override_lost:
  assumes "so_source_ip ov = Some src" "so_destination_ip ov = None" "sm_connections m = []" "plain_word src"
  shows "filtered_source (apply_source ov m) = None"
proof -
  have "connection_address (upsert_media_attribute k v m) = None" "connection_address m = None" for k v
    using assms(3) by (simp_all add: connection_address_def upsert_media_attribute_def)
  moreover have "split_whitespace (source_filter [] src) = [''incl'', ''IN'', ''IP4'', src]"
    using split_whitespace_simps(2) [of "''incl''"] split_whitespace_simps(2) [of "''IN''"] split_whitespace_simps(2) [of "''IP4''"] assms(4)
    by (simp add: source_filter_def split_whitespace_simps)
  ultimately show ?thesis
    using assms(1,2)
    by (auto simp: apply_source_def filtered_source_def upsert_media_attribute_def or_empty_def extract_source_ip_from_filter_def Let_def
        split: option.splits)
qed

lemma session_level_leg:
  assumes ok: "apply_primary_leg_transport_overrides lib ov m = Inr m'" and m: "sm_connections m = []"
  shows "so_destination_ip ov = None"
    and "so_source_ip ov = Some src \<Longrightarrow> plain_word src \<Longrightarrow> filtered_source m' = None"
proof -
  define m0 where "m0 = apply_destination_port ov m"
  have m0: "sm_connections m0 = []" using m by (simp add: m0_def destination_port_override)
  obtain m1 where m1: "apply_destination_ip ov m0 = Inr m1"
    using ok by (auto simp: apply_primary_leg_transport_overrides_def and_ok_def m0_def Let_def split: sum.splits)
  then show none: "so_destination_ip ov = None"
    using m0 by (auto simp: apply_destination_ip_def connection_address_def replace_connection_address_def and_ok_def split: option.splits)
  assume src: "so_source_ip ov = Some src" "plain_word src"
  define m2 where "m2 = apply_source ov (apply_interface_ip lib ov m1)"
  have "sm_connections (apply_interface_ip lib ov m1) = []"
    using m1 none m0 by (simp add: apply_destination_ip_def interface_override)
  then have lost: "filtered_source m2 = None" unfolding m2_def by (rule source_override_lost [OF src(1) none _ src(2)])
  obtain m3 where m3: "apply_payload_type ov m2 = Inr m3"
    using ok m1 by (auto simp: apply_primary_leg_transport_overrides_def and_ok_def m0_def m2_def Let_def split: sum.splits)
  obtain m4 where "same_leg m2 m4"
    and m': "m' = (if transport_scalar_override_set ov then remove_media_attributes_by_key ''inactive'' m4 else m4)"
    using ok m1 m3 same_leg_payload_type [OF m3] same_leg_trans [OF _ same_leg_audio]
    by (auto simp: apply_primary_leg_transport_overrides_def and_ok_def m0_def m2_def Let_def split: if_splits)
  then have "filtered_source m4 = None" using lost by (simp add: same_leg_def filtered_source_def essence_keys_def)
  then show "filtered_source m' = None" by (simp add: m' filtered_source_def remove_media_attributes_by_key_def)
qed

lemma passthrough_session_level:
  assumes "passthrough_message lib ov policy msg = Inr msg'" "msg_medias msg = m # rest" "sm_connections m = []"
  shows "so_destination_ip ov = None"
    and "so_source_ip ov = Some src \<Longrightarrow> plain_word src \<Longrightarrow> filtered_source (hd (msg_medias msg')) = None"
proof -
  define mc where "mc = apply_caps_mode_override (so_caps_mode ov) m"
  obtain m1 where m1: "apply_primary_leg_transport_overrides lib ov mc = Inr m1"
    and msg': "msg' = (apply_session_overrides_in_place ov msg)\<lparr>msg_medias :=
      (if so_bit_rates ov \<noteq> unset_bit_rates then apply_bit_rates_to_media (so_bit_rates ov) m1 else m1) #
      map (apply_caps_mode_override (so_caps_mode ov)) rest\<rparr>"
    using assms(1,2)
    by (auto simp: passthrough_message_def apply_media_overrides_in_place_def and_ok_def session_override mc_def split: sum.splits)
  have mc: "sm_connections mc = []" using same_leg_caps_mode [of m "so_caps_mode ov"] assms(3) by (simp add: same_leg_def mc_def)
  show "so_destination_ip ov = None" by (rule session_level_leg(1) [OF m1 mc])
  assume src: "so_source_ip ov = Some src" "plain_word src"
  have "filtered_source m1 = None" by (rule session_level_leg(2) [OF m1 mc src])
  then show "filtered_source (hd (msg_medias msg')) = None"
    using same_leg_bit_rates [of m1 "so_bit_rates ov"] by (simp add: msg' same_leg_def filtered_source_def essence_keys_def)
qed

text \<open>
  C30. What a user sets is what is read, when the first media block has an address of its own and
  addresses are words without slash. When such a session description of the user passes through with the
  properties of an element, reading the result gives, for the first leg, the destination, port,
  interface, source and source port of the properties that are set and those of the description for the
  others (a destination counts without its TTL), the leg is active if an address or port was set, the
  resource has the name that was set, and further media blocks change in nothing but the mode of the
  capabilities. When the address of the first block is that of the session, this does not hold: setting a
  destination is an error, and a source that is set is not read back.
\<close>

theorem passthrough_overrides_leg:
  assumes "passthrough_message lib ov policy msg = Inr msg'" "msg_medias msg = m # rest"
    "\<forall>d. so_destination_ip ov = Some d \<longrightarrow> plain_address d" "\<forall>s. so_source_ip ov = Some s \<longrightarrow> plain_word s"
  shows "(\<forall>old. connection_address m = Some old \<and> plain_word old \<longrightarrow> (\<exists>m' leg leg'.
    msg_medias msg' = m' # map (apply_caps_mode_override (so_caps_mode ov)) rest \<and>
    udp_leg_from_media msg m = Inr leg \<and> udp_leg_from_media msg' m' = Inr leg' \<and>
    strip_address_ttl_suffix (ul_destination_ip leg') =
      overridden (so_destination_ip ov) (strip_address_ttl_suffix (ul_destination_ip leg)) \<and>
    ul_destination_port leg' = overridden (so_destination_port ov) (ul_destination_port leg) \<and>
    ul_interface_ip leg' = overridden (map_option Some (so_interface_ip ov)) (ul_interface_ip leg) \<and>
    ul_source_ip leg' = overridden (map_option Some (so_source_ip ov)) (ul_source_ip leg) \<and>
    ul_source_port leg' = overridden (map_option Some (so_source_port ov)) (ul_source_port leg) \<and>
    is_media_inactive m' = (\<not> transport_scalar_override_set ov \<and> is_media_inactive m) \<and>
    attribute_val ''x-nvnmos-name'' (msg_attributes msg') =
      overridden (map_option Some (so_name ov)) (attribute_val ''x-nvnmos-name'' (msg_attributes msg)))) \<and>
    (sm_connections m = [] \<longrightarrow> so_destination_ip ov = None \<and>
      (so_source_ip ov \<noteq> None \<longrightarrow>
        (\<forall>leg'. udp_leg_from_media msg' (hd (msg_medias msg')) = Inr leg' \<longrightarrow> ul_source_ip leg' = None)))"
proof (intro conjI impI allI)
  assume none: "sm_connections m = []"
  show "so_destination_ip ov = None" by (rule passthrough_session_level(1) [OF assms(1,2) none])
  fix leg'
  assume "so_source_ip ov \<noteq> None" and leg': "udp_leg_from_media msg' (hd (msg_medias msg')) = Inr leg'"
  then have "filtered_source (hd (msg_medias msg')) = None"
    using passthrough_session_level(2) [OF assms(1,2) none] assms(4) by auto
  then show "ul_source_ip leg' = None"
    using leg' by (auto simp: udp_leg_from_media_def and_ok_def ok_or_def filtered_source_def Let_def split: option.splits)
next
  fix old
  assume "connection_address m = Some old \<and> plain_word old"
  then have old: "connection_address m = Some old" "plain_word old" by simp_all
  obtain m' where m': "msg_medias msg' = m' # map (apply_caps_mode_override (so_caps_mode ov)) rest"
    "msg_attributes msg' = msg_attributes (apply_session_overrides_in_place ov msg)"
    "connection_address m' = Some (overridden (so_destination_ip ov) old)"
    "sm_port m' = overridden (map_option ucast (so_destination_port ov)) (sm_port m)"
    and vals: "attribute_val ''x-nvnmos-iface-ip'' (sm_attributes m') =
      overridden (map_option Some (so_interface_ip ov)) (attribute_val ''x-nvnmos-iface-ip'' (sm_attributes m))"
    "filtered_source m' = overridden (map_option Some (so_source_ip ov)) (filtered_source m)"
    "attribute_val ''x-nvnmos-src-port'' (sm_attributes m') =
      overridden (map_option (Some \<circ> show_port) (so_source_port ov)) (attribute_val ''x-nvnmos-src-port'' (sm_attributes m))"
    "attribute_val ''inactive'' (sm_attributes m') =
      (if transport_scalar_override_set ov then None else attribute_val ''inactive'' (sm_attributes m))"
    using passthrough_media [OF assms(1,2) old assms(3,4)] by metis
  obtain ip' where ip': "strip_address_ttl_suffix ip' = overridden (so_destination_ip ov) old"
    and leg': "udp_leg_from_media msg' m' = Inr \<lparr>ul_destination_ip = ip', ul_destination_port = ucast (sm_port m'),
       ul_interface_ip = attribute_val ''x-nvnmos-iface-ip'' (sm_attributes m'), ul_source_ip = filtered_source m',
       ul_source_port = Option.bind (attribute_val ''x-nvnmos-src-port'' (sm_attributes m')) parse_u16\<rparr>"
    using m'(3) by (rule leg_of_connected)
  obtain ip where ip: "strip_address_ttl_suffix ip = old"
    and leg: "udp_leg_from_media msg m = Inr \<lparr>ul_destination_ip = ip, ul_destination_port = ucast (sm_port m),
       ul_interface_ip = attribute_val ''x-nvnmos-iface-ip'' (sm_attributes m), ul_source_ip = filtered_source m,
       ul_source_port = Option.bind (attribute_val ''x-nvnmos-src-port'' (sm_attributes m)) parse_u16\<rparr>"
    using old(1) by (rule leg_of_connected)
  have "ucast (sm_port m') = overridden (so_destination_port ov) (ucast (sm_port m) :: port)"
    using m'(4) by (auto simp: overridden_def ucast_port split: option.splits)
  moreover have "Option.bind (attribute_val ''x-nvnmos-src-port'' (sm_attributes m')) parse_u16 =
      overridden (map_option Some (so_source_port ov)) (Option.bind (attribute_val ''x-nvnmos-src-port'' (sm_attributes m)) parse_u16)"
    using vals(3) by (auto simp: overridden_def parse_show_port split: option.splits)
  moreover have "is_media_inactive m' = (\<not> transport_scalar_override_set ov \<and> is_media_inactive m)"
    using vals(4) by (simp add: is_media_inactive_def)
  ultimately show "\<exists>m' leg leg'.
    msg_medias msg' = m' # map (apply_caps_mode_override (so_caps_mode ov)) rest \<and>
    udp_leg_from_media msg m = Inr leg \<and> udp_leg_from_media msg' m' = Inr leg' \<and>
    strip_address_ttl_suffix (ul_destination_ip leg') =
      overridden (so_destination_ip ov) (strip_address_ttl_suffix (ul_destination_ip leg)) \<and>
    ul_destination_port leg' = overridden (so_destination_port ov) (ul_destination_port leg) \<and>
    ul_interface_ip leg' = overridden (map_option Some (so_interface_ip ov)) (ul_interface_ip leg) \<and>
    ul_source_ip leg' = overridden (map_option Some (so_source_ip ov)) (ul_source_ip leg) \<and>
    ul_source_port leg' = overridden (map_option Some (so_source_port ov)) (ul_source_port leg) \<and>
    is_media_inactive m' = (\<not> transport_scalar_override_set ov \<and> is_media_inactive m) \<and>
    attribute_val ''x-nvnmos-name'' (msg_attributes msg') =
      overridden (map_option Some (so_name ov)) (attribute_val ''x-nvnmos-name'' (msg_attributes msg))"
    using m'(1,2) leg leg' ip ip' vals(1,2) by (simp add: session_override)
qed

definition example_lib :: sdp_lib where
  "example_lib = \<lparr>sl_parse = (\<lambda>_. None), sl_text = (\<lambda>_. None), sl_caps_from_media = (\<lambda>_ _. None), sl_attributes_to_caps = (\<lambda>_ c. Some c),
     sl_media_from_caps = (\<lambda>_ m. Some (m\<lparr>sm_media := Some ''video'', sm_formats := [''96''],
       sm_attributes := [(''rtpmap'', Some ''96 JXSV/90000''), (''fmtp'', Some ''96 width=1920;ssn=ST2110-22:2022'')]\<rparr>)),
     sl_caps_from_str = (\<lambda>_. None), sl_intersects = (\<lambda>a b. a = b), sl_without_features = (\<lambda>c. c),
     sl_fraction = (\<lambda>n d. if d = 0 then None else Some (n, d)), sl_show_ms = (\<lambda>_. ''0.125''), sl_hash = (\<lambda>_ _ _. 7),
     sl_ifaddrs = None, sl_parse_ip = (\<lambda>s. Some s)\<rparr>"

definition example_message :: sdp_message where
  "example_message = \<lparr>msg_version = ''0'', msg_origin = [], msg_session_name = ''s'', msg_information = None, msg_connection = None,
     msg_attributes = [], msg_medias = [example_media], msg_other = []\<rparr>"

definition example_overrides :: sdp_overrides where
  "example_overrides = \<lparr>so_name = Some ''n'', so_label = None, so_description = None, so_group_hint = None, so_interface_ip = None,
     so_destination_ip = Some ''239.2.2.2'', so_destination_port = Some 6000, so_source_ip = None, so_source_port = Some 7,
     so_payload_type = Some 97, so_audio_clock_rate = None, so_a_ptime = None, so_a_maxptime = None, so_caps_mode = CapsAuto,
     so_bit_rates = unset_bit_rates\<rparr>"

theorem passthrough_overrides_leg_witness:
  "\<exists>msg' m' leg'. passthrough_message example_lib example_overrides RejectDualLeg example_message = Inr msg' \<and>
     msg_medias msg' = [m'] \<and> udp_leg_from_media msg' m' = Inr leg' \<and> strip_address_ttl_suffix (ul_destination_ip leg') = ''239.2.2.2'' \<and>
     ul_destination_port leg' = 6000 \<and> ul_source_ip leg' = Some ''10.0.0.1'' \<and> ul_source_port leg' = Some 7 \<and> \<not> is_media_inactive m'"
proof -
  have address: "connection_address example_media = Some ''239.1.1.1''" by (simp add: example_media_def connection_address_def strip_address_ttl_suffix_def)
  have plain: "plain_word ''239.1.1.1''" "plain_address ''239.2.2.2''" by (simp_all add: plain_word_def plain_address_def is_ws_def)
  have "\<exists>msg'. passthrough_message example_lib example_overrides RejectDualLeg example_message = Inr msg'"
    by (simp add: passthrough_message_def reject_unsupported_multi_media_def apply_media_overrides_in_place_def session_override
        apply_primary_leg_transport_overrides_def apply_destination_ip_def replace_connection_address_def apply_payload_type_def
        rewrite_payload_type_def apply_source_def apply_interface_ip_def upsert_media_attribute_def update_source_filter_destination_def
        apply_destination_port_def address and_ok_def example_message_def example_overrides_def example_media_def Let_def)
  then obtain msg' where msg': "passthrough_message example_lib example_overrides RejectDualLeg example_message = Inr msg'" ..
  have "extract_source_ip_from_filter '' incl IN IP4 239.1.1.1 10.0.0.1'' = Some ''10.0.0.1''"
    by (simp add: extract_source_ip_from_filter_def split_whitespace_def is_ws_def)
  then show ?thesis
    using passthrough_overrides_leg [OF msg', of example_media "[]"] address plain msg'
    by (auto simp: example_message_def example_overrides_def overridden_def transport_scalar_override_set_def udp_leg_from_media_def
        example_media_def attribute_val_def and_ok_def ok_or_def)
qed

text \<open>An override of the clock rate has no effect on a stream whose map has no number of channels.\<close>

lemma clock_rate_override_lost:
  assumes "CHR '' '' \<notin> set pt" "CHR ''/'' \<notin> set encoding" "CHR ''/'' \<notin> set old"
  shows "rewrite_rtpmap_clock_rate rate (pt @ '' '' @ encoding @ ''/'' @ old) = None"
  using assms by (simp add: rewrite_rtpmap_clock_rate_def split_once_None_iff [THEN iffD2])

end
