(* ===== verification/Gst_SdpRead.thy ===== *)
theory Gst_SdpRead
  imports Gst_SdpFacts
begin

text \<open>
  Reading session descriptions: what was built from caps and properties is read back, which legs of a
  description become those of a stream, and which lines of a description with two legs remain when one
  of them is cut out.
\<close>

section \<open>Built descriptions\<close>

definition leg_keys :: "string set" where
  "leg_keys = {''source-filter'', ''x-nvnmos-iface-ip'', ''x-nvnmos-src-port'', ''x-nvnmos-caps'', ''inactive''}"

definition attribute_keys :: "sdp_media \<Rightarrow> string set" where
  "attribute_keys m = fst ` set (sm_attributes m)"

text \<open>
  What is used of \<^verbatim>\<open>gst_sdp_media_set_media_from_caps\<close>: it leaves port and connections alone, and adds
  the attributes of the stream (its map and format parameters after the payload type), none of a leg.
\<close>

definition fills_media :: "sdp_lib \<Rightarrow> gst_caps \<Rightarrow> bool" where
  "fills_media lib caps \<longleftrightarrow>
     (\<forall>m m1. sl_media_from_caps lib caps m = Some m1 \<longrightarrow>
        sm_port m1 = sm_port m \<and> sm_connections m1 = sm_connections m \<and>
        attribute_keys m1 \<inter> leg_keys \<subseteq> attribute_keys m \<and>
        (\<exists>v. attribute_val ''fmtp'' (sm_attributes m1) = Some v \<and> CHR '' '' \<in> set v))"

lemma attribute_val_absent: "k \<notin> fst ` set attrs \<Longrightarrow> attribute_val k attrs = None"
  by (induction attrs) (auto simp: attribute_val_Cons attribute_val_def)

lemma attribute_val_append: "k \<notin> fst ` set a \<Longrightarrow> attribute_val k (a @ b) = attribute_val k b"
  by (induction a) (auto simp: attribute_val_Cons)

lemma attribute_val_append_first: "attribute_val k a = Some v \<Longrightarrow> attribute_val k (a @ b) = Some v"
  by (induction a) (auto simp: attribute_val_Cons attribute_val_def split: if_splits)

lemma keys_canonicalise: "attribute_keys (canonicalise_st2110_sdp_case m) = attribute_keys m"
  by (force simp: attribute_keys_def canonicalise_st2110_sdp_case_def canonicalise_attribute_key image_iff)

lemma keys_upsert_fmtp: "map fst (upsert_in_attributes br attrs) = map fst attrs"
  by (induction attrs) (auto split: option.split)

lemma keys_upsert_bit_rates: "attribute_keys (upsert_nvnmos_bit_rates_in_fmtp br m) = attribute_keys m"
  by (simp add: attribute_keys_def upsert_nvnmos_bit_rates_in_fmtp_def keys_upsert_fmtp flip: set_map)

lemma canonicalise_fmtp_space: "canonicalise_fmtp_value v = Some v' \<Longrightarrow> CHR '' '' \<in> set v'"
  by (auto simp: canonicalise_fmtp_value_def Let_def bind_eq_Some_conv split: if_splits)

lemma canonicalise_fmtp:
  assumes "attribute_val ''fmtp'' attrs = Some v" "CHR '' '' \<in> set v"
  shows "\<exists>v'. attribute_val ''fmtp'' (map canonicalise_attribute attrs) = Some v' \<and> CHR '' '' \<in> set v'"
  using assms
proof (induction attrs)
  case (Cons a attrs)
  obtain k w where a: "a = (k, w)" by fastforce
  show ?case
  proof (cases "k = ''fmtp''")
    case True
    then show ?thesis
      using Cons.prems canonicalise_fmtp_space
      by (cases "canonicalise_fmtp_value v") (auto simp: a attribute_val_Cons canonicalise_attribute_def)
  next
    case False
    obtain w' where "canonicalise_attribute (k, w) = (k, w')"
      using canonicalise_attribute_key [of k w] by (cases "canonicalise_attribute (k, w)") simp
    then show ?thesis using Cons False by (simp add: a attribute_val_Cons)
  qed
qed (simp add: attribute_val_def)

lemma bit_rates_kept:
  "sm_port (upsert_nvnmos_bit_rates_in_fmtp br m) = sm_port m"
  "sm_connections (upsert_nvnmos_bit_rates_in_fmtp br m) = sm_connections m"
  "sm_port (canonicalise_st2110_sdp_case m) = sm_port m"
  "sm_connections (canonicalise_st2110_sdp_case m) = sm_connections m"
  by (simp_all add: upsert_nvnmos_bit_rates_in_fmtp_def canonicalise_st2110_sdp_case_def)

lemma leg_attributes_val:
  "attribute_val ''x-nvnmos-iface-ip'' (leg_attributes lib leg @ rest) =
    (case ul_interface_ip leg of Some ip \<Rightarrow> Some ip | None \<Rightarrow> attribute_val ''x-nvnmos-iface-ip'' rest)"
  "attribute_val ''source-filter'' (leg_attributes lib leg @ rest) =
    (case ul_source_ip leg of Some src \<Rightarrow> Some (source_filter (ul_destination_ip leg) src) | None \<Rightarrow> attribute_val ''source-filter'' rest)"
  "attribute_val ''x-nvnmos-src-port'' (leg_attributes lib leg @ rest) =
    (case ul_source_port leg of Some p \<Rightarrow> Some (show_port p) | None \<Rightarrow> attribute_val ''x-nvnmos-src-port'' rest)"
  "attribute_val ''x-nvnmos-caps'' (leg_attributes lib leg @ rest) = attribute_val ''x-nvnmos-caps'' rest"
  "attribute_val ''inactive'' (leg_attributes lib leg @ rest) = attribute_val ''inactive'' rest"
  by (simp_all add: leg_attributes_def opt_attribute_def attribute_val_def split: option.splits)

lemma upserted_fmtp:
  assumes "attribute_val ''fmtp'' (sm_attributes m) = Some v" "CHR '' '' \<in> set v"
  shows "attribute_val ''fmtp'' (sm_attributes (upsert_nvnmos_bit_rates_in_fmtp br m)) \<noteq> None"
proof -
  obtain pt params where "split_once CHR '' '' v = Some (pt, params)"
    using assms(2) split_once_None_iff [of "CHR '' ''" v] by (cases "split_once CHR '' '' v") auto
  then show ?thesis
    using upsert_in_attributes_val [OF assms(1)] assms(1) by (simp add: upsert_nvnmos_bit_rates_in_fmtp_def)
qed

lemma media_attributes_val:
  assumes "k \<in> leg_keys"
  shows "attribute_val k (media_attributes lib media session) =
    attribute_val k (leg_attributes lib (um_primary media) @ advertised_caps media session)"
  using assms by (auto simp: media_attributes_def leg_keys_def attribute_val_Cons)

lemma build_media_parts:
  assumes "build_media lib media session = Inr m" "fills_media lib (um_rtp_caps media)"
  obtains v m2 where "attribute_val ''fmtp'' (sm_attributes m2) = Some v" "CHR '' '' \<in> set v"
    "attribute_keys (upsert_nvnmos_bit_rates_in_fmtp (ss_bit_rates session) m2) \<inter> leg_keys = {}"
    "m = (upsert_nvnmos_bit_rates_in_fmtp (ss_bit_rates session) m2)\<lparr>sm_attributes :=
       sm_attributes (upsert_nvnmos_bit_rates_in_fmtp (ss_bit_rates session) m2) @ media_attributes lib media session\<rparr>"
    "sm_port m2 = sm_port (media_frame media session)" "sm_connections m2 = sm_connections (media_frame media session)"
proof -
  obtain m1 where m1: "sl_media_from_caps lib (um_rtp_caps media) (media_frame media session) = Some m1"
    using assms(1) by (auto simp: build_media_def and_ok_def ok_or_def split: option.splits)
  note law = assms(2) [unfolded fills_media_def, rule_format, OF m1]
  have none: "attribute_keys (media_frame media session) = {}" by (simp add: attribute_keys_def media_frame_def new_media_def Let_def)
  obtain v where "attribute_val ''fmtp'' (sm_attributes (canonicalise_st2110_sdp_case m1)) = Some v" "CHR '' '' \<in> set v"
    using law canonicalise_fmtp [of "sm_attributes m1"] by (auto simp: canonicalise_st2110_sdp_case_def)
  then show thesis
    using that [of "canonicalise_st2110_sdp_case m1" v] law none assms(1) m1
    by (auto simp: keys_canonicalise keys_upsert_bit_rates bit_rates_kept build_media_def and_ok_def ok_or_def Let_def)
qed

text \<open>
  C31. What is built is what is read. The message that a session description is written from, out of the
  caps and properties of an element, has one active media block; reading it gives the leg of the
  properties (with the defaults for what is not set), their bit rates, the name of the resource and,
  exactly for a receiver without constraints, the marker of unconstrained capabilities. The library
  fills in the stream, and addresses are words.
\<close>

theorem built_sdp_reads_back:
  assumes "media_of_input lib input = Inr media" "build_message lib media (session_of_input lib input) = Inr msg"
    "fills_media lib (um_rtp_caps media)" "plain_word (ul_destination_ip (udp_leg_from_input input))"
    "sb_source_ip input = [] \<or> plain_word (sb_source_ip input)"
  shows "\<exists>m. msg_medias msg = [m] \<and> \<not> is_media_inactive m \<and>
    udp_leg_from_media msg m = Inr (udp_leg_from_input input) \<and>
    (sb_format_bit_rate input > 0 \<or> sb_transport_bit_rate input > 0 \<longrightarrow>
      bit_rates_from_media m = bit_rates_from_properties (sb_format_bit_rate input) (sb_transport_bit_rate input)) \<and>
    attribute_val ''x-nvnmos-name'' (msg_attributes msg) = opt_string (sb_name input) \<and>
    (attribute_val ''x-nvnmos-caps'' (sm_attributes m) \<noteq> None) = sb_advertise_caps input"
proof -
  define session where "session = session_of_input lib input"
  define leg where "leg = udp_leg_from_input input"
  obtain m where m: "build_media lib media session = Inr m" and medias: "msg_medias msg = [m]"
    and name: "attribute_val ''x-nvnmos-name'' (msg_attributes msg) = ss_name session"
    using assms(2)
    by (auto simp: build_message_def session_def and_ok_def opt_attribute_def attribute_val_def split: sum.splits option.splits)
  have leg: "um_primary media = leg"
    using assms(1) by (auto simp: media_of_input_def and_ok_def leg_def split: sum.splits)
  obtain v m2 where v: "attribute_val ''fmtp'' (sm_attributes m2) = Some v" "CHR '' '' \<in> set v"
    and keys: "attribute_keys (upsert_nvnmos_bit_rates_in_fmtp (ss_bit_rates session) m2) \<inter> leg_keys = {}"
    and m_eq: "m = (upsert_nvnmos_bit_rates_in_fmtp (ss_bit_rates session) m2)\<lparr>sm_attributes :=
       sm_attributes (upsert_nvnmos_bit_rates_in_fmtp (ss_bit_rates session) m2) @ media_attributes lib media session\<rparr>"
    and frame: "sm_port m2 = sm_port (media_frame media session)" "sm_connections m2 = sm_connections (media_frame media session)"
    using m assms(3) by (rule build_media_parts)
  have val: "attribute_val k (sm_attributes m) = attribute_val k (leg_attributes lib leg @ advertised_caps media session)"
    if "k \<in> leg_keys" for k
  proof -
    have "k \<notin> fst ` set (sm_attributes (upsert_nvnmos_bit_rates_in_fmtp (ss_bit_rates session) m2))"
      using that keys unfolding attribute_keys_def by blast
    then show ?thesis using media_attributes_val [OF that] by (simp add: m_eq attribute_val_append leg)
  qed
  have caps: "attribute_val k (advertised_caps media session) = None" if "k \<noteq> ''x-nvnmos-caps''" for k
    using that by (simp add: advertised_caps_def attribute_val_def)
  have src: "extract_source_ip_from_filter (source_filter (ul_destination_ip leg) s) = Some s" if "ul_source_ip leg = Some s" for s
    using that assms(4,5) by (intro extract_source_filter) (auto simp: leg_def udp_leg_from_input_def opt_string_def Let_def split: if_splits)
  have "udp_leg_from_media msg m = Inr leg"
    using frame val [of "''x-nvnmos-iface-ip''"] val [of "''source-filter''"] val [of "''x-nvnmos-src-port''"] src
    by (cases leg) (auto simp: udp_leg_from_media_def m_eq bit_rates_kept media_frame_def leg leg_keys_def leg_attributes_val caps
        and_ok_def ok_or_def Let_def parse_show_port ucast_port split: option.splits)
  moreover have "\<not> is_media_inactive m"
    using val [of "''inactive''"] caps by (simp add: is_media_inactive_def leg_keys_def leg_attributes_val)
  moreover have "(attribute_val ''x-nvnmos-caps'' (sm_attributes m) \<noteq> None) = sb_advertise_caps input"
    using val [of "''x-nvnmos-caps''"]
    by (simp add: leg_keys_def leg_attributes_val, simp add: advertised_caps_def attribute_val_def session_def session_of_input_def)
  moreover have "bit_rates_from_media m = bit_rates_from_properties f t"
    if "f > 0 \<or> t > 0" "f = sb_format_bit_rate input" "t = sb_transport_bit_rate input" for f t
  proof -
    have br: "ss_bit_rates session = bit_rates_from_properties f t" using that by (simp add: session_def session_of_input_def)
    have "attribute_val ''fmtp'' (sm_attributes (upsert_nvnmos_bit_rates_in_fmtp (ss_bit_rates session) m2)) \<noteq> None"
      using upserted_fmtp v by blast
    then have "media_fmtp_params m = media_fmtp_params (upsert_nvnmos_bit_rates_in_fmtp (ss_bit_rates session) m2)"
      using attribute_val_append_first by (auto simp: media_fmtp_params_def m_eq)
    then show ?thesis
      using fmtp_params_upserted [OF v bit_rates_set [OF that(1)]] bit_rates_of_params [OF _ that(1)] by (simp add: br)
  qed
  ultimately show ?thesis using medias name by (simp add: session_def session_of_input_def leg_def)
qed

definition example_input :: sdp_build_input where
  "example_input = \<lparr>sb_caps = [(''image/x-jxsc'', [(''width'', GInt 1920), (''height'', GInt 1080), (''framerate'', GFraction 50 1)])],
     sb_transport_caps = None, sb_side = Sender, sb_name = ''n'', sb_label = [], sb_description = [], sb_group_hint = [],
     sb_source_ip = ''10.0.0.1'', sb_source_port = 7, sb_destination_ip = ''239.1.1.1'', sb_destination_port = 0, sb_interface_ip = [],
     sb_advertise_caps = False, sb_node_seed = ''seed'', sb_type_n = False, sb_format_bit_rate = 500, sb_transport_bit_rate = 700\<rparr>"

definition build_lib :: sdp_lib where
  "build_lib = example_lib\<lparr>sl_caps_from_str := (\<lambda>_. Some [(''application/x-rtp'', [(''payload'', GInt 96)])])\<rparr>"

lemma build_lib_fills: "fills_media build_lib caps"
  by (auto simp: fills_media_def build_lib_def example_lib_def attribute_keys_def leg_keys_def attribute_val_def)

theorem built_sdp_reads_back_witness:
  "\<exists>media msg m. media_of_input build_lib example_input = Inr media \<and>
     build_message build_lib media (session_of_input build_lib example_input) = Inr msg \<and> msg_medias msg = [m] \<and>
     udp_leg_from_media msg m = Inr (udp_leg_from_input example_input) \<and> bit_rates_from_media m = bit_rates_from_properties 500 700"
proof -
  have "\<exists>media. media_of_input build_lib example_input = Inr media"
    by (simp add: media_of_input_def example_input_def essence_caps_format_def resolve_payload_type_def first_structure_def rtp_caps_of_input_def
        rtp_caps_from_video_jxsv_def caps_from_text_def build_lib_def example_lib_def field_int_def field_string_def framerate_of_def
        field_fraction_def i32_range_def and_ok_def ok_or_def Let_def)
  then obtain media where media: "media_of_input build_lib example_input = Inr media" ..
  have "\<exists>msg. build_message build_lib media (session_of_input build_lib example_input) = Inr msg"
    by (simp add: build_message_def build_media_def build_lib_def example_lib_def and_ok_def ok_or_def Let_def)
  then obtain msg where msg: "build_message build_lib media (session_of_input build_lib example_input) = Inr msg" ..
  have "plain_word (ul_destination_ip (udp_leg_from_input example_input))" "plain_word (sb_source_ip example_input)"
    by (simp_all add: example_input_def udp_leg_from_input_def plain_word_def is_ws_def Let_def)
  then show ?thesis
    using built_sdp_reads_back [OF media msg build_lib_fills] media msg by (auto simp: example_input_def)
qed

section \<open>Legs\<close>

definition active_medias :: "sdp_message \<Rightarrow> sdp_media list" where
  "active_medias msg = filter (\<lambda>m. \<not> is_media_inactive m) (msg_medias msg)"

lemma parse_two_legs:
  assumes "parse_sdp_message lib msg = Inr media" "msg_medias msg = [m0, m1]"
  obtains e0 e1 leg0 leg1 where "parse_media_essence lib msg m0 = Inr e0" "parse_media_essence lib msg m1 = Inr e1"
    "dual_leg_essence_equivalent lib e0 e1" "udp_leg_from_media msg m0 = Inr leg0" "udp_leg_from_media msg m1 = Inr leg1"
    "media = active_legs_to_udp_media e0 (leg0, \<not> is_media_inactive m0) (leg1, \<not> is_media_inactive m1)"
  using assms that
  by (auto simp: parse_sdp_message_def dual_leg_essences_def and_ok_def split: sum.splits if_splits)

text \<open>
  C32. Legs of a stream. When a session description is read it has one or two media blocks of one and the
  same format. The first leg of the stream is that of the first active block, or of the first block if
  none is active, and there is a second leg exactly if there is a second active block; their number is
  the number of active legs that decides between a real and a placeholder chain.
\<close>

theorem parsed_legs:
  assumes "parse_sdp lib t = Inr media"
  shows "\<exists>msg. sl_parse lib t = Some msg \<and> length (msg_medias msg) \<in> {1, 2} \<and>
    (\<forall>m \<in> set (msg_medias msg). \<exists>e. parse_media_essence lib msg m = Inr e \<and> me_format e = um_format media) \<and>
    udp_leg_from_media msg (hd (active_medias msg @ msg_medias msg)) = Inr (um_primary media) \<and>
    (case active_medias msg of
       [_, m1] \<Rightarrow> \<exists>leg. udp_leg_from_media msg m1 = Inr leg \<and> um_secondary media = Some leg
     | _ \<Rightarrow> um_secondary media = None) \<and>
    count_active_sdp_legs lib t = Inr (length (active_medias msg))"
proof -
  obtain msg where msg: "sl_parse lib t = Some msg" and media: "parse_sdp_message lib msg = Inr media"
    using assms by (auto simp: parse_sdp_def parse_message_def and_ok_def ok_or_def split: option.splits)
  consider (one) m where "msg_medias msg = [m]" | (two) m0 m1 where "msg_medias msg = [m0, m1]"
    using media by (auto simp: parse_sdp_message_def split: list.splits)
  then show ?thesis
  proof cases
    case one
    then show ?thesis
      using msg media
      by (auto simp: parse_sdp_message_def active_medias_def count_active_sdp_legs_def parse_message_def and_ok_def ok_or_def
          split: sum.splits)
  next
    case two
    obtain e0 e1 leg0 leg1 where legs: "parse_media_essence lib msg m0 = Inr e0" "parse_media_essence lib msg m1 = Inr e1"
      "dual_leg_essence_equivalent lib e0 e1" "udp_leg_from_media msg m0 = Inr leg0" "udp_leg_from_media msg m1 = Inr leg1"
      "media = active_legs_to_udp_media e0 (leg0, \<not> is_media_inactive m0) (leg1, \<not> is_media_inactive m1)"
      using media two by (rule parse_two_legs)
    have "me_format e1 = me_format e0" using legs(3) by (simp add: dual_leg_essence_equivalent_def)
    then show ?thesis
      using msg two legs
      by (auto simp: active_medias_def count_active_sdp_legs_def parse_message_def active_legs_to_udp_media_def and_ok_def ok_or_def)
  qed
qed

section \<open>A single leg\<close>

definition lines_text :: "string \<Rightarrow> string list \<Rightarrow> string" where
  "lines_text nl ls = concat (map (\<lambda>l. l @ nl) ls)"

definition plain_line :: "string \<Rightarrow> bool" where
  "plain_line l \<longleftrightarrow> CHR 0x0D \<notin> set l \<and> CHR 0x0A \<notin> set l"

definition lf :: string where "lf = [CHR 0x0A]"

definition crlf :: string where "crlf = [CHR 0x0D, CHR 0x0A]"

lemma trim_end_cr_plain:
  assumes "plain_line l"
  shows "trim_end_cr l = l" "trim_end_cr (l @ [CHR 0x0D]) = l"
proof -
  have "dropWhile (\<lambda>c. c = CHR 0x0D) (rev l) = rev l"
    using assms unfolding dropWhile_id plain_line_def by (metis hd_in_set set_rev)
  then show "trim_end_cr l = l" "trim_end_cr (l @ [CHR 0x0D]) = l" by (simp_all add: trim_end_cr_def)
qed

lemma split_lines:
  assumes "\<And>l. l \<in> set ls \<Longrightarrow> plain_line l" "nl = lf \<or> nl = crlf"
  shows "map trim_end_cr (split_on CHR 0x0A (lines_text nl ls)) = ls @ [[]]"
  using assms
proof (induction ls)
  case (Cons l ls)
  have l: "plain_line l" using Cons.prems(1) by simp
  have "split_on CHR 0x0A (l @ nl @ s) = (if nl = lf then l else l @ [CHR 0x0D]) # split_on CHR 0x0A s" for s
    using l Cons.prems(2) split_on_append [of "CHR 0x0A" l s] split_on_append [of "CHR 0x0A" "l @ [CHR 0x0D]" s]
    by (auto simp: lf_def crlf_def plain_line_def)
  then show ?case using Cons l by (simp add: lines_text_def trim_end_cr_plain)
qed (simp add: lines_text_def trim_end_cr_def)

lemma sdp_lines_text: "(\<And>l. l \<in> set ls \<Longrightarrow> plain_line l) \<Longrightarrow> nl = lf \<or> nl = crlf \<Longrightarrow> sdp_lines (lines_text nl ls) = ls"
  unfolding sdp_lines_def by (simp add: split_lines)

lemma has_crlf_Cons: "has_crlf s \<Longrightarrow> has_crlf (c # s)"
  by (cases s) simp_all

lemma has_crlf_append: "has_crlf (a @ crlf @ b)"
  by (induction a) (simp_all add: crlf_def has_crlf_Cons)

lemma no_crlf: "CHR 0x0D \<notin> set s \<Longrightarrow> \<not> has_crlf s"
  by (induction s rule: has_crlf.induct) auto

lemma has_crlf_text:
  assumes "\<And>l. l \<in> set ls \<Longrightarrow> plain_line l" "ls \<noteq> []" "nl = lf \<or> nl = crlf"
  shows "has_crlf (lines_text nl ls) \<longleftrightarrow> nl = crlf"
proof (cases "nl = crlf")
  case True
  obtain l rest where ls: "ls = l # rest" using assms(2) by (cases ls) auto
  show ?thesis using has_crlf_append [of l "lines_text nl rest"] by (simp add: True ls lines_text_def)
next
  case False
  then have "CHR 0x0D \<notin> set (lines_text nl ls)" using assms by (auto simp: lines_text_def plain_line_def lf_def)
  then show ?thesis using no_crlf False by blast
qed

definition session_line :: "string \<Rightarrow> bool" where
  "session_line l \<longleftrightarrow> plain_line l \<and> \<not> starts_with l ''m=''"

definition media_block :: "string list \<Rightarrow> bool" where
  "media_block b \<longleftrightarrow> (\<exists>l ls. b = l # ls \<and> plain_line l \<and> starts_with l ''m='' \<and> list_all session_line ls)"

definition is_group :: "string \<Rightarrow> bool" where "is_group l \<longleftrightarrow> starts_with (trim_start l) ''a=group:''"

definition is_mid :: "string \<Rightarrow> bool" where "is_mid l \<longleftrightarrow> starts_with (trim_start l) ''a=mid:''"

lemma media_block_plain: "media_block b \<Longrightarrow> l \<in> set b \<Longrightarrow> plain_line l"
  by (auto simp: media_block_def list_all_iff session_line_def)

lemma add_session_lines:
  "list_all session_line ls \<Longrightarrow> foldl add_sdp_line (session, []) ls = (session @ filter (\<lambda>l. \<not> is_group l) ls, [])"
  by (induction ls arbitrary: session) (simp_all add: add_sdp_line_def session_line_def is_group_def)

lemma add_block_lines:
  "list_all session_line ls \<Longrightarrow> foldl add_sdp_line (session, blocks @ [b]) ls = (session, blocks @ [b @ ls])"
  by (induction ls arbitrary: b) (simp_all add: add_sdp_line_def session_line_def)

lemma add_blocks:
  "list_all media_block bs \<Longrightarrow> foldl add_sdp_line (session, blocks) (concat bs) = (session, blocks @ bs)"
proof (induction bs arbitrary: blocks)
  case (Cons b bs)
  obtain l ls where b: "b = l # ls" "starts_with l ''m=''" "list_all session_line ls" using Cons.prems by (auto simp: media_block_def)
  have "foldl add_sdp_line (session, blocks) b = (session, blocks @ [b])"
    using add_block_lines [OF b(3), of session blocks "[l]"] b(1,2) by (simp add: add_sdp_line_def)
  then show ?case using Cons by simp
qed simp

lemma join_lines: "join_strings nl (ls @ [[]]) = lines_text nl ls"
proof -
  have "x @ concat (map (\<lambda>y. nl @ y) (ls @ [[]])) = lines_text nl (x # ls)" for x
    by (induction ls arbitrary: x) (simp_all add: lines_text_def)
  then show ?thesis by (cases ls) (simp_all add: join_strings_def lines_text_def)
qed

lemma splice_lines:
  assumes "list_all session_line session" "list_all media_block bs" "i < length bs" "nl = lf \<or> nl = crlf"
  shows "splice_active_media_section (lines_text nl (session @ concat bs)) i =
    Inr (lines_text nl (filter (\<lambda>l. \<not> is_group l) session @ filter (\<lambda>l. \<not> is_mid l) (bs ! i)))"
proof -
  have plain: "plain_line l" if "l \<in> set (session @ concat bs)" for l
    using that assms(1) media_block_plain assms(2) by (auto simp: list_all_iff session_line_def)
  have "bs ! i \<noteq> []" using assms(2,3) by (auto simp: list_all_length media_block_def)
  then have "session @ concat bs \<noteq> []" using assms(3) by (auto simp: concat_eq_Nil_conv)
  from has_crlf_text [OF plain this assms(4)]
  have nl: "(if has_crlf (lines_text nl (session @ concat bs)) then [CHR 0x0D, CHR 0x0A] else [CHR 0x0A]) = nl"
    using assms(4) by (auto simp: lf_def crlf_def)
  have ls: "sdp_lines (lines_text nl (session @ concat bs)) = session @ concat bs" using sdp_lines_text [OF plain assms(4)] .
  have "foldl add_sdp_line ([], []) (session @ concat bs) = (filter (\<lambda>l. \<not> is_group l) session, bs)"
    using add_session_lines [OF assms(1), of "[]"] add_blocks [OF assms(2)] by simp
  then show ?thesis
    unfolding splice_active_media_section_def nl Let_def ls
    using join_lines [of nl "filter (\<lambda>l. \<not> is_group l) session @ filter (\<lambda>l. \<not> is_mid l) (bs ! i)"] assms(3) by (simp add: is_mid_def)
qed

text \<open>
  Cutting out one leg. From a session description with two media blocks of which exactly one is
  active, whatever its line ends, remain the lines of the session without groups and the lines of the
  active block without its identifier, in order and with the same line ends; if both or none are
  active, this is an error.
\<close>

theorem single_leg_spliced:
  assumes "t = lines_text nl (session @ b0 @ b1)" "list_all session_line session" "media_block b0" "media_block b1"
    "nl = lf \<or> nl = crlf" "sl_parse lib t = Some msg" "msg_medias msg = [m0, m1]"
  shows "normalise_to_single_active_leg lib t =
    (if is_media_inactive m0 = is_media_inactive m1 then Inl NotExactlyOneActiveLeg
     else Inr (lines_text nl (filter (\<lambda>l. \<not> is_group l) session @
                 filter (\<lambda>l. \<not> is_mid l) (if is_media_inactive m0 then b1 else b0))))"
proof -
  have splice: "splice_active_media_section t i =
      Inr (lines_text nl (filter (\<lambda>l. \<not> is_group l) session @ filter (\<lambda>l. \<not> is_mid l) ([b0, b1] ! i)))" if "i < 2" for i
    using splice_lines [of session "[b0, b1]" i nl] assms(2-5) that by (simp add: assms(1))
  show ?thesis
    using assms(6,7) splice [of 0] splice [of 1]
    by (auto simp: normalise_to_single_active_leg_def sdp_media_block_count_of_def count_active_sdp_legs_def parse_message_def
        and_ok_def ok_or_def)
qed

definition example_session :: "string list" where
  "example_session = [''v=0'', ''a=group:DUP 1 2'', ''s=x'']"

definition example_block :: "string \<Rightarrow> string list" where
  "example_block mid = [''m=audio 5004 RTP/AVP 97'', ''a=mid:'' @ mid]"

definition inactive_media :: sdp_media where
  "inactive_media = new_media\<lparr>sm_attributes := [(''inactive'', Some [])]\<rparr>"

theorem single_leg_spliced_witness:
  "normalise_to_single_active_leg
     (example_lib\<lparr>sl_parse := \<lambda>_. Some (example_message\<lparr>msg_medias := [inactive_media, new_media]\<rparr>)\<rparr>)
     (lines_text crlf (example_session @ example_block ''1'' @ example_block ''2'')) =
   Inr (lines_text crlf [''v=0'', ''s=x'', ''m=audio 5004 RTP/AVP 97''])"
proof -
  have lines: "list_all session_line example_session" "media_block (example_block ''1'')" "media_block (example_block ''2'')"
    by (simp_all add: example_session_def example_block_def session_line_def media_block_def plain_line_def starts_with_def)
  have "is_media_inactive inactive_media" "\<not> is_media_inactive new_media"
    by (simp_all add: is_media_inactive_def inactive_media_def new_media_def attribute_val_def)
  then show ?thesis
    using single_leg_spliced [OF refl lines, of crlf "example_lib\<lparr>sl_parse := \<lambda>_. Some (example_message\<lparr>msg_medias := [inactive_media, new_media]\<rparr>)\<rparr>"
        "example_message\<lparr>msg_medias := [inactive_media, new_media]\<rparr>" inactive_media new_media]
    by (simp add: example_session_def example_block_def is_group_def is_mid_def trim_start_def starts_with_def is_ws_def)
qed

text \<open>A stream of audio with an inactive first leg.\<close>

definition audio_message :: sdp_message where
  "audio_message = example_message\<lparr>msg_medias :=
     [example_media\<lparr>sm_attributes := [(''inactive'', Some [])]\<rparr>, example_media\<lparr>sm_attributes := []\<rparr>]\<rparr>"

definition audio_rtp_caps :: gst_caps where
  "audio_rtp_caps = [(''application/x-rtp'', [(''media'', GString (Some ''audio'')), (''encoding-name'', GString (Some ''L24'')),
     (''clock-rate'', GInt 48000), (''payload'', GInt 96)])]"

definition audio_lib :: sdp_lib where
  "audio_lib = example_lib\<lparr>sl_parse := \<lambda>_. Some audio_message, sl_caps_from_media := \<lambda>_ _. Some audio_rtp_caps,
     sl_caps_from_str := \<lambda>_. Some [(''audio/x-raw'', [])]\<rparr>"

lemma audio_essence:
  assumes "sm_formats m = [''96'']" "attribute_val ''ptime'' (sm_attributes m) = None" "attribute_val ''maxptime'' (sm_attributes m) = None"
  shows "parse_media_essence audio_lib msg m =
    Inr \<lparr>me_format = FmtAudio, me_rtp_caps = audio_rtp_caps, me_caps = essence_caps_from [(''audio/x-raw'', [])] (Some audio_rtp_caps)\<rparr>"
  using assms
  by (simp add: parse_media_essence_def rtp_caps_of_media_def name_rtp_caps_def set_field_opt_def audio_lib_def audio_rtp_caps_def
      example_lib_def parse_i32_def
      parse_unsigned_def digit_val_def field_string_def field_int_def i32_range_def essence_format_def caps_from_rtp_audio_def
      caps_from_text_def or_empty_def eq_ignore_ascii_case_def to_ascii_lowercase_def and_ok_def ok_or_def Let_def)

theorem parsed_legs_witness:
  "\<exists>media. parse_sdp audio_lib [] = Inr media \<and> um_format media = FmtAudio \<and> um_secondary media = None \<and>
     count_active_sdp_legs audio_lib [] = Inr 1"
proof -
  define m0 m1 where "m0 = example_media\<lparr>sm_attributes := [(''inactive'', Some [])]\<rparr>" and "m1 = example_media\<lparr>sm_attributes := []\<rparr>"
  note defs = m0_def m1_def example_media_def new_media_def attribute_val_def
  have parsed: "sl_parse audio_lib [] = Some audio_message" "msg_medias audio_message = [m0, m1]"
    by (simp_all add: audio_lib_def audio_message_def m0_def m1_def)
  have essences: "parse_media_essence audio_lib audio_message m = Inr \<lparr>me_format = FmtAudio, me_rtp_caps = audio_rtp_caps,
      me_caps = essence_caps_from [(''audio/x-raw'', [])] (Some audio_rtp_caps)\<rparr>" if "m \<in> {m0, m1}" for m
    using that by (intro audio_essence) (auto simp: defs)
  have "\<exists>leg. udp_leg_from_media audio_message m = Inr leg" if "m \<in> {m0, m1}" for m
    using that by (auto simp: udp_leg_from_media_def and_ok_def ok_or_def Let_def defs)
  then obtain leg0 leg1 where legs: "udp_leg_from_media audio_message m0 = Inr leg0" "udp_leg_from_media audio_message m1 = Inr leg1" by blast
  have "dual_leg_essence_equivalent audio_lib e e" if "me_rtp_caps e = audio_rtp_caps" for e
    using that by (simp add: dual_leg_essence_equivalent_def audio_rtp_caps_def audio_lib_def example_lib_def field_string_def bit_rate_keys_differ)
  then obtain media where media: "parse_sdp audio_lib [] = Inr media" "um_format media = FmtAudio"
    using parsed legs essences
    by (simp add: parse_sdp_def parse_message_def parse_sdp_message_def dual_leg_essences_def active_legs_to_udp_media_def m0_def m1_def
        bit_rate_keys_differ and_ok_def ok_or_def)
  moreover have "active_medias audio_message = [m1]"
    unfolding active_medias_def parsed by (simp add: is_media_inactive_def defs)
  ultimately show ?thesis using parsed_legs [OF media(1)] parsed by auto
qed

end
