(* ===== verification/Gst_ConfigFacts.thy ===== *)
theory Gst_ConfigFacts
  imports Gst_SdpRead
begin

text \<open>
  The configuration of an element (\<open>Gst_Plan\<close>) on the SDP functions of the code (\<open>nmos_sdp\<close>): which
  messages make the reader of \<^verbatim>\<open>sdp.rs\<close> panic, and that resolving the properties panics on no others.
\<close>

section \<open>Messages that the reader panics on\<close>

text \<open>
  A media block of JPEG XS whose frame rate \<^verbatim>\<open>gst::Fraction::new\<close> refuses, after its two numbers were
  cast from \<^verbatim>\<open>u32\<close> to \<^verbatim>\<open>i32\<close>.
\<close>

definition panicking_media :: "sdp_lib \<Rightarrow> sdp_message \<Rightarrow> sdp_media \<Rightarrow> bool" where
  "panicking_media lib msg m \<longleftrightarrow>
     (\<exists>name st rest n d. rtp_caps_of_media lib msg m = Inr ((name, st) # rest) \<and> field_string st ''media'' = Some ''video'' \<and>
        eq_ignore_ascii_case (or_empty (field_string st ''encoding-name'')) ''jxsv'' \<and>
        parse_exact_framerate (or_empty (field_string st ''exactframerate'')) = Some (n, d) \<and>
        sl_fraction lib (sint n) (sint d) = None)"

definition panicking_sdp :: "sdp_lib \<Rightarrow> string \<Rightarrow> bool" where
  "panicking_sdp lib t \<longleftrightarrow> (\<exists>msg. sl_parse lib t = Some msg \<and> (\<exists>m \<in> set (msg_medias msg). panicking_media lib msg m))"

lemma and_ok_panics: "and_ok r f = Inl SdpPanic \<longleftrightarrow> r = Inl SdpPanic \<or> (\<exists>a. r = Inr a \<and> f a = Inl SdpPanic)"
  by (auto simp: and_ok_def split: sum.splits)

lemma ok_or_panics: "ok_or e x = Inl SdpPanic \<longleftrightarrow> x = None \<and> e = SdpPanic"
  by (auto simp: ok_or_def split: option.splits)

lemma ok_or_Inr: "ok_or e x = Inr a \<longleftrightarrow> x = Some a"
  by (auto simp: ok_or_def split: option.splits)

lemmas panics = and_ok_panics ok_or_panics ok_or_Inr caps_from_text_def

lemma rtp_caps_never_panic: "rtp_caps_of_media lib msg m \<noteq> Inl SdpPanic"
  by (auto simp: rtp_caps_of_media_def panics split: list.splits)

text \<open>Code that is put together from parts that do not panic.\<close>

named_theorems safe

lemma safe_rules [safe]:
  "r \<noteq> Inl SdpPanic \<Longrightarrow> (\<And>a. f a \<noteq> Inl SdpPanic) \<Longrightarrow> and_ok r f \<noteq> Inl SdpPanic"
  "e \<noteq> SdpPanic \<Longrightarrow> ok_or e x \<noteq> Inl SdpPanic" "e \<noteq> SdpPanic \<Longrightarrow> Inl e \<noteq> Inl SdpPanic" "Inr a \<noteq> Inl SdpPanic"
  "r \<noteq> Inl SdpPanic \<Longrightarrow> r' \<noteq> Inl SdpPanic \<Longrightarrow> (if b then r else r') \<noteq> Inl SdpPanic"
  "r \<noteq> Inl SdpPanic \<Longrightarrow> (\<And>x xs. g x xs \<noteq> Inl SdpPanic) \<Longrightarrow> (case l of [] \<Rightarrow> r | x # xs \<Rightarrow> g x xs) \<noteq> Inl SdpPanic"
  "(\<And>x y. h x y \<noteq> Inl SdpPanic) \<Longrightarrow> (case p of (x, y) \<Rightarrow> h x y) \<noteq> Inl SdpPanic"
  by (auto simp: panics split: list.splits prod.splits)

lemma caps_from_text_safe [safe]: "caps_from_text lib name fs \<noteq> Inl SdpPanic"
  unfolding caps_from_text_def by (intro safe) simp

lemma audio_never_panics [safe]: "caps_from_rtp_audio lib caps \<noteq> Inl SdpPanic"
  unfolding caps_from_rtp_audio_def Let_def by (intro safe) simp_all

lemma data_never_panics [safe]: "caps_from_rtp_data lib caps \<noteq> Inl SdpPanic"
  unfolding caps_from_rtp_data_def Let_def by (intro safe) simp_all

lemma video_never_panics [safe]: "caps_from_rtp_video lib caps \<noteq> Inl SdpPanic"
  unfolding caps_from_rtp_video_def Let_def by (intro safe) simp_all

lemmas other_essences_never_panic = audio_never_panics data_never_panics video_never_panics

lemma jxsv_structure_panics:
  "jxsv_structure_caps lib width height depth sampling rate profile level sublevel = Inl e \<longleftrightarrow>
     e = SdpPanic \<and> (\<exists>n d. rate = Some (n, d) \<and> sl_fraction lib (sint n) (sint d) = None)"
proof (cases rate)
  case None
  then show ?thesis by (simp add: jxsv_structure_caps_def Let_def)
next
  case (Some nd)
  obtain n d where "nd = (n, d)" by fastforce
  with Some show ?thesis
    by (cases "sl_fraction lib (sint n) (sint d)") (auto simp: jxsv_structure_caps_def Let_def case_prod_beta)
qed

lemma jxsv_panics:
  "caps_from_rtp_video_jxsv lib ((name, st) # rest) = Inl SdpPanic \<longleftrightarrow>
     eq_ignore_ascii_case (or_empty (field_string st ''encoding-name'')) ''jxsv'' \<and>
     (\<exists>n d. parse_exact_framerate (or_empty (field_string st ''exactframerate'')) = Some (n, d) \<and> sl_fraction lib (sint n) (sint d) = None)"
  by (simp add: caps_from_rtp_video_jxsv_def jxsv_structure_panics Let_def)

lemma essence_format_of_jxsv: "eq_ignore_ascii_case s ''jxsv'' \<Longrightarrow> essence_format ''video'' s = Some FmtVideo"
  by (auto simp: essence_format_def eq_ignore_ascii_case_def to_ascii_lowercase_def)

lemma essence_panics: "parse_media_essence lib msg m = Inl SdpPanic \<longleftrightarrow> panicking_media lib msg m"
proof (cases "rtp_caps_of_media lib msg m")
  case (Inl e)
  then show ?thesis using rtp_caps_never_panic [of lib msg m] by (auto simp: parse_media_essence_def panicking_media_def and_ok_def)
next
  case (Inr caps)
  have video: "essence_format k s = Some FmtVideo \<longleftrightarrow> k = ''video'' \<and> \<not> eq_ignore_ascii_case s ''SMPTE291''"
      "essence_format k s \<noteq> Some FmtUnspecified" for k s
    by (auto simp: essence_format_def)
  show ?thesis
  proof (cases caps)
    case Nil
    then show ?thesis using Inr by (simp add: parse_media_essence_def panicking_media_def and_ok_def)
  next
    case (Cons s rest)
    obtain name st where s: "s = (name, st)" by (cases s)
    have "parse_media_essence lib msg m = Inl SdpPanic \<longleftrightarrow>
        field_string st ''media'' = Some ''video'' \<and> caps_from_rtp_video_jxsv lib caps = Inl SdpPanic"
      using Inr Cons s other_essences_never_panic video essence_format_of_jxsv
      by (auto simp: parse_media_essence_def panics and_ok_def [of "Inr caps"] Let_def jxsv_panics split: flow_format.splits if_splits)
        (metis flow_format.exhaust)+
    then show ?thesis using Inr Cons s by (auto simp: jxsv_panics panicking_media_def)
  qed
qed

lemma dual_leg_panics:
  "dual_leg_essences lib msg m0 m1 = Inl SdpPanic \<Longrightarrow> panicking_media lib msg m0 \<or> panicking_media lib msg m1"
  by (auto simp: dual_leg_essences_def panics essence_panics split: if_splits)

lemma leg_never_panics: "udp_leg_from_media msg m \<noteq> Inl SdpPanic"
  by (auto simp: udp_leg_from_media_def panics Let_def split: list.splits)

lemma parse_message_panics: "parse_message lib t \<noteq> Inl SdpPanic" "parse_message lib t = Inr msg \<longleftrightarrow> sl_parse lib t = Some msg"
  by (simp_all add: parse_message_def panics)

lemma parse_panics:
  assumes "parse_sdp lib t = Inl SdpPanic"
  shows "panicking_sdp lib t"
proof -
  obtain msg where msg: "sl_parse lib t = Some msg" "parse_sdp_message lib msg = Inl SdpPanic"
    using assms by (auto simp: parse_sdp_def and_ok_panics parse_message_panics)
  then have "\<exists>m \<in> set (msg_medias msg). panicking_media lib msg m"
    by (auto simp: parse_sdp_message_def and_ok_panics essence_panics leg_never_panics dest!: dual_leg_panics split: list.splits)
  with msg(1) show ?thesis by (auto simp: panicking_sdp_def)
qed

lemma overrides_never_panic: "apply_media_overrides_in_place lib ov msg \<noteq> Inl SdpPanic"
  by (auto simp: apply_media_overrides_in_place_def apply_primary_leg_transport_overrides_def apply_destination_ip_def
      replace_connection_address_def apply_payload_type_def rewrite_payload_type_def panics Let_def
      split: list.splits option.splits if_splits)

lemma passthrough_panics:
  assumes "passthrough_with_overrides lib t ov policy = Inl SdpPanic"
  shows "panicking_sdp lib t"
proof -
  obtain msg where msg: "sl_parse lib t = Some msg" "reject_unsupported_multi_media lib policy msg = Inl SdpPanic"
    using assms by (auto simp: passthrough_with_overrides_def passthrough_message_def overrides_never_panic panics parse_message_panics)
  then have "\<exists>m \<in> set (msg_medias msg). panicking_media lib msg m"
    by (auto simp: reject_unsupported_multi_media_def validate_dual_leg_sdp_def and_ok_panics Let_def
        dest!: dual_leg_panics split: if_splits dual_leg_policy.splits list.splits)
  with msg(1) show ?thesis by (auto simp: panicking_sdp_def)
qed

text \<open>The other functions never panic, and neither does building a message.\<close>

lemma resolve_payload_type_never_panics:
  "essence_caps_format caps = Some format \<Longrightarrow> resolve_payload_type format transport_caps \<noteq> Inl SdpPanic"
  by (cases format) (auto simp: resolve_payload_type_def panics essence_caps_format_def split: option.splits list.splits if_splits)

lemma nmos_sdp_never_panics:
  "cross_check_essence lib media caps transport_caps mode \<noteq> Inl SdpPanic"
  "sdp_media_block_count_of lib t \<noteq> Inl SdpPanic" "count_active_sdp_legs lib t \<noteq> Inl SdpPanic"
  "sdp_resource_name_from_transport lib t \<noteq> Inl SdpPanic" "bit_rates_from_sdp_text lib t \<noteq> Inl SdpPanic"
  "normalise_to_single_active_leg lib t \<noteq> Inl SdpPanic"
  by (auto simp: cross_check_essence_def cross_check_essence_caps_def cross_check_essence_format_family_def
      cross_check_transport_caps_def sdp_media_block_count_of_def count_active_sdp_legs_def sdp_resource_name_from_transport_def
      bit_rates_from_sdp_text_def normalise_to_single_active_leg_def splice_active_media_section_def panics parse_message_panics Let_def
      split: option.splits cross_check_mode.splits if_splits list.splits prod.splits)

lemma rtp_caps_safe [safe]:
  "rtp_caps_from_video_jxsv lib caps pt n \<noteq> Inl SdpPanic" "rtp_caps_from_data lib caps pt \<noteq> Inl SdpPanic"
  "rtp_caps_from_audio lib caps pt ptime maxptime order \<noteq> Inl SdpPanic"
  subgoal unfolding rtp_caps_from_video_jxsv_def Let_def by (intro safe) simp_all
  subgoal unfolding rtp_caps_from_data_def Let_def by (intro safe) simp_all
  subgoal unfolding rtp_caps_from_audio_def Let_def by (intro safe) simp_all
  done

lemma rtp_caps_from_video_safe [safe]: "rtp_caps_from_video lib caps pt n \<noteq> Inl SdpPanic"
  unfolding rtp_caps_from_video_def Let_def by (intro safe) simp_all

lemma rtp_caps_of_input_never_panics:
  assumes "format \<noteq> FmtUnspecified"
  shows "rtp_caps_of_input lib input format pt \<noteq> Inl SdpPanic"
  using assms unfolding rtp_caps_of_input_def
  by (cases format) (simp_all add: rtp_caps_safe rtp_caps_from_video_safe split: list.split prod.split)

lemma build_sdp_never_panics: "build_sdp lib media session \<noteq> Inl SdpPanic"
  unfolding build_sdp_def build_message_def build_media_def Let_def by (intro safe) simp_all

lemma from_caps_never_panics: "from_caps lib input \<noteq> Inl SdpPanic"
proof -
  have "media_of_input lib input \<noteq> Inl SdpPanic"
    using resolve_payload_type_never_panics rtp_caps_of_input_never_panics
    by (auto simp: media_of_input_def panics essence_caps_format_def split: list.splits if_splits)
  then show ?thesis using build_sdp_never_panics by (simp add: from_caps_def and_ok_panics)
qed

section \<open>The configuration of an element\<close>

lemma nmos_sdp_outcomes:
  "sdp_from_caps (nmos_sdp lib) input = SdpGood t \<longleftrightarrow> from_caps lib input = Inr t" "sdp_from_caps (nmos_sdp lib) input \<noteq> SdpPanics"
  "sdp_parse (nmos_sdp lib) t = SdpPanics \<Longrightarrow> panicking_sdp lib t"
  "sdp_passthrough (nmos_sdp lib) t ov policy = SdpGood t' \<longleftrightarrow> passthrough_with_overrides lib t ov policy = Inr t'"
  "sdp_passthrough (nmos_sdp lib) t ov policy = SdpPanics \<Longrightarrow> panicking_sdp lib t"
  by (auto simp: nmos_sdp_def sdp_outcome_of_def from_caps_never_panics parse_panics passthrough_panics split: sum.splits if_splits)

text \<open>The messages that resolving may read: those that it builds or changes, and the one that the user gives.\<close>

definition reads_panicking_sdp :: "host_env \<Rightarrow> sdp_lib \<Rightarrow> common_settings \<Rightarrow> bool" where
  "reads_panicking_sdp env lib cfg \<longleftrightarrow>
     (\<exists>t. resolve_transport_file env cfg = Some (Inr (Some t)) \<and>
        (panicking_sdp lib t \<or> (\<exists>ov policy t'. passthrough_with_overrides lib t ov policy = Inr t' \<and> panicking_sdp lib t'))) \<or>
     (\<exists>caps t. resolve_transport_file env cfg = Some (Inr None) \<and> cfg_caps cfg = Some caps \<and>
        from_caps lib (mk_sdp_build_input cfg caps) = Inr t \<and> panicking_sdp lib t)"

lemma resolve_panics:
  assumes "json_text env" "he_sdp env = nmos_sdp lib" "resolve_config env cfg = None"
  shows "cfg_transport cfg \<noteq> TrMxl \<and> reads_panicking_sdp env lib cfg"
proof -
  obtain f where f: "cfg_transport cfg \<noteq> TrMxl" "resolve_transport_file env cfg = Some (Inr f)"
      "case f of None \<Rightarrow> \<exists>caps. cfg_caps cfg = Some caps \<and> panics_on_caps (he_sdp env) (mk_sdp_build_input cfg caps)
         | Some t \<Rightarrow> panics_on_file (he_sdp env) t"
    using resolve_config_panics [OF assms(1,3)] by blast
  have "panics_on_caps (nmos_sdp lib) input \<Longrightarrow> \<exists>t. from_caps lib input = Inr t \<and> panicking_sdp lib t"
    "panics_on_file (nmos_sdp lib) t \<Longrightarrow>
      panicking_sdp lib t \<or> (\<exists>ov policy t'. passthrough_with_overrides lib t ov policy = Inr t' \<and> panicking_sdp lib t')" for input t
    by (auto simp: nmos_sdp_outcomes dest: nmos_sdp_outcomes(3,5))
  with f assms(2) show ?thesis unfolding reads_panicking_sdp_def by (cases f) (force simp del: panics_on_caps.simps panics_on_file.simps)+
qed

text \<open>
  C24. The configuration of an element. Resolving the properties of an MXL element never panics. For RTP
  it panics only if a session description does that it reads, one given by the user, that one changed by
  the properties, or one built from caps, and only by a JPEG XS frame rate with numbers that
  \<^verbatim>\<open>gst::Fraction::new\<close> refuses when they are cast to \<^verbatim>\<open>i32\<close>. When the element comes
  up on a real chain, \<^verbatim>\<open>auto-activate\<close> is set, a transport file is registered, and the chain has
  all it needs: an MXL chain the local domain path, a flow id that is the one in its flow definition,
  and for a receiver a format; an RTP chain a destination that is an actual address. Of an MXL
  element, the daemon reads from the registered file the very name that the element registers.
\<close>

theorem element_configuration:
  assumes env: "json_text env" "he_uuid env \<noteq> []" and sdp: "he_sdp env = nmos_sdp lib"
  shows "case resolve_config env cfg of
      None \<Rightarrow> cfg_transport cfg \<noteq> TrMxl \<and> reads_panicking_sdp env lib cfg
    | Some (Inl _) \<Rightarrow> True
    | Some (Inr (inner, tf, name)) \<Rightarrow>
        (\<forall>tc. inner = RealInner tc \<longrightarrow> cfg_auto_activate cfg \<and> tf \<noteq> None \<and> chain_configured env cfg tc) \<and>
        (\<forall>t. cfg_transport cfg = TrMxl \<and> tf = Some t \<longrightarrow> transport_file_name (he_from_str env) Mxl t = Some name)"
proof -
  have "cfg_auto_activate cfg \<and> tf \<noteq> None \<and> chain_configured env cfg tc"
    if "resolve_config env cfg = Some (Inr (RealInner tc, tf, name))" for tc tf name
    using that resolve_mxl_real [OF _ env] resolve_rtp_real by (elim resolve_config_steps) auto
  moreover have "transport_file_name (he_from_str env) Mxl t = Some name"
    if "resolve_config env cfg = Some (Inr (inner, Some t, name))" "cfg_transport cfg = TrMxl" for inner t name
    using that resolved_name [OF env(1)] by (elim resolve_config_steps) auto
  ultimately show ?thesis using resolve_panics [OF env(1) sdp] by (auto split: option.splits sum.splits)
qed

text \<open>JPEG XS with one active leg, at a frame rate.\<close>

definition jxsv_caps :: "string \<Rightarrow> gst_caps" where
  "jxsv_caps rate = [(''application/x-rtp'', [(''media'', GString (Some ''video'')), (''encoding-name'', GString (Some ''JXSV'')),
     (''exactframerate'', GString (Some rate))])]"

definition jxsv_message :: sdp_message where
  "jxsv_message = example_message\<lparr>msg_medias := [example_media\<lparr>sm_attributes := []\<rparr>]\<rparr>"

definition jxsv_lib :: "string \<Rightarrow> sdp_lib" where
  "jxsv_lib rate = example_lib\<lparr>sl_parse := \<lambda>_. Some jxsv_message, sl_text := \<lambda>_. Some ''sdp'',
     sl_caps_from_media := \<lambda>_ _. Some (jxsv_caps rate),
     sl_fraction := \<lambda>n d. if d = 0 \<or> d = - 2147483648 then None else Some (n, d)\<rparr>"

definition jxsv_host :: "string \<Rightarrow> host_env" where
  "jxsv_host rate = demo_host\<lparr>he_sdp := nmos_sdp (jxsv_lib rate)\<rparr>"

lemma jxsv_reads: "sl_parse (jxsv_lib rate) t = Some jxsv_message" "sl_text (jxsv_lib rate) msg = Some ''sdp''"
  "msg_medias jxsv_message = [example_media\<lparr>sm_attributes := []\<rparr>]"
  by (simp_all add: jxsv_lib_def jxsv_message_def)

lemma jxsv_passthrough:
  assumes "so_destination_ip ov = None" "so_payload_type ov = None" "so_caps_mode ov = CapsAuto"
  shows "passthrough_with_overrides (jxsv_lib rate) t ov RejectDualLeg = Inr ''sdp''"
  using assms
  by (simp add: passthrough_with_overrides_def parse_message_def passthrough_message_def reject_unsupported_multi_media_def jxsv_reads
      ok_or_def and_ok_def apply_media_overrides_in_place_def session_override apply_primary_leg_transport_overrides_def
      apply_destination_ip_def apply_payload_type_def Let_def)

lemma jxsv_passes: "passthrough_user_transport_file (jxsv_host rate) demo_cfg ''sdp'' RejectDualLeg = Some (Inr ''sdp'')"
proof -
  let ?ov = "property_overrides_udp demo_cfg"
  have "so_destination_ip ?ov = None \<and> so_payload_type ?ov = None \<and> so_caps_mode ?ov = CapsAuto"
    by (simp add: property_overrides_udp_def demo_cfg_def opt_string_def Let_def)
  then have pass: "sdp_passthrough (nmos_sdp (jxsv_lib rate)) ''sdp'' ?ov RejectDualLeg = SdpGood ''sdp''"
    by (simp add: nmos_sdp_outcomes jxsv_passthrough)
  obtain br where "sdp_bit_rates (nmos_sdp (jxsv_lib rate)) ''sdp'' = Some br"
    by (simp add: nmos_sdp_def bit_rates_from_sdp_text_def parse_message_def jxsv_reads ok_or_def and_ok_def ok_value_def)
  moreover have "bit_rates_from_properties (cfg_format_bit_rate demo_cfg) (cfg_transport_bit_rate demo_cfg) = unset_bit_rates"
    by (simp add: demo_cfg_def bit_rates_from_properties_def)
  ultimately show ?thesis
    using pass by (simp add: passthrough_user_transport_file_def jxsv_host_def need_def give_def bind_res_def need_sdp_def
      cross_check_bit_rates_def)
qed

lemma jxsv_rtp_caps:
  "rtp_caps_of_media (jxsv_lib rate) jxsv_message (example_media\<lparr>sm_attributes := []\<rparr>) = Inr (jxsv_caps rate)"
proof -
  have "parse_i32 ''96'' = Some 96" by (simp add: parse_i32_def parse_unsigned_def digit_val_def)
  then show ?thesis
    by (simp add: rtp_caps_of_media_def name_rtp_caps_def set_field_opt_def attribute_val_def jxsv_lib_def jxsv_caps_def example_lib_def
        example_media_def ok_or_def and_ok_def)
qed

lemma jxsv_essence:
  "parse_media_essence (jxsv_lib rate) jxsv_message (example_media\<lparr>sm_attributes := []\<rparr>) =
     and_ok (caps_from_rtp_video_jxsv (jxsv_lib rate) (jxsv_caps rate)) (\<lambda>caps.
       Inr \<lparr>me_format = FmtVideo, me_rtp_caps = jxsv_caps rate, me_caps = essence_caps_from caps (Some (jxsv_caps rate))\<rparr>)"
proof -
  have fields: "field_string [(''media'', GString (Some ''video'')), (''encoding-name'', GString (Some ''JXSV'')),
      (''exactframerate'', GString (Some rate))] ''media'' = Some ''video''"
    "field_string [(''media'', GString (Some ''video'')), (''encoding-name'', GString (Some ''JXSV'')),
      (''exactframerate'', GString (Some rate))] ''encoding-name'' = Some ''JXSV''"
    by (simp_all add: field_string_def)
  have "eq_ignore_ascii_case ''JXSV'' ''jxsv''" "\<not> eq_ignore_ascii_case ''JXSV'' ''SMPTE291''" by code_simp+
  then show ?thesis
    unfolding parse_media_essence_def jxsv_rtp_caps
    by (simp add: jxsv_caps_def fields essence_format_def or_empty_def ok_or_def and_ok_def Let_def)
qed

lemma jxsv_rates:
  "parse_exact_framerate ''25/2147483648'' = Some (25, 2147483648)" "parse_exact_framerate ''50'' = Some (50, 1)"
  by (simp_all add: parse_exact_framerate_def parse_u32_def parse_unsigned_def digit_val_def trim_def trim_start_def is_ws_def u32_max_def Let_def)

lemma jxsv_rate_field: "field_string (snd (hd (jxsv_caps rate))) ''exactframerate'' = Some rate"
  by (simp add: jxsv_caps_def field_string_def)

lemma jxsv_rate_read:
  "caps_from_rtp_video_jxsv (jxsv_lib rate) (jxsv_caps rate) = Inl SdpPanic \<longleftrightarrow>
     (\<exists>n d. parse_exact_framerate rate = Some (n, d) \<and> (sint d = 0 \<or> sint d = - 2147483648))"
  "\<exists>e. caps_from_rtp_video_jxsv (jxsv_lib rate) (jxsv_caps rate) = Inl e \<Longrightarrow>
     caps_from_rtp_video_jxsv (jxsv_lib rate) (jxsv_caps rate) = Inl SdpPanic"
proof -
  have name: "eq_ignore_ascii_case ''JXSV'' ''jxsv''" by code_simp
  have fields: "field_string (snd (hd (jxsv_caps rate))) ''encoding-name'' = Some ''JXSV''" by (simp add: jxsv_caps_def field_string_def)
  obtain st where st: "jxsv_caps rate = [(''application/x-rtp'', st)]" by (simp add: jxsv_caps_def)
  show "caps_from_rtp_video_jxsv (jxsv_lib rate) (jxsv_caps rate) = Inl SdpPanic \<longleftrightarrow>
      (\<exists>n d. parse_exact_framerate rate = Some (n, d) \<and> (sint d = 0 \<or> sint d = - 2147483648))"
    using jxsv_rate_field [of rate] fields name unfolding st by (auto simp: jxsv_panics or_empty_def jxsv_lib_def)
  assume "\<exists>e. caps_from_rtp_video_jxsv (jxsv_lib rate) (jxsv_caps rate) = Inl e"
  then show "caps_from_rtp_video_jxsv (jxsv_lib rate) (jxsv_caps rate) = Inl SdpPanic"
    using fields name unfolding st by (auto simp: caps_from_rtp_video_jxsv_def jxsv_structure_panics or_empty_def Let_def)
qed

lemma jxsv_leg:
  "udp_leg_from_media jxsv_message (example_media\<lparr>sm_attributes := []\<rparr>) =
     Inr \<lparr>ul_destination_ip = ''239.1.1.1'', ul_destination_port = 5004, ul_interface_ip = None, ul_source_ip = None, ul_source_port = None\<rparr>"
  by (simp add: udp_leg_from_media_def example_media_def attribute_val_def ok_or_def and_ok_def Let_def)

lemma jxsv_overflows: "sdp_parse (nmos_sdp (jxsv_lib ''25/2147483648'')) ''sdp'' = SdpPanics"
proof -
  have "sint (2147483648 :: u32) = - 2147483648" by simp
  then have "caps_from_rtp_video_jxsv (jxsv_lib ''25/2147483648'') (jxsv_caps ''25/2147483648'') = Inl SdpPanic"
    using jxsv_rates by (simp add: jxsv_rate_read)
  then show ?thesis
    by (simp add: nmos_sdp_def parse_sdp_def parse_message_def jxsv_reads parse_sdp_message_def jxsv_essence sdp_outcome_of_def
        ok_or_def and_ok_def)
qed

lemma jxsv_media:
  obtains media where "sdp_parse (nmos_sdp (jxsv_lib ''50'')) ''sdp'' = SdpGood media" "ul_destination_ip (um_primary media) = ''239.1.1.1''"
proof -
  have "caps_from_rtp_video_jxsv (jxsv_lib ''50'') (jxsv_caps ''50'') \<noteq> Inl SdpPanic"
    using jxsv_rates by (auto simp: jxsv_rate_read(1))
  then obtain caps where "caps_from_rtp_video_jxsv (jxsv_lib ''50'') (jxsv_caps ''50'') = Inr caps"
    using jxsv_rate_read(2) by (metis sum.exhaust)
  then show thesis
    by (intro that)
      (auto simp: nmos_sdp_def parse_sdp_def parse_message_def jxsv_reads parse_sdp_message_def jxsv_essence jxsv_leg sdp_outcome_of_def
        ok_or_def and_ok_def)
qed

lemma jxsv_counts:
  "sdp_media_block_count (nmos_sdp (jxsv_lib rate)) t = Some 1" "sdp_count_active_legs (nmos_sdp (jxsv_lib rate)) t = Some 1"
  "sdp_cross_check (nmos_sdp lib) media None None mode"
  by (simp_all add: nmos_sdp_def sdp_media_block_count_of_def count_active_sdp_legs_def parse_message_def jxsv_reads ok_value_def
      ok_or_def and_ok_def is_media_inactive_def attribute_val_def cross_check_essence_def split: cross_check_mode.split)

lemma bind_res_assoc: "bind_res (bind_res m f) g = bind_res m (\<lambda>a. bind_res (f a) g)" "bind_res (give a) h = h a"
  by (auto simp: bind_res_def give_def split: option.split sum.split)

lemma demo_fields:
  "nst_node_seed (cfg_node demo_cfg) \<noteq> []" "cfg_transport demo_cfg = TrUdp" "cfg_side demo_cfg = Sender" "cfg_name demo_cfg = ''cam''"
  "cfg_transport_file demo_cfg = ''sdp''" "cfg_transport_file_path demo_cfg = []" "cfg_caps demo_cfg = None"
  "cfg_transport_caps demo_cfg = None" "cfg_auto_activate demo_cfg" "cfg_mxl_domain_id demo_cfg = []" "cfg_mxl_flow_id demo_cfg = []"
  "cfg_label demo_cfg = []" "cfg_description demo_cfg = []" "cfg_group_hint demo_cfg = []" "cfg_caps_mode demo_cfg = CapsAuto"
  by (simp_all add: demo_cfg_def)

lemma jxsv_resolves:
  "resolve_config (jxsv_host rate) demo_cfg =
     bind_res (decide_inner_config_rtp (jxsv_host rate) demo_cfg (Some ''sdp'') CheckFull) (\<lambda>decided.
       let inner = gate_deferred_sender_udp decided demo_cfg
       in give (apply_auto_activate_policy demo_cfg inner (udp_eager_blocked (jxsv_host rate) inner), Some ''sdp'', ''cam''))"
proof -
  have "resolve_transport_file (jxsv_host rate) demo_cfg = give (Some ''sdp'')"
    "resolve_resource_name (jxsv_host rate) demo_cfg (Some ''sdp'') = give ''cam''"
    "passthrough_user_transport_file (jxsv_host rate) demo_cfg ''sdp'' RejectDualLeg = give ''sdp''"
    using jxsv_passes [of rate]
    by (simp_all add: resolve_transport_file_def resolve_resource_name_def demo_fields give_def)
  then show ?thesis
    by (simp add: resolve_config_def resolve_inner_config_rtp_def synthesise_or_passthrough_udp_def bind_res_assoc demo_fields Let_def)
qed

text \<open>A flow definition, into which the name is written that is set.\<close>

definition mxl_cfg :: common_settings where
  "mxl_cfg = demo_cfg\<lparr>cfg_transport := TrMxl, cfg_mxl_domain_path := ''/d'',
     cfg_transport_file := he_to_string demo_host (JObject [(''id'', JString ''f2'')])\<rparr>"

lemma mxl_resolves:
  "\<exists>t. resolve_config (jxsv_host rate) mxl_cfg =
     Some (Inr (RealInner (MxlConfig ''/d'' ''f2'' FmtUnspecified (Some t)), Some t, ''cam''))"
proof -
  let ?h = "jxsv_host rate"
  have docs: "he_from_str ?h (he_to_string ?h doc) = Some doc" "he_to_string ?h doc \<noteq> []"
    "cfg_transport_file mxl_cfg = he_to_string ?h (JObject [(''id'', JString ''f2'')])" "he_read ?h p = FileNotFound" for doc p
    using demo_host_json by (simp_all add: jxsv_host_def json_text_def demo_host_def mxl_cfg_def)
  have fields: "nst_node_seed (cfg_node mxl_cfg) \<noteq> []" "cfg_transport mxl_cfg = TrMxl" "cfg_mxl_domain_path mxl_cfg = ''/d''"
    "cfg_side mxl_cfg = Sender" "cfg_name mxl_cfg = ''cam''" "cfg_transport_file_path mxl_cfg = []" "cfg_auto_activate mxl_cfg"
    "cfg_caps mxl_cfg = None" "cfg_mxl_domain_id mxl_cfg = []" "cfg_mxl_flow_id mxl_cfg = []" "cfg_label mxl_cfg = []"
    "cfg_description mxl_cfg = []" "cfg_group_hint mxl_cfg = []" "cfg_caps_mode mxl_cfg = CapsAuto"
    by (simp_all add: mxl_cfg_def demo_fields)
  define ov where "ov = property_overrides_mxl mxl_cfg ApplicationResolved"
  have ov: "ov_flow_id ov = None" "ov_label ov = None" "ov_description ov = None" "ov_name ov = Some ''cam''"
    by (simp_all add: ov_def property_overrides_mxl_def opt_string_def fields)
  define t where "t = he_to_string ?h (JObject [(''id'', JString ''f2''), (''tags'', JObject (splice_tags ov []))])"
  have spliced: "splice_overrides (he_to_string ?h) (he_from_str ?h) (he_to_string ?h (JObject [(''id'', JString ''f2'')])) ov = Inr t"
    by (simp add: splice_overrides_def docs splice_fields_def put_opt_def ov t_def Let_def)
  obtain flow where flow: "resolve_mxl_flow_meta (he_from_str ?h) [] FmtUnspecified (Some t) = Inr flow"
      "fr_id flow = ''f2''" "fr_format flow = FmtUnspecified"
    by (simp add: t_def resolve_mxl_flow_meta_def docs read_flow_def_meta_def struct_fields_def opt_field_def resolve_id_def
        resolve_format_def Let_def)
  have "resolve_inner_config_mxl ?h mxl_cfg (Some (he_to_string ?h (JObject [(''id'', JString ''f2'')]))) =
      give (RealInner (MxlConfig ''/d'' ''f2'' FmtUnspecified (Some t)), Some t)"
    using spliced flow
    by (simp add: resolve_inner_config_mxl_def resolve_mxl_domain_id_def read_domain_def_id_def docs fields lift_domain_def lift_flow_def
        bind_res_assoc synthesise_or_passthrough_mxl_def ov_def caps_format_def decide_inner_config_mxl_def
        apply_auto_activate_policy_def mxl_eager_blocked_def Let_def)
  then show ?thesis
    by (simp add: resolve_config_def resolve_transport_file_def resolve_resource_name_def docs fields bind_res_assoc)
      (simp add: give_def)
qed

theorem element_configuration_witness:
  "(resolve_config (jxsv_host ''25/2147483648'') demo_cfg = None \<and>
    reads_panicking_sdp (jxsv_host ''25/2147483648'') (jxsv_lib ''25/2147483648'') demo_cfg) \<and>
   (\<exists>media. resolve_config (jxsv_host ''50'') demo_cfg = Some (Inr (RealInner (UdpConfig UdpV1 media (Some ''sdp'')), Some ''sdp'', ''cam'')) \<and>
      chain_configured (jxsv_host ''50'') demo_cfg (UdpConfig UdpV1 media (Some ''sdp''))) \<and>
   (\<exists>t. resolve_config (jxsv_host ''50'') mxl_cfg =
        Some (Inr (RealInner (MxlConfig ''/d'' ''f2'' FmtUnspecified (Some t)), Some t, ''cam'')) \<and>
      transport_file_name (he_from_str (jxsv_host ''50'')) Mxl t = Some ''cam'')"
proof -
  have env: "json_text (jxsv_host rate)" "he_uuid (jxsv_host rate) \<noteq> []" "he_sdp (jxsv_host rate) = nmos_sdp (jxsv_lib rate)" for rate
    using demo_host_json by (simp_all add: jxsv_host_def json_text_def demo_host_def)
  note configured = element_configuration [OF env]
  have decide: "decide_inner_config_rtp (jxsv_host rate) demo_cfg (Some ''sdp'') CheckFull =
      bind_res (need_sdp (sdp_parse (nmos_sdp (jxsv_lib rate)) ''sdp'')) (\<lambda>media. give (RealInner (UdpConfig UdpV1 media (Some ''sdp''))))" for rate
    by (simp add: decide_inner_config_rtp_def decide_inner_config_udp_def finish_udp_inner_config_def demo_cfg_def jxsv_host_def
        demo_host_def jxsv_counts need_def give_def bind_res_def)
  have panic: "resolve_config (jxsv_host ''25/2147483648'') demo_cfg = None"
    by (simp add: jxsv_resolves decide jxsv_overflows need_sdp_def bind_res_def)
  obtain media where media: "sdp_parse (nmos_sdp (jxsv_lib ''50'')) ''sdp'' = SdpGood media" "ul_destination_ip (um_primary media) = ''239.1.1.1''"
    by (rule jxsv_media)
  have "\<not> udp_eager_blocked (jxsv_host ''50'') (RealInner (UdpConfig UdpV1 media (Some ''sdp'')))"
    using media(2) by (simp add: is_unspecified_destination_def jxsv_host_def demo_host_def)
  then have good: "resolve_config (jxsv_host ''50'') demo_cfg = Some (Inr (RealInner (UdpConfig UdpV1 media (Some ''sdp'')), Some ''sdp'', ''cam''))"
    using media(1) by (simp add: jxsv_resolves decide need_sdp_def bind_res_def give_def gate_deferred_sender_udp_def
      apply_auto_activate_policy_def demo_fields)
  obtain t where mxl: "resolve_config (jxsv_host ''50'') mxl_cfg =
      Some (Inr (RealInner (MxlConfig ''/d'' ''f2'' FmtUnspecified (Some t)), Some t, ''cam''))"
    using mxl_resolves by blast
  show ?thesis
    using configured [of demo_cfg "''25/2147483648''"] configured [of demo_cfg "''50''"] configured [of mxl_cfg "''50''"] panic good mxl
    by (auto simp: mxl_cfg_def simp del: chain_configured.simps)
qed

end
