(* ===== verification/Gst_AudioMap.thy ===== *)
theory Gst_AudioMap
  imports Gst_Sdp Gst_ChannelRouting Gst_Element
begin

text \<open>
  The element \<^verbatim>\<open>nmosaudiochannelmap\<close>: its pads and properties (\<^verbatim>\<open>pad.rs\<close>, \<^verbatim>\<open>imp.rs\<close>), the graph
  of mixers inside it (\<^verbatim>\<open>internals.rs\<close>, \<^verbatim>\<open>caps.rs\<close>), fixing its topology when it starts, and
  activations.

  What GStreamer answers is \<open>map_env\<close>: the caps at a pad and its peer, which factories there are,
  whether linking and changes of state succeed. A bin refuses an element, and an element a pad, whose
  name it already has. Log messages are left out, also those for refused changes. The bus and the
  inside of the bin are known by the names of elements; of their properties only those that the code
  computes are kept.
\<close>

section \<open>Pads\<close>

record sink_pad_state =
  sks_receiver_name :: string
  sks_input_id :: string
  sks_label :: string
  sks_description :: string
  sks_channels :: u32

record src_pad_state =
  srs_sender_name :: string
  srs_output_id :: string
  srs_label :: string
  srs_description :: string
  srs_channels :: u32
  srs_active_map :: "gst_structure option"

datatype pad_state = SinkState sink_pad_state | SrcState src_pad_state

record map_pad =
  mp_name :: string
  mp_state :: pad_state
  mp_frozen :: bool

datatype property_value = VText string | VNum u32 | VBool bool | VStructure "gst_structure option"

text \<open>A name or type of value that the object does not have is a panic, \<open>None\<close>; GObject checks them before.\<close>

definition set_sink_property :: "string \<Rightarrow> property_value \<Rightarrow> sink_pad_state \<Rightarrow> sink_pad_state option" where
  "set_sink_property name value st =
     (case value of
        VText v \<Rightarrow>
          if name = ''receiver-name'' then Some (st\<lparr>sks_receiver_name := v\<rparr>)
          else if name = ''input-id'' then Some (st\<lparr>sks_input_id := v\<rparr>)
          else if name = ''label'' then Some (st\<lparr>sks_label := v\<rparr>)
          else if name = ''description'' then Some (st\<lparr>sks_description := v\<rparr>)
          else None
      | VNum n \<Rightarrow> if name = ''channels'' then Some (st\<lparr>sks_channels := n\<rparr>) else None
      | _ \<Rightarrow> None)"

definition set_src_property :: "string \<Rightarrow> property_value \<Rightarrow> src_pad_state \<Rightarrow> src_pad_state option" where
  "set_src_property name value st =
     (case value of
        VText v \<Rightarrow>
          if name = ''sender-name'' then Some (st\<lparr>srs_sender_name := v\<rparr>)
          else if name = ''output-id'' then Some (st\<lparr>srs_output_id := v\<rparr>)
          else if name = ''label'' then Some (st\<lparr>srs_label := v\<rparr>)
          else if name = ''description'' then Some (st\<lparr>srs_description := v\<rparr>)
          else None
      | VNum n \<Rightarrow> if name = ''channels'' then Some (st\<lparr>srs_channels := n\<rparr>) else None
      | VStructure m \<Rightarrow> if name = ''active-map'' then Some (st\<lparr>srs_active_map := m\<rparr>) else None
      | _ \<Rightarrow> None)"

definition pad_set_property :: "string \<Rightarrow> property_value \<Rightarrow> map_pad \<Rightarrow> map_pad option" where
  "pad_set_property name value pad =
     map_option (\<lambda>st. if mp_frozen pad then pad else pad\<lparr>mp_state := st\<rparr>)
       (case mp_state pad of
          SinkState st \<Rightarrow> map_option SinkState (set_sink_property name value st)
        | SrcState st \<Rightarrow> map_option SrcState (set_src_property name value st))"

definition pad_property :: "string \<Rightarrow> map_pad \<Rightarrow> property_value option" where
  "pad_property name pad =
     (case mp_state pad of
        SinkState st \<Rightarrow>
          if name = ''receiver-name'' then Some (VText (sks_receiver_name st))
          else if name = ''input-id'' then Some (VText (sks_input_id st))
          else if name = ''label'' then Some (VText (sks_label st))
          else if name = ''description'' then Some (VText (sks_description st))
          else if name = ''channels'' then Some (VNum (sks_channels st))
          else None
      | SrcState st \<Rightarrow>
          if name = ''sender-name'' then Some (VText (srs_sender_name st))
          else if name = ''output-id'' then Some (VText (srs_output_id st))
          else if name = ''label'' then Some (VText (srs_label st))
          else if name = ''description'' then Some (VText (srs_description st))
          else if name = ''channels'' then Some (VNum (srs_channels st))
          else if name = ''active-map'' then Some (VStructure (srs_active_map st))
          else None)"

definition freeze :: "map_pad \<Rightarrow> map_pad" where "freeze pad = pad\<lparr>mp_frozen := True\<rparr>"

definition thaw :: "map_pad \<Rightarrow> map_pad" where "thaw pad = pad\<lparr>mp_frozen := False\<rparr>"

definition new_pad :: "bool \<Rightarrow> string \<Rightarrow> map_pad" where
  "new_pad is_sink name =
     \<lparr>mp_name = name,
      mp_state =
        (if is_sink
         then SinkState \<lparr>sks_receiver_name = [], sks_input_id = [], sks_label = [], sks_description = [], sks_channels = 0\<rparr>
         else SrcState \<lparr>srs_sender_name = [], srs_output_id = [], srs_label = [], srs_description = [], srs_channels = 0,
           srs_active_map = None\<rparr>),
      mp_frozen = False\<rparr>"

section \<open>Caps\<close>

definition sequential_channel_mask :: "u32 \<Rightarrow> u64 option" where
  "sequential_channel_mask channels =
     (let ch = unat channels
      in if \<not> (1 \<le> ch \<and> ch \<le> 64) then None
         else Some (if ch = 64 then - 1 else push_bit ch 1 - 1))"

definition caps_with_channel_count :: "u32 \<Rightarrow> gst_caps" where
  "caps_with_channel_count channels = [(''audio/x-raw'', [(''channels'', GInt (sint channels))])]"

definition caps_with_channel_mask :: "u32 \<Rightarrow> gst_caps" where
  "caps_with_channel_mask channels =
     [(''audio/x-raw'',
       (''channels'', GInt (sint channels)) #
       (if channels > 2
        then (case sequential_channel_mask channels of Some m \<Rightarrow> [(''channel-mask'', GBitmask m)] | None \<Rightarrow> [])
        else []))]"

record pad_caps =
  pc_current :: "gst_caps option"
  pc_allowed :: "gst_caps option"
  pc_query :: gst_caps
  pc_peer :: "(gst_caps option \<times> gst_caps option) option"
  pc_peer_query :: gst_caps

record map_env =
  ev_caps :: "string \<Rightarrow> pad_caps"
  ev_intersect :: "gst_caps \<Rightarrow> gst_caps \<Rightarrow> gst_caps"
  ev_make :: "string \<Rightarrow> bool"
  ev_has_mask :: bool
  ev_link :: "string \<Rightarrow> bool"
  ev_sync :: "string \<Rightarrow> bool"
  ev_parent :: "transition \<Rightarrow> bool"
  ev_parse_url :: "string \<Rightarrow> url option"

datatype map_error =
    NeedPads
  | WrongPad string
  | ChannelMismatch string
  | UnknownChannels string
  | ZeroChannels string
  | NoOpenSession
  | AddMappingFailed daemon_error
  | SyncMappingFailed string daemon_error
  | BadActiveMap active_map_error
  | BadRoutes active_map_validation_error
  | CannotMake string
  | CannotAdd string
  | CannotLink string
  | OutputRoutesMismatch
  | NoMatrix nat
  | SettingRequired string
  | OpenSessionFailed open_failure
  | ChangeRefused
  | MapPanic

definition channels_from_structure :: "string \<Rightarrow> gst_structure \<Rightarrow> u32 option" where
  "channels_from_structure name st =
     (if name \<noteq> ''audio/x-raw'' then None
      else
        (case field_int st ''channels'' of
           Some channels \<Rightarrow> if channels > 0 then Some (of_int channels) else None
         | None \<Rightarrow>
             (case map_of st ''channels'' of
                Some (GIntRange mn mx) \<Rightarrow> if mn = mx \<and> mn > 0 then Some (of_int mn) else None
              | _ \<Rightarrow> None)))"

definition channels_from_caps :: "gst_caps \<Rightarrow> u32 option" where
  "channels_from_caps caps = first_some (map (\<lambda>(name, st). channels_from_structure name st) caps)"

definition or_else :: "'a option \<Rightarrow> 'a option \<Rightarrow> 'a option" where
  "or_else a b = (case a of Some x \<Rightarrow> Some x | None \<Rightarrow> b)"

definition channels_from_link :: "map_env \<Rightarrow> string \<Rightarrow> u32 option" where
  "channels_from_link env pad =
     (let pc = ev_caps env pad
      in Option.bind (pc_peer pc) (\<lambda>(peer_current, peer_allowed).
           let ours = (case or_else (pc_current pc) (pc_allowed pc) of Some c \<Rightarrow> c | None \<Rightarrow> pc_query pc);
               theirs = (case or_else peer_current peer_allowed of Some c \<Rightarrow> c | None \<Rightarrow> pc_peer_query pc)
           in channels_from_caps (ev_intersect env ours theirs)))"

definition resolve_pad_channels :: "map_env \<Rightarrow> string \<Rightarrow> u32 \<Rightarrow> map_error + u32" where
  "resolve_pad_channels env pad declared =
     (let current = (case pc_current (ev_caps env pad) of Some c \<Rightarrow> if c = [] then None else Some c | None \<Rightarrow> None)
      in case or_else (Option.bind current channels_from_caps) (channels_from_link env pad) of
           Some negotiated \<Rightarrow>
             if declared > 0 \<and> declared \<noteq> negotiated then Inl (ChannelMismatch pad)
             else Inr (if declared > 0 then declared else negotiated)
         | None \<Rightarrow> if declared > 0 then Inr declared else Inl (UnknownChannels pad))"

section \<open>The graph inside\<close>

record audio_graph =
  ag_input_matrices :: "matrix list"
  ag_bus_caps :: gst_caps
  ag_output_masks :: "u64 option list"
  ag_matrices :: "matrix list"
  ag_elements :: "string list"

text \<open>The elements of a graph in the order in which it is torn down, against the flow of the data.\<close>

definition numbered :: "string \<Rightarrow> nat \<Rightarrow> string" where
  "numbered prefix i = prefix @ show_nat i"

definition graph_elements :: "nat \<Rightarrow> nat \<Rightarrow> string list" where
  "graph_elements sinks srcs =
     map (numbered ''mixmatrix-'') [0 ..< srcs] @ map (numbered ''src-queue-'') [0 ..< srcs] @
     [''mixer-tee'', ''mixer-capsfilter'', ''mixer''] @
     map (numbered ''sink-queue-'') [0 ..< sinks] @ map (numbered ''sink-capsfilter-'') [0 ..< sinks]"

text \<open>Steps that fill the bin: what was added stays there when a later step fails.\<close>

type_synonym 'a build = "string list \<Rightarrow> (map_error + 'a) \<times> string list"

definition done_with :: "'a \<Rightarrow> 'a build" where
  "done_with a bin = (Inr a, bin)"

definition refuse :: "map_error \<Rightarrow> 'a build" where
  "refuse e bin = (Inl e, bin)"

definition then_build :: "'a build \<Rightarrow> ('a \<Rightarrow> 'b build) \<Rightarrow> 'b build" where
  "then_build m f bin = (case m bin of (Inl e, bin1) \<Rightarrow> (Inl e, bin1) | (Inr a, bin1) \<Rightarrow> f a bin1)"

definition require :: "bool \<Rightarrow> map_error \<Rightarrow> unit build" where
  "require ok e = (if ok then done_with () else refuse e)"

fun add_many :: "string list \<Rightarrow> unit build" where
  "add_many [] bin = (Inr (), bin)"
| "add_many (name # names) bin = (if name \<in> set bin then (Inl (CannotAdd name), bin) else add_many names (bin @ [name]))"

definition make_item :: "map_env \<Rightarrow> string \<Rightarrow> unit build" where
  "make_item env factory = require (ev_make env factory) (CannotMake factory)"

definition link_item :: "map_env \<Rightarrow> string \<Rightarrow> unit build" where
  "link_item env what = require (ev_link env what) (CannotLink what)"

definition build_input_leg :: "map_env \<Rightarrow> frozen_topology \<Rightarrow> nat \<Rightarrow> matrix build" where
  "build_input_leg env t idx =
     then_build (link_item env (numbered ''mixer-sink-'' idx)) (\<lambda>_.
     case build_input_bus_mix_matrix (ft_input_bus_channels t) (ft_input_channels t ! idx) (ft_input_bus_offsets t ! idx) of
       None \<Rightarrow> refuse MapPanic
     | Some m \<Rightarrow>
         then_build (make_item env ''capsfilter'') (\<lambda>_.
         then_build (make_item env ''queue'') (\<lambda>_.
         then_build (add_many [numbered ''sink-capsfilter-'' idx, numbered ''sink-queue-'' idx]) (\<lambda>_.
         then_build (link_item env (numbered ''sink-leg-'' idx)) (\<lambda>_.
           done_with m)))))"

definition output_mask :: "map_env \<Rightarrow> u32 \<Rightarrow> u64 option" where
  "output_mask env output_ch = (if output_ch > 2 \<and> ev_has_mask env then sequential_channel_mask output_ch else None)"

definition build_output_leg :: "map_env \<Rightarrow> frozen_topology \<Rightarrow> nat \<Rightarrow> active_map_route list \<Rightarrow> (u64 option \<times> matrix) build" where
  "build_output_leg env t idx routes =
     (let output_ch = ft_output_channels t ! idx
      in then_build (make_item env ''queue'') (\<lambda>_.
         then_build (make_item env ''audiomixmatrix'') (\<lambda>_.
         case build_output_mix_matrix t output_ch routes of
           None \<Rightarrow> refuse MapPanic
         | Some (Inl e) \<Rightarrow> refuse (BadRoutes e)
         | Some (Inr cells) \<Rightarrow>
             then_build (add_many [numbered ''src-queue-'' idx, numbered ''mixmatrix-'' idx]) (\<lambda>_.
             then_build (link_item env (numbered ''src-leg-'' idx)) (\<lambda>_.
               done_with (output_mask env output_ch, cells))))))"

fun build_all :: "('a \<Rightarrow> 'b build) \<Rightarrow> 'a list \<Rightarrow> 'b list build" where
  "build_all f [] = done_with []"
| "build_all f (x # xs) = then_build (f x) (\<lambda>y. then_build (build_all f xs) (\<lambda>ys. done_with (y # ys)))"

definition build_graph ::
  "map_env \<Rightarrow> frozen_topology \<Rightarrow> nat \<Rightarrow> nat \<Rightarrow> active_map_route list list \<Rightarrow> audio_graph build" where
  "build_graph env t sinks srcs output_routes =
     (if sinks = 0 \<or> srcs = 0 then refuse NeedPads
      else if length output_routes \<noteq> srcs then refuse OutputRoutesMismatch
      else
        then_build (make_item env ''audiomixer'') (\<lambda>_.
        then_build (make_item env ''tee'') (\<lambda>_.
        then_build (make_item env ''capsfilter'') (\<lambda>_.
        then_build (add_many [''mixer'', ''mixer-capsfilter'', ''mixer-tee'']) (\<lambda>_.
        then_build (link_item env ''mixer-bus'') (\<lambda>_.
        then_build (build_all (build_input_leg env t) [0 ..< sinks]) (\<lambda>inputs.
        then_build (build_all (\<lambda>(i, routes). build_output_leg env t i routes) (enumerate 0 output_routes)) (\<lambda>outputs.
          done_with \<lparr>ag_input_matrices = inputs, ag_bus_caps = caps_with_channel_mask (ft_input_bus_channels t),
            ag_output_masks = map fst outputs, ag_matrices = map snd outputs, ag_elements = graph_elements sinks srcs\<rparr>))))))))"

definition set_output_matrix ::
  "frozen_topology \<Rightarrow> nat \<Rightarrow> active_map_route list \<Rightarrow> audio_graph \<Rightarrow> map_error + audio_graph" where
  "set_output_matrix t src_index routes graph =
     (if src_index \<ge> length (ag_matrices graph) then Inl (NoMatrix src_index)
      else
        (let output_channels = (case list_get (ft_output_channels t) src_index of Some n \<Rightarrow> n | None \<Rightarrow> 0)
         in case build_output_mix_matrix t output_channels routes of
              None \<Rightarrow> Inl MapPanic
            | Some (Inl e) \<Rightarrow> Inl (BadRoutes e)
            | Some (Inr cells) \<Rightarrow> Inr (graph\<lparr>ag_matrices := (ag_matrices graph)[src_index := cells]\<rparr>)))"

text \<open>With the flow of the data; the first refusal ends it.\<close>

definition sync_state_with_parent :: "map_env \<Rightarrow> audio_graph \<Rightarrow> bool" where
  "sync_state_with_parent env graph \<longleftrightarrow> list_all (ev_sync env) (ag_elements graph)"

definition teardown_graph :: "audio_graph \<Rightarrow> string list \<Rightarrow> string list" where
  "teardown_graph graph bin = filter (\<lambda>name. name \<notin> set (ag_elements graph)) bin"

section \<open>The element\<close>

record map_settings =
  ms_daemon_uri :: string
  ms_node_seed :: string
  ms_http_port :: port
  ms_host_name :: string
  ms_node_properties :: "gst_structure option"
  ms_domain :: string
  ms_registration_url :: string
  ms_system_url :: string
  ms_channelmapping_name :: string
  ms_restrict_routable_inputs :: bool

definition settings_node :: "map_settings \<Rightarrow> node_settings" where
  "settings_node s =
     \<lparr>nst_node_seed = ms_node_seed s, nst_http_port = ms_http_port s, nst_host_name = ms_host_name s,
      nst_node_properties = ms_node_properties s, nst_domain = ms_domain s,
      nst_registration_url = ms_registration_url s, nst_system_url = ms_system_url s\<rparr>"

record audio_map =
  nm_settings :: map_settings
  nm_session :: "cm_session slot"
  nm_graph :: "audio_graph option"
  nm_topology :: "frozen_topology option"
  nm_fixated :: bool
  nm_next_sink :: u32
  nm_next_src :: u32
  nm_pads :: "map_pad list"
  nm_bin :: "string list"

definition set_map_setting :: "string \<Rightarrow> property_value \<Rightarrow> map_settings \<Rightarrow> map_settings option" where
  "set_map_setting name value s =
     (case value of
        VText v \<Rightarrow>
          if name = ''daemon-uri'' then Some (s\<lparr>ms_daemon_uri := v\<rparr>)
          else if name = ''node-seed'' then Some (s\<lparr>ms_node_seed := v\<rparr>)
          else if name = ''host-name'' then Some (s\<lparr>ms_host_name := v\<rparr>)
          else if name = ''domain'' then Some (s\<lparr>ms_domain := v\<rparr>)
          else if name = ''registration-url'' then Some (s\<lparr>ms_registration_url := v\<rparr>)
          else if name = ''system-url'' then Some (s\<lparr>ms_system_url := v\<rparr>)
          else if name = ''channelmapping-name'' then Some (s\<lparr>ms_channelmapping_name := v\<rparr>)
          else None
      | VNum n \<Rightarrow> if name = ''http-port'' then Some (s\<lparr>ms_http_port := ucast n\<rparr>) else None
      | VBool b \<Rightarrow> if name = ''restrict-routable-inputs'' then Some (s\<lparr>ms_restrict_routable_inputs := b\<rparr>) else None
      | VStructure m \<Rightarrow> if name = ''node-properties'' then Some (s\<lparr>ms_node_properties := m\<rparr>) else None)"

definition set_map_property :: "string \<Rightarrow> property_value \<Rightarrow> audio_map \<Rightarrow> audio_map option" where
  "set_map_property name value s =
     (if nm_fixated s then Some s
      else map_option (\<lambda>st. s\<lparr>nm_settings := st\<rparr>) (set_map_setting name value (nm_settings s)))"

definition map_property :: "string \<Rightarrow> audio_map \<Rightarrow> property_value option" where
  "map_property name s =
     (let st = nm_settings s
      in if name = ''daemon-uri'' then Some (VText (ms_daemon_uri st))
         else if name = ''node-seed'' then Some (VText (ms_node_seed st))
         else if name = ''http-port'' then Some (VNum (ucast (ms_http_port st)))
         else if name = ''host-name'' then Some (VText (ms_host_name st))
         else if name = ''node-properties'' then Some (VStructure (ms_node_properties st))
         else if name = ''domain'' then Some (VText (ms_domain st))
         else if name = ''registration-url'' then Some (VText (ms_registration_url st))
         else if name = ''system-url'' then Some (VText (ms_system_url st))
         else if name = ''channelmapping-name'' then Some (VText (ms_channelmapping_name st))
         else if name = ''restrict-routable-inputs'' then Some (VBool (ms_restrict_routable_inputs st))
         else None)"

definition update_pad :: "string \<Rightarrow> (map_pad \<Rightarrow> map_pad) \<Rightarrow> audio_map \<Rightarrow> audio_map" where
  "update_pad name f s = s\<lparr>nm_pads := map (\<lambda>p. if mp_name p = name then f p else p) (nm_pads s)\<rparr>"

definition is_sink_name :: "string \<Rightarrow> bool" where "is_sink_name name \<longleftrightarrow> starts_with name ''sink_''"

definition is_src_name :: "string \<Rightarrow> bool" where "is_src_name name \<longleftrightarrow> starts_with name ''src_''"

definition request_pads :: "audio_map \<Rightarrow> map_pad list" where
  "request_pads s = filter (\<lambda>p. is_sink_name (mp_name p) \<or> is_src_name (mp_name p)) (nm_pads s)"

definition child_by_index :: "u32 \<Rightarrow> audio_map \<Rightarrow> map_pad option" where
  "child_by_index index s = list_get (request_pads s) (unat index)"

definition children_count :: "audio_map \<Rightarrow> u32" where
  "children_count s = of_nat (length (request_pads s))"

definition child_by_name :: "string \<Rightarrow> audio_map \<Rightarrow> map_pad option" where
  "child_by_name name s = find (\<lambda>p. mp_name p = name) (nm_pads s)"

text \<open>The name asked for, or the next number of its direction; asking uses up the number.\<close>

definition next_name :: "bool \<Rightarrow> audio_map \<Rightarrow> string \<times> audio_map" where
  "next_name is_sink s =
     (if is_sink then (''sink_'' @ show_nat (unat (nm_next_sink s)), s\<lparr>nm_next_sink := nm_next_sink s + 1\<rparr>)
      else (''src_'' @ show_nat (unat (nm_next_src s)), s\<lparr>nm_next_src := nm_next_src s + 1\<rparr>))"

definition requested_name :: "bool \<Rightarrow> string option \<Rightarrow> audio_map \<Rightarrow> string \<times> audio_map" where
  "requested_name is_sink name s =
     (case name of
        Some n \<Rightarrow> if n = [] \<or> n = ''sink_%u'' \<or> n = ''src_%u'' then next_name is_sink s else (n, s)
      | None \<Rightarrow> next_name is_sink s)"

definition request_new_pad :: "bool \<Rightarrow> string option \<Rightarrow> audio_map \<Rightarrow> string option \<times> audio_map" where
  "request_new_pad is_sink name s =
     (if nm_fixated s then (None, s)
      else
        (case requested_name is_sink name s of (pad_name, s1) \<Rightarrow>
           if pad_name \<in> mp_name ` set (nm_pads s1) then (None, s1)
           else (Some pad_name, s1\<lparr>nm_pads := nm_pads s1 @ [new_pad is_sink pad_name]\<rparr>)))"

definition release_pad :: "string \<Rightarrow> audio_map \<Rightarrow> audio_map" where
  "release_pad name s =
     (if nm_fixated s then s else s\<lparr>nm_pads := filter (\<lambda>p. mp_name p \<noteq> name) (nm_pads s)\<rparr>)"

definition pad_index :: "string \<Rightarrow> u32" where
  "pad_index name = (case parse_u32 (last (split_on CHR ''_'' name)) of Some n \<Rightarrow> n | None \<Rightarrow> 0)"

definition collect_request_pads :: "audio_map \<Rightarrow> map_pad list \<times> map_pad list" where
  "collect_request_pads s =
     (sort_key (\<lambda>p. pad_index (mp_name p)) (filter (\<lambda>p. is_sink_name (mp_name p)) (nm_pads s)),
      sort_key (\<lambda>p. pad_index (mp_name p)) (filter (\<lambda>p. \<not> is_sink_name (mp_name p) \<and> is_src_name (mp_name p)) (nm_pads s)))"

section \<open>Fixation\<close>

fun collect_ok :: "('a \<Rightarrow> 'e + 'b) \<Rightarrow> 'a list \<Rightarrow> 'e + 'b list" where
  "collect_ok f [] = Inr []"
| "collect_ok f (x # xs) = and_ok (f x) (\<lambda>y. and_ok (collect_ok f xs) (\<lambda>ys. Inr (y # ys)))"

definition sink_snapshot :: "map_env \<Rightarrow> map_pad \<Rightarrow> map_error + sink_pad_snapshot" where
  "sink_snapshot env pad =
     (case mp_state pad of
        SinkState st \<Rightarrow>
          and_ok (resolve_pad_channels env (mp_name pad) (sks_channels st)) (\<lambda>negotiated.
            if negotiated = 0 then Inl (ZeroChannels (mp_name pad))
            else Inr \<lparr>sk_receiver_name = sks_receiver_name st, sk_input_id = sks_input_id st, sk_label = sks_label st,
                   sk_description = sks_description st, sk_negotiated_channels = negotiated\<rparr>)
      | SrcState _ \<Rightarrow> Inl (WrongPad (mp_name pad)))"

definition src_snapshot :: "map_env \<Rightarrow> map_pad \<Rightarrow> map_error + src_pad_snapshot" where
  "src_snapshot env pad =
     (case mp_state pad of
        SrcState st \<Rightarrow>
          and_ok (resolve_pad_channels env (mp_name pad) (srs_channels st)) (\<lambda>negotiated.
            if negotiated = 0 then Inl (ZeroChannels (mp_name pad))
            else Inr \<lparr>sp_sender_name = srs_sender_name st, sp_output_id = srs_output_id st, sp_label = srs_label st,
                   sp_description = srs_description st, sp_negotiated_channels = negotiated, sp_active_map = srs_active_map st\<rparr>)
      | SinkState _ \<Rightarrow> Inl (WrongPad (mp_name pad)))"

text \<open>Ids that were left empty are those of the daemon's answer, as far as it has them.\<close>

fun assign_input_ids :: "sink_pad_snapshot list \<Rightarrow> string list \<Rightarrow> sink_pad_snapshot list" where
  "assign_input_ids (s # ss) (i # ids) = (if sk_input_id s = [] then s\<lparr>sk_input_id := i\<rparr> else s) # assign_input_ids ss ids"
| "assign_input_ids ss _ = ss"

fun assign_output_ids :: "src_pad_snapshot list \<Rightarrow> string list \<Rightarrow> src_pad_snapshot list" where
  "assign_output_ids (s # ss) (i # ids) = (if sp_output_id s = [] then s\<lparr>sp_output_id := i\<rparr> else s) # assign_output_ids ss ids"
| "assign_output_ids ss _ = ss"

definition register_mapping ::
  "daemon_env \<Rightarrow> map_settings \<Rightarrow> sink_pad_snapshot list \<Rightarrow> src_pad_snapshot list \<Rightarrow> cm_session \<Rightarrow> client
    \<Rightarrow> (map_error + sink_pad_snapshot list \<times> src_pad_snapshot list) \<times> cm_session \<times> client" where
  "register_mapping denv settings sinks srcs session c =
     (if cs_channelmapping session \<noteq> None then (Inr (sinks, srcs), session, c)
      else
        (case cm_add_channel_mapping denv
                (build_add_channel_mapping_request (cs_session_handle session) (ms_channelmapping_name settings) sinks srcs
                  (ms_restrict_routable_inputs settings)) session c of
           (Inl e, session1, c1) \<Rightarrow> (Inl (AddMappingFailed e), session1, c1)
         | (Inr resp, session1, c1) \<Rightarrow>
             (Inr (assign_input_ids sinks (acm_input_ids resp), assign_output_ids srcs (acm_output_ids resp)), session1, c1)))"

definition topology_of :: "sink_pad_snapshot list \<Rightarrow> src_pad_snapshot list \<Rightarrow> frozen_topology" where
  "topology_of sinks srcs = from_snapshots sinks srcs (map sk_input_id sinks) (map sp_output_id srcs)"

text \<open>The routes of an output, and the entries that the daemon gets for it.\<close>

definition output_plan ::
  "frozen_topology \<Rightarrow> sink_pad_snapshot list \<Rightarrow> nat \<Rightarrow> nat \<times> src_pad_snapshot
    \<Rightarrow> map_error + active_map_route list \<times> string \<times> active_map_entry list" where
  "output_plan t sinks src_count out =
     (case out of (src_idx, src) \<Rightarrow>
        (case active_map_entries_for_src t src src_idx sinks src_count of
           Inl e \<Rightarrow> Inl (BadActiveMap e)
         | Inr entries \<Rightarrow>
             (case sp_active_map src of
                Some structure \<Rightarrow>
                  (case parse_active_map_structure structure of
                     Inl e \<Rightarrow> Inl (BadActiveMap e)
                   | Inr routes \<Rightarrow> Inr (routes, sp_output_id src, entries))
              | None \<Rightarrow>
                  Inr (default_identity_routes t src_idx (sp_negotiated_channels src) sinks src_count, sp_output_id src, entries))))"

fun sync_outputs ::
  "daemon_env \<Rightarrow> (string \<times> active_map_entry list) list \<Rightarrow> cm_session \<Rightarrow> client \<Rightarrow> (map_error + unit) \<times> cm_session \<times> client" where
  "sync_outputs denv [] session c = (Inr (), session, c)"
| "sync_outputs denv ((output_id, entries) # rest) session c =
     (case cm_sync_channel_mapping_state denv output_id entries session c of
        (Inl e, session1, c1) \<Rightarrow> (Inl (SyncMappingFailed output_id e), session1, c1)
      | (Inr _, session1, c1) \<Rightarrow> sync_outputs denv rest session1 c1)"

definition freeze_pads :: "map_pad list \<Rightarrow> map_pad list" where
  "freeze_pads pads = map (\<lambda>p. if is_sink_name (mp_name p) \<or> is_src_name (mp_name p) then freeze p else p) pads"

definition install_graph ::
  "map_env \<Rightarrow> frozen_topology \<Rightarrow> nat \<Rightarrow> nat \<Rightarrow> active_map_route list list \<Rightarrow> audio_map \<Rightarrow> (map_error + unit) \<times> audio_map" where
  "install_graph env t sinks srcs output_routes s =
     (if nm_graph s \<noteq> None then (Inr (), s)
      else
        (case build_graph env t sinks srcs output_routes (nm_bin s) of
           (Inl e, bin) \<Rightarrow> (Inl e, s\<lparr>nm_bin := bin\<rparr>)
         | (Inr graph, bin) \<Rightarrow>
             (Inr (), s\<lparr>nm_bin := bin, nm_pads := freeze_pads (nm_pads s), nm_topology := Some t, nm_graph := Some graph\<rparr>)))"

text \<open>From the snapshots on, with the session that is open.\<close>

definition fixate_session ::
  "map_env \<Rightarrow> daemon_env \<Rightarrow> sink_pad_snapshot list \<Rightarrow> src_pad_snapshot list \<Rightarrow> cm_session \<Rightarrow> audio_map \<Rightarrow> client
    \<Rightarrow> (map_error + unit) \<times> audio_map \<times> client" where
  "fixate_session env denv sinks srcs session s c =
     (case register_mapping denv (nm_settings s) sinks srcs session c of
        (Inl e, session1, c1) \<Rightarrow> (Inl e, s\<lparr>nm_session := Some (Open session1)\<rparr>, c1)
      | (Inr (sinks1, srcs1), session1, c1) \<Rightarrow>
          (let s1 = s\<lparr>nm_session := Some (Open session1)\<rparr>;
               t = topology_of sinks1 srcs1
           in case collect_ok (output_plan t sinks1 (length srcs1)) (enumerate 0 srcs1) of
                Inl e \<Rightarrow> (Inl e, s1, c1)
              | Inr plans \<Rightarrow>
                  (case install_graph env t (length sinks1) (length srcs1) (map fst plans) s1 of
                     (Inl e, s2) \<Rightarrow> (Inl e, s2, c1)
                   | (Inr _, s2) \<Rightarrow>
                       (case sync_outputs denv (map snd plans) session1 c1 of
                          (Inl e, session2, c2) \<Rightarrow> (Inl e, s2\<lparr>nm_session := Some (Open session2)\<rparr>, c2)
                        | (Inr _, session2, c2) \<Rightarrow>
                            (Inr (), s2\<lparr>nm_session := Some (Open session2), nm_fixated := True\<rparr>, c2)))))"

definition fixate_and_build ::
  "map_env \<Rightarrow> daemon_env \<Rightarrow> audio_map \<Rightarrow> client \<Rightarrow> (map_error + unit) \<times> audio_map \<times> client" where
  "fixate_and_build env denv s c =
     (if nm_fixated s then (Inr (), s, c)
      else
        (case collect_request_pads s of (sink_pads, src_pads) \<Rightarrow>
           if sink_pads = [] \<or> src_pads = [] then (Inl NeedPads, s, c)
           else
             (case and_ok (collect_ok (sink_snapshot env) sink_pads) (\<lambda>sinks.
                   and_ok (collect_ok (src_snapshot env) src_pads) (\<lambda>srcs. Inr (sinks, srcs))) of
                Inl e \<Rightarrow> (Inl e, s, c)
              | Inr (sinks, srcs) \<Rightarrow>
                  (case nm_session s of
                     Some (Open session) \<Rightarrow> fixate_session env denv sinks srcs session s c
                   | _ \<Rightarrow> (Inl NoOpenSession, s, c)))))"

section \<open>Changes of state and activations\<close>

definition teardown_internals :: "audio_map \<Rightarrow> audio_map" where
  "teardown_internals s =
     s\<lparr>nm_bin := (case nm_graph s of Some graph \<Rightarrow> teardown_graph graph (nm_bin s) | None \<Rightarrow> nm_bin s),
       nm_graph := None, nm_topology := None, nm_pads := map thaw (nm_pads s)\<rparr>"

definition open_map_session ::
  "map_env \<Rightarrow> daemon_env \<Rightarrow> audio_map \<Rightarrow> client \<Rightarrow> (map_error + unit) \<times> audio_map \<times> client" where
  "open_map_session env denv s c =
     (let st = nm_settings s
      in if ms_node_seed st = [] then (Inl (SettingRequired ''node-seed''), s, c)
         else if ms_channelmapping_name st = [] then (Inl (SettingRequired ''channelmapping-name''), s, c)
         else
           (case open_slot (cm_session_open denv (ev_parse_url env) (ms_daemon_uri st) (settings_node st))
                   (cm_session_close denv) (nm_session s) c of
              (Inl e, slot, c1) \<Rightarrow> (Inl (OpenSessionFailed e), s\<lparr>nm_session := slot\<rparr>, c1)
            | (Inr _, slot, c1) \<Rightarrow> (Inr (), s\<lparr>nm_session := slot\<rparr>, c1)))"

definition before_parent ::
  "map_env \<Rightarrow> daemon_env \<Rightarrow> transition \<Rightarrow> audio_map \<Rightarrow> client \<Rightarrow> (map_error + unit) \<times> audio_map \<times> client" where
  "before_parent env denv tr s c =
     (case tr of
        NullToReady \<Rightarrow> open_map_session env denv s c
      | ReadyToNull \<Rightarrow>
          (case close_slot (cm_session_close denv) (nm_session s) c of
             (slot, c1) \<Rightarrow> (Inr (), (teardown_internals s)\<lparr>nm_session := slot, nm_fixated := False\<rparr>, c1))
      | _ \<Rightarrow> (Inr (), s, c))"

definition start_map ::
  "map_env \<Rightarrow> daemon_env \<Rightarrow> audio_map \<Rightarrow> client \<Rightarrow> (map_error + unit) \<times> audio_map \<times> client" where
  "start_map env denv s c =
     (case fixate_and_build env denv s c of
        (Inl e, s1, c1) \<Rightarrow> (Inl e, (teardown_internals s1)\<lparr>nm_fixated := False\<rparr>, c1)
      | (Inr _, s1, c1) \<Rightarrow>
          (case nm_graph s1 of
             Some graph \<Rightarrow> if sync_state_with_parent env graph then (Inr (), s1, c1) else (Inl ChangeRefused, s1, c1)
           | None \<Rightarrow> (Inr (), s1, c1)))"

definition map_change_state ::
  "map_env \<Rightarrow> daemon_env \<Rightarrow> transition \<Rightarrow> audio_map \<Rightarrow> client \<Rightarrow> (map_error + unit) \<times> audio_map \<times> client" where
  "map_change_state env denv tr s c =
     (case before_parent env denv tr s c of
        (Inl e, s1, c1) \<Rightarrow> (Inl e, s1, c1)
      | (Inr _, s1, c1) \<Rightarrow>
          if \<not> ev_parent env tr then (Inl ChangeRefused, s1, c1)
          else if tr = ReadyToPaused then start_map env denv s1 c1
          else (Inr (), s1, c1))"

text \<open>The outcome of an activation; a panic answers nothing.\<close>

definition apply_map_activation :: "cm_activation_request \<Rightarrow> audio_map \<Rightarrow> activation_outcome option \<times> audio_map" where
  "apply_map_activation req s =
     (case nm_topology s of
        None \<Rightarrow> (Some (ApplyFailed ''activation before fixation''), s)
      | Some t \<Rightarrow>
          (case routes_from_activation t (crq_output_id req) (crq_active_map req) of
             Inl _ \<Rightarrow> (Some (ApplyFailed ''invalid activation active map''), s)
           | Inr routes \<Rightarrow>
               (case position (\<lambda>i. i = crq_output_id req) (ft_output_ids t) of
                  None \<Rightarrow> (Some (ApplyFailed ''unknown output_id''), s)
                | Some src_index \<Rightarrow>
                    (case nm_graph s of
                       None \<Rightarrow> (Some (ApplyFailed ''internal graph not built''), s)
                     | Some graph \<Rightarrow>
                         (case set_output_matrix t src_index routes graph of
                            Inl MapPanic \<Rightarrow> (None, s)
                          | Inl _ \<Rightarrow> (Some (ApplyFailed ''matrix update failed''), s)
                          | Inr graph1 \<Rightarrow> (Some Applied, s\<lparr>nm_graph := Some graph1\<rparr>))))))"

end
