(* ===== verification/Gst_AudioMapFacts.thy ===== *)
theory Gst_AudioMapFacts
  imports Gst_AudioMap Gst_Slot
begin

text \<open>
  The element \<^verbatim>\<open>nmosaudiochannelmap\<close> in all its reachable states: its graph, its topology and its
  frozen pads go together, what an activation answers is what is played, and what the daemon is told
  when the element starts is what the graph plays.
\<close>

section \<open>Building a graph\<close>

lemma build_simps [simp]:
  "done_with a bin = (Inr a, bin)" "refuse e bin = (Inl e, bin)"
  "require ok e bin = (if ok then (Inr (), bin) else (Inl e, bin))"
  by (simp_all add: done_with_def refuse_def require_def)

lemma then_build_Inr:
  "then_build m f bin = (Inr b, bin') \<longleftrightarrow> (\<exists>a bin1. m bin = (Inr a, bin1) \<and> f a bin1 = (Inr b, bin'))"
  by (auto simp: then_build_def split: sum.splits prod.splits)

lemma add_many_Inr: "add_many names bin = (Inr u, bin') \<longleftrightarrow> distinct names \<and> set names \<inter> set bin = {} \<and> bin' = bin @ names"
  by (induction names arbitrary: bin) auto

lemma build_all_Inr:
  "build_all f xs bin = (Inr ys, bin') \<Longrightarrow>
    length ys = length xs \<and> (\<forall>i < length xs. \<exists>b b'. f (xs ! i) b = (Inr (ys ! i), b'))"
proof (induction xs arbitrary: bin ys)
  case (Cons x xs)
  obtain y b1 zs where "f x bin = (Inr y, b1)" "build_all f xs b1 = (Inr zs, bin')" "ys = y # zs"
    using Cons.prems by (auto simp: then_build_Inr)
  then show ?case using Cons.IH [of b1 zs] by (auto simp: nth_Cons split: nat.splits)
qed simp

text \<open>A bus that fits every input leg did not overflow.\<close>

lemma legs_fit:
  assumes "\<forall>i < length ns. unat (ns ! i) = 0 \<or> unat (fst (bus_offsets offset ns) ! i) + unat (ns ! i) \<le> unat (width :: u32)"
  shows "unat offset + sum_list (map unat ns) < 2 ^ 32"
  using assms
proof (induction ns arbitrary: offset)
  case Nil
  then show ?case using unsigned_less [of offset, where ?'a = nat] by simp
next
  case (Cons n ns)
  have tail: "unat (ns ! i) = 0 \<or> unat (fst (bus_offsets (offset + n) ns) ! i) + unat (ns ! i) \<le> unat width"
    if "i < length ns" for i
    using Cons.prems [rule_format, of "Suc i"] that by (simp add: case_prod_beta)
  have "unat n = 0 \<or> unat offset + unat n \<le> unat width"
    using Cons.prems [rule_format, of 0] by (simp add: case_prod_beta)
  then have "unat offset + unat n < 2 ^ 32"
    using unsigned_less [of width, where ?'a = nat] unsigned_less [of offset, where ?'a = nat] by auto
  then have "unat (offset + n) = unat offset + unat n" by (simp add: unat_word_ariths)
  then show ?case using Cons.IH [of "offset + n"] tail by simp
qed

lemma set_ones_bounds: "set_ones cells m \<noteq> None \<Longrightarrow> (i, j) \<in> set cells \<Longrightarrow> i < length m"
proof (induction cells arbitrary: m)
  case (Cons cell cells)
  obtain a b where cell: "cell = (a, b)" by fastforce
  show ?case using Cons.prems Cons.IH [of "m[a := (m ! a)[b := 1]]"] by (auto simp: cell set_one_def split: if_splits)
qed simp

lemma input_leg_fits:
  assumes "build_input_bus_mix_matrix width n offset \<noteq> None"
  shows "unat n = 0 \<or> unat offset + unat n \<le> unat width"
proof (rule disjCI)
  assume "\<not> unat offset + unat n \<le> unat width"
  show "unat n = 0"
  proof (rule ccontr)
    assume "unat n \<noteq> 0"
    then have "(unat offset + (unat n - 1), unat n - 1) \<in> set (map (\<lambda>ch. (unat offset + ch, ch)) [0 ..< unat n])" by force
    with assms have "unat offset + (unat n - 1) < length (zero_matrix (unat width) (unat n))"
      unfolding build_input_bus_mix_matrix_def by (rule set_ones_bounds)
    then show False using \<open>\<not> unat offset + unat n \<le> unat width\<close> \<open>unat n \<noteq> 0\<close> by (simp add: zero_matrix_def)
  qed
qed

lemma build_input_leg_Inr:
  "build_input_leg env t idx bin = (Inr m, bin') \<Longrightarrow>
    build_input_bus_mix_matrix (ft_input_bus_channels t) (ft_input_channels t ! idx) (ft_input_bus_offsets t ! idx) = Some m"
  by (auto simp: build_input_leg_def link_item_def then_build_Inr split: option.splits if_splits)

lemma build_output_leg_Inr:
  "build_output_leg env t idx routes bin = (Inr (k, m), bin') \<Longrightarrow>
    build_output_mix_matrix t (ft_output_channels t ! idx) routes = Some (Inr m)"
  by (auto simp: build_output_leg_def then_build_Inr Let_def split: option.splits sum.splits if_splits)

text \<open>A graph plays the routes it was built for.\<close>

definition graph_plays :: "frozen_topology \<Rightarrow> active_map_route list list \<Rightarrow> audio_graph \<Rightarrow> bool" where
  "graph_plays t routes g \<longleftrightarrow>
     length routes = length (ft_output_ids t) \<and> length (ag_matrices g) = length (ft_output_ids t) \<and>
     (\<forall>i < length (ft_output_ids t).
        build_output_mix_matrix t (ft_output_channels t ! i) (routes ! i) = Some (Inr (ag_matrices g ! i)))"

lemma build_graph_Inr:
  assumes "build_graph env t sinks srcs routes bin = (Inr g, bin')"
  shows "length routes = srcs" "length (ag_matrices g) = srcs"
    "\<forall>i < srcs. build_output_mix_matrix t (ft_output_channels t ! i) (routes ! i) = Some (Inr (ag_matrices g ! i))"
    "\<forall>i < sinks. build_input_bus_mix_matrix (ft_input_bus_channels t) (ft_input_channels t ! i) (ft_input_bus_offsets t ! i) \<noteq> None"
proof -
  obtain inputs outputs b1 b2 b3 where
    inputs: "build_all (build_input_leg env t) [0 ..< sinks] b1 = (Inr inputs, b2)" and
    outputs: "build_all (\<lambda>(i, routes). build_output_leg env t i routes) (enumerate 0 routes) b2 = (Inr outputs, b3)" and
    g: "ag_matrices g = map snd outputs" and len: "length routes = srcs"
    using assms by (auto simp: build_graph_def then_build_Inr split: if_splits)
  note out = build_all_Inr [OF outputs]
  show "length routes = srcs" "length (ag_matrices g) = srcs" using len out g by simp_all
  show "\<forall>i < srcs. build_output_mix_matrix t (ft_output_channels t ! i) (routes ! i) = Some (Inr (ag_matrices g ! i))"
  proof (intro allI impI)
    fix i assume i: "i < srcs"
    then obtain b b' where "build_output_leg env t i (routes ! i) b = (Inr (outputs ! i), b')"
      using out len by (fastforce simp: nth_enumerate_eq)
    then show "build_output_mix_matrix t (ft_output_channels t ! i) (routes ! i) = Some (Inr (ag_matrices g ! i))"
      using build_output_leg_Inr [of env t i "routes ! i" b "fst (outputs ! i)" "snd (outputs ! i)"] i out len by (simp add: g)
  qed
  show "\<forall>i < sinks. build_input_bus_mix_matrix (ft_input_bus_channels t) (ft_input_channels t ! i) (ft_input_bus_offsets t ! i) \<noteq> None"
    using build_all_Inr [OF inputs] by (force dest: build_input_leg_Inr)
qed

lemma topology_of_simps:
  "ft_input_ids (topology_of sinks srcs) = map sk_input_id sinks" "ft_output_ids (topology_of sinks srcs) = map sp_output_id srcs"
  "ft_input_channels (topology_of sinks srcs) = map sk_negotiated_channels sinks"
  "ft_output_channels (topology_of sinks srcs) = map sp_negotiated_channels srcs"
  "ft_input_bus_offsets (topology_of sinks srcs) = fst (bus_offsets 0 (map sk_negotiated_channels sinks))"
  by (simp_all add: topology_of_def from_snapshots_def case_prod_beta Let_def)

lemma built_bus_topology:
  assumes "build_graph env (topology_of sinks srcs) (length sinks) n routes bin = (Inr g, bin')"
  shows "bus_topology (topology_of sinks srcs)"
proof -
  let ?t = "topology_of sinks srcs"
  let ?ns = "map sk_negotiated_channels sinks"
  have "\<forall>i < length ?ns. unat (?ns ! i) = 0 \<or> unat (fst (bus_offsets 0 ?ns) ! i) + unat (?ns ! i) \<le> unat (ft_input_bus_channels ?t)"
    using build_graph_Inr(4) [OF assms] input_leg_fits by (simp add: topology_of_simps)
  then have "sum_list (map unat ?ns) < 2 ^ 32" using legs_fit [of ?ns 0 "ft_input_bus_channels ?t"] by simp
  then show ?thesis
    unfolding topology_of_def by (intro bus_topology_from_snapshots) (simp_all add: comp_def)
qed

section \<open>Talking to the daemon\<close>

lemma drive_ask_Inr:
  assumes "drive_call inflight (and_then (ask answers request) (\<lambda>r. ret (map_reply id r))) c = (Inr v, inflight', c')"
  shows "calls c' = calls c @ [(clock c, request)]"
  using assms
  by (auto simp: drive_call_def spawn_task_def and_then_def ask_def sleep_for_def ret_def
      split: option.splits prod.splits if_splits sum.splits)

lemma cm_sync_facts:
  assumes "cm_sync_channel_mapping_state denv output_id entries session c = (r, session', c')"
  shows "cs_channelmapping session' = cs_channelmapping session" "cs_session_handle session' = cs_session_handle session"
    "r = Inr u \<Longrightarrow> \<exists>cm. cs_channelmapping session = Some cm \<and>
      map snd (calls c') = map snd (calls c) @ [SyncChannelMappingState (cs_session_handle session) cm output_id entries]"
  using assms
  by (auto simp: cm_sync_channel_mapping_state_def split: option.splits prod.splits if_splits dest!: drive_ask_Inr)

lemma sync_outputs_facts:
  "sync_outputs denv outs session c = (r, session', c') \<Longrightarrow>
    cs_channelmapping session' = cs_channelmapping session \<and> cs_session_handle session' = cs_session_handle session \<and>
    (\<forall>cm u. cs_channelmapping session = Some cm \<longrightarrow> r = Inr u \<longrightarrow>
       map snd (calls c') = map snd (calls c) @
         map (\<lambda>(output_id, entries). SyncChannelMappingState (cs_session_handle session) cm output_id entries) outs)"
proof (induction outs arbitrary: session c)
  case (Cons out outs)
  obtain output_id entries where out: "out = (output_id, entries)" by fastforce
  obtain r1 session1 c1 where sync: "cm_sync_channel_mapping_state denv output_id entries session c = (r1, session1, c1)" by (rule prod_cases3)
  note one = cm_sync_facts [OF sync]
  show ?case
  proof (cases r1)
    case (Inr u)
    then have "sync_outputs denv outs session1 c1 = (r, session', c')" using Cons.prems sync by (simp add: out)
    from Cons.IH [OF this] one(1,2) one(3) [OF Inr] show ?thesis by (auto simp: out)
  qed (use Cons.prems sync one in \<open>auto simp: out\<close>)
qed simp

lemma register_mapping_facts:
  assumes "register_mapping denv settings sinks srcs session c = (Inr (sinks', srcs'), session', c')"
  shows "cs_channelmapping session' \<noteq> None \<and> (\<exists>added. length added \<le> 1 \<and> map snd (calls c') = map snd (calls c) @ added)"
proof (cases "cs_channelmapping session")
  case None
  then show ?thesis
    using assms drive_ask_Inr
    by (fastforce simp: register_mapping_def cm_add_channel_mapping_def split: prod.splits sum.splits if_splits)
qed (use assms in \<open>auto simp: register_mapping_def\<close>)

section \<open>Starting\<close>

lemma collect_ok_Inr: "collect_ok f xs = Inr ys \<Longrightarrow> length ys = length xs \<and> (\<forall>i < length xs. f (xs ! i) = Inr (ys ! i))"
proof (induction xs arbitrary: ys)
  case (Cons x xs)
  then obtain y zs where "f x = Inr y" "collect_ok f xs = Inr zs" "ys = y # zs" by (auto simp: and_ok_def split: sum.splits)
  then show ?case using Cons.IH [of zs] by (auto simp: nth_Cons split: nat.splits)
qed simp

lemma output_plan_Inr:
  "output_plan t sinks n (i, src) = Inr (routes, output_id, entries) \<Longrightarrow>
    output_id = sp_output_id src \<and> entries = active_map_entries_from_routes (sp_negotiated_channels src) routes"
  by (auto simp: output_plan_def active_map_entries_for_src_def Let_def split: option.splits sum.splits)

definition new_settings :: map_settings where
  "new_settings = \<lparr>ms_daemon_uri = ''unix:/tmp/nvnmosd.sock'', ms_node_seed = [], ms_http_port = 0, ms_host_name = [], ms_node_properties = None,
     ms_domain = [], ms_registration_url = [], ms_system_url = [], ms_channelmapping_name = [], ms_restrict_routable_inputs = False\<rparr>"

text \<open>What the daemon is told of the outputs when the element starts.\<close>

definition told_routes :: "frozen_topology \<Rightarrow> active_map_route list list \<Rightarrow> string \<Rightarrow> string \<Rightarrow> rpc list" where
  "told_routes t routes session cm =
     map (\<lambda>i. SyncChannelMappingState session cm (ft_output_ids t ! i)
              (active_map_entries_from_routes (ft_output_channels t ! i) (routes ! i))) [0 ..< length (ft_output_ids t)]"

definition graph_ok :: "frozen_topology \<Rightarrow> active_map_route list list \<Rightarrow> audio_graph \<Rightarrow> bool" where
  "graph_ok t routes g \<longleftrightarrow>
     bus_topology t \<and> length (ft_output_channels t) = length (ft_output_ids t) \<and> graph_plays t routes g"

definition started :: "audio_map \<Rightarrow> client \<Rightarrow> client \<Rightarrow> bool" where
  "started s' c c' \<longleftrightarrow>
     (\<exists>t g routes session cm added. nm_topology s' = Some t \<and> nm_graph s' = Some g \<and> graph_ok t routes g \<and>
        nm_session s' = Some (Open session) \<and> cs_channelmapping session = Some cm \<and> length added \<le> 1 \<and>
        map snd (calls c') = map snd (calls c) @ added @ told_routes t routes (cs_session_handle session) cm)"

lemma plans_told:
  assumes "collect_ok (output_plan t sinks n) (enumerate 0 srcs) = Inr plans" "t = topology_of sinks srcs"
  shows "map (\<lambda>(output_id, entries). SyncChannelMappingState session cm output_id entries) (map snd plans) =
    told_routes t (map fst plans) session cm"
proof (rule nth_equalityI)
  note plans = collect_ok_Inr [OF assms(1)]
  show len: "length (map (\<lambda>(output_id, entries). SyncChannelMappingState session cm output_id entries) (map snd plans)) =
      length (told_routes t (map fst plans) session cm)"
    using plans assms(2) by (simp add: told_routes_def topology_of_simps)
  fix i assume "i < length (map (\<lambda>(output_id, entries). SyncChannelMappingState session cm output_id entries) (map snd plans))"
  then have i: "i < length plans" "i < length srcs" using plans by simp_all
  obtain routes output_id entries where p: "plans ! i = (routes, output_id, entries)" by (rule prod_cases3)
  have "output_plan t sinks n (i, srcs ! i) = Inr (plans ! i)" using plans i by (simp add: nth_enumerate_eq)
  then show "map (\<lambda>(output_id, entries). SyncChannelMappingState session cm output_id entries) (map snd plans) ! i =
      told_routes t (map fst plans) session cm ! i"
    using output_plan_Inr [of t sinks n i "srcs ! i" routes output_id entries] i assms(2)
    by (simp add: p told_routes_def topology_of_simps)
qed

lemma install_graph_None:
  assumes "nm_graph s = None" "install_graph env t sinks srcs routes s = (r, s')"
  shows "nm_session s' = nm_session s" "map mp_name (nm_pads s') = map mp_name (nm_pads s)" "nm_fixated s' = nm_fixated s"
    "r = Inr u \<Longrightarrow> \<exists>g bin'. build_graph env t sinks srcs routes (nm_bin s) = (Inr g, bin') \<and>
      nm_graph s' = Some g \<and> nm_topology s' = Some t \<and> nm_pads s' = freeze_pads (nm_pads s)"
    "r = Inl e \<Longrightarrow> nm_graph s' = None"
  using assms by (auto simp: install_graph_def freeze_pads_def freeze_def split: prod.splits sum.splits)

lemma fixate_session_facts:
  assumes "nm_graph s = None" "fixate_session env denv sinks srcs session s c = (r, s', c')"
  shows "map mp_name (nm_pads s') = map mp_name (nm_pads s)"
    "r = Inr u \<Longrightarrow> nm_fixated s' \<and> nm_pads s' = freeze_pads (nm_pads s) \<and> started s' c c'"
proof -
  obtain r1 session1 c1 where reg: "register_mapping denv (nm_settings s) sinks srcs session c = (r1, session1, c1)" by (rule prod_cases3)
  define s1 where "s1 = s\<lparr>nm_session := Some (Open session1)\<rparr>"
  have "map mp_name (nm_pads s') = map mp_name (nm_pads s) \<and>
    (r = Inr u \<longrightarrow> nm_fixated s' \<and> nm_pads s' = freeze_pads (nm_pads s) \<and> started s' c c')"
  proof (cases r1)
    case (Inl e)
    then show ?thesis using assms(2) reg by (auto simp: fixate_session_def)
  next
    case (Inr pair)
    obtain sinks1 srcs1 where pair: "pair = (sinks1, srcs1)" by fastforce
    let ?t = "topology_of sinks1 srcs1"
    obtain added where added: "length added \<le> 1" "map snd (calls c1) = map snd (calls c) @ added"
      and cm: "cs_channelmapping session1 \<noteq> None"
      using register_mapping_facts [OF reg [unfolded Inr pair]] by blast
    show ?thesis
    proof (cases "collect_ok (output_plan ?t sinks1 (length srcs1)) (enumerate 0 srcs1)")
      case (Inl e)
      then show ?thesis using assms(2) reg Inr pair by (auto simp: fixate_session_def Let_def)
    next
      case (Inr plans)
      obtain r2 s2 where inst: "install_graph env ?t (length sinks1) (length srcs1) (map fst plans) s1 = (r2, s2)" by fastforce
      have "nm_graph s1 = None" "nm_pads s1 = nm_pads s" using assms(1) by (simp_all add: s1_def)
      note inst_facts = install_graph_None [OF this(1) inst] this(2)
      obtain r3 session2 c2 where sync: "sync_outputs denv (map snd plans) session1 c1 = (r3, session2, c2)" by (rule prod_cases3)
      note sync_facts = sync_outputs_facts [OF sync]
      show ?thesis
      proof (cases r2)
        case Inl
        then show ?thesis
          using assms(2) reg \<open>r1 = Inr pair\<close> pair Inr inst inst_facts(2,6) by (auto simp: fixate_session_def Let_def s1_def)
      next
        case built: (Inr u2)
        obtain g bin' where g: "build_graph env ?t (length sinks1) (length srcs1) (map fst plans) (nm_bin s1) = (Inr g, bin')"
            "nm_graph s2 = Some g" "nm_topology s2 = Some ?t" "nm_pads s2 = freeze_pads (nm_pads s)"
          using inst_facts(4) [OF built] inst_facts(6) by auto
        have ok: "graph_ok ?t (map fst plans) g"
          using build_graph_Inr [OF g(1)] built_bus_topology [OF g(1)] by (simp add: graph_ok_def graph_plays_def topology_of_simps)
        have result: "s' = (if r3 = Inr () then s2\<lparr>nm_session := Some (Open session2), nm_fixated := True\<rparr>
            else s2\<lparr>nm_session := Some (Open session2)\<rparr>)" "c' = c2" "r = r3"
          using assms(2) reg \<open>r1 = Inr pair\<close> pair Inr inst built sync by (auto simp: fixate_session_def Let_def s1_def split: sum.splits)
        have "started s' c c'" if "r3 = Inr ()"
        proof -
          obtain cm' where "cs_channelmapping session1 = Some cm'" using cm by blast
          then show ?thesis
            using sync_facts plans_told [OF Inr refl] ok g added that result unfolding started_def by fastforce
        qed
        then show ?thesis using result g inst_facts(2,6) by auto
      qed
    qed
  qed
  then show "map mp_name (nm_pads s') = map mp_name (nm_pads s)"
    "r = Inr u \<Longrightarrow> nm_fixated s' \<and> nm_pads s' = freeze_pads (nm_pads s) \<and> started s' c c'" by blast+
qed

section \<open>Reachable states\<close>

definition new_map :: audio_map where
  "new_map = \<lparr>nm_settings = new_settings, nm_session = None, nm_graph = None, nm_topology = None, nm_fixated = False,
     nm_next_sink = 0, nm_next_src = 0, nm_pads = [], nm_bin = []\<rparr>"

text \<open>
  What may happen to the element, in any order, with any answers of GStreamer and of the daemon.
\<close>

inductive map_reach :: "audio_map \<Rightarrow> client \<Rightarrow> bool" where
  map_new: "map_reach new_map \<lparr>clock = now, calls = []\<rparr>"
| map_set: "map_reach s c \<Longrightarrow> set_map_property name value s = Some s' \<Longrightarrow> map_reach s' c"
| map_set_pad: "map_reach s c \<Longrightarrow> child_by_name pad s = Some p \<Longrightarrow> pad_set_property name value p = Some p' \<Longrightarrow>
    map_reach (update_pad pad (\<lambda>_. p') s) c"
| map_request: "map_reach s c \<Longrightarrow> request_new_pad is_sink name s = (r, s') \<Longrightarrow> map_reach s' c"
| map_release: "map_reach s c \<Longrightarrow> map_reach (release_pad name s) c"
| map_change: "map_reach s c \<Longrightarrow> map_change_state env denv tr s c = (r, s', c') \<Longrightarrow> map_reach s' c'"
| map_activate: "map_reach s c \<Longrightarrow> apply_map_activation req s = (r, s') \<Longrightarrow> map_reach s' c"

definition named_pad :: "map_pad \<Rightarrow> bool" where
  "named_pad p \<longleftrightarrow> is_sink_name (mp_name p) \<or> is_src_name (mp_name p)"

definition map_ok :: "audio_map \<Rightarrow> bool" where
  "map_ok s \<longleftrightarrow>
     distinct (map mp_name (nm_pads s)) \<and>
     nm_fixated s = (nm_graph s \<noteq> None) \<and> (nm_topology s = None \<longleftrightarrow> nm_graph s = None) \<and>
     (\<forall>t g. nm_topology s = Some t \<longrightarrow> nm_graph s = Some g \<longrightarrow> (\<exists>routes. graph_ok t routes g)) \<and>
     (\<forall>p \<in> set (nm_pads s). mp_frozen p = (nm_fixated s \<and> named_pad p)) \<and>
     (nm_fixated s \<longrightarrow> (\<exists>session. nm_session s = Some (Open session) \<and> cs_channelmapping session \<noteq> None))"

lemma map_okD:
  assumes "map_ok s" "nm_topology s = Some t"
  obtains g routes where "nm_graph s = Some g" "graph_ok t routes g"
  using assms by (auto simp: map_ok_def)

lemma map_ok_torn_down: "distinct (map mp_name (nm_pads s)) \<Longrightarrow> map_ok ((teardown_internals s)\<lparr>nm_fixated := False\<rparr>)"
  by (auto simp: map_ok_def teardown_internals_def thaw_def comp_def)

lemma fixate_facts:
  assumes "map_ok s" "fixate_and_build env denv s c = (r, s', c')"
  shows "map mp_name (nm_pads s') = map mp_name (nm_pads s)"
    "r = Inr u \<Longrightarrow> map_ok s'" "r = Inr u \<Longrightarrow> \<not> nm_fixated s \<Longrightarrow> started s' c c'"
proof -
  have "map mp_name (nm_pads s') = map mp_name (nm_pads s) \<and> (r = Inr u \<longrightarrow> map_ok s' \<and> (\<not> nm_fixated s \<longrightarrow> started s' c c'))"
  proof (cases "nm_fixated s")
    case True
    then show ?thesis using assms by (auto simp: fixate_and_build_def)
  next
    case False
    then have graph: "nm_graph s = None" using assms(1) by (simp add: map_ok_def)
    show ?thesis
    proof (cases "\<exists>sinks srcs session. nm_session s = Some (Open session) \<and> fixate_session env denv sinks srcs session s c = (r, s', c')")
      case True
      then obtain sinks srcs session where fx: "fixate_session env denv sinks srcs session s c = (r, s', c')" by blast
      note facts = fixate_session_facts [OF graph fx]
      have "map_ok s'" if "r = Inr u"
      proof -
        have s': "nm_fixated s'" "nm_pads s' = freeze_pads (nm_pads s)" "started s' c c'" using facts(2) [OF that] by simp_all
        have "\<forall>p \<in> set (nm_pads s'). mp_frozen p = named_pad p"
          using assms(1) False by (auto simp: s'(2) freeze_pads_def freeze_def map_ok_def named_pad_def)
        then show ?thesis using s' facts(1) assms(1) by (auto simp: map_ok_def started_def)
      qed
      then show ?thesis using facts by blast
    next
      case False
      then show ?thesis
        using assms(2) \<open>\<not> nm_fixated s\<close>
        by (auto simp: fixate_and_build_def split: prod.splits sum.splits if_splits option.splits session_phase.splits)
    qed
  qed
  then show "map mp_name (nm_pads s') = map mp_name (nm_pads s)" "r = Inr u \<Longrightarrow> map_ok s'"
    "r = Inr u \<Longrightarrow> \<not> nm_fixated s \<Longrightarrow> started s' c c'" by blast+
qed

lemma start_map_ok:
  assumes "map_ok s" "start_map env denv s c = (r, s', c')"
  shows "map_ok s'"
proof -
  obtain r1 s1 c1 where fx: "fixate_and_build env denv s c = (r1, s1, c1)" by (rule prod_cases3)
  note facts = fixate_facts [OF assms(1) fx]
  show ?thesis
  proof (cases r1)
    case (Inl e)
    have "distinct (map mp_name (nm_pads s1))" using facts(1) assms(1) by (simp add: map_ok_def)
    then show ?thesis using map_ok_torn_down [of s1] assms(2) fx Inl by (simp add: start_map_def)
  next
    case (Inr u)
    then show ?thesis using facts(2) assms(2) fx by (auto simp: start_map_def split: option.splits if_splits)
  qed
qed

lemma open_slot_Open: "open_slot opener closer (Some (Open session)) c = (Inl AlreadyOpen, Some (Open session), c)"
  by (simp add: open_slot_def)

lemma before_parent_ok:
  assumes "map_ok s" "before_parent env denv tr s c = (r, s', c')"
  shows "map_ok s'"
proof (cases tr)
  case NullToReady
  have "map_ok (s\<lparr>nm_session := slot\<rparr>)"
    if "open_slot opener closer (nm_session s) c = (r1, slot, c1)" for opener closer r1 slot c1
    using that assms(1) by (auto simp: map_ok_def open_slot_Open) metis
  then show ?thesis
    using assms NullToReady by (auto simp: before_parent_def open_map_session_def Let_def split: prod.splits sum.splits if_splits)
next
  case ReadyToNull
  have "map_ok ((teardown_internals s)\<lparr>nm_session := slot, nm_fixated := False\<rparr>)" for slot
    using map_ok_torn_down [of s] assms(1) by (auto simp: map_ok_def)
  then show ?thesis using assms(2) ReadyToNull by (auto simp: before_parent_def split: prod.splits)
qed (use assms in \<open>simp_all add: before_parent_def\<close>)

lemma change_state_ok:
  assumes "map_ok s" "map_change_state env denv tr s c = (r, s', c')"
  shows "map_ok s'"
proof -
  obtain r1 s1 c1 where before: "before_parent env denv tr s c = (r1, s1, c1)" by (rule prod_cases3)
  have "map_ok s1" by (rule before_parent_ok [OF assms(1) before])
  then show ?thesis using assms(2) before start_map_ok by (auto simp: map_change_state_def split: sum.splits if_splits)
qed

lemma applied_activation:
  assumes "map_ok s" "apply_map_activation req s = (r, s')"
  shows "r \<noteq> None" "r \<noteq> Some Applied \<Longrightarrow> s' = s"
    "r = Some Applied \<Longrightarrow> \<exists>t g i m routes. nm_topology s = Some t \<and> nm_graph s = Some g \<and> bus_topology t \<and>
      position (\<lambda>x. x = crq_output_id req) (ft_output_ids t) = Some i \<and> i < length (ag_matrices g) \<and>
      routes_from_activation t (crq_output_id req) (crq_active_map req) = Inr routes \<and>
      build_output_mix_matrix t (ft_output_channels t ! i) routes = Some (Inr m) \<and>
      s' = s\<lparr>nm_graph := Some (g\<lparr>ag_matrices := (ag_matrices g)[i := m]\<rparr>)\<rparr>"
proof -
  have "r \<noteq> None \<and> (r \<noteq> Some Applied \<longrightarrow> s' = s) \<and>
    (r = Some Applied \<longrightarrow> (\<exists>t g i m routes. nm_topology s = Some t \<and> nm_graph s = Some g \<and> bus_topology t \<and>
      position (\<lambda>x. x = crq_output_id req) (ft_output_ids t) = Some i \<and> i < length (ag_matrices g) \<and>
      routes_from_activation t (crq_output_id req) (crq_active_map req) = Inr routes \<and>
      build_output_mix_matrix t (ft_output_channels t ! i) routes = Some (Inr m) \<and>
      s' = s\<lparr>nm_graph := Some (g\<lparr>ag_matrices := (ag_matrices g)[i := m]\<rparr>)\<rparr>))"
  proof (cases "\<exists>t routes i. nm_topology s = Some t \<and>
      routes_from_activation t (crq_output_id req) (crq_active_map req) = Inr routes \<and>
      position (\<lambda>x. x = crq_output_id req) (ft_output_ids t) = Some i")
    case True
    then obtain t routes i where top: "nm_topology s = Some t"
      and routes: "routes_from_activation t (crq_output_id req) (crq_active_map req) = Inr routes"
      and i: "position (\<lambda>x. x = crq_output_id req) (ft_output_ids t) = Some i" by blast
    obtain g old where g: "nm_graph s = Some g" "graph_ok t old g" using assms(1) top by (rule map_okD)
    have len: "i < length (ft_output_channels t)" "i < length (ag_matrices g)"
      using position_SomeD [OF i] g(2) by (simp_all add: graph_ok_def graph_plays_def)
    have "valid_routes t (ft_output_channels t ! i) routes"
      using routes i len by (auto simp: routes_from_activation_def valid_routes_def Let_def split: sum.splits)
    then obtain m where m: "build_output_mix_matrix t (ft_output_channels t ! i) routes = Some (Inr m)"
      using output_matrix_cells [of t "ft_output_channels t ! i" routes] g(2) by (auto simp: graph_ok_def valid_routes_def)
    then have "set_output_matrix t i routes g = Inr (g\<lparr>ag_matrices := (ag_matrices g)[i := m]\<rparr>)"
      using len by (simp add: set_output_matrix_def)
    then show ?thesis using assms(2) top routes i g m len by (auto simp: apply_map_activation_def graph_ok_def)
  qed (use assms(2) in \<open>auto simp: apply_map_activation_def split: option.splits sum.splits\<close>)
  then show "r \<noteq> None" "r \<noteq> Some Applied \<Longrightarrow> s' = s"
    "r = Some Applied \<Longrightarrow> \<exists>t g i m routes. nm_topology s = Some t \<and> nm_graph s = Some g \<and> bus_topology t \<and>
      position (\<lambda>x. x = crq_output_id req) (ft_output_ids t) = Some i \<and> i < length (ag_matrices g) \<and>
      routes_from_activation t (crq_output_id req) (crq_active_map req) = Inr routes \<and>
      build_output_mix_matrix t (ft_output_channels t ! i) routes = Some (Inr m) \<and>
      s' = s\<lparr>nm_graph := Some (g\<lparr>ag_matrices := (ag_matrices g)[i := m]\<rparr>)\<rparr>" by blast+
qed

lemma graph_ok_update:
  assumes "graph_ok t routes g" "i < length (ag_matrices g)"
    "build_output_mix_matrix t (ft_output_channels t ! i) new = Some (Inr m)"
  shows "graph_ok t (routes[i := new]) (g\<lparr>ag_matrices := (ag_matrices g)[i := m]\<rparr>)"
  using assms by (auto simp: graph_ok_def graph_plays_def nth_list_update)

lemma activation_ok:
  assumes "map_ok s" "apply_map_activation req s = (r, s')"
  shows "map_ok s'"
proof (cases "r = Some Applied")
  case True
  obtain t g i m new where top: "nm_topology s = Some t" "nm_graph s = Some g" "i < length (ag_matrices g)"
    and m: "build_output_mix_matrix t (ft_output_channels t ! i) new = Some (Inr m)"
    and s': "s' = s\<lparr>nm_graph := Some (g\<lparr>ag_matrices := (ag_matrices g)[i := m]\<rparr>)\<rparr>"
    using applied_activation(3) [OF assms True] by blast
  obtain routes where "graph_ok t routes g" using map_okD [OF assms(1) top(1)] top(2) by auto
  from graph_ok_update [OF this top(3) m] show ?thesis using assms(1) top by (auto simp: map_ok_def s')
qed (use applied_activation(2) [OF assms] assms(1) in simp)

lemma set_property_frozen: "pad_set_property name value p = Some p' \<Longrightarrow> mp_name p' = mp_name p \<and> mp_frozen p' = mp_frozen p"
  by (auto simp: pad_set_property_def split: pad_state.splits if_splits)

lemma map_reach_ok: "map_reach s c \<Longrightarrow> map_ok s"
proof (induction rule: map_reach.induct)
  case (map_new now)
  then show ?case by (simp add: map_ok_def new_map_def)
next
  case (map_set s c name v s')
  then show ?case by (auto simp: set_map_property_def map_ok_def split: if_splits)
next
  case (map_set_pad s c pad p name v p')
  note p' = set_property_frozen [OF map_set_pad.hyps(3)]
  have p: "mp_name p = pad" "p \<in> set (nm_pads s)" using map_set_pad.hyps(2) by (auto simp: child_by_name_def find_Some_iff)
  have names: "map mp_name (nm_pads (update_pad pad (\<lambda>_. p') s)) = map mp_name (nm_pads s)"
    using p' p(1) by (simp add: update_pad_def comp_def)
  have "mp_frozen q = (nm_fixated s \<and> named_pad q)" if "q \<in> set (nm_pads (update_pad pad (\<lambda>_. p') s))" for q
  proof (cases "q = p'")
    case True
    then show ?thesis using p p' map_set_pad.IH by (simp add: map_ok_def named_pad_def)
  next
    case False
    then have "q \<in> set (nm_pads s)" using that by (auto simp: update_pad_def split: if_splits)
    then show ?thesis using map_set_pad.IH by (simp add: map_ok_def)
  qed
  then have "\<forall>q \<in> set (nm_pads (update_pad pad (\<lambda>_. p') s)). mp_frozen q = (nm_fixated s \<and> named_pad q)" by blast
  moreover have "distinct (map mp_name (nm_pads (update_pad pad (\<lambda>_. p') s)))"
    unfolding names using map_set_pad.IH by (simp add: map_ok_def)
  moreover have "nm_fixated (update_pad pad (\<lambda>_. p') s) = nm_fixated s" "nm_graph (update_pad pad (\<lambda>_. p') s) = nm_graph s"
    "nm_topology (update_pad pad (\<lambda>_. p') s) = nm_topology s" "nm_session (update_pad pad (\<lambda>_. p') s) = nm_session s"
    by (simp_all add: update_pad_def)
  ultimately show ?case using map_set_pad.IH unfolding map_ok_def by simp
next
  case (map_request s c is_sink name r s')
  then show ?case
    by (auto simp: request_new_pad_def requested_name_def next_name_def new_pad_def map_ok_def split: if_splits option.splits)
next
  case (map_release s c name)
  then show ?case by (auto simp: release_pad_def map_ok_def distinct_map inj_on_def)
next
  case (map_change s c env denv tr r s' c')
  then show ?case using change_state_ok by blast
next
  case (map_activate s c req r s')
  then show ?case using activation_ok by blast
qed

text \<open>What a request has for a channel of the output: a channel of an input, or nothing to play.\<close>

definition requested :: "active_map_entry list \<Rightarrow> nat \<Rightarrow> (string \<times> u32) option" where
  "requested am n =
     (if n < length am
      then (case (am_input_id (am ! n), am_input_channel (am ! n)) of
              (Some input_id, Some ch) \<Rightarrow> if input_id = [] then None else Some (input_id, ch)
            | _ \<Rightarrow> None)
      else None)"

lemma requested_route:
  "n < length am \<Longrightarrow> route_of_entry n (am ! n) =
     map_option (\<lambda>(input_id, ch). \<lparr>rt_output_channel = of_nat n, rt_input_id = input_id, rt_input_channel = ch\<rparr>) (requested am n)"
  by (auto simp: route_of_entry_def requested_def split: option.splits)

lemma requested_route_Some:
  "n < length am \<Longrightarrow> route_of_entry n (am ! n) = Some q \<longleftrightarrow> (\<exists>input_id ch. requested am n = Some (input_id, ch) \<and>
     q = \<lparr>rt_output_channel = of_nat n, rt_input_id = input_id, rt_input_channel = ch\<rparr>)"
  by (auto simp: requested_route)

lemma requested_routes:
  assumes "routes_from_activation t output_id am = Inr routes" "length am \<le> 2 ^ 32"
  shows "q \<in> set routes \<and> rt_output_channel q = out \<longleftrightarrow>
    (\<exists>input_id ch. requested am (unat out) = Some (input_id, ch) \<and>
       q = \<lparr>rt_output_channel = out, rt_input_id = input_id, rt_input_channel = ch\<rparr>)"
proof -
  have "routes = List.map_filter (\<lambda>(n, e). route_of_entry n e) (enumerate 0 am)"
    using assms(1) by (auto simp: routes_from_activation_def Let_def split: option.splits sum.splits)
  then have "q \<in> set routes \<longleftrightarrow> (\<exists>n < length am. route_of_entry n (am ! n) = Some q)"
    by (auto simp: set_map_filter_enumerate)
  also have "\<dots> \<longleftrightarrow> (\<exists>n < length am. \<exists>input_id ch. requested am n = Some (input_id, ch) \<and>
      q = \<lparr>rt_output_channel = of_nat n, rt_input_id = input_id, rt_input_channel = ch\<rparr>)"
    by (metis (no_types, lifting) requested_route_Some)
  finally have routes: "q \<in> set routes \<longleftrightarrow> (\<exists>n < length am. \<exists>input_id ch. requested am n = Some (input_id, ch) \<and>
      q = \<lparr>rt_output_channel = of_nat n, rt_input_id = input_id, rt_input_channel = ch\<rparr>)" .
  have "unat (of_nat n :: u32) = n" if "n < length am" for n
    using that assms(2) by (simp add: unat_of_nat take_bit_nat_eq_self)
  moreover have "unat out < length am" if "requested am (unat out) = Some p" for p
    using that by (simp add: requested_def split: if_splits)
  ultimately show ?thesis using routes by (auto intro!: exI [of _ "unat out"])
qed

text \<open>
  C34. What is applied is played. In every state that the channel mapping element reaches, an activation is
  answered, never by a panic. If the answer is that it failed, nothing has changed; if it is that it was
  applied, only the matrix of its output is another, and with it every channel of the output carries
  what the request has at its position: the samples of the named channel of the named input, and silence
  if there is no entry, no input, or no channel. An entry with an input but without a channel is thus
  played as silence, where the comment on \<^verbatim>\<open>ActiveMapEntry\<close> (\<^verbatim>\<open>nvnmosd.proto\<close>) has it that the channel
  defaults to zero. The request has no more entries than a \<^verbatim>\<open>u32\<close> counts.
\<close>

theorem activation_plays:
  assumes "map_reach s c" "apply_map_activation req s = (r, s')" "length (crq_active_map req) \<le> 2 ^ 32"
  shows "r \<noteq> None \<and> (r \<noteq> Some Applied \<longrightarrow> s' = s) \<and>
    (r = Some Applied \<longrightarrow>
      (\<exists>t g i m. nm_topology s = Some t \<and> nm_graph s = Some g \<and>
        position (\<lambda>x. x = crq_output_id req) (ft_output_ids t) = Some i \<and>
        s' = s\<lparr>nm_graph := Some (g\<lparr>ag_matrices := (ag_matrices g)[i := m]\<rparr>)\<rparr> \<and>
        (\<forall>xss out. length xss = length (ft_input_channels t) \<longrightarrow>
           (\<forall>k < length xss. length (xss ! k) = unat (ft_input_channels t ! k)) \<longrightarrow> out < ft_output_channels t ! i \<longrightarrow>
           (case requested (crq_active_map req) (unat out) of
              Some (input_id, ch) \<Rightarrow> \<exists>k. position (\<lambda>x. x = input_id) (ft_input_ids t) = Some k \<and>
                mix m (bus_samples t xss) ! unat out = xss ! k ! unat ch
            | None \<Rightarrow> mix m (bus_samples t xss) ! unat out = 0))))"
proof -
  have ok: "map_ok s" using assms(1) by (rule map_reach_ok)
  note facts = applied_activation [OF ok assms(2)]
  show ?thesis
  proof (cases "r = Some Applied")
    case True
    obtain t g i m routes where found: "nm_topology s = Some t" "nm_graph s = Some g" "bus_topology t"
      "position (\<lambda>x. x = crq_output_id req) (ft_output_ids t) = Some i"
      and routes: "routes_from_activation t (crq_output_id req) (crq_active_map req) = Inr routes"
      and m: "build_output_mix_matrix t (ft_output_channels t ! i) routes = Some (Inr m)"
      and s': "s' = s\<lparr>nm_graph := Some (g\<lparr>ag_matrices := (ag_matrices g)[i := m]\<rparr>)\<rparr>"
      using facts(3) [OF True] by blast
    note asked = requested_routes [OF routes assms(3)]
    have "case requested (crq_active_map req) (unat out) of
        Some (input_id, ch) \<Rightarrow> \<exists>k. position (\<lambda>x. x = input_id) (ft_input_ids t) = Some k \<and>
          mix m (bus_samples t xss) ! unat out = xss ! k ! unat ch
      | None \<Rightarrow> mix m (bus_samples t xss) ! unat out = 0"
      if xss: "length xss = length (ft_input_channels t)" "\<forall>k < length xss. length (xss ! k) = unat (ft_input_channels t ! k)"
        "out < ft_output_channels t ! i" for xss out
    proof -
      have plays: "(\<forall>q \<in> set routes. rt_output_channel q = out \<longrightarrow>
            (\<exists>k. position (\<lambda>x. x = rt_input_id q) (ft_input_ids t) = Some k \<and>
               mix m (bus_samples t xss) ! unat out = xss ! k ! unat (rt_input_channel q))) \<and>
          (out \<notin> rt_output_channel ` set routes \<longrightarrow> mix m (bus_samples t xss) ! unat out = 0)"
        using routed_inputs_carried [OF found(3) m] xss by blast
      show ?thesis
      proof (cases "requested (crq_active_map req) (unat out)")
        case None
        then have "out \<notin> rt_output_channel ` set routes" using asked [of _ out] by fastforce
        with None plays show ?thesis by simp
      next
        case (Some p)
        obtain input_id ch where p: "p = (input_id, ch)" by (cases p)
        then have "\<lparr>rt_output_channel = out, rt_input_id = input_id, rt_input_channel = ch\<rparr> \<in> set routes"
          using asked [of "\<lparr>rt_output_channel = out, rt_input_id = input_id, rt_input_channel = ch\<rparr>" out] Some by simp
        with Some p plays show ?thesis by fastforce
      qed
    qed
    then show ?thesis using True found(1,2,4) s' by blast
  qed (use facts(1,2) in blast)
qed

text \<open>
  C35. What the controller sees is what is played. When the channel mapping element starts, in whatever
  state it was before, then afterwards its properties and pads are frozen, the mapping is registered, and
  the daemon has been told of every output, in order, exactly the routes whose matrix the graph has.
\<close>

theorem fixation_agrees:
  assumes "map_reach s c" "\<not> nm_fixated s" "map_change_state env denv ReadyToPaused s c = (Inr u, s', c')"
  shows "nm_fixated s' \<and> (\<forall>p \<in> set (nm_pads s'). named_pad p \<longrightarrow> mp_frozen p) \<and>
    (\<exists>t g routes session cm added. nm_topology s' = Some t \<and> nm_graph s' = Some g \<and> graph_plays t routes g \<and>
      nm_session s' = Some (Open session) \<and> cs_channelmapping session = Some cm \<and> length added \<le> 1 \<and>
      map snd (calls c') = map snd (calls c) @ added @ told_routes t routes (cs_session_handle session) cm)"
proof -
  have ok: "map_ok s" using assms(1) by (rule map_reach_ok)
  obtain r1 s1 c1 where fx: "fixate_and_build env denv s c = (r1, s1, c1)" by (rule prod_cases3)
  note facts = fixate_facts [OF ok fx]
  have "r1 = Inr ()" "s' = s1" "c' = c1"
    using assms(3) fx by (auto simp: map_change_state_def before_parent_def start_map_def split: if_splits sum.splits option.splits)
  then have "map_ok s'" "started s' c c'" using facts(2,3) assms(2) by simp_all
  then show ?thesis unfolding map_ok_def started_def graph_ok_def by fastforce
qed

section \<open>What a failed start leaves\<close>

text \<open>
  A start that fails in the middle of building leaves the elements it added in the bin, where no graph
  knows them. From then on no start succeeds, whatever is corrected.
\<close>

lemma leftover_blocks:
  assumes "''mixer'' \<in> set (nm_bin s)" "nm_graph s = None"
  shows "\<not> nm_fixated s \<Longrightarrow> fst (fixate_and_build env denv s c) \<noteq> Inr ()"
    "nm_bin (teardown_internals s) = nm_bin s"
proof -
  have "fst (build_graph env t sinks srcs routes (nm_bin s)) \<noteq> Inr g" for t sinks srcs routes g
    using assms(1) by (auto simp: build_graph_def then_build_def make_item_def split: sum.splits)
  then have "fst (install_graph env t sinks srcs routes (s\<lparr>nm_session := slot\<rparr>)) \<noteq> Inr ()" for t sinks srcs routes slot
    using assms(2) by (auto simp: install_graph_def split: prod.splits sum.splits) (metis fst_conv)
  then have "fst (fixate_session env denv sinks srcs session s c) \<noteq> Inr ()" for sinks srcs session
    unfolding fixate_session_def Let_def by (auto split: prod.splits sum.splits) (metis fst_conv)
  then show "fst (fixate_and_build env denv s c) \<noteq> Inr ()" if "\<not> nm_fixated s"
    using that by (auto simp: fixate_and_build_def split: prod.splits sum.splits option.splits session_phase.splits)
  show "nm_bin (teardown_internals s) = nm_bin s" using assms(2) by (simp add: teardown_internals_def)
qed

definition grows :: "'a build \<Rightarrow> bool" where
  "grows m \<longleftrightarrow> (\<forall>bin. set bin \<subseteq> set (snd (m bin)))"

lemma grows_then: "grows m \<Longrightarrow> (\<And>a. grows (f a)) \<Longrightarrow> grows (then_build m f)"
  by (fastforce simp: grows_def then_build_def split: prod.splits sum.splits)

lemma grows_steps: "grows (done_with a)" "grows (refuse e)" "grows (require ok e)"
  by (simp_all add: grows_def)

lemma grows_add_many: "grows (add_many names)"
proof -
  have "set bin \<subseteq> set (snd (add_many names bin))" for bin
  proof (induction names arbitrary: bin)
    case (Cons name names)
    then show ?case using Cons.IH [of "bin @ [name]"] by auto
  qed simp
  then show ?thesis by (simp add: grows_def)
qed

lemma grows_build_all: "(\<And>x. grows (f x)) \<Longrightarrow> grows (build_all f xs)"
  by (induction xs) (auto intro!: grows_then grows_steps)

lemma grows_legs: "grows (build_input_leg env t i)" "grows (build_output_leg env t i routes)"
  by (auto simp: build_input_leg_def build_output_leg_def make_item_def link_item_def Let_def split: option.split sum.split
      intro!: grows_then grows_steps grows_add_many)

lemma failed_output_leaves_mixer:
  assumes "build_graph env t sinks srcs routes bin = (Inl (BadRoutes e), bin')"
  shows "''mixer'' \<in> set bin'"
proof -
  define legs where "legs = then_build (link_item env ''mixer-bus'') (\<lambda>_.
    then_build (build_all (build_input_leg env t) [0 ..< sinks]) (\<lambda>inputs.
    then_build (build_all (\<lambda>(i, routes). build_output_leg env t i routes) (enumerate 0 routes)) (\<lambda>outputs.
      done_with \<lparr>ag_input_matrices = inputs, ag_bus_caps = caps_with_channel_mask (ft_input_bus_channels t),
        ag_output_masks = map fst outputs, ag_matrices = map snd outputs, ag_elements = graph_elements sinks srcs\<rparr>)))"
  have "grows legs"
    unfolding legs_def link_item_def by (auto intro!: grows_then grows_steps grows_build_all grows_legs)
  moreover have "legs (bin @ [''mixer'', ''mixer-capsfilter'', ''mixer-tee'']) = (Inl (BadRoutes e), bin')"
    using assms unfolding build_graph_def legs_def [symmetric] make_item_def
    by (auto simp: then_build_def split: if_splits)
  ultimately have "set (bin @ [''mixer'', ''mixer-capsfilter'', ''mixer-tee'']) \<subseteq> set bin'" unfolding grows_def by (metis snd_conv)
  then show ?thesis by simp
qed

theorem failed_start_is_final:
  assumes "build_graph env t sinks srcs routes (nm_bin s) = (Inl (BadRoutes e), bin)" "nm_graph s = None" "\<not> nm_fixated s"
  shows "fst (fixate_and_build env' denv' (teardown_internals (s\<lparr>nm_bin := bin\<rparr>)) c) \<noteq> Inr ()"
  using assms failed_output_leaves_mixer [OF assms(1)] by (intro leftover_blocks) (simp_all add: teardown_internals_def)

text \<open>
  A start that fails after the mapping was registered is repeated without asking for ids again: ids that
  were left to the daemon are then empty.
\<close>

theorem retry_keeps_empty_ids:
  assumes "cs_channelmapping session \<noteq> None" "nm_graph s = None" "fixate_session env denv sinks srcs session s c = (Inr u, s', c')"
  shows "\<exists>t. nm_topology s' = Some t \<and> ft_input_ids t = map sk_input_id sinks \<and> ft_output_ids t = map sp_output_id srcs"
  using assms
  by (auto simp: fixate_session_def register_mapping_def install_graph_def topology_of_simps Let_def split: sum.splits prod.splits)

section \<open>An example\<close>

definition demo_map_env :: map_env where
  "demo_map_env = \<lparr>ev_caps = (\<lambda>_. \<lparr>pc_current = None, pc_allowed = None, pc_query = [], pc_peer = None, pc_peer_query = []\<rparr>),
     ev_intersect = (\<lambda>a b. a), ev_make = (\<lambda>_. True), ev_has_mask = True, ev_link = (\<lambda>_. True), ev_sync = (\<lambda>_. True),
     ev_parent = (\<lambda>_. True), ev_parse_url = (\<lambda>_. None)\<rparr>"

definition demo_map :: audio_map where
  "demo_map = new_map
     \<lparr>nm_settings := new_settings\<lparr>ms_node_seed := ''seed'', ms_channelmapping_name := ''map''\<rparr>,
      nm_pads :=
        [\<lparr>mp_name = ''sink_0'', mp_state = SinkState \<lparr>sks_receiver_name = [], sks_input_id = ''a'', sks_label = [], sks_description = [],
            sks_channels = 1\<rparr>, mp_frozen = False\<rparr>,
         \<lparr>mp_name = ''src_0'', mp_state = SrcState \<lparr>srs_sender_name = [], srs_output_id = ''b'', srs_label = [], srs_description = [],
            srs_channels = 1, srs_active_map = None\<rparr>, mp_frozen = False\<rparr>]\<rparr>"

abbreviation demo_start :: client where "demo_start \<equiv> \<lparr>clock = 0, calls = []\<rparr>"

lemma demo_map_reach: "map_reach demo_map demo_start"
proof -
  define s1 where "s1 = new_map\<lparr>nm_settings := new_settings\<lparr>ms_node_seed := ''seed''\<rparr>\<rparr>"
  define s2 where "s2 = s1\<lparr>nm_settings := new_settings\<lparr>ms_node_seed := ''seed'', ms_channelmapping_name := ''map''\<rparr>\<rparr>"
  define s3 where "s3 = s2\<lparr>nm_pads := [new_pad True ''sink_0'']\<rparr>"
  define s4 where "s4 = s3\<lparr>nm_pads := [new_pad True ''sink_0'', new_pad False ''src_0'']\<rparr>"
  have "map_reach s1 demo_start"
    by (rule map_set [OF map_new, of "''node-seed''" "VText ''seed''"]) (simp add: set_map_property_def set_map_setting_def s1_def new_map_def)
  then have "map_reach s2 demo_start"
    by (rule map_set [of _ _ "''channelmapping-name''" "VText ''map''"])
      (simp add: set_map_property_def set_map_setting_def s1_def s2_def new_map_def)
  then have "map_reach s3 demo_start"
    by (rule map_request [of _ _ True "Some ''sink_0''" "Some ''sink_0''"])
      (simp add: request_new_pad_def requested_name_def s1_def s2_def s3_def new_map_def)
  then have "map_reach s4 demo_start"
    by (rule map_request [of _ _ False "Some ''src_0''" "Some ''src_0''"])
      (simp add: request_new_pad_def requested_name_def s1_def s2_def s3_def s4_def new_map_def new_pad_def)
  note pad_defs = s1_def s2_def s3_def s4_def new_map_def new_pad_def child_by_name_def update_pad_def pad_set_property_def
    set_sink_property_def set_src_property_def
  obtain p1 where p1: "pad_set_property ''input-id'' (VText ''a'') (new_pad True ''sink_0'') = Some p1" by (simp add: pad_defs)
  have r1: "map_reach (update_pad ''sink_0'' (\<lambda>_. p1) s4) demo_start"
    by (rule map_set_pad [OF \<open>map_reach s4 demo_start\<close> _ p1]) (simp add: pad_defs)
  obtain p2 where p2: "pad_set_property ''channels'' (VNum 1) p1 = Some p2" using p1 by (auto simp: pad_defs)
  have r2: "map_reach (update_pad ''sink_0'' (\<lambda>_. p2) (update_pad ''sink_0'' (\<lambda>_. p1) s4)) demo_start"
    using p1 by (intro map_set_pad [OF r1 _ p2]) (auto simp: pad_defs)
  obtain p3 where p3: "pad_set_property ''output-id'' (VText ''b'') (new_pad False ''src_0'') = Some p3" by (simp add: pad_defs)
  have r3: "map_reach (update_pad ''src_0'' (\<lambda>_. p3) (update_pad ''sink_0'' (\<lambda>_. p2) (update_pad ''sink_0'' (\<lambda>_. p1) s4))) demo_start"
    using p1 p2 by (intro map_set_pad [OF r2 _ p3]) (auto simp: pad_defs)
  obtain p4 where p4: "pad_set_property ''channels'' (VNum 1) p3 = Some p4" using p3 by (auto simp: pad_defs)
  have r4: "map_reach (update_pad ''src_0'' (\<lambda>_. p4) (update_pad ''src_0'' (\<lambda>_. p3) (update_pad ''sink_0'' (\<lambda>_. p2)
      (update_pad ''sink_0'' (\<lambda>_. p1) s4)))) demo_start"
    using p1 p2 p3 by (intro map_set_pad [OF r3 _ p4]) (auto simp: pad_defs)
  have "update_pad ''src_0'' (\<lambda>_. p4) (update_pad ''src_0'' (\<lambda>_. p3) (update_pad ''sink_0'' (\<lambda>_. p2)
      (update_pad ''sink_0'' (\<lambda>_. p1) s4))) = demo_map"
    using p1 p2 p3 p4 by (auto simp: pad_defs demo_map_def)
  then show ?thesis using r4 by simp
qed

lemma demo_map_opened:
  "\<exists>s c session. map_reach s c \<and> s = demo_map\<lparr>nm_session := Some (Open session)\<rparr> \<and> cs_channelmapping session = None \<and>
     cs_client session \<and> cs_inflight_add session = None \<and> cs_inflight_sync session = None"
proof -
  obtain nc where nc: "to_node_config (\<lambda>_. None) (settings_node (nm_settings demo_map)) = Inr nc"
    by (simp add: to_node_config_def demo_map_def new_settings_def settings_node_def)
  have uri: "parse_unix_uri ''unix:/tmp/nvnmosd.sock'' = Inr ''/tmp/nvnmosd.sock''"
    by (simp add: parse_unix_uri_def strip_prefix_def starts_with_def)
  let ?c = "\<lparr>clock = 3, calls = [(1, OpenSession nc), (2, SubscribeChannelMappingActivations ''s1'')]\<rparr>"
  have "cm_session_open demo_env (\<lambda>_. None) ''unix:/tmp/nvnmosd.sock'' (settings_node (nm_settings demo_map)) demo_start =
      (Some (Inr (new_cm_session demo_response)), ?c)"
    by (simp add: cm_session_open_def request_session_def nc uri and_then_def connect_uds_def sleep_for_def ask_def cm_open_granted_def ret_def Let_def)
  then have "open_map_session demo_map_env demo_env demo_map demo_start =
      (Inr (), demo_map\<lparr>nm_session := Some (Open (new_cm_session demo_response))\<rparr>, ?c)"
    by (simp add: open_map_session_def open_slot_def start_open_def spawn_task_def wait_for_task_def rpc_timeout_def demo_map_def
        demo_map_env_def new_settings_def new_map_def)
  then have "map_change_state demo_map_env demo_env NullToReady demo_map demo_start =
      (Inr (), demo_map\<lparr>nm_session := Some (Open (new_cm_session demo_response))\<rparr>, ?c)"
    by (simp add: map_change_state_def before_parent_def demo_map_env_def)
  from map_change [OF demo_map_reach this] show ?thesis
    by (intro exI [of _ "demo_map\<lparr>nm_session := Some (Open (new_cm_session demo_response))\<rparr>"] exI [of _ ?c] exI [of _ "new_cm_session demo_response"])
      (simp add: new_cm_session_def)
qed

definition demo_sinks :: "sink_pad_snapshot list" where
  "demo_sinks = [\<lparr>sk_receiver_name = [], sk_input_id = ''a'', sk_label = [], sk_description = [], sk_negotiated_channels = 1\<rparr>]"

definition demo_srcs :: "src_pad_snapshot list" where
  "demo_srcs = [\<lparr>sp_sender_name = [], sp_output_id = ''b'', sp_label = [], sp_description = [], sp_negotiated_channels = 1,
     sp_active_map = None\<rparr>]"

definition demo_route :: active_map_route where
  "demo_route = \<lparr>rt_output_channel = 0, rt_input_id = ''a'', rt_input_channel = 0\<rparr>"

lemma demo_snapshots:
  "collect_request_pads demo_map = ([nm_pads demo_map ! 0], [nm_pads demo_map ! 1])"
  "collect_ok (sink_snapshot demo_map_env) [nm_pads demo_map ! 0] = Inr demo_sinks"
  "collect_ok (src_snapshot demo_map_env) [nm_pads demo_map ! 1] = Inr demo_srcs"
  by (simp_all add: collect_request_pads_def demo_map_def is_sink_name_def is_src_name_def starts_with_def sink_snapshot_def
      src_snapshot_def resolve_pad_channels_def demo_map_env_def channels_from_link_def or_else_def and_ok_def demo_sinks_def demo_srcs_def)

definition demo_t :: frozen_topology where
  "demo_t = \<lparr>ft_input_ids = [''a''], ft_output_ids = [''b''], ft_input_channels = [1], ft_output_channels = [1],
     ft_input_bus_offsets = [0], ft_input_bus_channels = 1\<rparr>"

lemma demo_topology: "topology_of demo_sinks demo_srcs = demo_t"
  by (simp add: topology_of_def from_snapshots_def demo_sinks_def demo_srcs_def demo_t_def Let_def)

lemma demo_plan:
  "collect_ok (output_plan demo_t demo_sinks 1) (enumerate 0 demo_srcs) =
    Inr [([demo_route], ''b'', active_map_entries_from_routes 1 [demo_route])]"
  by (simp add: demo_t_def output_plan_def active_map_entries_for_src_def default_identity_routes_def u32_range_def
      demo_sinks_def demo_srcs_def demo_route_def and_ok_def)

lemma demo_matrix: "build_output_mix_matrix demo_t 1 [demo_route] = Some (Inr [[1]])"
  by (simp add: build_output_mix_matrix_def validate_active_map_for_output_def demo_t_def demo_route_def word_le_nat_alt
      input_bus_index_def list_get_def set_one_def zero_matrix_def)

lemma demo_graph:
  "\<exists>g bin. build_graph demo_map_env demo_t 1 1 [[demo_route]] [] = (Inr g, bin)"
  using demo_matrix
  by (simp add: build_graph_def then_build_def make_item_def link_item_def build_input_leg_def build_output_leg_def demo_map_env_def
      demo_t_def build_input_bus_mix_matrix_def set_one_def zero_matrix_def numbered_def Let_def)

lemma demo_drive:
  assumes "answers = (\<lambda>_. (Some 1, Inr v))"
  obtains c' where "drive_call None (and_then (ask answers request) (\<lambda>r. ret (map_reply id r))) c = (Inr v, None, c')"
  using that
  by (simp add: assms drive_call_def spawn_task_def and_then_def ask_def sleep_for_def ret_def map_reply_def wait_for_task_def rpc_timeout_def)

lemma demo_registered:
  assumes "cs_channelmapping session = None" "cs_client session" "cs_inflight_add session = None"
  obtains cm c1 where "register_mapping demo_env settings demo_sinks demo_srcs session c =
    (Inr (demo_sinks, demo_srcs), session\<lparr>cs_channelmapping := Some cm\<rparr>, c1)"
proof -
  obtain resp where resp: "e_add_cm demo_env = (\<lambda>_. (Some 1, Inr resp))" "acm_input_ids resp = []" "acm_output_ids resp = []"
    by (simp add: demo_env_def)
  obtain c1 where "drive_call None (and_then (ask (e_add_cm demo_env) (AddChannelMapping (build_add_channel_mapping_request
      (cs_session_handle session) (ms_channelmapping_name settings) demo_sinks demo_srcs (ms_restrict_routable_inputs settings))))
      (\<lambda>r. ret (map_reply id r))) c = (Inr resp, None, c1)"
    by (rule demo_drive [OF resp(1)])
  then have "register_mapping demo_env settings demo_sinks demo_srcs session c =
      (Inr (demo_sinks, demo_srcs), session\<lparr>cs_channelmapping := Some (acm_handle resp)\<rparr>, c1)"
    using assms resp(2,3) by (simp add: register_mapping_def cm_add_channel_mapping_def)
  then show thesis by (rule that)
qed

lemma demo_synced:
  assumes "cs_channelmapping session = Some cm" "cs_client session" "cs_inflight_sync session = None"
  obtains c1 where "sync_outputs demo_env [out] session c = (Inr (), session, c1)"
proof -
  obtain output_id entries where out: "out = (output_id, entries)" by fastforce
  have "e_sync demo_env = (\<lambda>_. (Some 1, Inr ()))" by (simp add: demo_env_def)
  then obtain c1 where "drive_call None (and_then (ask (e_sync demo_env) (SyncChannelMappingState (cs_session_handle session) cm output_id entries))
      (\<lambda>r. ret (map_reply id r))) c = (Inr (), None, c1)"
    by (rule demo_drive)
  then have "sync_outputs demo_env [out] session c = (Inr (), session, c1)"
    using assms by (simp add: out cm_sync_channel_mapping_state_def)
  then show thesis by (rule that)
qed

lemma demo_map_started:
  obtains s c s' c' where "map_reach s c" "\<not> nm_fixated s" "map_change_state demo_map_env demo_env ReadyToPaused s c = (Inr (), s', c')"
    "nm_topology s' = Some demo_t"
proof -
  obtain s c session where s: "map_reach s c" "s = demo_map\<lparr>nm_session := Some (Open session)\<rparr>" "cs_channelmapping session = None"
    "cs_client session" "cs_inflight_add session = None" "cs_inflight_sync session = None"
    using demo_map_opened by blast
  obtain cm c1 where reg: "register_mapping demo_env (nm_settings s) demo_sinks demo_srcs session c =
      (Inr (demo_sinks, demo_srcs), session\<lparr>cs_channelmapping := Some cm\<rparr>, c1)"
    using s(3-5) by (rule demo_registered)
  define session1 where "session1 = session\<lparr>cs_channelmapping := Some cm\<rparr>"
  have "cs_channelmapping session1 = Some cm" "cs_client session1" "cs_inflight_sync session1 = None"
    using s(4,6) by (simp_all add: session1_def)
  then obtain c2 where sync:
      "sync_outputs demo_env [(''b'', active_map_entries_from_routes 1 [demo_route])] session1 c1 = (Inr (), session1, c2)"
    by (rule demo_synced)
  obtain g bin where g: "build_graph demo_map_env demo_t 1 1 [[demo_route]] [] = (Inr g, bin)"
    using demo_graph by blast
  define s' where "s' = s\<lparr>nm_session := Some (Open session1), nm_bin := bin, nm_pads := freeze_pads (nm_pads s),
    nm_topology := Some demo_t, nm_graph := Some g, nm_fixated := True\<rparr>"
  have len: "length demo_sinks = 1" "length demo_srcs = 1" by (simp_all add: demo_sinks_def demo_srcs_def)
  have fields: "nm_graph s = None" "nm_bin s = []" "nm_fixated s = False" "nm_session s = Some (Open session)"
      "collect_request_pads s = collect_request_pads demo_map"
    by (simp_all add: s(2) demo_map_def new_map_def collect_request_pads_def)
  have "fixate_session demo_map_env demo_env demo_sinks demo_srcs session s c = (Inr (), s', c2)"
    using reg demo_plan g sync fields len
    by (simp add: fixate_session_def install_graph_def s'_def demo_topology Let_def session1_def)
  then have "fixate_and_build demo_map_env demo_env s c = (Inr (), s', c2)"
    using demo_snapshots fields by (simp add: fixate_and_build_def and_ok_def)
  then have "map_change_state demo_map_env demo_env ReadyToPaused s c = (Inr (), s', c2)"
    by (simp add: map_change_state_def before_parent_def start_map_def s'_def sync_state_with_parent_def demo_map_env_def list_all_iff)
  then show thesis using that [OF s(1)] fields by (simp add: s'_def)
qed

theorem fixation_agrees_witness:
  "\<exists>s c s' c' t routes session cm added. map_reach s c \<and> map_change_state demo_map_env demo_env ReadyToPaused s c = (Inr (), s', c') \<and>
     nm_topology s' = Some t \<and> length (ft_output_ids t) = 1 \<and> length added \<le> 1 \<and>
     map snd (calls c') = map snd (calls c) @ added @ told_routes t routes session cm"
proof -
  obtain s c s' c' where run: "map_reach s c" "\<not> nm_fixated s" "map_change_state demo_map_env demo_env ReadyToPaused s c = (Inr (), s', c')"
    "nm_topology s' = Some demo_t"
    by (rule demo_map_started)
  moreover have "length (ft_output_ids demo_t) = 1" by (simp add: demo_t_def)
  ultimately show ?thesis using fixation_agrees [OF run(1-3)] by fastforce
qed

definition demo_request :: cm_activation_request where
  "demo_request = \<lparr>crq_channelmapping_handle = ''c'', crq_activation_handle = ''x'', crq_output_id = ''b'',
     crq_active_map = [\<lparr>am_input_id = Some ''a'', am_input_channel = Some 0\<rparr>]\<rparr>"

lemma demo_activation:
  "routes_from_activation demo_t (crq_output_id demo_request) (crq_active_map demo_request) = Inr [demo_route]"
  "position (\<lambda>i. i = crq_output_id demo_request) (ft_output_ids demo_t) = Some 0"
  by (simp_all add: routes_from_activation_def demo_t_def demo_request_def demo_route_def route_of_entry_def Let_def
      List.map_filter_simps validate_active_map_for_output_def word_le_nat_alt list_get_def)

lemma demo_applied:
  assumes "nm_topology s = Some demo_t" "nm_graph s = Some g" "length (ag_matrices g) = 1"
  shows "fst (apply_map_activation demo_request s) = Some Applied"
  using assms demo_matrix demo_activation
  by (simp add: apply_map_activation_def set_output_matrix_def demo_t_def list_get_def)

theorem activation_plays_witness:
  "\<exists>s c s' g m. map_reach s c \<and> apply_map_activation demo_request s = (Some Applied, s') \<and>
     s' = s\<lparr>nm_graph := Some (g\<lparr>ag_matrices := [m]\<rparr>)\<rparr> \<and> mix m (bus_samples demo_t [[7]]) ! 0 = 7"
proof -
  obtain s0 c0 s c where run: "map_reach s0 c0" "map_change_state demo_map_env demo_env ReadyToPaused s0 c0 = (Inr (), s, c)"
    and t: "nm_topology s = Some demo_t"
    by (rule demo_map_started)
  have s: "map_reach s c" using run by (rule map_change)
  obtain g0 routes0 where g0: "nm_graph s = Some g0" "graph_ok demo_t routes0 g0"
    by (rule map_okD [OF map_reach_ok [OF s] t])
  have one: "length (ag_matrices g0) = 1" using g0(2) by (simp add: graph_ok_def graph_plays_def demo_t_def)
  obtain s' where s': "apply_map_activation demo_request s = (Some Applied, s')"
    using demo_applied [OF t g0(1) one] by (metis prod.collapse)
  obtain i m where i: "position (\<lambda>x. x = crq_output_id demo_request) (ft_output_ids demo_t) = Some i"
      "s' = s\<lparr>nm_graph := Some (g0\<lparr>ag_matrices := (ag_matrices g0)[i := m]\<rparr>)\<rparr>"
    and plays: "\<forall>xss out. length xss = length (ft_input_channels demo_t) \<longrightarrow>
      (\<forall>k < length xss. length (xss ! k) = unat (ft_input_channels demo_t ! k)) \<longrightarrow> out < ft_output_channels demo_t ! i \<longrightarrow>
      (case requested (crq_active_map demo_request) (unat out) of
         Some (input_id, ch) \<Rightarrow> \<exists>k. position (\<lambda>x. x = input_id) (ft_input_ids demo_t) = Some k \<and>
           mix m (bus_samples demo_t xss) ! unat out = xss ! k ! unat ch
       | None \<Rightarrow> mix m (bus_samples demo_t xss) ! unat out = 0)"
  proof -
    have "length (crq_active_map demo_request) \<le> 2 ^ 32" by (simp add: demo_request_def)
    from activation_plays [OF s s' this] t g0(1) show thesis by (auto intro: that)
  qed
  have i0: "i = 0" using i(1) demo_activation(2) by simp
  have "mix m (bus_samples demo_t [[7]]) ! 0 = 7"
    using plays [rule_format, of "[[7]]" 0] by (simp add: i0 demo_t_def demo_request_def requested_def)
  moreover have "(ag_matrices g0)[i := m] = [m]" using one by (simp add: i0 length_Suc_conv) (auto simp: length_Suc_conv)
  ultimately show ?thesis using s s' i(2) by auto
qed

end
