(* ===== verification/Nvn_Ffi.thy ===== *)
theory Nvn_Ffi
  imports Nvn_Lib
begin

text \<open>
  The \<^verbatim>\<open>nvnmos\<close> crate (\<^verbatim>\<open>nvnmos/src/lib.rs\<close>): how Rust values become C structures for
  the time of a call of libnvnmos, how what libnvnmos passes to a callback becomes Rust values, and
  the life of a \<^verbatim>\<open>NodeServer\<close> with the state that its callbacks find through \<open>user_data\<close>.

  Memory is explicit: a map from addresses to cells, with 0 as the null pointer. A \<^verbatim>\<open>CString\<close>, an
  array or a box is one cell; a vector that grows moves its elements, not the buffers they own, so
  that a cell keeps its address until its owner is dropped. Marshalled values are owned by locals of
  the call and dropped with it: a call gets the memory they are in, and afterwards it is gone.
  Access to an address without a cell of the right kind is undefined behaviour, \<open>None\<close>. The C
  functions are the parameter \<open>c_lib\<close>, over an abstract world \<open>'w\<close>; callbacks act on the same world.
  Strings are lists of bytes.
\<close>

section \<open>Values of C\<close>

type_synonym addr = nat

type_synonym c_uint = "32 word"

fun transport_to_ffi :: "transport \<Rightarrow> c_uint" where
  "transport_to_ffi Rtp = 0"
| "transport_to_ffi Mxl = 1"

fun side_to_ffi :: "side \<Rightarrow> c_uint" where
  "side_to_ffi Sender = 0"
| "side_to_ffi Receiver = 1"

definition side_from_ffi :: "c_uint \<Rightarrow> side option" where
  "side_from_ffi n = (if n = 0 then Some Sender else if n = 1 then Some Receiver else None)"

fun resource_type_to_ffi :: "resource_type \<Rightarrow> c_uint" where
  "resource_type_to_ffi RtNode = 0"
| "resource_type_to_ffi RtDevice = 1"
| "resource_type_to_ffi RtSource = 2"
| "resource_type_to_ffi RtFlow = 3"
| "resource_type_to_ffi RtSender = 4"
| "resource_type_to_ffi RtReceiver = 5"

definition resource_type_from_ffi :: "c_uint \<Rightarrow> resource_type option" where
  "resource_type_from_ffi n =
     (if n = 0 then Some RtNode else if n = 1 then Some RtDevice else if n = 2 then Some RtSource
      else if n = 3 then Some RtFlow else if n = 4 then Some RtSender else if n = 5 then Some RtReceiver else None)"

fun parent_type_to_ffi :: "parent_type \<Rightarrow> c_uint" where
  "parent_type_to_ffi ParentReceiver = 0"
| "parent_type_to_ffi ParentSource = 1"

fun update_to_ffi :: "update \<Rightarrow> c_uint" where
  "update_to_ffi Unchanged = 0"
| "update_to_ffi Set = 1"
| "update_to_ffi Reset = 2"

definition update_from_ffi :: "c_uint \<Rightarrow> update option" where
  "update_from_ffi n = (if n = 0 then Some Unchanged else if n = 1 then Some Set else if n = 2 then Some Reset else None)"

section \<open>Memory\<close>

record c_tag =
  ct_key :: addr
  ct_values_op :: c_uint
  ct_values :: addr
  ct_num_values :: c_uint

record c_annotation =
  cn_label_op :: c_uint
  cn_label :: addr
  cn_description_op :: c_uint
  cn_description :: addr
  cn_tags_op :: c_uint
  cn_tags :: addr
  cn_num_tags :: c_uint

record c_map_entry =
  ce_input_id :: addr
  ce_input_channel :: c_uint

record c_input =
  cin_id :: addr
  cin_name :: addr
  cin_description :: addr
  cin_channel_labels :: addr
  cin_num_channel_labels :: nat
  cin_parent_name :: addr
  cin_parent_type :: c_uint
  cin_reordering :: bool
  cin_block_size :: c_uint

record c_output =
  cou_id :: addr
  cou_name :: addr
  cou_description :: addr
  cou_channel_labels :: addr
  cou_num_channel_labels :: nat
  cou_sender_name :: addr
  cou_routable_inputs :: addr
  cou_num_routable_inputs :: nat

record c_mapping =
  cma_inputs :: addr
  cma_num_inputs :: nat
  cma_outputs :: addr
  cma_num_outputs :: nat

record c_asset =
  cas_manufacturer :: addr
  cas_product :: addr
  cas_instance_id :: addr
  cas_functions :: addr
  cas_num_functions :: c_uint

record c_services =
  cse_domain :: addr
  cse_registration_address :: addr
  cse_registration_port :: c_uint
  cse_registration_version :: addr
  cse_system_address :: addr
  cse_system_port :: c_uint
  cse_system_version :: addr

record c_sender =
  csn_transport :: c_uint
  csn_transport_file :: addr
  csn_source_annotation :: addr
  csn_flow_annotation :: addr
  csn_sender_annotation :: addr

record c_receiver =
  crc_transport :: c_uint
  crc_transport_file :: addr
  crc_receiver_annotation :: addr

text \<open>Which trampolines are installed is kept in place of their addresses.\<close>

record c_node =
  cno_seed :: addr
  cno_host_name :: addr
  cno_host_addresses :: addr
  cno_num_host_addresses :: c_uint
  cno_http_port :: c_uint
  cno_label :: addr
  cno_description :: addr
  cno_asset_tags :: addr
  cno_network_services :: addr
  cno_log_level :: int
  cno_connection_activated :: bool
  cno_channelmapping_activated :: bool
  cno_log_callback :: bool
  cno_node_annotation :: addr
  cno_device_annotation :: addr
  cno_annotation_updated :: bool

section \<open>Callbacks\<close>

record nv_activation =
  na_side :: side
  na_name :: string
  na_transport_file :: "string option"

record nv_cm_activation =
  nca_name :: string
  nca_output_id :: string
  nca_active_map :: "active_map_entry list"

record log_message =
  lm_level :: int
  lm_categories :: string
  lm_message :: string

datatype callback_end = CallbackOk | CallbackErr string | CallbackPanic

text \<open>\<^verbatim>\<open>CallbackState\<close>, the closures of the application.\<close>

record 'w callbacks =
  cb_activation :: "(nv_activation \<Rightarrow> 'w \<Rightarrow> callback_end \<times> 'w) option"
  cb_channelmapping :: "(nv_cm_activation \<Rightarrow> 'w \<Rightarrow> callback_end \<times> 'w) option"
  cb_annotation :: "(annotation_update \<Rightarrow> 'w \<Rightarrow> callback_end \<times> 'w) option"
  cb_log :: "(log_message \<Rightarrow> 'w \<Rightarrow> callback_end \<times> 'w) option"

datatype 'w cell =
    CStr string
  | CPtrs "addr list"
  | CTags "c_tag list"
  | CAnnotation c_annotation
  | CEntries "c_map_entry list"
  | CInputs "c_input list"
  | COutputs "c_output list"
  | CMapping c_mapping
  | CAsset c_asset
  | CServices c_services
  | CServer addr
  | CCallbacks "'w callbacks"

record 'w memory =
  mem_next :: addr
  mem_cells :: "addr \<Rightarrow> 'w cell option"

definition no_memory :: "'w memory" where
  "no_memory = \<lparr>mem_next = 1, mem_cells = (\<lambda>_. None)\<rparr>"

section \<open>From Rust to C\<close>

datatype 'a made = Made 'a | Refused nv_error | Panicked

type_synonym ('w, 'a) marshal = "'w memory \<Rightarrow> 'a made \<times> 'w memory"

definition make_ret :: "'a \<Rightarrow> ('w, 'a) marshal" where
  "make_ret a mem = (Made a, mem)"

definition make_fail :: "nv_error \<Rightarrow> ('w, 'a) marshal" where
  "make_fail e mem = (Refused e, mem)"

definition make_bind :: "('w, 'a) marshal \<Rightarrow> ('a \<Rightarrow> ('w, 'b) marshal) \<Rightarrow> ('w, 'b) marshal" where
  "make_bind m f mem =
     (case m mem of
        (Made a, mem1) \<Rightarrow> f a mem1
      | (Refused e, mem1) \<Rightarrow> (Refused e, mem1)
      | (Panicked, mem1) \<Rightarrow> (Panicked, mem1))"

definition alloc :: "'w cell \<Rightarrow> ('w, addr) marshal" where
  "alloc cell mem =
     (Made (mem_next mem), mem\<lparr>mem_next := mem_next mem + 1, mem_cells := (mem_cells mem)(mem_next mem := Some cell)\<rparr>)"

fun make_list :: "('a \<Rightarrow> ('w, 'b) marshal) \<Rightarrow> 'a list \<Rightarrow> ('w, 'b list) marshal" where
  "make_list f [] = make_ret []"
| "make_list f (x # xs) = make_bind (f x) (\<lambda>y. make_bind (make_list f xs) (\<lambda>ys. make_ret (y # ys)))"

definition has_nul :: "string \<Rightarrow> bool" where
  "has_nul s \<longleftrightarrow> CHR 0x00 \<in> set s"

text \<open>\<^verbatim>\<open>CString::new(s)?\<close>\<close>

definition cstring :: "string \<Rightarrow> ('w, addr) marshal" where
  "cstring s = (if has_nul s then make_fail InteriorNul else alloc (CStr s))"

definition cstring_unless_empty :: "string \<Rightarrow> ('w, addr) marshal" where
  "cstring_unless_empty s = (if s = [] then make_ret 0 else cstring s)"

definition store_exact_string :: "string option \<Rightarrow> ('w, addr) marshal" where
  "store_exact_string v = (case v of None \<Rightarrow> make_ret 0 | Some s \<Rightarrow> cstring s)"

text \<open>Here an interior NUL is a panic, \<^verbatim>\<open>expect("interior NUL")\<close>.\<close>

definition store_string :: "string \<Rightarrow> ('w, addr) marshal" where
  "store_string s mem = (if has_nul s then (Panicked, mem) else alloc (CStr s) mem)"

definition store_optional_string :: "string \<Rightarrow> ('w, addr) marshal" where
  "store_optional_string s = (if s = [] then make_ret 0 else store_string s)"

text \<open>A pointer to an array that is null for an empty one.\<close>

definition array_or_null :: "('a list \<Rightarrow> 'w cell) \<Rightarrow> 'a list \<Rightarrow> ('w, addr) marshal" where
  "array_or_null cell xs = (if xs = [] then make_ret 0 else alloc (cell xs))"

definition marshal_tag :: "annotation_tag \<Rightarrow> ('w, c_tag) marshal" where
  "marshal_tag tag =
     make_bind (store_exact_string (Some (tag_key tag))) (\<lambda>key.
     make_bind (if tag_values_op tag = Reset then make_ret [] else make_list (\<lambda>v. store_exact_string (Some v)) (tag_values tag)) (\<lambda>ptrs.
     make_bind (array_or_null CPtrs ptrs) (\<lambda>values.
       make_ret \<lparr>ct_key = key, ct_values_op = update_to_ffi (tag_values_op tag), ct_values = values,
         ct_num_values = of_nat (length ptrs)\<rparr>)))"

text \<open>\<^verbatim>\<open>MarshalledAnnotation::new\<close> and \<^verbatim>\<open>as_ptr\<close>.\<close>

definition marshal_annotation :: "annotation \<Rightarrow> ('w, addr) marshal" where
  "marshal_annotation a =
     make_bind (if an_label_op a = Set then store_exact_string (an_label a) else make_ret 0) (\<lambda>label.
     make_bind (if an_description_op a = Set then store_exact_string (an_description a) else make_ret 0) (\<lambda>description.
     make_bind (if an_tags_op a = Reset then make_ret [] else make_list marshal_tag (an_tags a)) (\<lambda>tags.
     make_bind (array_or_null CTags tags) (\<lambda>tags_ptr.
       alloc (CAnnotation
         \<lparr>cn_label_op = update_to_ffi (an_label_op a), cn_label = label,
          cn_description_op = update_to_ffi (an_description_op a), cn_description = description,
          cn_tags_op = update_to_ffi (an_tags_op a), cn_tags = tags_ptr, cn_num_tags = of_nat (length tags)\<rparr>)))))"

definition marshal_input :: "cm_input \<Rightarrow> ('w, c_input) marshal" where
  "marshal_input i =
     make_bind (store_string (ci_id i)) (\<lambda>id.
     make_bind (store_optional_string (ci_name i)) (\<lambda>name.
     make_bind (store_optional_string (ci_description i)) (\<lambda>description.
     make_bind (store_optional_string (ci_parent_name i)) (\<lambda>parent_name.
     make_bind (make_list store_string (ci_channel_labels i)) (\<lambda>labels.
     make_bind (alloc (CPtrs labels)) (\<lambda>channel_labels.
       make_ret \<lparr>cin_id = id, cin_name = name, cin_description = description, cin_channel_labels = channel_labels,
         cin_num_channel_labels = length (ci_channel_labels i), cin_parent_name = parent_name,
         cin_parent_type = parent_type_to_ffi (ci_parent_type i), cin_reordering = ci_reordering i,
         cin_block_size = ci_block_size i\<rparr>))))))"

text \<open>No routable inputs at all is null, an empty list of them an empty array.\<close>

definition marshal_routable :: "string list option \<Rightarrow> ('w, addr \<times> nat) marshal" where
  "marshal_routable r =
     (case r of
        None \<Rightarrow> make_ret (0, 0)
      | Some ids \<Rightarrow>
          make_bind (make_list store_string ids) (\<lambda>ptrs. make_bind (alloc (CPtrs ptrs)) (\<lambda>p. make_ret (p, length ptrs))))"

definition marshal_output :: "cm_output \<Rightarrow> ('w, c_output) marshal" where
  "marshal_output out =
     make_bind (store_string (co_id out)) (\<lambda>id.
     make_bind (store_optional_string (co_name out)) (\<lambda>name.
     make_bind (store_optional_string (co_description out)) (\<lambda>description.
     make_bind (store_optional_string (co_sender_name out)) (\<lambda>sender_name.
     make_bind (make_list store_string (co_channel_labels out)) (\<lambda>labels.
     make_bind (alloc (CPtrs labels)) (\<lambda>channel_labels.
     make_bind (marshal_routable (co_routable_inputs out)) (\<lambda>routable.
       make_ret \<lparr>cou_id = id, cou_name = name, cou_description = description, cou_channel_labels = channel_labels,
         cou_num_channel_labels = length (co_channel_labels out), cou_sender_name = sender_name,
         cou_routable_inputs = fst routable, cou_num_routable_inputs = snd routable\<rparr>)))))))"

definition marshal_channelmapping :: "channelmapping_config \<Rightarrow> ('w, addr) marshal" where
  "marshal_channelmapping m =
     make_bind (make_list marshal_input (cc_inputs m)) (\<lambda>inputs.
     make_bind (make_list marshal_output (cc_outputs m)) (\<lambda>outputs.
     make_bind (alloc (CInputs inputs)) (\<lambda>inputs_ptr.
     make_bind (alloc (COutputs outputs)) (\<lambda>outputs_ptr.
       alloc (CMapping \<lparr>cma_inputs = inputs_ptr, cma_num_inputs = length inputs,
         cma_outputs = outputs_ptr, cma_num_outputs = length outputs\<rparr>)))))"

definition marshal_entry :: "active_map_entry \<Rightarrow> ('w, c_map_entry) marshal" where
  "marshal_entry e =
     make_bind (case am_input_id e of None \<Rightarrow> make_ret 0 | Some i \<Rightarrow> store_string i) (\<lambda>input_id.
       make_ret \<lparr>ce_input_id = input_id, ce_input_channel = (case am_input_channel e of Some n \<Rightarrow> n | None \<Rightarrow> 0)\<rparr>)"

definition marshal_active_map :: "active_map_entry list \<Rightarrow> ('w, addr \<times> nat) marshal" where
  "marshal_active_map es =
     make_bind (make_list marshal_entry es) (\<lambda>entries.
     make_bind (alloc (CEntries entries)) (\<lambda>p. make_ret (p, length entries)))"

definition marshal_asset :: "asset_config \<Rightarrow> ('w, addr) marshal" where
  "marshal_asset a =
     (if ac_manufacturer a = [] \<or> ac_product a = [] \<or> ac_instance_id a = [] \<or> ac_functions a = [] \<or> [] \<in> set (ac_functions a)
      then make_fail InvalidConfig
      else
        make_bind (cstring (ac_manufacturer a)) (\<lambda>manufacturer.
        make_bind (cstring (ac_product a)) (\<lambda>product.
        make_bind (cstring (ac_instance_id a)) (\<lambda>instance_id.
        make_bind (make_list cstring (ac_functions a)) (\<lambda>functions.
        make_bind (alloc (CPtrs functions)) (\<lambda>function_ptrs.
          alloc (CAsset \<lparr>cas_manufacturer = manufacturer, cas_product = product, cas_instance_id = instance_id,
            cas_functions = function_ptrs, cas_num_functions = of_nat (length functions)\<rparr>)))))))"

definition marshal_services :: "port network_services_config \<Rightarrow> ('w, addr) marshal" where
  "marshal_services s =
     make_bind (cstring_unless_empty (ns_domain s)) (\<lambda>domain.
     make_bind (cstring_unless_empty (ns_registration_address s)) (\<lambda>registration_address.
     make_bind (cstring_unless_empty (ns_registration_version s)) (\<lambda>registration_version.
     make_bind (cstring_unless_empty (ns_system_address s)) (\<lambda>system_address.
     make_bind (cstring_unless_empty (ns_system_version s)) (\<lambda>system_version.
       alloc (CServices \<lparr>cse_domain = domain, cse_registration_address = registration_address,
         cse_registration_port = ucast (ns_registration_port s), cse_registration_version = registration_version,
         cse_system_address = system_address, cse_system_port = ucast (ns_system_port s),
         cse_system_version = system_version\<rparr>))))))"

definition marshal_option :: "('a \<Rightarrow> ('w, addr) marshal) \<Rightarrow> 'a option \<Rightarrow> ('w, addr) marshal" where
  "marshal_option f v = (case v of None \<Rightarrow> make_ret 0 | Some a \<Rightarrow> f a)"

section \<open>From C to Rust\<close>

definition byte :: "char \<Rightarrow> nat" where "byte c = of_char c"

definition continuation :: "char \<Rightarrow> bool" where
  "continuation c \<longleftrightarrow> 0x80 \<le> byte c \<and> byte c \<le> 0xBF"

text \<open>\<^verbatim>\<open>std::str::from_utf8\<close>: the second byte of a long sequence has a range of its own.\<close>

definition second_byte_ok :: "nat \<Rightarrow> char \<Rightarrow> bool" where
  "second_byte_ok n c =
     (if n = 0xE0 then 0xA0 \<le> byte c \<and> byte c \<le> 0xBF
      else if n = 0xED then 0x80 \<le> byte c \<and> byte c \<le> 0x9F
      else if n = 0xF0 then 0x90 \<le> byte c \<and> byte c \<le> 0xBF
      else if n = 0xF4 then 0x80 \<le> byte c \<and> byte c \<le> 0x8F
      else continuation c)"

fun utf8_valid :: "string \<Rightarrow> bool" where
  "utf8_valid [] = True"
| "utf8_valid (a # s) =
     (if byte a < 0x80 then utf8_valid s
      else if 0xC2 \<le> byte a \<and> byte a \<le> 0xDF then (case s of b # s1 \<Rightarrow> continuation b \<and> utf8_valid s1 | _ \<Rightarrow> False)
      else if 0xE0 \<le> byte a \<and> byte a \<le> 0xEF then
        (case s of b # c # s1 \<Rightarrow> second_byte_ok (byte a) b \<and> continuation c \<and> utf8_valid s1 | _ \<Rightarrow> False)
      else if 0xF0 \<le> byte a \<and> byte a \<le> 0xF4 then
        (case s of b # c # d # s1 \<Rightarrow> second_byte_ok (byte a) b \<and> continuation c \<and> continuation d \<and> utf8_valid s1 | _ \<Rightarrow> False)
      else False)"

text \<open>What a trampoline reads: a value, something it answers with \<^verbatim>\<open>false\<close>, or what is not there.\<close>

datatype 'a seen = Seen 'a | Unfit | Wild

definition see_bind :: "'a seen \<Rightarrow> ('a \<Rightarrow> 'b seen) \<Rightarrow> 'b seen" where
  "see_bind x f = (case x of Seen a \<Rightarrow> f a | Unfit \<Rightarrow> Unfit | Wild \<Rightarrow> Wild)"

definition see_some :: "'a option \<Rightarrow> 'a seen" where
  "see_some x = (case x of Some a \<Rightarrow> Seen a | None \<Rightarrow> Unfit)"

fun see_list :: "('a \<Rightarrow> 'b seen) \<Rightarrow> 'a list \<Rightarrow> 'b list seen" where
  "see_list f [] = Seen []"
| "see_list f (x # xs) = see_bind (f x) (\<lambda>y. see_bind (see_list f xs) (\<lambda>ys. Seen (y # ys)))"

definition cstr :: "'w memory \<Rightarrow> addr \<Rightarrow> string seen" where
  "cstr mem p = (case mem_cells mem p of Some (CStr s) \<Rightarrow> Seen s | _ \<Rightarrow> Wild)"

definition cstr_str :: "'w memory \<Rightarrow> addr \<Rightarrow> string seen" where
  "cstr_str mem p = see_bind (cstr mem p) (\<lambda>s. if utf8_valid s then Seen s else Unfit)"

definition cstr_option :: "'w memory \<Rightarrow> addr \<Rightarrow> string option seen" where
  "cstr_option mem p = (if p = 0 then Seen None else see_bind (cstr_str mem p) (\<lambda>s. Seen (Some s)))"

text \<open>The first \<open>n\<close> elements of an array; nothing is read of a null pointer.\<close>

definition see_array :: "('w cell \<Rightarrow> 'a list option) \<Rightarrow> 'w memory \<Rightarrow> addr \<Rightarrow> nat \<Rightarrow> 'a list seen" where
  "see_array elems mem p n =
     (if p = 0 \<or> n = 0 then Seen []
      else
        (case Option.bind (mem_cells mem p) elems of
           Some xs \<Rightarrow> if n \<le> length xs then Seen (take n xs) else Wild
         | None \<Rightarrow> Wild))"

fun ptrs_of :: "'w cell \<Rightarrow> addr list option" where
  "ptrs_of (CPtrs ps) = Some ps"
| "ptrs_of _ = None"

fun tags_of :: "'w cell \<Rightarrow> c_tag list option" where
  "tags_of (CTags ts) = Some ts"
| "tags_of _ = None"

fun entries_of :: "'w cell \<Rightarrow> c_map_entry list option" where
  "entries_of (CEntries es) = Some es"
| "entries_of _ = None"

definition callback_state :: "'w memory \<Rightarrow> addr \<Rightarrow> 'w callbacks seen" where
  "callback_state mem server =
     (case mem_cells mem server of
        Some (CServer user_data) \<Rightarrow>
          if user_data = 0 then Unfit
          else (case mem_cells mem user_data of Some (CCallbacks cbs) \<Rightarrow> Seen cbs | _ \<Rightarrow> Wild)
      | _ \<Rightarrow> Wild)"

text \<open>The callback runs; a panic or an error is \<^verbatim>\<open>false\<close>. Undefined behaviour is \<open>None\<close>.\<close>

definition trampoline_answer :: "('w \<Rightarrow> callback_end \<times> 'w) seen \<Rightarrow> 'w \<Rightarrow> (bool \<times> 'w) option" where
  "trampoline_answer x w =
     (case x of
        Seen run \<Rightarrow> (case run w of (e, w1) \<Rightarrow> Some (e = CallbackOk, w1))
      | Unfit \<Rightarrow> Some (False, w)
      | Wild \<Rightarrow> None)"

definition activation_trampoline ::
  "'w memory \<Rightarrow> addr \<Rightarrow> c_uint \<Rightarrow> addr \<Rightarrow> addr \<Rightarrow> 'w \<Rightarrow> (bool \<times> 'w) option" where
  "activation_trampoline mem server sd name transport_file =
     trampoline_answer
       (if server = 0 \<or> name = 0 then Unfit
        else
          see_bind (see_some (side_from_ffi sd)) (\<lambda>sd.
          see_bind (callback_state mem server) (\<lambda>cbs.
          see_bind (see_some (cb_activation cbs)) (\<lambda>callback.
          see_bind (cstr_str mem name) (\<lambda>name.
          see_bind (cstr_option mem transport_file) (\<lambda>file.
            Seen (callback \<lparr>na_side = sd, na_name = name, na_transport_file = file\<rparr>)))))))"

definition see_entry :: "'w memory \<Rightarrow> c_map_entry \<Rightarrow> active_map_entry seen" where
  "see_entry mem ch =
     see_bind (cstr_option mem (ce_input_id ch)) (\<lambda>input_id.
       Seen \<lparr>am_input_id = input_id, am_input_channel = map_option (\<lambda>_. ce_input_channel ch) input_id\<rparr>)"

definition channelmapping_activation_trampoline ::
  "'w memory \<Rightarrow> addr \<Rightarrow> addr \<Rightarrow> addr \<Rightarrow> addr \<Rightarrow> nat \<Rightarrow> 'w \<Rightarrow> (bool \<times> 'w) option" where
  "channelmapping_activation_trampoline mem server name output_id active_map num =
     trampoline_answer
       (if server = 0 \<or> name = 0 \<or> output_id = 0 then Unfit
        else
          see_bind (callback_state mem server) (\<lambda>cbs.
          see_bind (see_some (cb_channelmapping cbs)) (\<lambda>callback.
          see_bind (cstr_str mem name) (\<lambda>name.
          see_bind (cstr_str mem output_id) (\<lambda>output_id.
          see_bind (see_array entries_of mem active_map num) (\<lambda>chs.
          see_bind (see_list (see_entry mem) chs) (\<lambda>channels.
            Seen (callback \<lparr>nca_name = name, nca_output_id = output_id, nca_active_map = channels\<rparr>))))))))"

definition text_or_empty :: "'w memory \<Rightarrow> addr \<Rightarrow> string seen" where
  "text_or_empty mem p =
     (if p = 0 then Seen [] else see_bind (cstr mem p) (\<lambda>s. Seen (if utf8_valid s then s else [])))"

definition log_trampoline :: "'w memory \<Rightarrow> addr \<Rightarrow> addr \<Rightarrow> int \<Rightarrow> addr \<Rightarrow> 'w \<Rightarrow> 'w option" where
  "log_trampoline mem server categories level message w =
     map_option snd
       (trampoline_answer
         (if server = 0 then Unfit
          else
            see_bind (callback_state mem server) (\<lambda>cbs.
            see_bind (see_some (cb_log cbs)) (\<lambda>callback.
            see_bind (text_or_empty mem categories) (\<lambda>categories.
            see_bind (text_or_empty mem message) (\<lambda>message.
              Seen (callback \<lparr>lm_level = level, lm_categories = categories, lm_message = message\<rparr>)))))) w)"

definition see_required :: "'w memory \<Rightarrow> addr \<Rightarrow> string seen" where
  "see_required mem p = see_bind (cstr_option mem p) see_some"

definition see_tag :: "'w memory \<Rightarrow> c_tag \<Rightarrow> annotation_tag seen" where
  "see_tag mem tag =
     see_bind (see_required mem (ct_key tag)) (\<lambda>key.
     see_bind (see_some (update_from_ffi (ct_values_op tag))) (\<lambda>op.
     see_bind (see_array ptrs_of mem (ct_values tag) (unat (ct_num_values tag))) (\<lambda>ptrs.
     see_bind (see_list (see_required mem) ptrs) (\<lambda>values.
       Seen \<lparr>tag_key = key, tag_values_op = op, tag_values = values\<rparr>))))"

definition see_annotation :: "'w memory \<Rightarrow> c_annotation \<Rightarrow> annotation seen" where
  "see_annotation mem raw =
     see_bind (see_some (update_from_ffi (cn_label_op raw))) (\<lambda>label_op.
     see_bind (see_some (update_from_ffi (cn_description_op raw))) (\<lambda>description_op.
     see_bind (see_some (update_from_ffi (cn_tags_op raw))) (\<lambda>tags_op.
     see_bind (cstr_option mem (cn_label raw)) (\<lambda>label.
     see_bind (cstr_option mem (cn_description raw)) (\<lambda>description.
     see_bind (see_array tags_of mem (cn_tags raw) (unat (cn_num_tags raw))) (\<lambda>raw_tags.
     see_bind (see_list (see_tag mem) raw_tags) (\<lambda>tags.
       Seen \<lparr>an_label_op = label_op, an_label = label, an_description_op = description_op, an_description = description,
         an_tags_op = tags_op, an_tags = tags\<rparr>)))))))"

definition annotation_trampoline ::
  "'w memory \<Rightarrow> addr \<Rightarrow> c_uint \<Rightarrow> addr \<Rightarrow> addr \<Rightarrow> 'w \<Rightarrow> (bool \<times> 'w) option" where
  "annotation_trampoline mem server resource_type name annotation =
     trampoline_answer
       (if server = 0 \<or> annotation = 0 then Unfit
        else
          see_bind (see_some (resource_type_from_ffi resource_type)) (\<lambda>rt.
          see_bind (callback_state mem server) (\<lambda>cbs.
          see_bind (see_some (cb_annotation cbs)) (\<lambda>callback.
          see_bind (cstr_option mem name) (\<lambda>name.
          see_bind (case mem_cells mem annotation of Some (CAnnotation raw) \<Rightarrow> see_annotation mem raw | _ \<Rightarrow> Wild) (\<lambda>a.
            Seen (callback \<lparr>au_resource_type = rt, au_name = name, au_annotation = a\<rparr>)))))))"

section \<open>Calls of libnvnmos\<close>

text \<open>
  The C functions. A call gets the memory that its pointers are into; an id comes back in a buffer of
  \<^verbatim>\<open>NVNMOS_ID_LEN\<close> bytes.
\<close>

record 'w c_lib =
  c_create :: "'w memory \<Rightarrow> c_node \<Rightarrow> addr \<Rightarrow> 'w \<Rightarrow> bool \<times> 'w"
  c_destroy :: "addr \<Rightarrow> 'w memory \<Rightarrow> 'w \<Rightarrow> 'w"
  c_add_sender :: "addr \<Rightarrow> 'w memory \<Rightarrow> c_sender \<Rightarrow> 'w \<Rightarrow> bool \<times> 'w"
  c_add_receiver :: "addr \<Rightarrow> 'w memory \<Rightarrow> c_receiver \<Rightarrow> 'w \<Rightarrow> bool \<times> 'w"
  c_remove_sender :: "addr \<Rightarrow> 'w memory \<Rightarrow> addr \<Rightarrow> 'w \<Rightarrow> bool \<times> 'w"
  c_remove_receiver :: "addr \<Rightarrow> 'w memory \<Rightarrow> addr \<Rightarrow> 'w \<Rightarrow> bool \<times> 'w"
  c_add_channelmapping :: "addr \<Rightarrow> 'w memory \<Rightarrow> addr \<Rightarrow> addr \<Rightarrow> 'w \<Rightarrow> bool \<times> 'w"
  c_remove_channelmapping :: "addr \<Rightarrow> 'w memory \<Rightarrow> addr \<Rightarrow> 'w \<Rightarrow> bool \<times> 'w"
  c_channelmapping_activate :: "addr \<Rightarrow> 'w memory \<Rightarrow> addr \<Rightarrow> addr \<Rightarrow> addr \<times> nat \<Rightarrow> 'w \<Rightarrow> bool \<times> 'w"
  c_connection_activate :: "addr \<Rightarrow> 'w memory \<Rightarrow> c_uint \<Rightarrow> addr \<Rightarrow> addr \<Rightarrow> 'w \<Rightarrow> bool \<times> 'w"
  c_annotation_update :: "addr \<Rightarrow> 'w memory \<Rightarrow> c_uint \<Rightarrow> addr \<Rightarrow> addr \<Rightarrow> 'w \<Rightarrow> bool \<times> 'w"
  c_get_node_id :: "addr \<Rightarrow> 'w \<Rightarrow> bool \<times> string"
  c_get_device_id :: "addr \<Rightarrow> 'w \<Rightarrow> bool \<times> string"
  c_get_sender_id :: "addr \<Rightarrow> 'w memory \<Rightarrow> addr \<Rightarrow> 'w \<Rightarrow> bool \<times> string"
  c_get_receiver_id :: "addr \<Rightarrow> 'w memory \<Rightarrow> addr \<Rightarrow> 'w \<Rightarrow> bool \<times> string"
  c_get_source_id :: "addr \<Rightarrow> 'w memory \<Rightarrow> addr \<Rightarrow> 'w \<Rightarrow> bool \<times> string"
  c_get_flow_id :: "addr \<Rightarrow> 'w memory \<Rightarrow> addr \<Rightarrow> 'w \<Rightarrow> bool \<times> string"
  c_get_id :: "addr \<Rightarrow> 'w memory \<Rightarrow> c_uint \<Rightarrow> addr \<Rightarrow> 'w \<Rightarrow> bool \<times> string"
  c_make_node_id :: "'w memory \<Rightarrow> addr \<Rightarrow> bool \<times> string"
  c_make_device_id :: "'w memory \<Rightarrow> addr \<Rightarrow> bool \<times> string"
  c_make_sender_id :: "'w memory \<Rightarrow> addr \<Rightarrow> addr \<Rightarrow> bool \<times> string"
  c_make_receiver_id :: "'w memory \<Rightarrow> addr \<Rightarrow> addr \<Rightarrow> bool \<times> string"
  c_make_source_id :: "'w memory \<Rightarrow> addr \<Rightarrow> addr \<Rightarrow> bool \<times> string"
  c_make_flow_id :: "'w memory \<Rightarrow> addr \<Rightarrow> addr \<Rightarrow> bool \<times> string"
  c_make_id :: "'w memory \<Rightarrow> addr \<Rightarrow> c_uint \<Rightarrow> addr \<Rightarrow> bool \<times> string"

text \<open>Marshal, call, drop what was marshalled. A panic is \<open>None\<close>.\<close>

definition call_lib ::
  "('w, 'a) marshal \<Rightarrow> ('w memory \<Rightarrow> 'a \<Rightarrow> 'w \<Rightarrow> bool \<times> 'w) \<Rightarrow> string \<Rightarrow> 'w \<Rightarrow> ((nv_error + unit) \<times> 'w) option" where
  "call_lib m f what w =
     (case m no_memory of
        (Made a, mem) \<Rightarrow> (case f mem a w of (ok, w1) \<Rightarrow> Some (if ok then Inr () else Inl (Failed what), w1))
      | (Refused e, _) \<Rightarrow> Some (Inl e, w)
      | (Panicked, _) \<Rightarrow> None)"

definition marshal_sender :: "sender_config \<Rightarrow> ('w, c_sender) marshal" where
  "marshal_sender cfg =
     make_bind (cstring (sc_transport_file cfg)) (\<lambda>file.
     make_bind (marshal_option marshal_annotation (sc_source_annotation cfg)) (\<lambda>source.
     make_bind (marshal_option marshal_annotation (sc_flow_annotation cfg)) (\<lambda>flow.
     make_bind (marshal_option marshal_annotation (sc_sender_annotation cfg)) (\<lambda>sender.
       make_ret \<lparr>csn_transport = transport_to_ffi (sc_transport cfg), csn_transport_file = file,
         csn_source_annotation = source, csn_flow_annotation = flow, csn_sender_annotation = sender\<rparr>))))"

definition add_sender :: "'w c_lib \<Rightarrow> addr \<Rightarrow> sender_config \<Rightarrow> 'w \<Rightarrow> ((nv_error + unit) \<times> 'w) option" where
  "add_sender lib raw cfg = call_lib (marshal_sender cfg) (c_add_sender lib raw) ''add_nmos_sender_to_node_server''"

definition marshal_receiver :: "receiver_config \<Rightarrow> ('w, c_receiver) marshal" where
  "marshal_receiver cfg =
     make_bind (cstring (rc_transport_file cfg)) (\<lambda>file.
     make_bind (marshal_option marshal_annotation (rc_receiver_annotation cfg)) (\<lambda>receiver.
       make_ret \<lparr>crc_transport = transport_to_ffi (rc_transport cfg), crc_transport_file = file,
         crc_receiver_annotation = receiver\<rparr>))"

definition add_receiver :: "'w c_lib \<Rightarrow> addr \<Rightarrow> receiver_config \<Rightarrow> 'w \<Rightarrow> ((nv_error + unit) \<times> 'w) option" where
  "add_receiver lib raw cfg = call_lib (marshal_receiver cfg) (c_add_receiver lib raw) ''add_nmos_receiver_to_node_server''"

definition remove_sender :: "'w c_lib \<Rightarrow> addr \<Rightarrow> string \<Rightarrow> 'w \<Rightarrow> ((nv_error + unit) \<times> 'w) option" where
  "remove_sender lib raw name = call_lib (cstring name) (c_remove_sender lib raw) ''remove_nmos_sender_from_node_server''"

definition remove_receiver :: "'w c_lib \<Rightarrow> addr \<Rightarrow> string \<Rightarrow> 'w \<Rightarrow> ((nv_error + unit) \<times> 'w) option" where
  "remove_receiver lib raw name = call_lib (cstring name) (c_remove_receiver lib raw) ''remove_nmos_receiver_from_node_server''"

definition add_channelmapping ::
  "'w c_lib \<Rightarrow> addr \<Rightarrow> string \<Rightarrow> channelmapping_config \<Rightarrow> 'w \<Rightarrow> ((nv_error + unit) \<times> 'w) option" where
  "add_channelmapping lib raw name m =
     call_lib (make_bind (marshal_channelmapping m) (\<lambda>mapping. make_bind (cstring name) (\<lambda>name. make_ret (name, mapping))))
       (\<lambda>mem (name, mapping). c_add_channelmapping lib raw mem name mapping) ''add_nmos_channelmapping_to_node_server''"

definition server_remove_channelmapping :: "'w c_lib \<Rightarrow> addr \<Rightarrow> string \<Rightarrow> 'w \<Rightarrow> ((nv_error + unit) \<times> 'w) option" where
  "server_remove_channelmapping lib raw name =
     call_lib (cstring name) (c_remove_channelmapping lib raw) ''remove_nmos_channelmapping_from_node_server''"

definition activate_channelmapping ::
  "'w c_lib \<Rightarrow> addr \<Rightarrow> string \<Rightarrow> string \<Rightarrow> active_map_entry list \<Rightarrow> 'w \<Rightarrow> ((nv_error + unit) \<times> 'w) option" where
  "activate_channelmapping lib raw name output_id active_map =
     call_lib
       (make_bind (cstring name) (\<lambda>name. make_bind (cstring output_id) (\<lambda>output_id.
          make_bind (marshal_active_map active_map) (\<lambda>entries. make_ret (name, output_id, entries)))))
       (\<lambda>mem (name, output_id, entries). c_channelmapping_activate lib raw mem name output_id entries)
       ''nmos_channelmapping_activate''"

definition activate_connection ::
  "'w c_lib \<Rightarrow> addr \<Rightarrow> side \<Rightarrow> string \<Rightarrow> string option \<Rightarrow> 'w \<Rightarrow> ((nv_error + unit) \<times> 'w) option" where
  "activate_connection lib raw sd name file =
     call_lib (make_bind (cstring name) (\<lambda>name. make_bind (marshal_option cstring file) (\<lambda>file. make_ret (name, file))))
       (\<lambda>mem (name, file). c_connection_activate lib raw mem (side_to_ffi sd) name file) ''nmos_connection_activate''"

definition update_annotation ::
  "'w c_lib \<Rightarrow> addr \<Rightarrow> resource_type \<Rightarrow> string option \<Rightarrow> annotation \<Rightarrow> 'w \<Rightarrow> ((nv_error + unit) \<times> 'w) option" where
  "update_annotation lib raw rt name a =
     call_lib (make_bind (marshal_annotation a) (\<lambda>a. make_bind (marshal_option cstring name) (\<lambda>name. make_ret (a, name))))
       (\<lambda>mem (a, name). c_annotation_update lib raw mem (resource_type_to_ffi rt) name a) ''nmos_annotation_update''"

section \<open>Ids\<close>

definition capture_id :: "string \<Rightarrow> nv_error + string" where
  "capture_id buf =
     (let id = takeWhile (\<lambda>c. c \<noteq> CHR 0x00) buf in if utf8_valid id then Inr id else Inl InvalidUtf8)"

definition required_id :: "string \<Rightarrow> bool \<times> string \<Rightarrow> nv_error + string" where
  "required_id what r = (if fst r then capture_id (snd r) else Inl (Failed what))"

definition found_id :: "bool \<times> string \<Rightarrow> nv_error + string option" where
  "found_id r = (if fst r then (case capture_id (snd r) of Inl e \<Rightarrow> Inl e | Inr i \<Rightarrow> Inr (Some i)) else Inr None)"

definition marshalled :: "('w, 'a) marshal \<Rightarrow> ('w memory \<Rightarrow> 'a \<Rightarrow> nv_error + 'b) \<Rightarrow> (nv_error + 'b) option" where
  "marshalled m f =
     (case m no_memory of (Made a, mem) \<Rightarrow> Some (f mem a) | (Refused e, _) \<Rightarrow> Some (Inl e) | (Panicked, _) \<Rightarrow> None)"

definition node_id :: "'w c_lib \<Rightarrow> addr \<Rightarrow> 'w \<Rightarrow> nv_error + string" where
  "node_id lib raw w = required_id ''nmos_get_node_id'' (c_get_node_id lib raw w)"

definition device_id :: "'w c_lib \<Rightarrow> addr \<Rightarrow> 'w \<Rightarrow> nv_error + string" where
  "device_id lib raw w = required_id ''nmos_get_device_id'' (c_get_device_id lib raw w)"

definition sender_id :: "'w c_lib \<Rightarrow> addr \<Rightarrow> string \<Rightarrow> 'w \<Rightarrow> (nv_error + string option) option" where
  "sender_id lib raw name w = marshalled (cstring name) (\<lambda>mem p. found_id (c_get_sender_id lib raw mem p w))"

definition receiver_id :: "'w c_lib \<Rightarrow> addr \<Rightarrow> string \<Rightarrow> 'w \<Rightarrow> (nv_error + string option) option" where
  "receiver_id lib raw name w = marshalled (cstring name) (\<lambda>mem p. found_id (c_get_receiver_id lib raw mem p w))"

definition source_id :: "'w c_lib \<Rightarrow> addr \<Rightarrow> string \<Rightarrow> 'w \<Rightarrow> (nv_error + string option) option" where
  "source_id lib raw name w = marshalled (cstring name) (\<lambda>mem p. found_id (c_get_source_id lib raw mem p w))"

definition flow_id :: "'w c_lib \<Rightarrow> addr \<Rightarrow> string \<Rightarrow> 'w \<Rightarrow> (nv_error + string option) option" where
  "flow_id lib raw name w = marshalled (cstring name) (\<lambda>mem p. found_id (c_get_flow_id lib raw mem p w))"

definition get_id :: "'w c_lib \<Rightarrow> addr \<Rightarrow> resource_type \<Rightarrow> string option \<Rightarrow> 'w \<Rightarrow> (nv_error + string option) option" where
  "get_id lib raw rt name w =
     marshalled (marshal_option cstring name) (\<lambda>mem p. found_id (c_get_id lib raw mem (resource_type_to_ffi rt) p w))"

definition make_node_id :: "'w c_lib \<Rightarrow> string \<Rightarrow> (nv_error + string) option" where
  "make_node_id lib seed = marshalled (cstring seed) (\<lambda>mem p. required_id ''nmos_make_node_id'' (c_make_node_id lib mem p))"

definition make_device_id :: "'w c_lib \<Rightarrow> string \<Rightarrow> (nv_error + string) option" where
  "make_device_id lib seed =
     marshalled (cstring seed) (\<lambda>mem p. required_id ''nmos_make_device_id'' (c_make_device_id lib mem p))"

definition seed_and_name :: "string \<Rightarrow> string \<Rightarrow> ('w, addr \<times> addr) marshal" where
  "seed_and_name seed name = make_bind (cstring seed) (\<lambda>s. make_bind (cstring name) (\<lambda>n. make_ret (s, n)))"

definition make_sender_id :: "'w c_lib \<Rightarrow> string \<Rightarrow> string \<Rightarrow> (nv_error + string) option" where
  "make_sender_id lib seed name =
     marshalled (seed_and_name seed name) (\<lambda>mem (s, n). required_id ''nmos_make_sender_id'' (c_make_sender_id lib mem s n))"

definition make_receiver_id :: "'w c_lib \<Rightarrow> string \<Rightarrow> string \<Rightarrow> (nv_error + string) option" where
  "make_receiver_id lib seed name =
     marshalled (seed_and_name seed name) (\<lambda>mem (s, n). required_id ''nmos_make_receiver_id'' (c_make_receiver_id lib mem s n))"

definition make_source_id :: "'w c_lib \<Rightarrow> string \<Rightarrow> string \<Rightarrow> (nv_error + string) option" where
  "make_source_id lib seed name =
     marshalled (seed_and_name seed name) (\<lambda>mem (s, n). required_id ''nmos_make_source_id'' (c_make_source_id lib mem s n))"

definition make_flow_id :: "'w c_lib \<Rightarrow> string \<Rightarrow> string \<Rightarrow> (nv_error + string) option" where
  "make_flow_id lib seed name =
     marshalled (seed_and_name seed name) (\<lambda>mem (s, n). required_id ''nmos_make_flow_id'' (c_make_flow_id lib mem s n))"

definition make_id :: "'w c_lib \<Rightarrow> string \<Rightarrow> resource_type \<Rightarrow> string option \<Rightarrow> (nv_error + string) option" where
  "make_id lib seed rt name =
     marshalled (make_bind (cstring seed) (\<lambda>s. make_bind (marshal_option cstring name) (\<lambda>n. make_ret (s, n))))
       (\<lambda>mem (s, n). required_id ''nmos_make_id'' (c_make_id lib mem s (resource_type_to_ffi rt) n))"

section \<open>The life of a server\<close>

record node_server =
  nsv_raw :: addr
  nsv_state :: "addr option"

definition any_callback :: "'w callbacks \<Rightarrow> bool" where
  "any_callback cbs \<longleftrightarrow> cb_activation cbs \<noteq> None \<or> cb_channelmapping cbs \<noteq> None \<or> cb_annotation cbs \<noteq> None \<or> cb_log cbs \<noteq> None"

definition marshal_node :: "node_config \<Rightarrow> int \<Rightarrow> 'w callbacks \<Rightarrow> ('w, c_node \<times> addr option) marshal" where
  "marshal_node cfg log_level cbs =
     make_bind (cstring_unless_empty (nc_seed cfg)) (\<lambda>seed.
     make_bind (cstring_unless_empty (nc_host_name cfg)) (\<lambda>host_name.
     make_bind (make_list cstring (nc_host_addresses cfg)) (\<lambda>address_ptrs.
     make_bind (array_or_null CPtrs address_ptrs) (\<lambda>host_addresses.
     make_bind (cstring_unless_empty (nc_label cfg)) (\<lambda>label.
     make_bind (cstring_unless_empty (nc_description cfg)) (\<lambda>description.
     make_bind (marshal_option marshal_asset (nc_asset_tags cfg)) (\<lambda>asset.
     make_bind (marshal_option marshal_services (nc_network_services cfg)) (\<lambda>services.
     make_bind (if any_callback cbs then make_bind (alloc (CCallbacks cbs)) (\<lambda>p. make_ret (Some p)) else make_ret None) (\<lambda>state.
     make_bind (marshal_option marshal_annotation (nc_node_annotation cfg)) (\<lambda>node_annotation.
     make_bind (marshal_option marshal_annotation (nc_device_annotation cfg)) (\<lambda>device_annotation.
       make_ret
         (\<lparr>cno_seed = seed, cno_host_name = host_name, cno_host_addresses = host_addresses,
           cno_num_host_addresses = of_nat (length address_ptrs), cno_http_port = ucast (nc_http_port cfg),
           cno_label = label, cno_description = description, cno_asset_tags = asset, cno_network_services = services,
           cno_log_level = log_level, cno_connection_activated = (cb_activation cbs \<noteq> None),
           cno_channelmapping_activated = (cb_channelmapping cbs \<noteq> None), cno_log_callback = (cb_log cbs \<noteq> None),
           cno_node_annotation = node_annotation, cno_device_annotation = device_annotation,
           cno_annotation_updated = (cb_annotation cbs \<noteq> None)\<rparr>, state))))))))))))"

text \<open>Everything up to the call: the box of the server has its \<open>user_data\<close> before libnvnmos sees it.\<close>

definition create_begin :: "node_config \<Rightarrow> int \<Rightarrow> 'w callbacks \<Rightarrow> ('w, c_node \<times> node_server) marshal" where
  "create_begin cfg log_level cbs =
     make_bind (marshal_node cfg log_level cbs) (\<lambda>(node, state).
     make_bind (alloc (CServer (case state of Some p \<Rightarrow> p | None \<Rightarrow> 0))) (\<lambda>raw.
       make_ret (node, \<lparr>nsv_raw = raw, nsv_state = state\<rparr>)))"

definition owned_cells :: "node_server \<Rightarrow> addr set" where
  "owned_cells srv = insert (nsv_raw srv) (set_option (nsv_state srv))"

definition free_cells :: "addr set \<Rightarrow> 'w memory \<Rightarrow> 'w memory" where
  "free_cells ps mem = mem\<lparr>mem_cells := (\<lambda>p. if p \<in> ps then None else mem_cells mem p)\<rparr>"

text \<open>What was marshalled for the call and is dropped after it: all but the server and its callbacks.\<close>

definition temporaries :: "'w memory \<Rightarrow> 'w memory \<Rightarrow> node_server \<Rightarrow> addr set" where
  "temporaries old mem srv = {mem_next old ..< mem_next mem} - owned_cells srv"

definition create_server ::
  "'w c_lib \<Rightarrow> node_config \<Rightarrow> int \<Rightarrow> 'w callbacks \<Rightarrow> 'w memory \<Rightarrow> 'w
    \<Rightarrow> ((nv_error + node_server) \<times> 'w memory \<times> 'w) option" where
  "create_server lib cfg log_level cbs mem w =
     (case create_begin cfg log_level cbs mem of
        (Made (node, srv), mem1) \<Rightarrow>
          (case c_create lib mem1 node (nsv_raw srv) w of
             (ok, w1) \<Rightarrow>
               let mem2 = free_cells (temporaries mem mem1 srv) mem1 in
               if ok then Some (Inr srv, mem2, w1)
               else Some (Inl (Failed ''create_nmos_node_server''), free_cells (owned_cells srv) mem2, w1))
      | (Refused e, _) \<Rightarrow> Some (Inl e, mem, w)
      | (Panicked, _) \<Rightarrow> None)"

text \<open>
  \<^verbatim>\<open>NodeServerBuilder\<close>. The configuration of \<open>Nvn_Lib\<close> leaves out the level of logging, so that it
  stands beside it here. A log callback cannot fail; it may only panic.
\<close>

record 'w node_server_builder =
  bu_config :: node_config
  bu_log_level :: int
  bu_callbacks :: "'w callbacks"

definition no_callbacks :: "'w callbacks" where
  "no_callbacks = \<lparr>cb_activation = None, cb_channelmapping = None, cb_annotation = None, cb_log = None\<rparr>"

definition server_builder :: "node_config \<Rightarrow> int \<Rightarrow> 'w node_server_builder" where
  "server_builder cfg log_level = \<lparr>bu_config = cfg, bu_log_level = log_level, bu_callbacks = no_callbacks\<rparr>"

definition on_activation ::
  "(nv_activation \<Rightarrow> 'w \<Rightarrow> callback_end \<times> 'w) \<Rightarrow> 'w node_server_builder \<Rightarrow> 'w node_server_builder" where
  "on_activation f b = b\<lparr>bu_callbacks := (bu_callbacks b)\<lparr>cb_activation := Some f\<rparr>\<rparr>"

definition on_channelmapping_activation ::
  "(nv_cm_activation \<Rightarrow> 'w \<Rightarrow> callback_end \<times> 'w) \<Rightarrow> 'w node_server_builder \<Rightarrow> 'w node_server_builder" where
  "on_channelmapping_activation f b = b\<lparr>bu_callbacks := (bu_callbacks b)\<lparr>cb_channelmapping := Some f\<rparr>\<rparr>"

definition builder_on_annotation_updated ::
  "(annotation_update \<Rightarrow> 'w \<Rightarrow> callback_end \<times> 'w) \<Rightarrow> 'w node_server_builder \<Rightarrow> 'w node_server_builder" where
  "builder_on_annotation_updated f b = b\<lparr>bu_callbacks := (bu_callbacks b)\<lparr>cb_annotation := Some f\<rparr>\<rparr>"

definition on_log ::
  "(log_message \<Rightarrow> 'w \<Rightarrow> callback_end \<times> 'w) \<Rightarrow> 'w node_server_builder \<Rightarrow> 'w node_server_builder" where
  "on_log f b = b\<lparr>bu_callbacks := (bu_callbacks b)\<lparr>cb_log := Some f\<rparr>\<rparr>"

definition build_server ::
  "'w c_lib \<Rightarrow> 'w node_server_builder \<Rightarrow> 'w memory \<Rightarrow> 'w \<Rightarrow> ((nv_error + node_server) \<times> 'w memory \<times> 'w) option" where
  "build_server lib b = create_server lib (bu_config b) (bu_log_level b) (bu_callbacks b)"

definition new_server ::
  "'w c_lib \<Rightarrow> node_config \<Rightarrow> int \<Rightarrow> 'w memory \<Rightarrow> 'w \<Rightarrow> ((nv_error + node_server) \<times> 'w memory \<times> 'w) option" where
  "new_server lib cfg log_level = create_server lib cfg log_level no_callbacks"

text \<open>
  Dropping a server: \<^verbatim>\<open>Drop::drop\<close> with the call that joins the threads of libnvnmos, and then the fields
  in the order in which they are declared. The call sees the memory as it is at that point.
\<close>

datatype drop_action = CallDestroy addr | FreeBox "addr set"

definition drop_actions :: "node_server \<Rightarrow> drop_action list" where
  "drop_actions srv = [CallDestroy (nsv_raw srv), FreeBox {nsv_raw srv}, FreeBox (set_option (nsv_state srv))]"

fun run_drop_action :: "'w c_lib \<Rightarrow> drop_action \<Rightarrow> 'w memory \<times> 'w \<Rightarrow> 'w memory \<times> 'w" where
  "run_drop_action lib (CallDestroy raw) (mem, w) = (mem, c_destroy lib raw mem w)"
| "run_drop_action lib (FreeBox ps) (mem, w) = (free_cells ps mem, w)"

definition drop_server :: "'w c_lib \<Rightarrow> node_server \<Rightarrow> 'w memory \<Rightarrow> 'w \<Rightarrow> 'w memory \<times> 'w" where
  "drop_server lib srv mem w = fold (run_drop_action lib) (drop_actions srv) (mem, w)"

end
