(* ===== verification/Nvn_FfiFacts.thy ===== *)
theory Nvn_FfiFacts
  imports Nvn_Ffi
begin

text \<open>
  What the \<^verbatim>\<open>nvnmos\<close> crate hands to libnvnmos is what it was given: each marshalled structure
  represents its Rust value in the memory of the call, and a callback that gets such a structure back
  sees the value again. A server's callbacks find their state as long as libnvnmos may call them.
\<close>

section \<open>Building memory\<close>

definition fits :: "'w memory \<Rightarrow> bool" where
  "fits mem \<longleftrightarrow> 0 < mem_next mem \<and> mem_cells mem 0 = None \<and> (\<forall>p. mem_next mem \<le> p \<longrightarrow> mem_cells mem p = None)"

definition grown :: "'w memory \<Rightarrow> 'w memory \<Rightarrow> bool" where
  "grown mem mem' \<longleftrightarrow>
     mem_next mem \<le> mem_next mem' \<and> (\<forall>p c. mem_cells mem p = Some c \<longrightarrow> mem_cells mem' p = Some c) \<and>
     (\<forall>p<mem_next mem. mem_cells mem' p = mem_cells mem p)"

lemma fits_no_memory: "fits no_memory"
  by (simp add: fits_def no_memory_def)

lemma grown_refl [simp]: "grown mem mem"
  by (simp add: grown_def)

lemma grown_trans: "grown a b \<Longrightarrow> grown b c \<Longrightarrow> grown a c"
  by (auto simp: grown_def)

lemma grown_cell: "grown mem mem' \<Longrightarrow> mem_cells mem p = Some c \<Longrightarrow> mem_cells mem' p = Some c"
  by (simp add: grown_def)

text \<open>
  \<open>marshals ok fs m Q\<close>: from every memory, \<open>m\<close> only adds cells; if \<open>ok\<close> it makes a value with \<open>Q\<close>,
  otherwise it ends with one of the failures \<open>fs\<close>, where \<open>None\<close> is a panic.
\<close>

fun failure :: "'a made \<Rightarrow> nv_error option" where
  "failure (Refused e) = Some e"
| "failure _ = None"

definition marshals ::
  "bool \<Rightarrow> nv_error option set \<Rightarrow> ('w, 'a) marshal \<Rightarrow> ('a \<Rightarrow> 'w memory \<Rightarrow> bool) \<Rightarrow> bool" where
  "marshals ok fs m Q \<longleftrightarrow>
     (\<forall>mem. fits mem \<longrightarrow>
       fits (snd (m mem)) \<and> grown mem (snd (m mem)) \<and>
       (if ok then \<exists>a. fst (m mem) = Made a \<and> Q a (snd (m mem))
        else (\<forall>a. fst (m mem) \<noteq> Made a) \<and> failure (fst (m mem)) \<in> fs))"

definition lasting :: "('w memory \<Rightarrow> bool) \<Rightarrow> bool" where
  "lasting P \<longleftrightarrow> (\<forall>mem mem'. grown mem mem' \<longrightarrow> P mem \<longrightarrow> P mem')"

lemma lastingD: "lasting P \<Longrightarrow> grown mem mem' \<Longrightarrow> P mem \<Longrightarrow> P mem'"
  by (simp add: lasting_def)

lemma yieldsD:
  assumes "marshals ok fs m Q" "fits mem"
  obtains (made) a mem' where "ok" "m mem = (Made a, mem')" "fits mem'" "grown mem mem'" "Q a mem'"
  | (refused) e mem' where "\<not> ok" "m mem = (Refused e, mem')" "Some e \<in> fs" "fits mem'" "grown mem mem'"
  | (panic) mem' where "\<not> ok" "m mem = (Panicked, mem')" "None \<in> fs" "fits mem'" "grown mem mem'"
proof (cases "m mem")
  case (Pair r mem')
  then show thesis
    using assms that by (cases r; cases ok) (force simp: marshals_def)+
qed

lemma yields_conseq: "marshals ok fs m Q \<Longrightarrow> (\<And>a mem. Q a mem \<Longrightarrow> R a mem) \<Longrightarrow> fs \<subseteq> fs' \<Longrightarrow> marshals ok fs' m R"
  unfolding marshals_def by (smt (verit, best) subsetD)

lemma yields_weaken: "marshals ok fs m Q \<Longrightarrow> ok = ok' \<Longrightarrow> (\<And>a mem. Q a mem \<Longrightarrow> R a mem) \<Longrightarrow> marshals ok' fs m R"
  using yields_conseq by blast

lemma yields_ret: "marshals True fs (make_ret a) (\<lambda>b _. b = a)"
  by (simp add: marshals_def make_ret_def)

lemma yields_alloc: "marshals True fs (alloc c) (\<lambda>p mem. p \<noteq> 0 \<and> mem_cells mem p = Some c)"
  by (auto simp: marshals_def alloc_def fits_def grown_def)

lemma yields_bind:
  assumes m: "marshals ok fs m Q" and Q: "\<And>a. lasting (Q a)" and f: "\<And>a. marshals ok' fs (f a) (R a)"
  shows "marshals (ok \<and> ok') fs (make_bind m f) (\<lambda>b mem. \<exists>a. Q a mem \<and> R a b mem)"
proof -
  have "fits (snd (make_bind m f mem)) \<and> grown mem (snd (make_bind m f mem)) \<and>
      (if ok \<and> ok' then \<exists>b. fst (make_bind m f mem) = Made b \<and> (\<exists>a. Q a (snd (make_bind m f mem)) \<and> R a b (snd (make_bind m f mem)))
       else (\<forall>b. fst (make_bind m f mem) \<noteq> Made b) \<and> failure (fst (make_bind m f mem)) \<in> fs)"
    if "fits mem" for mem
    using m that
  proof (cases rule: yieldsD)
    case (made a mem1)
    from f [of a] made(3) show ?thesis
    proof (cases rule: yieldsD)
      case (made b mem2)
      then show ?thesis
        using \<open>m mem = (Made a, mem1)\<close> \<open>grown mem mem1\<close> \<open>Q a mem1\<close> \<open>ok\<close>
        lastingD [OF Q \<open>grown mem1 mem2\<close> \<open>Q a mem1\<close>] by (auto simp: make_bind_def intro: grown_trans)
    qed (use made in \<open>auto simp: make_bind_def intro: grown_trans\<close>)
  qed (auto simp: make_bind_def)
  then show ?thesis unfolding marshals_def by blast
qed

text \<open>
  A marshaller: it makes a representation of every clean value, which other work does not disturb, and
  refuses the others.
\<close>

locale marshaller =
  fixes make :: "'a \<Rightarrow> ('w, 'c) marshal" and clean :: "'a \<Rightarrow> bool" and fs :: "nv_error option set"
    and holds :: "'w memory \<Rightarrow> 'c \<Rightarrow> 'a \<Rightarrow> bool"
  assumes makes: "marshals (clean a) fs (make a) (\<lambda>c mem. holds mem c a)"
    and holds_stable: "lasting (\<lambda>mem. holds mem c a)"
begin

lemma holds_grown: "grown mem mem' \<Longrightarrow> holds mem c a \<Longrightarrow> holds mem' c a"
  using holds_stable lastingD by fast

lemma all_stable: "lasting (\<lambda>mem. list_all2 (holds mem) cs as)"
  unfolding lasting_def using holds_grown by (blast intro: list_all2_mono)

lemma makes_list: "marshals (list_all clean as) fs (make_list make as) (\<lambda>cs mem. list_all2 (holds mem) cs as)"
proof (induction as)
  case Nil
  show ?case using yields_ret [of fs "[]"] by (auto elim: yields_conseq)
next
  case (Cons a as)
  have "marshals (list_all clean as \<and> True) fs (make_bind (make_list make as) (\<lambda>cs. make_ret (c # cs)))
      (\<lambda>b mem. \<exists>cs. list_all2 (holds mem) cs as \<and> b = c # cs)" for c
    by (rule yields_bind [OF Cons.IH all_stable yields_ret])
  from yields_bind [OF makes [of a] holds_stable, where f = "\<lambda>c. make_bind (make_list make as) (\<lambda>cs. make_ret (c # cs))", OF this]
  show ?case by (auto elim: yields_conseq)
qed

end

locale pointer_marshaller = marshaller make clean fs holds
  for make :: "'a \<Rightarrow> ('w, addr) marshal" and clean fs holds +
  assumes not_null: "holds mem p a \<Longrightarrow> p \<noteq> 0"
begin

definition option_holds :: "'w memory \<Rightarrow> addr \<Rightarrow> 'a option \<Rightarrow> bool" where
  "option_holds mem p v = (case v of None \<Rightarrow> p = 0 | Some a \<Rightarrow> holds mem p a)"

lemma makes_option: "marshals (pred_option clean v) fs (marshal_option make v) (\<lambda>p mem. option_holds mem p v)"
proof (cases v)
  case None
  then show ?thesis using yields_ret [of fs 0] by (auto simp: marshal_option_def option_holds_def elim: yields_conseq)
next
  case (Some a)
  then show ?thesis using makes [of a] by (simp add: marshal_option_def option_holds_def)
qed

lemma option_stable: "lasting (\<lambda>mem. option_holds mem p v)"
  using holds_stable by (cases v) (simp_all add: option_holds_def lasting_def)

end

section \<open>Strings\<close>

definition text_at :: "'w memory \<Rightarrow> addr \<Rightarrow> string \<Rightarrow> bool" where
  "text_at mem p s \<longleftrightarrow> p \<noteq> 0 \<and> mem_cells mem p = Some (CStr s)"

definition blank_or_text_at :: "'w memory \<Rightarrow> addr \<Rightarrow> string \<Rightarrow> bool" where
  "blank_or_text_at mem p s \<longleftrightarrow> (if s = [] then p = 0 else text_at mem p s)"

definition no_nul :: "string \<Rightarrow> bool" where "no_nul s \<longleftrightarrow> \<not> has_nul s"

lemma no_nul_Nil [simp]: "no_nul []" by (simp add: no_nul_def has_nul_def)

lemma text_stable: "lasting (\<lambda>mem. text_at mem p s)"
  by (auto simp: lasting_def text_at_def grown_cell)

lemma blank_or_text_stable: "lasting (\<lambda>mem. blank_or_text_at mem p s)"
  using text_stable [of p s] by (cases "s = []") (simp_all add: lasting_def blank_or_text_at_def)

lemma cstring_yields: "marshals (no_nul s) {Some InteriorNul} (cstring s) (\<lambda>p mem. text_at mem p s)"
  using yields_alloc [of _ "CStr s"]
  by (auto simp: marshals_def cstring_def no_nul_def text_at_def make_fail_def)

lemma store_string_yields: "marshals (no_nul s) {None} (store_string s) (\<lambda>p mem. text_at mem p s)"
  using yields_alloc [of _ "CStr s"]
  by (auto simp: marshals_def store_string_def no_nul_def text_at_def)

interpretation ctext: pointer_marshaller cstring no_nul "{Some InteriorNul}" text_at
  by unfold_locales (rule cstring_yields, rule text_stable, simp add: text_at_def)

interpretation stored: pointer_marshaller store_string no_nul "{None}" text_at
  by unfold_locales (rule store_string_yields, rule text_stable, simp add: text_at_def)

lemma ret_null: "Q 0 \<Longrightarrow> marshals True fs (make_ret 0) (\<lambda>p _. Q p)"
  using yields_ret [of fs 0] by (auto elim: yields_conseq)

lemma cstring_unless_empty_yields:
  "marshals (no_nul s) {Some InteriorNul} (cstring_unless_empty s) (\<lambda>p mem. blank_or_text_at mem p s)"
  using cstring_yields [of s] by (cases "s = []") (simp_all add: cstring_unless_empty_def blank_or_text_at_def ret_null)

lemma store_optional_string_yields:
  "marshals (no_nul s) {None} (store_optional_string s) (\<lambda>p mem. blank_or_text_at mem p s)"
  using store_string_yields [of s] by (cases "s = []") (simp_all add: store_optional_string_def blank_or_text_at_def ret_null)

lemma store_exact_string_eq: "store_exact_string v = marshal_option cstring v"
  by (simp add: store_exact_string_def marshal_option_def)

interpretation optional_ctext: marshaller cstring_unless_empty no_nul "{Some InteriorNul}" blank_or_text_at
  by unfold_locales (simp_all add: cstring_unless_empty_yields blank_or_text_stable)

interpretation optional_stored: marshaller store_optional_string no_nul "{None}" blank_or_text_at
  by unfold_locales (simp_all add: store_optional_string_yields blank_or_text_stable)

section \<open>Annotations\<close>

definition given_values :: "annotation_tag \<Rightarrow> string list" where
  "given_values tag = (if tag_values_op tag = Reset then [] else tag_values tag)"

definition given_tags :: "annotation \<Rightarrow> annotation_tag list" where
  "given_tags a = (if an_tags_op a = Reset then [] else an_tags a)"

definition addresses_at :: "'w memory \<Rightarrow> addr \<Rightarrow> string list \<Rightarrow> bool" where
  "addresses_at mem p ss \<longleftrightarrow>
     (\<exists>ps. list_all2 (text_at mem) ps ss \<and> (if ps = [] then p = 0 else p \<noteq> 0 \<and> mem_cells mem p = Some (CPtrs ps)))"

lemma addresses_atI:
  "list_all2 (text_at mem) ps ss \<Longrightarrow> (if ps = [] then p = 0 else p \<noteq> 0 \<and> mem_cells mem p = Some (CPtrs ps)) \<Longrightarrow> addresses_at mem p ss"
  unfolding addresses_at_def by blast

definition tag_at :: "'w memory \<Rightarrow> c_tag \<Rightarrow> annotation_tag \<Rightarrow> bool" where
  "tag_at mem c tag \<longleftrightarrow>
     text_at mem (ct_key c) (tag_key tag) \<and> ct_values_op c = update_to_ffi (tag_values_op tag) \<and>
     ct_num_values c = of_nat (length (given_values tag)) \<and>
     addresses_at mem (ct_values c) (given_values tag)"

definition clean_tag :: "annotation_tag \<Rightarrow> bool" where
  "clean_tag tag \<longleftrightarrow> no_nul (tag_key tag) \<and> list_all no_nul (given_values tag)"

lemma texts_stable: "lasting (\<lambda>mem. list_all2 (text_at mem) ps ss)"
  by (rule ctext.all_stable)

lemma cell_stable: "lasting (\<lambda>mem. mem_cells mem p = Some c)"
  by (simp add: lasting_def grown_cell)

lemma stable_conj: "lasting P \<Longrightarrow> lasting Q \<Longrightarrow> lasting (\<lambda>mem. P mem \<and> Q mem)"
  by (simp add: lasting_def)

lemma stable_ex: "(\<And>x. lasting (P x)) \<Longrightarrow> lasting (\<lambda>mem. \<exists>x. P x mem)"
  by (auto simp: lasting_def)

lemma stable_const: "lasting (\<lambda>_. b)" by (simp add: lasting_def)

lemma stable_if: "lasting P \<Longrightarrow> lasting Q \<Longrightarrow> lasting (\<lambda>mem. if b then P mem else Q mem)"
  by (simp add: lasting_def)

lemmas stable_rules = stable_conj stable_ex stable_const stable_if cell_stable text_stable blank_or_text_stable texts_stable

lemma addresses_stable: "lasting (\<lambda>mem. addresses_at mem p ss)"
  unfolding addresses_at_def by (intro stable_rules)

lemma array_yields:
  "marshals True fs (array_or_null cell xs) (\<lambda>p mem. if xs = [] then p = 0 else p \<noteq> 0 \<and> mem_cells mem p = Some (cell xs))"
  using yields_alloc [of fs "cell xs"] by (simp add: array_or_null_def ret_null)

lemma array_stable: "lasting (\<lambda>mem. if xs = [] then p = 0 else p \<noteq> 0 \<and> mem_cells mem p = Some (cell xs))"
  by (intro stable_rules)

lemma tag_stable: "lasting (\<lambda>mem. tag_at mem c tag)"
  unfolding tag_at_def by (intro stable_rules addresses_stable)

lemma store_exact_string_Some: "store_exact_string (Some s) = cstring s"
  by (simp add: store_exact_string_def)

lemma make_list_if: "(if b then make_ret [] else make_list f xs) = make_list f (if b then [] else xs)"
  by simp

lemmas made_by = yields_bind yields_ret array_yields yields_alloc cstring_yields store_string_yields cstring_unless_empty_yields
  store_optional_string_yields ctext.makes_list stored.makes_list ctext.makes_option

lemmas lasts = stable_rules array_stable ctext.option_stable

lemma tag_yields: "marshals (clean_tag tag) {Some InteriorNul} (marshal_tag tag) (\<lambda>c mem. tag_at mem c tag)"
  unfolding marshal_tag_def store_exact_string_Some make_list_if given_values_def [symmetric]
  by (rule yields_weaken, ((rule made_by lasts)+)[1])
    (auto simp: clean_tag_def tag_at_def list_all2_lengthD addresses_atI)

interpretation tags: marshaller marshal_tag clean_tag "{Some InteriorNul}" tag_at
  by unfold_locales (rule tag_yields, rule tag_stable)

definition given_label :: "annotation \<Rightarrow> string option" where
  "given_label a = (if an_label_op a = Set then an_label a else None)"

definition given_description :: "annotation \<Rightarrow> string option" where
  "given_description a = (if an_description_op a = Set then an_description a else None)"

definition annotation_at :: "'w memory \<Rightarrow> addr \<Rightarrow> annotation \<Rightarrow> bool" where
  "annotation_at mem p a \<longleftrightarrow> p \<noteq> 0 \<and>
     (\<exists>c tags. mem_cells mem p = Some (CAnnotation c) \<and>
        cn_label_op c = update_to_ffi (an_label_op a) \<and> ctext.option_holds mem (cn_label c) (given_label a) \<and>
        cn_description_op c = update_to_ffi (an_description_op a) \<and>
        ctext.option_holds mem (cn_description c) (given_description a) \<and>
        cn_tags_op c = update_to_ffi (an_tags_op a) \<and> cn_num_tags c = of_nat (length (given_tags a)) \<and>
        list_all2 (tag_at mem) tags (given_tags a) \<and>
        (if tags = [] then cn_tags c = 0 else cn_tags c \<noteq> 0 \<and> mem_cells mem (cn_tags c) = Some (CTags tags)))"

definition clean_annotation :: "annotation \<Rightarrow> bool" where
  "clean_annotation a \<longleftrightarrow> pred_option no_nul (given_label a) \<and> pred_option no_nul (given_description a) \<and> list_all clean_tag (given_tags a)"

lemma annotation_stable: "lasting (\<lambda>mem. annotation_at mem p a)"
  unfolding annotation_at_def by (intro lasts tags.all_stable)

lemma make_text_if: "(if b then store_exact_string v else make_ret 0) = marshal_option cstring (if b then v else None)"
  by (simp add: store_exact_string_eq marshal_option_def)

lemma annotation_yields: "marshals (clean_annotation a) {Some InteriorNul} (marshal_annotation a) (\<lambda>p mem. annotation_at mem p a)"
  unfolding marshal_annotation_def make_text_if make_list_if given_label_def [symmetric] given_description_def [symmetric]
    given_tags_def [symmetric]
  by (rule yields_weaken, ((rule made_by lasts tags.makes_list tags.all_stable)+)[1])
    (fastforce simp: clean_annotation_def annotation_at_def list_all2_lengthD split: if_splits)+

interpretation annotations: pointer_marshaller marshal_annotation clean_annotation "{Some InteriorNul}" annotation_at
  by unfold_locales (rule annotation_yields, rule annotation_stable, simp add: annotation_at_def)

section \<open>Channel mappings\<close>

definition texts_at :: "'w memory \<Rightarrow> addr \<Rightarrow> nat \<Rightarrow> string list \<Rightarrow> bool" where
  "texts_at mem p n ss \<longleftrightarrow> p \<noteq> 0 \<and> n = length ss \<and> (\<exists>ps. mem_cells mem p = Some (CPtrs ps) \<and> list_all2 (text_at mem) ps ss)"

lemma texts_at_stable: "lasting (\<lambda>mem. texts_at mem p n ss)"
  unfolding texts_at_def by (intro lasts)

definition input_at :: "'w memory \<Rightarrow> c_input \<Rightarrow> cm_input \<Rightarrow> bool" where
  "input_at mem c i \<longleftrightarrow>
     text_at mem (cin_id c) (ci_id i) \<and> blank_or_text_at mem (cin_name c) (ci_name i) \<and>
     blank_or_text_at mem (cin_description c) (ci_description i) \<and> blank_or_text_at mem (cin_parent_name c) (ci_parent_name i) \<and>
     texts_at mem (cin_channel_labels c) (cin_num_channel_labels c) (ci_channel_labels i) \<and>
     cin_parent_type c = parent_type_to_ffi (ci_parent_type i) \<and> cin_reordering c = ci_reordering i \<and>
     cin_block_size c = ci_block_size i"

definition clean_input :: "cm_input \<Rightarrow> bool" where
  "clean_input i \<longleftrightarrow> no_nul (ci_id i) \<and> no_nul (ci_name i) \<and> no_nul (ci_description i) \<and> no_nul (ci_parent_name i) \<and>
     list_all no_nul (ci_channel_labels i)"

lemma input_yields: "marshals (clean_input i) {None} (marshal_input i) (\<lambda>c mem. input_at mem c i)"
  unfolding marshal_input_def
  by (rule yields_weaken, ((rule made_by lasts)+)[1])
    (auto simp: clean_input_def input_at_def texts_at_def)

lemma input_stable: "lasting (\<lambda>mem. input_at mem c i)"
  unfolding input_at_def by (intro lasts texts_at_stable)

interpretation inputs: marshaller marshal_input clean_input "{None}" input_at
  by unfold_locales (rule input_yields, rule input_stable)

definition routable_at :: "'w memory \<Rightarrow> addr \<times> nat \<Rightarrow> string list option \<Rightarrow> bool" where
  "routable_at mem c r = (case r of None \<Rightarrow> c = (0, 0) | Some ids \<Rightarrow> texts_at mem (fst c) (snd c) ids)"

lemma routable_yields:
  "marshals (pred_option (list_all no_nul) r) {None} (marshal_routable r) (\<lambda>c mem. routable_at mem c r)"
proof (cases r)
  case None
  then show ?thesis using yields_ret [of "{None}" "(0, 0)"] by (auto simp: marshal_routable_def routable_at_def elim: yields_conseq)
next
  case (Some ids)
  have "marshals (list_all no_nul ids) {None}
      (make_bind (make_list store_string ids) (\<lambda>ptrs. make_bind (alloc (CPtrs ptrs)) (\<lambda>p. make_ret (p, length ptrs))))
      (\<lambda>c mem. texts_at mem (fst c) (snd c) ids)"
    by (rule yields_weaken, ((rule made_by lasts)+)[1]) (auto simp: texts_at_def dest: list_all2_lengthD)
  then show ?thesis by (simp add: Some marshal_routable_def routable_at_def)
qed

lemma routable_stable: "lasting (\<lambda>mem. routable_at mem c r)"
  using texts_at_stable by (cases r) (simp_all add: routable_at_def lasting_def)

definition output_at :: "'w memory \<Rightarrow> c_output \<Rightarrow> cm_output \<Rightarrow> bool" where
  "output_at mem c out \<longleftrightarrow>
     text_at mem (cou_id c) (co_id out) \<and> blank_or_text_at mem (cou_name c) (co_name out) \<and>
     blank_or_text_at mem (cou_description c) (co_description out) \<and> blank_or_text_at mem (cou_sender_name c) (co_sender_name out) \<and>
     texts_at mem (cou_channel_labels c) (cou_num_channel_labels c) (co_channel_labels out) \<and>
     routable_at mem (cou_routable_inputs c, cou_num_routable_inputs c) (co_routable_inputs out)"

definition clean_output :: "cm_output \<Rightarrow> bool" where
  "clean_output out \<longleftrightarrow> no_nul (co_id out) \<and> no_nul (co_name out) \<and> no_nul (co_description out) \<and> no_nul (co_sender_name out) \<and>
     list_all no_nul (co_channel_labels out) \<and> pred_option (list_all no_nul) (co_routable_inputs out)"

lemma output_yields: "marshals (clean_output out) {None} (marshal_output out) (\<lambda>c mem. output_at mem c out)"
  unfolding marshal_output_def
  by (rule yields_weaken, ((rule made_by lasts routable_yields routable_stable)+)[1])
    (auto simp: clean_output_def output_at_def texts_at_def)

lemma output_stable: "lasting (\<lambda>mem. output_at mem c out)"
  unfolding output_at_def by (intro lasts texts_at_stable routable_stable)

interpretation outputs: marshaller marshal_output clean_output "{None}" output_at
  by unfold_locales (rule output_yields, rule output_stable)

definition mapping_at :: "'w memory \<Rightarrow> addr \<Rightarrow> channelmapping_config \<Rightarrow> bool" where
  "mapping_at mem p m \<longleftrightarrow> p \<noteq> 0 \<and>
     (\<exists>c ins outs. mem_cells mem p = Some (CMapping c) \<and>
        cma_num_inputs c = length (cc_inputs m) \<and> mem_cells mem (cma_inputs c) = Some (CInputs ins) \<and>
        list_all2 (input_at mem) ins (cc_inputs m) \<and>
        cma_num_outputs c = length (cc_outputs m) \<and> mem_cells mem (cma_outputs c) = Some (COutputs outs) \<and>
        list_all2 (output_at mem) outs (cc_outputs m))"

definition clean_mapping :: "channelmapping_config \<Rightarrow> bool" where
  "clean_mapping m \<longleftrightarrow> list_all clean_input (cc_inputs m) \<and> list_all clean_output (cc_outputs m)"

lemma mapping_stable: "lasting (\<lambda>mem. mapping_at mem p m)"
  unfolding mapping_at_def by (intro lasts inputs.all_stable outputs.all_stable)

lemma mapping_yields: "marshals (clean_mapping m) {None} (marshal_channelmapping m) (\<lambda>p mem. mapping_at mem p m)"
  unfolding marshal_channelmapping_def
  by (rule yields_weaken, ((rule made_by lasts inputs.makes_list inputs.all_stable outputs.makes_list outputs.all_stable)+)[1])
    (auto simp: clean_mapping_def mapping_at_def dest: list_all2_lengthD)

interpretation mappings: pointer_marshaller marshal_channelmapping clean_mapping "{None}" mapping_at
  by unfold_locales (rule mapping_yields, rule mapping_stable, simp add: mapping_at_def)

section \<open>Configurations\<close>

abbreviation bad_config :: "nv_error option set" where "bad_config \<equiv> {Some InteriorNul, Some InvalidConfig}"

lemma widen: "marshals ok {Some InteriorNul} m Q \<Longrightarrow> marshals ok bad_config m Q"
  by (erule yields_conseq) auto

lemmas config_made_by = yields_bind yields_ret array_yields yields_alloc cstring_yields [THEN widen]
  cstring_unless_empty_yields [THEN widen] ctext.makes_list [THEN widen] ctext.makes_option [THEN widen]
  annotations.makes_option [THEN widen]

lemmas config_lasts = lasts annotations.option_stable optional_ctext.holds_stable

definition asset_at :: "'w memory \<Rightarrow> addr \<Rightarrow> asset_config \<Rightarrow> bool" where
  "asset_at mem p a \<longleftrightarrow> p \<noteq> 0 \<and>
     (\<exists>c ps. mem_cells mem p = Some (CAsset c) \<and> text_at mem (cas_manufacturer c) (ac_manufacturer a) \<and>
        text_at mem (cas_product c) (ac_product a) \<and> text_at mem (cas_instance_id c) (ac_instance_id a) \<and>
        cas_num_functions c = of_nat (length (ac_functions a)) \<and> mem_cells mem (cas_functions c) = Some (CPtrs ps) \<and>
        list_all2 (text_at mem) ps (ac_functions a))"

definition complete_asset :: "asset_config \<Rightarrow> bool" where
  "complete_asset a \<longleftrightarrow> ac_manufacturer a \<noteq> [] \<and> ac_product a \<noteq> [] \<and> ac_instance_id a \<noteq> [] \<and> ac_functions a \<noteq> [] \<and>
     [] \<notin> set (ac_functions a)"

definition clean_asset :: "asset_config \<Rightarrow> bool" where
  "clean_asset a \<longleftrightarrow> complete_asset a \<and> no_nul (ac_manufacturer a) \<and> no_nul (ac_product a) \<and> no_nul (ac_instance_id a) \<and>
     list_all no_nul (ac_functions a)"

lemma marshal_asset_incomplete: "\<not> complete_asset a \<Longrightarrow> marshal_asset a = make_fail InvalidConfig"
  by (auto simp: marshal_asset_def complete_asset_def)

lemma marshal_asset_complete:
  "complete_asset a \<Longrightarrow> marshal_asset a =
     make_bind (cstring (ac_manufacturer a)) (\<lambda>manufacturer.
     make_bind (cstring (ac_product a)) (\<lambda>product.
     make_bind (cstring (ac_instance_id a)) (\<lambda>instance_id.
     make_bind (make_list cstring (ac_functions a)) (\<lambda>functions.
     make_bind (alloc (CPtrs functions)) (\<lambda>function_ptrs.
       alloc (CAsset \<lparr>cas_manufacturer = manufacturer, cas_product = product, cas_instance_id = instance_id,
         cas_functions = function_ptrs, cas_num_functions = of_nat (length functions)\<rparr>))))))"
  by (auto simp: marshal_asset_def complete_asset_def)

lemma asset_yields: "marshals (clean_asset a) bad_config (marshal_asset a) (\<lambda>p mem. asset_at mem p a)"
proof (cases "complete_asset a")
  case True
  show ?thesis
    unfolding marshal_asset_complete [OF True]
    by (rule yields_weaken, ((rule config_made_by config_lasts)+)[1])
      (use True in \<open>fastforce simp: clean_asset_def asset_at_def list_all2_lengthD\<close>)+
next
  case False
  then show ?thesis by (simp add: clean_asset_def marshals_def make_fail_def marshal_asset_incomplete)
qed

lemma asset_stable: "lasting (\<lambda>mem. asset_at mem p a)"
  unfolding asset_at_def by (intro lasts)

interpretation assets: pointer_marshaller marshal_asset clean_asset bad_config asset_at
  by unfold_locales (rule asset_yields, rule asset_stable, simp add: asset_at_def)

definition services_at :: "'w memory \<Rightarrow> addr \<Rightarrow> port network_services_config \<Rightarrow> bool" where
  "services_at mem p s \<longleftrightarrow> p \<noteq> 0 \<and>
     (\<exists>c. mem_cells mem p = Some (CServices c) \<and> blank_or_text_at mem (cse_domain c) (ns_domain s) \<and>
        blank_or_text_at mem (cse_registration_address c) (ns_registration_address s) \<and>
        cse_registration_port c = ucast (ns_registration_port s) \<and>
        blank_or_text_at mem (cse_registration_version c) (ns_registration_version s) \<and>
        blank_or_text_at mem (cse_system_address c) (ns_system_address s) \<and>
        cse_system_port c = ucast (ns_system_port s) \<and> blank_or_text_at mem (cse_system_version c) (ns_system_version s))"

definition clean_services :: "port network_services_config \<Rightarrow> bool" where
  "clean_services s \<longleftrightarrow> no_nul (ns_domain s) \<and> no_nul (ns_registration_address s) \<and> no_nul (ns_registration_version s) \<and>
     no_nul (ns_system_address s) \<and> no_nul (ns_system_version s)"

lemma services_yields: "marshals (clean_services s) bad_config (marshal_services s) (\<lambda>p mem. services_at mem p s)"
  unfolding marshal_services_def
  by (rule yields_weaken, ((rule config_made_by config_lasts)+)[1]) (auto simp: clean_services_def services_at_def)

lemma services_stable: "lasting (\<lambda>mem. services_at mem p s)"
  unfolding services_at_def by (intro lasts)

interpretation services: pointer_marshaller marshal_services clean_services bad_config services_at
  by unfold_locales (rule services_yields, rule services_stable, simp add: services_at_def)

definition node_at :: "'w memory \<Rightarrow> c_node \<Rightarrow> node_config \<Rightarrow> int \<Rightarrow> 'w callbacks \<Rightarrow> bool" where
  "node_at mem c cfg log_level cbs \<longleftrightarrow>
     blank_or_text_at mem (cno_seed c) (nc_seed cfg) \<and> blank_or_text_at mem (cno_host_name c) (nc_host_name cfg) \<and>
     cno_num_host_addresses c = of_nat (length (nc_host_addresses cfg)) \<and>
     addresses_at mem (cno_host_addresses c) (nc_host_addresses cfg) \<and>
     cno_http_port c = ucast (nc_http_port cfg) \<and>
     blank_or_text_at mem (cno_label c) (nc_label cfg) \<and> blank_or_text_at mem (cno_description c) (nc_description cfg) \<and>
     assets.option_holds mem (cno_asset_tags c) (nc_asset_tags cfg) \<and>
     services.option_holds mem (cno_network_services c) (nc_network_services cfg) \<and>
     annotations.option_holds mem (cno_node_annotation c) (nc_node_annotation cfg) \<and>
     annotations.option_holds mem (cno_device_annotation c) (nc_device_annotation cfg) \<and>
     cno_log_level c = log_level \<and> cno_log_callback c = (cb_log cbs \<noteq> None) \<and>
     cno_connection_activated c = (cb_activation cbs \<noteq> None) \<and>
     cno_channelmapping_activated c = (cb_channelmapping cbs \<noteq> None) \<and>
     cno_annotation_updated c = (cb_annotation cbs \<noteq> None)"

definition clean_node :: "node_config \<Rightarrow> bool" where
  "clean_node cfg \<longleftrightarrow> no_nul (nc_seed cfg) \<and> no_nul (nc_host_name cfg) \<and> list_all no_nul (nc_host_addresses cfg) \<and>
     no_nul (nc_label cfg) \<and> no_nul (nc_description cfg) \<and> pred_option clean_asset (nc_asset_tags cfg) \<and>
     pred_option clean_services (nc_network_services cfg) \<and> pred_option clean_annotation (nc_node_annotation cfg) \<and>
     pred_option clean_annotation (nc_device_annotation cfg)"

text \<open>The server and its callbacks, as the trampolines find them.\<close>

definition server_at :: "'w callbacks \<Rightarrow> 'w memory \<Rightarrow> node_server \<Rightarrow> bool" where
  "server_at cbs mem srv \<longleftrightarrow> nsv_raw srv \<noteq> 0 \<and>
     (case nsv_state srv of
        None \<Rightarrow> \<not> any_callback cbs \<and> mem_cells mem (nsv_raw srv) = Some (CServer 0)
      | Some p \<Rightarrow> any_callback cbs \<and> p \<noteq> 0 \<and> mem_cells mem (nsv_raw srv) = Some (CServer p) \<and>
          mem_cells mem p = Some (CCallbacks cbs))"

definition state_at :: "'w callbacks \<Rightarrow> 'w memory \<Rightarrow> addr option \<Rightarrow> bool" where
  "state_at cbs mem state =
     (case state of
        None \<Rightarrow> \<not> any_callback cbs
      | Some p \<Rightarrow> any_callback cbs \<and> p \<noteq> 0 \<and> mem_cells mem p = Some (CCallbacks cbs))"

lemma state_stable: "lasting (\<lambda>mem. state_at cbs mem state)"
  by (cases state) (auto simp: state_at_def lasting_def grown_cell)

lemma state_yields:
  "marshals True fs (if any_callback cbs then make_bind (alloc (CCallbacks cbs)) (\<lambda>p. make_ret (Some p)) else make_ret None)
     (\<lambda>state mem. state_at cbs mem state)"
proof (cases "any_callback cbs")
  case True
  have "marshals True fs (make_bind (alloc (CCallbacks cbs)) (\<lambda>p. make_ret (Some p))) (\<lambda>state mem. state_at cbs mem state)"
    by (rule yields_weaken, ((rule made_by lasts)+)[1]) (auto simp: state_at_def True)
  with True show ?thesis by simp
next
  case False
  then show ?thesis using yields_ret [of fs "None :: addr option"] by (auto simp: state_at_def elim: yields_conseq)
qed


lemma node_yields:
  "marshals (clean_node cfg) bad_config (marshal_node cfg log_level cbs) (\<lambda>(c, state) mem. node_at mem c cfg log_level cbs \<and> state_at cbs mem state)"
  unfolding marshal_node_def
  by (rule yields_weaken,
      ((rule config_made_by config_lasts assets.makes_option assets.option_stable services.makes_option services.option_stable
          state_yields state_stable)+)[1],
      simp add: clean_node_def, elim exE conjE, simp add: node_at_def list_all2_lengthD addresses_atI)

lemma node_stable: "lasting (\<lambda>mem. node_at mem c cfg log_level cbs)"
  unfolding node_at_def by (intro config_lasts assets.option_stable services.option_stable addresses_stable)

section \<open>Senders and receivers\<close>

definition sender_at :: "'w memory \<Rightarrow> c_sender \<Rightarrow> sender_config \<Rightarrow> bool" where
  "sender_at mem c cfg \<longleftrightarrow>
     csn_transport c = transport_to_ffi (sc_transport cfg) \<and> text_at mem (csn_transport_file c) (sc_transport_file cfg) \<and>
     annotations.option_holds mem (csn_source_annotation c) (sc_source_annotation cfg) \<and>
     annotations.option_holds mem (csn_flow_annotation c) (sc_flow_annotation cfg) \<and>
     annotations.option_holds mem (csn_sender_annotation c) (sc_sender_annotation cfg)"

definition clean_sender :: "sender_config \<Rightarrow> bool" where
  "clean_sender cfg \<longleftrightarrow> no_nul (sc_transport_file cfg) \<and> pred_option clean_annotation (sc_source_annotation cfg) \<and>
     pred_option clean_annotation (sc_flow_annotation cfg) \<and> pred_option clean_annotation (sc_sender_annotation cfg)"

lemma sender_yields: "marshals (clean_sender cfg) {Some InteriorNul} (marshal_sender cfg) (\<lambda>c mem. sender_at mem c cfg)"
  unfolding marshal_sender_def
  by (rule yields_weaken, ((rule made_by lasts annotations.makes_option annotations.option_stable)+)[1])
    (auto simp: clean_sender_def sender_at_def)

definition receiver_at :: "'w memory \<Rightarrow> c_receiver \<Rightarrow> receiver_config \<Rightarrow> bool" where
  "receiver_at mem c cfg \<longleftrightarrow>
     crc_transport c = transport_to_ffi (rc_transport cfg) \<and> text_at mem (crc_transport_file c) (rc_transport_file cfg) \<and>
     annotations.option_holds mem (crc_receiver_annotation c) (rc_receiver_annotation cfg)"

definition clean_receiver :: "receiver_config \<Rightarrow> bool" where
  "clean_receiver cfg \<longleftrightarrow> no_nul (rc_transport_file cfg) \<and> pred_option clean_annotation (rc_receiver_annotation cfg)"

lemma receiver_yields: "marshals (clean_receiver cfg) {Some InteriorNul} (marshal_receiver cfg) (\<lambda>c mem. receiver_at mem c cfg)"
  unfolding marshal_receiver_def
  by (rule yields_weaken, ((rule made_by lasts annotations.makes_option annotations.option_stable)+)[1])
    (auto simp: clean_receiver_def receiver_at_def)

text \<open>A call with a clean value gets its representation; one with another value is not made.\<close>

lemma call_lib_yields:
  assumes "marshals ok {Some InteriorNul} m Q"
  shows "if ok then \<exists>mem a. Q a mem \<and>
      call_lib m f what w = Some (if fst (f mem a w) then Inr () else Inl (Failed what), snd (f mem a w))
    else call_lib m f what w = Some (Inl InteriorNul, w)"
  using assms fits_no_memory
proof (cases rule: yieldsD)
  case (made a mem)
  have "call_lib m f what w = Some (if fst (f mem a w) then Inr () else Inl (Failed what), snd (f mem a w))"
    using made(2) by (simp add: call_lib_def case_prod_beta)
  with made(1,5) show ?thesis by auto
qed (auto simp: call_lib_def)

text \<open>
  C39. Senders and receivers are handed over whole. Adding a sender or receiver calls libnvnmos once, with
  a structure that represents the configuration in memory that is there for the call: the transport, the
  file and every annotation, each string and tag, and null for what is absent. Its refusal is reported.
  Only if a string has an interior NUL there is no call, but the error that says so; there is never a
  panic.
\<close>

theorem resources_handed_over:
  "(if clean_sender cfg
    then \<exists>mem c. sender_at mem c cfg \<and>
      add_sender lib raw cfg w =
        Some (if fst (c_add_sender lib raw mem c w) then Inr () else Inl (Failed ''add_nmos_sender_to_node_server''),
          snd (c_add_sender lib raw mem c w))
    else add_sender lib raw cfg w = Some (Inl InteriorNul, w)) \<and>
   (if clean_receiver rcfg
    then \<exists>mem c. receiver_at mem c rcfg \<and>
      add_receiver lib raw rcfg w =
        Some (if fst (c_add_receiver lib raw mem c w) then Inr () else Inl (Failed ''add_nmos_receiver_to_node_server''),
          snd (c_add_receiver lib raw mem c w))
    else add_receiver lib raw rcfg w = Some (Inl InteriorNul, w))"
  using call_lib_yields [OF sender_yields, of cfg "c_add_sender lib raw" "''add_nmos_sender_to_node_server''" w]
    call_lib_yields [OF receiver_yields, of rcfg "c_add_receiver lib raw" "''add_nmos_receiver_to_node_server''" w]
  unfolding add_sender_def add_receiver_def by (auto split: if_splits)

lemma call_lib_yields_pair:
  assumes m: "marshals ok {None} m Q" "\<And>a. lasting (Q a)" and n: "marshals ok' {Some InteriorNul} n R"
  defines "made \<equiv> make_bind m (\<lambda>a. make_bind n (\<lambda>b. make_ret (b, a)))"
  shows "if ok
    then if ok'
      then \<exists>mem b a. R b mem \<and> Q a mem \<and>
        call_lib made f what w = Some (if fst (f mem (b, a) w) then Inr () else Inl (Failed what), snd (f mem (b, a) w))
      else call_lib made f what w = Some (Inl InteriorNul, w)
    else call_lib made f what w = None"
  using m(1) fits_no_memory
proof (cases rule: yieldsD)
  case (made a mem1)
  note first = this
  from n made(3) show ?thesis
  proof (cases rule: yieldsD)
    case (made b mem)
    then have "call_lib (make_bind m (\<lambda>a. make_bind n (\<lambda>b. make_ret (b, a)))) f what w =
        Some (if fst (f mem (b, a) w) then Inr () else Inl (Failed what), snd (f mem (b, a) w))"
      using first(2) by (simp add: call_lib_def make_bind_def make_ret_def case_prod_beta)
    moreover have "Q a mem" using lastingD [OF m(2) made(4) first(5)] .
    ultimately show ?thesis using first(1) made(1,5) unfolding assms(4) by auto
  qed (use first in \<open>auto simp: assms(4) call_lib_def make_bind_def\<close>)
qed (auto simp: assms(4) call_lib_def make_bind_def)

text \<open>
  C40. A channel mapping is handed over whole, or the call panics. If no string of the mapping or its name
  has an interior NUL, libnvnmos is called once with structures that represent the mapping: every input
  and output with its labels, parent and routable inputs, where no routable inputs and an empty list of
  them differ. An interior NUL in the name is an error, as for the other resources; one in the mapping
  panics instead.
\<close>

theorem channelmapping_handed_over:
  "if clean_mapping m
   then if no_nul name
     then \<exists>mem n p. text_at mem n name \<and> mapping_at mem p m \<and>
       add_channelmapping lib raw name m w =
         Some (if fst (c_add_channelmapping lib raw mem n p w) then Inr () else Inl (Failed ''add_nmos_channelmapping_to_node_server''),
           snd (c_add_channelmapping lib raw mem n p w))
     else add_channelmapping lib raw name m w = Some (Inl InteriorNul, w)
   else add_channelmapping lib raw name m w = None"
  using call_lib_yields_pair [OF mapping_yields [of m] mapping_stable cstring_yields [of name],
      of "\<lambda>mem (n, p). c_add_channelmapping lib raw mem n p" "''add_nmos_channelmapping_to_node_server''" w]
  unfolding add_channelmapping_def by (auto split: if_splits)

section \<open>What callbacks see\<close>

lemma see_bind_simps [simp]:
  "see_bind (Seen a) f = f a" "see_bind Unfit f = Unfit" "see_bind Wild f = Wild" "see_some (Some a) = Seen a" "see_some None = Unfit"
  by (simp_all add: see_bind_def see_some_def)

lemma see_list_all: "list_all2 (\<lambda>x y. f x = Seen y) xs ys \<Longrightarrow> see_list f xs = Seen ys"
  by (induction rule: list_all2_induct) simp_all

lemma side_from_to_ffi [simp]: "side_from_ffi (side_to_ffi sd) = Some sd"
  by (cases sd) (simp_all add: side_from_ffi_def)

lemma resource_type_from_to_ffi [simp]: "resource_type_from_ffi (resource_type_to_ffi rt) = Some rt"
  by (cases rt) (simp_all add: resource_type_from_ffi_def)

lemma update_from_to_ffi [simp]: "update_from_ffi (update_to_ffi u) = Some u"
  by (cases u) (simp_all add: update_from_ffi_def)

lemma see_text: "text_at mem p s \<Longrightarrow> utf8_valid s \<Longrightarrow> cstr_str mem p = Seen s"
  by (simp add: cstr_str_def cstr_def text_at_def)

lemma see_text_option: "text_at mem p s \<Longrightarrow> utf8_valid s \<Longrightarrow> cstr_option mem p = Seen (Some s)"
  by (simp add: cstr_option_def see_text) (simp add: text_at_def)

lemma see_text_required: "text_at mem p s \<Longrightarrow> utf8_valid s \<Longrightarrow> see_required mem p = Seen s"
  by (simp add: see_required_def see_text_option)

lemma see_option: "ctext.option_holds mem p v \<Longrightarrow> pred_option utf8_valid v \<Longrightarrow> cstr_option mem p = Seen v"
  by (cases v) (simp_all add: ctext.option_holds_def see_text_option, simp add: cstr_option_def)

definition readable_tag :: "annotation_tag \<Rightarrow> bool" where
  "readable_tag tag \<longleftrightarrow> utf8_valid (tag_key tag) \<and> list_all utf8_valid (given_values tag) \<and> length (given_values tag) < 2 ^ 32"

definition readable_annotation :: "annotation \<Rightarrow> bool" where
  "readable_annotation a \<longleftrightarrow> pred_option utf8_valid (given_label a) \<and> pred_option utf8_valid (given_description a) \<and>
     list_all readable_tag (given_tags a) \<and> length (given_tags a) < 2 ^ 32"

definition given :: "annotation \<Rightarrow> annotation" where
  "given a = a\<lparr>an_label := given_label a, an_description := given_description a,
     an_tags := map (\<lambda>tag. tag\<lparr>tag_values := given_values tag\<rparr>) (given_tags a)\<rparr>"

lemma see_array_at:
  assumes "list_all2 P xs ys" "length ys < 2 ^ 32"
    "if xs = [] then p = 0 else p \<noteq> 0 \<and> mem_cells mem p = Some c" "elems c = Some xs"
  shows "see_array elems mem p (unat (of_nat (length ys) :: c_uint)) = Seen xs"
proof -
  have "unat (of_nat (length ys) :: c_uint) = length ys"
    using assms(2) by (simp add: unsigned_of_nat take_bit_nat_eq_self_iff [THEN iffD2])
  then show ?thesis using assms by (auto simp: see_array_def list_all2_lengthD split: if_splits)
qed

lemma see_tag_at:
  assumes "tag_at mem c tag" "readable_tag tag"
  shows "see_tag mem c = Seen (tag\<lparr>tag_values := given_values tag\<rparr>)"
proof -
  have key: "see_required mem (ct_key c) = Seen (tag_key tag)" "update_from_ffi (ct_values_op c) = Some (tag_values_op tag)"
    using assms by (simp_all add: tag_at_def readable_tag_def see_text_required)
  obtain ps where ps: "list_all2 (text_at mem) ps (given_values tag)"
    "if ps = [] then ct_values c = 0 else ct_values c \<noteq> 0 \<and> mem_cells mem (ct_values c) = Some (CPtrs ps)"
    using assms(1) by (auto simp: tag_at_def addresses_at_def)
  have "see_array ptrs_of mem (ct_values c) (unat (ct_num_values c)) = Seen ps"
    using see_array_at [OF ps(1) _ ps(2), of ptrs_of] assms by (simp add: tag_at_def readable_tag_def)
  moreover have "see_list (see_required mem) ps = Seen (given_values tag)"
    using ps(1) assms(2)
    by (intro see_list_all) (simp add: readable_tag_def list_all2_conv_all_nth list_all_length see_text_required)
  ultimately show ?thesis using key by (simp add: see_tag_def)
qed

lemma see_annotation_at:
  assumes "annotation_at mem p a" "readable_annotation a"
  shows "\<exists>raw. mem_cells mem p = Some (CAnnotation raw) \<and> see_annotation mem raw = Seen (given a)"
proof -
  obtain c tags where c: "mem_cells mem p = Some (CAnnotation c)"
    "cn_label_op c = update_to_ffi (an_label_op a)" "ctext.option_holds mem (cn_label c) (given_label a)"
    "cn_description_op c = update_to_ffi (an_description_op a)" "ctext.option_holds mem (cn_description c) (given_description a)"
    "cn_tags_op c = update_to_ffi (an_tags_op a)" "cn_num_tags c = of_nat (length (given_tags a))"
    and tags: "list_all2 (tag_at mem) tags (given_tags a)"
      "if tags = [] then cn_tags c = 0 else cn_tags c \<noteq> 0 \<and> mem_cells mem (cn_tags c) = Some (CTags tags)"
    using assms(1) unfolding annotation_at_def by blast
  have "cstr_option mem (cn_label c) = Seen (given_label a)" "cstr_option mem (cn_description c) = Seen (given_description a)"
    using see_option [OF c(3)] see_option [OF c(5)] assms(2) by (simp_all add: readable_annotation_def)
  moreover have "see_array tags_of mem (cn_tags c) (unat (cn_num_tags c)) = Seen tags"
    using see_array_at [OF tags(1) _ tags(2), of tags_of] c(7) assms(2) by (simp add: readable_annotation_def)
  moreover have "see_list (see_tag mem) tags = Seen (map (\<lambda>tag. tag\<lparr>tag_values := given_values tag\<rparr>) (given_tags a))"
    using tags(1) assms(2) by (intro see_list_all) (simp add: readable_annotation_def list_all2_conv_all_nth list_all_length see_tag_at)
  ultimately show ?thesis using c by (simp add: see_annotation_def given_def)
qed

lemma callback_state_grown: "callback_state mem server = Seen cbs \<Longrightarrow> grown mem mem' \<Longrightarrow> callback_state mem' server = Seen cbs"
  by (auto simp: callback_state_def grown_cell split: option.splits cell.splits if_splits)

text \<open>
  C38. What the application updates is what a callback is told. An annotation and a name without interior
  NULs are marshalled, and when libnvnmos hands the marshalled structure back to the annotation
  trampoline of a server, its callback gets the same resource type, name and operations, with the label
  and description that are set and the tags and values that are not reset; its error or panic is false.
\<close>

theorem annotation_round_trip:
  assumes "fits mem" "clean_annotation a" "readable_annotation a" "pred_option no_nul name" "pred_option utf8_valid name"
    and "callback_state mem server = Seen cbs" "cb_annotation cbs = Some callback"
  shows "\<exists>p n mem'. make_bind (marshal_annotation a) (\<lambda>p. make_bind (marshal_option cstring name) (\<lambda>n. make_ret (p, n))) mem = (Made (p, n), mem') \<and>
    annotation_trampoline mem' server (resource_type_to_ffi rt) n p w =
      (case callback \<lparr>au_resource_type = rt, au_name = name, au_annotation = given a\<rparr> w of (e, w1) \<Rightarrow> Some (e = CallbackOk, w1))"
proof -
  let ?m = "make_bind (marshal_annotation a) (\<lambda>p. make_bind (marshal_option cstring name) (\<lambda>n. make_ret (p, n)))"
  have "marshals True {Some InteriorNul} ?m (\<lambda>(p, n) mem. annotation_at mem p a \<and> ctext.option_holds mem n name)"
    by (rule yields_weaken, ((rule made_by lasts annotation_yields annotation_stable)+)[1]) (use assms(2,4) in auto)
  from this assms(1) show ?thesis
  proof (cases rule: yieldsD)
    case (made c mem')
    then obtain p n where c: "c = (p, n)" "annotation_at mem' p a" "ctext.option_holds mem' n name" by auto
    obtain raw where raw: "mem_cells mem' p = Some (CAnnotation raw)" "see_annotation mem' raw = Seen (given a)"
      using see_annotation_at [OF c(2) assms(3)] by blast
    have "p \<noteq> 0" using c(2) by (simp add: annotation_at_def)
    moreover have "server \<noteq> 0"
      using assms(1,6) by (cases "server = 0") (simp_all add: callback_state_def fits_def)
    moreover have "callback_state mem' server = Seen cbs"
      using callback_state_grown made(4) assms(6) by blast
    ultimately have "annotation_trampoline mem' server (resource_type_to_ffi rt) n p w =
      (case callback \<lparr>au_resource_type = rt, au_name = name, au_annotation = given a\<rparr> w of (e, w1) \<Rightarrow> Some (e = CallbackOk, w1))"
      using raw assms(7) see_option [OF c(3) assms(5)] by (simp add: annotation_trampoline_def trampoline_answer_def)
    then show ?thesis using made(2) c(1) by blast
  qed simp_all
qed

text \<open>A memory with a server whose callback counts the updates that reset a label.\<close>

definition counting :: "nat callbacks" where
  "counting = \<lparr>cb_activation = None, cb_channelmapping = None,
     cb_annotation = Some (\<lambda>u n. (CallbackOk, if an_label_op (au_annotation u) = Reset then n + 1 else n)), cb_log = None\<rparr>"

definition counting_memory :: "nat memory" where
  "counting_memory = \<lparr>mem_next = 3, mem_cells = [1 \<mapsto> CCallbacks counting, 2 \<mapsto> CServer 1]\<rparr>"

definition resetting :: annotation where
  "resetting = \<lparr>an_label_op = Reset, an_label = Some ''old'', an_description_op = Set, an_description = Some ''new'',
     an_tags_op = Set, an_tags = [\<lparr>tag_key = ''k'', tag_values_op = Set, tag_values = [''v'', []]\<rparr>]\<rparr>"

theorem annotation_round_trip_witness:
  "\<exists>p n mem'. make_bind (marshal_annotation resetting) (\<lambda>p. make_bind (marshal_option cstring (Some ''cam'')) (\<lambda>n. make_ret (p, n)))
      counting_memory = (Made (p, n), mem') \<and>
    annotation_trampoline mem' 2 (resource_type_to_ffi RtSender) n p 7 = Some (True, 8)"
proof -
  have memory: "fits counting_memory" and state: "callback_state counting_memory 2 = Seen counting"
    by (simp_all add: fits_def counting_memory_def callback_state_def)
  have clean: "clean_annotation resetting" and readable: "readable_annotation resetting"
    by (simp_all add: clean_annotation_def readable_annotation_def resetting_def given_label_def given_description_def given_tags_def
        clean_tag_def readable_tag_def given_values_def no_nul_def has_nul_def byte_def)
  have name: "pred_option no_nul (Some ''cam'')" "pred_option utf8_valid (Some ''cam'')"
    by (simp_all add: no_nul_def has_nul_def byte_def)
  have callback: "cb_annotation counting = Some (\<lambda>u n. (CallbackOk, if an_label_op (au_annotation u) = Reset then n + 1 else n))"
    by (simp add: counting_def)
  have "an_label_op (given resetting) = Reset" by (simp add: given_def resetting_def)
  then show ?thesis
    using annotation_round_trip [OF memory clean readable name state callback, of RtSender 7] by simp
qed

section \<open>The life of a server\<close>

lemma server_stable: "lasting (\<lambda>mem. server_at cbs mem srv)"
  by (auto simp: lasting_def server_at_def grown_cell split: option.splits)

lemma begin_yields:
  "marshals (clean_node cfg) bad_config (create_begin cfg log_level cbs) (\<lambda>(c, srv) mem. node_at mem c cfg log_level cbs \<and> server_at cbs mem srv)"
proof -
  have "lasting (case a of (c, state) \<Rightarrow> \<lambda>mem. node_at mem c cfg log_level cbs \<and> state_at cbs mem state)" for a
    by (cases a) (simp add: stable_conj node_stable state_stable)
  note rules = yields_bind [OF node_yields this] yields_bind [OF yields_alloc stable_conj [OF stable_const cell_stable]] yields_ret
  have "marshals True bad_config
      (case a of (node, state) \<Rightarrow> make_bind (alloc (CServer (case state of Some p \<Rightarrow> p | None \<Rightarrow> 0)))
        (\<lambda>raw. make_ret (node, \<lparr>nsv_raw = raw, nsv_state = state\<rparr>)))
      (\<lambda>b mem. \<exists>raw. (raw \<noteq> 0 \<and> mem_cells mem raw = Some (CServer (case snd a of Some p \<Rightarrow> p | None \<Rightarrow> 0))) \<and>
         b = (fst a, \<lparr>nsv_raw = raw, nsv_state = snd a\<rparr>))" for a :: "c_node \<times> addr option"
    unfolding case_prod_beta by (rule yields_weaken [OF rules(2) [OF rules(3)]]) auto
  from rules(1) [OF this] show ?thesis
    unfolding create_begin_def
    by (rule yields_weaken) (auto simp: server_at_def state_at_def split: option.splits)
qed

text \<open>The cells of a new server are new.\<close>

definition leaves :: "('w, 'a) marshal \<Rightarrow> (addr \<Rightarrow> 'a \<Rightarrow> bool) \<Rightarrow> bool" where
  "leaves m R \<longleftrightarrow>
     (\<forall>mem a mem'. fits mem \<longrightarrow> m mem = (Made a, mem') \<longrightarrow> fits mem' \<and> mem_next mem \<le> mem_next mem' \<and> R (mem_next mem) a)"

lemma leaves_weaken: "leaves m R \<Longrightarrow> (\<And>n a. R n a \<Longrightarrow> S n a) \<Longrightarrow> leaves m S"
  unfolding leaves_def by blast

lemma leaves_any:
  assumes "marshals ok fs m Q"
  shows "leaves m (\<lambda>_ _. True)"
  unfolding leaves_def
proof (intro allI impI)
  fix mem a mem'
  assume "fits mem" "m mem = (Made a, mem')"
  from assms this(1) show "fits mem' \<and> mem_next mem \<le> mem_next mem' \<and> True"
    by (cases rule: yieldsD) (use \<open>m mem = (Made a, mem')\<close> in \<open>auto simp: grown_def\<close>)
qed

lemma leaves_ret: "leaves (make_ret a) (\<lambda>_ b. b = a)"
  by (simp add: leaves_def make_ret_def)

lemma leaves_alloc: "leaves (alloc c) (\<lambda>n p. n \<le> p)"
  by (auto simp: leaves_def alloc_def fits_def)

lemma leaves_bind:
  assumes "leaves m R" "\<And>a. leaves (f a) (S a)"
  shows "leaves (make_bind m f) (\<lambda>n b. \<exists>a n'. R n a \<and> n \<le> n' \<and> S a n' b)"
  unfolding leaves_def
proof (intro allI impI)
  fix mem b mem2
  assume start: "fits mem" "make_bind m f mem = (Made b, mem2)"
  then obtain a mem1 where made: "m mem = (Made a, mem1)" "f a mem1 = (Made b, mem2)"
    by (auto simp: make_bind_def split: prod.splits made.splits)
  with start assms show "fits mem2 \<and> mem_next mem \<le> mem_next mem2 \<and> (\<exists>a n'. R (mem_next mem) a \<and> mem_next mem \<le> n' \<and> S a n' b)"
    unfolding leaves_def by (meson order_trans)
qed

lemma state_leaves:
  "leaves (if any_callback cbs then make_bind (alloc (CCallbacks cbs)) (\<lambda>p. make_ret (Some p)) else make_ret None)
     (\<lambda>n state. \<forall>p\<in>set_option state. n \<le> p)"
proof (cases "any_callback cbs")
  case True
  then show ?thesis by simp (rule leaves_weaken [OF leaves_bind [OF leaves_alloc leaves_ret]], auto)
next
  case False
  then show ?thesis by simp (rule leaves_weaken [OF leaves_ret], auto)
qed

lemma node_leaves: "leaves (marshal_node cfg log_level cbs) (\<lambda>n (c, state). \<forall>p\<in>set_option state. n \<le> p)"
  unfolding marshal_node_def
  by (rule leaves_weaken,
      ((rule leaves_bind leaves_ret state_leaves leaves_any [OF cstring_unless_empty_yields] leaves_any [OF ctext.makes_list]
          leaves_any [OF array_yields] leaves_any [OF assets.makes_option] leaves_any [OF services.makes_option]
          leaves_any [OF annotations.makes_option])+)[1])
    force

lemma begin_leaves: "leaves (create_begin cfg log_level cbs) (\<lambda>n (c, srv). \<forall>p\<in>owned_cells srv. n \<le> p)"
  unfolding create_begin_def case_prod_beta
  by (rule leaves_weaken [OF leaves_bind [OF node_leaves leaves_bind [OF leaves_alloc leaves_ret]]])
    (auto simp: owned_cells_def intro: order_trans)

lemma server_at_kept: "server_at cbs mem srv \<Longrightarrow> ps \<inter> owned_cells srv = {} \<Longrightarrow> server_at cbs (free_cells ps mem) srv"
  by (auto simp: server_at_def free_cells_def owned_cells_def split: option.splits)

lemma temporaries_kept: "temporaries old mem srv \<inter> owned_cells srv = {}"
  by (auto simp: temporaries_def)

lemma begin_begins:
  assumes "fits mem"
  shows "if clean_node cfg
    then \<exists>node srv mem1. create_begin cfg log_level cbs mem = (Made (node, srv), mem1) \<and> fits mem1 \<and> grown mem mem1 \<and>
      node_at mem1 node cfg log_level cbs \<and> server_at cbs mem1 srv \<and> owned_cells srv \<subseteq> {mem_next mem ..< mem_next mem1}
    else \<exists>e mem1. create_begin cfg log_level cbs mem = (Refused e, mem1) \<and> e \<in> {InteriorNul, InvalidConfig}"
  using begin_yields [of cfg log_level cbs] assms
proof (cases rule: yieldsD)
  case (made a mem1)
  obtain node srv where a: "a = (node, srv)" by (cases a)
  have new: "\<forall>p\<in>owned_cells srv. mem_next mem \<le> p"
    using begin_leaves [of cfg log_level cbs] assms made(2) unfolding a leaves_def by fastforce
  have "mem_cells mem1 p \<noteq> None" if "p \<in> owned_cells srv" for p
    using made(5) that by (auto simp: a server_at_def owned_cells_def split: option.splits)
  then have "\<forall>p\<in>owned_cells srv. p < mem_next mem1"
    using made(3) by (meson fits_def not_le)
  with new made show ?thesis by (auto simp: a subset_eq)
qed auto

text \<open>
  C36. Creating a server hands over its configuration and keeps only what outlives the call. If the
  configuration is complete and without interior NULs, libnvnmos is called once with a structure that
  represents it, with the level of logging and exactly the trampolines for which there is a callback, and
  with a server whose \<^verbatim>\<open>user_data\<close> already leads to the callbacks. Afterwards the
  server and its callbacks are what is left of the memory made for it, and if libnvnmos refuses, nothing.
  Any other configuration is an error before the call.
\<close>

theorem server_created:
  assumes "fits mem"
  shows "if clean_node cfg
    then \<exists>node srv mem1 mem2. create_begin cfg log_level cbs mem = (Made (node, srv), mem1) \<and>
      node_at mem1 node cfg log_level cbs \<and> server_at cbs mem1 srv \<and>
      (case c_create lib mem1 node (nsv_raw srv) w of (ok, w1) \<Rightarrow>
        create_server lib cfg log_level cbs mem w =
          Some (if ok then Inr srv else Inl (Failed ''create_nmos_node_server''), mem2, w1) \<and>
        mem_cells mem2 = (\<lambda>p. if ok \<and> p \<in> owned_cells srv then mem_cells mem1 p else mem_cells mem p))
    else \<exists>e\<in>{InteriorNul, InvalidConfig}. create_server lib cfg log_level cbs mem w = Some (Inl e, mem, w)"
proof (cases "clean_node cfg")
  case True
  then obtain node srv mem1 where made: "create_begin cfg log_level cbs mem = (Made (node, srv), mem1)" "fits mem1" "grown mem mem1"
      "node_at mem1 node cfg log_level cbs" "server_at cbs mem1 srv" "owned_cells srv \<subseteq> {mem_next mem ..< mem_next mem1}"
    using begin_begins [OF assms, of cfg log_level cbs] by auto
  obtain ok w1 where call: "c_create lib mem1 node (nsv_raw srv) w = (ok, w1)" by fastforce
  define mem2 where "mem2 = (let kept = free_cells (temporaries mem mem1 srv) mem1 in
     if ok then kept else free_cells (owned_cells srv) kept)"
  have "mem_cells mem2 p = (if ok \<and> p \<in> owned_cells srv then mem_cells mem1 p else mem_cells mem p)" for p
  proof (cases "p < mem_next mem")
    case old: True
    then show ?thesis using made(3,6) by (auto simp: mem2_def Let_def free_cells_def temporaries_def grown_def)
  next
    case new: False
    then have "mem_cells mem p = None" "mem_next mem1 \<le> p \<Longrightarrow> mem_cells mem1 p = None"
      using assms made(2) by (auto simp: fits_def)
    with new made(6) show ?thesis by (auto simp: mem2_def Let_def free_cells_def temporaries_def)
  qed
  then have "mem_cells mem2 = (\<lambda>p. if ok \<and> p \<in> owned_cells srv then mem_cells mem1 p else mem_cells mem p)" by blast
  moreover have "create_server lib cfg log_level cbs mem w =
      Some (if ok then Inr srv else Inl (Failed ''create_nmos_node_server''), mem2, w1)"
    by (simp add: create_server_def made(1) call mem2_def Let_def)
  ultimately show ?thesis using True made(1,4,5) call by auto
next
  case False
  then show ?thesis using begin_begins [OF assms, of cfg log_level cbs] by (auto simp: create_server_def)
qed

section \<open>When callbacks may come\<close>

text \<open>
  A server through its life, with the memory that other threads use as well: they make cells and drop
  those that are not the server's. libnvnmos may call back from the start of the create call until the
  destroy call returns.
\<close>

datatype phase = Unborn | Starting node_server "addr set" | Serving node_server | Dropping node_server "drop_action list" | Gone

fun may_call :: "phase \<Rightarrow> node_server option" where
  "may_call (Starting srv _) = Some srv"
| "may_call (Serving srv) = Some srv"
| "may_call (Dropping srv acts) = (if CallDestroy (nsv_raw srv) \<in> set acts then Some srv else None)"
| "may_call _ = None"

fun owned_in :: "phase \<Rightarrow> addr set" where
  "owned_in (Starting srv _) = owned_cells srv"
| "owned_in (Serving srv) = owned_cells srv"
| "owned_in (Dropping srv _) = owned_cells srv"
| "owned_in _ = {}"

inductive life :: "node_config \<Rightarrow> int \<Rightarrow> 'w callbacks \<Rightarrow> 'w memory \<times> phase \<Rightarrow> 'w memory \<times> phase \<Rightarrow> bool"
  for cfg log_level cbs where
  begins: "create_begin cfg log_level cbs mem = (Made (node, srv), mem1)
    \<Longrightarrow> life cfg log_level cbs (mem, Unborn) (mem1, Starting srv (temporaries mem mem1 srv))"
| starts: "life cfg log_level cbs (mem, Starting srv ps) (free_cells ps mem, Serving srv)"
| fails: "life cfg log_level cbs (mem, Starting srv ps) (free_cells (owned_cells srv) (free_cells ps mem), Gone)"
| drops: "life cfg log_level cbs (mem, Serving srv) (mem, Dropping srv (drop_actions srv))"
| destroyed: "life cfg log_level cbs (mem, Dropping srv (CallDestroy raw # acts)) (mem, Dropping srv acts)"
| freed: "life cfg log_level cbs (mem, Dropping srv (FreeBox ps # acts)) (free_cells ps mem, Dropping srv acts)"
| ends: "life cfg log_level cbs (mem, Dropping srv []) (mem, Gone)"
| other_makes: "life cfg log_level cbs (mem, ph) (snd (alloc c mem), ph)"
| other_drops: "p \<notin> owned_in ph \<Longrightarrow> life cfg log_level cbs (mem, ph) (free_cells {p} mem, ph)"

inductive lives :: "node_config \<Rightarrow> int \<Rightarrow> 'w callbacks \<Rightarrow> 'w memory \<Rightarrow> 'w memory \<times> phase \<Rightarrow> bool"
  for cfg log_level cbs mem0 where
  unborn: "lives cfg log_level cbs mem0 (mem0, Unborn)"
| step: "lives cfg log_level cbs mem0 s \<Longrightarrow> life cfg log_level cbs s t \<Longrightarrow> lives cfg log_level cbs mem0 t"

definition lives_well :: "'w callbacks \<Rightarrow> 'w memory \<times> phase \<Rightarrow> bool" where
  "lives_well cbs s \<longleftrightarrow> fits (fst s) \<and> (\<forall>srv. may_call (snd s) = Some srv \<longrightarrow> server_at cbs (fst s) srv) \<and>
     (\<forall>srv ps. snd s = Starting srv ps \<longrightarrow> ps \<inter> owned_cells srv = {}) \<and>
     (\<forall>srv acts. snd s = Dropping srv acts \<longrightarrow> (\<exists>past. drop_actions srv = past @ acts))"

lemma may_call_owned: "may_call ph = Some srv \<Longrightarrow> owned_in ph = owned_cells srv"
  by (cases ph) (auto split: if_splits)

text \<open>Once a box is freed, the destroy call is over.\<close>

lemma freed_after_destroy: "drop_actions srv = past @ FreeBox ps # acts \<Longrightarrow> CallDestroy raw \<notin> set acts"
  by (auto simp: drop_actions_def Cons_eq_append_conv)

lemma fits_free: "fits mem \<Longrightarrow> fits (free_cells ps mem)"
  by (simp add: fits_def free_cells_def)

lemma alloc_grows: "fits mem \<Longrightarrow> fits (snd (alloc c mem)) \<and> grown mem (snd (alloc c mem))"
  using yields_alloc [of UNIV c] by (simp add: marshals_def)

lemma life_well:
  assumes "life cfg log_level cbs s t" "lives_well cbs s"
  shows "lives_well cbs t"
  using assms
proof (cases rule: life.cases)
  case (begins mem node srv mem1)
  then have "fits mem" using assms(2) by (simp add: lives_well_def)
  with begins begin_begins [OF this, of cfg log_level cbs] show ?thesis
    by (auto simp: lives_well_def temporaries_kept split: if_splits)
next
  case (destroyed mem srv raw acts)
  then have "\<exists>past. drop_actions srv = past @ acts"
    using assms(2) append.assoc [of _ "[CallDestroy raw]" acts] by (fastforce simp: lives_well_def)
  with destroyed assms(2) show ?thesis by (auto simp: lives_well_def)
next
  case (freed mem srv ps acts)
  then obtain past where past: "drop_actions srv = past @ FreeBox ps # acts" using assms(2) by (auto simp: lives_well_def)
  then have "\<exists>past. drop_actions srv = past @ acts" by (metis append.assoc append_Cons append_Nil)
  with freed assms(2) freed_after_destroy [OF past] show ?thesis by (auto simp: lives_well_def fits_free)
next
  case (other_makes mem ph c)
  then show ?thesis
    using assms(2) alloc_grows [of mem c] lastingD [OF server_stable] by (fastforce simp: lives_well_def)
next
  case (other_drops p ph mem)
  then have "server_at cbs (free_cells {p} mem) srv" if "may_call ph = Some srv" for srv
    using assms(2) that may_call_owned [OF that] by (intro server_at_kept) (auto simp: lives_well_def)
  with other_drops assms(2) show ?thesis by (simp add: lives_well_def fits_free)
qed (auto simp: lives_well_def fits_free server_at_kept)

lemma lives_lives_well: "lives cfg log_level cbs mem0 s \<Longrightarrow> fits mem0 \<Longrightarrow> lives_well cbs s"
  by (induction rule: lives.induct) (simp_all add: lives_well_def [of _ "(mem0, Unborn)"] life_well)

text \<open>Creating and dropping a server are parts of such a life.\<close>

lemma create_server_lives:
  assumes "fits mem" "create_server lib cfg log_level cbs mem w = Some (r, mem', w')"
  shows "r = Inr srv \<Longrightarrow> lives cfg log_level cbs mem (mem', Serving srv)"
    and "r = Inl (Failed ''create_nmos_node_server'') \<Longrightarrow> lives cfg log_level cbs mem (mem', Gone)"
proof -
  note begun = lives.step [OF lives.unborn life.begins]
  show "r = Inr srv \<Longrightarrow> lives cfg log_level cbs mem (mem', Serving srv)"
    using assms(2) unfolding create_server_def
    by (auto simp: Let_def split: prod.splits made.splits if_splits intro: lives.step [OF begun life.starts])
  have "create_begin cfg log_level cbs mem \<noteq> (Refused (Failed what), mem1)" for what mem1
    using begin_begins [OF assms(1), of cfg log_level cbs] by (auto split: if_splits)
  then show "r = Inl (Failed ''create_nmos_node_server'') \<Longrightarrow> lives cfg log_level cbs mem (mem', Gone)"
    using assms(2) unfolding create_server_def
    by (auto simp: Let_def split: prod.splits made.splits if_splits intro: lives.step [OF begun life.fails])
qed

lemma drop_run_lives:
  "lives cfg log_level cbs mem0 (mem, Dropping srv acts) \<Longrightarrow>
     lives cfg log_level cbs mem0 (fst (fold (run_drop_action lib) acts (mem, w)), Gone)"
proof (induction acts arbitrary: mem w)
  case Nil
  then show ?case by (simp add: lives.step [OF _ life.ends])
next
  case (Cons act acts)
  show ?case
  proof (cases act)
    case (CallDestroy raw)
    then show ?thesis using Cons.IH [OF lives.step [OF Cons.prems [unfolded CallDestroy] life.destroyed]] by simp
  next
    case (FreeBox ps)
    then show ?thesis using Cons.IH [OF lives.step [OF Cons.prems [unfolded FreeBox] life.freed]] by simp
  qed
qed

lemma drop_server_lives:
  "lives cfg log_level cbs mem0 (mem, Serving srv) \<Longrightarrow> lives cfg log_level cbs mem0 (fst (drop_server lib srv mem w), Gone)"
  unfolding drop_server_def by (rule drop_run_lives [OF lives.step [OF _ life.drops]])

lemma free_cells_twice: "free_cells ps (free_cells qs mem) = free_cells (qs \<union> ps) mem"
  by (auto simp: free_cells_def fun_eq_iff)

lemma drop_server_eq:
  "drop_server lib srv mem w = (free_cells (owned_cells srv) mem, c_destroy lib (nsv_raw srv) mem w)"
  by (simp add: drop_server_def drop_actions_def free_cells_twice owned_cells_def)

lemma callbacks_found: "server_at cbs mem srv \<Longrightarrow> callback_state mem (nsv_raw srv) = (if any_callback cbs then Seen cbs else Unfit)"
  by (auto simp: server_at_def callback_state_def split: option.splits)

text \<open>
  C37. A callback finds its state. From the start of the create call, while the server is in use and until
  the destroy call has returned, whatever other threads make and drop, a trampoline that libnvnmos calls
  with the server finds the callbacks it was created with, if any, and never freed memory. Creating a
  server, successfully or not, and dropping it are parts of such a life: dropping goes through its actions
  one by one, the destroy call gets the memory with the server and its callbacks still in it, and
  afterwards exactly these are gone.
\<close>

theorem callbacks_find_their_state:
  assumes "fits mem0" "lives cfg log_level cbs mem0 (mem, ph)"
  shows "(\<forall>srv. may_call ph = Some srv \<longrightarrow>
      callback_state mem (nsv_raw srv) = (if any_callback cbs then Seen cbs else Unfit)) \<and>
    (\<forall>srv. ph = Serving srv \<longrightarrow>
      may_call (Dropping srv (drop_actions srv)) = Some srv \<and>
      lives cfg log_level cbs mem0 (mem, Dropping srv (drop_actions srv)) \<and>
      (\<forall>lib w. lives cfg log_level cbs mem0 (fst (drop_server lib srv mem w), Gone) \<and>
        drop_server lib srv mem w = (free_cells (owned_cells srv) mem, c_destroy lib (nsv_raw srv) mem w))) \<and>
    (\<forall>lib w r mem' w'. create_server lib cfg log_level cbs mem0 w = Some (r, mem', w') \<longrightarrow>
      (\<forall>srv. r = Inr srv \<longrightarrow> lives cfg log_level cbs mem0 (mem', Serving srv)) \<and>
      (r = Inl (Failed ''create_nmos_node_server'') \<longrightarrow> lives cfg log_level cbs mem0 (mem', Gone)))"
proof (intro conjI allI impI)
  fix srv
  assume "may_call ph = Some srv"
  then show "callback_state mem (nsv_raw srv) = (if any_callback cbs then Seen cbs else Unfit)"
    using lives_lives_well [OF assms(2,1)] by (simp add: lives_well_def callbacks_found)
next
  fix srv
  assume ph: "ph = Serving srv"
  show "may_call (Dropping srv (drop_actions srv)) = Some srv" by (simp add: drop_actions_def)
  show "lives cfg log_level cbs mem0 (mem, Dropping srv (drop_actions srv))"
    using assms(2) ph lives.step life.drops by blast
  show "lives cfg log_level cbs mem0 (fst (drop_server lib srv mem w), Gone)" for lib w
    by (rule drop_server_lives) (use assms(2) ph in simp)
  show "drop_server lib srv mem w = (free_cells (owned_cells srv) mem, c_destroy lib (nsv_raw srv) mem w)" for lib w
    by (rule drop_server_eq)
next
  fix lib w r mem' w' srv
  assume "create_server lib cfg log_level cbs mem0 w = Some (r, mem', w')" "r = Inr srv"
  then show "lives cfg log_level cbs mem0 (mem', Serving srv)" using create_server_lives(1) [OF assms(1)] by blast
next
  fix lib w r mem' w'
  assume "create_server lib cfg log_level cbs mem0 w = Some (r, mem', w')" "r = Inl (Failed ''create_nmos_node_server'')"
  then show "lives cfg log_level cbs mem0 (mem', Gone)" using create_server_lives(2) [OF assms(1)] by blast
qed

text \<open>A server that counts, being dropped, after another thread has made a string.\<close>

definition plain_node :: node_config where
  "plain_node = \<lparr>nc_seed = ''s'', nc_host_name = [], nc_host_addresses = [], nc_http_port = 80, nc_label = [], nc_description = [],
     nc_asset_tags = None, nc_network_services = None, nc_node_annotation = None, nc_device_annotation = None\<rparr>"

lemma plain_begin:
  "\<exists>node mem. create_begin plain_node 0 counting no_memory = (Made (node, \<lparr>nsv_raw = 3, nsv_state = Some 2\<rparr>), mem) \<and>
     mem_next mem = 4"
  by (simp add: create_begin_def marshal_node_def plain_node_def make_bind_def cstring_unless_empty_def cstring_def has_nul_def
      alloc_def make_ret_def array_or_null_def marshal_option_def any_callback_def counting_def no_memory_def)

text \<open>A libnvnmos that only creates servers, and counts them.\<close>

definition counting_lib :: "nat c_lib" where
  "counting_lib = c_lib.make (\<lambda>_ _ _ n. (True, n + 1))
     (\<lambda>raw mem n. case mem_cells mem raw of Some (CServer p) \<Rightarrow> if mem_cells mem p = None then n else n + 1 | _ \<Rightarrow> n)
     (\<lambda>_ _ _ n. (False, n)) (\<lambda>_ _ _ n. (False, n)) (\<lambda>_ _ _ n. (False, n)) (\<lambda>_ _ _ n. (False, n))
     (\<lambda>_ _ _ _ n. (False, n)) (\<lambda>_ _ _ n. (False, n)) (\<lambda>_ _ _ _ _ n. (False, n)) (\<lambda>_ _ _ _ _ n. (False, n))
     (\<lambda>_ _ _ _ _ n. (False, n)) (\<lambda>_ _. (False, [])) (\<lambda>_ _. (False, [])) (\<lambda>_ _ _ _. (False, [])) (\<lambda>_ _ _ _. (False, []))
     (\<lambda>_ _ _ _. (False, [])) (\<lambda>_ _ _ _. (False, [])) (\<lambda>_ _ _ _ _. (False, [])) (\<lambda>_ _. (False, [])) (\<lambda>_ _. (False, []))
     (\<lambda>_ _ _. (False, [])) (\<lambda>_ _ _. (False, [])) (\<lambda>_ _ _. (False, [])) (\<lambda>_ _ _. (False, [])) (\<lambda>_ _ _ _. (False, []))"

theorem server_created_witness:
  "\<exists>mem. create_server counting_lib plain_node 0 counting no_memory 0 = Some (Inr \<lparr>nsv_raw = 3, nsv_state = Some 2\<rparr>, mem, 1) \<and>
     mem_cells mem = [2 \<mapsto> CCallbacks counting, 3 \<mapsto> CServer 2]"
proof -
  obtain node0 mem0 where begun: "create_begin plain_node 0 counting no_memory = (Made (node0, \<lparr>nsv_raw = 3, nsv_state = Some 2\<rparr>), mem0)"
    using plain_begin by blast
  have clean: "clean_node plain_node"
    by (simp add: clean_node_def plain_node_def no_nul_def has_nul_def)
  have calls: "c_create counting_lib mem node raw 0 = (True, 1)" for mem node raw
    by (simp add: counting_lib_def c_lib.make_def)
  obtain mem1 mem2 where "server_at counting mem1 \<lparr>nsv_raw = 3, nsv_state = Some 2\<rparr>"
    and created: "create_server counting_lib plain_node 0 counting no_memory 0 = Some (Inr \<lparr>nsv_raw = 3, nsv_state = Some 2\<rparr>, mem2, 1)"
    and left: "mem_cells mem2 = (\<lambda>p. if p \<in> owned_cells \<lparr>nsv_raw = 3, nsv_state = Some 2\<rparr> then mem_cells mem1 p else mem_cells no_memory p)"
    using server_created [OF fits_no_memory, of plain_node 0 counting counting_lib 0] clean calls begun by auto
  then have "mem_cells mem2 = [2 \<mapsto> CCallbacks counting, 3 \<mapsto> CServer 2]"
    by (auto simp: server_at_def owned_cells_def no_memory_def)
  with created show ?thesis by blast
qed

theorem callbacks_find_their_state_witness:
  "\<exists>mem. lives plain_node 0 counting no_memory (mem, Serving \<lparr>nsv_raw = 3, nsv_state = Some 2\<rparr>) \<and>
     mem_cells mem 4 = Some (CStr ''other'') \<and> callback_state mem 3 = Seen counting \<and>
     lives plain_node 0 counting no_memory
       (mem, Dropping \<lparr>nsv_raw = 3, nsv_state = Some 2\<rparr> [CallDestroy 3, FreeBox {3}, FreeBox {2}]) \<and>
     snd (drop_server counting_lib \<lparr>nsv_raw = 3, nsv_state = Some 2\<rparr> mem 7) = 8 \<and>
     callback_state (fst (drop_server counting_lib \<lparr>nsv_raw = 3, nsv_state = Some 2\<rparr> mem 7)) 3 = Wild"
proof -
  let ?srv = "\<lparr>nsv_raw = 3, nsv_state = Some 2\<rparr>"
  obtain node mem1 where begun: "create_begin plain_node 0 counting no_memory = (Made (node, ?srv), mem1)" "mem_next mem1 = 4"
    using plain_begin by blast
  define mem2 where "mem2 = free_cells (temporaries no_memory mem1 ?srv) mem1"
  define mem3 where "mem3 = snd (alloc (CStr ''other'') mem2)"
  have "lives plain_node 0 counting no_memory (mem2, Serving ?srv)"
    using lives.step [OF lives.step [OF lives.unborn life.begins [OF begun(1)]] life.starts] by (simp add: mem2_def)
  then have serving: "lives plain_node 0 counting no_memory (mem3, Serving ?srv)"
    unfolding mem3_def by (rule lives.step) (rule life.other_makes)
  have any: "any_callback counting" by (simp add: any_callback_def counting_def)
  note found = callbacks_find_their_state [OF fits_no_memory serving]
  have state: "callback_state mem3 3 = Seen counting" using found any by simp
  then have cells: "mem_cells mem3 3 = Some (CServer 2)" "mem_cells mem3 2 \<noteq> None"
    using found any begun lives_lives_well [OF serving fits_no_memory] by (auto simp: lives_well_def server_at_def)
  have dropped: "drop_server counting_lib ?srv mem3 7 = (free_cells {3, 2} mem3, c_destroy counting_lib 3 mem3 7)"
    using found by (simp add: owned_cells_def)
  have destroyed: "c_destroy counting_lib 3 mem3 7 = 8" using cells by (auto simp: counting_lib_def c_lib.make_def)
  have other: "mem_cells mem3 4 = Some (CStr ''other'')"
    by (simp add: mem3_def mem2_def alloc_def free_cells_def begun(2))
  have dropping: "lives plain_node 0 counting no_memory (mem3, Dropping ?srv [CallDestroy 3, FreeBox {3}, FreeBox {2}])"
    using found by (simp add: drop_actions_def)
  have wild: "callback_state (free_cells {3, 2} mem3) 3 = Wild"
    by (simp add: callback_state_def free_cells_def)
  show ?thesis
    by (rule exI [of _ mem3]) (simp add: serving other state dropping dropped destroyed wild)
qed

end
