(* ===== verification/Spec2Isabelle.thy ===== *)
theory Spec2Isabelle
  imports Nvn_Daemon_Facts Nvn_Checkpoint Gst_ChannelRouting Gst_Slot Gst_ElementFacts Gst_ConfigFacts Gst_AudioMapFacts Nvn_FfiFacts
begin

text \<open>
  Verification of \<^verbatim>\<open>nvnmos\<close>, the NMOS daemon \<^verbatim>\<open>nvnmosd\<close> and its clients.

  The program. \<^verbatim>\<open>src/rust/nvnmosd\<close> is a daemon that runs NMOS Nodes for its clients over
  gRPC. A client opens a session on a Node (the Node is created with its first session, or was
  added for good), subscribes to streams of events, and adds senders, receivers and channel
  mappings that live as long as its session. The NMOS APIs are served by the C++ library
  libnvnmos; when a controller activates a connection (IS-05) or a channel map (IS-08), or edits
  an annotation (IS-13), the library calls back into the daemon, which routes the request to the
  client that owns the resource and waits for its acknowledgement. All state is in one table
  structure behind one lock (\<^verbatim>\<open>state.rs\<close>); calls of the library run without the lock, so
  every operation that needs one is split into a check under the lock, the call, and a commit
  under the lock. A session that has no stream is closed by a watchdog (\<^verbatim>\<open>session_gc.rs\<close>).
  \<^verbatim>\<open>src/rust/gst-nmos-rs\<close> holds its clients: GStreamer elements that send or receive one
  stream (\<^verbatim>\<open>nmossink\<close>, \<^verbatim>\<open>nmossrc\<close>) or route audio channels. An element opens a session when its
  pipeline starts, adds its sender or receiver, and swaps the chain of elements behind its pad
  between a fake one and a real one as it is activated.

  The theories, each importing the ones it uses:

  \<^item> \<open>Nvn_Prelude\<close>: results, hash maps and sets as association lists with their laws, decimal
    numbers, prefixes of strings.
  \<^item> \<open>Nvn_Config\<close>: \<^verbatim>\<open>env_config.rs\<close>, \<^verbatim>\<open>http_port.rs\<close>, \<^verbatim>\<open>uds.rs\<close> and the
    configuration of \<^verbatim>\<open>session_gc.rs\<close>.
  \<^item> \<open>Nvn_Annotation\<close>, \<open>Nvn_Checkpoint\<close>: \<^verbatim>\<open>annotation_store.rs\<close>, the store with its
    abstract specification, the checkpoint file under faults of the file system, and the writer
    thread as a step relation.
  \<^item> \<open>Nvn_Channel\<close>, \<open>Nvn_State\<close>: bounded channels and the data model of
    \<^verbatim>\<open>state.rs\<close>, with the handle allocators.
  \<^item> \<open>Nvn_Lib\<close>: the boundary to libnvnmos, a record of functions on an abstract world, and the
    translation of requests.
  \<^item> \<open>Nvn_Ffi\<close>, \<open>Nvn_FfiFacts\<close>: \<^verbatim>\<open>nvnmos/src/lib.rs\<close>, the crate between the daemon and the C library:
    values marshalled into an explicit memory, the trampolines that callbacks come in by, and the life of
    a server, whose drop is a list of actions on that memory (\<open>drop_actions\<close>); and that both directions
    keep what they carry.
  \<^item> \<open>Nvn_Nodes\<close>, \<open>Nvn_Subscriptions\<close>, \<open>Nvn_Resources\<close>, \<open>Nvn_Activation\<close>,
    \<open>Nvn_ChannelMapping\<close>, \<open>Nvn_AnnotStream\<close>: the operations of \<^verbatim>\<open>State\<close>, each with its
    deferred library work, as functions from a state to a result and a state.
  \<^item> \<open>Nvn_Invariants\<close>, \<open>Nvn_Inv_Nodes\<close>, \<open>Nvn_Inv_Objects\<close>: the invariant of the tables
    and that every operation keeps it.
  \<^item> \<open>Nvn_Daemon\<close>: the handlers of \<^verbatim>\<open>main.rs\<close>, streams, watchdogs and callbacks as
    actions and tasks that interleave in any order; \<open>reach\<close> is what the daemon can get to.
  \<^item> \<open>Nvn_Daemon_Inv\<close>, \<open>Nvn_Daemon_Facts\<close>: the invariant of reachable daemons and what it
    gives to clients. \<open>Nvn_Examples\<close>: concrete runs, evaluated by simplification.
  \<^item> \<open>Gst_Prelude\<close>: GStreamer values, structures and caps, and JSON values, as far as the
    elements read them.
  \<^item> \<open>Gst_ChannelMap\<close>, \<open>Gst_ChannelRouting\<close>: \<^verbatim>\<open>channel_mapping/*.rs\<close>, active maps and mix
    matrices, and that they play the map.
  \<^item> \<open>Gst_Node\<close>: \<^verbatim>\<open>session/node.rs\<close> and \<^verbatim>\<open>network_services.rs\<close>, the Node that an element asks for.
  \<^item> \<open>Gst_Client\<close>, \<open>Gst_Session\<close>, \<open>Gst_Slot\<close>: \<^verbatim>\<open>runtime.rs\<close>, \<^verbatim>\<open>daemon.rs\<close>,
    \<^verbatim>\<open>channel_mapping_session.rs\<close> and \<^verbatim>\<open>session/channel_mapping.rs\<close>: calls with deadlines, sessions, and
    the slot of an element that holds one, with what holds of a slot over its life.
  \<^item> \<open>Gst_FlowDef\<close>, \<open>Gst_FlowRoundtrip\<close>: \<^verbatim>\<open>flow_def.rs\<close>, \<^verbatim>\<open>domain.rs\<close>, \<^verbatim>\<open>types.rs\<close>, MXL flow
    definitions and that they are read back.
  \<^item> \<open>Gst_Packetization\<close>: \<^verbatim>\<open>nvdsudp/packetization.rs\<close> and \<^verbatim>\<open>nvdsudp/ts_refclk.rs\<close>, sizes of RTP packets.
  \<^item> \<open>Gst_Plan\<close>, \<open>Gst_PlanFacts\<close>: \<^verbatim>\<open>session/mod.rs\<close>, \<^verbatim>\<open>session/mxl.rs\<close> and \<^verbatim>\<open>session/udp\<close>, from the
    properties of an element to its configuration and from an activation to a plan. Reading an SDP may
    succeed, fail or panic (\<open>sdp_outcome\<close>).
  \<^item> \<open>Gst_Inner\<close>: the swap of a chain in \<^verbatim>\<open>inner.rs\<close>, for every pattern of failures.
  \<^item> \<open>Gst_Chains\<close>: the builders of \<^verbatim>\<open>inner.rs\<close>, \<^verbatim>\<open>iface.rs\<close> and \<^verbatim>\<open>essence_caps.rs\<close>: which elements a
    chain has, with which properties.
  \<^item> \<open>Gst_Element\<close>, \<open>Gst_ElementFacts\<close>: \<^verbatim>\<open>nmossink/imp.rs\<close> and \<^verbatim>\<open>nmossrc/imp.rs\<close>: state changes,
    activations and errors, the states that elements reach and what holds in them. The chain behind the
    anchor is kept with the inner element (\<open>el_built\<close>), so that it can be compared with the plan.
  \<^item> \<open>Gst_Float\<close>: binary floating point as rationals with rounding, for the packet times and bit rates
    that the code computes in \<^verbatim>\<open>f64\<close>, with a bound on the error.
  \<^item> \<open>Gst_Sdp\<close>, \<open>Gst_SdpBuild\<close>, \<open>Gst_SdpPassthrough\<close>: \<^verbatim>\<open>sdp.rs\<close> and \<^verbatim>\<open>sdp_passthrough.rs\<close>: session
    descriptions read into the legs and essence of a stream, built from caps and properties, checked
    against them, and changed by the properties of an element; \<open>nmos_sdp\<close> is the instance of the
    parameter that \<open>Gst_Plan\<close> has for them.
  \<^item> \<open>Gst_SdpFacts\<close>, \<open>Gst_SdpRead\<close>: what is written is read back, leg by leg and attribute by
    attribute, and cutting a description down to one leg keeps its lines. \<open>Gst_ConfigFacts\<close>: the messages
    that the reader panics on, and that resolving the properties of an element panics on no others.
  \<^item> \<open>Gst_AudioMap\<close>, \<open>Gst_AudioMapFacts\<close>: \<^verbatim>\<open>nmosaudiochannelmap\<close>: pads, the graph of mixers and
    matrices, fixing the topology and activations; the states it reaches and what holds in them.

  Interfaces are locales that are interpreted on the model's own operations:
  \<open>handle_allocator\<close> (five kinds of handles), \<open>subscription_slot\<close> (three kinds of streams),
  \<open>ack_protocol\<close> (two kinds of activations), and those of the store and the prelude;
  \<open>client_session\<close> (the two kinds of sessions of the elements), \<open>chain_property\<close> and
  \<open>element_property\<close> (what the steps of an element keep, for each part of its invariant); \<open>marshaller\<close> and
  \<open>pointer_marshaller\<close> (making the C structure of a value, for eleven kinds of values).

  What is shown. Of a running daemon: the tables stay consistent under every interleaving, Nodes
  live as long as they should, ports are exclusive, closing a session is complete and final,
  activations reach their owner and only its answer reaches the library, callbacks end, watchdogs
  close abandoned sessions and nothing else, and no operation reports an internal error. Of the
  components: the annotation store refines its specification, checkpoints are atomic and read
  back, the writer loses no update, ports are resolved as asked, requests are translated without
  loss, streams start with their snapshot and have no gaps. Of the elements: sessions do not leak
  and state changes return even when the daemon is silent, requests are accepted by the daemon,
  flow definitions and active maps are read back as they were written, the mix matrices play the
  active map, a chain is swapped safely, an element comes up on a real chain only when configured
  for it, both ends of a stream fit together, and what is answered to an activation is what was
  done. Session descriptions that an element builds or changes are read back as the properties say,
  and packet times survive binary floating point. The channel mapping element plays what its
  controller sees, when it starts and after every activation. The wrapper of the C library hands over
  every configuration whole and a callback finds its state, whatever other threads do. Some theorems state behaviour that the
  code hardly intends: \<open>abandoned_without_watchdog\<close>, \<open>late_add_removes_new_nodes_sender\<close>,
  \<open>rejected_activation_stays_active\<close>, \<open>source_override_lost\<close>, \<open>clock_rate_override_lost\<close>,
  \<open>failed_start_is_final\<close> and \<open>retry_keeps_empty_ids\<close>; so do the panic in \<open>element_configuration\<close>
  and, in \<open>activation_outcome_truthful\<close>, the chain that a rejected activation leaves behind.

  Bounds. Handles are numbered by 64-bit counters that wrap in the code; \<open>reach\<close> takes a step
  only while none has run out (\<open>no_wrap\<close>), which \<open>2 ^ 64\<close> requests would take. Ports and the
  numbers of requests keep their width, sizes of packets are words of 32 and 64 bits. No fuel is
  needed: loops are structural recursions. Time in the elements passes only where they wait.

  Not modelled. libnvnmos, nmos-cpp and the raw bindings (\<^verbatim>\<open>nvnmos-sys\<close>): C and
  C++ code behind the boundary, the parameters \<open>c_lib\<close> of the crate and the library record of the daemon.
  Aliasing rules of Rust: memory is cells that are there or not. The text of JSON and of gRPC messages
  (\<^verbatim>\<open>serde_json\<close>, \<^verbatim>\<open>prost\<close>, \<^verbatim>\<open>tonic\<close>). Logging. The clock: a watchdog may fire
  and a wait may end at any moment. The counts of \<^verbatim>\<open>Arc\<close> references to a server. GStreamer
  itself: which plugins exist, what it refuses, fixation and features of caps are parameters.
  Declarations of GObject properties and pad templates. Of SDP, the library of GStreamer that parses and
  prints it and fills a media block from caps, the text of caps, hashing, the list of network
  interfaces and the printing of a fraction of milliseconds are the parameter \<open>sdp_lib\<close>; what
  GStreamer answers to the channel mapping element is \<open>map_env\<close>, and an activation that arrives
  while that element starts is taken before or after the start. The temporary file that hands an SDP to
  the Rivermax elements (\<^verbatim>\<open>nvdsudp/sdp_file.rs\<close>). The test elements of \<^verbatim>\<open>gst-avsynctest-rs\<close>, benchmarks and examples.
\<close>

section \<open>The tables of a running daemon\<close>

text \<open>
  C1. In every reachable state, whatever the interleaving of requests, library calls, callbacks,
  dropped streams and watchdogs, the tables of the daemon agree with each other (\<open>state_inv\<close>).
\<close>

theorem reachable_consistent:
  assumes "reach lib js d"
  shows "state_inv (creates_of (d_tasks d)) (d_state d)"
  by (rule reach_state_inv [OF assms])

theorem reachable_consistent_witness:
  "state_inv (creates_of (d_tasks demo_added)) (d_state demo_added) \<and> d_state demo_added \<noteq> state_new"
  using reachable_consistent [OF reach_added] by (simp add: demo_defs)


text \<open>
  C2. The lifetime of Nodes. The session count of a Node is the number of its open sessions; a
  session-refcounted Node is there only while it has one; and the Node of every open session is
  there.
\<close>

theorem node_lifetime:
  assumes "reach lib js d"
  shows "(\<forall>seed n. hm_get (nodes (d_state d)) seed = Some n \<longrightarrow>
      ne_attached_sessions n =
        card {h. \<exists>se. hm_get (sessions (d_state d)) h = Some se \<and> se_node_seed se = seed} \<and>
      (ne_lifetime n = SessionRefcounted \<longrightarrow> 0 < ne_attached_sessions n)) \<and>
    (\<forall>h se. hm_get (sessions (d_state d)) h = Some se \<longrightarrow>
      hm_get (nodes (d_state d)) (se_node_seed se) \<noteq> None)"
  using reach_node [OF assms] session_node [OF reach_state_inv [OF assms]] by simp

theorem node_lifetime_witness:
  "\<exists>n. hm_get (nodes (d_state demo_added)) ''n'' = Some n \<and> ne_attached_sessions n = 1 \<and>
     card {h. \<exists>se. hm_get (sessions (d_state demo_added)) h = Some se \<and> se_node_seed se = ''n''} = 1"
proof -
  obtain n where "hm_get (nodes (d_state demo_added)) ''n'' = Some n" "ne_attached_sessions n = 1"
    by (simp add: demo_simps)
  with node_lifetime [OF reach_added] show ?thesis by fastforce
qed

text \<open>
  C11. HTTP ports are exclusive: no two Nodes have the same port, and no Node that is being created
  holds the port or the seed of a Node that exists.
\<close>

theorem http_ports_exclusive:
  assumes "reach lib js d" "hm_get (nodes (d_state d)) seed = Some n"
  shows "(\<forall>seed' n'. hm_get (nodes (d_state d)) seed' = Some n' \<longrightarrow> ne_http_port n' = ne_http_port n \<longrightarrow> seed' = seed) \<and>
    (\<forall>seed' p. (seed', p) \<in> set (creates_of (d_tasks d)) \<longrightarrow> p \<noteq> ne_http_port n \<and> seed' \<noteq> seed)"
proof -
  note port = reach_node(3) [OF assms]
  have "\<forall>seed' n'. hm_get (nodes (d_state d)) seed' = Some n' \<longrightarrow> ne_http_port n' = ne_http_port n \<longrightarrow> seed' = seed"
    using port reach_node(3) [OF assms(1)] by (metis option.inject)
  moreover have "\<forall>seed' p. (seed', p) \<in> set (creates_of (d_tasks d)) \<longrightarrow> p \<noteq> ne_http_port n \<and> seed' \<noteq> seed"
    using port assms(2) nodes_okD(6) [OF state_invD(2) [OF reach_state_inv [OF assms(1)]]] by fastforce
  ultimately show ?thesis by (rule conjI)
qed

theorem http_ports_exclusive_witness:
  "\<exists>n. hm_get (nodes (d_state demo_added)) ''n'' = Some n \<and>
     (\<forall>seed' n'. hm_get (nodes (d_state demo_added)) seed' = Some n' \<longrightarrow> ne_http_port n' = ne_http_port n \<longrightarrow> seed' = ''n'')"
proof -
  obtain n where n: "hm_get (nodes (d_state demo_added)) ''n'' = Some n"
    by (simp add: demo_simps)
  with http_ports_exclusive [OF reach_added n] show ?thesis by blast
qed

text \<open>
  C10. The operations on a session never find the tables in disagreement: in a reachable state
  none of them answers with the code \<^verbatim>\<open>INTERNAL\<close>.
\<close>

theorem no_internal_errors:
  assumes "reach lib js d"
    and "fst (close_session h (d_state d)) = Inl e \<or>
      fst (prepare_add_resource from_str sd h tr f name (d_state d)) = Inl e \<or>
      fst (remove_resource h r (d_state d)) = Inl e \<or>
      sync_resource_state h r file (d_state d) = Inl e \<or>
      fst (prepare_add_channelmapping h name ins outs (d_state d)) = Inl e \<or>
      fst (remove_channelmapping h c (d_state d)) = Inl e \<or>
      sync_channelmapping_state h c output_id active_map (d_state d) = Inl e \<or>
      prepare_annotation_update h rt r (d_state d) = Inl e"
  shows "status_code e \<noteq> Internal"
proof -
  note inv = reach_state_inv [OF assms(1)]
  show ?thesis
    using assms(2) close_session_not_internal [OF inv] remove_not_internal [OF inv]
      prepare_not_internal [OF inv] annotation_update_not_internal [OF inv] by (metis code.distinct)
qed

theorem no_internal_errors_witness:
  "status_code (Status NotFound SessionUnknown) \<noteq> Internal \<and>
   fst (close_session ''sess-9'' (d_state demo_added)) = Inl (Status NotFound SessionUnknown)"
proof -
  have "fst (close_session ''sess-9'' (d_state demo_added)) = Inl (Status NotFound SessionUnknown)"
    by (simp add: demo_simps)
  then show ?thesis using no_internal_errors [OF reach_added] by blast
qed


section \<open>Closing sessions\<close>

text \<open>
  C3. Closing an open session always succeeds. Afterwards nothing refers to the session; the
  deferred library work removes from the Node's server exactly the resources and channel mappings
  of the session; other sessions and their resources are untouched.
\<close>

theorem close_session_complete:
  assumes "reach lib js d" "hm_get (sessions (d_state d)) h = Some se"
  shows "\<exists>out ffi s'. close_session h (d_state d) = (Inr (out, ffi), s') \<and> owns_nothing h s' \<and>
    set (csf_resource_removals ffi) =
      {(re_side e, re_name e) |e r. hm_get (resources (d_state d)) r = Some e \<and> re_session_handle e = h} \<and>
    set (csf_channelmapping_removals ffi) =
      {cm_name e |e c. hm_get (channelmappings (d_state d)) c = Some e \<and> cm_session_handle e = h} \<and>
    map_option ne_server (hm_get (nodes (d_state d)) (se_node_seed se)) = Some (csf_server ffi) \<and>
    (\<forall>h'. h' \<noteq> h \<longrightarrow> hm_get (sessions s') h' = hm_get (sessions (d_state d)) h') \<and>
    (\<forall>r e. hm_get (resources (d_state d)) r = Some e \<longrightarrow> re_session_handle e \<noteq> h \<longrightarrow> hm_get (resources s') r = Some e)"
proof -
  let ?s = "d_state d"
  note inv = reach_state_inv [OF assms(1)]
  obtain n rs s2 ms s3 out s' where n: "hm_get (nodes ?s) (se_node_seed se) = Some n"
    and st: "close_resources (se_resources se) (drop_session_streams h (?s\<lparr>sessions := hm_remove h (sessions ?s)\<rparr>)) = (rs, s2)"
      "close_channelmappings (se_channelmappings se) s2 = (ms, s3)"
    and c: "close_session h ?s =
       (Inr (out, \<lparr>csf_server = ne_server n, csf_resource_removals = rs, csf_channelmapping_removals = ms\<rparr>), s')"
    by (rule close_session_ok [OF inv assms(2)])
  note cl = close_session_cleared [OF inv assms(2) c] cleared_before_detach [OF st refl]
  have "set rs = {(re_side e, re_name e) |e r. hm_get (resources ?s) r = Some e \<and> re_session_handle e = h}"
    "set ms = {cm_name e |e c. hm_get (channelmappings ?s) c = Some e \<and> cm_session_handle e = h}"
    using cl(2) removal_sets [OF inv assms(2)] by simp_all
  moreover have "hm_get (resources s') r = Some e" if "hm_get (resources ?s) r = Some e" "re_session_handle e \<noteq> h" for r e
    using cl(1) owned_iff_listed(1) [OF inv assms(2) that(1)] that by (simp add: session_cleared_def restrict_map_def)
  ultimately show ?thesis using n c closed_owns_nothing [OF inv c] by auto
qed

theorem close_session_complete_witness:
  "\<exists>out ffi s'. close_session ''sess-0'' (d_state demo_added) = (Inr (out, ffi), s') \<and> owns_nothing ''sess-0'' s' \<and>
     (Sender, ''cam'') \<in> set (csf_resource_removals ffi)"
proof -
  obtain se where se: "hm_get (sessions (d_state demo_added)) ''sess-0'' = Some se"
    by (simp add: demo_simps)
  have "hm_get (resources (d_state demo_added)) ''res-0'' = Some (demo_entry ''sess-0'')"
    "re_session_handle (demo_entry ''sess-0'') = ''sess-0''"
    "(re_side (demo_entry ''sess-0''), re_name (demo_entry ''sess-0'')) = (Sender, ''cam'')"
    by (simp_all add: demo_simps)
  then have mem: "(Sender, ''cam'') \<in> {(re_side e, re_name e) |e r.
      hm_get (resources (d_state demo_added)) r = Some e \<and> re_session_handle e = ''sess-0''}"
    by (intro CollectI exI [of _ "demo_entry ''sess-0''"] exI [of _ "''res-0''"]) simp
  from close_session_complete [OF reach_added se] show ?thesis
  proof (elim exE conjE)
    fix out ffi s'
    assume "close_session ''sess-0'' (d_state demo_added) = (Inr (out, ffi), s')" "owns_nothing ''sess-0'' s'"
      and "set (csf_resource_removals ffi) = {(re_side e, re_name e) |e r.
        hm_get (resources (d_state demo_added)) r = Some e \<and> re_session_handle e = ''sess-0''}"
    with mem show ?thesis by (intro exI conjI) (assumption, assumption, simp only:)
  qed
qed

text \<open>
  C9. A session handle that has been closed stays dead: no action whatsoever brings the session
  back or leaves anything owned by it, and its handle is not issued again.
\<close>

theorem closed_sessions_stay_closed:
  assumes "reach lib js d" "no_wrap (d_state d)"
    and "issued session_handle (next_session_id (d_state d)) h" "hm_get (sessions (d_state d)) h = None"
    and "perform lib js act d = (r, d')"
  shows "owns_nothing h (d_state d') \<and> issued session_handle (next_session_id (d_state d')) h"
proof -
  have "sess_ext (d_state d) (d_state d')"
    using perform_sess_ext [OF assms(1,2), of act] assms(5) by simp
  with assms(3,4) have "hm_get (sessions (d_state d')) h = None"
    "issued session_handle (next_session_id (d_state d')) h"
    by (auto simp: sess_ext_def)
  moreover have "reach lib js d'" by (rule reach_step [OF assms(1,2,5)])
  ultimately show ?thesis using inv_absent_owns_nothing [OF reach_state_inv] by blast
qed

theorem closed_sessions_stay_closed_witness:
  "owns_nothing ''sess-0'' (d_state (snd (perform demo_lib no_json
     (DoOpenSession (\<lambda>_. True) (demo_node ''n'')) (snd (perform demo_lib no_json (DoCloseSession ''sess-0'') demo_added)))))"
proof -
  let ?d = "snd (perform demo_lib no_json (DoCloseSession ''sess-0'') demo_added)"
  have r: "reach demo_lib no_json ?d"
    by (rule reach_step [OF reach_added, of "DoCloseSession ''sess-0''"]) (simp_all add: demo_simps)
  have "issued session_handle (next_session_id (d_state ?d)) ''sess-0''"
    by (simp add: demo_simps issued_def)
  moreover have "no_wrap (d_state ?d)" "hm_get (sessions (d_state ?d)) ''sess-0'' = None"
    by (simp_all add: demo_simps)
  ultimately show ?thesis
    using closed_sessions_stay_closed [OF r _ _ _ prod.collapse [symmetric]] by blast
qed


text \<open>
  C6. Closing a session wakes the callbacks that wait for it. A pending activation of the closed
  session that has no answer yet fails at once instead of waiting for its time; activations of
  other sessions go on waiting as they did.
\<close>

theorem close_session_wakes_callbacks:
  assumes "reach lib js d" "close_session h (d_state d) = (Inr out, s')"
  shows "(\<forall>a time_up. hm_get (pending_activations (d_state d)) a = Some h \<longrightarrow> hm_get (acks (d_state d)) a = None \<longrightarrow>
      activation_recv a time_up s' = Some AckDisconnected) \<and>
    (\<forall>a time_up. hm_get (pending_channelmapping_activations (d_state d)) a = Some h \<longrightarrow>
      hm_get (cm_acks (d_state d)) a = None \<longrightarrow> cm_activation_recv a time_up s' = Some AckDisconnected) \<and>
    (\<forall>a h' time_up. hm_get (pending_activations (d_state d)) a = Some h' \<longrightarrow> h' \<noteq> h \<longrightarrow>
      activation_recv a time_up s' = activation_recv a time_up (d_state d))"
proof -
  let ?s = "d_state d"
  note inv = reach_state_inv [OF assms(1)]
  obtain se where "hm_get (sessions ?s) h = Some se"
    using assms(2) by (auto simp: close_session_def split: option.splits)
  note cl = close_session_cleared [OF inv this assms(2)]
  have wf: "hm_wf (pending_activations ?s)" "hm_wf (pending_channelmapping_activations ?s)"
    using state_invD(1) [OF inv] by (simp_all add: tables_ok_def)
  show ?thesis
    using cl wf
    by (auto simp: session_cleared_def same_rest_def activation_recv_def cm_activation_recv_def recv_timeout_def
        hm_contains_def hm_get_retain intro!: recv_timeout_cong)
qed

theorem close_session_wakes_callbacks_witness:
  "\<exists>out s' s. d_state (snd (perform demo_lib no_json (DoActivation ''n'' Sender ''cam'' None) demo_added)) = s \<and>
     activation_recv ''act-0'' False s = None \<and> close_session ''sess-0'' s = (Inr out, s') \<and>
     activation_recv ''act-0'' False s' = Some AckDisconnected"
proof -
  let ?d = "snd (perform demo_lib no_json (DoActivation ''n'' Sender ''cam'' None) demo_added)"
  have r: "reach demo_lib no_json ?d"
    by (rule reach_step [OF reach_added _ prod.collapse [symmetric]]) (simp add: demo_simps)
  have p: "hm_get (pending_activations (d_state ?d)) ''act-0'' = Some ''sess-0''"
    "hm_get (acks (d_state ?d)) ''act-0'' = None" "activation_recv ''act-0'' False (d_state ?d) = None"
    by (simp_all add: demo_simps activation_recv_def recv_timeout_def)
  obtain se where se: "hm_get (sessions (d_state ?d)) ''sess-0'' = Some se"
    by (simp add: demo_simps)
  obtain out s' where c: "close_session ''sess-0'' (d_state ?d) = (Inr out, s')"
    using close_session_ok [OF reach_state_inv [OF r] se] by metis
  have "activation_recv ''act-0'' False s' = Some AckDisconnected"
    using close_session_wakes_callbacks [OF r c] p by blast
  with p c show ?thesis by blast
qed

section \<open>Activations\<close>

text \<open>
  C4. An IS-05 activation that is routed goes to the session that owns the resource, on the Node
  it was made on, as the newest event of that session's stream and of no other; it is pending
  under a handle that was not in use.
\<close>

theorem activation_reaches_owner:
  assumes "reach lib js d" and disp: "dispatch_activation seed sd name file (d_state d) = (Routed a, s')"
  shows "\<exists>r e se tx. hm_get (resources (d_state d)) r = Some e \<and> resource_key e = (seed, sd, name) \<and>
    hm_get (sessions (d_state d)) (re_session_handle e) = Some se \<and> se_node_seed se = seed \<and>
    hm_get (subscriptions (d_state d)) (re_session_handle e) = Some tx \<and>
    queue_of (act_chans s') tx = queue_of (act_chans (d_state d)) tx @
      [\<lparr>ae_resource_handle = r, ae_activation_handle = a, ae_transport_file = file, ae_side = side_to_proto sd\<rparr>] \<and>
    (\<forall>t. t \<noteq> tx \<longrightarrow> queue_of (act_chans s') t = queue_of (act_chans (d_state d)) t) \<and>
    hm_get (pending_activations (d_state d)) a = None \<and>
    hm_get (pending_activations s') a = Some (re_session_handle e) \<and> a \<in> set (ack_waiting s') \<and>
    hm_get (acks s') a = None"
proof -
  let ?s = "d_state d"
  note inv = reach_state_inv [OF assms(1)]
  obtain r e tx heap where r: "hm_get (by_name ?s) (seed, sd, name) = Some r" "hm_get (resources ?s) r = Some e"
    "hm_get (subscriptions ?s) (re_session_handle e) = Some tx" "a = activation_handle (next_activation_id ?s)"
    and send: "try_send tx \<lparr>ae_resource_handle = r, ae_activation_handle = a, ae_transport_file = file,
      ae_side = side_to_proto sd\<rparr> (act_chans ?s) = (SendOk, heap)"
    and s': "s' = ?s\<lparr>next_activation_id := next_activation_id ?s + 1, act_chans := heap,
      pending_activations := hm_insert a (re_session_handle e) (pending_activations ?s),
      ack_waiting := hs_insert a (ack_waiting ?s)\<rparr>"
    using dispatch_routed [OF disp] by blast
  have idx: "index_ok (hm_get (by_name ?s)) (hm_get (resources ?s)) (\<lambda>e. {resource_key e})"
    and own: "owned_ok (hm_get (sessions ?s)) se_resources (hm_get (resources ?s)) re_session_handle re_node_seed"
    using state_invD(3) [OF inv] by (simp_all add: resources_ok_def)
  have key: "resource_key e = (seed, sd, name)" using idx r by (fastforce simp: index_ok_def)
  then have "re_node_seed e = seed" by (simp add: resource_key_def)
  with owned_okD1 [OF own r(2)] obtain se where
    "hm_get (sessions ?s) (re_session_handle e) = Some se" "se_node_seed se = seed" by auto
  moreover have "hm_get (pending_activations ?s) a = None" "hm_get (acks s') a = None"
    using activation_handle_fresh [OF state_invD(6) [OF inv]] by (simp_all add: r(4) s')
  ultimately show ?thesis
    using r key try_send_ok_queue [OF send] queue_of_try_send_other [OF send]
    by (intro exI [of _ r] exI [of _ e] exI [of _ se] exI [of _ tx]) (simp add: s')
qed

theorem activation_reaches_owner_witness:
  "\<exists>a s'. dispatch_activation ''n'' Sender ''cam'' None (d_state demo_added) = (Routed a, s') \<and>
    queue_of (act_chans s') 1 = [\<lparr>ae_resource_handle = ''res-0'', ae_activation_handle = a,
      ae_transport_file = None, ae_side = 1\<rparr>]"
proof -
  obtain s' where s': "dispatch_activation ''n'' Sender ''cam'' None (d_state demo_added) = (Routed ''act-0'', s')"
    by (simp add: demo_simps)
  from activation_reaches_owner [OF reach_added s'] obtain r e tx where
    "hm_get (resources (d_state demo_added)) r = Some e"
    "hm_get (subscriptions (d_state demo_added)) (re_session_handle e) = Some tx"
    "queue_of (act_chans s') tx = queue_of (act_chans (d_state demo_added)) tx @
      [\<lparr>ae_resource_handle = r, ae_activation_handle = ''act-0'', ae_transport_file = None, ae_side = side_to_proto Sender\<rparr>]"
    by blast
  then have "r = ''res-0'' \<and> tx = 1 \<and> queue_of (act_chans s') 1 = [\<lparr>ae_resource_handle = ''res-0'',
      ae_activation_handle = ''act-0'', ae_transport_file = None, ae_side = 1\<rparr>]"
    by (auto simp: demo_simps queue_of_def split: if_splits)
  with s' show ?thesis by blast
qed

text \<open>
  C5. The acknowledgement of an activation: the answer of the owning session reaches the waiting
  callback, only the owner can give it, only once, and no other callback is affected.
\<close>

theorem activation_ack:
  assumes "hm_get (pending_activations s) a = Some h" "hm_contains (sessions s) h" "a \<in> set (ack_waiting s)"
    and "complete_activation h a outcome s = (r, s')"
  shows "r = Inr () \<and> (\<forall>time_up. activation_recv a time_up s' = Some (AckReceived outcome)) \<and>
    (\<forall>h' o'. fst (complete_activation h' a o' s') \<noteq> Inr ()) \<and>
    (\<forall>h' o'. h' \<noteq> h \<longrightarrow> fst (complete_activation h' a o' s) \<noteq> Inr () \<and> snd (complete_activation h' a o' s) = s) \<and>
    (\<forall>b time_up. b \<noteq> a \<longrightarrow> activation_recv b time_up s' = activation_recv b time_up s)"
proof -
  have ok: "fst (complete_activation h a outcome s) = Inr ()"
    using assms(1,2) by (rule act_ack.complete_ok [rotated])
  have "fst (complete_activation h' a o' s) \<noteq> Inr () \<and> snd (complete_activation h' a o' s) = s" if "h' \<noteq> h" for h' o'
    using act_ack.complete_refused [of s h' a o'] assms(1) that by auto
  with ok act_ack.complete_delivers [OF ok assms(3)] act_ack.complete_once [OF ok]
    act_ack.complete_other [of _ a _ h outcome s] assms(4) show ?thesis by simp
qed

theorem activation_ack_witness:
  "activation_recv ''act-0'' False (snd (complete_activation ''sess-0'' ''act-0'' \<lparr>ack_success = True, ack_failure_reason = []\<rparr>
     (snd (dispatch_activation ''n'' Sender ''cam'' None (d_state demo_added))))) =
   Some (AckReceived \<lparr>ack_success = True, ack_failure_reason = []\<rparr>)"
proof -
  let ?s = "snd (dispatch_activation ''n'' Sender ''cam'' None (d_state demo_added))"
  have "hm_get (pending_activations ?s) ''act-0'' = Some ''sess-0''" "hm_contains (sessions ?s) ''sess-0''"
    "''act-0'' \<in> set (ack_waiting ?s)"
    by (simp_all add: demo_simps)
  moreover obtain r s' where c: "complete_activation ''sess-0'' ''act-0''
      \<lparr>ack_success = True, ack_failure_reason = []\<rparr> ?s = (r, s')"
    by (rule surj_pair [THEN exE], erule exE)
  ultimately have "activation_recv ''act-0'' False s' = Some (AckReceived \<lparr>ack_success = True, ack_failure_reason = []\<rparr>)"
    using activation_ack [OF _ _ _ c, THEN conjunct2, THEN conjunct1, rule_format] by simp
  with c show ?thesis by simp
qed

text \<open>
  The acknowledgement of an IS-08 channel mapping activation keeps the same contract.
\<close>

theorem channelmapping_ack:
  assumes "hm_get (pending_channelmapping_activations s) a = Some h" "hm_contains (sessions s) h"
    "a \<in> set (cm_ack_waiting s)"
    and "complete_channelmapping_activation h a outcome s = (r, s')"
  shows "r = Inr () \<and> (\<forall>time_up. cm_activation_recv a time_up s' = Some (AckReceived outcome)) \<and>
    (\<forall>h' o'. fst (complete_channelmapping_activation h' a o' s') \<noteq> Inr ()) \<and>
    (\<forall>h' o'. h' \<noteq> h \<longrightarrow> fst (complete_channelmapping_activation h' a o' s) \<noteq> Inr () \<and>
       snd (complete_channelmapping_activation h' a o' s) = s) \<and>
    (\<forall>b time_up. b \<noteq> a \<longrightarrow> cm_activation_recv b time_up s' = cm_activation_recv b time_up s)"
proof -
  have ok: "fst (complete_channelmapping_activation h a outcome s) = Inr ()"
    using assms(1,2) by (rule cm_ack.complete_ok [rotated])
  have "fst (complete_channelmapping_activation h' a o' s) \<noteq> Inr () \<and>
      snd (complete_channelmapping_activation h' a o' s) = s" if "h' \<noteq> h" for h' o'
    using cm_ack.complete_refused [of s h' a o'] assms(1) that by auto
  with ok cm_ack.complete_delivers [OF ok assms(3)] cm_ack.complete_once [OF ok]
    cm_ack.complete_other [of _ a _ h outcome s] assms(4) show ?thesis by simp
qed

theorem channelmapping_ack_witness:
  "cm_activation_recv ''a'' False (snd (complete_channelmapping_activation ''h'' ''a'' \<lparr>ack_success = False, ack_failure_reason = ''no''\<rparr>
     (state_new\<lparr>sessions := [(''h'', new_session ''n'')], pending_channelmapping_activations := [(''a'', ''h'')],
        cm_ack_waiting := [''a'']\<rparr>))) =
   Some (AckReceived \<lparr>ack_success = False, ack_failure_reason = ''no''\<rparr>)"
proof -
  let ?s = "state_new\<lparr>sessions := [(''h'', new_session ''n'')], pending_channelmapping_activations := [(''a'', ''h'')],
        cm_ack_waiting := [''a'']\<rparr>"
  have "hm_get (pending_channelmapping_activations ?s) ''a'' = Some ''h''" "hm_contains (sessions ?s) ''h''"
    "''a'' \<in> set (cm_ack_waiting ?s)"
    by (simp_all add: hm_contains_def)
  moreover obtain r s' where c: "complete_channelmapping_activation ''h'' ''a''
      \<lparr>ack_success = False, ack_failure_reason = ''no''\<rparr> ?s = (r, s')"
    by (rule surj_pair [THEN exE], erule exE)
  ultimately have "cm_activation_recv ''a'' False s' = Some (AckReceived \<lparr>ack_success = False, ack_failure_reason = ''no''\<rparr>)"
    using channelmapping_ack [OF _ _ _ c, THEN conjunct2, THEN conjunct1, rule_format] by simp
  with c show ?thesis by simp
qed


text \<open>
  C14. A callback that waits never waits past its time, and when it ends it gives libnvnmos the
  answer of the client: success if the client acknowledged success, otherwise a failure with the
  reason of the client. Without an answer it is a failure that says why: the activation is not pending
  any more because its session was closed, or its time is up. It leaves no trace of the activation.
\<close>

theorem activation_callback_ends:
  assumes "i < length (d_tasks d)" "d_tasks d ! i = Waiting a"
  shows "\<exists>result d1 d2 answer. perform lib js (DoTask i True) d = (None, d1) \<and>
    d_tasks d1 = drop_nth i (d_tasks d) @ [Answered a result] \<and>
    perform lib js (DoTask (length (d_tasks d1) - 1) t) d1 = (Some (CallbackResult answer), d2) \<and>
    answer =
      (case hm_get (acks (d_state d)) a of
         Some outcome \<Rightarrow> if ack_success outcome then Inr () else Inl (ack_failure_reason outcome)
       | None \<Rightarrow>
           if hm_get (pending_activations (d_state d)) a = None then Inl ''session closed before ack''
           else Inl ''activation ack timed out'') \<and>
    hm_get (pending_activations (d_state d2)) a = None \<and> hm_get (acks (d_state d2)) a = None \<and>
    a \<notin> set (ack_waiting (d_state d2))"
proof -
  obtain result where r: "activation_recv a True (d_state d) = Some result"
    using act_ack.recv_ends [of a "d_state d"] by auto
  moreover have "route_result result =
      (case hm_get (acks (d_state d)) a of
         Some outcome \<Rightarrow> if ack_success outcome then Inr () else Inl (ack_failure_reason outcome)
       | None \<Rightarrow>
           if hm_get (pending_activations (d_state d)) a = None then Inl ''session closed before ack''
           else Inl ''activation ack timed out'')"
    using r by (auto simp: activation_recv_def recv_timeout_def hm_contains_def split: option.splits if_splits)
  ultimately show ?thesis
    using assms act_ack.finish_forgets [of a "d_state d"] act_ack.finish_received [of a "d_state d" a]
    by (simp add: spawn_def hm_contains_def)
qed

theorem activation_callback_ends_witness:
  "\<exists>d1. perform demo_lib no_json (DoTask 0 True)
     (snd (perform demo_lib no_json (DoActivation ''n'' Sender ''cam'' None) demo_added)) = (None, d1) \<and>
     fst (perform demo_lib no_json (DoTask (length (d_tasks d1) - 1) False) d1) =
       Some (CallbackResult (Inl ''activation ack timed out''))"
proof -
  let ?d = "snd (perform demo_lib no_json (DoActivation ''n'' Sender ''cam'' None) demo_added)"
  have "0 < length (d_tasks ?d)" "d_tasks ?d ! 0 = Waiting ''act-0''"
    "hm_get (acks (d_state ?d)) ''act-0'' = None" "hm_get (pending_activations (d_state ?d)) ''act-0'' \<noteq> None"
    by (simp_all add: demo_simps)
  with activation_callback_ends [of 0 ?d "''act-0''" demo_lib no_json False] show ?thesis by auto
qed

section \<open>Session watchdogs\<close>

text \<open>
  C12. A watchdog that fires closes the session only when the session has no live activation
  stream. It then leaves nothing of that session, no other session is closed, and the library
  work of the close is scheduled; otherwise it does nothing.
\<close>

theorem watchdog_closes_only_abandoned:
  assumes "reach lib js d" "hm_get (d_timers d) t = Some h" "hm_contains (sessions (d_state d)) h"
  shows "if has_any_activation_subscription h (d_state d)
    then d_state (watchdog_fires t d) = d_state d \<and> d_tasks (watchdog_fires t d) = d_tasks d
    else owns_nothing h (d_state (watchdog_fires t d)) \<and>
      (\<forall>h'. h' \<noteq> h \<longrightarrow> hm_get (sessions (d_state (watchdog_fires t d))) h' = hm_get (sessions (d_state d)) h') \<and>
      (\<exists>ffi. d_tasks (watchdog_fires t d) = d_tasks d @ [CloseFfi ffi, GcDone h])"
  using watchdog_fires_closes [OF reach_state_inv [OF assms(1)] assms(2,3)] assms(2)
  by (simp add: watchdog_fires_def Let_def)

theorem watchdog_closes_only_abandoned_witness:
  "\<exists>d. reach demo_lib no_json d \<and> hm_contains (sessions (d_state d)) ''sess-0'' \<and>
     owns_nothing ''sess-0'' (d_state (watchdog_fires 1 d))"
proof -
  let ?acts = "[DoDropStream Activations ''sess-0'' 1, DoTask 1 False, DoTask 0 False, DoTask 0 False]"
  let ?d = "run demo_lib no_json ?acts demo_subscribed"
  have r: "reach demo_lib no_json ?d" by (rule reach_run [OF reach_subscribed]) (simp add: demo_simps)
  have "hm_get (d_timers ?d) 1 = Some ''sess-0''" "hm_contains (sessions (d_state ?d)) ''sess-0''"
    "\<not> has_any_activation_subscription ''sess-0'' (d_state ?d)"
    by (simp_all add: demo_simps)
  with watchdog_closes_only_abandoned [OF r, of 1 "''sess-0''"] have "owns_nothing ''sess-0'' (d_state (watchdog_fires 1 ?d))"
    by (simp only: if_False)
  with r \<open>hm_contains (sessions (d_state ?d)) ''sess-0''\<close> show ?thesis by (intro exI conjI)
qed

text \<open>
  C13. When the end of a session's last activation stream is handled, with the garbage collection
  of sessions on, a watchdog is armed; when it fires and the client has not come back the session
  is gone.
\<close>

theorem abandoned_session_is_closed:
  assumes "reach lib js d" "no_wrap (d_state d)" "d_gc_enabled d" "kind \<noteq> Annotations"
    and "i < length (d_tasks d)" "d_tasks d ! i = StreamEnded kind h"
    and "hm_contains (sessions (d_state d)) h" "\<not> has_any_activation_subscription h (d_state d)"
    and "perform lib js (DoTask i t1) d = (r1, d1)"
    and "perform lib js (DoTask (length (d_tasks d1) - 1) t2) d1 = (r2, d2)"
  shows "d_tasks d1 = drop_nth i (d_tasks d) @ [ArmResubscribe h] \<and>
    hm_get (d_timers d2) (d_next_timer d1) = Some h \<and> hm_get (d_watchdogs d2) h = Some (d_next_timer d1) \<and>
    owns_nothing h (d_state (watchdog_fires (d_next_timer d1) d2))"
proof -
  let ?d = "d\<lparr>d_tasks := drop_nth i (d_tasks d)\<rparr>"
  obtain s where s: "stream_ended kind h ?d = spawn [ArmResubscribe h] (?d\<lparr>d_state := s\<rparr>)"
    "hm_contains (sessions s) h" "\<not> has_any_activation_subscription h s"
    using stream_ended_arms [of kind ?d h] assms(4,7,8) by auto
  then have d1: "d1 = spawn [ArmResubscribe h] (?d\<lparr>d_state := s\<rparr>)"
    using assms(5,6,9) by simp
  with assms(10) have d2: "d2 = start_timeout h (?d\<lparr>d_state := s\<rparr>)"
    by (simp only: perform_spawned run_task.simps prod.inject)
  have "state_inv (creates_of (d_tasks d1)) s"
    using reach_state_inv [OF reach_step [OF assms(1,2,9)]] by (simp add: d1 spawn_def)
  with start_timeout_facts [of "?d\<lparr>d_state := s\<rparr>" h] assms(3) s(2,3) show ?thesis
    using watchdog_fires_closes [of _ d2 "d_next_timer d1" h] by (auto simp: d1 spawn_def simp flip: d2)
qed

theorem abandoned_session_is_closed_witness:
  "\<exists>d1 d2 r1 r2. perform demo_lib no_json (DoTask 0 False)
      (run demo_lib no_json [DoDropStream Activations ''sess-0'' 1, DoTask 1 False] demo_subscribed) = (r1, d1) \<and>
    perform demo_lib no_json (DoTask (length (d_tasks d1) - 1) False) d1 = (r2, d2) \<and>
    hm_contains (sessions (d_state d2)) ''sess-0'' \<and>
    owns_nothing ''sess-0'' (d_state (watchdog_fires (d_next_timer d1) d2))"
proof -
  let ?d = "run demo_lib no_json [DoDropStream Activations ''sess-0'' 1, DoTask 1 False] demo_subscribed"
  have r: "reach demo_lib no_json ?d" by (rule reach_run [OF reach_subscribed]) (simp add: demo_simps)
  have hyps: "no_wrap (d_state ?d)" "d_gc_enabled ?d" "0 < length (d_tasks ?d)"
    "d_tasks ?d ! 0 = StreamEnded Activations ''sess-0''" "hm_contains (sessions (d_state ?d)) ''sess-0''"
    "\<not> has_any_activation_subscription ''sess-0'' (d_state ?d)"
    by (simp_all add: demo_simps)
  obtain r1 d1 where d1: "perform demo_lib no_json (DoTask 0 False) ?d = (r1, d1)" by fastforce
  obtain r2 d2 where d2: "perform demo_lib no_json (DoTask (length (d_tasks d1) - 1) False) d1 = (r2, d2)" by fastforce
  have "hm_contains (sessions (d_state d2)) ''sess-0''"
    using d1 d2 by (auto simp: demo_simps)
  with abandoned_session_is_closed [OF r hyps(1,2) _ hyps(3-6) d1 d2] d1 d2 show ?thesis by auto
qed

text \<open>
  A stream that a client drops is not always noticed: the end of the stream may be handled
  before its receiver is dropped, and then the session stays open with no stream, no task and no
  watchdog that would ever close it.
\<close>

theorem abandoned_without_watchdog:
  "reach demo_lib no_json abandoned \<and> d_gc_enabled abandoned \<and>
   hm_contains (sessions (d_state abandoned)) ''sess-0'' \<and>
   \<not> has_any_activation_subscription ''sess-0'' (d_state abandoned) \<and>
   d_streams abandoned = [] \<and> d_tasks abandoned = [] \<and> d_timers abandoned = []"
proof -
  have "reach demo_lib no_json abandoned"
    using reach_run [OF reach_subscribed, of race_acts] race_run by simp
  then show ?thesis by (simp add: abandoned_def demo_simps)
qed

section \<open>Adding resources while sessions close\<close>

text \<open>
  An \<^verbatim>\<open>AddSender\<close> whose session is closed while the library adds the sender undoes the
  addition on the Node that has the seed by then. When the Node was created anew in between and
  has a sender of that name, it is the new Node that loses its sender, while the daemon still
  lists it, and the old server keeps the abandoned one.
\<close>

theorem late_add_removes_new_nodes_sender:
  "\<exists>d. reach demo_lib no_json d \<and>
     hm_get (resources (d_state d)) ''res-0'' = Some (demo_entry ''sess-1'') \<and>
     map_option ne_server (hm_get (nodes (d_state d)) ''n'') = Some 1 \<and>
     (1, Sender, ''cam'') \<notin> set (dw_objects (d_world d)) \<and> (0, Sender, ''cam'') \<in> set (dw_objects (d_world d))"
  using reach_run [OF reach_adding, of reuse_acts] reuse_run
  by (intro exI [of _ "run demo_lib no_json reuse_acts demo_adding"]) simp

end
